(* ===== verification/Ordered_Map.thy ===== *)
theory Ordered_Map
  imports Prelude
begin

text \<open>
  The code's \<open>BTreeMap\<close>s, and those of its \<open>HashMap\<close>s whose iteration order it
  never observes, as association lists with strictly increasing keys: two of them are
  equal exactly when they hold the same entries, as the \<open>PartialEq\<close> of the Rust maps.
  Two locales state the contract that the clients use: a dictionary (what a lookup
  returns after an insert), and an ordered dictionary (entries come in key order).
\<close>

section \<open>The contract\<close>

locale dict =
  fixes empty :: "'m"
    and insert :: "'k \<Rightarrow> 'v \<Rightarrow> 'm \<Rightarrow> 'm"
    and get :: "'m \<Rightarrow> 'k \<Rightarrow> 'v option"
    and invar :: "'m \<Rightarrow> bool"
  assumes get_empty: "get empty k = None"
    and get_insert: "invar m \<Longrightarrow> get (insert k v m) k' = (if k' = k then Some v else get m k')"
    and invar_empty: "invar empty"
    and invar_insert: "invar m \<Longrightarrow> invar (insert k v m)"
begin

text \<open>Inserting the entries of a list one after the other: the last one wins.\<close>

lemma invar_fold: "invar m \<Longrightarrow> invar (fold (\<lambda>(k, v). insert k v) kvs m)"
  by (induction kvs arbitrary: m) (auto simp: invar_insert)

lemma get_fold:
  "invar m \<Longrightarrow> get (fold (\<lambda>(k, v). insert k v) kvs m) k =
     (case map_of (rev kvs) k of None \<Rightarrow> get m k | Some v \<Rightarrow> Some v)"
proof (induction kvs arbitrary: m)
  case Nil
  then show ?case by simp
next
  case (Cons kv kvs)
  obtain k0 v0 where kv: "kv = (k0, v0)" by fastforce
  have "get (fold (\<lambda>(k, v). insert k v) kvs (insert k0 v0 m)) k =
      (case map_of (rev kvs) k of None \<Rightarrow> get (insert k0 v0 m) k | Some v \<Rightarrow> Some v)"
    by (rule Cons.IH) (rule invar_insert [OF Cons.prems])
  then show ?case
    by (simp add: kv get_insert [OF Cons.prems] map_add_def split: option.splits)
qed

lemma get_from_list:
  "get (fold (\<lambda>(k, v). insert k v) kvs empty) k = map_of (rev kvs) k"
  using get_fold [OF invar_empty, of kvs k]
  by (simp add: get_empty split: option.splits)

end

locale ordered_dict = dict empty insert get invar
  for empty :: "'m" and insert :: "'k::linorder \<Rightarrow> 'v \<Rightarrow> 'm \<Rightarrow> 'm"
    and get :: "'m \<Rightarrow> 'k \<Rightarrow> 'v option" and invar :: "'m \<Rightarrow> bool" +
  fixes entries :: "'m \<Rightarrow> ('k \<times> 'v) list"
  assumes entries_sorted: "invar m \<Longrightarrow> sorted_wrt (<) (map fst (entries m))"
    and entries_get: "invar m \<Longrightarrow> map_of (entries m) = get m"
begin

lemma entries_distinct: "invar m \<Longrightarrow> distinct (map fst (entries m))"
  using entries_sorted strict_sorted_iff by blast

lemma entries_iff: "invar m \<Longrightarrow> (k, v) \<in> set (entries m) \<longleftrightarrow> get m k = Some v"
  using entries_distinct entries_get map_of_eq_Some_iff by metis

lemma first_entry_least:
  assumes "invar m" "entries m = (k, v) # es" "get m k' = Some v'"
  shows "k \<le> k'"
proof -
  from assms have "(k', v') \<in> set ((k, v) # es)" by (metis entries_iff)
  moreover from assms entries_sorted have "\<forall>x \<in> set es. k < fst x" by fastforce
  ultimately show ?thesis by fastforce
qed

end

section \<open>The implementation on sorted association lists\<close>

type_synonym ('k, 'v) btree = "('k \<times> 'v) list"

primrec bt_insert :: "'k::linorder \<Rightarrow> 'v \<Rightarrow> ('k, 'v) btree \<Rightarrow> ('k, 'v) btree" where
  "bt_insert k v [] = [(k, v)]"
| "bt_insert k v (e # es) =
     (if k < fst e then (k, v) # e # es
      else if k = fst e then (k, v) # es
      else e # bt_insert k v es)"

definition bt_ok :: "('k::linorder, 'v) btree \<Rightarrow> bool" where
  "bt_ok m = sorted_wrt (<) (map fst m)"

text \<open>\<open>extend\<close>, \<open>retain\<close> and \<open>contains_key\<close>.\<close>

definition bt_extend :: "('k::linorder, 'v) btree \<Rightarrow> ('k \<times> 'v) list \<Rightarrow> ('k, 'v) btree" where
  "bt_extend m kvs = fold (\<lambda>(k, v). bt_insert k v) kvs m"

definition bt_retain :: "('k \<Rightarrow> 'v \<Rightarrow> bool) \<Rightarrow> ('k, 'v) btree \<Rightarrow> ('k, 'v) btree" where
  "bt_retain p m = filter (\<lambda>(k, v). p k v) m"

definition bt_contains :: "('k, 'v) btree \<Rightarrow> 'k \<Rightarrow> bool" where
  "bt_contains m k = (map_of m k \<noteq> None)"

text \<open>\<open>remove\<close>, and \<open>get_mut\<close> with the value written back through the reference.\<close>

definition bt_remove :: "'k \<Rightarrow> ('k, 'v) btree \<Rightarrow> ('k, 'v) btree" where
  "bt_remove k m = filter (\<lambda>e. fst e \<noteq> k) m"

definition bt_modify :: "'k \<Rightarrow> ('v \<Rightarrow> 'v) \<Rightarrow> ('k, 'v) btree \<Rightarrow> ('k, 'v) btree" where
  "bt_modify k f m = map (\<lambda>(k', v). (k', if k' = k then f v else v)) m"

lemma bt_ok_Nil [simp]: "bt_ok []"
  by (simp add: bt_ok_def)

lemma bt_ok_Cons: "bt_ok (e # es) \<longleftrightarrow> (\<forall>x \<in> set es. fst e < fst x) \<and> bt_ok es"
  by (auto simp: bt_ok_def)

lemma bt_ok_distinct: "bt_ok m \<Longrightarrow> distinct (map fst m)"
  using strict_sorted_iff by (auto simp: bt_ok_def)

lemma fst_set_bt_insert: "fst ` set (bt_insert k v m) = insert k (fst ` set m)"
  by (induction m) auto

lemma bt_ok_insert: "bt_ok m \<Longrightarrow> bt_ok (bt_insert k v m)"
proof (induction m)
  case (Cons e es)
  have "\<forall>x \<in> set (bt_insert k v es). fst x \<in> insert k (fst ` set es)"
    using fst_set_bt_insert by (metis imageI)
  with Cons show ?case by (fastforce simp: bt_ok_Cons)
qed (simp add: bt_ok_def)

lemma map_of_bt_insert:
  "bt_ok m \<Longrightarrow> map_of (bt_insert k v m) k' = (if k' = k then Some v else map_of m k')"
proof (induction m)
  case (Cons e es)
  have "k < fst e \<Longrightarrow> map_of es k = None"
    using Cons.prems by (fastforce simp: bt_ok_Cons map_of_eq_None_iff)
  with Cons show ?case by (cases e) (auto simp: bt_ok_Cons)
qed simp

interpretation bt: ordered_dict "[]" bt_insert map_of bt_ok "\<lambda>m. m"
  by unfold_locales (auto simp: bt_ok_insert map_of_bt_insert, simp add: bt_ok_def)

lemma bt_ok_extend: "bt_ok m \<Longrightarrow> bt_ok (bt_extend m kvs)"
  unfolding bt_extend_def by (rule bt.invar_fold)

lemma map_of_bt_extend:
  "bt_ok m \<Longrightarrow> map_of (bt_extend m kvs) k =
     (case map_of (rev kvs) k of None \<Rightarrow> map_of m k | Some v \<Rightarrow> Some v)"
  unfolding bt_extend_def by (rule bt.get_fold)

lemma bt_retain_retain: "bt_retain p (bt_retain p m) = bt_retain p m"
  by (simp add: bt_retain_def)

lemma bt_ok_retain: "bt_ok m \<Longrightarrow> bt_ok (bt_retain p m)"
  by (induction m) (auto simp: bt_retain_def bt_ok_Cons)

lemma bt_ok_remove: "bt_ok m \<Longrightarrow> bt_ok (bt_remove k m)"
  by (induction m) (auto simp: bt_remove_def bt_ok_Cons)

lemma map_of_bt_remove: "map_of (bt_remove k m) k' = (if k' = k then None else map_of m k')"
  by (induction m) (auto simp: bt_remove_def)

lemma keys_bt_modify [simp]: "map fst (bt_modify k f m) = map fst m"
  by (induction m) (auto simp: bt_modify_def)

lemma bt_ok_modify [simp]: "bt_ok (bt_modify k f m) = bt_ok m"
  by (simp add: bt_ok_def)

lemma map_of_bt_modify:
  "map_of (bt_modify k f m) k' = (if k' = k then map_option f (map_of m k) else map_of m k')"
  by (induction m) (auto simp: bt_modify_def)

lemma fst_set_map_filter:
  "(\<And>e e'. f e = Some e' \<Longrightarrow> fst e' = fst e) \<Longrightarrow> x \<in> set (List.map_filter f m) \<Longrightarrow> fst x \<in> fst ` set m"
  by (force simp: List.map_filter_def)

lemma bt_ok_map_filter:
  assumes "bt_ok m" "\<And>e e'. f e = Some e' \<Longrightarrow> fst e' = fst e"
  shows "bt_ok (List.map_filter f m)"
  using assms(1)
proof (induction m)
  case (Cons e es)
  then have IH: "bt_ok (List.map_filter f es)" and lt: "\<forall>k \<in> fst ` set es. fst e < k"
    by (auto simp: bt_ok_Cons)
  have "\<forall>x \<in> set (List.map_filter f es). fst e < fst x"
    using fst_set_map_filter [of f, OF assms(2)] lt by blast
  with IH show ?case
    by (cases "f e") (auto simp: List.map_filter_simps bt_ok_Cons assms(2))
qed (simp add: List.map_filter_simps)

text \<open>Equality of two ordered maps is equality of their contents.\<close>

lemma bt_ok_eqI:
  assumes "bt_ok m" "bt_ok m'" "map_of m = map_of m'"
  shows "m = m'"
proof (rule map_sorted_distinct_set_unique)
  show same: "set m = set m'"
    using assms by (metis bt_ok_distinct map_of_eq_Some_iff subrelI subset_antisym)
  show "inj_on fst (set m \<union> set m')"
    using bt_ok_distinct [OF assms(1)] same by (simp add: distinct_map)
qed (use assms in \<open>auto simp: bt_ok_def strict_sorted_iff\<close>)

end
