(* ===== verification/Bitcoin_Types.thy ===== *)
theory Bitcoin_Types
  imports Ordered_Map
begin

text \<open>
  The data of the \<open>bitcoin\<close> and \<open>miniscript\<close> crates that the code takes apart,
  with the fields it reads, and the record \<open>btc\<close> of the crate functions it calls.
  These crates are not part of the repository: their types appear here only as the shapes
  the code matches on, and their functions are parameters of the model.

  Hashes, scripts, addresses, keys and signatures are opaque and carried as naturals.
  A BIP32 child number is carried in its \<open>u32\<close> encoding, which \<open>From\<close> makes a
  bijection that keeps the order; it is unhardened below \<open>2^31\<close>.
\<close>

type_synonym txid = nat
type_synonym block_hash = nat
type_synonym script = nat
type_synonym address = nat
type_synonym signature = nat
type_synonym fingerprint = nat
type_synonym child_number = nat
type_synonym deriv_path = "child_number list"
type_synonym key_origin = "fingerprint \<times> deriv_path"

abbreviation HARDENED_START :: nat where "HARDENED_START \<equiv> 2147483648"

definition is_normal :: "child_number \<Rightarrow> bool" where
  "is_normal i = (i < HARDENED_START)"

definition from_normal_idx :: "nat \<Rightarrow> child_number option" where
  "from_normal_idx i = (if i < HARDENED_START then Some i else None)"

definition cn_increment :: "child_number \<Rightarrow> child_number option" where
  "cn_increment i =
     (if is_normal i then from_normal_idx (i + 1)
      else if i + 1 \<le> U32_MAX then Some (i + 1) else None)"

lemma from_normal_idx_Some [simp]:
  "from_normal_idx i = Some j \<longleftrightarrow> j = i \<and> is_normal i"
  by (auto simp: from_normal_idx_def is_normal_def)

lemma from_normal_idx_None [simp]: "from_normal_idx i = None \<longleftrightarrow> \<not> is_normal i"
  by (simp add: from_normal_idx_def is_normal_def)

section \<open>Transactions\<close>

record outpoint =
  op_txid :: txid
  op_vout :: nat

record txin =
  previous_output :: outpoint
  sequence :: nat
  witness :: "nat list"

record txout =
  txo_value :: nat
  txo_script :: script

record tx =
  tx_version :: nat
  lock_time :: nat
  tx_input :: "txin list"
  tx_output :: "txout list"

section \<open>Partially signed transactions\<close>

text \<open>
  A \<open>bitcoin::PublicKey\<close> is its \<open>secp256k1\<close> point and whether it is compressed;
  Taproot script signatures are keyed by the x-only key and the leaf hash.
\<close>

record psbt_in =
  partial_sigs :: "(nat \<times> bool, signature) btree"
  bip32_derivation :: "(nat, key_origin) btree"
  tap_script_sigs :: "(nat \<times> nat, signature) btree"
  tap_key_sig :: "signature option"
  tap_internal_key :: "nat option"
  tap_key_origins :: "(nat, nat list \<times> key_origin) btree"
  witness_utxo :: "txout option"
  non_witness_utxo :: "tx option"
  witness_script :: "script option"

record psbt_out =
  out_bip32_derivation :: "(nat, key_origin) btree"
  out_tap_key_origins :: "(nat, nat list \<times> key_origin) btree"

record psbt =
  unsigned_tx :: tx
  psbt_inputs :: "psbt_in list"
  psbt_outputs :: "psbt_out list"

definition default_psbt_in :: psbt_in where
  "default_psbt_in = \<lparr>partial_sigs = [], bip32_derivation = [], tap_script_sigs = [],
     tap_key_sig = None, tap_internal_key = None, tap_key_origins = [], witness_utxo = None,
     non_witness_utxo = None, witness_script = None\<rparr>"

definition default_psbt_out :: psbt_out where
  "default_psbt_out = \<lparr>out_bip32_derivation = [], out_tap_key_origins = []\<rparr>"

section \<open>The functions of the crate that the code calls\<close>

record btc =
  is_height_locked :: "nat \<Rightarrow> bool"
  is_relative_lock_time :: "nat \<Rightarrow> bool"
  seq_from_height :: "nat \<Rightarrow> nat"
  enable_rbf_no_locktime :: nat
  max_money :: nat
  minimal_non_dust :: "script \<Rightarrow> nat"
  txout_weight :: "txout \<Rightarrow> nat"
  tx_weight :: "tx \<Rightarrow> nat"
  compute_txid :: "tx \<Rightarrow> txid"
  tx_is_coinbase :: "tx \<Rightarrow> bool"
  is_explicitly_rbf :: "tx \<Rightarrow> bool"
  addr_script :: "address \<Rightarrow> script"
  addr_from_script :: "script \<Rightarrow> address option"
  addr_valid_for :: "address \<Rightarrow> nat \<Rightarrow> bool"

text \<open>
  An instance of the record for the witnesses: the relative locktimes of BIP68, a supply
  of 21 million coins, 330 satoshis of dust, and fixed sizes.
\<close>

definition example_btc :: btc where
  "example_btc = \<lparr>is_height_locked = (\<lambda>s. s < 4194304), is_relative_lock_time = (\<lambda>s. s < 2147483648),
     seq_from_height = (\<lambda>h. h), enable_rbf_no_locktime = 4294967293,
     max_money = 2100000000000000, minimal_non_dust = (\<lambda>_. 330),
     txout_weight = (\<lambda>_. 172), tx_weight = (\<lambda>t. 40 + 164 * length (tx_input t) + 172 * length (tx_output t)),
     compute_txid = (\<lambda>t. lock_time t), tx_is_coinbase = (\<lambda>_. False),
     is_explicitly_rbf = (\<lambda>t. list_ex (\<lambda>i. sequence i < 4294967294) (tx_input t)),
     addr_script = (\<lambda>a. a), addr_from_script = Some,
     addr_valid_for = (\<lambda>_ _. True)\<rparr>"

section \<open>Descriptor keys\<close>

record xpub =
  xp_public_key :: nat
  xp_chain_code :: nat
  xp_depth :: nat
  xp_parent_fingerprint :: fingerprint
  xp_child_number :: child_number
  xp_network :: nat

datatype wildcard = Wildcard_None | Wildcard_Unhardened | Wildcard_Hardened

record desc_xkey =
  x_origin :: "key_origin option"
  x_xkey :: xpub
  x_derivation_path :: deriv_path
  x_wildcard :: wildcard

record desc_multi_xkey =
  mx_origin :: "key_origin option"
  mx_xkey :: xpub
  mx_derivation_paths :: "deriv_path list"
  mx_wildcard :: wildcard

datatype desc_pk = Single_Pub "key_origin option" nat | XPub desc_xkey | MultiXPub desc_multi_xkey

section \<open>Miniscript policies and descriptors\<close>

text \<open>
  Semantic policies with the constructors the code distinguishes; any other node is
  \<open>Sem_Other\<close>. A threshold is its \<open>k\<close> and its subpolicies; \<open>is_or\<close> is
  \<open>k = 1\<close>. An \<open>older\<close> carries its consensus \<open>u32\<close>.
\<close>

datatype sem_policy = Sem_Key desc_pk | Sem_Older nat | Sem_Thresh nat "sem_policy list" | Sem_Other

datatype conc_policy =
  Conc_Key desc_pk | Conc_Older nat | Conc_And "conc_policy list"
  | Conc_Or "(nat \<times> conc_policy) list" | Conc_Thresh nat "conc_policy list"

datatype ('ms, 'tr) descriptor = Wsh_Ms 'ms | Wsh_Sorted_Multi | Tr 'tr | Other_Desc

text \<open>
  The \<open>miniscript\<close> crate: validation of a threshold, the compilers, lifting and
  normalisation, and the parts of a Taproot descriptor. Its errors are opaque numbers.
\<close>

record ('ms, 'tr) miniscript =
  threshold_error :: "nat \<Rightarrow> nat \<Rightarrow> nat option"
  compile_tr :: "conc_policy \<Rightarrow> desc_pk \<Rightarrow> nat + 'tr"
  compile_segwitv0 :: "conc_policy \<Rightarrow> nat + 'ms"
  segwitv0_sane :: "'ms \<Rightarrow> bool"
  lift_ms :: "'ms \<Rightarrow> nat + sem_policy"
  lift_tap_tree :: "'tr \<Rightarrow> (nat + sem_policy) option"
  tap_tree_keys :: "'tr \<Rightarrow> desc_pk list"
  internal_key :: "'tr \<Rightarrow> desc_pk"
  normalized :: "sem_policy \<Rightarrow> sem_policy"
  sha256 :: "nat list \<Rightarrow> nat"
  bip341_nums_point :: nat
  regtest_network :: nat

end
