(* ===== verification/Policy.thy ===== *)
theory Policy
  imports Bitcoin_Types
begin

text \<open>
  Spending policies (\<open>liana/src/descriptors/analysis.rs\<close>): the checks on descriptor
  keys and timelocks, a spending path and what it says of a set of signatures, the
  creation of a policy from settings, its inference from a descriptor and its compilation.
  A failed assertion or \<open>expect\<close> is \<open>PolicyPanic\<close>, or \<open>None\<close> where the
  function returns no \<open>Result\<close>.
\<close>

section \<open>Errors and key checks\<close>

datatype policy_error =
  MissingRecoveryPath | InsaneTimelock nat | InvalidKey desc_pk | DuplicateKey desc_pk
  | DuplicateOriginSamePath desc_pk | InvalidMultiThresh nat | InvalidMultiKeys nat
  | IncompatibleDesc | PolicyAnalysis nat | InvalidPolicy nat
  | PolicyPanic \<comment> \<open>not in the source: the process panics\<close>

fun is_sem_key :: "sem_policy \<Rightarrow> bool" where
  "is_sem_key (Sem_Key _) = True"
| "is_sem_key _ = False"

fun is_single_key_or_multisig :: "sem_policy \<Rightarrow> bool" where
  "is_single_key_or_multisig (Sem_Key _) = True"
| "is_single_key_or_multisig (Sem_Thresh k subs) = list_all is_sem_key subs"
| "is_single_key_or_multisig _ = False"

text \<open>The keys that \<open>DescKeyChecker\<close> has seen.\<close>

type_synonym key_identifier = "xpub \<times> deriv_path list"
type_synonym key_checker = "key_identifier set"

definition check_key ::
  "key_checker \<Rightarrow> desc_pk \<Rightarrow> policy_error + fingerprint \<times> key_checker" where
  "check_key keys_set key = (case key of
     MultiXPub xpub \<Rightarrow>
       (let identifier = (mx_xkey xpub, mx_derivation_paths xpub) in
        if identifier \<in> keys_set then Err (DuplicateKey key)
        else (let keys_set = insert identifier keys_set in
          case mx_origin xpub of
            Some origin \<Rightarrow>
              (let der_paths = mx_derivation_paths xpub;
                   valid = (mx_wildcard xpub = Wildcard_Unhardened \<and> length der_paths = 2 \<and>
                            list_all is_normal (concat der_paths))
               in if valid then Ok (fst origin, keys_set) else Err (InvalidKey key))
          | None \<Rightarrow> Err (InvalidKey key)))
   | _ \<Rightarrow> Err (InvalidKey key))"

definition csv_check :: "nat \<Rightarrow> policy_error + nat" where
  "csv_check csv_value =
     (if csv_value > 0
      then (if csv_value \<le> U16_MAX then Ok csv_value else Err (InsaneTimelock csv_value))
      else Err (InsaneTimelock csv_value))"

definition key_origins :: "desc_pk \<Rightarrow> (fingerprint \<times> deriv_path set) option" where
  "key_origins key = (case key of
     MultiXPub xpub \<Rightarrow>
       map_option (\<lambda>(fg, orig_path).
         (fg, set (map (\<lambda>der_path. orig_path @ der_path) (mx_derivation_paths xpub))))
         (mx_origin xpub)
   | _ \<Rightarrow> None)"

section \<open>A spending path\<close>

datatype path_info = Path_Single desc_pk | Path_Multi nat "desc_pk list"

definition key_of_sub :: "sem_policy \<Rightarrow> policy_error + desc_pk" where
  "key_of_sub sub = (case sub of Sem_Key key \<Rightarrow> Ok key | _ \<Rightarrow> Err IncompatibleDesc)"

definition from_primary_path :: "sem_policy \<Rightarrow> policy_error + path_info" where
  "from_primary_path policy = (case policy of
     Sem_Key key \<Rightarrow> Ok (Path_Single key)
   | Sem_Thresh k subs \<Rightarrow>
       (if k > 0 \<and> length subs \<ge> k
        then rbind (collect_results key_of_sub subs) (\<lambda>keys. Ok (Path_Multi k keys))
        else Err IncompatibleDesc)
   | _ \<Rightarrow> Err IncompatibleDesc)"

text \<open>The loop of the N-of-N case over the subpolicies.\<close>

fun n_of_n_subs ::
  "sem_policy list \<Rightarrow> nat option \<Rightarrow> desc_pk list \<Rightarrow> policy_error + nat option \<times> desc_pk list" where
  "n_of_n_subs [] tl_value keys = Ok (tl_value, keys)"
| "n_of_n_subs (sub # subs) tl_value keys = (case sub of
     Sem_Key key \<Rightarrow> n_of_n_subs subs tl_value (keys @ [key])
   | Sem_Older val \<Rightarrow>
       (if tl_value \<noteq> None then Err IncompatibleDesc
        else rbind (csv_check val) (\<lambda>t. n_of_n_subs subs (Some t) keys))
   | _ \<Rightarrow> Err IncompatibleDesc)"

definition older_sub :: "sem_policy \<Rightarrow> (policy_error + nat) option" where
  "older_sub s = (case s of Sem_Older val \<Rightarrow> Some (csv_check val) | _ \<Rightarrow> None)"

definition from_recovery_path :: "sem_policy \<Rightarrow> policy_error + nat \<times> path_info" where
  "from_recovery_path policy = (case policy of
     Sem_Thresh k subs \<Rightarrow>
       (if k = 2 \<and> length subs = 2 then
          rbind (ok_or IncompatibleDesc (find_map older_sub subs)) (\<lambda>csv.
          rbind csv (\<lambda>tl_value.
          rbind (ok_or IncompatibleDesc (List.find is_single_key_or_multisig subs)) (\<lambda>keys_sub.
          rbind (from_primary_path keys_sub) (\<lambda>info. Ok (tl_value, info)))))
        else if k = length subs \<and> length subs > 2 then
          rbind (n_of_n_subs subs None []) (\<lambda>(tl_value, keys).
          if length keys > 1
          then rbind (ok_or IncompatibleDesc tl_value) (\<lambda>t. Ok (t, Path_Multi (k - 1) keys))
          else Err PolicyPanic)
        else Err IncompatibleDesc)
   | _ \<Rightarrow> Err IncompatibleDesc)"

definition with_added_key :: "path_info \<Rightarrow> desc_pk \<Rightarrow> path_info" where
  "with_added_key info key = (case info of
     Path_Single curr_key \<Rightarrow> Path_Multi 1 [curr_key, key]
   | Path_Multi k keys \<Rightarrow> Path_Multi k (keys @ [key]))"

type_synonym origins = "(fingerprint, deriv_path set) btree"

definition add_origins :: "fingerprint \<times> deriv_path set \<Rightarrow> origins \<Rightarrow> origins" where
  "add_origins = (\<lambda>(fg, der_paths) all_origins.
     (case map_of all_origins fg of
        Some existing_der_paths \<Rightarrow> bt_insert fg (existing_der_paths \<union> der_paths) all_origins
      | None \<Rightarrow> bt_insert fg der_paths all_origins))"

definition thresh_origins :: "path_info \<Rightarrow> (nat \<times> origins) option" where
  "thresh_origins info = (case info of
     Path_Single key \<Rightarrow> map_option (\<lambda>(fg, der_path). (1, bt_insert fg der_path [])) (key_origins key)
   | Path_Multi k keys \<Rightarrow>
       map_option (\<lambda>os. (k, fold add_origins os [])) (collect_options key_origins keys))"

record path_spend_info =
  threshold :: nat
  sigs_count :: nat
  signed_pubkeys :: "(fingerprint, nat) btree"

definition count_sig ::
  "origins \<Rightarrow> key_origin \<Rightarrow> nat \<times> (fingerprint, nat) btree \<Rightarrow> nat \<times> (fingerprint, nat) btree" where
  "count_sig origins = (\<lambda>(fg, der_path) (sigs_count, signed_pubkeys).
     if der_path = [] then (sigs_count, signed_pubkeys)
     else (case map_of origins fg of
       Some parent_der_paths \<Rightarrow>
         (if butlast der_path \<in> parent_der_paths
          then (sigs_count + 1,
                case map_of signed_pubkeys fg of
                  Some n \<Rightarrow> bt_insert fg (n + 1) signed_pubkeys
                | None \<Rightarrow> bt_insert fg 1 signed_pubkeys)
          else (sigs_count, signed_pubkeys))
     | None \<Rightarrow> (sigs_count, signed_pubkeys)))"

definition spend_info :: "path_info \<Rightarrow> key_origin list \<Rightarrow> path_spend_info option" where
  "spend_info info all_pubkeys_signed =
     map_option (\<lambda>(thresh, origins).
       (let (sigs, signed) = fold (count_sig origins) all_pubkeys_signed (0, [])
        in \<lparr>threshold = thresh, sigs_count = sigs, signed_pubkeys = signed\<rparr>))
       (thresh_origins info)"

definition contains_fingerprint :: "path_info \<Rightarrow> fingerprint \<Rightarrow> bool option" where
  "contains_fingerprint info fg = map_option (\<lambda>(_, origins). bt_contains origins fg) (thresh_origins info)"

definition into_ms_policy :: "('ms, 'tr) miniscript \<Rightarrow> path_info \<Rightarrow> policy_error + conc_policy" where
  "into_ms_policy M info = (case info of
     Path_Single key \<Rightarrow> Ok (Conc_Key key)
   | Path_Multi thresh keys \<Rightarrow>
       (case threshold_error M thresh (length keys) of
          Some e \<Rightarrow> Err (InvalidPolicy e)
        | None \<Rightarrow> Ok (Conc_Thresh thresh (map Conc_Key keys))))"


section \<open>What the checks accept\<close>

text \<open>
  The declarative reading of \<open>DescKeyChecker::check\<close>: a ranged, unhardened, two-path
  xpub with an origin.
\<close>

definition valid_key :: "desc_pk \<Rightarrow> bool" where
  "valid_key key = (case key of
     MultiXPub x \<Rightarrow> mx_origin x \<noteq> None \<and> mx_wildcard x = Wildcard_Unhardened \<and>
       length (mx_derivation_paths x) = 2 \<and> (\<forall>p \<in> set (mx_derivation_paths x). \<forall>i \<in> set p. is_normal i)
   | _ \<Rightarrow> False)"

definition key_id :: "desc_pk \<Rightarrow> key_identifier" where
  "key_id key = (case key of
     MultiXPub x \<Rightarrow> (mx_xkey x, mx_derivation_paths x)
   | _ \<Rightarrow> undefined)"

definition key_fg :: "desc_pk \<Rightarrow> fingerprint" where
  "key_fg key = (case key_origins key of Some (fg, _) \<Rightarrow> fg | None \<Rightarrow> 0)"

lemma valid_key_origins: "valid_key key \<Longrightarrow> \<exists>paths. key_origins key = Some (key_fg key, paths)"
  by (auto simp: valid_key_def key_origins_def key_fg_def split: desc_pk.splits)

lemma check_key_Ok [result_simps]:
  "check_key ks key = Ok r \<longleftrightarrow>
     valid_key key \<and> key_id key \<notin> ks \<and> r = (key_fg key, insert (key_id key) ks)"
  by (auto simp: check_key_def valid_key_def key_id_def key_fg_def key_origins_def Let_def
      list_all_iff split: desc_pk.splits option.splits if_splits)

lemma check_key_no_panic: "check_key ks key \<noteq> Err PolicyPanic"
  by (auto simp: check_key_def Let_def split: desc_pk.splits option.splits)

lemma csv_check_Ok [result_simps]: "csv_check v = Ok t \<longleftrightarrow> t = v \<and> 0 < v \<and> v \<le> U16_MAX"
  by (auto simp: csv_check_def)

lemma csv_check_Err [result_simps]:
  "csv_check v = Err e \<longleftrightarrow> e = InsaneTimelock v \<and> (v = 0 \<or> U16_MAX < v)"
  by (auto simp: csv_check_def)

section \<open>What a path says of a set of signatures\<close>

primrec path_keys :: "path_info \<Rightarrow> desc_pk list" where
  "path_keys (Path_Single key) = [key]"
| "path_keys (Path_Multi k keys) = keys"

primrec path_threshold :: "path_info \<Rightarrow> nat" where
  "path_threshold (Path_Single key) = 1"
| "path_threshold (Path_Multi k keys) = k"

text \<open>A public key derived one step below one of the keys of the path.\<close>

definition key_of_path :: "path_info \<Rightarrow> key_origin \<Rightarrow> bool" where
  "key_of_path info = (\<lambda>(fg, der_path). der_path \<noteq> [] \<and>
     (\<exists>key \<in> set (path_keys info). \<exists>paths. key_origins key = Some (fg, paths) \<and> butlast der_path \<in> paths))"

lemma bt_ok_add_origins: "bt_ok m \<Longrightarrow> bt_ok (add_origins o1 m)"
  by (cases o1) (auto simp: add_origins_def bt_ok_insert split: option.splits)

lemma bt_ok_fold_origins: "bt_ok m \<Longrightarrow> bt_ok (fold add_origins os m)"
  by (induction os arbitrary: m) (auto simp: bt_ok_add_origins)

definition has_path :: "origins \<Rightarrow> fingerprint \<Rightarrow> deriv_path \<Rightarrow> bool" where
  "has_path m fg p = (\<exists>S. map_of m fg = Some S \<and> p \<in> S)"

lemma has_path_add:
  "bt_ok m \<Longrightarrow> has_path (add_origins (f, S) m) fg p \<longleftrightarrow> has_path m fg p \<or> (fg = f \<and> p \<in> S)"
  by (auto simp: add_origins_def has_path_def map_of_bt_insert split: option.splits)

lemma has_path_fold:
  "bt_ok m \<Longrightarrow> has_path (fold add_origins os m) fg p \<longleftrightarrow>
     has_path m fg p \<or> (\<exists>S. (fg, S) \<in> set os \<and> p \<in> S)"
proof (induction os arbitrary: m)
  case (Cons x os)
  then show ?case
    by (cases x) (auto simp: has_path_add bt_ok_add_origins)
qed simp

lemma thresh_origins_Some:
  assumes "thresh_origins info = Some (k, m)"
  shows "k = path_threshold info" "bt_ok m"
    "has_path m fg p \<longleftrightarrow> (\<exists>key \<in> set (path_keys info). \<exists>S. key_origins key = Some (fg, S) \<and> p \<in> S)"
proof -
  have "k = path_threshold info \<and> bt_ok m \<and>
    (has_path m fg p \<longleftrightarrow> (\<exists>key \<in> set (path_keys info). \<exists>S. key_origins key = Some (fg, S) \<and> p \<in> S))"
  proof (cases info)
    case (Path_Single key)
    with assms show ?thesis
      by (auto simp: thresh_origins_def has_path_def bt_ok_Cons split: if_splits)
  next
    case (Path_Multi k' keys)
    with assms obtain os where os: "collect_options key_origins keys = Some os"
      and m: "m = fold add_origins os []" "k = k'"
      by (auto simp: thresh_origins_def)
    have "(\<exists>S. (fg, S) \<in> set os \<and> p \<in> S) \<longleftrightarrow>
        (\<exists>key \<in> set keys. \<exists>S. key_origins key = Some (fg, S) \<and> p \<in> S)"
      using os unfolding collect_options_eq_Some
      by (induction rule: list_all2_induct) auto
    with m Path_Multi show ?thesis
      by (simp add: bt_ok_fold_origins has_path_fold) (simp add: has_path_def)
  qed
  then show "k = path_threshold info" "bt_ok m"
    "has_path m fg p \<longleftrightarrow> (\<exists>key \<in> set (path_keys info). \<exists>S. key_origins key = Some (fg, S) \<and> p \<in> S)"
    by auto
qed

lemma thresh_origins_ok:
  "(\<And>key. key \<in> set (path_keys info) \<Longrightarrow> valid_key key) \<Longrightarrow> \<exists>m. thresh_origins info = Some (path_threshold info, m)"
proof (cases info)
  case (Path_Multi k keys)
  assume valid: "\<And>key. key \<in> set (path_keys info) \<Longrightarrow> valid_key key"
  have "collect_options key_origins keys \<noteq> None"
    unfolding collect_options_eq_None
    using valid valid_key_origins Path_Multi by fastforce
  with Path_Multi show ?thesis by (auto simp: thresh_origins_def)
qed (auto simp: thresh_origins_def dest: valid_key_origins)

text \<open>The fold over the signatures, as counts.\<close>

definition sig_matches :: "origins \<Rightarrow> key_origin \<Rightarrow> bool" where
  "sig_matches m = (\<lambda>(fg, p). p \<noteq> [] \<and> has_path m fg (butlast p))"

lemma count_sig_step:
  "count_sig m (fg, p) (c, sg) =
     (if sig_matches m (fg, p)
      then (c + 1, bt_insert fg (case map_of sg fg of Some n \<Rightarrow> n + 1 | None \<Rightarrow> 1) sg)
      else (c, sg))"
  by (auto simp: count_sig_def sig_matches_def has_path_def split: option.splits)

abbreviation num_sigs :: "origins \<Rightarrow> key_origin list \<Rightarrow> nat" where
  "num_sigs m sigs \<equiv> length (filter (sig_matches m) sigs)"

abbreviation num_sigs_by :: "origins \<Rightarrow> fingerprint \<Rightarrow> key_origin list \<Rightarrow> nat" where
  "num_sigs_by m fg sigs \<equiv> length (filter (\<lambda>s. sig_matches m s \<and> fst s = fg) sigs)"

lemma fold_count_sig:
  assumes "fold (count_sig m) sigs (c, sg) = (c', sg')" "bt_ok sg"
  shows "c' = c + num_sigs m sigs \<and> bt_ok sg' \<and>
    (\<forall>fg. map_of sg' fg =
      (if num_sigs_by m fg sigs = 0 then map_of sg fg
       else Some ((case map_of sg fg of Some n \<Rightarrow> n | None \<Rightarrow> 0) + num_sigs_by m fg sigs)))"
  using assms
proof (induction sigs arbitrary: c sg)
  case (Cons s sigs)
  obtain fg p where s: "s = (fg, p)" by fastforce
  show ?case
  proof (cases "sig_matches m s")
    case True
    define sg1 where "sg1 = bt_insert fg (case map_of sg fg of Some n \<Rightarrow> n + 1 | None \<Rightarrow> 1) sg"
    have ok: "bt_ok sg1" unfolding sg1_def using Cons.prems(2) by (rule bt_ok_insert)
    have "fold (count_sig m) sigs (c + 1, sg1) = (c', sg')"
      using Cons.prems(1) True s by (simp add: count_sig_step sg1_def)
    from Cons.IH [OF this ok] True s Cons.prems(2) show ?thesis
      by (auto simp: sg1_def map_of_bt_insert split: option.splits if_splits)
  next
    case False
    then have "fold (count_sig m) sigs (c, sg) = (c', sg')"
      using Cons.prems(1) s by (simp add: count_sig_step)
    from Cons.IH [OF this Cons.prems(2)] False show ?thesis by simp
  qed
qed simp

lemma sig_matches_path:
  "thresh_origins info = Some (k, m) \<Longrightarrow> sig_matches m = key_of_path info"
  by (rule ext) (auto simp: sig_matches_def key_of_path_def thresh_origins_Some(3))

lemma spend_info_Some_iff: "spend_info info sigs = None \<longleftrightarrow> thresh_origins info = None"
  by (simp add: spend_info_def)

lemma spend_info_spec:
  assumes "spend_info info sigs = Some si"
  shows "threshold si = path_threshold info"
    and "sigs_count si = length (filter (key_of_path info) sigs)"
    and "bt_ok (signed_pubkeys si)"
    and "map_of (signed_pubkeys si) fg =
      (let n = length (filter (\<lambda>s. key_of_path info s \<and> fst s = fg) sigs) in if n = 0 then None else Some n)"
proof -
  obtain k m where km: "thresh_origins info = Some (k, m)"
    using assms by (auto simp: spend_info_def)
  obtain c sg where f: "fold (count_sig m) sigs (0, []) = (c, sg)" by fastforce
  have si: "si = \<lparr>threshold = k, sigs_count = c, signed_pubkeys = sg\<rparr>"
    using assms by (simp add: spend_info_def km f)
  note counts = fold_count_sig [OF f bt_ok_Nil, unfolded sig_matches_path [OF km]]
  show "threshold si = path_threshold info" using thresh_origins_Some(1) [OF km] si by simp
  show "sigs_count si = length (filter (key_of_path info) sigs)" using counts si by simp
  show "bt_ok (signed_pubkeys si)" using counts si by simp
  show "map_of (signed_pubkeys si) fg =
      (let n = length (filter (\<lambda>s. key_of_path info s \<and> fst s = fg) sigs) in if n = 0 then None else Some n)"
    using counts si by (simp add: Let_def)
qed

end
