(* ===== verification/Liana_Policy.thy ===== *)
theory Liana_Policy
  imports Policy
begin

text \<open>
  Policies (\<open>LianaPolicy\<close> of \<open>liana/src/descriptors/analysis.rs\<close>): their creation
  and its checks, their inference from a descriptor, and their compilation to one. The
  invariant \<open>policy_wf\<close> states what a policy guarantees; creation accepts exactly
  the settings that satisfy it, and inference only returns policies that do.
\<close>

record liana_policy =
  primary_path :: path_info
  recovery_paths :: "(nat, path_info) btree"
  is_taproot_policy :: bool

section \<open>Compilation\<close>

definition get_multi_xkey :: "desc_pk \<Rightarrow> xpub option" where
  "get_multi_xkey desc_key = (case desc_key of MultiXPub x \<Rightarrow> Some (mx_xkey x) | _ \<Rightarrow> None)"

definition unspendable_internal_xpub :: "('ms, 'tr) miniscript \<Rightarrow> 'tr \<Rightarrow> xpub option" where
  "unspendable_internal_xpub M desc =
     (if lift_tap_tree M desc = None then None
      else (case tap_tree_keys M desc of
        [] \<Rightarrow> None
      | first_key # _ \<Rightarrow>
          (case get_multi_xkey first_key of
             None \<Rightarrow> None
           | Some first_xkey \<Rightarrow>
               (case collect_options (\<lambda>pk. map_option xp_public_key (get_multi_xkey pk)) (tap_tree_keys M desc) of
                  None \<Rightarrow> None
                | Some concat_keys \<Rightarrow>
                    Some \<lparr>xp_public_key = bip341_nums_point M, xp_chain_code = sha256 M concat_keys,
                      xp_depth = 0, xp_parent_fingerprint = 0, xp_child_number = 0,
                      xp_network = xp_network first_xkey\<rparr>))))"

definition unspendable_internal_key :: "('ms, 'tr) miniscript \<Rightarrow> 'tr \<Rightarrow> desc_pk option" where
  "unspendable_internal_key M desc =
     map_option (\<lambda>x. MultiXPub \<lparr>mx_origin = None, mx_xkey = x, mx_derivation_paths = [[0], [1]],
       mx_wildcard = Wildcard_Unhardened\<rparr>) (unspendable_internal_xpub M desc)"

fun fold_recovery ::
  "('ms, 'tr) miniscript \<Rightarrow> (nat \<times> path_info) list \<Rightarrow> conc_policy \<Rightarrow> policy_error + conc_policy" where
  "fold_recovery M [] tl_policy = Ok tl_policy"
| "fold_recovery M ((timelock, path_info) # rest) tl_policy =
     rbind (into_ms_policy M path_info) (\<lambda>keys.
       fold_recovery M rest
         (Conc_Or [(99, tl_policy), (1, Conc_And [keys, Conc_Older timelock])]))"

definition into_policy :: "('ms, 'tr) miniscript \<Rightarrow> liana_policy \<Rightarrow> policy_error + conc_policy" where
  "into_policy M p =
     rbind (into_ms_policy M (primary_path p)) (\<lambda>primary_keys.
     if recovery_paths p = [] then Err PolicyPanic
     else fold_recovery M (recovery_paths p) primary_keys)"

definition dummy_internal_key :: "('ms, 'tr) miniscript \<Rightarrow> desc_pk" where
  "dummy_internal_key M = XPub \<lparr>x_origin = None,
     x_xkey = \<lparr>xp_public_key = bip341_nums_point M, xp_chain_code = 0, xp_depth = 0,
       xp_parent_fingerprint = 0, xp_child_number = 0, xp_network = regtest_network M\<rparr>,
     x_derivation_path = [], x_wildcard = Wildcard_None\<rparr>"

definition compile_multipath_descriptor_fallible ::
  "('ms, 'tr) miniscript \<Rightarrow> liana_policy \<Rightarrow> policy_error + ('ms, 'tr) descriptor" where
  "compile_multipath_descriptor_fallible M p =
     (if is_taproot_policy p then
        (let dummy = dummy_internal_key M in
         rbind (into_policy M p) (\<lambda>policy.
         rbind (map_err InvalidPolicy (compile_tr M policy dummy)) (\<lambda>desc.
         if internal_key M desc = dummy then
           (case unspendable_internal_key M desc of
              None \<Rightarrow> Err PolicyPanic
            | Some actual_internal_key \<Rightarrow>
                rbind (map_err InvalidPolicy (compile_tr M policy actual_internal_key)) (\<lambda>d. Ok (Tr d)))
         else Ok (Tr desc))))
      else
        rbind (into_policy M p) (\<lambda>policy.
        rbind (map_err InvalidPolicy (compile_segwitv0 M policy)) (\<lambda>ms.
        if segwitv0_sane M ms then Ok (Wsh_Ms ms) else Err PolicyPanic)))"

section \<open>Creation\<close>

fun check_multi_keys ::
  "key_checker \<Rightarrow> fingerprint set \<Rightarrow> desc_pk list \<Rightarrow> policy_error + key_checker" where
  "check_multi_keys ks origin_fingerprints [] = Ok ks"
| "check_multi_keys ks origin_fingerprints (key # keys) =
     rbind (check_key ks key) (\<lambda>(fg, ks).
     if fg \<in> origin_fingerprints then Err (DuplicateOriginSamePath key)
     else check_multi_keys ks (insert fg origin_fingerprints) keys)"

definition check_path :: "key_checker \<Rightarrow> path_info \<Rightarrow> policy_error + key_checker" where
  "check_path ks path = (case path of
     Path_Single key \<Rightarrow> rbind (check_key ks key) (\<lambda>(_, ks). Ok ks)
   | Path_Multi _ keys \<Rightarrow> check_multi_keys ks {} keys)"

fun check_paths :: "key_checker \<Rightarrow> path_info list \<Rightarrow> policy_error + key_checker" where
  "check_paths ks [] = Ok ks"
| "check_paths ks (path # paths) = rbind (check_path ks path) (\<lambda>ks. check_paths ks paths)"

definition policy_new ::
  "('ms, 'tr) miniscript \<Rightarrow> path_info \<Rightarrow> (nat, path_info) btree \<Rightarrow> bool \<Rightarrow> bool
     \<Rightarrow> policy_error + liana_policy" where
  "policy_new M prim recs is_taproot compile =
     (if recs = [] then Err MissingRecoveryPath
      else if bt_contains recs 0 then Err (InsaneTimelock 0)
      else
        rbind (check_paths {} (map snd recs @ [prim])) (\<lambda>_.
        let policy = \<lparr>primary_path = prim, recovery_paths = recs, is_taproot_policy = is_taproot\<rparr>
        in if compile
           then rbind (compile_multipath_descriptor_fallible M policy) (\<lambda>_. Ok policy)
           else Ok policy))"

definition new_taproot ::
  "('ms, 'tr) miniscript \<Rightarrow> path_info \<Rightarrow> (nat, path_info) btree \<Rightarrow> policy_error + liana_policy" where
  "new_taproot M prim recs = policy_new M prim recs True True"

definition new_legacy ::
  "('ms, 'tr) miniscript \<Rightarrow> path_info \<Rightarrow> (nat, path_info) btree \<Rightarrow> policy_error + liana_policy" where
  "new_legacy M prim recs = policy_new M prim recs False True"

section \<open>Inference from a descriptor\<close>

text \<open>The lifted policy of a descriptor, before normalisation.\<close>

definition lift_descriptor ::
  "('ms, 'tr) miniscript \<Rightarrow> ('ms, 'tr) descriptor \<Rightarrow> policy_error + sem_policy" where
  "lift_descriptor M desc = (case desc of
     Wsh_Ms ms \<Rightarrow> map_err PolicyAnalysis (lift_ms M ms)
   | Wsh_Sorted_Multi \<Rightarrow> Err IncompatibleDesc
   | Tr d \<Rightarrow>
       (case lift_tap_tree M d of
          None \<Rightarrow> Err IncompatibleDesc
        | Some lifted \<Rightarrow>
            rbind (map_err PolicyAnalysis lifted) (\<lambda>tree_policy.
            rbind (ok_or IncompatibleDesc (unspendable_internal_xpub M d)) (\<lambda>unspend_int_xpub.
            rbind (ok_or IncompatibleDesc (get_multi_xkey (internal_key M d))) (\<lambda>desc_int_xpub.
            if desc_int_xpub = unspend_int_xpub then Ok tree_policy
            else Ok (Sem_Thresh 1 [Sem_Key (internal_key M d), tree_policy])))))
   | Other_Desc \<Rightarrow> Err IncompatibleDesc)"

definition is_tr :: "('ms, 'tr) descriptor \<Rightarrow> bool" where
  "is_tr desc = (case desc of Tr _ \<Rightarrow> True | _ \<Rightarrow> False)"

text \<open>How a key check changes the primary path gathered so far.\<close>

definition merge_primary :: "path_info option \<Rightarrow> sem_policy \<Rightarrow> policy_error + path_info" where
  "merge_primary prim sub = (case (prim, sub) of
     (None, Sem_Key key) \<Rightarrow> Ok (Path_Single key)
   | (None, multisig) \<Rightarrow> from_primary_path multisig
   | (Some (Path_Single k), Sem_Key key) \<Rightarrow> Ok (with_added_key (Path_Single k) key)
   | (Some (Path_Multi n ks), Sem_Key key) \<Rightarrow>
       (if n = 1 then Ok (with_added_key (Path_Multi 1 ks) key) else Err IncompatibleDesc)
   | _ \<Rightarrow> Err IncompatibleDesc)"

fun gather_paths ::
  "sem_policy list \<Rightarrow> path_info option \<Rightarrow> (nat, path_info) btree
     \<Rightarrow> policy_error + path_info option \<times> (nat, path_info) btree" where
  "gather_paths [] prim recs = Ok (prim, recs)"
| "gather_paths (sub # subs) prim recs =
     (if is_single_key_or_multisig sub then
        rbind (merge_primary prim sub) (\<lambda>p. gather_paths subs (Some p) recs)
      else
        rbind (from_recovery_path sub) (\<lambda>(timelock, path_info).
        if bt_contains recs timelock then Err IncompatibleDesc
        else gather_paths subs prim (bt_insert timelock path_info recs)))"

definition policy_of_sem ::
  "('ms, 'tr) miniscript \<Rightarrow> bool \<Rightarrow> sem_policy \<Rightarrow> policy_error + liana_policy" where
  "policy_of_sem M is_taproot policy = (case policy of
     Sem_Thresh k subs \<Rightarrow>
       (if k = 1 \<and> length subs > 1 then
          rbind (gather_paths subs None []) (\<lambda>(prim, recs).
          rbind (ok_or IncompatibleDesc prim) (\<lambda>prim_path.
          policy_new M prim_path recs is_taproot False))
        else Err IncompatibleDesc)
   | _ \<Rightarrow> Err IncompatibleDesc)"

definition from_multipath_descriptor ::
  "('ms, 'tr) miniscript \<Rightarrow> ('ms, 'tr) descriptor \<Rightarrow> policy_error + liana_policy" where
  "from_multipath_descriptor M desc =
     rbind (lift_descriptor M desc) (\<lambda>lifted.
     policy_of_sem M (is_tr desc) (normalized M lifted))"

section \<open>What a policy guarantees\<close>

definition path_wf :: "path_info \<Rightarrow> bool" where
  "path_wf path = (case path of
     Path_Single _ \<Rightarrow> True
   | Path_Multi _ keys \<Rightarrow> distinct (map key_fg keys))"

definition policy_keys :: "liana_policy \<Rightarrow> desc_pk list" where
  "policy_keys p = concat (map path_keys (map snd (recovery_paths p) @ [primary_path p]))"

text \<open>
  At least one recovery path, no null timelock, every key ranged with an origin, no xpub
  twice in the whole policy, and no signer twice in one path.
\<close>

definition policy_wf :: "liana_policy \<Rightarrow> bool" where
  "policy_wf p \<longleftrightarrow> recovery_paths p \<noteq> [] \<and> (\<forall>(t, _) \<in> set (recovery_paths p). t \<noteq> 0) \<and>
     (\<forall>key \<in> set (policy_keys p). valid_key key) \<and> distinct (map key_id (policy_keys p)) \<and>
     path_wf (primary_path p) \<and> (\<forall>(_, path) \<in> set (recovery_paths p). path_wf path)"

lemma check_multi_keys_Ok:
  "check_multi_keys ks fgs keys = Ok r \<longleftrightarrow>
     (\<forall>key \<in> set keys. valid_key key) \<and> distinct (map key_id keys) \<and> set (map key_id keys) \<inter> ks = {} \<and>
     distinct (map key_fg keys) \<and> set (map key_fg keys) \<inter> fgs = {} \<and> r = set (map key_id keys) \<union> ks"
proof (induction keys arbitrary: ks fgs)
  case (Cons key keys)
  define A B F where "A = key_id ` set keys" and "B = ks" and "F = key_fg ` set keys"
  show ?case
    by (simp add: result_simps Cons.IH flip: A_def F_def) blast
qed auto

lemma check_path_Ok:
  "check_path ks path = Ok r \<longleftrightarrow>
     (\<forall>key \<in> set (path_keys path). valid_key key) \<and> distinct (map key_id (path_keys path)) \<and>
     set (map key_id (path_keys path)) \<inter> ks = {} \<and> path_wf path \<and> r = set (map key_id (path_keys path)) \<union> ks"
  by (cases path) (auto simp: check_path_def check_multi_keys_Ok path_wf_def result_simps)

lemma check_paths_Ok:
  "check_paths ks paths = Ok r \<longleftrightarrow>
     (\<forall>key \<in> set (concat (map path_keys paths)). valid_key key) \<and>
     distinct (map key_id (concat (map path_keys paths))) \<and>
     set (map key_id (concat (map path_keys paths))) \<inter> ks = {} \<and>
     (\<forall>path \<in> set paths. path_wf path) \<and> r = set (map key_id (concat (map path_keys paths))) \<union> ks"
proof (induction paths arbitrary: ks)
  case (Cons path paths)
  define A B where "A = key_id ` set (path_keys path)" and "B = key_id ` set (concat (map path_keys paths))"
  have "distinct (map key_id (path_keys path) @ map key_id (concat (map path_keys paths))) \<longleftrightarrow>
      distinct (map key_id (path_keys path)) \<and> distinct (map key_id (concat (map path_keys paths))) \<and> A \<inter> B = {}"
    by (auto simp: A_def B_def)
  moreover have "check_paths ks (path # paths) = Ok r \<longleftrightarrow>
      check_path ks path = Ok (A \<union> ks) \<and> check_paths (A \<union> ks) paths = Ok r"
    by (auto simp: result_simps check_path_Ok A_def)
  ultimately show ?case
    unfolding Cons.IH check_path_Ok list.map concat.simps set_append set_map image_Un map_append
      A_def [symmetric] B_def [symmetric]
    by auto
qed auto

lemma bt_contains_iff: "bt_contains m k \<longleftrightarrow> (\<exists>v. (k, v) \<in> set m)"
  by (force simp: bt_contains_def map_of_eq_None_iff)

text \<open>Creation accepts exactly the well-formed policies that compile.\<close>

lemma policy_new_Ok:
  "policy_new M prim recs tap cmp = Ok p \<longleftrightarrow>
     p = \<lparr>primary_path = prim, recovery_paths = recs, is_taproot_policy = tap\<rparr> \<and> policy_wf p \<and>
     (cmp \<longrightarrow> (\<exists>d. compile_multipath_descriptor_fallible M p = Ok d))"
proof -
  define q where "q = \<lparr>primary_path = prim, recovery_paths = recs, is_taproot_policy = tap\<rparr>"
  have keys: "policy_keys q = concat (map path_keys (map snd recs @ [prim]))"
    by (simp add: policy_keys_def q_def)
  have "(\<exists>ks. check_paths {} (map snd recs @ [prim]) = Ok ks) \<longleftrightarrow>
      (\<forall>key \<in> set (policy_keys q). valid_key key) \<and> distinct (map key_id (policy_keys q)) \<and>
      path_wf prim \<and> (\<forall>(_, path) \<in> set recs. path_wf path)"
    unfolding check_paths_Ok keys by auto
  moreover have "bt_contains recs 0 \<longleftrightarrow> \<not> (\<forall>(t, _) \<in> set recs. t \<noteq> 0)"
    by (auto simp: bt_contains_iff)
  ultimately have wf: "policy_wf q \<longleftrightarrow> recs \<noteq> [] \<and> \<not> bt_contains recs 0 \<and>
      (\<exists>ks. check_paths {} (map snd recs @ [prim]) = Ok ks)"
    by (simp add: policy_wf_def q_def)
  show ?thesis
    unfolding policy_new_def Let_def q_def [symmetric]
    using wf by (auto simp: result_simps)
qed


section \<open>What inference returns\<close>

definition thresh_ok :: "path_info \<Rightarrow> bool" where
  "thresh_ok path \<longleftrightarrow> 0 < path_threshold path \<and> path_threshold path \<le> length (path_keys path)"

lemma key_of_sub_Ok [result_simps]: "key_of_sub s = Ok k \<longleftrightarrow> s = Sem_Key k"
  by (auto simp: key_of_sub_def split: sem_policy.splits)

lemma collect_key_of_sub [result_simps]:
  "collect_results key_of_sub subs = Ok keys \<longleftrightarrow> subs = map Sem_Key keys"
  by (simp add: collect_results_eq_Inr key_of_sub_Ok list_all2_inv_map)

lemma key_of_sub_no_panic: "collect_results key_of_sub subs \<noteq> Err PolicyPanic"
  by (auto dest!: collect_results_err simp: key_of_sub_def split: sem_policy.splits)

lemma from_primary_path_Ok:
  "from_primary_path s = Ok info \<longleftrightarrow>
     (\<exists>k. s = Sem_Key k \<and> info = Path_Single k) \<or>
     (\<exists>k keys. s = Sem_Thresh k (map Sem_Key keys) \<and> 0 < k \<and> k \<le> length keys \<and> info = Path_Multi k keys)"
  by (auto simp: from_primary_path_def result_simps split: sem_policy.splits)

lemma from_primary_path_thresh: "from_primary_path s = Ok info \<Longrightarrow> thresh_ok info"
  by (auto simp: from_primary_path_Ok thresh_ok_def)

lemma from_primary_path_no_panic: "from_primary_path s \<noteq> Err PolicyPanic"
  by (auto simp: from_primary_path_def result_simps key_of_sub_no_panic split: sem_policy.splits)

lemma n_of_n_subs_Ok:
  "n_of_n_subs subs l0 keys = Ok (l1, keys') \<Longrightarrow>
     length keys' + length (filter (\<lambda>x. x) [l1 \<noteq> None]) =
       length keys + length (filter (\<lambda>x. x) [l0 \<noteq> None]) + length subs \<and>
     (\<forall>t. l1 = Some t \<longrightarrow> l0 = Some t \<or> 0 < t \<and> t \<le> U16_MAX)"
  by (induction subs l0 keys rule: n_of_n_subs.induct)
    (auto simp: result_simps split: sem_policy.splits if_splits)

lemma n_of_n_subs_no_panic: "n_of_n_subs subs l0 keys \<noteq> Err PolicyPanic"
  by (induction subs l0 keys rule: n_of_n_subs.induct)
    (auto simp: result_simps split: sem_policy.splits if_splits)

lemma older_sub_Some: "older_sub s = Some r \<longleftrightarrow> (\<exists>v. s = Sem_Older v \<and> csv_check v = r)"
  by (auto simp: older_sub_def split: sem_policy.splits)

lemma from_recovery_path_Ok:
  assumes "from_recovery_path s = Ok (t, info)"
  shows "0 < t" "t \<le> U16_MAX" "thresh_ok info"
proof -
  obtain k subs where s: "s = Sem_Thresh k subs"
    using assms by (auto simp: from_recovery_path_def split: sem_policy.splits)
  have "0 < t \<and> t \<le> U16_MAX \<and> thresh_ok info"
  proof (cases "k = 2 \<and> length subs = 2")
    case True
    then show ?thesis
      using assms s
      by (auto simp: from_recovery_path_def result_simps older_sub_Some
          dest!: find_map_Some from_primary_path_thresh)
  next
    case False
    then obtain keys where sz: "k = length subs" "length subs > 2" "length keys > 1"
      and n: "n_of_n_subs subs None [] = Ok (Some t, keys)" and info: "info = Path_Multi (k - 1) keys"
      using assms s by (auto simp: from_recovery_path_def result_simps split: if_splits)
    from n_of_n_subs_Ok [OF n] sz info show ?thesis by (auto simp: thresh_ok_def)
  qed
  then show "0 < t" "t \<le> U16_MAX" "thresh_ok info" by auto
qed

text \<open>The assertion on the number of keys never fails.\<close>

lemma from_recovery_path_no_panic: "from_recovery_path s \<noteq> Err PolicyPanic"
proof (cases s)
  case (Sem_Thresh k subs)
  have "length subs > 2 \<Longrightarrow> n_of_n_subs subs None [] = Ok (l0, keys) \<Longrightarrow> length keys > 1" for l0 keys
    by (drule n_of_n_subs_Ok) (cases l0; simp)
  then show ?thesis
    using Sem_Thresh
    by (auto simp: from_recovery_path_def result_simps older_sub_Some n_of_n_subs_no_panic
        from_primary_path_no_panic dest!: find_map_Some split: if_splits)
qed (auto simp: from_recovery_path_def)

definition recovery_ok :: "(nat, path_info) btree \<Rightarrow> bool" where
  "recovery_ok recs \<longleftrightarrow> bt_ok recs \<and>
     (\<forall>(t, info) \<in> set recs. 0 < t \<and> t \<le> U16_MAX \<and> thresh_ok info)"

lemma set_bt_insert: "set (bt_insert k v m) \<subseteq> insert (k, v) (set m)"
  by (induction m) auto

lemma recovery_ok_insert:
  "recovery_ok recs \<Longrightarrow> 0 < t \<Longrightarrow> t \<le> U16_MAX \<Longrightarrow> thresh_ok info \<Longrightarrow> recovery_ok (bt_insert t info recs)"
  using set_bt_insert [of t info recs] by (auto simp: recovery_ok_def bt_ok_insert)

lemma merge_primary_thresh:
  "merge_primary prim sub = Ok p \<Longrightarrow> (\<And>q. prim = Some q \<Longrightarrow> thresh_ok q) \<Longrightarrow> thresh_ok p"
  by (auto simp: merge_primary_def with_added_key_def thresh_ok_def from_primary_path_Ok
      split: option.splits sem_policy.splits path_info.splits if_splits)

lemma merge_primary_no_panic: "merge_primary prim sub \<noteq> Err PolicyPanic"
  by (auto simp: merge_primary_def from_primary_path_no_panic
      split: option.splits sem_policy.splits path_info.splits if_splits)

lemma gather_paths_Ok:
  assumes "gather_paths subs prim recs = Ok (prim', recs')" "recovery_ok recs"
    "\<And>q. prim = Some q \<Longrightarrow> thresh_ok q"
  shows "recovery_ok recs' \<and> (\<forall>q. prim' = Some q \<longrightarrow> thresh_ok q)"
  using assms
proof (induction subs arbitrary: prim recs)
  case (Cons sub subs)
  show ?case
  proof (cases "is_single_key_or_multisig sub")
    case True
    then obtain p where p: "merge_primary prim sub = Ok p" "gather_paths subs (Some p) recs = Ok (prim', recs')"
      using Cons.prems(1) by (auto simp: result_simps)
    have "thresh_ok p" by (rule merge_primary_thresh [OF p(1)]) (rule Cons.prems(3))
    then show ?thesis using Cons.IH [OF p(2) Cons.prems(2)] by simp
  next
    case False
    then obtain t info where r: "from_recovery_path sub = Ok (t, info)"
      "gather_paths subs prim (bt_insert t info recs) = Ok (prim', recs')"
      using Cons.prems(1) by (auto simp: result_simps split: if_splits)
    show ?thesis
      by (rule Cons.IH [OF r(2) recovery_ok_insert [OF Cons.prems(2) from_recovery_path_Ok [OF r(1)]]])
        (rule Cons.prems(3))
  qed
qed auto

lemma gather_paths_no_panic: "gather_paths subs prim recs \<noteq> Err PolicyPanic"
  by (induction subs prim recs rule: gather_paths.induct)
    (auto simp: result_simps merge_primary_no_panic from_recovery_path_no_panic split: if_splits)

lemma policy_of_sem_Ok:
  assumes "policy_of_sem M tap s = Ok p"
  shows "policy_wf p" "recovery_ok (recovery_paths p)" "thresh_ok (primary_path p)" "is_taproot_policy p = tap"
proof -
  obtain subs prim recs where g: "gather_paths subs None [] = Ok (Some prim, recs)"
    and new: "policy_new M prim recs tap False = Ok p"
    using assms by (auto simp: policy_of_sem_def result_simps split: sem_policy.splits if_splits)
  have "recovery_ok recs \<and> thresh_ok prim"
    using gather_paths_Ok [OF g] by (simp add: recovery_ok_def)
  with new show "policy_wf p" "recovery_ok (recovery_paths p)" "thresh_ok (primary_path p)"
    "is_taproot_policy p = tap"
    by (auto simp: policy_new_Ok)
qed

lemma from_multipath_descriptor_Ok:
  assumes "from_multipath_descriptor M d = Ok p"
  shows "policy_wf p" "recovery_ok (recovery_paths p)" "thresh_ok (primary_path p)" "is_taproot_policy p = is_tr d"
proof -
  obtain s where "policy_of_sem M (is_tr d) s = Ok p"
    using assms by (auto simp: from_multipath_descriptor_def result_simps)
  then show "policy_wf p" "recovery_ok (recovery_paths p)" "thresh_ok (primary_path p)"
    "is_taproot_policy p = is_tr d"
    by (rule policy_of_sem_Ok)+
qed

lemma check_multi_keys_no_panic: "check_multi_keys ks fgs keys \<noteq> Err PolicyPanic"
  by (induction ks fgs keys rule: check_multi_keys.induct)
    (auto simp: result_simps check_key_no_panic split: if_splits)

lemma check_paths_no_panic: "check_paths ks paths \<noteq> Err PolicyPanic"
  by (induction ks paths rule: check_paths.induct)
    (auto simp: result_simps check_path_def check_key_no_panic check_multi_keys_no_panic
      split: path_info.splits)

lemma from_multipath_descriptor_no_panic: "from_multipath_descriptor M d \<noteq> Err PolicyPanic"
proof -
  have "lift_descriptor M d \<noteq> Err PolicyPanic"
    by (auto simp: lift_descriptor_def result_simps split: descriptor.splits option.splits if_splits)
  moreover have "policy_new M q r t False \<noteq> Err PolicyPanic" for q r t
    by (auto simp: policy_new_def result_simps Let_def check_paths_no_panic)
  then have "policy_of_sem M t s \<noteq> Err PolicyPanic" for t s
    by (auto simp: policy_of_sem_def result_simps gather_paths_no_panic split: sem_policy.splits)
  ultimately show ?thesis
    by (auto simp: from_multipath_descriptor_def result_simps)
qed

text \<open>Every path of a well-formed policy can be asked about signatures without a panic.\<close>

lemma policy_wf_paths:
  assumes "policy_wf p" "path = primary_path p \<or> (t, path) \<in> set (recovery_paths p)"
  shows "spend_info path sigs \<noteq> None" "\<exists>m. thresh_origins path = Some (path_threshold path, m)"
proof -
  have "set (path_keys path) \<subseteq> set (policy_keys p)"
    using assms(2) by (force simp: policy_keys_def)
  with assms(1) have "valid_key key" if "key \<in> set (path_keys path)" for key
    using that by (auto simp: policy_wf_def)
  then show o: "\<exists>m. thresh_origins path = Some (path_threshold path, m)"
    by (rule thresh_origins_ok)
  then show "spend_info path sigs \<noteq> None" by (auto simp: spend_info_Some_iff)
qed

section \<open>Inference inverts the normal form\<close>

text \<open>
  The normalised semantic policy of a set of paths, as the comments of the code give it:
  a 1-of-N primary path is spread over the top-level threshold, an N-of-N recovery path is
  merged with its timelock, wherever that stands among its keys. Its paths in canonical form are single keys and thresholds
  over at least two keys.
\<close>

definition primary_subs :: "path_info \<Rightarrow> sem_policy list" where
  "primary_subs path = (case path of
     Path_Single k \<Rightarrow> [Sem_Key k]
   | Path_Multi n keys \<Rightarrow> if n = 1 then map Sem_Key keys else [Sem_Thresh n (map Sem_Key keys)])"

definition recovery_forms :: "nat \<times> path_info \<Rightarrow> sem_policy list" where
  "recovery_forms = (\<lambda>(t, path). case path of
     Path_Single k \<Rightarrow> [Sem_Thresh 2 [Sem_Older t, Sem_Key k], Sem_Thresh 2 [Sem_Key k, Sem_Older t]]
   | Path_Multi n keys \<Rightarrow>
       if n = length keys
       then map (\<lambda>i. Sem_Thresh (n + 1) (map Sem_Key (take i keys) @ Sem_Older t # map Sem_Key (drop i keys))) [0..<n + 1]
       else [Sem_Thresh 2 [Sem_Older t, Sem_Thresh n (map Sem_Key keys)],
             Sem_Thresh 2 [Sem_Thresh n (map Sem_Key keys), Sem_Older t]])"

definition canonical_path :: "path_info \<Rightarrow> bool" where
  "canonical_path path = (case path of
     Path_Single _ \<Rightarrow> True
   | Path_Multi n keys \<Rightarrow> 0 < n \<and> n \<le> length keys \<and> 2 \<le> length keys)"

lemma list_all_map_key [simp]: "list_all is_sem_key (map Sem_Key keys)"
  by (induction keys) auto

lemma collect_map_key [simp]: "collect_results key_of_sub (map Sem_Key keys) = Ok keys"
  by (simp add: result_simps)

lemma n_of_n_keys: "n_of_n_subs (map Sem_Key keys @ subs) l0 acc = n_of_n_subs subs l0 (acc @ keys)"
  by (induction keys arbitrary: acc) auto

lemma n_of_n_all_keys: "n_of_n_subs (map Sem_Key keys) l0 acc = Ok (l0, acc @ keys)"
  using n_of_n_keys [of keys "[]"] by simp

lemma from_recovery_form:
  assumes "canonical_path path" "0 < t" "t \<le> U16_MAX" "s \<in> set (recovery_forms (t, path))"
  shows "from_recovery_path s = Ok (t, path)" "\<not> is_single_key_or_multisig s"
  using assms
  by (auto simp: recovery_forms_def canonical_path_def from_recovery_path_def older_sub_def
      csv_check_def from_primary_path_def n_of_n_keys n_of_n_all_keys split: path_info.splits if_splits)

lemma gather_one_of_n:
  "gather_paths (map Sem_Key keys @ subs) (Some (Path_Multi 1 acc)) recs =
     gather_paths subs (Some (Path_Multi 1 (acc @ keys))) recs"
  by (induction keys arbitrary: acc) (auto simp: merge_primary_def with_added_key_def)

lemma gather_primary:
  assumes "canonical_path path"
  shows "gather_paths (primary_subs path @ subs) None recs = gather_paths subs (Some path) recs"
proof (cases path)
  case (Path_Single k)
  then show ?thesis by (simp add: primary_subs_def merge_primary_def)
next
  case (Path_Multi n keys)
  show ?thesis
  proof (cases "n = 1")
    case True
    with assms Path_Multi obtain k1 k2 ks where "keys = k1 # k2 # ks"
      by (cases keys rule: list.exhaust; cases "tl keys") (auto simp: canonical_path_def)
    with True Path_Multi show ?thesis
      using gather_one_of_n [of ks subs "[k1, k2]" recs]
      by (simp add: primary_subs_def merge_primary_def with_added_key_def)
  next
    case False
    with assms Path_Multi show ?thesis
      by (simp add: primary_subs_def merge_primary_def canonical_path_def from_primary_path_def)
  qed
qed

lemma gather_recovery:
  assumes "list_all2 (\<lambda>r s. s \<in> set (recovery_forms r)) rs subs"
    "\<forall>(t, path) \<in> set rs. canonical_path path \<and> 0 < t \<and> t \<le> U16_MAX"
    "distinct (map fst rs)" "fst ` set rs \<inter> fst ` set recs = {}" "bt_ok recs"
  shows "gather_paths subs prim recs = Ok (prim, bt_extend recs rs)"
  using assms
proof (induction rs subs arbitrary: recs rule: list_all2_induct)
  case (Cons r rs s subs)
  obtain t path where r: "r = (t, path)" by fastforce
  have "\<not> bt_contains recs t"
    using Cons.prems(3) r by (force simp: bt_contains_iff)
  moreover have "fst ` set rs \<inter> fst ` set (bt_insert t path recs) = {}"
    using Cons.prems(2,3) r by (auto simp: fst_set_bt_insert)
  ultimately show ?case
    using Cons.IH [of "bt_insert t path recs"] Cons.prems Cons.hyps(1) from_recovery_form [of path t s] r
    by (simp add: bt_ok_insert bt_extend_def)
qed (simp add: bt_extend_def)

text \<open>The order in which the recovery paths appear does not matter.\<close>

lemma bt_extend_permuted:
  assumes "bt_ok recs" "set rs = set recs" "distinct (map fst rs)"
  shows "bt_extend [] rs = recs"
proof (rule bt_ok_eqI)
  have "map_of (rev rs) = map_of rs"
    using assms(3) by (intro map_of_eqI) (auto simp: rev_map [symmetric] map_of_eq_Some_iff distinct_rev)
  also have "\<dots> = map_of recs"
    using assms bt_ok_distinct map_of_inject_set by blast
  finally show "map_of (bt_extend [] rs) = map_of recs"
    by (intro ext) (simp add: map_of_bt_extend split: option.splits)
qed (use assms in \<open>simp_all add: bt_ok_extend\<close>)

lemma policy_of_normal_form:
  assumes "policy_wf p" "bt_ok (recovery_paths p)" "canonical_path (primary_path p)"
    "\<forall>(t, path) \<in> set (recovery_paths p). canonical_path path \<and> t \<le> U16_MAX"
    "set rs = set (recovery_paths p)" "distinct (map fst rs)"
    "list_all2 (\<lambda>r s. s \<in> set (recovery_forms r)) rs subs"
  shows "policy_of_sem M (is_taproot_policy p)
    (Sem_Thresh 1 (primary_subs (primary_path p) @ subs)) = Ok p"
proof -
  have rs: "\<forall>(t, path) \<in> set rs. canonical_path path \<and> 0 < t \<and> t \<le> U16_MAX"
    using assms(1,4,5) by (auto simp: policy_wf_def)
  have g: "gather_paths (primary_subs (primary_path p) @ subs) None [] =
      Ok (Some (primary_path p), recovery_paths p)"
    using gather_recovery [OF assms(7) rs assms(6), of "[]"] gather_primary [OF assms(3)]
      bt_extend_permuted [OF assms(2,5,6)] by simp
  have "recovery_paths p \<noteq> []" using assms(1) by (simp add: policy_wf_def)
  then have "0 < length rs" using assms(5) by force
  moreover have "0 < length (primary_subs (primary_path p))"
    using assms(3) by (auto simp: primary_subs_def canonical_path_def split: path_info.splits)
  ultimately have "1 < length (primary_subs (primary_path p) @ subs)"
    using list_all2_lengthD [OF assms(7)] unfolding length_append by linarith
  moreover have "policy_new M (primary_path p) (recovery_paths p) (is_taproot_policy p) False = Ok p"
    using assms(1) by (simp add: policy_new_Ok)
  ultimately show ?thesis
    by (simp add: policy_of_sem_def g)
qed

end
