(* ===== verification/Descriptors.thy ===== *)
theory Descriptors
  imports Liana_Policy
begin

text \<open>
  Descriptors (\<open>liana/src/descriptors/mod.rs\<close>): a multipath descriptor with its
  receive and change descriptors, what it says of a partially signed transaction, the
  pruning of the derivations of a PSBT, the detection of its change outputs, and the sizes
  of the inputs that spend it. A failed assertion, \<open>unwrap\<close> or \<open>expect\<close> is
  \<open>None\<close>, or \<open>DescPanic\<close> where the function returns a \<open>Result\<close>.
\<close>

section \<open>The functions of the miniscript crate on descriptors\<close>

text \<open>
  A derived descriptor is carried as the single-path descriptor and the index it was derived
  at. Planning a satisfaction gives the size of the witness and the elements of its template.
\<close>

type_synonym ('ms, 'tr) derived = "('ms, 'tr) descriptor \<times> child_number"

datatype placeholder = TapScript nat | TapControlBlock nat | Other_Placeholder

record ('ms, 'tr) desc_ops =
  into_single_descriptors :: "('ms, 'tr) descriptor \<Rightarrow> ('ms, 'tr) descriptor list"
  desc_keys :: "('ms, 'tr) descriptor \<Rightarrow> desc_pk list"
  master_fingerprint :: "desc_pk \<Rightarrow> fingerprint"
  script_pubkey :: "('ms, 'tr) derived \<Rightarrow> script"
  address_of :: "nat \<Rightarrow> ('ms, 'tr) derived \<Rightarrow> address"
  derived_pks :: "('ms, 'tr) derived \<Rightarrow> (nat \<times> key_origin) list"
  explicit_script :: "('ms, 'tr) derived \<Rightarrow> (script \<times> nat) option"
  update_psbt_in_tr :: "('ms, 'tr) derived \<Rightarrow> psbt_in \<Rightarrow> psbt_in"
  update_psbt_out_tr :: "('ms, 'tr) derived \<Rightarrow> psbt_out \<Rightarrow> psbt_out"
  max_weight_to_satisfy :: "('ms, 'tr) descriptor \<Rightarrow> nat"
  plan :: "('ms, 'tr) derived \<Rightarrow> key_origin set \<Rightarrow> (nat \<times> placeholder list) option"
  varint_size :: "nat \<Rightarrow> nat"

section \<open>The descriptor\<close>

datatype liana_desc_error =
  Desc_Miniscript nat | Desc_Policy policy_error | InsanePsbt | InconsistentPsbt
  | DescPanic \<comment> \<open>not in the source: the process panics\<close>

record ('ms, 'tr) liana_descriptor =
  multi_desc :: "('ms, 'tr) descriptor"
  receive_desc :: "('ms, 'tr) descriptor"
  change_desc :: "('ms, 'tr) descriptor"

definition split_paths ::
  "('ms, 'tr) desc_ops \<Rightarrow> ('ms, 'tr) descriptor \<Rightarrow> liana_desc_error + ('ms, 'tr) liana_descriptor" where
  "split_paths D desc = (case into_single_descriptors D desc of
     [receive, change] \<Rightarrow> Ok \<lparr>multi_desc = desc, receive_desc = receive, change_desc = change\<rparr>
   | _ \<Rightarrow> Err DescPanic)"

text \<open>\<open>from_str\<close>, on the result of the crate's parser and sanity check.\<close>

definition from_parsed ::
  "('ms, 'tr) miniscript \<Rightarrow> ('ms, 'tr) desc_ops \<Rightarrow> nat + ('ms, 'tr) descriptor
     \<Rightarrow> liana_desc_error + ('ms, 'tr) liana_descriptor" where
  "from_parsed M D parsed =
     rbind (map_err Desc_Miniscript parsed) (\<lambda>desc.
     rbind (map_err Desc_Policy (from_multipath_descriptor M desc)) (\<lambda>_.
     split_paths D desc))"

definition compile_multipath_descriptor ::
  "('ms, 'tr) miniscript \<Rightarrow> liana_policy \<Rightarrow> ('ms, 'tr) descriptor option" where
  "compile_multipath_descriptor M p = (case compile_multipath_descriptor_fallible M p of
     Inl _ \<Rightarrow> None | Inr d \<Rightarrow> Some d)"

definition descriptor_new ::
  "('ms, 'tr) miniscript \<Rightarrow> ('ms, 'tr) desc_ops \<Rightarrow> liana_policy \<Rightarrow> liana_desc_error + ('ms, 'tr) liana_descriptor" where
  "descriptor_new M D p = (case compile_multipath_descriptor M p of
     None \<Rightarrow> Err DescPanic | Some desc \<Rightarrow> split_paths D desc)"

definition desc_policy ::
  "('ms, 'tr) miniscript \<Rightarrow> ('ms, 'tr) liana_descriptor \<Rightarrow> liana_policy option" where
  "desc_policy M d = (case from_multipath_descriptor M (multi_desc d) of
     Inl _ \<Rightarrow> None | Inr p \<Rightarrow> Some p)"

definition is_taproot :: "('ms, 'tr) liana_descriptor \<Rightarrow> bool" where
  "is_taproot d = (case multi_desc d of Tr _ \<Rightarrow> True | _ \<Rightarrow> False)"

definition all_xpubs_net_is :: "('ms, 'tr) desc_ops \<Rightarrow> ('ms, 'tr) liana_descriptor \<Rightarrow> nat \<Rightarrow> bool" where
  "all_xpubs_net_is D d expected_net =
     list_all (\<lambda>key. case key of MultiXPub xpub \<Rightarrow> xp_network (mx_xkey xpub) = expected_net | _ \<Rightarrow> False)
       (desc_keys D (multi_desc d))"

definition desc_contains_fingerprint :: "('ms, 'tr) desc_ops \<Rightarrow> ('ms, 'tr) liana_descriptor \<Rightarrow> fingerprint \<Rightarrow> bool" where
  "desc_contains_fingerprint D d fg = list_ex (\<lambda>k. master_fingerprint D k = fg) (desc_keys D (multi_desc d))"

definition contains_fingerprint_in_path ::
  "('ms, 'tr) miniscript \<Rightarrow> ('ms, 'tr) liana_descriptor \<Rightarrow> fingerprint \<Rightarrow> nat option \<Rightarrow> bool option" where
  "contains_fingerprint_in_path M d fg recovery_timelock =
     Option.bind (desc_policy M d) (\<lambda>policy. case recovery_timelock of
       None \<Rightarrow> contains_fingerprint (primary_path policy) fg
     | Some timelock \<Rightarrow>
         (case map_of (recovery_paths policy) timelock of
            Some path_info \<Rightarrow> contains_fingerprint path_info fg
          | None \<Rightarrow> Some False))"

definition process_unspendable_key ::
  "('ms, 'tr) miniscript \<Rightarrow> ('ms, 'tr) liana_descriptor \<Rightarrow> desc_pk option" where
  "process_unspendable_key M d = (case multi_desc d of Tr t \<Rightarrow> unspendable_internal_key M t | _ \<Rightarrow> None)"

definition first_timelock_value :: "('ms, 'tr) miniscript \<Rightarrow> ('ms, 'tr) liana_descriptor \<Rightarrow> nat option" where
  "first_timelock_value M d = Option.bind (desc_policy M d) (\<lambda>policy.
     case recovery_paths policy of [] \<Rightarrow> None | (t, _) # _ \<Rightarrow> Some t)"

section \<open>Derivation\<close>

definition derive :: "('ms, 'tr) descriptor \<Rightarrow> child_number \<Rightarrow> ('ms, 'tr) derived option" where
  "derive desc index = (if is_normal index then Some (desc, index) else None)"

text \<open>\<open>collect()\<close> of the keys into a \<open>BTreeMap\<close>.\<close>

definition bip32_derivations :: "('ms, 'tr) desc_ops \<Rightarrow> ('ms, 'tr) derived \<Rightarrow> (nat, key_origin) btree option" where
  "bip32_derivations D der = (case fst der of
     Wsh_Ms _ \<Rightarrow> Some (bt_extend [] (derived_pks D der)) | _ \<Rightarrow> None)"

definition update_psbt_in :: "('ms, 'tr) desc_ops \<Rightarrow> ('ms, 'tr) derived \<Rightarrow> psbt_in \<Rightarrow> psbt_in option" where
  "update_psbt_in D der psbtin = (case fst der of
     Wsh_Ms _ \<Rightarrow>
       Option.bind (bip32_derivations D der) (\<lambda>derivs.
       Option.bind (explicit_script D der) (\<lambda>(script, _).
       Some (psbtin\<lparr>bip32_derivation := derivs, witness_script := Some script\<rparr>)))
   | Wsh_Sorted_Multi \<Rightarrow> None
   | Tr _ \<Rightarrow> Some (update_psbt_in_tr D der psbtin)
   | Other_Desc \<Rightarrow> None)"

definition update_change_psbt_out :: "('ms, 'tr) desc_ops \<Rightarrow> ('ms, 'tr) derived \<Rightarrow> psbt_out \<Rightarrow> psbt_out option" where
  "update_change_psbt_out D der psbtout = (case fst der of
     Wsh_Ms _ \<Rightarrow>
       Option.bind (bip32_derivations D der) (\<lambda>derivs. Some (psbtout\<lparr>out_bip32_derivation := derivs\<rparr>))
   | Wsh_Sorted_Multi \<Rightarrow> None
   | Tr _ \<Rightarrow> Some (update_psbt_out_tr D der psbtout)
   | Other_Desc \<Rightarrow> None)"

section \<open>Partial spends\<close>

record partial_info =
  psi_primary_path :: path_spend_info
  psi_recovery_paths :: "(nat, path_spend_info) btree"

text \<open>The origins of the keys that signed an input: ECDSA, or Tapscript then Taproot key.\<close>

definition pubkeys_signed :: "bool \<Rightarrow> psbt_in \<Rightarrow> key_origin list" where
  "pubkeys_signed taproot psbt_in =
     (if taproot
      then List.map_filter (\<lambda>((pk, _), _). map_option snd (map_of (tap_key_origins psbt_in) pk)) (tap_script_sigs psbt_in)
        @ (case tap_key_sig psbt_in of
             None \<Rightarrow> []
           | Some _ \<Rightarrow>
               (case Option.bind (tap_internal_key psbt_in)
                       (\<lambda>pk. map_option snd (map_of (tap_key_origins psbt_in) pk)) of
                  None \<Rightarrow> [] | Some origin \<Rightarrow> [origin]))
      else List.map_filter (\<lambda>((pk, _), _). map_of (bip32_derivation psbt_in) pk) (partial_sigs psbt_in))"

definition timelock_available :: "btc \<Rightarrow> txin \<Rightarrow> nat \<Rightarrow> bool" where
  "timelock_available B txin timelock \<longleftrightarrow> is_height_locked B (sequence txin) \<and> sequence txin \<ge> timelock"

definition partial_spend_info_txin ::
  "btc \<Rightarrow> ('ms, 'tr) miniscript \<Rightarrow> ('ms, 'tr) liana_descriptor \<Rightarrow> psbt_in \<Rightarrow> txin \<Rightarrow> partial_info option" where
  "partial_spend_info_txin B M d psbt_in txin =
     (let signed = pubkeys_signed (is_taproot d) psbt_in in
      Option.bind (desc_policy M d) (\<lambda>desc_info.
      Option.bind (spend_info (primary_path desc_info) signed) (\<lambda>primary.
      Option.bind
        (collect_options (\<lambda>(timelock, path_info). map_option (Pair timelock) (spend_info path_info signed))
           (filter (\<lambda>(timelock, _). timelock_available B txin timelock) (recovery_paths desc_info))) (\<lambda>recovery.
      Some \<lparr>psi_primary_path = primary, psi_recovery_paths = recovery\<rparr>))))"

text \<open>The comparison of the other inputs with the first one.\<close>

fun check_inputs ::
  "btc \<Rightarrow> ('ms, 'tr) miniscript \<Rightarrow> ('ms, 'tr) liana_descriptor \<Rightarrow> txin \<Rightarrow> partial_info
     \<Rightarrow> (psbt_in \<times> txin) list \<Rightarrow> liana_desc_error + unit" where
  "check_inputs B M d first_txin first_info [] = Ok ()"
| "check_inputs B M d first_txin first_info ((psbt_in, txin) # rest) =
     (if sequence txin \<noteq> sequence first_txin then Err InconsistentPsbt
      else (case partial_spend_info_txin B M d psbt_in txin of
        None \<Rightarrow> Err DescPanic
      | Some info \<Rightarrow>
          if first_info \<noteq> info then Err InconsistentPsbt
          else check_inputs B M d first_txin first_info rest))"

definition partial_spend_info ::
  "btc \<Rightarrow> ('ms, 'tr) miniscript \<Rightarrow> ('ms, 'tr) liana_descriptor \<Rightarrow> psbt \<Rightarrow> liana_desc_error + partial_info" where
  "partial_spend_info B M d psbt =
     (if length (psbt_inputs psbt) \<noteq> length (tx_input (unsigned_tx psbt)) \<or>
         length (psbt_outputs psbt) \<noteq> length (tx_output (unsigned_tx psbt)) \<or>
         psbt_inputs psbt = [] \<or> psbt_outputs psbt = []
      then Err InsanePsbt
      else (case (psbt_inputs psbt, tx_input (unsigned_tx psbt)) of
        (first_psbt_in # psbt_ins, first_txin # txins) \<Rightarrow>
          rbind (ok_or DescPanic (partial_spend_info_txin B M d first_psbt_in first_txin)) (\<lambda>first_info.
          rbind (check_inputs B M d first_txin first_info (zip psbt_ins txins)) (\<lambda>_. Ok first_info))
      | _ \<Rightarrow> Err DescPanic))"

definition path_signed :: "path_spend_info \<Rightarrow> bool" where
  "path_signed path \<longleftrightarrow> sigs_count path \<ge> threshold path"

definition signed_path :: "partial_info \<Rightarrow> path_spend_info option" where
  "signed_path info =
     (if path_signed (psi_primary_path info) then Some (psi_primary_path info)
      else List.find path_signed (map snd (psi_recovery_paths info)))"

section \<open>Pruning and change detection\<close>

definition key_is_for_path :: "origins \<Rightarrow> fingerprint \<Rightarrow> deriv_path \<Rightarrow> bool" where
  "key_is_for_path path_origins fg der_path = (case map_of path_origins fg of
     Some der_paths \<Rightarrow> (if der_path = [] then False else butlast der_path \<in> der_paths)
   | None \<Rightarrow> False)"

definition prune_input :: "origins \<Rightarrow> psbt_in \<Rightarrow> psbt_in" where
  "prune_input path_origins psbt_in = psbt_in\<lparr>
     bip32_derivation := bt_retain (\<lambda>_ (fg, der_path). key_is_for_path path_origins fg der_path) (bip32_derivation psbt_in),
     tap_key_origins := bt_retain (\<lambda>_ (_, fg, der_path). key_is_for_path path_origins fg der_path) (tap_key_origins psbt_in)\<rparr>"

definition prune_bip32_derivs :: "psbt \<Rightarrow> path_info \<Rightarrow> psbt option" where
  "prune_bip32_derivs psbt spending_path =
     map_option (\<lambda>(_, path_origins). psbt\<lparr>psbt_inputs := map (prune_input path_origins) (psbt_inputs psbt)\<rparr>)
       (thresh_origins spending_path)"

definition prune_bip32_derivs_last_avail ::
  "btc \<Rightarrow> ('ms, 'tr) miniscript \<Rightarrow> ('ms, 'tr) liana_descriptor \<Rightarrow> psbt \<Rightarrow> liana_desc_error + psbt" where
  "prune_bip32_derivs_last_avail B M d psbt =
     rbind (partial_spend_info B M d psbt) (\<lambda>info.
     rbind (ok_or DescPanic (desc_policy M d)) (\<lambda>policy.
     rbind (if psi_recovery_paths info = [] then Ok (primary_path policy)
            else ok_or DescPanic (map_of (recovery_paths policy) (fst (last (psi_recovery_paths info))))) (\<lambda>path_info.
     ok_or DescPanic (prune_bip32_derivs psbt path_info))))"

datatype change_output = ChangeAddress nat | DepositAddress nat

primrec change_output_index :: "change_output \<Rightarrow> nat" where
  "change_output_index (ChangeAddress index) = index"
| "change_output_index (DepositAddress index) = index"

definition out_der_index :: "psbt_out \<Rightarrow> child_number option" where
  "out_der_index psbt_out =
     (let wsh = (case out_bip32_derivation psbt_out of [] \<Rightarrow> [] | (_, _, der_path) # _ \<Rightarrow> [der_path]);
          tap = (case out_tap_key_origins psbt_out of [] \<Rightarrow> [] | (_, _, _, der_path) # _ \<Rightarrow> [der_path])
      in case wsh @ tap of
           [] \<Rightarrow> None
         | der_path # _ \<Rightarrow> if der_path = [] then None else Some (last der_path))"

fun change_indexes_from ::
  "('ms, 'tr) desc_ops \<Rightarrow> ('ms, 'tr) liana_descriptor \<Rightarrow> txout list \<Rightarrow> nat \<Rightarrow> psbt_out list \<Rightarrow> change_output list option" where
  "change_indexes_from D d txos index [] = Some []"
| "change_indexes_from D d txos index (psbt_out # outs) =
     (case out_der_index psbt_out of
        None \<Rightarrow> change_indexes_from D d txos (index + 1) outs
      | Some der_index \<Rightarrow>
          (if index < length txos then
             (if \<not> is_normal der_index then None
              else if script_pubkey D (change_desc d, der_index) = txo_script (txos ! index)
              then map_option (\<lambda>is. ChangeAddress index # is) (change_indexes_from D d txos (index + 1) outs)
              else if script_pubkey D (receive_desc d, der_index) = txo_script (txos ! index)
              then map_option (\<lambda>is. DepositAddress index # is) (change_indexes_from D d txos (index + 1) outs)
              else change_indexes_from D d txos (index + 1) outs)
           else change_indexes_from D d txos (index + 1) outs))"

definition change_indexes ::
  "('ms, 'tr) desc_ops \<Rightarrow> ('ms, 'tr) liana_descriptor \<Rightarrow> psbt \<Rightarrow> change_output list option" where
  "change_indexes D d psbt = change_indexes_from D d (tx_output (unsigned_tx psbt)) 0 (psbt_outputs psbt)"

section \<open>Sizes\<close>

abbreviation WITNESS_SCALE_FACTOR :: nat where "WITNESS_SCALE_FACTOR \<equiv> 4"

primrec placeholder_size :: "('ms, 'tr) desc_ops \<Rightarrow> placeholder \<Rightarrow> nat" where
  "placeholder_size D (TapScript len) = varint_size D len"
| "placeholder_size D (TapControlBlock len) = varint_size D len"
| "placeholder_size D Other_Placeholder = 0"

text \<open>The assets of the primary path: every origin with every path recorded for it.\<close>

definition path_assets :: "origins \<Rightarrow> key_origin set" where
  "path_assets os = (\<Union>(fg, der_paths) \<in> set os. Pair fg ` der_paths)"

definition max_sat_weight ::
  "('ms, 'tr) miniscript \<Rightarrow> ('ms, 'tr) desc_ops \<Rightarrow> ('ms, 'tr) liana_descriptor \<Rightarrow> bool \<Rightarrow> nat option" where
  "max_sat_weight M D d use_primary_path =
     (if use_primary_path then
        Option.bind (desc_policy M d) (\<lambda>policy.
        Option.bind (thresh_origins (primary_path policy)) (\<lambda>(_, os).
        let der_desc = (receive_desc d, 0) in
        Option.bind (plan D der_desc (path_assets os)) (\<lambda>(size, template).
        Some (size + (case explicit_script D der_desc of
                 Some (_, len) \<Rightarrow> varint_size D len + len
               | None \<Rightarrow> sum_list (map (placeholder_size D) template))))))
      else Some (max_weight_to_satisfy D (multi_desc d) + 1))"

definition max_sat_vbytes ::
  "('ms, 'tr) miniscript \<Rightarrow> ('ms, 'tr) desc_ops \<Rightarrow> ('ms, 'tr) liana_descriptor \<Rightarrow> bool \<Rightarrow> nat option" where
  "max_sat_vbytes M D d use_primary_path =
     Option.bind (max_sat_weight M D d use_primary_path) (\<lambda>w.
     Option.bind (checked_add64 w (WITNESS_SCALE_FACTOR - 1)) (\<lambda>w'.
     checked_div w' WITNESS_SCALE_FACTOR))"

definition spender_input_size ::
  "('ms, 'tr) miniscript \<Rightarrow> ('ms, 'tr) desc_ops \<Rightarrow> ('ms, 'tr) liana_descriptor \<Rightarrow> bool \<Rightarrow> nat option" where
  "spender_input_size M D d use_primary_path =
     map_option (\<lambda>vb. 32 + 4 + 4 + 1 + vb) (max_sat_vbytes M D d use_primary_path)"

definition unsigned_tx_max_weight ::
  "btc \<Rightarrow> ('ms, 'tr) miniscript \<Rightarrow> ('ms, 'tr) desc_ops \<Rightarrow> ('ms, 'tr) liana_descriptor \<Rightarrow> tx \<Rightarrow> bool \<Rightarrow> nat option" where
  "unsigned_tx_max_weight B M D d t use_primary_path =
     (let num_inputs = length (tx_input t) in
      Option.bind (max_sat_weight M D d use_primary_path) (\<lambda>max_sat_weight.
      Option.bind (checked_mul64 max_sat_weight num_inputs) (\<lambda>sat.
      Option.bind (checked_add64 (tx_weight B t) sat) (\<lambda>weight.
      checked_add64 weight
        (if num_inputs > 0 \<and> list_all (\<lambda>txin. witness txin = []) (tx_input t) then 2 else 0)))))"

definition unsigned_tx_max_vbytes ::
  "btc \<Rightarrow> ('ms, 'tr) miniscript \<Rightarrow> ('ms, 'tr) desc_ops \<Rightarrow> ('ms, 'tr) liana_descriptor \<Rightarrow> tx \<Rightarrow> bool \<Rightarrow> nat option" where
  "unsigned_tx_max_vbytes B M D d t use_primary_path =
     Option.bind (unsigned_tx_max_weight B M D d t use_primary_path) (\<lambda>w.
     Option.bind (checked_add64 w (WITNESS_SCALE_FACTOR - 1)) (\<lambda>w'.
     checked_div w' WITNESS_SCALE_FACTOR))"

section \<open>What a parsed descriptor guarantees\<close>

text \<open>
  A descriptor of the library is one \<open>from_str\<close> accepted or \<open>new\<close> compiled: its
  policy can be inferred. The \<open>expect\<close> of \<open>policy()\<close> then never fails.
\<close>

lemma split_paths_Ok:
  "split_paths D desc = Ok d \<Longrightarrow> multi_desc d = desc \<and> into_single_descriptors D desc = [receive_desc d, change_desc d]"
  by (auto simp: split_paths_def split: list.splits)

lemma from_parsed_policy:
  "from_parsed M D parsed = Ok d \<Longrightarrow> desc_policy M d \<noteq> None"
  by (auto simp: from_parsed_def desc_policy_def result_simps dest!: split_paths_Ok)

lemma desc_policy_wf:
  assumes "desc_policy M d = Some p"
  shows "policy_wf p" "recovery_ok (recovery_paths p)" "thresh_ok (primary_path p)"
    "bt_ok (recovery_paths p)"
proof -
  have "from_multipath_descriptor M (multi_desc d) = Ok p"
    using assms by (auto simp: desc_policy_def split: sum.splits)
  from from_multipath_descriptor_Ok [OF this]
  show "policy_wf p" "recovery_ok (recovery_paths p)" "thresh_ok (primary_path p)"
    "bt_ok (recovery_paths p)" by (auto simp: recovery_ok_def)
qed

lemma first_timelock_least:
  assumes "desc_policy M d = Some p"
  shows "\<exists>t. first_timelock_value M d = Some t \<and> t \<in> fst ` set (recovery_paths p) \<and>
    0 < t \<and> t \<le> U16_MAX \<and> (\<forall>t' \<in> fst ` set (recovery_paths p). t \<le> t')"
proof -
  from desc_policy_wf [OF assms] obtain t path rest where r: "recovery_paths p = (t, path) # rest"
    and ok: "bt_ok (recovery_paths p)" "recovery_ok (recovery_paths p)"
    by (cases "recovery_paths p") (auto simp: policy_wf_def)
  then have "0 < t \<and> t \<le> U16_MAX" "\<forall>t' \<in> fst ` set (recovery_paths p). t \<le> t'"
    by (auto simp: recovery_ok_def bt_ok_Cons)
  then show ?thesis by (simp add: first_timelock_value_def assms r)
qed

section \<open>Partial spends of an input\<close>

text \<open>
  The information about an input exists for every descriptor of the library: what the
  signatures say of the primary path, and of the recovery paths whose timelock the
  input's sequence allows.
\<close>

lemma partial_spend_info_txin_Some:
  assumes "desc_policy M d = Some p"
  obtains info where "partial_spend_info_txin B M d psbt_in txin = Some info"
    "spend_info (primary_path p) (pubkeys_signed (is_taproot d) psbt_in) = Some (psi_primary_path info)"
    "bt_ok (psi_recovery_paths info)"
    "list_all2 (\<lambda>(t, path) (t', si). t' = t \<and>
         spend_info path (pubkeys_signed (is_taproot d) psbt_in) = Some si)
       (filter (\<lambda>(t, _). timelock_available B txin t) (recovery_paths p)) (psi_recovery_paths info)"
proof -
  define signed where "signed = pubkeys_signed (is_taproot d) psbt_in"
  define avail where "avail = filter (\<lambda>(t, _). timelock_available B txin t) (recovery_paths p)"
  define f where "f = (\<lambda>(timelock :: nat, path_info). map_option (Pair timelock) (spend_info path_info signed))"
  obtain primary where primary: "spend_info (primary_path p) signed = Some primary"
    using policy_wf_paths(1) [OF desc_policy_wf(1) [OF assms]] by blast
  have "collect_options f avail \<noteq> None"
    using policy_wf_paths(1) [OF desc_policy_wf(1) [OF assms]]
    by (auto simp: collect_options_eq_None f_def avail_def)
  then obtain recovery where recovery: "collect_options f avail = Some recovery" by blast
  then have all2: "list_all2 (\<lambda>(t, path) (t', si). t' = t \<and> spend_info path signed = Some si) avail recovery"
    unfolding collect_options_eq_Some f_def by (rule list_all2_mono) auto
  then have "map fst recovery = map fst avail"
    by (induction rule: list_all2_induct) auto
  moreover have "bt_ok avail"
    unfolding avail_def using bt_ok_retain [OF desc_policy_wf(4) [OF assms]]
    by (simp add: bt_retain_def)
  ultimately have "bt_ok recovery" by (simp add: bt_ok_def)
  with primary recovery all2 show thesis
    by (intro that [of "\<lparr>psi_primary_path = primary, psi_recovery_paths = recovery\<rparr>"])
      (simp_all add: partial_spend_info_txin_def Let_def assms f_def [symmetric]
        avail_def [symmetric] signed_def [symmetric])
qed

lemma list_all2_map_of:
  assumes "list_all2 (\<lambda>(k, v) (k', w). k' = k \<and> f v = Some w) xs ys"
  shows "map_of ys k = Option.bind (map_of xs k) f"
  using assms by (induction rule: list_all2_induct) auto

lemma map_of_filter_key:
  "map_of (filter (\<lambda>(k, _). P k) m) k = (if P k then map_of m k else None)"
  by (induction m) auto

lemma partial_spend_info_txin_recovery:
  assumes "desc_policy M d = Some p" "partial_spend_info_txin B M d psbt_in txin = Some info"
  shows "map_of (psi_recovery_paths info) t =
    (if timelock_available B txin t
     then Option.bind (map_of (recovery_paths p) t)
       (\<lambda>path. spend_info path (pubkeys_signed (is_taproot d) psbt_in))
     else None)"
proof (rule partial_spend_info_txin_Some [OF assms(1), of B psbt_in txin])
  fix info'
  assume "partial_spend_info_txin B M d psbt_in txin = Some info'"
    "list_all2 (\<lambda>(t, path) (t', si). t' = t \<and>
         spend_info path (pubkeys_signed (is_taproot d) psbt_in) = Some si)
       (filter (\<lambda>(t, _). timelock_available B txin t) (recovery_paths p)) (psi_recovery_paths info')"
  with assms(2) show ?thesis
    by (simp add: list_all2_map_of map_of_filter_key)
qed

lemma psi_bt_ok:
  "desc_policy M d = Some p \<Longrightarrow> partial_spend_info_txin B M d psbt_in txin = Some info \<Longrightarrow>
     bt_ok (psi_recovery_paths info)"
  by (rule partial_spend_info_txin_Some [of M d p B psbt_in txin]) auto

section \<open>Partial spends of a PSBT\<close>

lemma check_inputs_Ok [result_simps]:
  "check_inputs B M d first_txin first_info ins = Ok u \<longleftrightarrow>
     (\<forall>(psbt_in, txin) \<in> set ins. sequence txin = sequence first_txin \<and>
        partial_spend_info_txin B M d psbt_in txin = Some first_info)"
  by (induction B M d first_txin first_info ins rule: check_inputs.induct) (auto split: option.splits)

lemma partial_spend_info_txin_total:
  "desc_policy M d = Some p \<Longrightarrow> partial_spend_info_txin B M d psbt_in txin \<noteq> None"
  by (rule partial_spend_info_txin_Some [of M d p B psbt_in txin]) simp_all

lemma check_inputs_Err:
  assumes "desc_policy M d = Some p" "check_inputs B M d first_txin first_info ins = Err e"
  shows "e = InconsistentPsbt"
  using assms(2)
proof (induction ins)
  case (Cons x ins)
  obtain psbt_in txin where x: "x = (psbt_in, txin)" by fastforce
  obtain info where "partial_spend_info_txin B M d psbt_in txin = Some info"
    using partial_spend_info_txin_total [OF assms(1)] by blast
  with Cons x show ?case by (auto split: if_splits)
qed simp

definition psbt_sane :: "psbt \<Rightarrow> bool" where
  "psbt_sane psbt \<longleftrightarrow> length (psbt_inputs psbt) = length (tx_input (unsigned_tx psbt)) \<and>
     length (psbt_outputs psbt) = length (tx_output (unsigned_tx psbt)) \<and>
     psbt_inputs psbt \<noteq> [] \<and> psbt_outputs psbt \<noteq> []"

lemma partial_spend_info_insane:
  "\<not> psbt_sane psbt \<Longrightarrow> partial_spend_info B M d psbt = Err InsanePsbt"
  by (auto simp: partial_spend_info_def psbt_sane_def)

lemma partial_spend_info_sane:
  assumes "psbt_sane psbt"
  obtains pin pins txin txins where "psbt_inputs psbt = pin # pins"
    "tx_input (unsigned_tx psbt) = txin # txins"
    "partial_spend_info B M d psbt =
      rbind (ok_or DescPanic (partial_spend_info_txin B M d pin txin)) (\<lambda>first_info.
      rbind (check_inputs B M d txin first_info (zip pins txins)) (\<lambda>_. Ok first_info))"
  using assms
  by (cases "psbt_inputs psbt"; cases "tx_input (unsigned_tx psbt)")
    (auto simp: partial_spend_info_def psbt_sane_def)

text \<open>The call succeeds exactly when every input says the same thing.\<close>

lemma partial_spend_info_Ok:
  "partial_spend_info B M d psbt = Ok info \<longleftrightarrow> psbt_sane psbt \<and>
     (\<forall>(pin, txin) \<in> set (zip (psbt_inputs psbt) (tx_input (unsigned_tx psbt))).
        sequence txin = sequence (hd (tx_input (unsigned_tx psbt))) \<and>
        partial_spend_info_txin B M d pin txin = Some info)"
proof (cases "psbt_sane psbt")
  case True
  then show ?thesis
    by (rule partial_spend_info_sane [of psbt B M d]) (auto simp: result_simps True)
qed (simp add: partial_spend_info_insane)

lemma partial_spend_info_Err:
  assumes "desc_policy M d = Some p" "partial_spend_info B M d psbt = Err e"
  shows "e = (if psbt_sane psbt then InconsistentPsbt else InsanePsbt)"
proof (cases "psbt_sane psbt")
  case True
  then show ?thesis
    using assms(2)
    by (rule_tac partial_spend_info_sane [of psbt B M d])
      (auto simp: result_simps partial_spend_info_txin_total [OF assms(1)]
        dest: check_inputs_Err [OF assms(1)])
qed (use assms(2) in \<open>simp add: partial_spend_info_insane\<close>)

section \<open>Pruning\<close>

lemma key_is_for_path_iff:
  assumes "thresh_origins path = Some (k, os)"
  shows "key_is_for_path os fg der_path = key_of_path path (fg, der_path)"
  using thresh_origins_Some(3) [OF assms, of fg "butlast der_path"]
  by (auto simp: key_is_for_path_def key_of_path_def has_path_def split: option.splits)

lemma map_of_bt_retain:
  "bt_ok m \<Longrightarrow> map_of (bt_retain p m) k =
     (case map_of m k of None \<Rightarrow> None | Some v \<Rightarrow> if p k v then Some v else None)"
proof (induction m)
  case (Cons e m)
  have "map_of m (fst e) = None"
    using bt_ok_distinct [OF Cons.prems] by (simp add: map_of_eq_None_iff)
  with Cons show ?case
    by (cases e) (auto simp: bt_retain_def bt_ok_Cons split: option.splits)
qed (simp add: bt_retain_def)

lemma prune_input_idem: "prune_input os (prune_input os pin) = prune_input os pin"
  by (simp add: prune_input_def bt_retain_retain)

definition psbt_in_ok :: "psbt_in \<Rightarrow> bool" where
  "psbt_in_ok pin \<longleftrightarrow> bt_ok (bip32_derivation pin) \<and> bt_ok (tap_key_origins pin)"

lemma filter_map_filter:
  assumes "\<And>x. g x = (case f x of None \<Rightarrow> None | Some y \<Rightarrow> if P y then Some y else None)"
  shows "filter P (List.map_filter g xs) = filter P (List.map_filter f xs)"
  by (induction xs) (simp_all add: List.map_filter_simps assms split: option.splits)

text \<open>Pruning for a path keeps every signature of the path.\<close>

lemma pubkeys_signed_prune:
  assumes "thresh_origins path = Some (k, os)" "psbt_in_ok pin"
  shows "filter (key_of_path path) (pubkeys_signed taproot (prune_input os pin)) =
    filter (key_of_path path) (pubkeys_signed taproot pin)"
proof -
  have ecdsa: "filter (key_of_path path)
        (List.map_filter (\<lambda>((pk, _), _). map_of (bip32_derivation (prune_input os pin)) pk) sigs) =
      filter (key_of_path path) (List.map_filter (\<lambda>((pk, _), _). map_of (bip32_derivation pin) pk) sigs)"
    for sigs :: "((nat \<times> bool) \<times> signature) list"
    by (rule filter_map_filter)
      (use assms(2) in \<open>auto simp: prune_input_def psbt_in_ok_def map_of_bt_retain
        key_is_for_path_iff [OF assms(1)] split: option.splits\<close>)
  define tap where "tap = (\<lambda>(q :: psbt_in) pk. map_option snd (map_of (tap_key_origins q) pk))"
  have tap_prune: "tap (prune_input os pin) pk =
      (case tap pin pk of None \<Rightarrow> None | Some y \<Rightarrow> if key_of_path path y then Some y else None)" for pk
    using assms(2)
    by (auto simp: tap_def prune_input_def psbt_in_ok_def map_of_bt_retain
        key_is_for_path_iff [OF assms(1)] split: option.splits)
  have script: "filter (key_of_path path) (List.map_filter (\<lambda>((pk, _), _). tap (prune_input os pin) pk) sigs) =
      filter (key_of_path path) (List.map_filter (\<lambda>((pk, _), _). tap pin pk) sigs)"
    for sigs :: "((nat \<times> nat) \<times> signature) list"
    by (rule filter_map_filter) (auto simp: tap_prune split: option.splits)
  have same: "tap_script_sigs (prune_input os pin) = tap_script_sigs pin"
    "tap_key_sig (prune_input os pin) = tap_key_sig pin"
    "tap_internal_key (prune_input os pin) = tap_internal_key pin"
    "partial_sigs (prune_input os pin) = partial_sigs pin"
    by (simp_all add: prune_input_def)
  have fold_tap: "map_option snd (map_of (tap_key_origins q) pk) = tap q pk" for q pk
    by (simp add: tap_def)
  have key: "filter (key_of_path path) (case tap_key_sig pin of None \<Rightarrow> []
        | Some _ \<Rightarrow> (case Option.bind (tap_internal_key pin) (tap (prune_input os pin)) of
                       None \<Rightarrow> [] | Some origin \<Rightarrow> [origin])) =
      filter (key_of_path path) (case tap_key_sig pin of None \<Rightarrow> []
        | Some _ \<Rightarrow> (case Option.bind (tap_internal_key pin) (tap pin) of
                       None \<Rightarrow> [] | Some origin \<Rightarrow> [origin]))"
    by (cases "tap_internal_key pin") (auto simp: tap_prune split: option.splits)
  show ?thesis
    unfolding pubkeys_signed_def same fold_tap
    by (cases taproot) (simp_all only: if_True if_False filter_append ecdsa script key)
qed

lemma fold_count_sig_filter:
  "fold (count_sig m) sigs acc = fold (count_sig m) (filter (sig_matches m) sigs) acc"
proof (induction sigs arbitrary: acc)
  case (Cons s sigs)
  then show ?case
    by (cases s; cases acc) (simp add: count_sig_step)
qed simp

lemma spend_info_filter:
  "filter (key_of_path path) sigs = filter (key_of_path path) sigs' \<Longrightarrow>
     spend_info path sigs = spend_info path sigs'"
  unfolding spend_info_def
  by (cases "thresh_origins path")
    (auto simp: fold_count_sig_filter [of _ sigs] fold_count_sig_filter [of _ sigs'] sig_matches_path)

lemma spend_info_prune:
  "thresh_origins path = Some (k, os) \<Longrightarrow> psbt_in_ok pin \<Longrightarrow>
     spend_info path (pubkeys_signed taproot (prune_input os pin)) =
     spend_info path (pubkeys_signed taproot pin)"
  by (rule spend_info_filter) (rule pubkeys_signed_prune)

lemma last_bt_ok_greatest:
  assumes "bt_ok m" "m \<noteq> []"
  shows "\<forall>x \<in> set m. fst x \<le> fst (last m)"
  using assms
proof (induction m)
  case (Cons e m)
  then show ?case
    by (cases "m = []") (auto simp: bt_ok_Cons intro: less_imp_le last_in_set)
qed simp

text \<open>The path that \<open>prune_bip32_derivs_last_avail\<close> prunes for.\<close>

definition last_avail_path :: "liana_policy \<Rightarrow> partial_info \<Rightarrow> path_info \<Rightarrow> bool" where
  "last_avail_path p info path \<longleftrightarrow>
     (if psi_recovery_paths info = [] then path = primary_path p
      else \<exists>t. map_of (recovery_paths p) t = Some path \<and> t \<in> fst ` set (psi_recovery_paths info) \<and>
        (\<forall>t' \<in> fst ` set (psi_recovery_paths info). t' \<le> t))"

lemma psi_recovery_from_policy:
  assumes "desc_policy M d = Some p" "partial_spend_info_txin B M d psbt_in txin = Some info"
    "(t, si) \<in> set (psi_recovery_paths info)"
  shows "\<exists>path. map_of (recovery_paths p) t = Some path \<and> timelock_available B txin t"
proof -
  have "map_of (psi_recovery_paths info) t = Some si"
    using psi_bt_ok [OF assms(1,2)] assms(3) bt_ok_distinct map_of_eq_Some_iff by metis
  then show ?thesis
    by (auto simp: partial_spend_info_txin_recovery [OF assms(1,2)] bind_eq_Some_conv split: if_splits)
qed

lemma partial_spend_info_first:
  assumes "partial_spend_info B M d psbt = Ok info"
  obtains pin txin where "partial_spend_info_txin B M d pin txin = Some info"
    "pin \<in> set (psbt_inputs psbt)" "txin \<in> set (tx_input (unsigned_tx psbt))"
proof -
  have ok: "psbt_sane psbt" "\<forall>(pin, txin) \<in> set (zip (psbt_inputs psbt) (tx_input (unsigned_tx psbt))).
        partial_spend_info_txin B M d pin txin = Some info"
    using assms unfolding partial_spend_info_Ok by auto
  show thesis
    by (rule partial_spend_info_sane [OF ok(1), of B M d]) (use ok(2) that in auto)
qed

lemma prune_last_avail_Ok:
  assumes p: "desc_policy M d = Some p" and info: "partial_spend_info B M d psbt = Ok info"
  shows "\<exists>path k os. last_avail_path p info path \<and> thresh_origins path = Some (k, os) \<and>
    prune_bip32_derivs_last_avail B M d psbt =
      Ok (psbt\<lparr>psbt_inputs := map (prune_input os) (psbt_inputs psbt)\<rparr>)"
proof -
  obtain pin txin where i: "partial_spend_info_txin B M d pin txin = Some info"
    by (rule partial_spend_info_first [OF info])
  obtain path where path: "last_avail_path p info path"
    and pick: "(if psi_recovery_paths info = [] then Ok (primary_path p)
      else ok_or DescPanic (map_of (recovery_paths p) (fst (last (psi_recovery_paths info))))) = Ok path"
    and "path = primary_path p \<or> (\<exists>t. (t, path) \<in> set (recovery_paths p))"
  proof (cases "psi_recovery_paths info = []")
    case False
    define t where "t = fst (last (psi_recovery_paths info))"
    have t: "t \<in> fst ` set (psi_recovery_paths info)"
      unfolding t_def using False by auto
    then obtain path where "map_of (recovery_paths p) t = Some path"
      using psi_recovery_from_policy [OF p i] by fastforce
    moreover have "\<forall>t' \<in> fst ` set (psi_recovery_paths info). t' \<le> t"
      unfolding t_def using last_bt_ok_greatest [OF psi_bt_ok [OF p i] False] by simp
    ultimately show thesis
      using False t
      by (intro that [of path]) (auto simp: last_avail_path_def t_def [symmetric] dest: map_of_SomeD)
  qed (use that [of "primary_path p"] in \<open>simp add: last_avail_path_def\<close>)
  then obtain os where "thresh_origins path = Some (path_threshold path, os)"
    using policy_wf_paths(2) [OF desc_policy_wf(1) [OF p]] by blast
  with path pick show ?thesis
    by (intro exI [of _ path] exI [of _ "path_threshold path"] exI [of _ os])
      (simp add: prune_bip32_derivs_last_avail_def info p prune_bip32_derivs_def)
qed

section \<open>Change outputs\<close>

text \<open>
  An output is reported as change when its script is the one derived from the change
  descriptor at the last step of its derivation path, and as a deposit for the receive one.
\<close>

definition out_kind ::
  "('ms, 'tr) desc_ops \<Rightarrow> ('ms, 'tr) liana_descriptor \<Rightarrow> txout list \<Rightarrow> nat \<times> psbt_out \<Rightarrow> change_output option" where
  "out_kind D d txos = (\<lambda>(i, out). case out_der_index out of
     None \<Rightarrow> None
   | Some j \<Rightarrow>
       if i < length txos then
         if script_pubkey D (change_desc d, j) = txo_script (txos ! i) then Some (ChangeAddress i)
         else if script_pubkey D (receive_desc d, j) = txo_script (txos ! i) then Some (DepositAddress i)
         else None
       else None)"

lemma change_indexes_from_kinds:
  "change_indexes_from D d txos n outs = Some is \<Longrightarrow>
     is = List.map_filter (out_kind D d txos) (enumerate n outs)"
  by (induction D d txos n outs arbitrary: "is" rule: change_indexes_from.induct)
    (auto simp: List.map_filter_simps out_kind_def split: option.splits if_splits)

lemma change_indexes_from_None:
  "change_indexes_from D d txos n outs = None \<longleftrightarrow>
     (\<exists>(i, out) \<in> set (enumerate n outs). i < length txos \<and> (\<exists>j. out_der_index out = Some j \<and> \<not> is_normal j))"
  by (induction D d txos n outs rule: change_indexes_from.induct) (auto split: option.splits)

lemma out_kind_index: "out_kind D d txos (i, out) = Some c \<Longrightarrow> change_output_index c = i"
  by (auto simp: out_kind_def split: option.splits if_splits)

lemma change_indexes_Some:
  assumes "change_indexes D d psbt = Some is" "c \<in> set is"
  shows "change_output_index c < length (psbt_outputs psbt) \<and>
    out_kind D d (tx_output (unsigned_tx psbt))
      (change_output_index c, psbt_outputs psbt ! change_output_index c) = Some c"
  using assms out_kind_index
  by (fastforce simp: change_indexes_def in_set_enumerate_eq List.map_filter_def dest: change_indexes_from_kinds)

lemma change_indexes_all:
  assumes "change_indexes D d psbt = Some is" "i < length (psbt_outputs psbt)"
    "out_kind D d (tx_output (unsigned_tx psbt)) (i, psbt_outputs psbt ! i) = Some c"
  shows "c \<in> set is"
proof -
  have "is = List.map_filter (out_kind D d (tx_output (unsigned_tx psbt))) (enumerate 0 (psbt_outputs psbt))"
    using assms(1) change_indexes_from_kinds by (simp add: change_indexes_def)
  moreover have "(i, psbt_outputs psbt ! i) \<in> set (enumerate 0 (psbt_outputs psbt))"
    using assms(2) by (simp add: in_set_enumerate_eq)
  ultimately show ?thesis using assms(3) by (force simp: List.map_filter_def)
qed

section \<open>Sizes\<close>

text \<open>Virtual bytes are weight units over four, rounded up.\<close>

lemma checked_ceil_div4:
  "Option.bind (checked_add64 w 3) (\<lambda>w'. checked_div w' WITNESS_SCALE_FACTOR) = Some vb \<longleftrightarrow>
     w + 3 \<le> U64_MAX \<and> w \<le> 4 * vb \<and> 4 * vb < w + 4"
  by (auto simp: checked_add64_def checked_div_def)

lemma max_sat_vbytes_ceil:
  "max_sat_vbytes M D d prim = Some vb \<longleftrightarrow>
     (\<exists>w. max_sat_weight M D d prim = Some w \<and> w + 3 \<le> U64_MAX \<and> w \<le> 4 * vb \<and> 4 * vb < w + 4)"
  unfolding max_sat_vbytes_def by (auto simp: bind_eq_Some_conv [of "max_sat_weight M D d prim"] checked_ceil_div4)

lemma unsigned_tx_max_vbytes_ceil:
  "unsigned_tx_max_vbytes B M D d t prim = Some vb \<longleftrightarrow>
     (\<exists>w. unsigned_tx_max_weight B M D d t prim = Some w \<and> w + 3 \<le> U64_MAX \<and> w \<le> 4 * vb \<and> 4 * vb < w + 4)"
  unfolding unsigned_tx_max_vbytes_def
  by (auto simp: bind_eq_Some_conv [of "unsigned_tx_max_weight B M D d t prim"] checked_ceil_div4)

lemma unsigned_tx_max_weight_Some:
  "unsigned_tx_max_weight B M D d t prim = Some w \<longleftrightarrow>
     (\<exists>s. max_sat_weight M D d prim = Some s \<and>
       w = tx_weight B t + s * length (tx_input t) +
         (if tx_input t \<noteq> [] \<and> (\<forall>i \<in> set (tx_input t). witness i = []) then 2 else 0) \<and> w \<le> U64_MAX)"
  by (auto simp: unsigned_tx_max_weight_def Let_def bind_eq_Some_conv checked_add64_Some
      checked_mul64_def list_all_iff)

end
