(* ===== verification/Spend.thy ===== *)
theory Spend
  imports Descriptors
begin

text \<open>
  The creation of spends (\<open>liana/src/spend.rs\<close>): the status of a partially signed
  spend, the sanity checks on outputs and fees, the selection of coins around the
  \<open>bdk_coin_select\<close> crate, the locktime against fee sniping, and \<open>create_spend\<close>.
\<close>

section \<open>The status of a spend\<close>

datatype spend_status =
  Unsigned | Timelocked | Broadcastable | Broadcast | Confirmed | Deprecated | Unknown

text \<open>The order that \<open>derive(PartialOrd, Ord)\<close> gives: the order of the variants.\<close>

primrec spend_status_rank :: "spend_status \<Rightarrow> nat" where
  "spend_status_rank Unsigned = 0"
| "spend_status_rank Timelocked = 1"
| "spend_status_rank Broadcastable = 2"
| "spend_status_rank Broadcast = 3"
| "spend_status_rank Confirmed = 4"
| "spend_status_rank Deprecated = 5"
| "spend_status_rank Unknown = 6"

lemma spend_status_rank_inj [simp]: "spend_status_rank a = spend_status_rank b \<longleftrightarrow> a = b"
  by (cases a; cases b) simp_all

instantiation spend_status :: linorder
begin

definition less_eq_spend_status :: "spend_status \<Rightarrow> spend_status \<Rightarrow> bool" where
  "a \<le> b \<longleftrightarrow> spend_status_rank a \<le> spend_status_rank b"

definition less_spend_status :: "spend_status \<Rightarrow> spend_status \<Rightarrow> bool" where
  "a < b \<longleftrightarrow> spend_status_rank a < spend_status_rank b"

instance
  by standard (auto simp: less_eq_spend_status_def less_spend_status_def)

end

definition deserialize_spend_status :: "string \<Rightarrow> spend_status" where
  "deserialize_spend_status s =
     (if s = ''unsigned'' then Unsigned
      else if s = ''timelocked'' then Timelocked
      else if s = ''broadcastable'' then Broadcastable
      else if s = ''broadcast'' then Broadcast
      else if s = ''confirmed'' then Confirmed
      else if s = ''deprecated'' then Deprecated
      else Unknown)"

text \<open>\<open>serde(rename_all = "lowercase")\<close>.\<close>

primrec serialize_spend_status :: "spend_status \<Rightarrow> string" where
  "serialize_spend_status Unsigned = ''unsigned''"
| "serialize_spend_status Timelocked = ''timelocked''"
| "serialize_spend_status Broadcastable = ''broadcastable''"
| "serialize_spend_status Broadcast = ''broadcast''"
| "serialize_spend_status Confirmed = ''confirmed''"
| "serialize_spend_status Deprecated = ''deprecated''"
| "serialize_spend_status Unknown = ''unknown''"

text \<open>
  Heights are \<open>i32\<close> in the code and integers here: the sums stay far below
  \<open>2^31\<close> for any height a chain reaches. \<open>None\<close> is the failed \<open>expect\<close>.
\<close>

definition from_signatures :: "partial_info \<Rightarrow> int option list \<Rightarrow> int \<Rightarrow> spend_status option" where
  "from_signatures sigs coins_heights tip_height =
     (let primary_signed = path_signed (psi_primary_path sigs);
          recovery_signed = list_ex path_signed (map snd (psi_recovery_paths sigs))
      in if primary_signed then Some Broadcastable
         else if \<not> recovery_signed then Some Unsigned
         else (case List.find (\<lambda>(_, path). path_signed path) (psi_recovery_paths sigs) of
           None \<Rightarrow> None
         | Some (timelock, _) \<Rightarrow>
             (let available = list_all (\<lambda>height. case height of
                    None \<Rightarrow> False
                  | Some height \<Rightarrow> tip_height + 1 \<ge> height + int timelock) coins_heights
              in Some (if available then Broadcastable else Timelocked))))"

section \<open>Constants and errors\<close>

definition DUST_OUTPUT_SATS :: nat where "DUST_OUTPUT_SATS = 500"
definition LONG_TERM_FEERATE_VB :: nat where "LONG_TERM_FEERATE_VB = 5"
definition MAX_FEE :: nat where "MAX_FEE = 100000000"
definition MIN_FEERATE_VB :: nat where "MIN_FEERATE_VB = 1"
definition MAX_FEERATE_VB :: nat where "MAX_FEERATE_VB = 1000"
definition MAX_ANTI_FEE_SNIPING_TIP_AGE_SECS :: nat where
  "MAX_ANTI_FEE_SNIPING_TIP_AGE_SECS = 8 * 60 * 60"

datatype insane_fee_info = NegativeFee | InvalidFeerateInfo | TooHighFee nat | TooHighFeerate nat

datatype spend_creation_error =
  InvalidFeerate nat | InvalidOutputValue nat | InsaneFees insane_fee_info
  | SanityCheckFailure psbt | FetchingTransaction outpoint
  | CoinSelection nat \<comment> \<open>\<open>InsufficientFunds\<close> with the missing value\<close>
  | SpendPanic \<comment> \<open>not in the source: the process panics\<close>
  | SpendDiverges \<comment> \<open>not in the source: the selection loop does not end\<close>

section \<open>Sanity checks\<close>

definition check_output_value :: "btc \<Rightarrow> nat \<Rightarrow> spend_creation_error + unit" where
  "check_output_value B value =
     (if value > max_money B \<or> value < DUST_OUTPUT_SATS then Err (InvalidOutputValue value) else Ok ())"

text \<open>The value of the inputs; \<open>+=\<close> on \<open>u64\<close> wraps in a release build.\<close>

fun psbt_input_value :: "psbt \<Rightarrow> nat \<Rightarrow> psbt_in list \<Rightarrow> spend_creation_error + nat" where
  "psbt_input_value psbt value_in [] = Ok value_in"
| "psbt_input_value psbt value_in (psbtin # rest) =
     (if bip32_derivation psbtin = [] \<and> tap_key_origins psbtin = [] then Err (SanityCheckFailure psbt)
      else (case witness_utxo psbtin of
        None \<Rightarrow> Err (SanityCheckFailure psbt)
      | Some utxo \<Rightarrow> psbt_input_value psbt (wrap64 (value_in + txo_value utxo)) rest))"

definition sum_values :: "txout list \<Rightarrow> nat" where
  "sum_values txos = fold (\<lambda>txo acc. wrap64 (acc + txo_value txo)) txos 0"

definition sanity_check_psbt ::
  "btc \<Rightarrow> ('ms, 'tr) miniscript \<Rightarrow> ('ms, 'tr) desc_ops \<Rightarrow> ('ms, 'tr) liana_descriptor \<Rightarrow> psbt \<Rightarrow> bool
     \<Rightarrow> spend_creation_error + unit" where
  "sanity_check_psbt B M D spent_desc psbt use_primary_path =
     (let t = unsigned_tx psbt in
      if length (psbt_inputs psbt) \<noteq> length (tx_input t) \<or>
         length (psbt_outputs psbt) \<noteq> length (tx_output t) \<or> tx_output t = []
      then Err (SanityCheckFailure psbt)
      else
        rbind (psbt_input_value psbt 0 (psbt_inputs psbt)) (\<lambda>value_in.
        rbind (ok_or (InsaneFees NegativeFee) (checked_sub value_in (sum_values (tx_output t)))) (\<lambda>abs_fee.
        if abs_fee > MAX_FEE then Err (InsaneFees (TooHighFee abs_fee))
        else
          rbind (ok_or SpendPanic (unsigned_tx_max_vbytes B M D spent_desc t use_primary_path)) (\<lambda>tx_vb.
          rbind (ok_or (InsaneFees InvalidFeerateInfo) (checked_div abs_fee tx_vb)) (\<lambda>feerate_sats_vb.
          if \<not> (MIN_FEERATE_VB \<le> feerate_sats_vb \<and> feerate_sats_vb \<le> MAX_FEERATE_VB)
          then Err (InsaneFees (TooHighFeerate feerate_sats_vb))
          else if list_ex (\<lambda>txo. txo_value txo < minimal_non_dust B (txo_script txo)) (tx_output t)
          then Err (SanityCheckFailure psbt)
          else Ok ())))))"

section \<open>Coin selection\<close>

record ancestor_info =
  ai_vsize :: nat
  ai_fee :: nat

record candidate_coin =
  cc_outpoint :: outpoint
  cc_amount :: nat
  cc_deriv_index :: child_number
  cc_is_change :: bool
  cc_must_select :: bool
  cc_sequence :: "nat option"
  cc_ancestor_info :: "ancestor_info option"

record coin_selection_res =
  csr_selected :: "candidate_coin list"
  csr_change_amount :: nat
  csr_max_change_amount :: nat
  csr_fee_for_ancestors :: nat

subsection \<open>The interface of \<open>bdk_coin_select\<close>\<close>

record candidate =
  cand_value :: nat
  cand_weight :: nat
  cand_input_count :: nat
  cand_is_segwit :: bool

record drain_weights =
  dw_output_weight :: nat
  dw_spend_weight :: nat
  dw_n_outputs :: nat

record drain =
  dr_weights :: drain_weights
  dr_value :: nat

record change_policy =
  cp_drain_weights :: drain_weights
  cp_min_value :: nat
  cp_feerate :: nat
  cp_long_term_feerate :: nat

record target =
  tg_rate :: nat
  tg_replace :: "nat option"
  tg_value_sum :: nat
  tg_weight_sum :: nat
  tg_n_outputs :: nat

text \<open>
  The state \<open>'cs\<close> of the selector and its operations. Feerates are whole numbers of
  satoshis per virtual byte: \<open>create_spend\<close> converts a \<open>u16\<close>, which an \<open>f32\<close>
  holds exactly. Scores are ranks; \<open>spwu_fee\<close> is the rounded-up product of a weight
  with the feerate in satoshis per weight unit, computed in \<open>f32\<close> by the code.
\<close>

record 'cs coin_select =
  cs_new :: "candidate list \<Rightarrow> 'cs"
  cs_select :: "nat \<Rightarrow> 'cs \<Rightarrow> 'cs"
  cs_drain :: "target \<Rightarrow> change_policy \<Rightarrow> 'cs \<Rightarrow> drain"
  drain_is_none :: "drain \<Rightarrow> bool"
  lowest_fee_score :: "target \<Rightarrow> change_policy \<Rightarrow> 'cs \<Rightarrow> nat option"
  cs_run_bnb :: "('cs \<Rightarrow> nat option) \<Rightarrow> nat \<Rightarrow> 'cs \<Rightarrow> bool \<times> 'cs"
  cs_sort_by_value_pwu :: "'cs \<Rightarrow> 'cs"
  cs_is_target_met :: "target \<Rightarrow> drain \<Rightarrow> 'cs \<Rightarrow> bool"
  cs_select_next :: "'cs \<Rightarrow> bool \<times> 'cs"
  cs_excess :: "target \<Rightarrow> drain \<Rightarrow> 'cs \<Rightarrow> int"
  cs_selected_indices :: "'cs \<Rightarrow> nat list"
  spwu_fee :: "nat \<Rightarrow> nat \<Rightarrow> nat"
  txin_base_weight :: nat

subsection \<open>The candidates and the loop\<close>

text \<open>The metric of \<open>LowestFeeChangeCondition\<close>.\<close>

definition lowest_fee_change_score ::
  "'cs coin_select \<Rightarrow> target \<Rightarrow> change_policy \<Rightarrow> bool \<Rightarrow> 'cs \<Rightarrow> nat option" where
  "lowest_fee_change_score C target change_policy must_have_change cs =
     (let drain = cs_drain C target change_policy cs in
      if drain_is_none C drain \<and> must_have_change then None
      else lowest_fee_score C target change_policy cs)"

text \<open>The weight added to a candidate so that it pays for its unconfirmed ancestors.\<close>

definition ancestor_extra_weight :: "nat \<Rightarrow> ancestor_info option \<Rightarrow> nat option" where
  "ancestor_extra_weight feerate_vb info = (case info of
     None \<Rightarrow> Some 0
   | Some info \<Rightarrow>
       Option.bind (checked_div (ai_fee info) feerate_vb) (\<lambda>ancestor_vsize_at_feerate.
       checked_mul64 (ai_vsize info - ancestor_vsize_at_feerate) WITNESS_SCALE_FACTOR))"

fun build_candidates ::
  "nat \<Rightarrow> nat \<Rightarrow> candidate_coin list \<Rightarrow> (outpoint \<times> nat) list
     \<Rightarrow> (candidate list \<times> (outpoint \<times> nat) list) option" where
  "build_candidates feerate_vb max_input_weight [] added_weights = Some ([], added_weights)"
| "build_candidates feerate_vb max_input_weight (cand # cands) added_weights =
     Option.bind (ancestor_extra_weight feerate_vb (cc_ancestor_info cand)) (\<lambda>extra.
     if map_of added_weights (cc_outpoint cand) \<noteq> None then None
     else Option.bind (checked_add64 max_input_weight extra) (\<lambda>w.
       map_option (\<lambda>(cs, added). (\<lparr>cand_value = cc_amount cand, cand_weight = w,
           cand_input_count = 1, cand_is_segwit = True\<rparr> # cs, added))
         (build_candidates feerate_vb max_input_weight cands
           (added_weights @ [(cc_outpoint cand, extra)]))))"

definition select_mandatory :: "'cs coin_select \<Rightarrow> candidate_coin list \<Rightarrow> 'cs \<Rightarrow> 'cs" where
  "select_mandatory C candidate_coins selector =
     fold (\<lambda>(i, cand) s. if cc_must_select cand then cs_select C i s else s)
       (enumerate 0 candidate_coins) selector"

text \<open>
  The fallback loop: select the next coin until the target is met. \<open>None\<close> is a loop
  that does not end; \<open>Inl\<close> carries the missing value.
\<close>

partial_function (option) select_until_met ::
  "'cs coin_select \<Rightarrow> target \<Rightarrow> change_policy \<Rightarrow> drain_weights \<Rightarrow> bool \<Rightarrow> 'cs \<Rightarrow> (nat + 'cs) option" where
  "select_until_met C target change_policy drain_weights must_have_change selector =
     (let drain = cs_drain C target change_policy selector in
      if cs_is_target_met C target drain selector \<and> (\<not> drain_is_none C drain \<or> \<not> must_have_change)
      then Some (Inr selector)
      else (let (selected, selector') = cs_select_next C selector in
        if \<not> selected then
          (let drain = (if must_have_change
                 then \<lparr>dr_weights = drain_weights, dr_value = DUST_OUTPUT_SATS\<rparr> else drain)
           in Some (Inl (nat \<bar>cs_excess C target drain selector'\<bar>)))
        else select_until_met C target change_policy drain_weights must_have_change selector'))"

fun checked_sum64 :: "nat \<Rightarrow> nat list \<Rightarrow> nat option" where
  "checked_sum64 acc [] = Some acc"
| "checked_sum64 acc (x # xs) = Option.bind (checked_add64 acc x) (\<lambda>t. checked_sum64 t xs)"

definition bnb_rounds :: "nat \<Rightarrow> nat" where
  "bnb_rounds n = (if n \<ge> 500 then 1000 else if n \<ge> 100 then 10000 else 100000)"

text \<open>The result, once the selection is complete.\<close>

definition selection_result ::
  "'cs coin_select \<Rightarrow> candidate_coin list \<Rightarrow> (outpoint \<times> nat) list \<Rightarrow> target \<Rightarrow> change_policy
     \<Rightarrow> drain_weights \<Rightarrow> nat \<Rightarrow> 'cs \<Rightarrow> coin_selection_res option" where
  "selection_result C candidate_coins added_weights target change_policy drain_weights feerate_vb selector =
     (let change_amount = dr_value (cs_drain C target change_policy selector);
          drain_novalue = \<lparr>dr_weights = drain_weights, dr_value = 0\<rparr>;
          max_change_amount = nat (max (cs_excess C target drain_novalue selector) 0)
      in Option.bind (collect_options
             (\<lambda>i. if i < length candidate_coins then Some (candidate_coins ! i) else None)
             (cs_selected_indices C selector)) (\<lambda>selected.
         Option.bind (collect_options (\<lambda>cand. map_of added_weights (cc_outpoint cand)) selected) (\<lambda>weights.
         Option.bind (checked_sum64 0 weights) (\<lambda>total_added_weight.
         Some \<lparr>csr_selected = selected, csr_change_amount = change_amount,
           csr_max_change_amount = max_change_amount,
           csr_fee_for_ancestors = spwu_fee C feerate_vb total_added_weight\<rparr>))))"

definition select_coins_for_spend ::
  "btc \<Rightarrow> 'cs coin_select \<Rightarrow> candidate_coin list \<Rightarrow> tx \<Rightarrow> txout \<Rightarrow> nat \<Rightarrow> nat option \<Rightarrow> nat \<Rightarrow> bool
     \<Rightarrow> spend_creation_error + coin_selection_res" where
  "select_coins_for_spend B C candidate_coins base_tx change_txo feerate_vb replaced_fee max_sat_wu must_have_change =
     (let out_value_nochange = sum_values (tx_output base_tx);
          max_input_weight = wrap64 (txin_base_weight C + max_sat_wu)
      in
      rbind (ok_or SpendPanic (checked_sum64 0 (map (txout_weight B) (tx_output base_tx)))) (\<lambda>out_weight_nochange.
      rbind (ok_or SpendPanic (build_candidates feerate_vb max_input_weight candidate_coins [])) (\<lambda>(candidates, added_weights).
      let selector = select_mandatory C candidate_coins (cs_new C candidates);
          drain_weights = \<lparr>dw_output_weight = txout_weight B change_txo,
            dw_spend_weight = max_input_weight, dw_n_outputs = 1\<rparr>;
          change_policy = \<lparr>cp_drain_weights = drain_weights, cp_min_value = DUST_OUTPUT_SATS - 1,
            cp_feerate = feerate_vb, cp_long_term_feerate = LONG_TERM_FEERATE_VB\<rparr>;
          target = \<lparr>tg_rate = feerate_vb, tg_replace = replaced_fee, tg_value_sum = out_value_nochange,
            tg_weight_sum = out_weight_nochange, tg_n_outputs = length (tx_output base_tx)\<rparr>;
          (found, selector) = cs_run_bnb C
            (lowest_fee_change_score C target change_policy must_have_change)
            (bnb_rounds (length candidate_coins)) selector
      in
      rbind (if found then Ok selector
             else (case select_until_met C target change_policy drain_weights must_have_change
                      (cs_sort_by_value_pwu C selector) of
               None \<Rightarrow> Err SpendDiverges
             | Some (Inl missing) \<Rightarrow> Err (CoinSelection missing)
             | Some (Inr selector) \<Rightarrow> Ok selector)) (\<lambda>selector.
      ok_or SpendPanic
        (selection_result C candidate_coins added_weights target change_policy drain_weights feerate_vb selector)))))"

section \<open>The locktime against fee sniping\<close>

text \<open>
  \<open>now\<close> is a \<open>Duration\<close>: whole seconds and nanoseconds. The locktime is a block
  height; \<open>LockTime::from_height\<close> accepts heights below 500 million.
\<close>

abbreviation LOCK_TIME_THRESHOLD :: nat where "LOCK_TIME_THRESHOLD \<equiv> 500000000"

definition anti_fee_sniping_locktime :: "nat \<Rightarrow> nat \<Rightarrow> nat \<Rightarrow> nat option \<Rightarrow> nat option" where
  "anti_fee_sniping_locktime now_secs nanos tip_height tip_time_secs =
     (case Option.bind tip_time_secs (\<lambda>tip_time.
         let tip_age = now_secs - tip_time
         in if tip_age \<le> MAX_ANTI_FEE_SNIPING_TIP_AGE_SECS then Some tip_age else None) of
        None \<Rightarrow> Some 0
      | Some _ \<Rightarrow>
          (let delta = (if nanos mod 10 = 1 then (nanos mod 1000) div 10 + 1 else 0);
               height = tip_height - delta
           in if height < LOCK_TIME_THRESHOLD then Some height else None))"

section \<open>The creation of a spend\<close>

record addr_info =
  adi_index :: child_number
  adi_is_change :: bool

record spend_output_address =
  soa_addr :: address
  soa_info :: "addr_info option"

datatype spend_tx_fees = Fees_Regular nat | Fees_Rbf nat nat

datatype create_spend_warning = ChangeAddedToFee nat | AdditionalFeeForAncestors nat

record create_spend_res =
  res_psbt :: psbt
  res_has_change :: bool
  res_warnings :: "create_spend_warning list"

definition desc_of_keychain :: "('ms, 'tr) liana_descriptor \<Rightarrow> bool \<Rightarrow> ('ms, 'tr) descriptor" where
  "desc_of_keychain d is_change = (if is_change then change_desc d else receive_desc d)"

definition candidate_derived_desc ::
  "('ms, 'tr) liana_descriptor \<Rightarrow> candidate_coin \<Rightarrow> ('ms, 'tr) derived option" where
  "candidate_derived_desc d coin = derive (desc_of_keychain d (cc_is_change coin)) (cc_deriv_index coin)"

text \<open>The PSBT output for an address, with its derivations when the address is ours.\<close>

definition psbt_out_for ::
  "('ms, 'tr) desc_ops \<Rightarrow> ('ms, 'tr) liana_descriptor \<Rightarrow> addr_info option \<Rightarrow> psbt_out option" where
  "psbt_out_for D d info = (case info of
     None \<Rightarrow> Some default_psbt_out
   | Some i \<Rightarrow>
       Option.bind (derive (desc_of_keychain d (adi_is_change i)) (adi_index i)) (\<lambda>der.
       update_change_psbt_out D der default_psbt_out))"

definition destination_output ::
  "btc \<Rightarrow> ('ms, 'tr) desc_ops \<Rightarrow> ('ms, 'tr) liana_descriptor \<Rightarrow> spend_output_address \<times> nat
     \<Rightarrow> spend_creation_error + txout \<times> psbt_out" where
  "destination_output B D d = (\<lambda>(address, amount).
     rbind (check_output_value B amount) (\<lambda>_.
     rbind (ok_or SpendPanic (psbt_out_for D d (soa_info address))) (\<lambda>out.
     Ok (\<lparr>txo_value = amount, txo_script = addr_script B (soa_addr address)\<rparr>, out))))"

text \<open>
  The inputs, one per selected candidate. The getter \<open>get_tx\<close> of wallet transactions
  carries a cache, threaded through the loop.
\<close>

fun build_inputs ::
  "btc \<Rightarrow> ('ms, 'tr) desc_ops \<Rightarrow> ('ms, 'tr) liana_descriptor \<Rightarrow> (txid \<Rightarrow> 'g \<Rightarrow> tx option \<times> 'g) \<Rightarrow> 'g
     \<Rightarrow> candidate_coin list \<Rightarrow> ((txin \<times> psbt_in) list \<times> 'g) option" where
  "build_inputs B D d get_tx g [] = Some ([], g)"
| "build_inputs B D d get_tx g (cand # cands) =
     (let sequence = (case cc_sequence cand of Some s \<Rightarrow> s | None \<Rightarrow> enable_rbf_no_locktime B);
          txin = \<lparr>previous_output = cc_outpoint cand, sequence = sequence, witness = []\<rparr>
      in Option.bind (candidate_derived_desc d cand) (\<lambda>coin_desc.
         Option.bind (update_psbt_in D coin_desc default_psbt_in) (\<lambda>psbt_in.
         let psbt_in = psbt_in\<lparr>witness_utxo := Some \<lparr>txo_value = cc_amount cand,
               txo_script = script_pubkey D coin_desc\<rparr>\<rparr>;
             (psbt_in, g) = (if \<not> is_taproot d
               then (let (t, g) = get_tx (op_txid (cc_outpoint cand)) g
                     in (psbt_in\<lparr>non_witness_utxo := t\<rparr>, g))
               else (psbt_in, g))
         in map_option (\<lambda>(ins, g). ((txin, psbt_in) # ins, g)) (build_inputs B D d get_tx g cands))))"

definition use_primary_path :: "btc \<Rightarrow> candidate_coin list \<Rightarrow> bool" where
  "use_primary_path B candidate_coins \<longleftrightarrow>
     \<not> list_ex (\<lambda>cand. case cc_sequence cand of None \<Rightarrow> False | Some seq \<Rightarrow> is_relative_lock_time B seq)
       candidate_coins"

definition spend_change_output ::
  "btc \<Rightarrow> ('ms, 'tr) desc_ops \<Rightarrow> ('ms, 'tr) liana_descriptor \<Rightarrow> spend_output_address \<Rightarrow> nat
     \<Rightarrow> spend_creation_error + (txout \<times> psbt_out) list" where
  "spend_change_output B D d change_addr change_amount =
     (if change_amount > 0
      then rbind (destination_output B D d (change_addr, change_amount)) (\<lambda>txo. Ok [txo])
      else Ok [])"

definition spend_warnings :: "coin_selection_res \<Rightarrow> create_spend_warning list" where
  "spend_warnings sel =
     (if csr_change_amount sel > 0 then []
      else if csr_max_change_amount sel > 0 then [ChangeAddedToFee (csr_max_change_amount sel)] else [])
     @ (if csr_fee_for_ancestors sel > 0 then [AdditionalFeeForAncestors (csr_fee_for_ancestors sel)] else [])"

definition create_spend ::
  "btc \<Rightarrow> ('ms, 'tr) miniscript \<Rightarrow> ('ms, 'tr) desc_ops \<Rightarrow> 'cs coin_select \<Rightarrow> ('ms, 'tr) liana_descriptor
     \<Rightarrow> (txid \<Rightarrow> 'g \<Rightarrow> tx option \<times> 'g) \<Rightarrow> 'g \<Rightarrow> (spend_output_address \<times> nat) list \<Rightarrow> candidate_coin list
     \<Rightarrow> spend_tx_fees \<Rightarrow> spend_output_address \<Rightarrow> nat \<Rightarrow> spend_creation_error + create_spend_res \<times> 'g" where
  "create_spend B M D C main_descriptor get_tx g destinations candidate_coins fees change_addr locktime =
     (let (feerate_vb, replaced_fee) = (case fees of
            Fees_Regular feerate \<Rightarrow> (feerate, None)
          | Fees_Rbf feerate fee \<Rightarrow> (feerate, Some fee));
          is_self_send = (destinations = [])
      in
      if feerate_vb < MIN_FEERATE_VB then Err (InvalidFeerate feerate_vb)
      else
        rbind (collect_results (destination_output B D main_descriptor) destinations) (\<lambda>dests.
        let base_tx = \<lparr>tx_version = 2, lock_time = locktime, tx_input = [], tx_output = map fst dests\<rparr>;
            change_txo = \<lparr>txo_value = U64_MAX, txo_script = addr_script B (soa_addr change_addr)\<rparr>;
            use_primary = use_primary_path B candidate_coins
        in
        if feerate_vb > U16_MAX then Err (InsaneFees (TooHighFeerate feerate_vb))
        else
          rbind (ok_or SpendPanic (max_sat_weight M D main_descriptor use_primary)) (\<lambda>max_sat_wu.
          rbind (select_coins_for_spend B C candidate_coins base_tx change_txo feerate_vb replaced_fee
                   max_sat_wu is_self_send) (\<lambda>sel.
          rbind (spend_change_output B D main_descriptor change_addr (csr_change_amount sel)) (\<lambda>change.
          rbind (ok_or SpendPanic (build_inputs B D main_descriptor get_tx g (csr_selected sel))) (\<lambda>(ins, g).
          let psbt = \<lparr>unsigned_tx = base_tx\<lparr>tx_input := map fst ins, tx_output := map fst (dests @ change)\<rparr>,
                psbt_inputs = map snd ins, psbt_outputs = map snd (dests @ change)\<rparr>
          in
          rbind (sanity_check_psbt B M D main_descriptor psbt use_primary) (\<lambda>_.
          Ok (\<lparr>res_psbt = psbt, res_has_change = (csr_change_amount sel > 0),
                res_warnings = spend_warnings sel\<rparr>, g))))))))"

section \<open>The status of a spend\<close>

lemma spend_status_roundtrip: "deserialize_spend_status (serialize_spend_status st) = st"
  by (cases st) (simp_all add: deserialize_spend_status_def)

lemma find_first_bt:
  assumes "bt_ok m" "List.find (\<lambda>(_, v). P v) m = Some (k, v)"
  shows "map_of m k = Some v \<and> P v \<and> (\<forall>k' v'. map_of m k' = Some v' \<longrightarrow> P v' \<longrightarrow> k \<le> k')"
  using assms
proof (induction m)
  case (Cons e m)
  show ?case
  proof (cases "P (snd e)")
    case True
    with Cons.prems have "e = (k, v)" by (cases e) (auto split: if_splits)
    with True Cons.prems(1) show ?thesis
      by (auto simp: bt_ok_Cons dest!: map_of_SomeD intro: less_imp_le split: if_splits)
  next
    case False
    then have "List.find (\<lambda>(_, v). P v) m = Some (k, v)"
      using Cons.prems(2) by (cases e) (auto split: if_splits)
    from Cons.IH [OF _ this] Cons.prems(1) have IH: "map_of m k = Some v \<and> P v \<and>
        (\<forall>k' v'. map_of m k' = Some v' \<longrightarrow> P v' \<longrightarrow> k \<le> k')"
      by (simp add: bt_ok_Cons)
    then have "fst e < k" using Cons.prems(1) by (force simp: bt_ok_Cons dest: map_of_SomeD)
    with IH False show ?thesis by (cases e) (auto split: if_splits)
  qed
qed simp

text \<open>Every coin is confirmed and old enough for a timelock at the next block.\<close>

definition timelock_matured :: "nat \<Rightarrow> int option list \<Rightarrow> int \<Rightarrow> bool" where
  "timelock_matured timelock heights tip \<longleftrightarrow>
     (\<forall>h \<in> set heights. \<exists>height. h = Some height \<and> height + int timelock \<le> tip + 1)"

lemma find_None_iff_ex: "List.find P xs = None \<longleftrightarrow> \<not> (\<exists>x \<in> set xs. P x)"
  by (auto simp: find_None_iff)

lemma from_signatures_cases:
  "from_signatures sigs heights tip =
    (if path_signed (psi_primary_path sigs) then Some Broadcastable
     else case List.find (\<lambda>(_, path). path_signed path) (psi_recovery_paths sigs) of
       None \<Rightarrow> Some Unsigned
     | Some (t, _) \<Rightarrow> Some (if timelock_matured t heights tip then Broadcastable else Timelocked))"
proof -
  have "list_ex path_signed (map snd m) \<longleftrightarrow> List.find (\<lambda>(_, path). path_signed path) m \<noteq> None"
    for m :: "(nat \<times> path_spend_info) list"
    unfolding find_None_iff_ex by (force simp: list_ex_iff)
  moreover have "list_all (\<lambda>height. case height of None \<Rightarrow> False
      | Some height \<Rightarrow> tip + 1 \<ge> height + int t) heights \<longleftrightarrow> timelock_matured t heights tip" for t
    by (auto simp: list_all_iff timelock_matured_def split: option.splits)
  ultimately show ?thesis
    by (simp add: from_signatures_def Let_def split: option.splits)
qed

section \<open>The sanity checks\<close>

lemma check_output_value_Ok [result_simps]:
  "check_output_value B v = Ok u \<longleftrightarrow> DUST_OUTPUT_SATS \<le> v \<and> v \<le> max_money B"
  by (auto simp: check_output_value_def)

lemma wrap64_add_left [simp]: "wrap64 (wrap64 a + b) = wrap64 (a + b)"
  by (simp add: wrap64_def mod_add_left_eq)

lemma wrap64_wrap64 [simp]: "wrap64 (wrap64 a) = wrap64 a"
  by (simp add: wrap64_def)

lemma sum_values_wrap: "sum_values txos = wrap64 (sum_list (map txo_value txos))"
proof -
  have "fold (\<lambda>txo acc. wrap64 (acc + txo_value txo)) txos (wrap64 a) =
      wrap64 (a + sum_list (map txo_value txos))" for a
    by (induction txos arbitrary: a) (simp_all add: add.assoc)
  from this [of 0] show ?thesis by (simp add: sum_values_def)
qed

definition utxo_value :: "psbt_in \<Rightarrow> nat" where
  "utxo_value pin = (case witness_utxo pin of None \<Rightarrow> 0 | Some utxo \<Rightarrow> txo_value utxo)"

lemma psbt_input_value_Ok:
  "psbt_input_value psbt (wrap64 v) pins = Ok r \<longleftrightarrow>
     (\<forall>pin \<in> set pins. (bip32_derivation pin \<noteq> [] \<or> tap_key_origins pin \<noteq> []) \<and> witness_utxo pin \<noteq> None) \<and>
     r = wrap64 (v + sum_list (map utxo_value pins))"
  by (induction pins arbitrary: v) (auto simp: utxo_value_def add.assoc split: option.splits)

lemma sanity_check_psbt_Ok:
  "sanity_check_psbt B M D d psbt prim = Ok u \<longleftrightarrow>
    length (psbt_inputs psbt) = length (tx_input (unsigned_tx psbt)) \<and>
    length (psbt_outputs psbt) = length (tx_output (unsigned_tx psbt)) \<and>
    tx_output (unsigned_tx psbt) \<noteq> [] \<and>
    (\<forall>pin \<in> set (psbt_inputs psbt). (bip32_derivation pin \<noteq> [] \<or> tap_key_origins pin \<noteq> []) \<and> witness_utxo pin \<noteq> None) \<and>
    (\<forall>txo \<in> set (tx_output (unsigned_tx psbt)). minimal_non_dust B (txo_script txo) \<le> txo_value txo) \<and>
    (\<exists>fee vb. wrap64 (sum_list (map utxo_value (psbt_inputs psbt))) =
          wrap64 (sum_list (map txo_value (tx_output (unsigned_tx psbt)))) + fee \<and> fee \<le> MAX_FEE \<and>
        unsigned_tx_max_vbytes B M D d (unsigned_tx psbt) prim = Some vb \<and> 0 < vb \<and>
        MIN_FEERATE_VB \<le> fee div vb \<and> fee div vb \<le> MAX_FEERATE_VB)"
proof -
  have z: "psbt_input_value psbt 0 pins = psbt_input_value psbt (wrap64 0) pins" for pins by simp
  show ?thesis
    unfolding sanity_check_psbt_def Let_def z sum_values_wrap
    by (auto simp: result_simps psbt_input_value_Ok checked_sub_Some checked_div_Some
        list_ex_iff linorder_not_less simp del: wrap64_id)
qed

text \<open>The bounds on the feerate, as a bound on the fee in terms of the size.\<close>

lemma feerate_bounds:
  assumes "0 < (vb :: nat)" "MIN_FEERATE_VB \<le> fee div vb" "fee div vb \<le> MAX_FEERATE_VB"
  shows "vb \<le> fee \<and> fee < (MAX_FEERATE_VB + 1) * vb"
proof -
  have "vb \<le> fee" using assms(1,2) div_less [of fee vb] by (cases "fee < vb") (simp_all add: MIN_FEERATE_VB_def)
  moreover have "fee < (fee div vb + 1) * vb"
    using assms(1) dividend_less_div_times [of vb fee] by (simp add: algebra_simps)
  then have "fee < (MAX_FEERATE_VB + 1) * vb"
    using assms(3) by (meson add_le_mono1 less_le_trans mult_le_mono1)
  ultimately show ?thesis by simp
qed

section \<open>Coin selection\<close>

lemma ancestor_extra_weight_Some:
  assumes "ancestor_extra_weight rate (Some info) = Some extra"
  shows "extra = 4 * (ai_vsize info - ai_fee info div rate)" "0 < rate"
    "ai_vsize info * rate \<le> ai_fee info + (extra div 4) * rate"
    "0 < extra \<Longrightarrow> ai_fee info + (extra div 4) * rate < (ai_vsize info + 1) * rate"
proof -
  show extra: "extra = 4 * (ai_vsize info - ai_fee info div rate)" and rate: "0 < rate"
    using assms by (auto simp: ancestor_extra_weight_def checked_div_def checked_mul64_def bind_eq_Some_conv split: if_splits)
  have le: "ai_fee info div rate * rate \<le> ai_fee info" by simp
  have lt: "ai_fee info < (ai_fee info div rate + 1) * rate"
    using rate dividend_less_div_times [of rate "ai_fee info"] by (simp add: algebra_simps)
  show "ai_vsize info * rate \<le> ai_fee info + (extra div 4) * rate"
  proof (cases "ai_vsize info \<le> ai_fee info div rate")
    case True
    then have "ai_vsize info * rate \<le> ai_fee info div rate * rate" by (rule mult_le_mono1)
    with le show ?thesis by linarith
  next
    case False
    then have "ai_vsize info * rate = ai_fee info div rate * rate + (extra div 4) * rate"
      using extra by (simp add: add_mult_distrib [symmetric])
    with le show ?thesis by linarith
  qed
  show "ai_fee info + (extra div 4) * rate < (ai_vsize info + 1) * rate" if "0 < extra"
  proof -
    have "(extra div 4) * rate + (ai_fee info div rate) * rate = ai_vsize info * rate"
      using that extra by (simp add: add_mult_distrib [symmetric])
    with lt show ?thesis by (simp add: algebra_simps)
  qed
qed

lemma build_candidates_Some:
  assumes "build_candidates rate w cands added = Some (cs, added')"
  shows "length cs = length cands" "map fst added' = map fst added @ map cc_outpoint cands"
    "distinct (map fst added) \<Longrightarrow> distinct (map fst added')"
    "\<forall>i < length cands. \<exists>extra. ancestor_extra_weight rate (cc_ancestor_info (cands ! i)) = Some extra \<and>
       cs ! i = \<lparr>cand_value = cc_amount (cands ! i), cand_weight = w + extra,
         cand_input_count = 1, cand_is_segwit = True\<rparr>"
  using assms
proof (induction cands arbitrary: added cs)
  case (Cons cand cands)
  {
    case 1
    then show ?case using Cons.IH(1) by (auto simp: bind_eq_Some_conv split: if_splits)
  next
    case 2
    then show ?case using Cons.IH(2) by (fastforce simp: bind_eq_Some_conv split: if_splits)
  next
    case 3
    obtain extra cs' where fresh: "cc_outpoint cand \<notin> fst ` set added"
      and r: "build_candidates rate w cands (added @ [(cc_outpoint cand, extra)]) = Some (cs', added')"
      using 3(2) by (auto simp: bind_eq_Some_conv map_of_eq_None_iff split: if_splits)
    have "distinct (map fst (added @ [(cc_outpoint cand, extra)]))" using fresh 3(1) by simp
    from Cons.IH(3) [OF this r] show ?case .
  next
    case 4
    then obtain extra cs' where e: "ancestor_extra_weight rate (cc_ancestor_info cand) = Some extra"
      and cs: "cs = \<lparr>cand_value = cc_amount cand, cand_weight = w + extra,
         cand_input_count = 1, cand_is_segwit = True\<rparr> # cs'"
      and r: "build_candidates rate w cands (added @ [(cc_outpoint cand, extra)]) = Some (cs', added')"
      by (auto simp: bind_eq_Some_conv checked_add64_Some split: if_splits)
    from Cons.IH(4) [OF r] e cs show ?case by (auto simp: nth_Cons split: nat.splits)
  }
qed simp_all

text \<open>
  The fallback loop ends when a successful \<open>select_next\<close> uses up one of finitely many
  candidates, and it only ends with a selection that meets the target.
\<close>

definition selector_progress :: "'cs coin_select \<Rightarrow> ('cs \<Rightarrow> nat) \<Rightarrow> bool" where
  "selector_progress C remaining \<longleftrightarrow>
     (\<forall>s s'. cs_select_next C s = (True, s') \<longrightarrow> remaining s' < remaining s)"

lemma select_until_met_terminates:
  assumes "selector_progress C remaining"
  shows "\<exists>r. select_until_met C target cp dw must s = Some r"
proof (induction "remaining s" arbitrary: s rule: less_induct)
  case less
  obtain b s' where n: "cs_select_next C s = (b, s')" by fastforce
  show ?case
  proof (cases b)
    case True
    with n assms have "remaining s' < remaining s" by (simp add: selector_progress_def)
    from less [OF this] show ?thesis
      by (subst select_until_met.simps) (simp add: n True Let_def)
  next
    case False
    then show ?thesis by (subst select_until_met.simps) (simp add: n Let_def)
  qed
qed

lemma select_until_met_Inr:
  assumes "select_until_met C target cp dw must s = Some (Inr s')"
  shows "cs_is_target_met C target (cs_drain C target cp s') s' \<and>
    (must \<longrightarrow> \<not> drain_is_none C (cs_drain C target cp s'))"
proof -
  have "select_until_met C target cp dw must s = Some r \<Longrightarrow> (\<forall>s'. r = Inr s' \<longrightarrow>
      cs_is_target_met C target (cs_drain C target cp s') s' \<and>
      (must \<longrightarrow> \<not> drain_is_none C (cs_drain C target cp s')))" for r
    by (rule select_until_met.raw_induct [of "\<lambda>C target cp dw must s r. \<forall>s'. r = Inr s' \<longrightarrow>
        cs_is_target_met C target (cs_drain C target cp s') s' \<and>
        (must \<longrightarrow> \<not> drain_is_none C (cs_drain C target cp s'))"])
      (auto simp: Let_def split: if_splits prod.splits)
  with assms show ?thesis by blast
qed

section \<open>The locktime\<close>

lemma anti_fee_sniping_bounds:
  assumes "tip < LOCK_TIME_THRESHOLD"
  shows "\<exists>h. anti_fee_sniping_locktime secs nanos tip time = Some h \<and> h \<le> tip \<and>
    (h = 0 \<or> tip \<le> h + 100) \<and>
    (h \<noteq> 0 \<longrightarrow> (\<exists>t. time = Some t \<and> secs \<le> t + MAX_ANTI_FEE_SNIPING_TIP_AGE_SECS))"
proof -
  have "(nanos mod 1000) div 10 + 1 \<le> 100"
    using mod_less_divisor [of 1000 nanos] by linarith
  with assms show ?thesis
    by (auto simp: anti_fee_sniping_locktime_def Let_def bind_eq_Some_conv split: option.splits if_splits)
qed

section \<open>The shape of a created spend\<close>

lemma destination_output_Ok:
  "destination_output B D d (address, amount) = Ok (txo, out) \<longleftrightarrow>
     DUST_OUTPUT_SATS \<le> amount \<and> amount \<le> max_money B \<and> psbt_out_for D d (soa_info address) = Some out \<and>
     txo = \<lparr>txo_value = amount, txo_script = addr_script B (soa_addr address)\<rparr>"
  by (auto simp: destination_output_def result_simps)

definition pays :: "btc \<Rightarrow> spend_output_address \<times> nat \<Rightarrow> txout" where
  "pays B = (\<lambda>(address, amount). \<lparr>txo_value = amount, txo_script = addr_script B (soa_addr address)\<rparr>)"

lemma destination_outputs_Ok:
  assumes "collect_results (destination_output B D d) destinations = Ok dests"
  shows "map fst dests = map (pays B) destinations"
    "\<forall>(_, amount) \<in> set destinations. DUST_OUTPUT_SATS \<le> amount \<and> amount \<le> max_money B"
proof -
  have all2: "list_all2 (\<lambda>x y. destination_output B D d x = Ok y) destinations dests"
    using assms unfolding collect_results_eq_Inr .
  then show "map fst dests = map (pays B) destinations"
    by (induction rule: list_all2_induct) (auto simp: destination_output_Ok pays_def)
  from all2 show "\<forall>(_, amount) \<in> set destinations. DUST_OUTPUT_SATS \<le> amount \<and> amount \<le> max_money B"
    by (induction rule: list_all2_induct) (auto simp: destination_output_Ok)
qed

definition change_payment :: "spend_output_address \<Rightarrow> nat \<Rightarrow> (spend_output_address \<times> nat) list" where
  "change_payment change_addr amount = (if amount > 0 then [(change_addr, amount)] else [])"

lemma change_output_Ok:
  assumes "spend_change_output B D d change_addr amount = Ok change"
  shows "map fst change = map (pays B) (change_payment change_addr amount)"
    "amount > 0 \<Longrightarrow> DUST_OUTPUT_SATS \<le> amount \<and> amount \<le> max_money B"
  using assms
  by (auto simp: spend_change_output_def result_simps destination_output_Ok pays_def change_payment_def split: if_splits)

definition spends :: "btc \<Rightarrow> candidate_coin \<Rightarrow> txin" where
  "spends B cand = \<lparr>previous_output = cc_outpoint cand,
     sequence = (case cc_sequence cand of Some s \<Rightarrow> s | None \<Rightarrow> enable_rbf_no_locktime B), witness = []\<rparr>"

lemma build_inputs_Some:
  assumes "build_inputs B D d get_tx g cands = Some (ins, g')"
  shows "map fst ins = map (spends B) cands"
    "list_all2 (\<lambda>cand (_, pin). \<exists>der. candidate_derived_desc d cand = Some der \<and>
       witness_utxo pin = Some \<lparr>txo_value = cc_amount cand, txo_script = script_pubkey D der\<rparr>) cands ins"
  using assms
  by (induction B D d get_tx g cands arbitrary: ins rule: build_inputs.induct)
    (auto simp: Let_def bind_eq_Some_conv spends_def split: prod.splits if_splits)

lemma build_inputs_values:
  assumes "build_inputs B D d get_tx g cands = Some (ins, g')"
  shows "map utxo_value (map snd ins) = map cc_amount cands"
  using build_inputs_Some(2) [OF assms]
  by (induction rule: list_all2_induct) (auto simp: utxo_value_def)

lemma selection_result_Some:
  assumes "selection_result C cands added target cp dw rate s = Some sel"
  shows "set (csr_selected sel) \<subseteq> set cands"
    "list_all2 (\<lambda>i cand. i < length cands \<and> cand = cands ! i) (cs_selected_indices C s) (csr_selected sel)"
    "csr_change_amount sel = dr_value (cs_drain C target cp s)"
proof -
  obtain selected where c: "collect_options (\<lambda>i. if i < length cands then Some (cands ! i) else None)
      (cs_selected_indices C s) = Some selected" and sel: "csr_selected sel = selected"
    and change: "csr_change_amount sel = dr_value (cs_drain C target cp s)"
    using assms by (auto simp: selection_result_def Let_def bind_eq_Some_conv)
  have all2: "list_all2 (\<lambda>i cand. i < length cands \<and> cand = cands ! i) (cs_selected_indices C s) selected"
    using c unfolding collect_options_eq_Some by (rule list_all2_mono) (auto split: if_splits)
  then show "list_all2 (\<lambda>i cand. i < length cands \<and> cand = cands ! i) (cs_selected_indices C s) (csr_selected sel)"
    by (simp add: sel)
  from all2 have "set selected \<subseteq> set cands"
    by (induction rule: list_all2_induct) auto
  then show "set (csr_selected sel) \<subseteq> set cands" "csr_change_amount sel = dr_value (cs_drain C target cp s)"
    by (simp_all add: sel change)
qed

lemma select_coins_for_spend_Ok:
  assumes "select_coins_for_spend B C cands base change_txo rate replaced w must = Ok sel"
  shows "set (csr_selected sel) \<subseteq> set cands" "distinct (map cc_outpoint cands)"
proof -
  obtain cs added where b: "build_candidates rate (wrap64 (txin_base_weight C + w)) cands [] = Some (cs, added)"
    using assms by (auto simp: select_coins_for_spend_def Let_def result_simps)
  from build_candidates_Some(2,3) [OF b] show "distinct (map cc_outpoint cands)" by simp
  have "\<exists>t cp dw s. selection_result C cands added t cp dw rate s = Some sel"
    using assms unfolding select_coins_for_spend_def Let_def
    by (auto simp: b result_simps case_prod_beta)
  then show "set (csr_selected sel) \<subseteq> set cands"
    using selection_result_Some(1) by metis
qed

text \<open>The coins, outputs, locktime and warnings of a spend, and the checks it passed.\<close>

lemma create_spend_Ok:
  assumes "create_spend B M D C d get_tx g destinations cands fees change_addr locktime = Ok (res, g')"
  obtains sel where
    "set (csr_selected sel) \<subseteq> set cands" "distinct (map cc_outpoint cands)"
    "map previous_output (tx_input (unsigned_tx (res_psbt res))) = map cc_outpoint (csr_selected sel)"
    "tx_input (unsigned_tx (res_psbt res)) = map (spends B) (csr_selected sel)"
    "tx_output (unsigned_tx (res_psbt res)) =
       map (pays B) (destinations @ change_payment change_addr (csr_change_amount sel))"
    "\<forall>(_, amount) \<in> set (destinations @ change_payment change_addr (csr_change_amount sel)).
       DUST_OUTPUT_SATS \<le> amount \<and> amount \<le> max_money B"
    "map utxo_value (psbt_inputs (res_psbt res)) = map cc_amount (csr_selected sel)"
    "lock_time (unsigned_tx (res_psbt res)) = locktime"
    "res_has_change res \<longleftrightarrow> csr_change_amount sel > 0" "res_warnings res = spend_warnings sel"
    "sanity_check_psbt B M D d (res_psbt res) (use_primary_path B cands) = Ok ()"
proof -
  obtain rate replaced where fr: "(case fees of Fees_Regular feerate \<Rightarrow> (feerate, None)
      | Fees_Rbf feerate fee \<Rightarrow> (feerate, Some fee)) = (rate, replaced)" by fastforce
  obtain dests w sel change ins where
    dests: "collect_results (destination_output B D d) destinations = Ok dests"
    and sel: "select_coins_for_spend B C cands
        \<lparr>tx_version = 2, lock_time = locktime, tx_input = [], tx_output = map fst dests\<rparr>
        \<lparr>txo_value = U64_MAX, txo_script = addr_script B (soa_addr change_addr)\<rparr>
        rate replaced w (destinations = []) = Ok sel"
    and change: "spend_change_output B D d change_addr (csr_change_amount sel) = Ok change"
    and ins: "build_inputs B D d get_tx g (csr_selected sel) = Some (ins, g')"
    and r: "res = \<lparr>res_psbt = \<lparr>unsigned_tx = \<lparr>tx_version = 2, lock_time = locktime, tx_input = map fst ins,
        tx_output = map fst dests @ map fst change\<rparr>, psbt_inputs = map snd ins,
        psbt_outputs = map snd dests @ map snd change\<rparr>, res_has_change = (0 < csr_change_amount sel),
        res_warnings = spend_warnings sel\<rparr>"
    and sane: "sanity_check_psbt B M D d (res_psbt res) (use_primary_path B cands) = Ok ()"
    using assms unfolding create_spend_def fr Let_def prod.case
    by (auto simp: result_simps split: if_splits)
  have psbt: "res_psbt res = \<lparr>unsigned_tx = \<lparr>tx_version = 2, lock_time = locktime, tx_input = map fst ins,
        tx_output = map fst (dests @ change)\<rparr>, psbt_inputs = map snd ins, psbt_outputs = map snd (dests @ change)\<rparr>"
    and res: "res_has_change res \<longleftrightarrow> csr_change_amount sel > 0" "res_warnings res = spend_warnings sel"
    by (simp_all add: r)
  note d = destination_outputs_Ok [OF dests] and c = change_output_Ok [OF change]
    and i = build_inputs_Some(1) [OF ins] build_inputs_values [OF ins]
  have inp: "tx_input (unsigned_tx (res_psbt res)) = map (spends B) (csr_selected sel)"
    using i by (simp add: psbt)
  show thesis
  proof (rule that [of sel])
    show "map previous_output (tx_input (unsigned_tx (res_psbt res))) = map cc_outpoint (csr_selected sel)"
      by (simp add: inp spends_def)
    show "tx_output (unsigned_tx (res_psbt res)) =
       map (pays B) (destinations @ change_payment change_addr (csr_change_amount sel))"
      using d c by (simp add: psbt)
    show "\<forall>(_, amount) \<in> set (destinations @ change_payment change_addr (csr_change_amount sel)).
       DUST_OUTPUT_SATS \<le> amount \<and> amount \<le> max_money B"
      using d(2) c(2) by (auto simp: change_payment_def)
    show "map utxo_value (psbt_inputs (res_psbt res)) = map cc_amount (csr_selected sel)"
      using i by (simp add: psbt)
    show "lock_time (unsigned_tx (res_psbt res)) = locktime" by (simp add: psbt)
  qed (rule select_coins_for_spend_Ok [OF sel] inp sane res)+
qed

end
