(* ===== verification/Database.thy ===== *)
theory Database
  imports Spend
begin

text \<open>
  The database (\<open>lianad/src/database\<close>): its tables (\<open>sqlite/schema.rs\<close>) and the
  statements of \<open>sqlite/mod.rs\<close>, one definition per method of \<open>SqliteConn\<close>, under
  the conversions of \<open>DatabaseConnection\<close> (\<open>mod.rs\<close>).

  A table is the list of its rows in the order of their ids. A failed \<open>expect\<close>,
  assertion or constraint (uniqueness, foreign keys, which the bundled SQLite enforces)
  is \<open>None\<close>: the process panics and the enclosing transaction is rolled back. A query
  without \<open>ORDER BY\<close> returns its rows in table order, which no property relies on.
\<close>

section \<open>Rows\<close>

record block_chain_tip =
  ct_height :: int
  ct_hash :: block_hash

record block_info =
  bi_height :: int
  bi_time :: nat

record coin_row =
  rc_blockheight :: "int option"
  rc_blocktime :: "nat option"
  rc_outpoint :: outpoint
  rc_amount :: nat
  rc_derivation_index :: child_number
  rc_is_change :: bool
  rc_spend_txid :: "txid option"
  rc_spend_block_height :: "int option"
  rc_spend_block_time :: "nat option"
  rc_is_immature :: bool
  rc_is_from_self :: bool

record addr_row =
  ra_receive_address :: address
  ra_change_address :: address
  ra_derivation_index :: child_number

record tx_row =
  rt_txid :: txid
  rt_tx :: tx
  rt_num_inputs :: "nat option"
  rt_num_outputs :: "nat option"
  rt_is_coinbase :: bool

record spend_row =
  rs_psbt :: psbt
  rs_txid :: txid
  rs_updated_at :: "nat option"

datatype label_item = Label_Address address | Label_Txid txid | Label_OutPoint outpoint

datatype labelled_kind = Kind_Address | Kind_OutPoint | Kind_Txid

record label_row =
  rl_item_kind :: labelled_kind
  rl_item :: string
  rl_value :: string

record wallet_row =
  w_timestamp :: nat
  w_deposit_index :: child_number
  w_change_index :: child_number
  w_rescan_timestamp :: "nat option"
  w_last_poll_timestamp :: "nat option"

record ('ms, 'tr) database =
  db_version_row :: int
  db_network :: nat
  tip_blockheight :: "int option"
  tip_blockhash :: "block_hash option"
  wallet_descriptor :: "('ms, 'tr) liana_descriptor"
  wallet_table :: wallet_row
  coins_table :: "coin_row list"
  addresses_table :: "addr_row list"
  transactions_table :: "tx_row list"
  spends_table :: "spend_row list"
  labels_table :: "label_row list"

section \<open>Coins\<close>

record coin =
  coin_outpoint :: outpoint
  coin_is_immature :: bool
  coin_block_info :: "block_info option"
  coin_amount :: nat
  coin_derivation_index :: child_number
  coin_is_change :: bool
  coin_spend_txid :: "txid option"
  coin_spend_block :: "block_info option"
  coin_is_from_self :: bool

definition is_confirmed :: "coin \<Rightarrow> bool" where
  "is_confirmed c \<longleftrightarrow> coin_block_info c \<noteq> None"

definition is_spent :: "coin \<Rightarrow> bool" where
  "is_spent c \<longleftrightarrow> coin_spend_txid c \<noteq> None"

text \<open>\<open>TryFrom<&Row>\<close>: the assertion that height and time are set together.\<close>

definition block_info_of :: "int option \<Rightarrow> nat option \<Rightarrow> block_info option option" where
  "block_info_of height time = (case (height, time) of
     (None, None) \<Rightarrow> Some None
   | (Some h, Some t) \<Rightarrow> Some (Some \<lparr>bi_height = h, bi_time = t\<rparr>)
   | _ \<Rightarrow> None)"

definition coin_of_row :: "coin_row \<Rightarrow> coin option" where
  "coin_of_row r =
     Option.bind (block_info_of (rc_blockheight r) (rc_blocktime r)) (\<lambda>block.
     Option.bind (block_info_of (rc_spend_block_height r) (rc_spend_block_time r)) (\<lambda>spend_block.
     Some \<lparr>coin_outpoint = rc_outpoint r, coin_is_immature = rc_is_immature r, coin_block_info = block,
       coin_amount = rc_amount r, coin_derivation_index = rc_derivation_index r,
       coin_is_change = rc_is_change r, coin_spend_txid = rc_spend_txid r,
       coin_spend_block = spend_block, coin_is_from_self = rc_is_from_self r\<rparr>))"

datatype coin_status = St_Unconfirmed | St_Confirmed | St_Spending | St_Spent

definition status_from_arg :: "string \<Rightarrow> coin_status option" where
  "status_from_arg s =
     (if s = ''unconfirmed'' then Some St_Unconfirmed
      else if s = ''confirmed'' then Some St_Confirmed
      else if s = ''spending'' then Some St_Spending
      else if s = ''spent'' then Some St_Spent
      else None)"

primrec status_to_arg :: "coin_status \<Rightarrow> string" where
  "status_to_arg St_Unconfirmed = ''unconfirmed''"
| "status_to_arg St_Confirmed = ''confirmed''"
| "status_to_arg St_Spending = ''spending''"
| "status_to_arg St_Spent = ''spent''"

primrec status_condition :: "coin_row \<Rightarrow> coin_status \<Rightarrow> bool" where
  "status_condition r St_Unconfirmed \<longleftrightarrow> rc_blocktime r = None \<and> rc_spend_txid r = None"
| "status_condition r St_Confirmed \<longleftrightarrow> rc_blocktime r \<noteq> None \<and> rc_spend_txid r = None"
| "status_condition r St_Spending \<longleftrightarrow> rc_spend_txid r \<noteq> None \<and> rc_spend_block_time r = None"
| "status_condition r St_Spent \<longleftrightarrow> rc_spend_block_time r \<noteq> None"

definition coins_where :: "coin_status list \<Rightarrow> outpoint list \<Rightarrow> coin_row \<Rightarrow> bool" where
  "coins_where statuses outpoints r \<longleftrightarrow>
     (statuses = [] \<or> list_ex (status_condition r) statuses) \<and>
     (outpoints = [] \<or> rc_outpoint r \<in> set outpoints)"

definition db_coins :: "coin_status list \<Rightarrow> outpoint list \<Rightarrow> ('ms, 'tr) database \<Rightarrow> coin list option" where
  "db_coins statuses outpoints db = collect_options coin_of_row (filter (coins_where statuses outpoints) (coins_table db))"

definition list_spending_coins :: "('ms, 'tr) database \<Rightarrow> coin list option" where
  "list_spending_coins db = db_coins [St_Spending] [] db"

definition coins_by_outpoints :: "outpoint list \<Rightarrow> ('ms, 'tr) database \<Rightarrow> coin list option" where
  "coins_by_outpoints outpoints db = db_coins [] outpoints db"

section \<open>Writes to the coins\<close>

definition has_tx :: "('ms, 'tr) database \<Rightarrow> txid \<Rightarrow> bool" where
  "has_tx db txid \<longleftrightarrow> txid \<in> rt_txid ` set (transactions_table db)"

definition row_of_coin :: "coin \<Rightarrow> coin_row" where
  "row_of_coin c = \<lparr>rc_blockheight = None, rc_blocktime = None, rc_outpoint = coin_outpoint c,
     rc_amount = coin_amount c, rc_derivation_index = coin_derivation_index c,
     rc_is_change = coin_is_change c, rc_spend_txid = None, rc_spend_block_height = None,
     rc_spend_block_time = None, rc_is_immature = coin_is_immature c, rc_is_from_self = False\<rparr>"

text \<open>\<open>UNIQUE (txid, vout)\<close> and the foreign key on the transaction.\<close>

fun new_unspent_coins :: "coin list \<Rightarrow> ('ms, 'tr) database \<Rightarrow> ('ms, 'tr) database option" where
  "new_unspent_coins [] db = Some db"
| "new_unspent_coins (c # cs) db =
     (if coin_outpoint c \<in> rc_outpoint ` set (coins_table db) \<or> \<not> has_tx db (op_txid (coin_outpoint c))
      then None
      else new_unspent_coins cs (db\<lparr>coins_table := coins_table db @ [row_of_coin c]\<rparr>))"

definition remove_coins :: "outpoint list \<Rightarrow> ('ms, 'tr) database \<Rightarrow> ('ms, 'tr) database" where
  "remove_coins outpoints db = fold (\<lambda>outpoint db.
     db\<lparr>coins_table := filter (\<lambda>r. rc_outpoint r \<noteq> outpoint) (coins_table db)\<rparr>) outpoints db"

text \<open>\<open>UPDATE coins SET ... WHERE txid = ? AND vout = ?\<close>.\<close>

definition update_coin :: "outpoint \<Rightarrow> (coin_row \<Rightarrow> coin_row) \<Rightarrow> ('ms, 'tr) database \<Rightarrow> ('ms, 'tr) database" where
  "update_coin outpoint f db =
     db\<lparr>coins_table := map (\<lambda>r. if rc_outpoint r = outpoint then f r else r) (coins_table db)\<rparr>"

definition confirm_row :: "int \<Rightarrow> nat \<Rightarrow> coin_row \<Rightarrow> coin_row" where
  "confirm_row height time r = r\<lparr>rc_blockheight := Some height, rc_blocktime := Some time, rc_is_immature := False\<rparr>"

definition confirm_coins :: "(outpoint \<times> int \<times> nat) list \<Rightarrow> ('ms, 'tr) database \<Rightarrow> ('ms, 'tr) database" where
  "confirm_coins outpoints db =
     fold (\<lambda>(outpoint, height, time). update_coin outpoint (confirm_row height time)) outpoints db"

text \<open>The foreign key on \<open>spend_txid\<close> is checked when a row is updated.\<close>

definition set_spend_txid :: "outpoint \<Rightarrow> txid \<Rightarrow> (coin_row \<Rightarrow> coin_row) \<Rightarrow> ('ms, 'tr) database \<Rightarrow> ('ms, 'tr) database option" where
  "set_spend_txid outpoint spend_txid f db =
     (if outpoint \<in> rc_outpoint ` set (coins_table db) \<and> \<not> has_tx db spend_txid then None
      else Some (update_coin outpoint f db))"

definition spend_row_coin :: "txid \<Rightarrow> coin_row \<Rightarrow> coin_row" where
  "spend_row_coin spend_txid r = r\<lparr>rc_spend_txid := Some spend_txid\<rparr>"

fun spend_coins :: "(outpoint \<times> txid) list \<Rightarrow> ('ms, 'tr) database \<Rightarrow> ('ms, 'tr) database option" where
  "spend_coins [] db = Some db"
| "spend_coins ((outpoint, spend_txid) # rest) db =
     Option.bind (set_spend_txid outpoint spend_txid (spend_row_coin spend_txid) db) (spend_coins rest)"

definition unspend_row :: "coin_row \<Rightarrow> coin_row" where
  "unspend_row r = r\<lparr>rc_spend_txid := None, rc_spend_block_height := None, rc_spend_block_time := None\<rparr>"

definition unspend_coins :: "outpoint list \<Rightarrow> ('ms, 'tr) database \<Rightarrow> ('ms, 'tr) database" where
  "unspend_coins outpoints db = fold (\<lambda>outpoint. update_coin outpoint unspend_row) outpoints db"

definition confirm_spend_row :: "txid \<Rightarrow> int \<Rightarrow> nat \<Rightarrow> coin_row \<Rightarrow> coin_row" where
  "confirm_spend_row spend_txid height time r =
     r\<lparr>rc_spend_txid := Some spend_txid, rc_spend_block_height := Some height, rc_spend_block_time := Some time\<rparr>"

fun confirm_spend :: "(outpoint \<times> txid \<times> int \<times> nat) list \<Rightarrow> ('ms, 'tr) database \<Rightarrow> ('ms, 'tr) database option" where
  "confirm_spend [] db = Some db"
| "confirm_spend ((outpoint, spend_txid, height, time) # rest) db =
     Option.bind (set_spend_txid outpoint spend_txid (confirm_spend_row spend_txid height time) db)
       (confirm_spend rest)"

section \<open>The tip and the wallet\<close>

definition chain_tip :: "('ms, 'tr) database \<Rightarrow> block_chain_tip option" where
  "chain_tip db = (case (tip_blockheight db, tip_blockhash db) of
     (Some height, Some hash) \<Rightarrow> Some \<lparr>ct_height = height, ct_hash = hash\<rparr>
   | _ \<Rightarrow> None)"

definition update_tip :: "block_chain_tip \<Rightarrow> ('ms, 'tr) database \<Rightarrow> ('ms, 'tr) database" where
  "update_tip tip db = db\<lparr>tip_blockheight := Some (ct_height tip), tip_blockhash := Some (ct_hash tip)\<rparr>"

definition receive_index :: "('ms, 'tr) database \<Rightarrow> child_number" where
  "receive_index db = w_deposit_index (wallet_table db)"

definition change_index :: "('ms, 'tr) database \<Rightarrow> child_number" where
  "change_index db = w_change_index (wallet_table db)"

definition set_rescan :: "nat \<Rightarrow> ('ms, 'tr) database \<Rightarrow> ('ms, 'tr) database" where
  "set_rescan timestamp db = db\<lparr>wallet_table := (wallet_table db)\<lparr>w_rescan_timestamp := Some timestamp\<rparr>\<rparr>"

definition complete_rescan :: "('ms, 'tr) database \<Rightarrow> ('ms, 'tr) database option" where
  "complete_rescan db = (case w_rescan_timestamp (wallet_table db) of
     None \<Rightarrow> None
   | Some rescan_timestamp \<Rightarrow>
       Some (db\<lparr>wallet_table := (wallet_table db)\<lparr>
         w_timestamp := min rescan_timestamp (w_timestamp (wallet_table db)), w_rescan_timestamp := None\<rparr>\<rparr>))"

definition set_last_poll :: "nat \<Rightarrow> ('ms, 'tr) database \<Rightarrow> ('ms, 'tr) database" where
  "set_last_poll timestamp db = db\<lparr>wallet_table := (wallet_table db)\<lparr>w_last_poll_timestamp := Some timestamp\<rparr>\<rparr>"

section \<open>Addresses\<close>

definition LOOK_AHEAD_LIMIT :: nat where "LOOK_AHEAD_LIMIT = 200"

definition addr_row_at ::
  "('ms, 'tr) desc_ops \<Rightarrow> ('ms, 'tr) liana_descriptor \<Rightarrow> nat \<Rightarrow> nat \<Rightarrow> addr_row option" where
  "addr_row_at D d network index =
     Option.bind (derive (receive_desc d) index) (\<lambda>receive.
     Option.bind (derive (change_desc d) index) (\<lambda>change.
     Some \<lparr>ra_receive_address = address_of D network receive,
       ra_change_address = address_of D network change, ra_derivation_index = index\<rparr>))"

text \<open>The three \<open>UNIQUE\<close> columns of the table.\<close>

definition insert_address :: "addr_row \<Rightarrow> addr_row list \<Rightarrow> addr_row list option" where
  "insert_address r rows =
     (if list_ex (\<lambda>q. ra_receive_address q = ra_receive_address r \<or>
          ra_change_address q = ra_change_address r \<or> ra_derivation_index q = ra_derivation_index r) rows
      then None else Some (rows @ [r]))"

fun insert_addresses ::
  "('ms, 'tr) desc_ops \<Rightarrow> ('ms, 'tr) liana_descriptor \<Rightarrow> nat \<Rightarrow> nat list \<Rightarrow> addr_row list \<Rightarrow> addr_row list option" where
  "insert_addresses D d network [] rows = Some rows"
| "insert_addresses D d network (i # is) rows =
     Option.bind (addr_row_at D d network i) (\<lambda>r.
     Option.bind (insert_address r rows) (insert_addresses D d network is))"

definition set_derivation_index ::
  "('ms, 'tr) desc_ops \<Rightarrow> child_number \<Rightarrow> bool \<Rightarrow> ('ms, 'tr) database \<Rightarrow> ('ms, 'tr) database option" where
  "set_derivation_index D index is_change db =
     (let wallet = wallet_table db in
      if (is_change \<and> index \<le> w_change_index wallet) \<or> (\<not> is_change \<and> index \<le> w_deposit_index wallet)
      then Some db
      else
        (let wallet' = (if is_change then wallet\<lparr>w_change_index := index\<rparr> else wallet\<lparr>w_deposit_index := index\<rparr>);
             curr_highest_index = max (w_deposit_index wallet) (w_change_index wallet)
         in
         if index > curr_highest_index then
           map_option (\<lambda>rows. db\<lparr>wallet_table := wallet', addresses_table := rows\<rparr>)
             (insert_addresses D (wallet_descriptor db) (db_network db)
               (map (\<lambda>i. i + LOOK_AHEAD_LIMIT - 1) [curr_highest_index + 1..<index + 1])
               (addresses_table db))
         else Some (db\<lparr>wallet_table := wallet'\<rparr>)))"

definition set_receive_index :: "('ms, 'tr) desc_ops \<Rightarrow> child_number \<Rightarrow> ('ms, 'tr) database \<Rightarrow> ('ms, 'tr) database option" where
  "set_receive_index D index db = set_derivation_index D index False db"

definition set_change_index :: "('ms, 'tr) desc_ops \<Rightarrow> child_number \<Rightarrow> ('ms, 'tr) database \<Rightarrow> ('ms, 'tr) database option" where
  "set_change_index D index db = set_derivation_index D index True db"

text \<open>\<open>pop()\<close> takes the last row that matches.\<close>

definition db_address :: "address \<Rightarrow> ('ms, 'tr) database \<Rightarrow> addr_row option" where
  "db_address a db = (case filter (\<lambda>r. ra_receive_address r = a \<or> ra_change_address r = a) (addresses_table db) of
     [] \<Rightarrow> None | rows \<Rightarrow> Some (last rows))"

definition derivation_index_by_address :: "address \<Rightarrow> ('ms, 'tr) database \<Rightarrow> (child_number \<times> bool) option" where
  "derivation_index_by_address a db =
     map_option (\<lambda>r. (ra_derivation_index r, a = ra_change_address r)) (db_address a db)"

section \<open>Transactions\<close>

text \<open>
  \<open>ON CONFLICT DO NOTHING\<close> on the transaction or its id; the checks that the numbers
  of inputs and outputs are positive fail the statement.
\<close>

fun new_txs :: "btc \<Rightarrow> tx list \<Rightarrow> ('ms, 'tr) database \<Rightarrow> ('ms, 'tr) database option" where
  "new_txs B [] db = Some db"
| "new_txs B (t # ts) db =
     (if tx_input t = [] \<or> tx_output t = [] then None
      else if has_tx db (compute_txid B t) \<or> t \<in> rt_tx ` set (transactions_table db) then new_txs B ts db
      else new_txs B ts (db\<lparr>transactions_table := transactions_table db @
        [\<lparr>rt_txid = compute_txid B t, rt_tx = t, rt_num_inputs = Some (length (tx_input t)),
          rt_num_outputs = Some (length (tx_output t)), rt_is_coinbase = tx_is_coinbase B t\<rparr>]\<rparr>))"

definition list_saved_txids :: "('ms, 'tr) database \<Rightarrow> txid list" where
  "list_saved_txids db = map rt_txid (transactions_table db)"

text \<open>The two selections of the deposits and of the spends of a period, and their \<open>UNION\<close>.\<close>

definition deposit_events :: "nat \<Rightarrow> nat \<Rightarrow> coin_row list \<Rightarrow> (txid \<times> nat) list" where
  "deposit_events start end rows = List.map_filter (\<lambda>r. case rc_blocktime r of
     Some time \<Rightarrow> if start \<le> time \<and> time \<le> end then Some (op_txid (rc_outpoint r), time) else None
   | None \<Rightarrow> None) rows"

definition spend_events :: "nat \<Rightarrow> nat \<Rightarrow> coin_row list \<Rightarrow> (txid \<times> nat) list" where
  "spend_events start end rows = List.map_filter (\<lambda>r. case (rc_spend_txid r, rc_spend_block_time r) of
     (Some txid, Some time) \<Rightarrow> if start \<le> time \<and> time \<le> end then Some (txid, time) else None
   | _ \<Rightarrow> None) rows"

definition list_txids :: "nat \<Rightarrow> nat \<Rightarrow> nat \<Rightarrow> ('ms, 'tr) database \<Rightarrow> txid list" where
  "list_txids start end limit db =
     (let rows = coins_table db;
          events = remdups (deposit_events start end rows @ spend_events start end rows)
      in remdups (map fst (take limit (rev (sort_key snd events)))))"

definition list_all_txids :: "('ms, 'tr) database \<Rightarrow> txid list" where
  "list_all_txids db = remdups (map (\<lambda>r. op_txid (rc_outpoint r)) (coins_table db)
     @ List.map_filter rc_spend_txid (coins_table db))"

definition tx_blocks :: "('ms, 'tr) database \<Rightarrow> (txid \<times> int option \<times> nat option) list" where
  "tx_blocks db = remdups
     (map (\<lambda>r. (op_txid (rc_outpoint r), rc_blockheight r, rc_blocktime r)) (coins_table db)
      @ List.map_filter (\<lambda>r. map_option (\<lambda>t. (t, rc_spend_block_height r, rc_spend_block_time r)) (rc_spend_txid r))
          (coins_table db))"

definition list_wallet_transactions ::
  "txid list \<Rightarrow> ('ms, 'tr) database \<Rightarrow> (tx \<times> int option \<times> nat option) list option" where
  "list_wallet_transactions txids db =
     collect_options (\<lambda>(t, height, time).
         map_option (\<lambda>b. (t, map_option bi_height b, map_option bi_time b)) (block_info_of height time))
       (concat (map (\<lambda>t. map (\<lambda>(_, height, time). (rt_tx t, height, time))
            (filter (\<lambda>(txid, _). txid = rt_txid t) (tx_blocks db)))
          (filter (\<lambda>t. rt_txid t \<in> set txids) (transactions_table db))))"

section \<open>Spend drafts\<close>

definition spend_tx :: "txid \<Rightarrow> ('ms, 'tr) database \<Rightarrow> psbt option" where
  "spend_tx txid db = map_option rs_psbt (List.find (\<lambda>r. rs_txid r = txid) (spends_table db))"

text \<open>\<open>ON CONFLICT DO UPDATE SET psbt=excluded.psbt\<close>; \<open>now\<close> is the current time.\<close>

definition store_spend :: "btc \<Rightarrow> nat \<Rightarrow> psbt \<Rightarrow> ('ms, 'tr) database \<Rightarrow> ('ms, 'tr) database" where
  "store_spend B now psbt db =
     (let txid = compute_txid B (unsigned_tx psbt) in
      if list_ex (\<lambda>r. rs_txid r = txid \<or> rs_psbt r = psbt) (spends_table db)
      then db\<lparr>spends_table := map (\<lambda>r. if rs_txid r = txid \<or> rs_psbt r = psbt then r\<lparr>rs_psbt := psbt\<rparr> else r) (spends_table db)\<rparr>
      else db\<lparr>spends_table := spends_table db @ [\<lparr>rs_psbt = psbt, rs_txid = txid, rs_updated_at = Some now\<rparr>]\<rparr>)"

definition list_spend :: "('ms, 'tr) database \<Rightarrow> (psbt \<times> nat option) list" where
  "list_spend db = map (\<lambda>r. (rs_psbt r, rs_updated_at r)) (spends_table db)"

definition delete_spend :: "txid \<Rightarrow> ('ms, 'tr) database \<Rightarrow> ('ms, 'tr) database" where
  "delete_spend txid db = db\<lparr>spends_table := filter (\<lambda>r. rs_txid r \<noteq> txid) (spends_table db)\<rparr>"

section \<open>Labels\<close>

text \<open>\<open>item_text\<close> is \<open>Display for LabelItem\<close>.\<close>

definition label_kind :: "label_item \<Rightarrow> labelled_kind" where
  "label_kind item = (case item of Label_Address _ \<Rightarrow> Kind_Address | Label_Txid _ \<Rightarrow> Kind_Txid
     | Label_OutPoint _ \<Rightarrow> Kind_OutPoint)"

definition set_label :: "(label_item \<Rightarrow> string) \<Rightarrow> label_item \<times> string option \<Rightarrow> label_row list \<Rightarrow> label_row list" where
  "set_label item_text = (\<lambda>(item, value) rows. case value of
     Some v \<Rightarrow>
       if list_ex (\<lambda>r. rl_item r = item_text item) rows
       then map (\<lambda>r. if rl_item r = item_text item then r\<lparr>rl_value := v\<rparr> else r) rows
       else rows @ [\<lparr>rl_item_kind = label_kind item, rl_item = item_text item, rl_value = v\<rparr>]
   | None \<Rightarrow> filter (\<lambda>r. rl_item r \<noteq> item_text item) rows)"

definition update_labels ::
  "(label_item \<Rightarrow> string) \<Rightarrow> (label_item \<times> string option) list \<Rightarrow> ('ms, 'tr) database \<Rightarrow> ('ms, 'tr) database" where
  "update_labels item_text items db = db\<lparr>labels_table := fold (set_label item_text) items (labels_table db)\<rparr>"

definition db_labels :: "(label_item \<Rightarrow> string) \<Rightarrow> label_item list \<Rightarrow> ('ms, 'tr) database \<Rightarrow> (string \<times> string) list" where
  "db_labels item_text items db =
     map (\<lambda>r. (rl_item r, rl_value r)) (filter (\<lambda>r. rl_item r \<in> item_text ` set items) (labels_table db))"

definition labels_bip329 :: "nat \<Rightarrow> nat \<Rightarrow> ('ms, 'tr) database \<Rightarrow> label_row list" where
  "labels_bip329 offset limit db = take limit (drop offset (labels_table db))"

section \<open>Reorganisations and the \<open>is_from_self\<close> flag\<close>

definition above :: "int \<Rightarrow> int option \<Rightarrow> bool" where
  "above height h = (case h of None \<Rightarrow> False | Some h \<Rightarrow> h > height)"

text \<open>The three \<open>UPDATE\<close> statements of \<open>rollback_tip\<close> on a row.\<close>

definition rollback_row :: "int \<Rightarrow> coin_row \<Rightarrow> coin_row" where
  "rollback_row height r =
     (let r1 = (if above height (rc_blockheight r)
            then r\<lparr>rc_blockheight := None, rc_blocktime := None, rc_spend_block_height := None, rc_spend_block_time := None\<rparr>
            else r);
          r2 = (if above height (rc_spend_block_height r1)
            then r1\<lparr>rc_spend_block_height := None, rc_spend_block_time := None\<rparr> else r1)
      in if rc_blockheight r2 = None then r2\<lparr>rc_is_from_self := False\<rparr> else r2)"

definition rollback_tip :: "block_chain_tip \<Rightarrow> ('ms, 'tr) database \<Rightarrow> ('ms, 'tr) database" where
  "rollback_tip new_tip db =
     update_tip new_tip (db\<lparr>coins_table := map (rollback_row (ct_height new_tip)) (coins_table db)\<rparr>)"

definition unconfirmed_or_above :: "int \<Rightarrow> int option \<Rightarrow> bool" where
  "unconfirmed_or_above height h = (h = None \<or> above height h)"

text \<open>The rows of the group of \<open>spend_txid\<close>, and its \<open>SUM(CASE ...)\<close>.\<close>

definition spent_by :: "int \<Rightarrow> coin_row list \<Rightarrow> txid \<Rightarrow> coin_row list" where
  "spent_by height rows txid =
     filter (\<lambda>r. rc_spend_txid r = Some txid \<and> unconfirmed_or_above height (rc_spend_block_height r)) rows"

definition counts_as_self :: "coin_row \<Rightarrow> bool" where
  "counts_as_self r \<longleftrightarrow> rc_blockheight r \<noteq> None \<or> rc_is_from_self r"

definition tx_from_self :: "int \<Rightarrow> coin_row list \<Rightarrow> tx_row \<Rightarrow> bool" where
  "tx_from_self height rows t \<longleftrightarrow> spent_by height rows (rt_txid t) \<noteq> [] \<and>
     rt_num_inputs t = Some (length (filter counts_as_self (spent_by height rows (rt_txid t))))"

definition becomes_self :: "int \<Rightarrow> tx_row list \<Rightarrow> coin_row list \<Rightarrow> coin_row \<Rightarrow> bool" where
  "becomes_self height txs rows r \<longleftrightarrow> unconfirmed_or_above height (rc_blockheight r) \<and> \<not> rc_is_from_self r \<and>
     list_ex (\<lambda>t. rt_txid t = op_txid (rc_outpoint r) \<and> tx_from_self height rows t) txs"

text \<open>One execution of the statement: the new rows and the number of rows updated.\<close>

definition from_self_round :: "int \<Rightarrow> tx_row list \<Rightarrow> coin_row list \<Rightarrow> coin_row list \<times> nat" where
  "from_self_round height txs rows =
     (map (\<lambda>r. if becomes_self height txs rows r then r\<lparr>rc_is_from_self := True\<rparr> else r) rows,
      length (filter (becomes_self height txs rows) rows))"

text \<open>The loop; running out of iterations with rows left to update fails the assertion.\<close>

fun from_self_loop :: "int \<Rightarrow> tx_row list \<Rightarrow> nat \<Rightarrow> coin_row list \<Rightarrow> coin_row list option" where
  "from_self_loop height txs 0 rows = None"
| "from_self_loop height txs (Suc n) rows =
     (let (rows', updated) = from_self_round height txs rows
      in if updated = 0 then Some rows' else from_self_loop height txs n rows')"

definition from_self_max_iterations :: "coin_row list \<Rightarrow> nat" where
  "from_self_max_iterations rows =
     length (filter (\<lambda>r. rc_blockheight r = None \<and> \<not> rc_is_from_self r) rows) + 2"

definition update_coins_from_self :: "int \<Rightarrow> ('ms, 'tr) database \<Rightarrow> ('ms, 'tr) database option" where
  "update_coins_from_self prev_tip_height db =
     map_option (\<lambda>rows. db\<lparr>coins_table := rows\<rparr>)
       (from_self_loop prev_tip_height (transactions_table db)
         (from_self_max_iterations (coins_table db)) (coins_table db))"

section \<open>Creation and startup checks\<close>

definition DB_VERSION :: int where "DB_VERSION = 8"

definition create_fresh_db ::
  "('ms, 'tr) desc_ops \<Rightarrow> nat \<Rightarrow> ('ms, 'tr) liana_descriptor \<Rightarrow> nat \<Rightarrow> ('ms, 'tr) database option" where
  "create_fresh_db D network main_descriptor timestamp =
     map_option (\<lambda>rows. \<lparr>db_version_row = DB_VERSION, db_network = network, tip_blockheight = None,
       tip_blockhash = None, wallet_descriptor = main_descriptor,
       wallet_table = \<lparr>w_timestamp = timestamp, w_deposit_index = 0, w_change_index = 0,
         w_rescan_timestamp = None, w_last_poll_timestamp = None\<rparr>,
       coins_table = [], addresses_table = rows, transactions_table = [], spends_table = [], labels_table = []\<rparr>)
     (insert_addresses D main_descriptor network [0..<LOOK_AHEAD_LIMIT] [])"

datatype sqlite_db_error = FileCreation | FileNotFound | UnsupportedVersion int | InvalidNetwork nat | DescriptorMismatch
  | Rusqlite | SqlitePanic

definition db_sanity_check ::
  "nat \<Rightarrow> ('ms, 'tr) liana_descriptor \<Rightarrow> ('ms, 'tr) database \<Rightarrow> sqlite_db_error + unit" where
  "db_sanity_check network main_descriptor db =
     (if db_version_row db \<noteq> DB_VERSION then Err (UnsupportedVersion (db_version_row db))
      else if db_network db \<noteq> network then Err (InvalidNetwork (db_network db))
      else if wallet_descriptor db \<noteq> main_descriptor then Err DescriptorMismatch
      else Ok ())"

end
