(* ===== verification/Coin_Store.thy ===== *)
theory Coin_Store
  imports Database
begin

text \<open>
  The part of the \<open>DatabaseConnection\<close> trait that the Bitcoin poller writes coins
  through, as an interface: what each operation does to the coin at an outpoint. The
  poller's batch of writes is proved once against it, and the tables of
  \<open>Database\<close> are shown to provide it.
\<close>

section \<open>The interface\<close>

text \<open>What a batch of updates does to a row: the last entry for its outpoint wins.\<close>

definition updated_at :: "(outpoint \<times> 'a) list \<Rightarrow> ('a \<Rightarrow> coin_row \<Rightarrow> coin_row) \<Rightarrow> outpoint \<Rightarrow> coin_row \<Rightarrow> coin_row" where
  "updated_at us f op r = (case map_of (rev us) op of None \<Rightarrow> r | Some x \<Rightarrow> f x r)"

definition confirmed_at :: "(outpoint \<times> int \<times> nat) list \<Rightarrow> outpoint \<Rightarrow> coin_row \<Rightarrow> coin_row" where
  "confirmed_at cs = updated_at cs (\<lambda>(height, time). confirm_row height time)"

definition spent_at :: "(outpoint \<times> txid \<times> int \<times> nat) list \<Rightarrow> outpoint \<Rightarrow> coin_row \<Rightarrow> coin_row" where
  "spent_at ss = updated_at ss (\<lambda>(txid, height, time). confirm_spend_row txid height time)"

definition unspent_at :: "outpoint list \<Rightarrow> outpoint \<Rightarrow> coin_row \<Rightarrow> coin_row" where
  "unspent_at ops op r = (if op \<in> set ops then unspend_row r else r)"

definition received_at :: "coin list \<Rightarrow> outpoint \<Rightarrow> coin_row option" where
  "received_at cs op = map_option row_of_coin (List.find (\<lambda>c. coin_outpoint c = op) cs)"

locale coin_store =
  fixes coin_at :: "'s \<Rightarrow> outpoint \<Rightarrow> coin_row option"
    and inv :: "'s \<Rightarrow> bool"
    and insert_coins :: "coin list \<Rightarrow> 's \<Rightarrow> 's option"
    and remove :: "outpoint list \<Rightarrow> 's \<Rightarrow> 's"
    and confirm :: "(outpoint \<times> int \<times> nat) list \<Rightarrow> 's \<Rightarrow> 's"
    and unspend :: "outpoint list \<Rightarrow> 's \<Rightarrow> 's"
    and spend :: "(outpoint \<times> txid) list \<Rightarrow> 's \<Rightarrow> 's option"
    and confirm_spending :: "(outpoint \<times> txid \<times> int \<times> nat) list \<Rightarrow> 's \<Rightarrow> 's option"
  assumes insert_law: "inv s \<Longrightarrow> insert_coins cs s = Some s' \<Longrightarrow> inv s' \<and>
      coin_at s' op = (case received_at cs op of Some r \<Rightarrow> Some r | None \<Rightarrow> coin_at s op)"
    and remove_law: "inv s \<Longrightarrow> inv (remove ops s) \<and>
      coin_at (remove ops s) op = (if op \<in> set ops then None else coin_at s op)"
    and confirm_law: "inv s \<Longrightarrow> inv (confirm cfs s) \<and>
      coin_at (confirm cfs s) op = map_option (confirmed_at cfs op) (coin_at s op)"
    and unspend_law: "inv s \<Longrightarrow> inv (unspend ops s) \<and>
      coin_at (unspend ops s) op = map_option (unspent_at ops op) (coin_at s op)"
    and spend_law: "inv s \<Longrightarrow> spend sps s = Some s' \<Longrightarrow> inv s' \<and>
      coin_at s' op = map_option (updated_at sps spend_row_coin op) (coin_at s op)"
    and confirm_spending_law: "inv s \<Longrightarrow> confirm_spending css s = Some s' \<Longrightarrow> inv s' \<and>
      coin_at s' op = map_option (spent_at css op) (coin_at s op)"
begin

text \<open>The batch, in the order the poller writes it.\<close>

lemma recorded:
  assumes "inv s0" "insert_coins received s0 = Some s1"
    "spend spending (unspend expired_spending (confirm confirmed (remove expired s1))) = Some s2"
    "confirm_spending spent s2 = Some s3"
  shows "inv s3 \<and> coin_at s3 op =
    (if op \<in> set expired then None
     else map_option (spent_at spent op \<circ> updated_at spending spend_row_coin op \<circ>
        unspent_at expired_spending op \<circ> confirmed_at confirmed op)
       (case received_at received op of Some r \<Rightarrow> Some r | None \<Rightarrow> coin_at s0 op))"
proof -
  note s1 = insert_law [OF assms(1,2)]
  have i1: "inv s1" using s1 by blast
  note r = remove_law [OF i1, of expired]
  note c = confirm_law [OF conjunct1 [OF r], of confirmed]
  note u = unspend_law [OF conjunct1 [OF c], of expired_spending]
  note s2 = spend_law [OF conjunct1 [OF u] assms(3)]
  note s3 = confirm_spending_law [OF conjunct1 [OF s2] assms(4)]
  have "coin_at (unspend expired_spending (confirm confirmed (remove expired s1))) op =
      map_option (unspent_at expired_spending op) (map_option (confirmed_at confirmed op)
        (if op \<in> set expired then None else coin_at s1 op))"
    using r c u by simp
  with s1 s2 s3 show ?thesis by (simp add: option.map_comp comp_assoc)
qed

end

section \<open>The rows of the coins table\<close>

definition row_ok :: "coin_row \<Rightarrow> bool" where
  "row_ok r \<longleftrightarrow> (rc_blockheight r = None \<longleftrightarrow> rc_blocktime r = None) \<and>
     (rc_spend_block_height r = None \<longleftrightarrow> rc_spend_block_time r = None) \<and>
     (rc_spend_block_height r \<noteq> None \<longrightarrow> rc_spend_txid r \<noteq> None) \<and>
     (rc_is_immature r \<longrightarrow> rc_blockheight r = None)"

definition coins_ok :: "txid set \<Rightarrow> coin_row list \<Rightarrow> bool" where
  "coins_ok txids rows \<longleftrightarrow> distinct (map rc_outpoint rows) \<and>
     (\<forall>r \<in> set rows. row_ok r \<and> op_txid (rc_outpoint r) \<in> txids \<and>
        (\<forall>t. rc_spend_txid r = Some t \<longrightarrow> t \<in> txids))"

text \<open>The row of an outpoint.\<close>

definition row_at :: "('ms, 'tr) database \<Rightarrow> outpoint \<Rightarrow> coin_row option" where
  "row_at db op = List.find (\<lambda>r. rc_outpoint r = op) (coins_table db)"

abbreviation saved_txids :: "('ms, 'tr) database \<Rightarrow> txid set" where
  "saved_txids db \<equiv> rt_txid ` set (transactions_table db)"

text \<open>Everything but the coins of the database is left alone.\<close>

definition same_but_coins :: "('ms, 'tr) database \<Rightarrow> ('ms, 'tr) database \<Rightarrow> bool" where
  "same_but_coins db db' \<longleftrightarrow> db' = db\<lparr>coins_table := coins_table db'\<rparr>"

lemma same_but_coins_refl [simp]: "same_but_coins db db"
  by (simp add: same_but_coins_def)

lemma same_but_coins_trans:
  "same_but_coins a b \<Longrightarrow> same_but_coins b c \<Longrightarrow> same_but_coins a c"
  unfolding same_but_coins_def by (metis database.surjective database.update_convs(7))

lemma same_but_coins_update [simp]: "same_but_coins db (db\<lparr>coins_table := rows\<rparr>)"
  by (simp add: same_but_coins_def)

lemma same_but_coins_fields:
  assumes "same_but_coins db db'"
  shows "db_version_row db' = db_version_row db" "db_network db' = db_network db"
    "tip_blockheight db' = tip_blockheight db" "tip_blockhash db' = tip_blockhash db"
    "wallet_descriptor db' = wallet_descriptor db" "wallet_table db' = wallet_table db"
    "addresses_table db' = addresses_table db" "transactions_table db' = transactions_table db"
    "spends_table db' = spends_table db" "labels_table db' = labels_table db"
proof -
  from assms have "db' = db\<lparr>coins_table := coins_table db'\<rparr>" by (simp add: same_but_coins_def)
  then obtain rows where "db' = db\<lparr>coins_table := rows\<rparr>" by blast
  then show "db_version_row db' = db_version_row db" "db_network db' = db_network db"
    "tip_blockheight db' = tip_blockheight db" "tip_blockhash db' = tip_blockhash db"
    "wallet_descriptor db' = wallet_descriptor db" "wallet_table db' = wallet_table db"
    "addresses_table db' = addresses_table db" "transactions_table db' = transactions_table db"
    "spends_table db' = spends_table db" "labels_table db' = labels_table db" by simp_all
qed

definition coins_inv :: "('ms, 'tr) database \<Rightarrow> bool" where
  "coins_inv db \<longleftrightarrow> coins_ok (saved_txids db) (coins_table db)"

lemma row_at_outpoint: "row_at db op = Some r \<Longrightarrow> rc_outpoint r = op \<and> r \<in> set (coins_table db)"
  by (auto simp: row_at_def find_Some_iff)

lemma row_at_None: "row_at db op = None \<longleftrightarrow> op \<notin> rc_outpoint ` set (coins_table db)"
  by (auto simp: row_at_def find_None_iff)

section \<open>Updates of one row\<close>

definition keeps_row :: "txid set \<Rightarrow> (coin_row \<Rightarrow> coin_row) \<Rightarrow> bool" where
  "keeps_row txids f \<longleftrightarrow> (\<forall>r. rc_outpoint (f r) = rc_outpoint r \<and> (row_ok r \<longrightarrow> row_ok (f r)) \<and>
     (\<forall>t. rc_spend_txid (f r) = Some t \<longrightarrow> rc_spend_txid r = Some t \<or> t \<in> txids))"

lemma keeps_row_simps [simp]:
  "keeps_row txids (confirm_row height time)"
  "keeps_row txids unspend_row"
  "t \<in> txids \<Longrightarrow> keeps_row txids (spend_row_coin t)"
  "t \<in> txids \<Longrightarrow> keeps_row txids (confirm_spend_row t height time)"
  by (auto simp: keeps_row_def confirm_row_def unspend_row_def spend_row_coin_def
      confirm_spend_row_def row_ok_def)

lemma find_map_row:
  assumes "\<And>r. rc_outpoint (g r) = rc_outpoint r"
  shows "List.find (\<lambda>r. rc_outpoint r = op) (map g rows) =
    map_option g (List.find (\<lambda>r. rc_outpoint r = op) rows)"
  by (induction rows) (auto simp: assms)

lemma coins_ok_map:
  assumes "coins_ok txids rows" "\<And>r. rc_outpoint (g r) = rc_outpoint r"
    "\<And>r. r \<in> set rows \<Longrightarrow> row_ok r \<Longrightarrow> row_ok (g r)"
    "\<And>r t. r \<in> set rows \<Longrightarrow> rc_spend_txid (g r) = Some t \<Longrightarrow> rc_spend_txid r = Some t \<or> t \<in> txids"
  shows "coins_ok txids (map g rows)"
proof -
  have "map rc_outpoint (map g rows) = map rc_outpoint rows" by (simp add: assms(2))
  with assms(1) have "distinct (map rc_outpoint (map g rows))" by (simp only: coins_ok_def)
  then show ?thesis
    using assms unfolding coins_ok_def by (auto simp del: map_map) (metis+)
qed

lemma update_coin_table:
  "coins_table (update_coin op f db) = map (\<lambda>r. if rc_outpoint r = op then f r else r) (coins_table db)"
  "same_but_coins db (update_coin op f db)"
  by (simp_all add: update_coin_def)

lemma has_tx_iff: "has_tx db t \<longleftrightarrow> t \<in> saved_txids db"
  by (simp add: has_tx_def)

lemma update_coin_inv:
  assumes "coins_inv db" "keeps_row (saved_txids db) f"
  shows "coins_inv (update_coin op f db)"
    "row_at (update_coin op f db) q = (if q = op then map_option f (row_at db q) else row_at db q)"
proof -
  show "coins_inv (update_coin op f db)"
  proof -
    have f: "rc_outpoint (f r) = rc_outpoint r" "row_ok r \<Longrightarrow> row_ok (f r)"
      "rc_spend_txid (f r) = Some t \<Longrightarrow> rc_spend_txid r = Some t \<or> t \<in> saved_txids db" for r t
      using assms(2) unfolding keeps_row_def by blast+
    then have "coins_ok (saved_txids db) (map (\<lambda>r. if rc_outpoint r = op then f r else r) (coins_table db))"
      using assms(1) by (intro coins_ok_map) (auto simp: coins_inv_def split: if_splits)
    then show ?thesis by (simp add: coins_inv_def update_coin_def)
  qed
  have "row_at (update_coin op f db) q =
      map_option (\<lambda>r. if rc_outpoint r = op then f r else r) (row_at db q)"
    unfolding row_at_def update_coin_table
    by (rule find_map_row) (use assms(2) in \<open>auto simp: keeps_row_def\<close>)
  also have "\<dots> = (if q = op then map_option f (row_at db q) else row_at db q)"
    by (cases "row_at db q") (auto dest: row_at_outpoint)
  finally show "row_at (update_coin op f db) q = (if q = op then map_option f (row_at db q) else row_at db q)" .
qed

section \<open>The operations\<close>

lemma fold_update_inv:
  assumes "coins_inv db" "\<And>x. keeps_row (saved_txids db) (f x)"
  shows "coins_inv (fold (\<lambda>(op, x). update_coin op (f x)) us db) \<and>
    same_but_coins db (fold (\<lambda>(op, x). update_coin op (f x)) us db) \<and>
    row_at (fold (\<lambda>(op, x). update_coin op (f x)) us db) q =
      map_option (fold (\<lambda>(op, x) r. if op = q then f x r else r) us) (row_at db q)"
  using assms
proof (induction us arbitrary: db)
  case (Cons u us)
  obtain op x where u: "u = (op, x)" by fastforce
  define db1 where "db1 = update_coin op (f x) db"
  note upd = update_coin_inv [OF Cons.prems(1) Cons.prems(2) [of x], of op, folded db1_def]
  have same: "same_but_coins db db1" by (simp add: db1_def update_coin_table)
  then have "saved_txids db1 = saved_txids db" by (simp add: same_but_coins_fields)
  with Cons.IH [of db1] Cons.prems(2) upd have IH: "coins_inv (fold (\<lambda>(op, x). update_coin op (f x)) us db1) \<and>
    same_but_coins db1 (fold (\<lambda>(op, x). update_coin op (f x)) us db1) \<and>
    row_at (fold (\<lambda>(op, x). update_coin op (f x)) us db1) q =
      map_option (fold (\<lambda>(op, x) r. if op = q then f x r else r) us) (row_at db1 q)" by simp
  have "row_at db1 q = map_option (\<lambda>r. if op = q then f x r else r) (row_at db q)"
    unfolding upd(2) by (cases "row_at db q") auto
  with IH same show ?case
    by (auto simp: u db1_def option.map_comp comp_def intro: same_but_coins_trans)
qed (simp add: option.map_id)

text \<open>Row updates that overwrite what the same kind of update wrote.\<close>

lemma fold_overwrite:
  assumes "\<And>x y r. f x (f y r) = f x r"
  shows "fold (\<lambda>(op, x) r. if op = q then f x r else r) us r = updated_at us f q r"
proof -
  have absorb: "f x (updated_at us f q r) = f x r" for x us
    by (simp add: updated_at_def assms split: option.splits)
  show ?thesis
    by (induction us rule: rev_induct) (auto simp: updated_at_def absorb [unfolded updated_at_def])
qed

lemma confirm_coins_inv:
  assumes "coins_inv db"
  shows "coins_inv (confirm_coins cs db)" "same_but_coins db (confirm_coins cs db)"
    "row_at (confirm_coins cs db) q = map_option (confirmed_at cs q) (row_at db q)"
proof -
  have e: "confirm_coins cs db =
      fold (\<lambda>(op, x). update_coin op ((\<lambda>(height, time). confirm_row height time) x)) cs db"
    unfolding confirm_coins_def by (intro fold_cong) (auto split: prod.splits)
  have k: "keeps_row (saved_txids db) ((\<lambda>(height, time). confirm_row height time) x)" for x
    by (cases x) simp
  have "fold (\<lambda>(op, x) r. if op = q then (\<lambda>(height, time). confirm_row height time) x r else r) cs = confirmed_at cs q"
    unfolding confirmed_at_def by (intro ext fold_overwrite) (auto simp: confirm_row_def split: prod.splits)
  with fold_update_inv [where f = "\<lambda>(height, time). confirm_row height time" and us = cs and q = q, OF assms k]
  show "coins_inv (confirm_coins cs db)" "same_but_coins db (confirm_coins cs db)"
    "row_at (confirm_coins cs db) q = map_option (confirmed_at cs q) (row_at db q)"
    unfolding e by simp_all
qed

lemma unspend_coins_inv:
  assumes "coins_inv db"
  shows "coins_inv (unspend_coins ops db)" "same_but_coins db (unspend_coins ops db)"
    "row_at (unspend_coins ops db) q = map_option (unspent_at ops q) (row_at db q)"
proof -
  have e: "unspend_coins ops db = fold (\<lambda>(op, x :: unit). update_coin op unspend_row) (map (\<lambda>op. (op, ())) ops) db"
    by (simp add: unspend_coins_def fold_map comp_def)
  have "fold (\<lambda>(op, x :: unit) r. if op = q then unspend_row r else r) (map (\<lambda>op. (op, ())) ops) = unspent_at ops q"
  proof (rule ext)
    show "fold (\<lambda>(op, x :: unit) r. if op = q then unspend_row r else r) (map (\<lambda>op. (op, ())) ops) r = unspent_at ops q r" for r
      by (induction ops arbitrary: r) (auto simp: unspent_at_def unspend_row_def)
  qed
  with fold_update_inv [OF assms, of "\<lambda>_. unspend_row" "map (\<lambda>op. (op, ())) ops" q]
  show "coins_inv (unspend_coins ops db)" "same_but_coins db (unspend_coins ops db)"
    "row_at (unspend_coins ops db) q = map_option (unspent_at ops q) (row_at db q)"
    unfolding e by simp_all
qed

lemma remove_coins_table:
  "remove_coins ops db = db\<lparr>coins_table := filter (\<lambda>r. rc_outpoint r \<notin> set ops) (coins_table db)\<rparr>"
proof (induction ops arbitrary: db)
  case (Cons op ops)
  then show ?case
    by (simp add: remove_coins_def filter_filter conj_commute cong: filter_cong)
qed (simp add: remove_coins_def)

lemma coins_ok_filter: "coins_ok txids rows \<Longrightarrow> coins_ok txids (filter P rows)"
  by (auto simp: coins_ok_def distinct_map_filter)

lemma find_filter: "List.find P (filter Q xs) = List.find (\<lambda>x. Q x \<and> P x) xs"
  by (induction xs) auto

lemma remove_coins_inv:
  assumes "coins_inv db"
  shows "coins_inv (remove_coins ops db)" "same_but_coins db (remove_coins ops db)"
    "row_at (remove_coins ops db) q = (if q \<in> set ops then None else row_at db q)"
proof -
  show "coins_inv (remove_coins ops db)" "same_but_coins db (remove_coins ops db)"
    using assms by (simp_all add: remove_coins_table coins_inv_def coins_ok_filter)
  have "List.find (\<lambda>r. rc_outpoint r \<notin> set ops \<and> rc_outpoint r = q) rows =
      (if q \<in> set ops then None else List.find (\<lambda>r. rc_outpoint r = q) rows)" for rows :: "coin_row list"
    by (induction rows) auto
  then show "row_at (remove_coins ops db) q = (if q \<in> set ops then None else row_at db q)"
    by (simp add: remove_coins_table row_at_def find_filter)
qed

text \<open>The operations that record a spending transaction.\<close>

lemma set_spend_txid_inv:
  assumes "coins_inv db" "set_spend_txid op t f db = Some db'"
    "\<And>txids. t \<in> txids \<Longrightarrow> keeps_row txids f"
  shows "coins_inv db'" "same_but_coins db db'"
    "row_at db' q = (if q = op then map_option f (row_at db q) else row_at db q)"
proof -
  have "coins_inv db' \<and> same_but_coins db db' \<and>
    row_at db' q = (if q = op then map_option f (row_at db q) else row_at db q)"
  proof (cases "t \<in> saved_txids db")
    case True
    with assms(2) have "db' = update_coin op f db"
      by (auto simp: set_spend_txid_def has_tx_iff split: if_splits)
    with update_coin_inv [OF assms(1) assms(3) [OF True]] show ?thesis
      by (simp add: update_coin_table)
  next
    case False
    then have e: "db' = update_coin op f db" and no: "op \<notin> rc_outpoint ` set (coins_table db)"
      using assms(2) by (auto simp: set_spend_txid_def has_tx_iff split: if_splits)
    then have "map (\<lambda>r. if rc_outpoint r = op then f r else r) (coins_table db) = coins_table db"
      by (intro map_idI) auto
    then have "db' = db" by (simp add: e update_coin_def)
    moreover have "row_at db op = None" using no by (simp add: row_at_None)
    ultimately show ?thesis using assms(1) by simp
  qed
  then show "coins_inv db'" "same_but_coins db db'"
    "row_at db' q = (if q = op then map_option f (row_at db q) else row_at db q)" by auto
qed

lemma updated_at_Cons:
  assumes "\<And>x y r. f x (f y r) = f x r"
  shows "updated_at ((op, x) # us) f q r = updated_at us f q (if q = op then f x r else r)"
  using fold_overwrite [where f = f and us = "(op, x) # us" and r = r and q = q, OF assms]
    fold_overwrite [where f = f and us = us and q = q, OF assms, of "if q = op then f x r else r"]
  by (cases "q = op") simp_all

lemma spend_coins_inv:
  assumes "coins_inv db" "spend_coins sps db = Some db'"
  shows "coins_inv db'" "same_but_coins db db'"
    "row_at db' q = map_option (updated_at sps spend_row_coin q) (row_at db q)"
  using assms
proof (induction sps db rule: spend_coins.induct)
  case (1 db)
  { case 1 then show ?case by simp next case 2 then show ?case by simp
  next case 3 then show ?case by (simp add: updated_at_def [abs_def] option.map_ident) }
next
  case (2 op t rest db)
  {
    case 1
    then show ?case using 2 set_spend_txid_inv(1) by (fastforce simp: bind_eq_Some_conv)
  next
    case 2
    then show ?case using "2.IH" set_spend_txid_inv(1,2)
      by (fastforce simp: bind_eq_Some_conv intro: same_but_coins_trans)
  next
    case 3
    then obtain db1 where s: "set_spend_txid op t (spend_row_coin t) db = Some db1"
      and r: "spend_coins rest db1 = Some db'" by (auto simp: bind_eq_Some_conv)
    note i = set_spend_txid_inv [OF 3(1) s, simplified]
    have "updated_at ((op, t) # rest) spend_row_coin q r =
        updated_at rest spend_row_coin q (if q = op then spend_row_coin t r else r)" for r
      by (rule updated_at_Cons) (simp add: spend_row_coin_def)
    then show ?case
      using "2.IH"(3) [OF s i(1) r] i(3) by (cases "row_at db q") auto
  }
qed

lemma confirm_spend_inv:
  assumes "coins_inv db" "confirm_spend css db = Some db'"
  shows "coins_inv db'" "same_but_coins db db'"
    "row_at db' q = map_option (spent_at css q) (row_at db q)"
  using assms
proof (induction css db rule: confirm_spend.induct)
  case (1 db)
  { case 1 then show ?case by simp next case 2 then show ?case by simp
  next case 3 then show ?case by (simp add: spent_at_def updated_at_def [abs_def] option.map_ident) }
next
  case (2 op t h tm rest db)
  {
    case 1
    then show ?case using 2 set_spend_txid_inv(1) by (fastforce simp: bind_eq_Some_conv)
  next
    case 2
    then show ?case using "2.IH" set_spend_txid_inv(1,2)
      by (fastforce simp: bind_eq_Some_conv intro: same_but_coins_trans)
  next
    case 3
    then obtain db1 where s: "set_spend_txid op t (confirm_spend_row t h tm) db = Some db1"
      and r: "confirm_spend rest db1 = Some db'" by (auto simp: bind_eq_Some_conv)
    note i = set_spend_txid_inv [OF 3(1) s, simplified]
    have "spent_at ((op, t, h, tm) # rest) q r =
        spent_at rest q (if q = op then confirm_spend_row t h tm r else r)" for r
      unfolding spent_at_def
      by (subst updated_at_Cons) (auto simp: confirm_spend_row_def split: prod.splits)
    then show ?case
      using "2.IH"(3) [OF s i(1) r] i(3) by (cases "row_at db q") auto
  }
qed

lemma new_unspent_coins_fresh:
  "new_unspent_coins cs db = Some db' \<Longrightarrow> c \<in> set cs \<Longrightarrow> coin_outpoint c \<notin> rc_outpoint ` set (coins_table db)"
proof (induction cs db rule: new_unspent_coins.induct)
  case (2 c1 cs db)
  then show ?case by (auto simp: row_of_coin_def split: if_splits)
qed simp

lemma received_at_None: "received_at cs q = None \<longleftrightarrow> q \<notin> coin_outpoint ` set cs"
  by (auto simp: received_at_def find_None_iff)

lemma new_unspent_coins_inv:
  assumes "coins_inv db" "new_unspent_coins cs db = Some db'"
  shows "coins_inv db'" "same_but_coins db db'"
    "row_at db' q = (case received_at cs q of Some r \<Rightarrow> Some r | None \<Rightarrow> row_at db q)"
  using assms
proof (induction cs db rule: new_unspent_coins.induct)
  case (1 db)
  { case 1 then show ?case by simp next case 2 then show ?case by simp
  next case 3 then show ?case by (simp add: received_at_def) }
next
  case (2 c cs db)
  define db1 where "db1 = db\<lparr>coins_table := coins_table db @ [row_of_coin c]\<rparr>"
  have row: "rc_outpoint (row_of_coin c) = coin_outpoint c" "row_ok (row_of_coin c)"
    "rc_spend_txid (row_of_coin c) = None" by (simp_all add: row_of_coin_def row_ok_def)
  have step: "coins_inv db1" "new_unspent_coins cs db1 = Some db'"
    "coin_outpoint c \<notin> rc_outpoint ` set (coins_table db)"
    "\<not> (coin_outpoint c \<in> rc_outpoint ` set (coins_table db) \<or> \<not> has_tx db (op_txid (coin_outpoint c)))"
    if "coins_inv db" "new_unspent_coins (c # cs) db = Some db'"
    using that row by (auto simp: db1_def coins_inv_def coins_ok_def has_tx_iff split: if_splits)
  have same: "same_but_coins db db1" by (simp add: db1_def)
  {
    case 1
    with step 2 show ?case unfolding db1_def by blast
  next
    case 2
    with step "2.IH"(2) same show ?case unfolding db1_def by (blast intro: same_but_coins_trans)
  next
    case 3
    note st = step [OF 3]
    have "row_at db1 q = (if q = coin_outpoint c then Some (row_of_coin c) else row_at db q)"
    proof -
      have "List.find P (xs @ [x]) = (case List.find P xs of Some y \<Rightarrow> Some y | None \<Rightarrow> if P x then Some x else None)"
        for P :: "coin_row \<Rightarrow> bool" and xs x by (induction xs) auto
      moreover have "row_at db (coin_outpoint c) = None" using st(3) by (simp add: row_at_None)
      ultimately show ?thesis
        by (auto simp: db1_def row_at_def row split: option.splits)
    qed
    moreover have "received_at cs (coin_outpoint c) = None"
      unfolding received_at_None
      using new_unspent_coins_fresh [OF st(2)] by (force simp: db1_def row)
    moreover have "received_at (c # cs) q = (if q = coin_outpoint c then Some (row_of_coin c) else received_at cs q)"
      by (auto simp: received_at_def)
    ultimately show ?case
      using "2.IH"(3) [OF st(4) st(1) [unfolded db1_def] st(2) [unfolded db1_def]]
      by (auto simp: db1_def split: option.splits)
  }
qed

section \<open>The tables provide the interface\<close>

interpretation sqlite: coin_store row_at coins_inv new_unspent_coins remove_coins confirm_coins
  unspend_coins spend_coins confirm_spend
  by unfold_locales
    (rule conjI, (rule new_unspent_coins_inv remove_coins_inv confirm_coins_inv unspend_coins_inv
      spend_coins_inv confirm_spend_inv, assumption+)+)+

end
