(* ===== verification/Database_Invariants.thy ===== *)
theory Database_Invariants
  imports Coin_Store
begin

text \<open>
  The invariant of the whole database and its preservation by every operation, the address
  table, the statuses of coins, listings, drafts, labels and the rollback of the tip.
\<close>

section \<open>The invariant\<close>

definition txs_ok :: "btc \<Rightarrow> tx_row list \<Rightarrow> bool" where
  "txs_ok B rows \<longleftrightarrow> distinct (map rt_txid rows) \<and>
     (\<forall>t \<in> set rows. rt_txid t = compute_txid B (rt_tx t) \<and> tx_input (rt_tx t) \<noteq> [] \<and> tx_output (rt_tx t) \<noteq> [] \<and>
        rt_num_inputs t = Some (length (tx_input (rt_tx t))) \<and>
        rt_num_outputs t = Some (length (tx_output (rt_tx t))))"

text \<open>The addresses up to the look-ahead past the highest index used.\<close>

definition addresses_cover ::
  "('ms, 'tr) desc_ops \<Rightarrow> ('ms, 'tr) liana_descriptor \<Rightarrow> nat \<Rightarrow> nat \<Rightarrow> addr_row list \<Rightarrow> bool" where
  "addresses_cover D d network n rows \<longleftrightarrow> map Some rows = map (addr_row_at D d network) [0..<n]"

definition highest_index :: "wallet_row \<Rightarrow> nat" where
  "highest_index w = max (w_deposit_index w) (w_change_index w)"

definition addresses_inv :: "('ms, 'tr) desc_ops \<Rightarrow> ('ms, 'tr) database \<Rightarrow> bool" where
  "addresses_inv D db \<longleftrightarrow> addresses_cover D (wallet_descriptor db) (db_network db)
     (highest_index (wallet_table db) + LOOK_AHEAD_LIMIT) (addresses_table db)"

definition spends_ok :: "btc \<Rightarrow> spend_row list \<Rightarrow> bool" where
  "spends_ok B rows \<longleftrightarrow> distinct (map rs_txid rows) \<and>
     (\<forall>r \<in> set rows. rs_txid r = compute_txid B (unsigned_tx (rs_psbt r)))"

definition labels_ok :: "label_row list \<Rightarrow> bool" where
  "labels_ok rows \<longleftrightarrow> distinct (map rl_item rows)"

definition db_inv :: "btc \<Rightarrow> ('ms, 'tr) desc_ops \<Rightarrow> ('ms, 'tr) database \<Rightarrow> bool" where
  "db_inv B D db \<longleftrightarrow> coins_inv db \<and> txs_ok B (transactions_table db) \<and> addresses_inv D db \<and>
     spends_ok B (spends_table db) \<and> labels_ok (labels_table db) \<and>
     (tip_blockheight db = None \<longleftrightarrow> tip_blockhash db = None)"

lemma db_inv_coins [dest]: "db_inv B D db \<Longrightarrow> coins_inv db"
  by (simp add: db_inv_def)

lemma db_inv_same_but_coins:
  assumes "db_inv B D db" "coins_inv db'" "same_but_coins db db'"
  shows "db_inv B D db'"
  using assms(1,2) same_but_coins_fields [OF assms(3)]
  by (simp add: db_inv_def addresses_inv_def)

section \<open>Preservation by the writes to the coins\<close>

lemma new_unspent_coins_db_inv [inv_intros]:
  "db_inv B D db \<Longrightarrow> new_unspent_coins cs db = Some db' \<Longrightarrow> db_inv B D db'"
  by (meson db_inv_coins db_inv_same_but_coins new_unspent_coins_inv(1,2))

lemma remove_coins_db_inv [inv_intros]: "db_inv B D db \<Longrightarrow> db_inv B D (remove_coins ops db)"
  by (meson db_inv_coins db_inv_same_but_coins remove_coins_inv(1,2))

lemma confirm_coins_db_inv [inv_intros]: "db_inv B D db \<Longrightarrow> db_inv B D (confirm_coins cs db)"
  by (meson db_inv_coins db_inv_same_but_coins confirm_coins_inv(1,2))

lemma unspend_coins_db_inv [inv_intros]: "db_inv B D db \<Longrightarrow> db_inv B D (unspend_coins ops db)"
  by (meson db_inv_coins db_inv_same_but_coins unspend_coins_inv(1,2))

lemma spend_coins_db_inv [inv_intros]:
  "db_inv B D db \<Longrightarrow> spend_coins sps db = Some db' \<Longrightarrow> db_inv B D db'"
  by (meson db_inv_coins db_inv_same_but_coins spend_coins_inv(1,2))

lemma confirm_spend_db_inv [inv_intros]:
  "db_inv B D db \<Longrightarrow> confirm_spend css db = Some db' \<Longrightarrow> db_inv B D db'"
  by (meson db_inv_coins db_inv_same_but_coins confirm_spend_inv(1,2))

section \<open>Transactions, drafts, labels and the tip\<close>

lemma coins_ok_mono: "coins_ok S rows \<Longrightarrow> S \<subseteq> T \<Longrightarrow> coins_ok T rows"
  unfolding coins_ok_def by blast

lemma new_txs_db_inv [inv_intros]:
  "db_inv B D db \<Longrightarrow> new_txs B txs db = Some db' \<Longrightarrow> db_inv B D db'"
proof (induction B txs db rule: new_txs.induct)
  case (2 B t ts db)
  define row where "row = \<lparr>rt_txid = compute_txid B t, rt_tx = t, rt_num_inputs = Some (length (tx_input t)),
      rt_num_outputs = Some (length (tx_output t)), rt_is_coinbase = tx_is_coinbase B t\<rparr>"
  define db1 where "db1 = db\<lparr>transactions_table := transactions_table db @ [row]\<rparr>"
  have ne: "tx_input t \<noteq> []" "tx_output t \<noteq> []"
    using 2(4) by (auto split: if_splits)
  show ?case
  proof (cases "has_tx db (compute_txid B t) \<or> t \<in> rt_tx ` set (transactions_table db)")
    case True
    with 2 ne show ?thesis by (auto split: if_splits)
  next
    case False
    then have "db_inv B D db1"
    proof -
      have "coins_ok (insert (compute_txid B t) (saved_txids db)) (coins_table db)"
        using 2(3) by (auto simp: db_inv_def coins_inv_def intro: coins_ok_mono)
      then have "coins_inv db1" by (simp add: coins_inv_def db1_def row_def)
      moreover have "txs_ok B (transactions_table db1)"
        using 2(3) False ne by (auto simp: db_inv_def db1_def row_def txs_ok_def has_tx_iff)
      ultimately show ?thesis using 2(3) by (simp add: db_inv_def db1_def addresses_inv_def)
    qed
    moreover have "new_txs B ts db1 = Some db'"
      using 2(4) False ne by (simp add: db1_def row_def)
    ultimately show ?thesis
      using 2(2) False ne unfolding db1_def row_def by blast
  qed
qed simp

lemma new_txs_saved:
  assumes "new_txs B txs db = Some db'"
  shows "saved_txids db \<subseteq> saved_txids db'" "coins_table db' = coins_table db"
    "wallet_table db' = wallet_table db" "wallet_descriptor db' = wallet_descriptor db"
    "tip_blockheight db' = tip_blockheight db" "tip_blockhash db' = tip_blockhash db"
  using assms
  by (induction B txs db rule: new_txs.induct) (auto split: if_splits)

lemma store_spend_spends:
  "spends_table (store_spend B now psbt db) =
     (let txid = compute_txid B (unsigned_tx psbt) in
      if list_ex (\<lambda>r. rs_txid r = txid \<or> rs_psbt r = psbt) (spends_table db)
      then map (\<lambda>r. if rs_txid r = txid \<or> rs_psbt r = psbt then r\<lparr>rs_psbt := psbt\<rparr> else r) (spends_table db)
      else spends_table db @ [\<lparr>rs_psbt = psbt, rs_txid = txid, rs_updated_at = Some now\<rparr>])"
  by (simp add: store_spend_def Let_def)

text \<open>With the invariant, a conflict on the PSBT is a conflict on its transaction id.\<close>

lemma spends_ok_conflict:
  "spends_ok B rows \<Longrightarrow> r \<in> set rows \<Longrightarrow>
     (rs_txid r = compute_txid B (unsigned_tx psbt) \<or> rs_psbt r = psbt) = (rs_txid r = compute_txid B (unsigned_tx psbt))"
  by (auto simp: spends_ok_def)

lemma store_spend_table:
  assumes "spends_ok B (spends_table db)"
  shows "spends_table (store_spend B now psbt db) =
     (let txid = compute_txid B (unsigned_tx psbt) in
      if txid \<in> rs_txid ` set (spends_table db)
      then map (\<lambda>r. if rs_txid r = txid then r\<lparr>rs_psbt := psbt\<rparr> else r) (spends_table db)
      else spends_table db @ [\<lparr>rs_psbt = psbt, rs_txid = txid, rs_updated_at = Some now\<rparr>])"
  using spends_ok_conflict [OF assms]
  by (force simp: store_spend_spends Let_def list_ex_iff cong: map_cong)

lemma store_spend_db_inv [inv_intros]:
  assumes "db_inv B D db"
  shows "db_inv B D (store_spend B now psbt db)"
proof -
  have ok: "spends_ok B (spends_table db)" using assms by (simp add: db_inv_def)
  have [simp]: "rs_txid \<circ> (\<lambda>r. if rs_txid r = t then r\<lparr>rs_psbt := psbt\<rparr> else r) = rs_txid" for t
    by auto
  have "spends_ok B (spends_table (store_spend B now psbt db))"
    using ok unfolding store_spend_table [OF ok] Let_def
    by (auto simp: spends_ok_def)
  then show ?thesis
    using assms by (auto simp: db_inv_def store_spend_def Let_def coins_inv_def addresses_inv_def)
qed

lemma delete_spend_db_inv [inv_intros]: "db_inv B D db \<Longrightarrow> db_inv B D (delete_spend txid db)"
  by (auto simp: db_inv_def delete_spend_def spends_ok_def coins_inv_def addresses_inv_def distinct_map_filter)

lemma set_label_ok: "labels_ok rows \<Longrightarrow> labels_ok (set_label item_text x rows)"
proof -
  assume ok: "labels_ok rows"
  have [simp]: "rl_item \<circ> (\<lambda>r. if rl_item r = k then r\<lparr>rl_value := v\<rparr> else r) = rl_item" for k v
    by auto
  with ok show ?thesis
    by (cases x) (auto simp: set_label_def labels_ok_def distinct_map_filter list_ex_iff split: option.splits)
qed

lemma update_labels_db_inv [inv_intros]: "db_inv B D db \<Longrightarrow> db_inv B D (update_labels item_text items db)"
proof -
  have "labels_ok rows \<Longrightarrow> labels_ok (fold (set_label item_text) items rows)" for rows
    by (induction items arbitrary: rows) (auto simp: set_label_ok)
  then show "db_inv B D db \<Longrightarrow> db_inv B D (update_labels item_text items db)"
    by (auto simp: db_inv_def update_labels_def coins_inv_def addresses_inv_def)
qed

lemma update_tip_db_inv [inv_intros]: "db_inv B D db \<Longrightarrow> db_inv B D (update_tip tip db)"
  by (simp add: db_inv_def update_tip_def coins_inv_def addresses_inv_def)

lemma chain_tip_update [simp]: "chain_tip (update_tip tip db) = Some tip"
  by (simp add: chain_tip_def update_tip_def)

lemma set_last_poll_db_inv [inv_intros]: "db_inv B D db \<Longrightarrow> db_inv B D (set_last_poll now db)"
  by (simp add: db_inv_def set_last_poll_def coins_inv_def addresses_inv_def highest_index_def)

lemma set_rescan_db_inv [inv_intros]: "db_inv B D db \<Longrightarrow> db_inv B D (set_rescan t db)"
  by (simp add: db_inv_def set_rescan_def coins_inv_def addresses_inv_def highest_index_def)

lemma complete_rescan_db_inv [inv_intros]:
  "db_inv B D db \<Longrightarrow> complete_rescan db = Some db' \<Longrightarrow> db_inv B D db'"
  by (auto simp: db_inv_def complete_rescan_def coins_inv_def addresses_inv_def highest_index_def
      split: option.splits)

section \<open>The rollback of the tip\<close>

lemma rollback_row_ok: "row_ok r \<Longrightarrow> row_ok (rollback_row height r)"
  by (auto simp: row_ok_def rollback_row_def Let_def)

lemma rollback_row_keys [simp]:
  "rc_outpoint (rollback_row height r) = rc_outpoint r"
  "rc_spend_txid (rollback_row height r) = rc_spend_txid r"
  by (simp_all add: rollback_row_def Let_def)

lemma rollback_tip_db_inv [inv_intros]:
  assumes "db_inv B D db"
  shows "db_inv B D (rollback_tip tip db)"
proof -
  have "coins_inv (db\<lparr>coins_table := map (rollback_row (ct_height tip)) (coins_table db)\<rparr>)"
    using db_inv_coins [OF assms]
    by (auto simp: coins_inv_def rollback_row_ok intro!: coins_ok_map)
  then show ?thesis
    unfolding rollback_tip_def
    by (intro update_tip_db_inv db_inv_same_but_coins [OF assms]) simp_all
qed

lemma row_at_rollback: "row_at (rollback_tip tip db) op = map_option (rollback_row (ct_height tip)) (row_at db op)"
  by (simp add: rollback_tip_def update_tip_def row_at_def find_map_row)

text \<open>Nothing above the new tip is left, and what is below it is kept.\<close>

lemma rollback_row_spec:
  assumes "row_ok r"
  shows "\<not> above h (rc_blockheight (rollback_row h r))" "\<not> above h (rc_spend_block_height (rollback_row h r))"
    "rc_blockheight (rollback_row h r) = (if above h (rc_blockheight r) then None else rc_blockheight r)"
    "rc_spend_block_height (rollback_row h r) =
       (if above h (rc_blockheight r) \<or> above h (rc_spend_block_height r) then None else rc_spend_block_height r)"
    "rc_is_from_self (rollback_row h r) \<longleftrightarrow> rc_is_from_self r \<and> rc_blockheight (rollback_row h r) \<noteq> None"
  using assms by (auto simp: rollback_row_def Let_def above_def row_ok_def split: option.splits if_splits)

lemma rollback_row_idem: "rollback_row h (rollback_row h r) = rollback_row h r"
  by (auto simp: rollback_row_def Let_def above_def split: option.splits)

section \<open>The address table\<close>

lemma insert_addresses_Some:
  "insert_addresses D d network is rows = Some rows' \<Longrightarrow>
     map Some rows' = map Some rows @ map (addr_row_at D d network) is"
  by (induction D d network "is" rows rule: insert_addresses.induct)
    (auto simp: bind_eq_Some_conv insert_address_def split: if_splits)

lemma upt_look_ahead:
  "map (\<lambda>i. i + LOOK_AHEAD_LIMIT - 1) [m + 1..<n + 1] = [m + LOOK_AHEAD_LIMIT..<n + LOOK_AHEAD_LIMIT]"
  by (rule nth_equalityI) (simp_all add: LOOK_AHEAD_LIMIT_def del: upt_Suc)

text \<open>The effect of setting an index: it only grows, and the table grows with it.\<close>

definition wallet_with_index :: "bool \<Rightarrow> nat \<Rightarrow> wallet_row \<Rightarrow> wallet_row" where
  "wallet_with_index is_change index w =
     (if is_change then w\<lparr>w_change_index := max index (w_change_index w)\<rparr>
      else w\<lparr>w_deposit_index := max index (w_deposit_index w)\<rparr>)"

lemma set_derivation_index_Some:
  assumes "set_derivation_index D index is_change db = Some db'"
  shows "wallet_table db' = wallet_with_index is_change index (wallet_table db)"
    "db' = db\<lparr>wallet_table := wallet_table db', addresses_table := addresses_table db'\<rparr>"
    "addresses_inv D db \<Longrightarrow> addresses_inv D db'"
proof -
  define w where "w = wallet_table db"
  define h where "h = highest_index w"
  define w' where "w' = wallet_with_index is_change index w"
  consider (low) "db' = db" "w' = w"
    | (same) "index \<le> h" "db' = db\<lparr>wallet_table := w'\<rparr>" "highest_index w' = h"
    | (grow) rows where "h < index" "db' = db\<lparr>wallet_table := w', addresses_table := rows\<rparr>"
        "highest_index w' = index"
        "insert_addresses D (wallet_descriptor db) (db_network db)
          [h + LOOK_AHEAD_LIMIT..<index + LOOK_AHEAD_LIMIT] (addresses_table db) = Some rows"
  proof (cases "(is_change \<and> index \<le> w_change_index w) \<or> (\<not> is_change \<and> index \<le> w_deposit_index w)")
    case True
    then have "db' = db" "w' = w"
      using assms by (auto simp: set_derivation_index_def Let_def w_def w'_def wallet_with_index_def max_def)
    then show thesis by (rule low)
  next
    case False
    then have w': "w' = (if is_change then w\<lparr>w_change_index := index\<rparr> else w\<lparr>w_deposit_index := index\<rparr>)"
      by (auto simp: w'_def wallet_with_index_def)
    have db': "(if index > h then map_option (\<lambda>rows. db\<lparr>wallet_table := w', addresses_table := rows\<rparr>)
        (insert_addresses D (wallet_descriptor db) (db_network db)
           [h + LOOK_AHEAD_LIMIT..<index + LOOK_AHEAD_LIMIT] (addresses_table db))
        else Some (db\<lparr>wallet_table := w'\<rparr>)) = Some db'"
    proof -
      have "h = max (w_deposit_index w) (w_change_index w)" by (simp add: h_def highest_index_def)
      then show ?thesis
        using assms False unfolding w' set_derivation_index_def Let_def w_def [symmetric] upt_look_ahead
        by (simp only: if_False)
    qed
    show thesis
    proof (cases "index > h")
      case True
      moreover have "highest_index w' = index"
        using True by (auto simp: w' h_def highest_index_def)
      ultimately show thesis using db' grow by auto
    next
      case nh: False
      moreover have "highest_index w' = h"
        using nh False by (auto simp: w' h_def highest_index_def)
      ultimately show thesis using db' same by simp
    qed
  qed
  then have "wallet_table db' = w' \<and>
    db' = db\<lparr>wallet_table := wallet_table db', addresses_table := addresses_table db'\<rparr> \<and>
    (addresses_inv D db \<longrightarrow> addresses_inv D db')"
  proof cases
    case low
    then show ?thesis by (simp add: w_def)
  next
    case same
    then show ?thesis by (simp add: addresses_inv_def h_def w_def)
  next
    case (grow rows)
    have "[0..<h + LOOK_AHEAD_LIMIT] @ [h + LOOK_AHEAD_LIMIT..<index + LOOK_AHEAD_LIMIT] =
        [0..<index + LOOK_AHEAD_LIMIT]"
      using grow(1) upt_add_eq_append [of 0 "h + LOOK_AHEAD_LIMIT" "index - h"]
      by (simp add: add.commute)
    with insert_addresses_Some [OF grow(4)] grow show ?thesis
      by (auto simp: addresses_inv_def addresses_cover_def h_def w_def simp flip: map_append)
  qed
  then show "wallet_table db' = wallet_with_index is_change index (wallet_table db)"
    "db' = db\<lparr>wallet_table := wallet_table db', addresses_table := addresses_table db'\<rparr>"
    "addresses_inv D db \<Longrightarrow> addresses_inv D db'" by (auto simp: w'_def w_def)
qed

lemma set_derivation_index_db_inv [inv_intros]:
  assumes "db_inv B D db" "set_derivation_index D index is_change db = Some db'"
  shows "db_inv B D db'"
proof -
  have "addresses_inv D db'"
    using assms(1) set_derivation_index_Some(3) [OF assms(2)] by (simp add: db_inv_def)
  moreover obtain w rows where "db' = db\<lparr>wallet_table := w, addresses_table := rows\<rparr>"
    using set_derivation_index_Some(2) [OF assms(2)] by blast
  ultimately show ?thesis using assms(1) by (simp add: db_inv_def coins_inv_def)
qed

text \<open>
  It succeeds when the indexes stay unhardened and distinct indexes give distinct addresses,
  as the scripts of a descriptor do.
\<close>

definition addresses_injective :: "('ms, 'tr) desc_ops \<Rightarrow> ('ms, 'tr) database \<Rightarrow> bool" where
  "addresses_injective D db \<longleftrightarrow>
     (let receive = (\<lambda>i. address_of D (db_network db) (receive_desc (wallet_descriptor db), i));
          change = (\<lambda>i. address_of D (db_network db) (change_desc (wallet_descriptor db), i))
      in \<forall>i j. (receive i = receive j \<longrightarrow> i = j) \<and> (change i = change j \<longrightarrow> i = j) \<and> receive i \<noteq> change j)"

lemma addresses_injective_iff:
  assumes "addresses_injective D db"
  shows "address_of D (db_network db) (receive_desc (wallet_descriptor db), i) =
      address_of D (db_network db) (receive_desc (wallet_descriptor db), j) \<longleftrightarrow> i = j"
    "address_of D (db_network db) (change_desc (wallet_descriptor db), i) =
      address_of D (db_network db) (change_desc (wallet_descriptor db), j) \<longleftrightarrow> i = j"
    "address_of D (db_network db) (receive_desc (wallet_descriptor db), i) \<noteq>
      address_of D (db_network db) (change_desc (wallet_descriptor db), j)"
    "address_of D (db_network db) (change_desc (wallet_descriptor db), i) \<noteq>
      address_of D (db_network db) (receive_desc (wallet_descriptor db), j)"
proof -
  have all: "\<forall>i j. (address_of D (db_network db) (receive_desc (wallet_descriptor db), i) =
        address_of D (db_network db) (receive_desc (wallet_descriptor db), j) \<longrightarrow> i = j) \<and>
      (address_of D (db_network db) (change_desc (wallet_descriptor db), i) =
        address_of D (db_network db) (change_desc (wallet_descriptor db), j) \<longrightarrow> i = j) \<and>
      address_of D (db_network db) (receive_desc (wallet_descriptor db), i) \<noteq>
        address_of D (db_network db) (change_desc (wallet_descriptor db), j)"
    using assms unfolding addresses_injective_def Let_def .
  show "address_of D (db_network db) (receive_desc (wallet_descriptor db), i) =
      address_of D (db_network db) (receive_desc (wallet_descriptor db), j) \<longleftrightarrow> i = j"
    using all [rule_format, of i j] by auto
  show "address_of D (db_network db) (change_desc (wallet_descriptor db), i) =
      address_of D (db_network db) (change_desc (wallet_descriptor db), j) \<longleftrightarrow> i = j"
    using all [rule_format, of i j] by auto
  show "address_of D (db_network db) (receive_desc (wallet_descriptor db), i) \<noteq>
      address_of D (db_network db) (change_desc (wallet_descriptor db), j)"
    using all [rule_format, of i j] by simp
  show "address_of D (db_network db) (change_desc (wallet_descriptor db), i) \<noteq>
      address_of D (db_network db) (receive_desc (wallet_descriptor db), j)"
    using all [rule_format, of j i] by metis
qed

lemma addr_row_at_Some:
  "addr_row_at D d network i = Some r \<longleftrightarrow> is_normal i \<and>
     r = \<lparr>ra_receive_address = address_of D network (receive_desc d, i),
       ra_change_address = address_of D network (change_desc d, i), ra_derivation_index = i\<rparr>"
  by (auto simp: addr_row_at_def derive_def)

lemma insert_addresses_succeeds:
  assumes "addresses_injective D db" "n \<le> HARDENED_START" "m \<le> n"
    "addresses_cover D (wallet_descriptor db) (db_network db) m rows"
  shows "insert_addresses D (wallet_descriptor db) (db_network db) [m..<n] rows \<noteq> None"
  using assms(2-)
proof (induction "n - m" arbitrary: m rows)
  case (Suc k)
  define d where "d = wallet_descriptor db"
  define net where "net = db_network db"
  obtain r where r: "addr_row_at D d net m = Some r"
    using Suc by (simp add: addr_row_at_Some is_normal_def)
  have "r' \<in> set rows \<Longrightarrow> \<exists>i < m. addr_row_at D d net i = Some r'" for r'
  proof -
    assume "r' \<in> set rows"
    then have "Some r' \<in> set (map (addr_row_at D d net) [0..<m])"
      using Suc.prems(3) by (metis addresses_cover_def d_def net_def image_eqI list.set_map)
    then show ?thesis by force
  qed
  moreover have "addr_row_at D d net i = Some r' \<Longrightarrow> i < m \<Longrightarrow>
      ra_receive_address r' \<noteq> ra_receive_address r \<and> ra_change_address r' \<noteq> ra_change_address r \<and>
      ra_derivation_index r' \<noteq> ra_derivation_index r" for i r'
    using r by (auto simp: addr_row_at_Some addresses_injective_iff [OF assms(1)] d_def net_def)
  ultimately have ins: "insert_address r rows = Some (rows @ [r])"
    by (fastforce simp: insert_address_def list_ex_iff)
  have "addresses_cover D d net (Suc m) (rows @ [r])"
    using Suc.prems(3) r by (simp add: addresses_cover_def d_def net_def)
  then have "insert_addresses D d net [Suc m..<n] (rows @ [r]) \<noteq> None"
    unfolding d_def net_def by (intro Suc.hyps(1)) (use Suc in auto)
  moreover have "[m..<n] = m # [Suc m..<n]" using Suc.hyps(2) by (simp add: upt_conv_Cons)
  ultimately show ?case using r ins by (simp add: d_def net_def)
qed simp

lemma set_derivation_index_succeeds:
  assumes "addresses_injective D db" "addresses_inv D db" "index + LOOK_AHEAD_LIMIT \<le> HARDENED_START"
  shows "set_derivation_index D index is_change db \<noteq> None"
proof -
  define h where "h = highest_index (wallet_table db)"
  have "h < index \<Longrightarrow> insert_addresses D (wallet_descriptor db) (db_network db)
      [h + LOOK_AHEAD_LIMIT..<index + LOOK_AHEAD_LIMIT] (addresses_table db) \<noteq> None"
    using assms by (intro insert_addresses_succeeds) (auto simp: addresses_inv_def h_def)
  then show ?thesis
    unfolding set_derivation_index_def Let_def upt_look_ahead
    by (auto simp: h_def highest_index_def)
qed

text \<open>The lookup of an address finds its index and its keychain.\<close>

lemma db_address_unique:
  assumes "r \<in> set (addresses_table db)" "a = ra_receive_address r \<or> a = ra_change_address r"
    "\<And>q. q \<in> set (addresses_table db) \<Longrightarrow> a = ra_receive_address q \<or> a = ra_change_address q \<Longrightarrow> q = r"
  shows "db_address a db = Some r"
proof -
  define found where "found = filter (\<lambda>r. ra_receive_address r = a \<or> ra_change_address r = a) (addresses_table db)"
  have "found \<noteq> []" using assms(1,2) by (auto simp: found_def filter_empty_conv)
  then have "last found \<in> set found" by simp
  then have "last found = r" using assms(3) by (auto simp: found_def)
  with \<open>found \<noteq> []\<close> show ?thesis
    by (cases found) (simp_all add: db_address_def found_def [symmetric])
qed

lemma addresses_inv_iff:
  assumes "addresses_inv D db"
  shows "r \<in> set (addresses_table db) \<longleftrightarrow>
    (\<exists>i < highest_index (wallet_table db) + LOOK_AHEAD_LIMIT. addr_row_at D (wallet_descriptor db) (db_network db) i = Some r)"
proof -
  have "set (map Some (addresses_table db)) = set (map (addr_row_at D (wallet_descriptor db) (db_network db))
      [0..<highest_index (wallet_table db) + LOOK_AHEAD_LIMIT])"
    using assms by (simp only: addresses_inv_def addresses_cover_def)
  then have "Some ` set (addresses_table db) = addr_row_at D (wallet_descriptor db) (db_network db) `
      {0..<highest_index (wallet_table db) + LOOK_AHEAD_LIMIT}" by simp
  then show ?thesis by (auto simp: set_eq_iff image_iff) (metis atLeastLessThan_iff le0 option.inject)+
qed

lemma derivation_index_lookup:
  assumes "addresses_inv D db" "addresses_injective D db"
    "i < highest_index (wallet_table db) + LOOK_AHEAD_LIMIT" "is_normal i"
  shows "derivation_index_by_address (address_of D (db_network db) (receive_desc (wallet_descriptor db), i)) db = Some (i, False)"
    "derivation_index_by_address (address_of D (db_network db) (change_desc (wallet_descriptor db), i)) db = Some (i, True)"
proof -
  define r where "r = \<lparr>ra_receive_address = address_of D (db_network db) (receive_desc (wallet_descriptor db), i),
       ra_change_address = address_of D (db_network db) (change_desc (wallet_descriptor db), i), ra_derivation_index = i\<rparr>"
  have r: "r \<in> set (addresses_table db)"
    unfolding addresses_inv_iff [OF assms(1)] using assms(3,4) by (auto simp: addr_row_at_Some r_def)
  have "q = r" if "q \<in> set (addresses_table db)"
    "a = ra_receive_address q \<or> a = ra_change_address q" "a = ra_receive_address r \<or> a = ra_change_address r" for a q
    using that unfolding addresses_inv_iff [OF assms(1)]
    by (auto simp: addr_row_at_Some r_def addresses_injective_iff [OF assms(2)])
  then have "db_address (ra_receive_address r) db = Some r" "db_address (ra_change_address r) db = Some r"
    by (auto intro: db_address_unique [OF r])
  moreover have "ra_receive_address r \<noteq> ra_change_address r"
    by (simp add: addresses_injective_iff [OF assms(2)] r_def)
  ultimately show
    "derivation_index_by_address (address_of D (db_network db) (receive_desc (wallet_descriptor db), i)) db = Some (i, False)"
    "derivation_index_by_address (address_of D (db_network db) (change_desc (wallet_descriptor db), i)) db = Some (i, True)"
    by (simp_all add: derivation_index_by_address_def r_def)
qed

lemma create_fresh_db_inv:
  assumes "create_fresh_db D network d timestamp = Some db"
  shows "db_inv B D db"
  using assms insert_addresses_Some [of D d network "[0..<LOOK_AHEAD_LIMIT]" "[]"]
  by (auto simp: create_fresh_db_def db_inv_def coins_inv_def coins_ok_def txs_ok_def addresses_inv_def
      addresses_cover_def highest_index_def spends_ok_def labels_ok_def)

end
