(* ===== verification/Database_Queries.thy ===== *)
theory Database_Queries
  imports Database_Invariants
begin

text \<open>
  What the queries of the database return: coins by status, the transaction ids of a
  period, drafts and labels after a write; and the loop that marks the coins that come from
  the wallet itself: it ends within its bound, on the least set of coins it should mark.
\<close>

section \<open>Coins by status\<close>

lemma status_roundtrip: "status_from_arg (status_to_arg st) = Some st"
  by (cases st) (simp_all add: status_from_arg_def)

lemma status_from_arg_inj: "status_from_arg s = Some st \<Longrightarrow> s = status_to_arg st"
  by (auto simp: status_from_arg_def split: if_splits)

definition status_of_row :: "coin_row \<Rightarrow> coin_status" where
  "status_of_row r = (if rc_spend_block_time r \<noteq> None then St_Spent
     else if rc_spend_txid r \<noteq> None then St_Spending
     else if rc_blocktime r \<noteq> None then St_Confirmed else St_Unconfirmed)"

lemma status_condition_iff: "row_ok r \<Longrightarrow> status_condition r st \<longleftrightarrow> st = status_of_row r"
  by (cases st) (auto simp: status_of_row_def row_ok_def)

lemma block_info_of_Some:
  "block_info_of h t = Some b \<longleftrightarrow> map_option bi_height b = h \<and> map_option bi_time b = t"
  by (cases h; cases t; cases b) (auto simp: block_info_of_def)

lemma coin_of_row_fields:
  assumes "coin_of_row r = Some c"
  shows "coin_outpoint c = rc_outpoint r" "coin_spend_txid c = rc_spend_txid r" "coin_amount c = rc_amount r"
    "map_option bi_height (coin_block_info c) = rc_blockheight r"
    "map_option bi_time (coin_block_info c) = rc_blocktime r"
    "map_option bi_height (coin_spend_block c) = rc_spend_block_height r"
    "map_option bi_time (coin_spend_block c) = rc_spend_block_time r"
    "coin_is_change c = rc_is_change r" "coin_derivation_index c = rc_derivation_index r"
    "coin_is_immature c = rc_is_immature r" "coin_is_from_self c = rc_is_from_self r"
  using assms by (auto simp: coin_of_row_def bind_eq_Some_conv block_info_of_Some)

lemma row_ok_coin: "row_ok r \<Longrightarrow> coin_of_row r \<noteq> None"
  by (cases "rc_blockheight r"; cases "rc_blocktime r"; cases "rc_spend_block_height r"; cases "rc_spend_block_time r")
    (auto simp: row_ok_def coin_of_row_def block_info_of_def)

text \<open>A query never fails, and returns exactly the coins that the clauses select.\<close>

lemma db_coins_Some:
  assumes "coins_inv db"
  obtains cs where "db_coins statuses outpoints db = Some cs"
    "list_all2 (\<lambda>r c. coin_of_row r = Some c) (filter (coins_where statuses outpoints) (coins_table db)) cs"
proof -
  have "coin_of_row r \<noteq> None" if "r \<in> set (coins_table db)" for r
    using assms that row_ok_coin unfolding coins_inv_def coins_ok_def by blast
  then have "db_coins statuses outpoints db \<noteq> None"
    unfolding db_coins_def collect_options_eq_None by auto
  then obtain cs where cs: "db_coins statuses outpoints db = Some cs" by blast
  then have "list_all2 (\<lambda>r c. coin_of_row r = Some c) (filter (coins_where statuses outpoints) (coins_table db)) cs"
    by (simp only: db_coins_def collect_options_eq_Some)
  with cs show thesis by (rule that)
qed

lemma list_all2_set_iff:
  "list_all2 (\<lambda>r c. f r = Some c) rs cs \<Longrightarrow> c \<in> set cs \<longleftrightarrow> (\<exists>r \<in> set rs. f r = Some c)"
  by (induction rule: list_all2_induct) auto

lemma coins_where_inv:
  assumes "coins_inv db" "r \<in> set (coins_table db)"
  shows "coins_where statuses outpoints r \<longleftrightarrow>
    (statuses = [] \<or> status_of_row r \<in> set statuses) \<and> (outpoints = [] \<or> rc_outpoint r \<in> set outpoints)"
  using assms by (auto simp: coins_where_def list_ex_iff coins_inv_def coins_ok_def status_condition_iff)

lemma db_coins_mem:
  assumes "coins_inv db" "db_coins statuses outpoints db = Some cs"
  shows "c \<in> set cs \<longleftrightarrow> (\<exists>r \<in> set (coins_table db). coin_of_row r = Some c \<and>
    (statuses = [] \<or> status_of_row r \<in> set statuses) \<and> (outpoints = [] \<or> rc_outpoint r \<in> set outpoints))"
proof (rule db_coins_Some [OF assms(1), of statuses outpoints])
  fix cs'
  assume "db_coins statuses outpoints db = Some cs'"
    "list_all2 (\<lambda>r c. coin_of_row r = Some c) (filter (coins_where statuses outpoints) (coins_table db)) cs'"
  with assms(2)
  have "c \<in> set cs \<longleftrightarrow> (\<exists>r \<in> set (filter (coins_where statuses outpoints) (coins_table db)). coin_of_row r = Some c)"
    using list_all2_set_iff [of coin_of_row _ cs c] by simp
  then show ?thesis using coins_where_inv [OF assms(1)] by auto
qed

section \<open>Transaction ids of a period\<close>

lemma in_map_filter: "y \<in> set (List.map_filter f xs) \<longleftrightarrow> (\<exists>x \<in> set xs. f x = Some y)"
  by (induction xs) (auto simp: List.map_filter_simps split: option.splits)

lemma in_events:
  "(t, d) \<in> set (deposit_events start end rows) \<longleftrightarrow>
     (\<exists>r \<in> set rows. op_txid (rc_outpoint r) = t \<and> rc_blocktime r = Some d \<and> start \<le> d \<and> d \<le> end)"
  "(t, d) \<in> set (spend_events start end rows) \<longleftrightarrow>
     (\<exists>r \<in> set rows. rc_spend_txid r = Some t \<and> rc_spend_block_time r = Some d \<and> start \<le> d \<and> d \<le> end)"
  unfolding deposit_events_def spend_events_def in_map_filter
  by (rule bex_cong [OF refl], force split: option.splits if_splits)+

definition event_in :: "coin_row list \<Rightarrow> txid \<times> nat \<Rightarrow> bool" where
  "event_in rows = (\<lambda>(t, d). \<exists>r \<in> set rows.
     (op_txid (rc_outpoint r) = t \<and> rc_blocktime r = Some d) \<or>
     (rc_spend_txid r = Some t \<and> rc_spend_block_time r = Some d))"

text \<open>The latest events of the period, at most \<open>limit\<close> of them.\<close>

lemma list_txids_spec:
  "\<exists>events. list_txids start end limit db = remdups (map fst events) \<and> distinct events \<and>
     (\<forall>e \<in> set events. event_in (coins_table db) e \<and> start \<le> snd e \<and> snd e \<le> end) \<and>
     length events \<le> limit \<and>
     (\<forall>e. event_in (coins_table db) e \<longrightarrow> start \<le> snd e \<longrightarrow> snd e \<le> end \<longrightarrow> e \<notin> set events \<longrightarrow>
        length events = limit \<and> (\<forall>e' \<in> set events. snd e \<le> snd e'))"
proof -
  define all where "all = remdups (deposit_events start end (coins_table db) @ spend_events start end (coins_table db))"
  define desc where "desc = rev (sort_key snd all)"
  have all: "set all = {e. event_in (coins_table db) e \<and> start \<le> snd e \<and> snd e \<le> end}"
    by (auto simp: all_def event_in_def in_events)
  have d: "distinct desc" "set desc = set all" by (simp_all add: desc_def all_def)
  have sorted: "sorted_wrt (\<lambda>a b. snd b \<le> snd a) desc"
    using sorted_sort_key [of snd all] unfolding desc_def sorted_wrt_rev sorted_map by simp
  have "e \<in> set desc \<Longrightarrow> e \<notin> set (take limit desc) \<Longrightarrow>
      length (take limit desc) = limit \<and> (\<forall>e' \<in> set (take limit desc). snd e \<le> snd e')" for e
  proof -
    assume e: "e \<in> set desc" "e \<notin> set (take limit desc)"
    then have "e \<in> set (drop limit desc)" by (metis Un_iff append_take_drop_id set_append)
    moreover from this have "limit < length desc" by (metis drop_all empty_iff empty_set not_le)
    moreover have "sorted_wrt (\<lambda>a b. snd b \<le> snd a) (take limit desc @ drop limit desc)"
      using sorted by simp
    ultimately show ?thesis by (auto simp: sorted_wrt_append simp del: append_take_drop_id)
  qed
  then show ?thesis
    using all d
    by (intro exI [of _ "take limit desc"])
      (auto simp: list_txids_def Let_def all_def [symmetric] desc_def [symmetric] dest: in_set_takeD)
qed

section \<open>Drafts\<close>

lemma find_map_keep:
  assumes "\<And>r. rs_txid (g r) = rs_txid r"
  shows "List.find (\<lambda>r. rs_txid r = t) (map g rows) = map_option g (List.find (\<lambda>r. rs_txid r = t) rows)"
  by (induction rows) (auto simp: assms)

lemma find_append:
  "List.find P (xs @ ys) = (case List.find P xs of Some x \<Rightarrow> Some x | None \<Rightarrow> List.find P ys)"
  by (induction xs) auto

definition draft_at :: "('ms, 'tr) database \<Rightarrow> txid \<Rightarrow> spend_row option" where
  "draft_at db t = List.find (\<lambda>r. rs_txid r = t) (spends_table db)"

lemma draft_at_store:
  assumes "spends_ok B (spends_table db)"
  shows "draft_at (store_spend B now psbt db) t =
    (if t = compute_txid B (unsigned_tx psbt)
     then Some (case draft_at db t of
         None \<Rightarrow> \<lparr>rs_psbt = psbt, rs_txid = t, rs_updated_at = Some now\<rparr>
       | Some r \<Rightarrow> r\<lparr>rs_psbt := psbt\<rparr>)
     else draft_at db t)"
proof -
  define k where "k = compute_txid B (unsigned_tx psbt)"
  have found: "List.find (\<lambda>r. rs_txid r = t) rows = Some r \<Longrightarrow> rs_txid r = t" for r rows
    by (auto simp: find_Some_iff)
  show ?thesis
  proof (cases "k \<in> rs_txid ` set (spends_table db)")
    case True
    then have "draft_at db k \<noteq> None" by (auto simp: draft_at_def find_None_iff)
    moreover have "draft_at (store_spend B now psbt db) t =
        map_option (\<lambda>r. if rs_txid r = k then r\<lparr>rs_psbt := psbt\<rparr> else r) (draft_at db t)"
      using True unfolding draft_at_def store_spend_table [OF assms] Let_def k_def [symmetric]
      by (simp add: find_map_keep)
    moreover have "draft_at db t = Some r \<Longrightarrow> rs_txid r = t" for r
      unfolding draft_at_def by (rule found)
    ultimately show ?thesis
      unfolding k_def [symmetric] by (cases "draft_at db t") auto
  next
    case False
    then have "draft_at db k = None" by (auto simp: draft_at_def find_None_iff)
    with False show ?thesis
      unfolding draft_at_def store_spend_table [OF assms] Let_def k_def [symmetric]
      by (auto simp: find_append split: option.splits)
  qed
qed

lemma draft_at_delete: "draft_at (delete_spend txid db) t = (if t = txid then None else draft_at db t)"
proof -
  have "List.find (\<lambda>r. rs_txid r \<noteq> txid \<and> rs_txid r = t) rows =
      (if t = txid then None else List.find (\<lambda>r. rs_txid r = t) rows)" for rows :: "spend_row list"
    by (induction rows) auto
  then show ?thesis by (simp add: draft_at_def delete_spend_def find_filter)
qed

section \<open>Labels\<close>

definition label_of :: "label_row list \<Rightarrow> string \<Rightarrow> string option" where
  "label_of rows s = map_option rl_value (List.find (\<lambda>r. rl_item r = s) rows)"

lemma label_of_set:
  "label_of (set_label item_text (item, v) rows) s = (if s = item_text item then v else label_of rows s)"
proof (cases v)
  case None
  have "List.find (\<lambda>r. rl_item r \<noteq> k \<and> rl_item r = s) rows =
      (if s = k then None else List.find (\<lambda>r. rl_item r = s) rows)" for k
    by (induct rows) auto
  then show ?thesis by (simp add: None set_label_def label_of_def find_filter)
next
  case (Some new)
  define k where "k = item_text item"
  have upd: "List.find (\<lambda>r. rl_item r = s) (map (\<lambda>r. if rl_item r = k then r\<lparr>rl_value := new\<rparr> else r) rows) =
      map_option (\<lambda>r. if rl_item r = k then r\<lparr>rl_value := new\<rparr> else r) (List.find (\<lambda>r. rl_item r = s) rows)"
    by (induction rows) auto
  have found: "List.find (\<lambda>r. rl_item r = s) rows = Some r \<Longrightarrow> rl_item r = s" for r
    by (auto simp: find_Some_iff)
  show ?thesis
  proof (cases "list_ex (\<lambda>r. rl_item r = k) rows")
    case True
    then have "List.find (\<lambda>r. rl_item r = k) rows \<noteq> None" by (auto simp: find_None_iff list_ex_iff)
    moreover have "label_of (set_label item_text (item, v) rows) s =
        map_option rl_value (map_option (\<lambda>r. if rl_item r = k then r\<lparr>rl_value := new\<rparr> else r)
          (List.find (\<lambda>r. rl_item r = s) rows))"
      using True by (simp add: set_label_def label_of_def Some k_def [symmetric] upd)
    ultimately show ?thesis
      using found unfolding label_of_def k_def [symmetric] Some
      by (cases "List.find (\<lambda>r. rl_item r = s) rows") auto
  next
    case False
    then have "List.find (\<lambda>r. rl_item r = k) rows = None" by (auto simp: find_None_iff list_ex_iff)
    with False show ?thesis
      by (auto simp: set_label_def label_of_def Some k_def [symmetric] find_append split: option.splits)
  qed
qed

lemma label_of_update:
  assumes "inj item_text"
  shows "label_of (labels_table (update_labels item_text items db)) (item_text item) =
    (case map_of (rev items) item of None \<Rightarrow> label_of (labels_table db) (item_text item) | Some v \<Rightarrow> v)"
proof -
  have "label_of (fold (set_label item_text) items rows) (item_text item) =
      (case map_of (rev items) item of None \<Rightarrow> label_of rows (item_text item) | Some v \<Rightarrow> v)" for rows
  proof (induction items rule: rev_induct)
    case (snoc x xs)
    then show ?case
      by (cases x) (auto simp: label_of_set inj_eq [OF assms])
  qed simp
  then show ?thesis by (simp add: update_labels_def)
qed

end
