(* ===== verification/From_Self.thy ===== *)
theory From_Self
  imports Database_Queries
begin

text \<open>
  The loop of \<open>update_coins_from_self\<close>. The comments of the code argue that the number
  of iterations it computes is enough, so that the assertion after the loop holds: this is
  proved here for any table. The flags it leaves are the least set that satisfies the
  definition of a coin from self, given as an inductive predicate.
\<close>

section \<open>The loop ends within its bound\<close>

definition mark :: "int \<Rightarrow> tx_row list \<Rightarrow> coin_row list \<Rightarrow> coin_row \<Rightarrow> coin_row" where
  "mark h txs rows r = (if becomes_self h txs rows r then r\<lparr>rc_is_from_self := True\<rparr> else r)"

lemma from_self_round_eq:
  "from_self_round h txs rows = (map (mark h txs rows) rows, length (filter (becomes_self h txs rows) rows))"
  by (simp add: from_self_round_def mark_def)

lemma mark_fields [simp]:
  "rc_outpoint (mark h txs rows r) = rc_outpoint r" "rc_blockheight (mark h txs rows r) = rc_blockheight r"
  "rc_spend_txid (mark h txs rows r) = rc_spend_txid r"
  "rc_spend_block_height (mark h txs rows r) = rc_spend_block_height r"
  "rc_is_from_self (mark h txs rows r) \<longleftrightarrow> rc_is_from_self r \<or> becomes_self h txs rows r"
  by (simp_all add: mark_def)

definition pending :: "coin_row list \<Rightarrow> nat" where
  "pending rows = length (filter (\<lambda>r. rc_blockheight r = None \<and> \<not> rc_is_from_self r) rows)"

lemma from_self_max_iterations_pending: "from_self_max_iterations rows = pending rows + 2"
  by (simp add: from_self_max_iterations_def pending_def)

lemma length_filter_mono:
  "(\<And>x. x \<in> set xs \<Longrightarrow> P x \<Longrightarrow> Q x) \<Longrightarrow> length (filter P xs) \<le> length (filter Q xs)"
proof (induction xs)
  case (Cons y ys)
  then have "length (filter P ys) \<le> length (filter Q ys)" by simp
  with Cons.prems [of y] show ?case by auto
qed simp

lemma length_filter_strict:
  assumes "\<And>x. x \<in> set xs \<Longrightarrow> P x \<Longrightarrow> Q x" "x \<in> set xs" "Q x" "\<not> P x"
  shows "length (filter P xs) < length (filter Q xs)"
  using assms
proof (induction xs)
  case (Cons y ys)
  have le: "length (filter P ys) \<le> length (filter Q ys)"
    by (rule length_filter_mono) (use Cons.prems(1) in auto)
  show ?case
  proof (cases "x \<in> set ys")
    case True
    with Cons have "length (filter P ys) < length (filter Q ys)" by simp
    with Cons.prems(1) show ?thesis by auto
  next
    case False
    with Cons.prems le show ?thesis by auto
  qed
qed simp

lemma spent_by_mark: "spent_by h (map (mark h txs rows) rows) t = map (mark h txs rows) (spent_by h rows t)"
  by (simp add: spent_by_def filter_map comp_def)

text \<open>An iteration that marks an unconfirmed coin leaves fewer of them.\<close>

lemma pending_decreases:
  assumes "r \<in> set rows" "rc_blockheight r = None" "becomes_self h txs rows r"
  shows "pending (map (mark h txs rows) rows) < pending rows"
proof -
  have "length (filter (\<lambda>r. rc_blockheight r = None \<and> \<not> (rc_is_from_self r \<or> becomes_self h txs rows r)) rows) <
      length (filter (\<lambda>r. rc_blockheight r = None \<and> \<not> rc_is_from_self r) rows)"
    by (rule length_filter_strict [of rows _ _ r]) (use assms in \<open>auto simp: becomes_self_def\<close>)
  then show ?thesis by (simp add: pending_def filter_map comp_def)
qed

text \<open>One that only marks confirmed coins is followed by one that marks nothing.\<close>

lemma confirmed_only_last:
  assumes "\<And>r. r \<in> set rows \<Longrightarrow> becomes_self h txs rows r \<Longrightarrow> rc_blockheight r \<noteq> None"
  shows "filter (becomes_self h txs (map (mark h txs rows) rows)) (map (mark h txs rows) rows) = []"
proof -
  have same: "counts_as_self (mark h txs rows r) = counts_as_self r" if "r \<in> set rows" for r
    using assms [OF that] by (auto simp: counts_as_self_def)
  have "length (filter counts_as_self (spent_by h (map (mark h txs rows) rows) t)) =
      length (filter counts_as_self (spent_by h rows t))" for t
  proof -
    have "set (spent_by h rows t) \<subseteq> set rows" by (auto simp: spent_by_def)
    then have "filter (counts_as_self \<circ> mark h txs rows) (spent_by h rows t) = filter counts_as_self (spent_by h rows t)"
      by (intro filter_cong) (auto simp: same)
    then show ?thesis by (simp add: spent_by_mark filter_map)
  qed
  then have "tx_from_self h (map (mark h txs rows) rows) t = tx_from_self h rows t" for t
    by (simp add: tx_from_self_def spent_by_mark)
  then show ?thesis
    by (auto simp: filter_empty_conv becomes_self_def)
qed

lemma from_self_loop_ends:
  "pending rows + 2 \<le> n \<Longrightarrow> \<exists>rows'. from_self_loop h txs n rows = Some rows'"
proof (induction "pending rows" arbitrary: rows n rule: less_induct)
  case less
  define rows1 where "rows1 = map (mark h txs rows) rows"
  obtain m where n: "n = Suc (Suc m)" and m: "pending rows \<le> m"
    using less.prems by (cases n rule: nat.exhaust; cases "n - 1") auto
  have loop: "from_self_loop h txs n rows =
      (if filter (becomes_self h txs rows) rows = [] then Some rows1 else from_self_loop h txs (Suc m) rows1)"
    by (simp add: n from_self_round_eq rows1_def)
  show ?case
  proof (cases "\<exists>r \<in> set rows. rc_blockheight r = None \<and> becomes_self h txs rows r")
    case True
    then have "pending rows1 < pending rows" using pending_decreases rows1_def by blast
    with less.hyps [of rows1 "Suc m"] m show ?thesis by (simp add: loop)
  next
    case False
    then have "filter (becomes_self h txs rows1) rows1 = []"
      unfolding rows1_def by (intro confirmed_only_last) auto
    then show ?thesis by (simp add: loop from_self_round_eq)
  qed
qed

lemma update_coins_from_self_total: "update_coins_from_self h db \<noteq> None"
  using from_self_loop_ends [of "coins_table db" "from_self_max_iterations (coins_table db)" h "transactions_table db"]
  by (auto simp: update_coins_from_self_def from_self_max_iterations_pending)

section \<open>The flags it leaves\<close>

text \<open>
  A coin is from self if it was already known to be, or if it may be updated and every
  input of its transaction is a coin of the wallet that is confirmed or from self.
\<close>

inductive self_coin :: "int \<Rightarrow> tx_row list \<Rightarrow> coin_row list \<Rightarrow> outpoint \<Rightarrow> bool"
  for h txs rows where
  known: "r \<in> set rows \<Longrightarrow> rc_is_from_self r \<Longrightarrow> self_coin h txs rows (rc_outpoint r)"
| inputs: "r \<in> set rows \<Longrightarrow> unconfirmed_or_above h (rc_blockheight r) \<Longrightarrow> t \<in> set txs \<Longrightarrow>
    rt_txid t = op_txid (rc_outpoint r) \<Longrightarrow> spent_by h rows (rt_txid t) \<noteq> [] \<Longrightarrow>
    rt_num_inputs t = Some (length (spent_by h rows (rt_txid t))) \<Longrightarrow>
    (\<And>s. s \<in> set (spent_by h rows (rt_txid t)) \<Longrightarrow> rc_blockheight s \<noteq> None \<or> self_coin h txs rows (rc_outpoint s)) \<Longrightarrow>
    self_coin h txs rows (rc_outpoint r)"

text \<open>No transaction spends more of our coins than it has inputs.\<close>

definition spends_within :: "int \<Rightarrow> tx_row list \<Rightarrow> coin_row list \<Rightarrow> bool" where
  "spends_within h txs rows \<longleftrightarrow>
     (\<forall>t \<in> set txs. \<forall>n. rt_num_inputs t = Some n \<longrightarrow> length (spent_by h rows (rt_txid t)) \<le> n)"

definition flagged :: "(outpoint \<Rightarrow> bool) \<Rightarrow> coin_row list \<Rightarrow> coin_row list" where
  "flagged S rows = map (\<lambda>r. r\<lparr>rc_is_from_self := S (rc_outpoint r)\<rparr>) rows"

definition self_step :: "int \<Rightarrow> tx_row list \<Rightarrow> coin_row list \<Rightarrow> (outpoint \<Rightarrow> bool) \<Rightarrow> coin_row \<Rightarrow> bool" where
  "self_step h txs rows S r \<longleftrightarrow> unconfirmed_or_above h (rc_blockheight r) \<and>
     (\<exists>t \<in> set txs. rt_txid t = op_txid (rc_outpoint r) \<and> spent_by h rows (rt_txid t) \<noteq> [] \<and>
        rt_num_inputs t = Some (length (filter (\<lambda>s. rc_blockheight s \<noteq> None \<or> S (rc_outpoint s)) (spent_by h rows (rt_txid t)))))"

lemma spent_by_flagged:
  "spent_by h (flagged S rows) t = flagged S (spent_by h rows t)"
  by (simp add: spent_by_def flagged_def filter_map comp_def)

lemma becomes_self_flagged:
  "becomes_self h txs (flagged S rows) (r\<lparr>rc_is_from_self := S (rc_outpoint r)\<rparr>) \<longleftrightarrow>
     \<not> S (rc_outpoint r) \<and> self_step h txs rows S r"
  by (auto simp: becomes_self_def self_step_def list_ex_iff tx_from_self_def spent_by_flagged)
    (auto simp: flagged_def filter_map comp_def counts_as_self_def)

lemma mark_flagged:
  assumes "distinct (map rc_outpoint rows)"
  shows "map (mark h txs (flagged S rows)) (flagged S rows) =
    flagged (\<lambda>op. S op \<or> (\<exists>r \<in> set rows. rc_outpoint r = op \<and> self_step h txs rows S r)) rows"
proof -
  have "(\<exists>r' \<in> set rows. rc_outpoint r' = rc_outpoint r \<and> self_step h txs rows S r') \<longleftrightarrow> self_step h txs rows S r"
    if "r \<in> set rows" for r
    using assms that by (metis (no_types, lifting) distinct_map inj_onD)
  then show ?thesis
    by (auto simp: flagged_def [of _ rows] mark_def becomes_self_flagged [unfolded flagged_def])
qed

lemma all_counted:
  "length (filter P xs) = n \<Longrightarrow> length xs \<le> n \<Longrightarrow> (\<forall>x \<in> set xs. P x) \<and> length xs = n"
proof -
  assume n: "length (filter P xs) = n" "length xs \<le> n"
  then have len: "length xs = n" using length_filter_le [of P xs] by simp
  moreover have "P x" if "x \<in> set xs" for x
    using length_filter_less [of x xs P] that n(1) len by (cases "P x") simp_all
  ultimately show ?thesis by blast
qed

lemma self_step_sound:
  assumes "spends_within h txs rows" "r \<in> set rows" "self_step h txs rows S r"
    "\<And>s. s \<in> set rows \<Longrightarrow> S (rc_outpoint s) \<Longrightarrow> self_coin h txs rows (rc_outpoint s)"
  shows "self_coin h txs rows (rc_outpoint r)"
proof -
  obtain t where t: "t \<in> set txs" "rt_txid t = op_txid (rc_outpoint r)" "spent_by h rows (rt_txid t) \<noteq> []"
    "rt_num_inputs t = Some (length (filter (\<lambda>s. rc_blockheight s \<noteq> None \<or> S (rc_outpoint s)) (spent_by h rows (rt_txid t))))"
    and u: "unconfirmed_or_above h (rc_blockheight r)"
    using assms(3) unfolding self_step_def by blast
  have "length (spent_by h rows (rt_txid t)) \<le>
      length (filter (\<lambda>s. rc_blockheight s \<noteq> None \<or> S (rc_outpoint s)) (spent_by h rows (rt_txid t)))"
    using assms(1) t(1,4) unfolding spends_within_def by blast
  note counted = all_counted [OF refl this]
  have all: "\<forall>s \<in> set (spent_by h rows (rt_txid t)). rc_blockheight s \<noteq> None \<or> S (rc_outpoint s)"
    by (rule conjunct1 [OF counted])
  have num: "rt_num_inputs t = Some (length (spent_by h rows (rt_txid t)))"
    unfolding t(4) conjunct2 [OF counted] ..
  have "rc_blockheight s \<noteq> None \<or> self_coin h txs rows (rc_outpoint s)"
    if "s \<in> set (spent_by h rows (rt_txid t))" for s
  proof -
    have "s \<in> set rows" using that by (simp add: spent_by_def)
    with all that assms(4) [of s] show ?thesis by blast
  qed
  then show ?thesis
    using self_coin.inputs [OF assms(2) u t(1,2,3) num] by blast
qed

lemma from_self_loop_flagged:
  assumes "distinct (map rc_outpoint rows)" "spends_within h txs rows"
    "from_self_loop h txs n (flagged S rows) = Some rows'"
    "\<And>s. s \<in> set rows \<Longrightarrow> S (rc_outpoint s) \<Longrightarrow> self_coin h txs rows (rc_outpoint s)"
  shows "\<exists>S'. rows' = flagged S' rows \<and> (\<forall>op. S op \<longrightarrow> S' op) \<and>
    (\<forall>s \<in> set rows. S' (rc_outpoint s) \<longrightarrow> self_coin h txs rows (rc_outpoint s)) \<and>
    (\<forall>s \<in> set rows. self_step h txs rows S' s \<longrightarrow> S' (rc_outpoint s))"
  using assms(3,4)
proof (induction n arbitrary: S)
  case (Suc n)
  define S1 where "S1 = (\<lambda>op. S op \<or> (\<exists>r \<in> set rows. rc_outpoint r = op \<and> self_step h txs rows S r))"
  have loop: "from_self_loop h txs (Suc n) (flagged S rows) =
      (if filter (becomes_self h txs (flagged S rows)) (flagged S rows) = [] then Some (flagged S1 rows)
       else from_self_loop h txs n (flagged S1 rows))"
    by (simp add: from_self_round_eq mark_flagged [OF assms(1)] S1_def)
  have sound: "S1 (rc_outpoint s) \<Longrightarrow> self_coin h txs rows (rc_outpoint s)" if "s \<in> set rows" for s
    unfolding S1_def using Suc.prems(2) that self_step_sound [OF assms(2)] by metis
  show ?case
  proof (cases "filter (becomes_self h txs (flagged S rows)) (flagged S rows) = []")
    case True
    then have closed: "self_step h txs rows S s \<Longrightarrow> S (rc_outpoint s)" if "s \<in> set rows" for s
      using that by (auto simp: filter_empty_conv flagged_def becomes_self_flagged [unfolded flagged_def])
    then have "S1 (rc_outpoint s) = S (rc_outpoint s)" if "s \<in> set rows" for s
      using that unfolding S1_def by metis
    then have "flagged S1 rows = flagged S rows" by (simp add: flagged_def)
    with True Suc.prems loop closed show ?thesis by (intro exI [of _ S]) simp
  next
    case False
    then have "from_self_loop h txs n (flagged S1 rows) = Some rows'" using Suc.prems(1) loop by simp
    from Suc.IH [OF this sound] show ?thesis unfolding S1_def by blast
  qed
qed simp

lemma update_coins_from_self_least:
  assumes "coins_inv db" "spends_within h (transactions_table db) (coins_table db)"
  shows "update_coins_from_self h db =
    Some (db\<lparr>coins_table := flagged (self_coin h (transactions_table db) (coins_table db)) (coins_table db)\<rparr>)"
proof -
  define rows where "rows = coins_table db"
  define txs where "txs = transactions_table db"
  define S0 where "S0 = (\<lambda>op. \<exists>r \<in> set rows. rc_outpoint r = op \<and> rc_is_from_self r)"
  have d: "distinct (map rc_outpoint rows)" using assms(1) by (simp add: coins_inv_def coins_ok_def rows_def)
  have "S0 (rc_outpoint r) = rc_is_from_self r" if "r \<in> set rows" for r
    unfolding S0_def using d that by (metis (no_types, lifting) distinct_map inj_onD)
  then have init: "flagged S0 rows = rows" unfolding flagged_def by (intro map_idI) simp
  obtain rows' where loop: "from_self_loop h txs (from_self_max_iterations rows) rows = Some rows'"
    using from_self_loop_ends from_self_max_iterations_pending by (metis order_refl)
  obtain S' where S': "rows' = flagged S' rows" "\<forall>op. S0 op \<longrightarrow> S' op"
    "\<forall>s \<in> set rows. S' (rc_outpoint s) \<longrightarrow> self_coin h txs rows (rc_outpoint s)"
    "\<forall>s \<in> set rows. self_step h txs rows S' s \<longrightarrow> S' (rc_outpoint s)"
    using from_self_loop_flagged [OF d, of h txs _ S0 rows'] assms(2) loop
    unfolding init rows_def [symmetric] txs_def [symmetric]
    by (metis S0_def self_coin.known)
  have "S' op" if "self_coin h txs rows op" for op
    using that
  proof (induction rule: self_coin.induct)
    case (known r)
    then show ?case using S'(2) S0_def by blast
  next
    case (inputs r t)
    then have "filter (\<lambda>s. rc_blockheight s \<noteq> None \<or> S' (rc_outpoint s)) (spent_by h rows (rt_txid t)) = spent_by h rows (rt_txid t)"
      by (intro filter_True) auto
    with inputs have "self_step h txs rows S' r" unfolding self_step_def by metis
    with S'(4) inputs(1) show ?case by blast
  qed
  with S'(3) have "S' (rc_outpoint s) = self_coin h txs rows (rc_outpoint s)" if "s \<in> set rows" for s
    using that by blast
  then have "rows' = flagged (self_coin h txs rows) rows" by (simp add: S'(1) flagged_def)
  with loop show ?thesis by (simp add: update_coins_from_self_def rows_def txs_def)
qed

lemma update_coins_from_self_db_inv [inv_intros]:
  assumes "db_inv B D db" "update_coins_from_self h db = Some db'"
  shows "db_inv B D db'"
proof -
  have keep: "from_self_loop h txs n rows = Some rows' \<Longrightarrow> coins_ok T rows \<Longrightarrow> coins_ok T rows'" for txs n rows rows' T
  proof (induction n arbitrary: rows)
    case (Suc n)
    have "coins_ok T (map (mark h txs rows) rows)"
      using Suc.prems(2) by (intro coins_ok_map) (auto simp: mark_def row_ok_def split: if_splits)
    with Suc show ?case by (auto simp: from_self_round_eq split: if_splits)
  qed simp
  obtain rows where "from_self_loop h (transactions_table db) (from_self_max_iterations (coins_table db)) (coins_table db) = Some rows"
    and db': "db' = db\<lparr>coins_table := rows\<rparr>"
    using assms(2) by (auto simp: update_coins_from_self_def)
  with keep db_inv_coins [OF assms(1)] have "coins_inv db'" by (simp add: coins_inv_def)
  with assms(1) db' show ?thesis by (auto intro: db_inv_same_but_coins)
qed

end
