(* ===== verification/Backend.thy ===== *)
theory Backend
  imports From_Self
begin

text \<open>
  The Bitcoin backends (\<open>lianad/src/bitcoin/mod.rs\<close>): what the code derives from the
  answers of a \<open>bitcoind\<close> node or of an Electrum wallet. The answers themselves are
  the record \<open>node\<close> and the map of wallet coins, parameters of the model.
\<close>

section \<open>A bitcoind node\<close>

record block =
  blk_hash :: block_hash
  blk_height :: int
  blk_time :: nat

record block_stats =
  bs_confirmations :: int
  bs_previous :: "block_hash option"
  bs_hash :: block_hash
  bs_height :: int
  bs_time :: nat
  bs_median_time :: nat

record get_tx_res =
  gt_conflicting_txs :: "txid list"
  gt_block :: "block option"
  gt_tx :: tx
  gt_is_coinbase :: bool
  gt_confirmations :: int

text \<open>An entry of the mempool, with the three fees of \<open>MempoolEntryFees\<close>.\<close>

record mempool_entry =
  me_vsize :: nat
  me_ancestor_vsize :: nat
  me_base_fee :: nat
  me_ancestor_fee :: nat
  me_descendant_fee :: nat

text \<open>An entry of \<open>listsinceblock\<close>; descriptors are compared, so any type does.\<close>

record 'd ls_block_entry =
  ls_outpoint :: outpoint
  ls_amount :: nat
  ls_block_height :: "int option"
  ls_address :: address
  ls_parent_descs :: "'d list"
  ls_is_immature :: bool

record 'd node =
  nd_chain_tip :: block_chain_tip
  nd_block_hash :: "int \<Rightarrow> block_hash option"
  nd_block_stats :: "block_hash \<Rightarrow> block_stats option"
  nd_list_since_block :: "block_hash \<Rightarrow> 'd ls_block_entry list"
  nd_transaction :: "txid \<Rightarrow> get_tx_res option"
  nd_in_mempool :: "txid \<Rightarrow> bool"
  nd_is_spent :: "outpoint \<Rightarrow> bool"
  nd_spender_txid :: "outpoint \<Rightarrow> txid option"

datatype utxo_address = Utxo_Address address | Utxo_Deriv_Index child_number bool

record utxo =
  ux_outpoint :: outpoint
  ux_amount :: nat
  ux_block_height :: "int option"
  ux_address :: utxo_address
  ux_is_immature :: bool

definition COINBASE_MATURITY :: int where "COINBASE_MATURITY = 100"

definition bitcoind_is_in_chain :: "'d node \<Rightarrow> block_chain_tip \<Rightarrow> bool" where
  "bitcoind_is_in_chain N tip = (case nd_block_hash N (ct_height tip) of
     Some hash \<Rightarrow> hash = ct_hash tip | None \<Rightarrow> False)"

definition bitcoind_received_coins :: "'d node \<Rightarrow> block_chain_tip \<Rightarrow> 'd list \<Rightarrow> utxo list" where
  "bitcoind_received_coins N tip descs =
     List.map_filter (\<lambda>e.
       if list_ex (\<lambda>parent_desc. list_ex (\<lambda>desc. desc = parent_desc) descs) (ls_parent_descs e)
       then Some \<lparr>ux_outpoint = ls_outpoint e, ux_amount = ls_amount e, ux_block_height = ls_block_height e,
         ux_address = Utxo_Address (ls_address e), ux_is_immature = ls_is_immature e\<rparr>
       else None) (nd_list_since_block N (ct_hash tip))"

text \<open>The lists under construction are threaded through the loops; the cache of
  \<open>gettransaction\<close> only saves calls.\<close>

fun bitcoind_confirmed_coins ::
  "'d node \<Rightarrow> outpoint list \<Rightarrow> (outpoint \<times> int \<times> nat) list \<times> outpoint list" where
  "bitcoind_confirmed_coins N [] = ([], [])"
| "bitcoind_confirmed_coins N (op # ops) =
     (let (confirmed, expired) = bitcoind_confirmed_coins N ops in
      case nd_transaction N (op_txid op) of
        None \<Rightarrow> (confirmed, expired)
      | Some res \<Rightarrow>
          (case gt_block res of
            Some block \<Rightarrow>
              (if gt_is_coinbase res \<and> gt_confirmations res < COINBASE_MATURITY then (confirmed, expired)
               else ((op, blk_height block, blk_time block) # confirmed, expired))
          | None \<Rightarrow>
              (if \<not> nd_in_mempool N (op_txid op) then (confirmed, op # expired) else (confirmed, expired))))"

definition bitcoind_spending_coins :: "'d node \<Rightarrow> outpoint list \<Rightarrow> (outpoint \<times> txid) list" where
  "bitcoind_spending_coins N ops =
     List.map_filter (\<lambda>op. if nd_is_spent N op then map_option (Pair op) (nd_spender_txid N op) else None) ops"

text \<open>A confirmed transaction in conflict with the spender that spends the coin too.\<close>

definition confirmed_conflict :: "'d node \<Rightarrow> outpoint \<Rightarrow> get_tx_res \<Rightarrow> (txid \<times> block) option" where
  "confirmed_conflict N op res = find_map (\<lambda>txid.
     Option.bind (nd_transaction N txid) (\<lambda>t.
     Option.bind (gt_block t) (\<lambda>block.
     find_map (\<lambda>txin. if previous_output txin = op then Some (txid, block) else None) (tx_input (gt_tx t)))))
     (gt_conflicting_txs res)"

fun bitcoind_spent_coins ::
  "'d node \<Rightarrow> (outpoint \<times> txid) list \<Rightarrow> (outpoint \<times> txid \<times> int \<times> nat) list \<times> outpoint list" where
  "bitcoind_spent_coins N [] = ([], [])"
| "bitcoind_spent_coins N ((op, txid) # rest) =
     (let (spent, expired) = bitcoind_spent_coins N rest in
      case nd_transaction N txid of
        None \<Rightarrow> (spent, expired)
      | Some res \<Rightarrow>
          (case gt_block res of
            Some block \<Rightarrow> ((op, txid, blk_height block, blk_time block) # spent, expired)
          | None \<Rightarrow>
              (case confirmed_conflict N op res of
                Some (conflict, block) \<Rightarrow> ((op, conflict, blk_height block, blk_time block) # spent, expired)
              | None \<Rightarrow>
                  (if \<not> nd_in_mempool N txid then (spent, op # expired) else (spent, expired)))))"

text \<open>The walk back to the best chain. \<open>None\<close> is a walk that does not end.\<close>

partial_function (option) walk_to_chain ::
  "'d node \<Rightarrow> block_stats \<Rightarrow> block_chain_tip \<Rightarrow> block_chain_tip option option" where
  "walk_to_chain N stats ancestor =
     (if bs_confirmations stats = -1 then
        (case bs_previous stats of
          None \<Rightarrow> Some None
        | Some previous \<Rightarrow>
            (case nd_block_stats N previous of
              None \<Rightarrow> Some None
            | Some stats' \<Rightarrow> walk_to_chain N stats' \<lparr>ct_height = bs_height stats', ct_hash = bs_hash stats'\<rparr>))
      else Some (Some ancestor))"

definition bitcoind_common_ancestor :: "'d node \<Rightarrow> block_chain_tip \<Rightarrow> block_chain_tip option option" where
  "bitcoind_common_ancestor N tip = (case nd_block_stats N (ct_hash tip) of
     None \<Rightarrow> Some None | Some stats \<Rightarrow> walk_to_chain N stats tip)"

subsection \<open>The last block before a date\<close>

text \<open>
  The binary search of \<open>d/utils.rs\<close>. \<open>Inl ()\<close> is a panic (no genesis hash) and
  \<open>Inr None\<close> an answer the node did not have.
\<close>

definition time_at :: "'d node \<Rightarrow> int \<Rightarrow> nat option" where
  "time_at N h = Option.bind (nd_block_hash N h) (\<lambda>hash. map_option bs_time (nd_block_stats N hash))"

function search_block :: "'d node \<Rightarrow> nat \<Rightarrow> int \<Rightarrow> int \<Rightarrow> int option" where
  "search_block N target start_height end_height =
     (if start_height < end_height then
        (let delta = end_height - start_height;
             current_height = start_height + delta div 2;
             next_height = current_height + 1
         in case time_at N next_height of
              None \<Rightarrow> None
            | Some time \<Rightarrow>
                (if target > time then search_block N target next_height end_height
                 else search_block N target start_height current_height))
      else Some start_height)"
  by pat_completeness auto
termination by (relation "measure (\<lambda>(N, target, s, e). nat (e - s))") auto

definition block_before_date :: "'d node \<Rightarrow> nat \<Rightarrow> unit + block_chain_tip option" where
  "block_before_date N target =
     (case nd_block_hash N 0 of
        None \<Rightarrow> Err ()
      | Some genesis \<Rightarrow>
          (case (nd_block_stats N genesis, nd_block_stats N (ct_hash (nd_chain_tip N))) of
            (Some genesis_stats, Some tip_stats) \<Rightarrow>
              (if \<not> (bs_time genesis_stats \<le> target \<and> target < bs_time tip_stats) then Ok None
               else Ok (Option.bind (search_block N target 0 (ct_height (nd_chain_tip N))) (\<lambda>h.
                 map_option (\<lambda>hash. \<lparr>ct_height = h, ct_hash = hash\<rparr>) (nd_block_hash N h))))
          | _ \<Rightarrow> Ok None))"

section \<open>An Electrum wallet\<close>

record wallet_coin =
  wc_outpoint :: outpoint
  wc_amount :: nat
  wc_derivation_index :: child_number
  wc_is_change :: bool
  wc_is_immature :: bool
  wc_block_info :: "block_info option"
  wc_spend_txid :: "txid option"
  wc_spend_block :: "block_info option"

text \<open>\<open>wallet_coins\<close> as a list of entries; its lookups are by outpoint.\<close>

definition wc_get :: "wallet_coin list \<Rightarrow> outpoint \<Rightarrow> wallet_coin option" where
  "wc_get cs op = List.find (\<lambda>c. wc_outpoint c = op) cs"

definition electrum_received_coins :: "wallet_coin list \<Rightarrow> block_chain_tip \<Rightarrow> utxo list" where
  "electrum_received_coins cs tip = List.map_filter (\<lambda>c.
     (let height = map_option bi_height (wc_block_info c) in
      if (case height of None \<Rightarrow> False | Some h \<Rightarrow> h \<le> ct_height tip) then None
      else Some \<lparr>ux_outpoint = wc_outpoint c, ux_amount = wc_amount c, ux_block_height = height,
        ux_address = Utxo_Deriv_Index (wc_derivation_index c) (wc_is_change c), ux_is_immature = wc_is_immature c\<rparr>)) cs"

fun electrum_confirmed_coins ::
  "wallet_coin list \<Rightarrow> outpoint list \<Rightarrow> (outpoint \<times> int \<times> nat) list \<times> outpoint list" where
  "electrum_confirmed_coins cs [] = ([], [])"
| "electrum_confirmed_coins cs (op # ops) =
     (let (confirmed, expired) = electrum_confirmed_coins cs ops in
      case wc_get cs op of
        None \<Rightarrow> (confirmed, op # expired)
      | Some c \<Rightarrow>
          (case wc_block_info c of
            Some block \<Rightarrow>
              (if wc_is_immature c then (confirmed, expired)
               else ((wc_outpoint c, bi_height block, bi_time block) # confirmed, expired))
          | None \<Rightarrow> (confirmed, expired)))"

definition electrum_spending_coins :: "wallet_coin list \<Rightarrow> outpoint list \<Rightarrow> (outpoint \<times> txid) list" where
  "electrum_spending_coins cs ops = List.map_filter (\<lambda>op.
     Option.bind (wc_get cs op) (\<lambda>c. map_option (Pair (wc_outpoint c)) (wc_spend_txid c))) ops"

fun electrum_spent_coins ::
  "wallet_coin list \<Rightarrow> (outpoint \<times> txid) list \<Rightarrow> (outpoint \<times> txid \<times> int \<times> nat) list \<times> outpoint list" where
  "electrum_spent_coins cs [] = ([], [])"
| "electrum_spent_coins cs ((op, spend_txid) # rest) =
     (let (spent, expired_spending) = electrum_spent_coins cs rest in
      case wc_get cs op of
        None \<Rightarrow> (spent, expired_spending)
      | Some c \<Rightarrow>
          ((case wc_spend_block c of
              Some block \<Rightarrow> (op, spend_txid, bi_height block, bi_time block) # spent
            | None \<Rightarrow> spent),
           (if wc_spend_txid c \<noteq> Some spend_txid then op # expired_spending else expired_spending)))"

section \<open>What the backends report\<close>

lemma bitcoind_confirmed_coins_lists:
  "bitcoind_confirmed_coins N ops =
    (List.map_filter (\<lambda>op. Option.bind (nd_transaction N (op_txid op)) (\<lambda>res. Option.bind (gt_block res) (\<lambda>block.
        if gt_is_coinbase res \<and> gt_confirmations res < COINBASE_MATURITY then None
        else Some (op, blk_height block, blk_time block)))) ops,
     filter (\<lambda>op. (\<exists>res. nd_transaction N (op_txid op) = Some res \<and> gt_block res = None) \<and>
       \<not> nd_in_mempool N (op_txid op)) ops)"
  by (induction N ops rule: bitcoind_confirmed_coins.induct)
    (auto simp: List.map_filter_simps split: option.splits)

lemma bitcoind_confirmed_coins_iff:
  "(op, h, t) \<in> set (fst (bitcoind_confirmed_coins N ops)) \<longleftrightarrow> op \<in> set ops \<and>
     (\<exists>res block. nd_transaction N (op_txid op) = Some res \<and> gt_block res = Some block \<and>
        blk_height block = h \<and> blk_time block = t \<and>
        (gt_is_coinbase res \<longrightarrow> COINBASE_MATURITY \<le> gt_confirmations res))"
  "op \<in> set (snd (bitcoind_confirmed_coins N ops)) \<longleftrightarrow> op \<in> set ops \<and>
     (\<exists>res. nd_transaction N (op_txid op) = Some res \<and> gt_block res = None) \<and> \<not> nd_in_mempool N (op_txid op)"
  unfolding bitcoind_confirmed_coins_lists
  by (auto simp: in_map_filter bind_eq_Some_conv not_less split: if_splits)

lemma confirmed_conflict_Some:
  assumes "confirmed_conflict N op res = Some (txid, block)"
  shows "txid \<in> set (gt_conflicting_txs res)"
    "\<exists>t. nd_transaction N txid = Some t \<and> gt_block t = Some block \<and>
       op \<in> previous_output ` set (tx_input (gt_tx t))"
  using assms
  by (auto simp: confirmed_conflict_def bind_eq_Some_conv dest!: find_map_Some split: if_splits)

lemma bitcoind_spent_coins_sound:
  "(op, txid, h, t) \<in> set (fst (bitcoind_spent_coins N ops)) \<Longrightarrow>
     \<exists>res block. nd_transaction N txid = Some res \<and> gt_block res = Some block \<and> blk_height block = h \<and> blk_time block = t \<and>
       ((op, txid) \<in> set ops \<or> op \<in> fst ` set ops \<and> op \<in> previous_output ` set (tx_input (gt_tx res)))"
proof (induction N ops rule: bitcoind_spent_coins.induct)
  case (2 N op' txid' rest)
  then consider (rest) "(op, txid, h, t) \<in> set (fst (bitcoind_spent_coins N rest))"
    | (confirmed) res block where "op = op'" "txid = txid'" "nd_transaction N txid = Some res"
        "gt_block res = Some block" "blk_height block = h" "blk_time block = t"
    | (conflict) res block where "op = op'" "confirmed_conflict N op res = Some (txid, block)"
        "blk_height block = h" "blk_time block = t"
    by (auto simp: Let_def split: prod.splits option.splits if_splits)
  then show ?case
  proof cases
    case rest
    with 2(1) show ?thesis by auto
  next
    case conflict
    with confirmed_conflict_Some(2) [OF conflict(2)] show ?thesis by auto
  qed auto
qed simp

text \<open>A coin is not reported as spent and expired for the same spender.\<close>

lemma bitcoind_spent_expired:
  "op \<in> set (snd (bitcoind_spent_coins N ops)) \<Longrightarrow>
     \<exists>txid res. (op, txid) \<in> set ops \<and> nd_transaction N txid = Some res \<and> gt_block res = None \<and>
       confirmed_conflict N op res = None \<and> \<not> nd_in_mempool N txid"
  by (induction N ops rule: bitcoind_spent_coins.induct)
    (auto simp: Let_def split: prod.splits option.splits if_splits)

section \<open>The walk back\<close>

text \<open>
  The headers of a node: a block not in the best chain has a parent one block below, and no
  block is below the genesis block. The walk then ends at a block of the best chain.
\<close>

definition headers_ok :: "'d node \<Rightarrow> bool" where
  "headers_ok N \<longleftrightarrow> (\<forall>hash stats. nd_block_stats N hash = Some stats \<longrightarrow> 0 \<le> bs_height stats \<and>
     bs_hash stats = hash \<and>
     (bs_confirmations stats = -1 \<longrightarrow>
        (\<forall>p ps. bs_previous stats = Some p \<longrightarrow> nd_block_stats N p = Some ps \<longrightarrow> bs_height ps = bs_height stats - 1)))"

definition in_best_chain :: "'d node \<Rightarrow> block_hash \<Rightarrow> bool" where
  "in_best_chain N hash \<longleftrightarrow> (\<exists>stats. nd_block_stats N hash = Some stats \<and> bs_confirmations stats \<noteq> -1)"

lemma walk_to_chain_ends:
  assumes "headers_ok N" "nd_block_stats N (ct_hash anc) = Some stats"
  shows "\<exists>r. walk_to_chain N stats anc = Some r \<and>
    (\<forall>a. r = Some a \<longrightarrow> in_best_chain N (ct_hash a) \<and> (a = anc \<or> ct_height a < bs_height stats))"
  using assms(2)
proof (induction "nat (bs_height stats)" arbitrary: stats anc rule: less_induct)
  case less
  consider (found) "bs_confirmations stats \<noteq> -1"
    | (lost) "bs_confirmations stats = -1" "\<nexists>ps. Option.bind (bs_previous stats) (nd_block_stats N) = Some ps"
    | (step) p ps where "bs_confirmations stats = -1" "bs_previous stats = Some p" "nd_block_stats N p = Some ps"
    by (cases "bs_previous stats") auto
  then show ?case
  proof cases
    case found
    with less.prems show ?thesis by (subst walk_to_chain.simps) (auto simp: in_best_chain_def)
  next
    case lost
    then show ?thesis by (subst walk_to_chain.simps) (auto split: option.splits)
  next
    case step
    define anc' where "anc' = \<lparr>ct_height = bs_height ps, ct_hash = bs_hash ps\<rparr>"
    have ps: "bs_hash ps = p" "bs_height ps = bs_height stats - 1" "0 \<le> bs_height ps"
      using assms(1) less.prems step unfolding headers_ok_def by blast+
    have stats': "nd_block_stats N (ct_hash anc') = Some ps" using step(3) ps(1) by (simp add: anc'_def)
    have w: "walk_to_chain N stats anc = walk_to_chain N ps anc'"
      by (subst walk_to_chain.simps) (simp add: step anc'_def)
    from less.hyps [OF _ stats'] ps obtain r where "walk_to_chain N ps anc' = Some r"
      "\<forall>a. r = Some a \<longrightarrow> in_best_chain N (ct_hash a) \<and> (a = anc' \<or> ct_height a < bs_height ps)"
      by auto
    with ps show ?thesis by (auto simp: w anc'_def)
  qed
qed

section \<open>The binary search\<close>

lemma search_block_spec:
  assumes "search_block N target s e = Some h" "s \<le> e"
  shows "s \<le> h \<and> h \<le> e \<and> (h = s \<or> (\<exists>t. time_at N h = Some t \<and> t < target)) \<and>
    (h = e \<or> (\<exists>t. time_at N (h + 1) = Some t \<and> target \<le> t))"
  using assms
proof (induction N target s e rule: search_block.induct)
  case (1 N target s e)
  define c where "c = s + (e - s) div 2"
  show ?case
  proof (cases "s < e")
    case False
    with 1(3,4) show ?thesis by simp
  next
    case True
    then have c: "s \<le> c" "c < e" by (auto simp: c_def)
    obtain t where t: "time_at N (c + 1) = Some t"
      using 1(3) True by (auto simp: Let_def c_def split: option.splits)
    show ?thesis
    proof (cases "target > t")
      case less: True
      then have "search_block N target (c + 1) e = Some h"
        using 1(3) True t by (simp add: Let_def c_def)
      with 1(1) [OF True refl refl refl] t less c show ?thesis by (auto simp: c_def)
    next
      case False
      then have "search_block N target s c = Some h"
        using 1(3) True t by (simp add: Let_def c_def)
      with 1(2) [OF True refl refl refl] t False c show ?thesis by (auto simp: c_def)
    qed
  qed
qed

declare search_block.simps [simp del]

end
