(* ===== verification/Poller.thy ===== *)
theory Poller
  imports Backend
begin

text \<open>
  The poller (\<open>lianad/src/bitcoin/poller\<close>): one update of the wallet from the backend,
  the checks for a new tip and for the end of a rescan, and the loop of the polling thread.

  The backend changes between calls, so an attempt at an update runs against a record of
  its answers: one field per call the code makes in an attempt, functions of the call's
  arguments. A function that starts over takes the next record of a list. \<open>Poll_Panic\<close>
  is a panic; \<open>Poll_Unfinished\<close> means that the list ran out while the code was still
  starting over.
\<close>

section \<open>The answers of a backend\<close>

datatype poll_error = Poll_Panic | Poll_Unfinished

record chain_view =
  cv_tip :: block_chain_tip
  cv_is_in_chain :: "block_chain_tip \<Rightarrow> bool"
  cv_common_ancestor :: "block_chain_tip \<Rightarrow> block_chain_tip option"

datatype sync_result = Sync_Ok "block_chain_tip option" | Sync_Err

record update_view =
  uv_sync_wallet :: "child_number \<Rightarrow> child_number \<Rightarrow> sync_result"
  uv_chain :: "chain_view list"
  uv_received_coins :: "block_chain_tip \<Rightarrow> utxo list"
  uv_confirmed_coins :: "outpoint list \<Rightarrow> (outpoint \<times> int \<times> nat) list \<times> outpoint list"
  uv_spending_coins :: "outpoint list \<Rightarrow> (outpoint \<times> txid) list"
  uv_spent_coins :: "(outpoint \<times> txid) list \<Rightarrow> (outpoint \<times> txid \<times> int \<times> nat) list \<times> outpoint list"
  uv_chain_tip :: block_chain_tip
  uv_wallet_transaction :: "txid \<Rightarrow> tx option"

section \<open>The coins of an update\<close>

record updated_coins =
  up_received :: "coin list"
  up_confirmed :: "(outpoint \<times> int \<times> nat) list"
  up_expired :: "outpoint list"
  up_spending :: "(outpoint \<times> txid) list"
  up_expired_spending :: "outpoint list"
  up_spent :: "(outpoint \<times> txid \<times> int \<times> nat) list"

definition utxo_index :: "btc \<Rightarrow> ('ms, 'tr) database \<Rightarrow> utxo \<Rightarrow> (child_number \<times> bool) option" where
  "utxo_index B db u = (case ux_address u of
     Utxo_Address a \<Rightarrow> if addr_valid_for B a (db_network db) then derivation_index_by_address a db else None
   | Utxo_Deriv_Index index is_change \<Rightarrow> Some (index, is_change))"

definition coin_of_utxo :: "utxo \<Rightarrow> child_number \<Rightarrow> bool \<Rightarrow> coin" where
  "coin_of_utxo u index is_change = \<lparr>coin_outpoint = ux_outpoint u, coin_is_immature = ux_is_immature u,
     coin_block_info = None, coin_amount = ux_amount u, coin_derivation_index = index,
     coin_is_change = is_change, coin_spend_txid = None, coin_spend_block = None, coin_is_from_self = False\<rparr>"

text \<open>Moving a derivation index past the one of a coin received.\<close>

definition bump_index ::
  "('ms, 'tr) desc_ops \<Rightarrow> child_number \<Rightarrow> bool \<Rightarrow> ('ms, 'tr) database \<Rightarrow> ('ms, 'tr) database option" where
  "bump_index D index is_change db =
     (if \<not> is_change \<and> index > receive_index db then set_receive_index D index db
      else if is_change \<and> index > change_index db then set_change_index D index db
      else Some db)"

fun receive_utxos ::
  "btc \<Rightarrow> ('ms, 'tr) desc_ops \<Rightarrow> coin list \<Rightarrow> utxo list \<Rightarrow> ('ms, 'tr) database
     \<Rightarrow> (coin list \<times> ('ms, 'tr) database) option" where
  "receive_utxos B D curr_coins [] db = Some ([], db)"
| "receive_utxos B D curr_coins (u # us) db = (case utxo_index B db u of
     None \<Rightarrow> receive_utxos B D curr_coins us db
   | Some (index, is_change) \<Rightarrow>
       Option.bind (bump_index D index is_change db) (\<lambda>db.
       map_option (\<lambda>(received, db).
           (if ux_outpoint u \<in> coin_outpoint ` set curr_coins then received
            else coin_of_utxo u index is_change # received, db))
         (receive_utxos B D curr_coins us db)))"

definition update_coins ::
  "btc \<Rightarrow> ('ms, 'tr) desc_ops \<Rightarrow> update_view \<Rightarrow> block_chain_tip \<Rightarrow> ('ms, 'tr) database
     \<Rightarrow> (updated_coins \<times> ('ms, 'tr) database) option" where
  "update_coins B D v previous_tip db =
     Option.bind (db_coins [] [] db) (\<lambda>curr_coins.
     Option.bind (receive_utxos B D curr_coins (uv_received_coins v previous_tip) db) (\<lambda>(received, db).
     let to_be_confirmed = map coin_outpoint (filter (\<lambda>c. coin_block_info c = None) (curr_coins @ received));
         (confirmed, expired) = uv_confirmed_coins v to_be_confirmed;
         to_be_spent = map coin_outpoint (filter (\<lambda>c.
           \<not> ((coin_spend_txid c \<noteq> None \<and> coin_spend_block c \<noteq> None) \<or> coin_outpoint c \<in> set expired))
           (curr_coins @ received));
         spending = uv_spending_coins v to_be_spent
     in
     Option.bind (list_spending_coins db) (\<lambda>spending_now.
     Option.bind (collect_options (\<lambda>c. map_option (Pair (coin_outpoint c)) (coin_spend_txid c)) spending_now) (\<lambda>known.
     let (spent, expired_spending) = uv_spent_coins v (known @ spending)
     in Some (\<lparr>up_received = received, up_confirmed = confirmed, up_expired = expired, up_spending = spending,
          up_expired_spending = expired_spending, up_spent = spent\<rparr>, db)))))"

definition add_txs_to_db ::
  "btc \<Rightarrow> update_view \<Rightarrow> updated_coins \<Rightarrow> ('ms, 'tr) database \<Rightarrow> ('ms, 'tr) database option" where
  "add_txs_to_db B v up db =
     (let new_txids = remdups (map (\<lambda>c. op_txid (coin_outpoint c)) (up_received up) @ map snd (up_spending up));
          missing_txids = filter (\<lambda>t. t \<notin> set (list_saved_txids db)) new_txids
      in Option.bind (collect_options (uv_wallet_transaction v) missing_txids) (\<lambda>txs.
         if txs \<noteq> [] then new_txs B txs db else Some db))"

text \<open>The writes of an update, in their order.\<close>

definition record_updates ::
  "btc \<Rightarrow> update_view \<Rightarrow> updated_coins \<Rightarrow> block_chain_tip \<Rightarrow> block_chain_tip \<Rightarrow> ('ms, 'tr) database
     \<Rightarrow> ('ms, 'tr) database option" where
  "record_updates B v up current_tip latest_tip db =
     Option.bind (add_txs_to_db B v up db) (\<lambda>db.
     Option.bind (new_unspent_coins (up_received up) db) (\<lambda>db.
     Option.bind (spend_coins (up_spending up) (unspend_coins (up_expired_spending up)
         (confirm_coins (up_confirmed up) (remove_coins (up_expired up) db)))) (\<lambda>db.
     Option.bind (confirm_spend (up_spent up) db) (\<lambda>db.
     Option.bind (update_coins_from_self (ct_height current_tip) db) (\<lambda>db.
     Some (if latest_tip \<noteq> current_tip then update_tip latest_tip db else db))))))"

section \<open>The tip\<close>

datatype tip_update = Tip_Same | Tip_Progress block_chain_tip | Tip_Reorged block_chain_tip

text \<open>A failure to get the common ancestor starts over with the next answers.\<close>

fun new_tip :: "chain_view list \<Rightarrow> block_chain_tip \<Rightarrow> tip_update option" where
  "new_tip [] current_tip = None"
| "new_tip (v # vs) current_tip =
     (let bitcoin_tip = cv_tip v in
      if current_tip = bitcoin_tip then Some Tip_Same
      else if ct_height bitcoin_tip > ct_height current_tip \<and> cv_is_in_chain v current_tip
      then Some (Tip_Progress bitcoin_tip)
      else (case cv_common_ancestor v current_tip of
        Some common_ancestor \<Rightarrow> Some (Tip_Reorged common_ancestor)
      | None \<Rightarrow> new_tip vs current_tip))"

fun updates ::
  "btc \<Rightarrow> ('ms, 'tr) desc_ops \<Rightarrow> update_view list \<Rightarrow> ('ms, 'tr) database \<Rightarrow> poll_error + ('ms, 'tr) database" where
  "updates B D [] db = Err Poll_Unfinished"
| "updates B D (v # vs) db = (case chain_tip db of
     None \<Rightarrow> Err Poll_Panic
   | Some current_tip \<Rightarrow>
       (let proceed = (\<lambda>latest_tip.
          case update_coins B D v current_tip db of
            None \<Rightarrow> Err Poll_Panic
          | Some (updated_coins, db) \<Rightarrow>
              (if uv_chain_tip v \<noteq> latest_tip then updates B D vs db
               else ok_or Poll_Panic (record_updates B v updated_coins current_tip latest_tip db)))
        in case uv_sync_wallet v (receive_index db) (change_index db) of
          Sync_Ok None \<Rightarrow>
            (case new_tip (uv_chain v) current_tip of
               None \<Rightarrow> Err Poll_Unfinished
             | Some Tip_Same \<Rightarrow> proceed current_tip
             | Some (Tip_Progress tip) \<Rightarrow> proceed tip
             | Some (Tip_Reorged tip) \<Rightarrow> updates B D vs (rollback_tip tip db))
        | Sync_Ok (Some reorg_common_ancestor) \<Rightarrow>
            (if ct_height reorg_common_ancestor \<le> ct_height current_tip \<and>
                ct_hash reorg_common_ancestor \<noteq> ct_hash current_tip
             then updates B D vs (rollback_tip reorg_common_ancestor db)
             else updates B D vs db)
        | Sync_Err \<Rightarrow> updates B D vs db))"

section \<open>Rescans and polls\<close>

record poll_view =
  pv_updates :: "update_view list"
  pv_is_rescanning :: bool
  pv_block_before_date :: "nat \<Rightarrow> block_chain_tip option"
  pv_rescan_updates :: "update_view list"
  pv_now :: nat

definition rescan_check ::
  "btc \<Rightarrow> ('ms, 'tr) desc_ops \<Rightarrow> poll_view \<Rightarrow> ('ms, 'tr) database \<Rightarrow> poll_error + ('ms, 'tr) database" where
  "rescan_check B D p db =
     (let rescan_timestamp = w_rescan_timestamp (wallet_table db) in
      if pv_is_rescanning p then Ok db
      else (case rescan_timestamp of
        None \<Rightarrow> Ok db
      | Some timestamp \<Rightarrow>
          (case pv_block_before_date p timestamp of
            None \<Rightarrow> Ok db
          | Some rescan_tip \<Rightarrow>
              rbind (ok_or Poll_Panic (complete_rescan (rollback_tip rescan_tip db))) (\<lambda>db.
              updates B D (pv_rescan_updates p) db))))"

definition maybe_initialize_tip :: "block_chain_tip \<Rightarrow> ('ms, 'tr) database \<Rightarrow> ('ms, 'tr) database" where
  "maybe_initialize_tip genesis_block db = (if chain_tip db = None then update_tip genesis_block db else db)"

definition poll ::
  "btc \<Rightarrow> ('ms, 'tr) desc_ops \<Rightarrow> poll_view \<Rightarrow> ('ms, 'tr) database \<Rightarrow> poll_error + ('ms, 'tr) database" where
  "poll B D p db =
     rbind (updates B D (pv_updates p) db) (\<lambda>db.
     rbind (rescan_check B D p db) (\<lambda>db.
     Ok (set_last_poll (pv_now p) db)))"

section \<open>The polling thread\<close>

text \<open>
  The state of \<open>poll_forever\<close>: when it last polled, whether the backend was found synced,
  and the database. An event is what \<open>recv_timeout\<close> returned, with the answer of
  \<open>sync_progress\<close> (asked for while not synced) and the view of the poll.
\<close>

datatype poller_event =
  Ev_Shutdown | Ev_Disconnected | Ev_Poll_Now bool poll_view | Ev_Timeout bool poll_view

record ('ms, 'tr) poller_state =
  ps_last_poll :: "nat option"
  ps_synced :: bool
  ps_db :: "('ms, 'tr) database"

definition time_before_poll :: "nat \<Rightarrow> nat \<Rightarrow> nat \<Rightarrow> ('ms, 'tr) poller_state \<Rightarrow> nat" where
  "time_before_poll poll_interval sync_poll_interval now s = (case ps_last_poll s of
     None \<Rightarrow> 0
   | Some last_poll \<Rightarrow>
       (if ps_synced s then poll_interval else sync_poll_interval) - (now - last_poll))"

text \<open>
  One iteration: \<open>None\<close> when the thread exits, otherwise the new state or an error of
  the poll. Both messages set \<open>last_poll\<close> and ask for the progress of the sync until it is
  complete; they poll once it is.
\<close>

definition poll_if_synced ::
  "btc \<Rightarrow> ('ms, 'tr) desc_ops \<Rightarrow> nat \<Rightarrow> bool \<Rightarrow> poll_view \<Rightarrow> ('ms, 'tr) poller_state
     \<Rightarrow> poll_error + ('ms, 'tr) poller_state" where
  "poll_if_synced B D now progress_complete p s =
     (let synced = (if \<not> ps_synced s then progress_complete else True);
          s = s\<lparr>ps_synced := synced, ps_last_poll := Some now\<rparr>
      in if synced then rbind (poll B D p (ps_db s)) (\<lambda>db. Ok (s\<lparr>ps_db := db\<rparr>)) else Ok s)"

definition poller_step ::
  "btc \<Rightarrow> ('ms, 'tr) desc_ops \<Rightarrow> nat \<Rightarrow> poller_event \<Rightarrow> ('ms, 'tr) poller_state
     \<Rightarrow> (poll_error + ('ms, 'tr) poller_state) option" where
  "poller_step B D now ev s = (case ev of
     Ev_Shutdown \<Rightarrow> None
   | Ev_Disconnected \<Rightarrow> None
   | Ev_Poll_Now progress_complete p \<Rightarrow> Some (poll_if_synced B D now progress_complete p s)
   | Ev_Timeout progress_complete p \<Rightarrow> Some (poll_if_synced B D now progress_complete p s))"

inductive poller_reaches ::
  "btc \<Rightarrow> ('ms, 'tr) desc_ops \<Rightarrow> ('ms, 'tr) poller_state \<Rightarrow> ('ms, 'tr) poller_state \<Rightarrow> bool"
  for B D s0 where
  start: "poller_reaches B D s0 s0"
| step: "poller_reaches B D s0 s \<Longrightarrow> poller_step B D now ev s = Some (Ok s') \<Longrightarrow> poller_reaches B D s0 s'"

end
