(* ===== verification/Poller_Lemmas.thy ===== *)
theory Poller_Lemmas
  imports Poller
begin

text \<open>
  What an update of the poller preserves and establishes: the invariant of the database,
  indexes that only grow, the row of every coin after the batch of writes, and the tip.
\<close>

section \<open>Receiving coins\<close>

text \<open>Only the wallet's indexes and the address table change, and the indexes grow.\<close>

definition index_grows :: "('ms, 'tr) database \<Rightarrow> ('ms, 'tr) database \<Rightarrow> bool" where
  "index_grows db db' \<longleftrightarrow> receive_index db \<le> receive_index db' \<and> change_index db \<le> change_index db'"

definition only_index :: "('ms, 'tr) database \<Rightarrow> ('ms, 'tr) database \<Rightarrow> bool" where
  "only_index db db' \<longleftrightarrow>
     db' = db\<lparr>wallet_table := wallet_table db', addresses_table := addresses_table db'\<rparr> \<and>
     w_timestamp (wallet_table db') = w_timestamp (wallet_table db) \<and>
     w_rescan_timestamp (wallet_table db') = w_rescan_timestamp (wallet_table db) \<and> index_grows db db'"

lemma index_grows_refl [simp]: "index_grows db db"
  by (simp add: index_grows_def)

lemma index_grows_trans: "index_grows a b \<Longrightarrow> index_grows b c \<Longrightarrow> index_grows a c"
  by (auto simp: index_grows_def)

lemma only_index_refl [simp]: "only_index db db"
  by (simp add: only_index_def)

lemma only_index_fields:
  assumes "only_index db db'"
  shows "coins_table db' = coins_table db" "transactions_table db' = transactions_table db"
    "tip_blockheight db' = tip_blockheight db" "tip_blockhash db' = tip_blockhash db"
    "chain_tip db' = chain_tip db" "wallet_descriptor db' = wallet_descriptor db" "db_network db' = db_network db"
    "spends_table db' = spends_table db" "labels_table db' = labels_table db" "index_grows db db'"
proof -
  obtain w rows where e: "db' = db\<lparr>wallet_table := w, addresses_table := rows\<rparr>"
    using assms by (auto simp: only_index_def)
  then show "coins_table db' = coins_table db" "transactions_table db' = transactions_table db"
    "tip_blockheight db' = tip_blockheight db" "tip_blockhash db' = tip_blockhash db"
    "chain_tip db' = chain_tip db" "wallet_descriptor db' = wallet_descriptor db" "db_network db' = db_network db"
    "spends_table db' = spends_table db" "labels_table db' = labels_table db"
    by (simp_all add: chain_tip_def)
  show "index_grows db db'" using assms by (simp add: only_index_def)
qed

lemma only_index_trans:
  assumes "only_index a b" "only_index b c"
  shows "only_index a c"
proof -
  obtain w r w' r' where b: "b = a\<lparr>wallet_table := w, addresses_table := r\<rparr>"
    and c: "c = b\<lparr>wallet_table := w', addresses_table := r'\<rparr>"
    using assms unfolding only_index_def by blast
  then have "c = a\<lparr>wallet_table := wallet_table c, addresses_table := addresses_table c\<rparr>" by simp
  with assms show ?thesis unfolding only_index_def by (metis index_grows_trans)
qed

lemma set_derivation_index_only:
  assumes "set_derivation_index D i is_change db = Some db'"
  shows "only_index db db'" "i \<le> (if is_change then change_index db' else receive_index db')"
  using set_derivation_index_Some(1,2) [OF assms]
  by (auto simp: only_index_def index_grows_def receive_index_def change_index_def wallet_with_index_def)

lemma bump_index_only:
  assumes "bump_index D i is_change db = Some db'"
  shows "only_index db db'" "i \<le> (if is_change then change_index db' else receive_index db')"
  using assms
  by (auto simp: bump_index_def set_receive_index_def set_change_index_def
      dest: set_derivation_index_only split: if_splits)

lemma bump_index_db_inv [inv_intros]:
  "db_inv B D db \<Longrightarrow> bump_index D i is_change db = Some db' \<Longrightarrow> db_inv B D db'"
  by (auto simp: bump_index_def set_receive_index_def set_change_index_def intro: inv_intros split: if_splits)

text \<open>A coin received: unconfirmed, not known before, at an index the wallet has reached.\<close>

definition fresh_coin :: "coin list \<Rightarrow> ('ms, 'tr) database \<Rightarrow> coin \<Rightarrow> bool" where
  "fresh_coin curr_coins db c \<longleftrightarrow> coin_outpoint c \<notin> coin_outpoint ` set curr_coins \<and> coin_block_info c = None \<and>
     coin_spend_txid c = None \<and> coin_spend_block c = None \<and>
     coin_derivation_index c \<le> (if coin_is_change c then change_index db else receive_index db)"

lemma fresh_coin_grows: "fresh_coin cs db c \<Longrightarrow> index_grows db db' \<Longrightarrow> fresh_coin cs db' c"
  by (auto simp: fresh_coin_def index_grows_def split: if_splits)

lemma receive_utxos_Some:
  assumes "receive_utxos B D curr_coins us db = Some (received, db')"
  shows "only_index db db'" "db_inv B D db \<Longrightarrow> db_inv B D db'"
    "\<forall>c \<in> set received. fresh_coin curr_coins db' c \<and> coin_outpoint c \<in> ux_outpoint ` set us"
    "distinct (map ux_outpoint us) \<Longrightarrow> distinct (map coin_outpoint received)"
  using assms
proof (induction B D curr_coins us db arbitrary: received db' rule: receive_utxos.induct)
  case (1 B D curr_coins db)
  { case 1 then show ?case by simp next case 2 then show ?case by simp
  next case 3 then show ?case by simp next case 4 then show ?case by simp }
next
  case (2 B D curr_coins u us db)
  have cases: "(utxo_index B db u = None \<and> receive_utxos B D curr_coins us db = Some (received, db')) \<or>
      (\<exists>i ch db1 rest. utxo_index B db u = Some (i, ch) \<and> bump_index D i ch db = Some db1 \<and>
        receive_utxos B D curr_coins us db1 = Some (rest, db') \<and>
        received = (if ux_outpoint u \<in> coin_outpoint ` set curr_coins then rest else coin_of_utxo u i ch # rest))"
    if "receive_utxos B D curr_coins (u # us) db = Some (received, db')" for received db'
    using that by (auto simp: bind_eq_Some_conv split: option.splits prod.splits)
  {
    case 1
    from cases [OF this] show ?case
    proof (elim disjE exE conjE)
      fix i ch db1 rest
      assume "utxo_index B db u = Some (i, ch)" "bump_index D i ch db = Some db1"
        "receive_utxos B D curr_coins us db1 = Some (rest, db')"
      with "2.IH"(5) bump_index_only(1) show ?thesis by (blast intro: only_index_trans)
    qed (use "2.IH"(1) in blast)
  next
    case 2
    from cases [OF 2(2)] show ?case
    proof (elim disjE exE conjE)
      fix i ch db1 rest
      assume "utxo_index B db u = Some (i, ch)" "bump_index D i ch db = Some db1"
        "receive_utxos B D curr_coins us db1 = Some (rest, db')"
      with "2.IH"(6) bump_index_db_inv [OF 2(1)] show ?thesis by blast
    qed (use "2.IH"(2) 2(1) in blast)
  next
    case 3
    from cases [OF this] show ?case
    proof (elim disjE exE conjE)
      fix i ch db1 rest
      assume u: "utxo_index B db u = Some (i, ch)" and b: "bump_index D i ch db = Some db1"
        and r: "receive_utxos B D curr_coins us db1 = Some (rest, db')"
        and rec: "received = (if ux_outpoint u \<in> coin_outpoint ` set curr_coins then rest else coin_of_utxo u i ch # rest)"
      have "only_index db1 db'" using "2.IH"(5) u b r by blast
      then have "i \<le> (if ch then change_index db' else receive_index db')"
        using bump_index_only(2) [OF b] by (auto simp: only_index_def index_grows_def split: if_splits)
      then have "ux_outpoint u \<notin> coin_outpoint ` set curr_coins \<Longrightarrow> fresh_coin curr_coins db' (coin_of_utxo u i ch)"
        by (simp add: fresh_coin_def coin_of_utxo_def)
      moreover have "\<forall>c \<in> set rest. fresh_coin curr_coins db' c \<and> coin_outpoint c \<in> ux_outpoint ` set us"
        using "2.IH"(7) u b r by blast
      ultimately show ?thesis by (auto simp: rec coin_of_utxo_def)
    next
      assume "utxo_index B db u = None" "receive_utxos B D curr_coins us db = Some (received, db')"
      with "2.IH"(3) show ?thesis by fastforce
    qed
  next
    case 4
    from cases [OF 4(2)] show ?case
    proof (elim disjE exE conjE)
      fix i ch db1 rest
      assume u: "utxo_index B db u = Some (i, ch)" and b: "bump_index D i ch db = Some db1"
        and r: "receive_utxos B D curr_coins us db1 = Some (rest, db')"
        and rec: "received = (if ux_outpoint u \<in> coin_outpoint ` set curr_coins then rest else coin_of_utxo u i ch # rest)"
      have "distinct (map coin_outpoint rest)" using "2.IH"(8) u b r 4(1) by simp
      moreover have "\<forall>c \<in> set rest. coin_outpoint c \<in> ux_outpoint ` set us" using "2.IH"(7) u b r by blast
      moreover have "ux_outpoint u \<notin> ux_outpoint ` set us" using 4(1) by simp
      ultimately show ?thesis by (auto simp: rec coin_of_utxo_def)
    qed (use "2.IH"(4) 4(1) in auto)
  }
qed

lemma update_coins_Some:
  assumes "update_coins B D v tip db = Some (up, db')"
  shows "only_index db db'" "db_inv B D db \<Longrightarrow> db_inv B D db'"
    "\<exists>curr_coins. db_coins [] [] db = Some curr_coins \<and> (\<forall>c \<in> set (up_received up). fresh_coin curr_coins db' c)"
proof -
  obtain curr received where c: "db_coins [] [] db = Some curr"
    and r: "receive_utxos B D curr (uv_received_coins v tip) db = Some (received, db')"
    and up: "up_received up = received"
    using assms by (auto simp: update_coins_def Let_def bind_eq_Some_conv case_prod_beta)
  from receive_utxos_Some [OF r] c up show "only_index db db'" "db_inv B D db \<Longrightarrow> db_inv B D db'"
    "\<exists>curr_coins. db_coins [] [] db = Some curr_coins \<and> (\<forall>c \<in> set (up_received up). fresh_coin curr_coins db' c)"
    by auto
qed

section \<open>Recording an update\<close>

lemma add_txs_to_db_Some:
  assumes "add_txs_to_db B v up db = Some db'"
  shows "db_inv B D db \<Longrightarrow> db_inv B D db'" "coins_table db' = coins_table db"
    "wallet_table db' = wallet_table db" "chain_tip db' = chain_tip db"
proof -
  consider "db' = db" | txs where "new_txs B txs db = Some db'"
    using assms by (auto simp: add_txs_to_db_def Let_def bind_eq_Some_conv split: if_splits)
  then have "(db_inv B D db \<longrightarrow> db_inv B D db') \<and> coins_table db' = coins_table db \<and>
    wallet_table db' = wallet_table db \<and> chain_tip db' = chain_tip db"
  proof cases
    case 2
    with new_txs_saved [OF 2] show ?thesis by (auto intro: new_txs_db_inv simp: chain_tip_def)
  qed simp
  then show "db_inv B D db \<Longrightarrow> db_inv B D db'" "coins_table db' = coins_table db"
    "wallet_table db' = wallet_table db" "chain_tip db' = chain_tip db" by auto
qed

text \<open>The row of a coin up to its \<open>is_from_self\<close> flag, which the last write recomputes.\<close>

definition unflagged :: "coin_row \<Rightarrow> coin_row" where
  "unflagged r = r\<lparr>rc_is_from_self := False\<rparr>"

lemma from_self_loop_unflagged:
  "from_self_loop h txs n rows = Some rows' \<Longrightarrow> map unflagged rows' = map unflagged rows"
proof (induction n arbitrary: rows)
  case (Suc n)
  have "map unflagged (map (mark h txs rows) rows) = map unflagged rows"
    by (simp add: unflagged_def mark_def)
  with Suc show ?case by (auto simp: from_self_round_eq split: if_splits)
qed simp

lemma find_unflagged:
  "map unflagged rows' = map unflagged rows \<Longrightarrow>
     map_option unflagged (List.find (\<lambda>r. rc_outpoint r = op) rows') =
     map_option unflagged (List.find (\<lambda>r. rc_outpoint r = op) rows)"
proof -
  have "List.find (\<lambda>r. rc_outpoint r = op) (map unflagged rows) =
      map_option unflagged (List.find (\<lambda>r. rc_outpoint r = op) rows)" for rows
    by (rule find_map_row) (simp add: unflagged_def)
  then show "map unflagged rows' = map unflagged rows \<Longrightarrow> ?thesis" by metis
qed

lemma update_coins_from_self_row:
  assumes "update_coins_from_self h db = Some db'"
  shows "map_option unflagged (row_at db' op) = map_option unflagged (row_at db op)" "same_but_coins db db'"
proof -
  obtain rows where loop: "from_self_loop h (transactions_table db)
      (from_self_max_iterations (coins_table db)) (coins_table db) = Some rows"
    and db': "db' = db\<lparr>coins_table := rows\<rparr>"
    using assms by (auto simp: update_coins_from_self_def)
  show "map_option unflagged (row_at db' op) = map_option unflagged (row_at db op)"
    unfolding row_at_def by (rule find_unflagged) (simp add: db' from_self_loop_unflagged [OF loop])
  show "same_but_coins db db'" by (simp add: db')
qed

lemma record_updates_Some:
  assumes "record_updates B v up current latest db = Some db'" "db_inv B D db"
  shows "db_inv B D db'" "chain_tip db = Some current \<Longrightarrow> chain_tip db' = Some latest"
    "wallet_table db' = wallet_table db"
    "map_option unflagged (row_at db' op) =
      (if op \<in> set (up_expired up) then None
       else map_option (unflagged \<circ> spent_at (up_spent up) op \<circ> updated_at (up_spending up) spend_row_coin op \<circ>
          unspent_at (up_expired_spending up) op \<circ> confirmed_at (up_confirmed up) op)
         (case received_at (up_received up) op of Some r \<Rightarrow> Some r | None \<Rightarrow> row_at db op))"
proof -
  obtain db0 db1 db2 db3 db4 where d0: "add_txs_to_db B v up db = Some db0"
    and d1: "new_unspent_coins (up_received up) db0 = Some db1"
    and d2: "spend_coins (up_spending up) (unspend_coins (up_expired_spending up)
         (confirm_coins (up_confirmed up) (remove_coins (up_expired up) db1))) = Some db2"
    and d3: "confirm_spend (up_spent up) db2 = Some db3"
    and d4: "update_coins_from_self (ct_height current) db3 = Some db4"
    and db': "db' = (if latest \<noteq> current then update_tip latest db4 else db4)"
    using assms(1) by (auto simp: record_updates_def bind_eq_Some_conv)
  note a = add_txs_to_db_Some [OF d0]
  have i0: "db_inv B D db0" using a(1) assms(2) .
  note i1 = new_unspent_coins_db_inv [OF i0 d1]
  have i1': "db_inv B D (unspend_coins (up_expired_spending up)
         (confirm_coins (up_confirmed up) (remove_coins (up_expired up) db1)))"
    by (intro unspend_coins_db_inv confirm_coins_db_inv remove_coins_db_inv i1)
  note i2 = spend_coins_db_inv [OF i1' d2]
  note i3 = confirm_spend_db_inv [OF i2 d3]
  note i4 = update_coins_from_self_db_inv [OF i3 d4]
  show "db_inv B D db'" using i4 by (simp add: db' update_tip_db_inv)
  note rec = sqlite.recorded [OF db_inv_coins [OF i0] d1 d2 d3]
  have same: "same_but_coins db0 db4"
    using new_unspent_coins_inv(2) [OF db_inv_coins [OF i0] d1]
      remove_coins_inv(2) [where ops = "up_expired up", OF db_inv_coins [OF i1]]
      confirm_coins_inv(2) [where cs = "up_confirmed up", OF db_inv_coins [OF remove_coins_db_inv [where ops = "up_expired up", OF i1]]]
      unspend_coins_inv(2) [where ops = "up_expired_spending up",
        OF db_inv_coins [OF confirm_coins_db_inv [where cs = "up_confirmed up",
          OF remove_coins_db_inv [where ops = "up_expired up", OF i1]]]]
      spend_coins_inv(2) [OF db_inv_coins [OF i1'] d2] confirm_spend_inv(2) [OF db_inv_coins [OF i2] d3]
      update_coins_from_self_row(2) [OF d4]
    by (blast intro: same_but_coins_trans)
  show "chain_tip db = Some current \<Longrightarrow> chain_tip db' = Some latest"
  proof -
    have "chain_tip db4 = chain_tip db"
      using same_but_coins_fields(3,4) [OF same] a(4) by (simp add: chain_tip_def)
    then show "chain_tip db = Some current \<Longrightarrow> chain_tip db' = Some latest" by (simp add: db')
  qed
  show "wallet_table db' = wallet_table db"
    using same_but_coins_fields [OF same] a(3) by (auto simp: db' update_tip_def)
  have row0: "row_at db0 op = row_at db op" by (simp add: row_at_def a(2))
  have "row_at db' op = row_at db4 op" by (simp add: db' row_at_def update_tip_def)
  then show "map_option unflagged (row_at db' op) =
      (if op \<in> set (up_expired up) then None
       else map_option (unflagged \<circ> spent_at (up_spent up) op \<circ> updated_at (up_spending up) spend_row_coin op \<circ>
          unspent_at (up_expired_spending up) op \<circ> confirmed_at (up_confirmed up) op)
         (case received_at (up_received up) op of Some r \<Rightarrow> Some r | None \<Rightarrow> row_at db op))"
    using rec [of op, unfolded row0] update_coins_from_self_row(1) [OF d4, of op]
    by (simp add: option.map_comp comp_assoc)
qed

section \<open>The updates\<close>

text \<open>How an attempt ends: start over on a database, or record what it saw.\<close>

definition tip_step :: "chain_view list \<Rightarrow> block_chain_tip \<Rightarrow> block_chain_tip \<Rightarrow> bool" where
  "tip_step chain current latest \<longleftrightarrow>
     new_tip chain current = Some Tip_Same \<and> latest = current \<or> new_tip chain current = Some (Tip_Progress latest)"

lemma updates_cases:
  assumes "updates B D (v # vs) db = Ok db'" "chain_tip db = Some current"
  shows "(\<exists>db1. updates B D vs db1 = Ok db' \<and>
        (db1 = db \<or> (\<exists>tip. db1 = rollback_tip tip db) \<or> (\<exists>up. update_coins B D v current db = Some (up, db1)))) \<or>
    (\<exists>latest up db1. update_coins B D v current db = Some (up, db1) \<and> uv_chain_tip v = latest \<and>
        record_updates B v up current latest db1 = Some db' \<and>
        tip_step (uv_chain v) current latest)"
  using assms
  by (auto simp: Let_def result_simps tip_step_def
      split: sync_result.splits option.splits tip_update.splits if_splits prod.splits)

lemma index_grows_rollback [simp]: "index_grows db (rollback_tip tip db)"
  by (simp add: index_grows_def receive_index_def change_index_def rollback_tip_def update_tip_def)

lemma chain_tip_rollback [simp]: "chain_tip (rollback_tip tip db) = Some tip"
  by (simp add: rollback_tip_def)

lemma updates_db_inv:
  assumes "updates B D vs db = Ok db'" "db_inv B D db"
  shows "db_inv B D db' \<and> index_grows db db' \<and> (\<exists>v \<in> set vs. chain_tip db' = Some (uv_chain_tip v))"
  using assms
proof (induction vs arbitrary: db)
  case (Cons v vs)
  obtain current where tip: "chain_tip db = Some current"
    using Cons.prems(1) by (auto split: option.splits)
  have again: ?case if "updates B D vs db1 = Ok db'" "db_inv B D db1" "index_grows db db1" for db1
    using Cons.IH [OF that(1,2)] that(3) index_grows_trans by auto
  from updates_cases [OF Cons.prems(1) tip] show ?case
  proof (elim disjE exE conjE)
    fix db1 up
    assume u: "updates B D vs db1 = Ok db'" and c: "update_coins B D v current db = Some (up, db1)"
    show ?thesis
      using again [OF u] update_coins_Some(1,2) [OF c] Cons.prems(2) only_index_fields(10) by blast
  next
    fix db1 assume "updates B D vs db1 = Ok db'" "db1 = db"
    then show ?thesis using again Cons.prems(2) by simp
  next
    fix db1 t assume "updates B D vs db1 = Ok db'" "db1 = rollback_tip t db"
    then show ?thesis using again rollback_tip_db_inv [OF Cons.prems(2)] by simp
  next
    fix latest up db1
    assume c: "update_coins B D v current db = Some (up, db1)" and l: "uv_chain_tip v = latest"
      and r: "record_updates B v up current latest db1 = Some db'"
    note u = update_coins_Some [OF c]
    note i1 = u(2) [OF Cons.prems(2)]
    note rec = record_updates_Some [OF r i1]
    have "chain_tip db1 = Some current" using only_index_fields(5) [OF u(1)] tip by simp
    then have "chain_tip db' = Some (uv_chain_tip v)" using rec(2) l by simp
    moreover have "index_grows db db'"
      using only_index_fields(10) [OF u(1)] rec(3) by (simp add: index_grows_def receive_index_def change_index_def)
    ultimately show ?thesis using rec(1) by auto
  qed
qed simp

lemma rescan_check_db_inv:
  assumes "rescan_check B D p db = Ok db'" "db_inv B D db"
  shows "db_inv B D db'" "index_grows db db'"
proof -
  have "db_inv B D db' \<and> index_grows db db'"
  proof (cases "pv_is_rescanning p \<or> w_rescan_timestamp (wallet_table db) = None \<or>
      (\<exists>t. w_rescan_timestamp (wallet_table db) = Some t \<and> pv_block_before_date p t = None)")
    case True
    with assms show ?thesis by (auto simp: rescan_check_def Let_def split: option.splits if_splits)
  next
    case False
    then obtain tip db1 where c: "complete_rescan (rollback_tip tip db) = Some db1"
      and u: "updates B D (pv_rescan_updates p) db1 = Ok db'"
      using assms(1) by (auto simp: rescan_check_def Let_def result_simps split: option.splits if_splits)
    have "index_grows db db1"
      using c by (auto simp: complete_rescan_def index_grows_def receive_index_def change_index_def
          rollback_tip_def update_tip_def split: option.splits)
    then show ?thesis
      using updates_db_inv [OF u] complete_rescan_db_inv [OF rollback_tip_db_inv [OF assms(2)] c] index_grows_trans by blast
  qed
  then show "db_inv B D db'" "index_grows db db'" by auto
qed

lemma poll_db_inv:
  assumes "poll B D p db = Ok db'" "db_inv B D db"
  shows "db_inv B D db'" "index_grows db db'"
    "w_last_poll_timestamp (wallet_table db') = Some (pv_now p)"
proof -
  obtain db1 db2 where u: "updates B D (pv_updates p) db = Ok db1" and r: "rescan_check B D p db1 = Ok db2"
    and db': "db' = set_last_poll (pv_now p) db2"
    using assms(1) by (auto simp: poll_def result_simps)
  note i1 = updates_db_inv [OF u assms(2)]
  note i2 = rescan_check_db_inv [OF r conjunct1 [OF i1]]
  show "db_inv B D db'" using i2(1) by (simp add: db' set_last_poll_db_inv)
  have "index_grows db2 db'"
    by (simp add: db' index_grows_def receive_index_def change_index_def set_last_poll_def)
  then show "index_grows db db'" using i1 i2(2) index_grows_trans by blast
  show "w_last_poll_timestamp (wallet_table db') = Some (pv_now p)" by (simp add: db' set_last_poll_def)
qed

inductive_cases poller_reachesE: "poller_reaches B D s0 s"

lemma poller_reaches_inv:
  assumes "poller_reaches B D s0 s" "db_inv B D (ps_db s0)"
  shows "db_inv B D (ps_db s) \<and> index_grows (ps_db s0) (ps_db s) \<and> (ps_synced s0 \<longrightarrow> ps_synced s)"
  using assms
proof (induction rule: poller_reaches.induct)
  case (step s now ev s')
  obtain c p where "poll_if_synced B D now c p s = Ok s'"
    using step.hyps(2) by (auto simp: poller_step_def split: poller_event.splits)
  then consider "ps_db s' = ps_db s" "ps_synced s \<longrightarrow> ps_synced s'"
    | "poll B D p (ps_db s) = Ok (ps_db s')" "ps_synced s'"
    by (auto simp: poll_if_synced_def Let_def result_simps split: if_splits)
  then show ?case
  proof cases
    case 2
    have "db_inv B D (ps_db s)" "index_grows (ps_db s0) (ps_db s)" using step by auto
    with poll_db_inv(1,2) [OF 2(1)] 2(2) show ?thesis using index_grows_trans by blast
  qed (use step in auto)
qed simp

text \<open>Without a poll the database does not move, and no poll runs before the sync is complete.\<close>

lemma poll_if_synced_unsynced:
  "\<not> ps_synced s \<Longrightarrow> \<not> c \<Longrightarrow> poll_if_synced B D now c p s = Ok (s\<lparr>ps_last_poll := Some now\<rparr>)"
  by (simp add: poll_if_synced_def Let_def)

end
