(* ===== verification/Commands.thy ===== *)
theory Commands
  imports Poller_Lemmas
begin

text \<open>
  The commands of the daemon (\<open>lianad/src/commands/mod.rs\<close>): addresses and derivation
  indexes, coins, creation, update, broadcast and replacement of spends, rescans and
  recoveries. A command takes what the daemon reads (its configuration, the clock and the
  answers of the Bitcoin backend, a record) and the database, and returns an error or its
  result with the database it leaves. \<open>CmdPanic\<close> is a panic.
\<close>

section \<open>The daemon and its errors\<close>

datatype rbf_error_info = MissingFeerate | SuperfluousFeerate | TooLowFeerate nat nat | NotSignaling

datatype command_error =
  NoOutpointForSelfSend | CmdInvalidFeerate nat | UnknownOutpoint outpoint | AlreadySpent outpoint
  | ImmatureCoinbase outpoint | AddressError | SpendCreation spend_creation_error
  | InsufficientFunds nat "nat option" nat | UnknownSpend txid | SpendFinalization nat | TxBroadcast nat
  | AlreadyRescanning | InsaneRescanTimestamp nat | RescanTrigger nat | RecoveryNotAvailable
  | OutpointNotRecoverable outpoint nat | InvalidDerivationIndex | RbfError rbf_error_info | EmptyFilterList
  | CmdPanic \<comment> \<open>not in the source: the process panics\<close>

record ('ms, 'tr, 'cs) daemon =
  dm_btc :: btc
  dm_ms :: "('ms, 'tr) miniscript"
  dm_ops :: "('ms, 'tr) desc_ops"
  dm_cs :: "'cs coin_select"
  dm_descriptor :: "('ms, 'tr) liana_descriptor"
  dm_network :: nat
  dm_now_secs :: nat
  dm_now_nanos :: nat
  dm_chain_tip :: block_chain_tip
  dm_tip_time :: "nat option"
  dm_mempool_entry :: "txid \<Rightarrow> mempool_entry option"
  dm_mempool_spenders :: "outpoint list \<Rightarrow> mempool_entry list"
  dm_genesis_timestamp :: nat
  dm_is_rescanning :: bool
  dm_start_rescan :: "nat \<Rightarrow> nat + unit"
  dm_finalize :: "psbt \<Rightarrow> nat + tx"
  dm_broadcast :: "tx \<Rightarrow> nat + unit"

section \<open>Helpers\<close>

type_synonym tx_cache = "(txid \<times> tx option) list"

text \<open>\<open>DbTxGetter\<close>. The query cannot fail on a database that satisfies its invariant.\<close>

definition db_get_tx :: "('ms, 'tr) database \<Rightarrow> txid \<Rightarrow> tx_cache \<Rightarrow> tx option \<times> tx_cache" where
  "db_get_tx db txid cache = (case map_of cache txid of
     Some t \<Rightarrow> (t, cache)
   | None \<Rightarrow>
       (let t = (case list_wallet_transactions [txid] db of
              Some wtxs \<Rightarrow> (if wtxs = [] then None else Some (fst (last wtxs)))
            | None \<Rightarrow> None)
        in (t, (txid, t) # cache)))"

definition coin_to_candidate :: "coin \<Rightarrow> bool \<Rightarrow> nat option \<Rightarrow> ancestor_info option \<Rightarrow> candidate_coin" where
  "coin_to_candidate c must_select seq info =
     \<lparr>cc_outpoint = coin_outpoint c, cc_amount = coin_amount c, cc_deriv_index = coin_derivation_index c,
      cc_is_change = coin_is_change c, cc_must_select = must_select, cc_sequence = seq, cc_ancestor_info = info\<rparr>"

definition validate_address :: "('ms, 'tr, 'cs) daemon \<Rightarrow> address \<Rightarrow> command_error + address" where
  "validate_address E a = (if addr_valid_for (dm_btc E) a (dm_network E) then Ok a else Err AddressError)"

definition get_addr_info :: "('ms, 'tr) database \<Rightarrow> address \<Rightarrow> addr_info option" where
  "get_addr_info db a =
     map_option (\<lambda>(index, is_change). \<lparr>adi_index = index, adi_is_change = is_change\<rparr>) (derivation_index_by_address a db)"

definition spend_addr :: "('ms, 'tr) database \<Rightarrow> address \<Rightarrow> spend_output_address" where
  "spend_addr db a = \<lparr>soa_addr = a, soa_info = get_addr_info db a\<rparr>"

definition derive_address :: "('ms, 'tr, 'cs) daemon \<Rightarrow> bool \<Rightarrow> child_number \<Rightarrow> address option" where
  "derive_address E is_change index =
     map_option (address_of (dm_ops E) (dm_network E)) (derive (desc_of_keychain (dm_descriptor E) is_change) index)"

definition next_change_addr :: "('ms, 'tr, 'cs) daemon \<Rightarrow> ('ms, 'tr) database \<Rightarrow> spend_output_address option" where
  "next_change_addr E db =
     Option.bind (cn_increment (change_index db)) (\<lambda>next_index.
     Option.bind (derive_address E True next_index) (\<lambda>a.
     Some \<lparr>soa_addr = a, soa_info = Some \<lparr>adi_index = next_index, adi_is_change = True\<rparr>\<rparr>))"

definition maybe_increase_last_deriv_index ::
  "('ms, 'tr, 'cs) daemon \<Rightarrow> addr_info option \<Rightarrow> ('ms, 'tr) database \<Rightarrow> ('ms, 'tr) database option" where
  "maybe_increase_last_deriv_index E info db = (case info of
     None \<Rightarrow> Some db
   | Some i \<Rightarrow>
       (if adi_is_change i \<and> change_index db < adi_index i then set_change_index (dm_ops E) (adi_index i) db
        else if \<not> adi_is_change i \<and> receive_index db < adi_index i then set_receive_index (dm_ops E) (adi_index i) db
        else Some db))"

fun increase_all ::
  "('ms, 'tr, 'cs) daemon \<Rightarrow> addr_info option list \<Rightarrow> ('ms, 'tr) database \<Rightarrow> ('ms, 'tr) database option" where
  "increase_all E [] db = Some db"
| "increase_all E (i # is) db = Option.bind (maybe_increase_last_deriv_index E i db) (increase_all E is)"

definition daemon_locktime :: "('ms, 'tr, 'cs) daemon \<Rightarrow> nat option" where
  "daemon_locktime E =
     (if ct_height (dm_chain_tip E) < 0 then None
      else anti_fee_sniping_locktime (dm_now_secs E) (dm_now_nanos E) (nat (ct_height (dm_chain_tip E))) (dm_tip_time E))"

section \<open>Addresses and derivation indexes\<close>

record get_address_result =
  ga_address :: address
  ga_derivation_index :: child_number

definition get_new_address ::
  "('ms, 'tr, 'cs) daemon \<Rightarrow> ('ms, 'tr) database \<Rightarrow> (get_address_result \<times> ('ms, 'tr) database) option" where
  "get_new_address E db =
     Option.bind (cn_increment (receive_index db)) (\<lambda>new_index.
     Option.bind (set_receive_index (dm_ops E) new_index db) (\<lambda>db.
     map_option (\<lambda>a. (\<lparr>ga_address = a, ga_derivation_index = new_index\<rparr>, db)) (derive_address E False new_index)))"

definition MAX_INCREMENT_GAP :: nat where "MAX_INCREMENT_GAP = 1000"

text \<open>
  The code for one of the two indexes: the new value, and the database. An error leaves
  the database it is called on, with what the command already wrote to it.
\<close>

definition update_deriv_index ::
  "(child_number \<Rightarrow> ('ms, 'tr) database \<Rightarrow> ('ms, 'tr) database option) \<Rightarrow> nat \<Rightarrow> nat option
     \<Rightarrow> ('ms, 'tr) database \<Rightarrow> (command_error + nat) \<times> ('ms, 'tr) database" where
  "update_deriv_index set_index db_index requested db = (case requested of
     None \<Rightarrow> (Ok db_index, db)
   | Some index \<Rightarrow>
       (case from_normal_idx index of
          None \<Rightarrow> (Err InvalidDerivationIndex, db)
        | Some _ \<Rightarrow>
            (if index > db_index then
               (let delta = min (index - db_index) MAX_INCREMENT_GAP;
                    index = db_index + delta
                in case from_normal_idx index of
                     None \<Rightarrow> (Err InvalidDerivationIndex, db)
                   | Some i \<Rightarrow>
                       (case set_index i db of
                          None \<Rightarrow> (Err CmdPanic, db)
                        | Some db \<Rightarrow> (Ok index, db)))
             else (Ok db_index, db))))"

definition update_deriv_indexes ::
  "('ms, 'tr, 'cs) daemon \<Rightarrow> nat option \<Rightarrow> nat option \<Rightarrow> ('ms, 'tr) database
     \<Rightarrow> (command_error + nat \<times> nat) \<times> ('ms, 'tr) database" where
  "update_deriv_indexes E receive change db =
     (let db_receive = receive_index db; db_change = change_index db in
      case update_deriv_index (set_receive_index (dm_ops E)) db_receive receive db of
        (Inl e, db) \<Rightarrow> (Err e, db)
      | (Inr final_receive, db) \<Rightarrow>
          (case update_deriv_index (set_change_index (dm_ops E)) db_change change db of
             (Inl e, db) \<Rightarrow> (Err e, db)
           | (Inr final_change, db) \<Rightarrow> (Ok (final_receive, final_change), db)))"

record address_info =
  ai_index :: nat
  ai_receive :: address
  ai_change :: address

definition list_addresses ::
  "('ms, 'tr, 'cs) daemon \<Rightarrow> nat option \<Rightarrow> nat option \<Rightarrow> ('ms, 'tr) database \<Rightarrow> command_error + address_info list" where
  "list_addresses E start_index num db =
     rbind (ok_or InvalidDerivationIndex (from_normal_idx (case start_index of Some i \<Rightarrow> i | None \<Rightarrow> 0))) (\<lambda>start.
     rbind (ok_or InvalidDerivationIndex (case num of
         Some c \<Rightarrow> checked_add32 start c
       | None \<Rightarrow> checked_add32 (max (receive_index db) (change_index db)) 1)) (\<lambda>end_index.
     collect_results (\<lambda>index.
       rbind (ok_or InvalidDerivationIndex (from_normal_idx index)) (\<lambda>child.
       rbind (ok_or CmdPanic (derive_address E False child)) (\<lambda>receive.
       rbind (ok_or CmdPanic (derive_address E True child)) (\<lambda>change.
       Ok \<lparr>ai_index = index, ai_receive = receive, ai_change = change\<rparr>)))) [start..<end_index]))"

record revealed_address =
  rv_index :: child_number
  rv_address :: address
  rv_label :: "string option"
  rv_used_count :: nat

text \<open>
  The loop from the start index down to 0: the addresses found, and where to continue when
  the limit was reached before the end. \<open>used\<close> tells the indexes in use.
\<close>

fun reveal_down ::
  "(child_number \<Rightarrow> bool) \<Rightarrow> bool \<Rightarrow> nat \<Rightarrow> child_number list \<Rightarrow> child_number list
     \<Rightarrow> child_number list \<times> child_number option" where
  "reveal_down used exclude_used limit [] derived = (derived, None)"
| "reveal_down used exclude_used limit (index # indexes) derived =
     (if length derived = limit then (derived, Some index)
      else if \<not> exclude_used \<or> \<not> used index
      then reveal_down used exclude_used limit indexes (derived @ [index])
      else reveal_down used exclude_used limit indexes derived)"

definition used_count :: "bool \<Rightarrow> child_number \<Rightarrow> coin list \<Rightarrow> child_number \<Rightarrow> nat" where
  "used_count is_change start coins index =
     length (filter (\<lambda>c. coin_is_change c = is_change \<and> coin_derivation_index c \<le> start \<and>
       coin_derivation_index c = index) coins)"

definition list_revealed_addresses ::
  "(label_item \<Rightarrow> string) \<Rightarrow> ('ms, 'tr, 'cs) daemon \<Rightarrow> bool \<Rightarrow> bool \<Rightarrow> nat \<Rightarrow> child_number option \<Rightarrow> ('ms, 'tr) database
     \<Rightarrow> (revealed_address list \<times> child_number option) option" where
  "list_revealed_addresses item_text E is_change exclude_used limit start_index db =
     (let last_revealed = (if is_change then change_index db else receive_index db);
          start = min (case start_index of Some i \<Rightarrow> i | None \<Rightarrow> last_revealed) last_revealed
      in
      Option.bind (db_coins [] [] db) (\<lambda>coins.
      let num = used_count is_change start coins;
          (indexes, continue_from) =
            reveal_down (\<lambda>i. num i > 0) exclude_used limit (rev [0..<start + 1]) []
      in
      Option.bind (collect_options (\<lambda>i. map_option (Pair i) (derive_address E is_change i)) indexes) (\<lambda>derived.
      let labels = db_labels item_text (map (\<lambda>(_, a). Label_Address a) derived) db
      in Some (map (\<lambda>(i, a). \<lparr>rv_index = i, rv_address = a, rv_label = map_of labels (item_text (Label_Address a)),
                rv_used_count = num i\<rparr>) derived, continue_from))))"

section \<open>Coins\<close>

record list_coins_entry =
  lc_amount :: nat
  lc_outpoint :: outpoint
  lc_address :: address
  lc_block_height :: "int option"
  lc_derivation_index :: child_number
  lc_spend_info :: "(txid \<times> int option) option"
  lc_is_immature :: bool
  lc_is_change :: bool
  lc_is_from_self :: bool

definition list_coins_entry_of :: "('ms, 'tr, 'cs) daemon \<Rightarrow> coin \<Rightarrow> list_coins_entry option" where
  "list_coins_entry_of E c =
     map_option (\<lambda>a. \<lparr>lc_amount = coin_amount c, lc_outpoint = coin_outpoint c, lc_address = a,
       lc_block_height = map_option bi_height (coin_block_info c),
       lc_derivation_index = coin_derivation_index c,
       lc_spend_info = map_option (\<lambda>t. (t, map_option bi_height (coin_spend_block c))) (coin_spend_txid c),
       lc_is_immature = coin_is_immature c, lc_is_change = coin_is_change c, lc_is_from_self = coin_is_from_self c\<rparr>)
       (derive_address E (coin_is_change c) (coin_derivation_index c))"

definition list_coins ::
  "('ms, 'tr, 'cs) daemon \<Rightarrow> coin_status list \<Rightarrow> outpoint list \<Rightarrow> ('ms, 'tr) database \<Rightarrow> list_coins_entry list option" where
  "list_coins E statuses outpoints db =
     Option.bind (db_coins statuses outpoints db) (collect_options (list_coins_entry_of E))"

section \<open>Creation of a spend\<close>

datatype create_spend_result = Spend_Success psbt "create_spend_warning list" | Spend_Insufficient nat

text \<open>The fee of the ancestors must fit in a \<open>u32\<close>.\<close>

definition mempool_ancestor_info :: "('ms, 'tr, 'cs) daemon \<Rightarrow> outpoint \<Rightarrow> ancestor_info option option" where
  "mempool_ancestor_info E op = (case dm_mempool_entry E (op_txid op) of
     None \<Rightarrow> Some None
   | Some entry \<Rightarrow>
       (if me_ancestor_fee entry \<le> U32_MAX
        then Some (Some \<lparr>ai_vsize = me_ancestor_vsize entry, ai_fee = me_ancestor_fee entry\<rparr>) else None))"

definition auto_candidates :: "('ms, 'tr, 'cs) daemon \<Rightarrow> coin list \<Rightarrow> candidate_coin list option" where
  "auto_candidates E coins = collect_options (\<lambda>c.
       if coin_block_info c \<noteq> None then Some (coin_to_candidate c False None None)
       else map_option (coin_to_candidate c False None) (mempool_ancestor_info E (coin_outpoint c)))
     (filter (\<lambda>c. coin_block_info c \<noteq> None \<or> coin_is_from_self c) coins)"

definition coin_at_outpoint :: "coin list \<Rightarrow> outpoint \<Rightarrow> coin option" where
  "coin_at_outpoint coins op = List.find (\<lambda>c. coin_outpoint c = op) coins"

fun check_provided :: "coin list \<Rightarrow> bool \<Rightarrow> outpoint list \<Rightarrow> command_error + unit" where
  "check_provided coins check_immature [] = Ok ()"
| "check_provided coins check_immature (op # ops) =
     rbind (ok_or (UnknownOutpoint op) (coin_at_outpoint coins op)) (\<lambda>c.
     if is_spent c then Err (AlreadySpent op)
     else if check_immature \<and> coin_is_immature c then Err (ImmatureCoinbase op)
     else check_provided coins check_immature ops)"

definition manual_candidates :: "('ms, 'tr, 'cs) daemon \<Rightarrow> coin list \<Rightarrow> candidate_coin list option" where
  "manual_candidates E coins = collect_options (\<lambda>c.
     if coin_block_info c = None
     then map_option (coin_to_candidate c True None) (mempool_ancestor_info E (coin_outpoint c))
     else Some (coin_to_candidate c True None None)) coins"

definition spend_candidates ::
  "('ms, 'tr, 'cs) daemon \<Rightarrow> outpoint list \<Rightarrow> ('ms, 'tr) database \<Rightarrow> command_error + candidate_coin list" where
  "spend_candidates E coins_outpoints db =
     (if coins_outpoints = [] then
        rbind (ok_or CmdPanic (db_coins [St_Unconfirmed, St_Confirmed] [] db)) (\<lambda>coins.
        ok_or CmdPanic (auto_candidates E coins))
      else
        rbind (ok_or CmdPanic (db_coins [] coins_outpoints db)) (\<lambda>coins.
        rbind (check_provided coins True coins_outpoints) (\<lambda>_.
        ok_or CmdPanic (manual_candidates E coins))))"

text \<open>The update of the derivation indexes after a successful creation.\<close>

definition after_spend ::
  "('ms, 'tr, 'cs) daemon \<Rightarrow> (spend_output_address \<times> nat) list \<Rightarrow> spend_output_address \<Rightarrow> create_spend_res
     \<Rightarrow> ('ms, 'tr) database \<Rightarrow> command_error + create_spend_result \<times> ('ms, 'tr) database" where
  "after_spend E destinations change_address res db =
     rbind (ok_or CmdPanic (increase_all E (map (soa_info \<circ> fst) destinations
         @ (if res_has_change res then [soa_info change_address] else [])) db)) (\<lambda>db.
     Ok (Spend_Success (res_psbt res) (res_warnings res), db))"

definition cmd_create_spend ::
  "('ms, 'tr, 'cs) daemon \<Rightarrow> (address \<times> nat) list \<Rightarrow> outpoint list \<Rightarrow> nat \<Rightarrow> address option \<Rightarrow> ('ms, 'tr) database
     \<Rightarrow> command_error + create_spend_result \<times> ('ms, 'tr) database" where
  "cmd_create_spend E destinations coins_outpoints feerate_vb change_address db =
     (if destinations = [] \<and> coins_outpoints = [] then Err NoOutpointForSelfSend
      else if feerate_vb < 1 then Err (CmdInvalidFeerate feerate_vb)
      else
        rbind (collect_results (\<lambda>(a, value_sat).
            rbind (validate_address E a) (\<lambda>a. Ok (spend_addr db a, value_sat))) destinations) (\<lambda>dests.
        rbind (case change_address of
            Some a \<Rightarrow> rbind (validate_address E a) (\<lambda>a. Ok (spend_addr db a))
          | None \<Rightarrow> ok_or CmdPanic (next_change_addr E db)) (\<lambda>change_addr.
        rbind (spend_candidates E coins_outpoints db) (\<lambda>candidates.
        rbind (ok_or CmdPanic (daemon_locktime E)) (\<lambda>locktime.
        case create_spend (dm_btc E) (dm_ms E) (dm_ops E) (dm_cs E) (dm_descriptor E) (db_get_tx db) []
               dests candidates (Fees_Regular feerate_vb) change_addr locktime of
          Inl (CoinSelection missing) \<Rightarrow> Ok (Spend_Insufficient missing, db)
        | Inl e \<Rightarrow> Err (SpendCreation e)
        | Inr (res, _) \<Rightarrow> after_spend E dests change_addr res db)))))"

section \<open>Update, deletion and broadcast of a draft\<close>

definition merge_input :: "psbt_in \<Rightarrow> psbt_in \<Rightarrow> psbt_in" where
  "merge_input db_psbtin psbtin = db_psbtin\<lparr>
     partial_sigs := bt_extend (partial_sigs db_psbtin) (partial_sigs psbtin),
     tap_script_sigs := bt_extend (tap_script_sigs db_psbtin) (tap_script_sigs psbtin),
     tap_key_sig := (if tap_key_sig db_psbtin = None then tap_key_sig psbtin else tap_key_sig db_psbtin)\<rparr>"

definition merge_at :: "psbt \<Rightarrow> tx \<Rightarrow> nat \<Rightarrow> psbt_in list \<Rightarrow> psbt_in list" where
  "merge_at psbt db_tx i db_ins =
     (let txins = tx_input (unsigned_tx psbt) in
      if \<not> (i < length txins \<and> previous_output (txins ! i) = previous_output (tx_input db_tx ! i)) then db_ins
      else if \<not> i < length (psbt_inputs psbt) then db_ins
      else if \<not> i < length db_ins then db_ins
      else db_ins[i := merge_input (db_ins ! i) (psbt_inputs psbt ! i)])"

definition merge_psbt :: "psbt \<Rightarrow> psbt \<Rightarrow> psbt" where
  "merge_psbt db_psbt psbt = db_psbt\<lparr>psbt_inputs :=
     fold (merge_at psbt (unsigned_tx db_psbt)) [0..<length (tx_input (unsigned_tx db_psbt))] (psbt_inputs db_psbt)\<rparr>"

definition update_spend ::
  "('ms, 'tr, 'cs) daemon \<Rightarrow> psbt \<Rightarrow> ('ms, 'tr) database \<Rightarrow> command_error + ('ms, 'tr) database" where
  "update_spend E psbt db =
     (let now = dm_now_secs E; B = dm_btc E; t = unsigned_tx psbt in
      case spend_tx (compute_txid B t) db of
        Some db_psbt \<Rightarrow> Ok (store_spend B now (merge_psbt db_psbt psbt) db)
      | None \<Rightarrow>
          (let outpoints = map previous_output (tx_input t) in
           rbind (ok_or CmdPanic (coins_by_outpoints outpoints db)) (\<lambda>coins.
           case List.find (\<lambda>op. coin_at_outpoint coins op = None) outpoints of
             Some op \<Rightarrow> if length coins \<noteq> length outpoints then Err (UnknownOutpoint op)
                        else Ok (store_spend B now psbt db)
           | None \<Rightarrow> Ok (store_spend B now psbt db))))"

definition cmd_list_spend ::
  "('ms, 'tr, 'cs) daemon \<Rightarrow> txid list option \<Rightarrow> ('ms, 'tr) database \<Rightarrow> command_error + (psbt \<times> nat option) list" where
  "cmd_list_spend E txids db =
     (if txids = Some [] then Err EmptyFilterList
      else Ok (filter (\<lambda>(psbt, _). case txids of None \<Rightarrow> True
        | Some ids \<Rightarrow> compute_txid (dm_btc E) (unsigned_tx psbt) \<in> set ids) (list_spend db)))"

text \<open>The transaction sent; the poller is then asked to poll.\<close>

definition broadcast_spend :: "('ms, 'tr, 'cs) daemon \<Rightarrow> txid \<Rightarrow> ('ms, 'tr) database \<Rightarrow> command_error + tx" where
  "broadcast_spend E txid db =
     rbind (ok_or (UnknownSpend txid) (spend_tx txid db)) (\<lambda>spend_psbt.
     rbind (map_err SpendFinalization (dm_finalize E spend_psbt)) (\<lambda>final_tx.
     rbind (map_err TxBroadcast (dm_broadcast E final_tx)) (\<lambda>_. Ok final_tx)))"

section \<open>Replacement\<close>

text \<open>The transaction to replace: a draft, or the spender of one of our coins.\<close>

definition rbf_prev_tx :: "('ms, 'tr) database \<Rightarrow> txid \<Rightarrow> command_error + tx" where
  "rbf_prev_tx db txid = (case spend_tx txid db of
     Some psbt \<Rightarrow> Ok (unsigned_tx psbt)
   | None \<Rightarrow>
       rbind (ok_or CmdPanic (db_coins [St_Spending] [] db)) (\<lambda>coins.
       ok_or (UnknownSpend txid)
         (Option.bind (List.find (\<lambda>c. coin_spend_txid c = Some txid) coins) (\<lambda>_. fst (db_get_tx db txid [])))))"

fun min_feerate_and_fees :: "mempool_entry list \<Rightarrow> nat \<times> nat \<Rightarrow> (nat \<times> nat) option" where
  "min_feerate_and_fees [] acc = Some acc"
| "min_feerate_and_fees (entry # entries) (min_feerate, descendant_fee) =
     Option.bind (checked_div (me_base_fee entry) (me_vsize entry)) (\<lambda>rate.
     Option.bind (checked_add64 rate 1) (\<lambda>entry_feerate.
     Option.bind (checked_add64 descendant_fee (me_descendant_fee entry)) (\<lambda>fees.
     min_feerate_and_fees entries (max min_feerate entry_feerate, fees))))"

type_synonym prev_deriv = "address \<times> nat \<times> (child_number \<times> bool) option"

text \<open>\<open>max_by\<close> on the value then the index: the last of the greatest.\<close>

definition better_change :: "prev_deriv \<Rightarrow> (address \<times> nat \<times> nat) option \<Rightarrow> (address \<times> nat \<times> nat) option" where
  "better_change d best = (case d of
     (a, amt, Some (index, True)) \<Rightarrow>
       (case best of
          None \<Rightarrow> Some (a, amt, index)
        | Some (_, amt', index') \<Rightarrow> if (amt', index') \<le> (amt, index) then Some (a, amt, index) else best)
   | _ \<Rightarrow> best)"

definition prev_change_address :: "prev_deriv list \<Rightarrow> address option" where
  "prev_change_address derivs = map_option fst (fold better_change derivs None)"

definition rbf_destinations :: "('ms, 'tr) database \<Rightarrow> bool \<Rightarrow> prev_deriv list \<Rightarrow> (spend_output_address \<times> nat) list" where
  "rbf_destinations db is_cancel derivs =
     (if is_cancel then []
      else List.map_filter (\<lambda>(a, amt, _).
        if prev_change_address derivs \<noteq> Some a then Some (spend_addr db a, amt) else None) derivs)"

text \<open>The loop. \<open>attempt\<close> is \<open>create_spend\<close>; \<open>None\<close> is a loop that does not end.\<close>

partial_function (option) rbf_loop ::
  "(candidate_coin list \<Rightarrow> spend_creation_error + 'r) \<Rightarrow> bool \<Rightarrow> candidate_coin list \<Rightarrow> candidate_coin list
     \<Rightarrow> (command_error + (nat + 'r)) option" where
  "rbf_loop attempt is_cancel confirmed_cands candidate_coins =
     (case attempt candidate_coins of
        Inr res \<Rightarrow> Some (Ok (Inr res))
      | Inl e \<Rightarrow>
          (case e of
            CoinSelection missing \<Rightarrow>
              (if is_cancel \<and> list_all (\<lambda>c. \<not> cc_must_select c) candidate_coins
               then rbf_loop attempt is_cancel confirmed_cands
                 (map (\<lambda>c. c\<lparr>cc_must_select := True\<rparr>) candidate_coins @ confirmed_cands)
               else Some (Ok (Inl missing)))
          | _ \<Rightarrow> Some (Err (SpendCreation e))))"

text \<open>The checks that come before the loop, and what they give it.\<close>

definition rbf_checks ::
  "('ms, 'tr, 'cs) daemon \<Rightarrow> txid \<Rightarrow> bool \<Rightarrow> nat option \<Rightarrow> ('ms, 'tr) database
     \<Rightarrow> command_error + tx \<times> coin list \<times> nat \<times> nat" where
  "rbf_checks E txid is_cancel feerate_vb db =
     (if is_cancel \<and> feerate_vb \<noteq> None then Err (RbfError SuperfluousFeerate)
      else
        rbind (rbf_prev_tx db txid) (\<lambda>prev_tx.
        if \<not> is_explicitly_rbf (dm_btc E) prev_tx then Err (RbfError NotSignaling)
        else
          (let prev_outpoints = map previous_output (tx_input prev_tx) in
           rbind (ok_or CmdPanic (coins_by_outpoints prev_outpoints db)) (\<lambda>prev_coins.
           case List.find (\<lambda>op. coin_at_outpoint prev_coins op = None) prev_outpoints of
             Some op \<Rightarrow> Err (UnknownOutpoint op)
           | None \<Rightarrow>
               (case List.find (\<lambda>c. coin_spend_block c \<noteq> None) prev_coins of
                  Some c \<Rightarrow> Err (AlreadySpent (coin_outpoint c))
                | None \<Rightarrow>
                    rbind (ok_or CmdPanic (min_feerate_and_fees (dm_mempool_spenders E prev_outpoints) (1, 0)))
                      (\<lambda>(min_feerate_vb, descendant_fees).
                    rbind (if is_cancel then Ok min_feerate_vb
                           else ok_or (RbfError MissingFeerate) feerate_vb) (\<lambda>feerate_vb.
                    if feerate_vb < min_feerate_vb then Err (RbfError (TooLowFeerate feerate_vb min_feerate_vb))
                    else Ok (prev_tx, prev_coins, feerate_vb, descendant_fees))))))))"

definition rbf_psbt ::
  "('ms, 'tr, 'cs) daemon \<Rightarrow> txid \<Rightarrow> bool \<Rightarrow> nat option \<Rightarrow> ('ms, 'tr) database
     \<Rightarrow> (command_error + create_spend_result \<times> ('ms, 'tr) database) option" where
  "rbf_psbt E txid is_cancel feerate_vb db =
     (case rbf_checks E txid is_cancel feerate_vb db of
        Inl e \<Rightarrow> Some (Err e)
      | Inr (prev_tx, prev_coins, feerate, replaced_fee) \<Rightarrow>
          (case collect_options (\<lambda>txo. map_option (\<lambda>a. (a, txo_value txo, derivation_index_by_address a db))
                  (addr_from_script (dm_btc E) (txo_script txo))) (tx_output prev_tx) of
             None \<Rightarrow> Some (Err CmdPanic)
           | Some prev_derivs \<Rightarrow>
               (let destinations = rbf_destinations db is_cancel prev_derivs in
                case (case prev_change_address prev_derivs of
                        Some a \<Rightarrow> Some (spend_addr db a) | None \<Rightarrow> next_change_addr E db) of
                  None \<Rightarrow> Some (Err CmdPanic)
                | Some change_address \<Rightarrow>
                    (case (db_coins [St_Confirmed] [] db, daemon_locktime E) of
                       (Some confirmed, Some locktime) \<Rightarrow>
                         (let prev_cands = map (\<lambda>c. coin_to_candidate c (\<not> is_cancel) None None) prev_coins;
                              confirmed_cands = map (\<lambda>c. coin_to_candidate c False None None)
                                (filter (\<lambda>c. coin_at_outpoint prev_coins (coin_outpoint c) = None) confirmed);
                              attempt = (\<lambda>cands. create_spend (dm_btc E) (dm_ms E) (dm_ops E) (dm_cs E)
                                (dm_descriptor E) (db_get_tx db) [] destinations cands
                                (Fees_Rbf feerate replaced_fee) change_address locktime)
                          in map_option (\<lambda>r. rbind r (\<lambda>outcome. case outcome of
                                 Inl missing \<Rightarrow> Ok (Spend_Insufficient missing, db)
                               | Inr (res, _) \<Rightarrow> after_spend E destinations change_address res db))
                               (rbf_loop attempt is_cancel confirmed_cands
                                 (prev_cands @ (if \<not> is_cancel then confirmed_cands else []))))
                     | _ \<Rightarrow> Some (Err CmdPanic)))))"

section \<open>Rescans, listings and recoveries\<close>

definition start_rescan ::
  "('ms, 'tr, 'cs) daemon \<Rightarrow> nat \<Rightarrow> ('ms, 'tr) database \<Rightarrow> command_error + ('ms, 'tr) database" where
  "start_rescan E timestamp db =
     (let future_timestamp = (case dm_tip_time E of None \<Rightarrow> False | Some t \<Rightarrow> timestamp \<ge> t) in
      if timestamp < dm_genesis_timestamp E \<or> future_timestamp then Err (InsaneRescanTimestamp timestamp)
      else if w_rescan_timestamp (wallet_table db) \<noteq> None \<or> dm_is_rescanning E then Err AlreadyRescanning
      else rbind (map_err RescanTrigger (dm_start_rescan E timestamp)) (\<lambda>_. Ok (set_rescan timestamp db)))"

definition list_transactions :: "txid list \<Rightarrow> ('ms, 'tr) database \<Rightarrow> (tx \<times> int option \<times> nat option) list option" where
  "list_transactions txids db = list_wallet_transactions txids db"

definition list_confirmed_transactions ::
  "nat \<Rightarrow> nat \<Rightarrow> nat \<Rightarrow> ('ms, 'tr) database \<Rightarrow> (tx \<times> int option \<times> nat option) list option" where
  "list_confirmed_transactions start end limit db = list_transactions (list_txids start end limit db) db"

fun sweepable ::
  "(nat \<Rightarrow> nat) \<Rightarrow> int \<Rightarrow> nat \<Rightarrow> bool \<Rightarrow> coin list \<Rightarrow> command_error + candidate_coin list" where
  "sweepable from_height current_height timelock provided [] = Ok []"
| "sweepable from_height current_height timelock provided (c # cs) =
     (if (case coin_block_info c of None \<Rightarrow> False | Some b \<Rightarrow> current_height + 1 \<ge> bi_height b + int timelock)
      then rbind (sweepable from_height current_height timelock provided cs) (\<lambda>cands.
        Ok (coin_to_candidate c True (Some (from_height timelock)) None # cands))
      else if provided then Err (OutpointNotRecoverable (coin_outpoint c) timelock)
      else sweepable from_height current_height timelock provided cs)"

record create_recovery_result =
  rr_psbt :: psbt
  rr_to_own_address :: bool

definition create_recovery ::
  "('ms, 'tr, 'cs) daemon \<Rightarrow> address \<Rightarrow> outpoint list \<Rightarrow> nat \<Rightarrow> nat option \<Rightarrow> ('ms, 'tr) database
     \<Rightarrow> command_error + create_recovery_result \<times> ('ms, 'tr) database" where
  "create_recovery E addr coins_outpoints feerate_vb timelock db =
     (if feerate_vb < 1 then Err (CmdInvalidFeerate feerate_vb)
      else
        rbind (validate_address E addr) (\<lambda>addr.
        let sweep_addr = spend_addr db addr in
        rbind (case timelock of
            Some t \<Rightarrow> Ok t
          | None \<Rightarrow> ok_or CmdPanic (first_timelock_value (dm_ms E) (dm_descriptor E))) (\<lambda>timelock.
        rbind (if coins_outpoints = [] then ok_or CmdPanic (db_coins [St_Confirmed] [] db)
               else rbind (ok_or CmdPanic (db_coins [] coins_outpoints db)) (\<lambda>coins.
                    rbind (check_provided coins False coins_outpoints) (\<lambda>_. Ok coins))) (\<lambda>coins.
        rbind (sweepable (seq_from_height (dm_btc E)) (ct_height (dm_chain_tip E)) timelock
                 (coins_outpoints \<noteq> []) coins) (\<lambda>cands.
        if cands = [] then Err RecoveryNotAvailable
        else
          rbind (ok_or CmdPanic (daemon_locktime E)) (\<lambda>locktime.
          rbind (map_err SpendCreation (create_spend (dm_btc E) (dm_ms E) (dm_ops E) (dm_cs E) (dm_descriptor E)
                   (db_get_tx db) [] [] cands (Fees_Regular feerate_vb) sweep_addr locktime)) (\<lambda>(res, _).
          rbind (ok_or CmdPanic (if res_has_change res
                   then maybe_increase_last_deriv_index E (soa_info sweep_addr) db else Some db)) (\<lambda>db.
          Ok (\<lparr>rr_psbt = res_psbt res, rr_to_own_address = (soa_info sweep_addr \<noteq> None)\<rparr>, db)))))))))"

end
