(* ===== verification/Address_Commands.thy ===== *)
theory Address_Commands
  imports Commands
begin

text \<open>
  The addresses and derivation indexes served by the daemon: new addresses, the update of the
  indexes and its errors, the listing of a range of addresses and the pages of revealed ones.
\<close>

section \<open>Addresses and derivation indexes\<close>

lemma cn_increment_Some:
  "is_normal i \<Longrightarrow> cn_increment i = Some j \<longleftrightarrow> is_normal (i + 1) \<and> j = i + 1"
  by (auto simp: cn_increment_def)

lemma derive_address_Some [simp]:
  "derive_address E is_change i = Some a \<longleftrightarrow> is_normal i \<and>
     a = address_of (dm_ops E) (dm_network E) (desc_of_keychain (dm_descriptor E) is_change, i)"
  by (auto simp: derive_address_def derive_def)

text \<open>The daemon and the database are set up for the same descriptor and network.\<close>

definition serves :: "('ms, 'tr, 'cs) daemon \<Rightarrow> ('ms, 'tr) database \<Rightarrow> bool" where
  "serves E db \<longleftrightarrow> wallet_descriptor db = dm_descriptor E \<and> db_network db = dm_network E"

lemma highest_index_max: "highest_index (wallet_table db) = max (receive_index db) (change_index db)"
  by (simp add: highest_index_def receive_index_def change_index_def)

lemma index_after_set:
  assumes "set_derivation_index D i is_change db = Some db'"
  shows "receive_index db' = (if is_change then receive_index db else max i (receive_index db))"
    "change_index db' = (if is_change then max i (change_index db) else change_index db)"
  using set_derivation_index_Some(1) [OF assms]
  by (simp_all add: receive_index_def change_index_def wallet_with_index_def)

lemmas set_index_defs = set_receive_index_def set_change_index_def

lemma get_new_address_Some:
  assumes "get_new_address E db = Some (r, db')" "is_normal (receive_index db)"
  shows "ga_derivation_index r = receive_index db + 1" "receive_index db' = receive_index db + 1"
    "change_index db' = change_index db" "is_normal (receive_index db + 1)" "only_index db db'"
    "set_derivation_index (dm_ops E) (receive_index db + 1) False db = Some db'"
    "ga_address r = address_of (dm_ops E) (dm_network E) (receive_desc (dm_descriptor E), receive_index db + 1)"
  using assms
  by (auto simp: get_new_address_def bind_eq_Some_conv cn_increment_Some set_index_defs desc_of_keychain_def
      index_after_set dest: set_derivation_index_only(1))

lemma get_new_address_db_inv [inv_intros]:
  "db_inv B (dm_ops E) db \<Longrightarrow> get_new_address E db = Some (r, db') \<Longrightarrow> db_inv B (dm_ops E) db'"
  by (auto simp: get_new_address_def bind_eq_Some_conv set_index_defs intro: set_derivation_index_db_inv)

lemma addresses_injective_only_index:
  "only_index db db' \<Longrightarrow> addresses_injective D db' \<longleftrightarrow> addresses_injective D db"
  by (simp add: addresses_injective_def only_index_fields)

lemma get_new_address_known:
  assumes "db_inv B (dm_ops E) db" "addresses_injective (dm_ops E) db" "serves E db"
    "is_normal (receive_index db)" "get_new_address E db = Some (r, db')"
  shows "derivation_index_by_address (ga_address r) db' = Some (ga_derivation_index r, False)"
proof -
  note g = get_new_address_Some [OF assms(5,4)]
  have "addresses_inv (dm_ops E) db'"
    using get_new_address_db_inv [OF assms(1,5)] by (simp add: db_inv_def)
  moreover have "addresses_injective (dm_ops E) db'"
    using assms(2) g(5) by (simp add: addresses_injective_only_index)
  moreover have "ga_derivation_index r < highest_index (wallet_table db') + LOOK_AHEAD_LIMIT"
    by (simp add: highest_index_max g LOOK_AHEAD_LIMIT_def)
  ultimately show ?thesis
    using derivation_index_lookup(1) [of "dm_ops E" db' "ga_derivation_index r"] assms(3) g
    by (simp add: serves_def only_index_fields)
qed

lemma get_new_address_succeeds:
  assumes "addresses_injective (dm_ops E) db" "addresses_inv (dm_ops E) db"
    "receive_index db + 1 + LOOK_AHEAD_LIMIT \<le> HARDENED_START"
  shows "get_new_address E db \<noteq> None"
proof -
  have n: "is_normal (receive_index db)" "is_normal (receive_index db + 1)"
    using assms(3) by (simp_all add: is_normal_def LOOK_AHEAD_LIMIT_def)
  obtain db' where "set_derivation_index (dm_ops E) (receive_index db + 1) False db = Some db'"
    using set_derivation_index_succeeds [OF assms(1,2,3)] by blast
  moreover obtain a where "derive_address E False (receive_index db + 1) = Some a"
    using n by simp
  moreover have "cn_increment (receive_index db) = Some (receive_index db + 1)"
    using n by (simp add: cn_increment_Some)
  ultimately show ?thesis
    by (simp add: get_new_address_def set_index_defs)
qed

subsection \<open>Setting the indexes\<close>

definition raised :: "nat \<Rightarrow> nat option \<Rightarrow> nat" where
  "raised db_index requested = (case requested of
     None \<Rightarrow> db_index
   | Some index \<Rightarrow> max db_index (min index (db_index + MAX_INCREMENT_GAP)))"

lemma update_deriv_index_Ok:
  assumes "update_deriv_index set_index i requested db = (Ok j, db')"
  shows "j = raised i requested" "\<And>r. requested = Some r \<Longrightarrow> is_normal r"
    "db' = db \<and> j = i \<or> is_normal j \<and> i < j \<and> set_index j db = Some db'"
  using assms
  by (auto simp: update_deriv_index_def raised_def Let_def max_def min_def MAX_INCREMENT_GAP_def
      split: option.splits if_splits)

lemma update_deriv_index_Err:
  assumes "update_deriv_index set_index i requested db = (Err e, db')"
  shows "db' = db" "e = InvalidDerivationIndex \<and> (\<exists>r. requested = Some r \<and> \<not> is_normal r) \<or>
    e = CmdPanic \<and> (\<exists>j. set_index j db = None) \<or>
    e = InvalidDerivationIndex \<and> \<not> is_normal i"
  using assms
  by (auto simp: update_deriv_index_def Let_def is_normal_def split: option.splits if_splits)

lemma update_deriv_indexes_Ok:
  assumes "update_deriv_indexes E receive change db = (Ok (r, c), db')"
  shows "r = raised (receive_index db) receive" "c = raised (change_index db) change"
    "receive_index db' = r" "change_index db' = c" "only_index db db'"
proof -
  obtain db1 where
    1: "update_deriv_index (set_receive_index (dm_ops E)) (receive_index db) receive db = (Ok r, db1)" and
    2: "update_deriv_index (set_change_index (dm_ops E)) (change_index db) change db1 = (Ok c, db')"
    using assms by (auto simp: update_deriv_indexes_def Let_def split: prod.splits sum.splits)
  note u1 = update_deriv_index_Ok [OF 1] and u2 = update_deriv_index_Ok [OF 2]
  show "r = raised (receive_index db) receive" "c = raised (change_index db) change"
    by (rule u1(1) u2(1))+
  have a: "only_index db db1 \<and> receive_index db1 = r \<and> change_index db1 = change_index db"
    using u1(3) by (auto simp: set_index_defs index_after_set dest: set_derivation_index_only(1))
  have b: "only_index db1 db' \<and> receive_index db' = receive_index db1 \<and> change_index db' = c"
    using u2(3) a by (auto simp: set_index_defs index_after_set dest: set_derivation_index_only(1))
  from a b show "receive_index db' = r" "change_index db' = c" "only_index db db'"
    by (auto intro: only_index_trans)
qed

lemma update_deriv_index_db_inv:
  assumes "db_inv B D db" "update_deriv_index set_index i requested db = (res, db')"
    "\<And>i. set_index i = set_derivation_index D i is_change"
  shows "db_inv B D db'"
  using assms
  by (auto simp: update_deriv_index_def Let_def intro: set_derivation_index_db_inv split: option.splits if_splits)

lemma update_deriv_indexes_db_inv:
  assumes "db_inv B (dm_ops E) db" "update_deriv_indexes E receive change db = (res, db')"
  shows "db_inv B (dm_ops E) db'"
proof -
  obtain r db1 where 1: "update_deriv_index (set_receive_index (dm_ops E)) (receive_index db) receive db = (r, db1)"
    by fastforce
  have i1: "db_inv B (dm_ops E) db1"
    by (rule update_deriv_index_db_inv [where is_change = False, OF assms(1) 1]) (simp add: set_receive_index_def fun_eq_iff)
  obtain c db2 where 2: "update_deriv_index (set_change_index (dm_ops E)) (change_index db) change db1 = (c, db2)"
    by fastforce
  have i2: "db_inv B (dm_ops E) db2"
    by (rule update_deriv_index_db_inv [where is_change = True, OF i1 2]) (simp add: set_change_index_def fun_eq_iff)
  from assms(2) i1 i2 show ?thesis
    by (auto simp: update_deriv_indexes_def Let_def 1 2 split: sum.splits)
qed

text \<open>A refused change index leaves the receive index already raised.\<close>

lemma update_deriv_indexes_partial:
  assumes "set_receive_index (dm_ops E) index db = Some db'" "receive_index db < index"
    "index \<le> receive_index db + MAX_INCREMENT_GAP" "is_normal index" "\<not> is_normal bad"
  shows "update_deriv_indexes E (Some index) (Some bad) db = (Err InvalidDerivationIndex, db')"
proof -
  have "receive_index db + min (index - receive_index db) MAX_INCREMENT_GAP = index"
    using assms(2,3) by simp
  with assms show ?thesis
    by (simp add: update_deriv_indexes_def update_deriv_index_def Let_def from_normal_idx_def is_normal_def)
qed


section \<open>Listings of addresses\<close>

lemma list_all2_guarded:
  "list_all2 (\<lambda>x y. P x \<and> y = g x) xs ys \<longleftrightarrow> list_all P xs \<and> ys = map g xs"
  by (induction xs arbitrary: ys) (auto simp: list_all2_Cons1)

definition address_at :: "('ms, 'tr, 'cs) daemon \<Rightarrow> bool \<Rightarrow> nat \<Rightarrow> address" where
  "address_at E is_change i =
     address_of (dm_ops E) (dm_network E) (desc_of_keychain (dm_descriptor E) is_change, i)"

definition listed_range :: "nat option \<Rightarrow> nat option \<Rightarrow> ('ms, 'tr) database \<Rightarrow> nat \<times> nat" where
  "listed_range start_index num db =
     (let start = (case start_index of Some i \<Rightarrow> i | None \<Rightarrow> 0)
      in (start, case num of Some c \<Rightarrow> start + c | None \<Rightarrow> max (receive_index db) (change_index db) + 1))"

lemma list_addresses_Ok:
  assumes "listed_range start_index num db = (start, end_index)"
  shows "list_addresses E start_index num db = Ok addrs \<longleftrightarrow>
     is_normal start \<and> end_index \<le> U32_MAX \<and> list_all is_normal [start..<end_index] \<and>
     addrs = map (\<lambda>i. \<lparr>ai_index = i, ai_receive = address_at E False i, ai_change = address_at E True i\<rparr>)
       [start..<end_index]"
proof -
  have "list_all2 (\<lambda>i a. rbind (ok_or InvalidDerivationIndex (from_normal_idx i)) (\<lambda>child.
       rbind (ok_or CmdPanic (derive_address E False child)) (\<lambda>receive.
       rbind (ok_or CmdPanic (derive_address E True child)) (\<lambda>change.
       Ok \<lparr>ai_index = i, ai_receive = receive, ai_change = change\<rparr>))) = Ok a) is as \<longleftrightarrow>
     list_all2 (\<lambda>i a. is_normal i \<and>
       a = \<lparr>ai_index = i, ai_receive = address_at E False i, ai_change = address_at E True i\<rparr>) is as" for "is" as
    by (rule arg_cong [where f = "\<lambda>P. list_all2 P is as"])
      (auto simp: fun_eq_iff result_simps address_at_def)
  with assms show ?thesis
    by (auto simp: list_addresses_def listed_range_def result_simps collect_results_eq_Inr list_all2_guarded
        checked_add32_def Let_def split: option.splits if_splits)
qed

text \<open>
  The loop splits the indexes where it stops; what it returned is what the filter keeps of
  the first part, and it stops early only with as many addresses as asked for.
\<close>

lemma reveal_down_spec:
  assumes "reveal_down used exclude_used limit indexes derived = (out, continue_from)"
    "length derived \<le> limit"
  shows "case continue_from of
      None \<Rightarrow> out = derived @ filter (\<lambda>i. \<not> exclude_used \<or> \<not> used i) indexes \<and> length out \<le> limit
    | Some i \<Rightarrow> length out = limit \<and> (\<exists>before after. indexes = before @ i # after \<and>
        out = derived @ filter (\<lambda>i. \<not> exclude_used \<or> \<not> used i) before)"
  using assms
proof (induction used exclude_used limit indexes derived rule: reveal_down.induct)
  case (2 used exclude_used limit index indexes derived)
  show ?case
  proof (cases "length derived = limit")
    case True
    with 2(3) have "out = derived" "continue_from = Some index" by simp_all
    with True show ?thesis by (auto intro: exI [of _ "[]"])
  next
    case False
    let ?P = "\<lambda>i. \<not> exclude_used \<or> \<not> used i"
    define derived' where "derived' = (if ?P index then derived @ [index] else derived)"
    have "reveal_down used exclude_used limit indexes derived' = (out, continue_from)"
      using False 2(3) by (auto simp: derived'_def split: if_splits)
    moreover have "length derived' \<le> limit" using False 2(4) by (simp add: derived'_def)
    ultimately have IH: "case continue_from of
        None \<Rightarrow> out = derived' @ filter ?P indexes \<and> length out \<le> limit
      | Some i \<Rightarrow> length out = limit \<and> (\<exists>before after. indexes = before @ i # after \<and> out = derived' @ filter ?P before)"
      using False 2(1,2) by (cases "?P index"; cases continue_from) (auto simp: derived'_def)
    show ?thesis
    proof (cases continue_from)
      case (Some i)
      with IH obtain before after where "length out = limit" "indexes = before @ i # after"
        "out = derived' @ filter ?P before" by auto
      then have "index # indexes = (index # before) @ i # after \<and> out = derived @ filter ?P (index # before)"
        by (auto simp: derived'_def)
      with \<open>length out = limit\<close> show ?thesis unfolding Some option.case by blast
    qed (use IH in \<open>auto simp: derived'_def\<close>)
  qed
qed auto

lemma rev_upt_split:
  assumes "rev [0..<n] = before @ i # after"
  shows "i < n \<and> i # after = rev [0..<i + 1]"
proof -
  have l: "length before < n" using arg_cong [where f = length, OF assms] by simp
  have "rev [0..<n] ! length before = i" by (simp add: assms nth_append)
  then have i: "i = n - Suc (length before)" using l by (simp add: rev_nth)
  have "i # after = drop (length before) (rev [0..<n])" by (simp add: assms)
  also have "\<dots> = rev (take (n - length before) [0..<n])" by (simp add: drop_rev)
  also have "\<dots> = rev [0..<i + 1]" using l i by (simp add: take_upt Suc_diff_Suc del: upt_Suc)
  finally show ?thesis using i l by simp
qed

definition uses_at :: "bool \<Rightarrow> coin list \<Rightarrow> nat \<Rightarrow> nat" where
  "uses_at is_change coins i = length (filter (\<lambda>c. coin_is_change c = is_change \<and> coin_derivation_index c = i) coins)"

text \<open>The indexes to list from a start index down, whatever the limit.\<close>

definition revealed_from :: "bool \<Rightarrow> bool \<Rightarrow> coin list \<Rightarrow> nat \<Rightarrow> nat list" where
  "revealed_from is_change exclude_used coins start =
     filter (\<lambda>i. \<not> exclude_used \<or> uses_at is_change coins i = 0) (rev [0..<start + 1])"

lemma reveal_page:
  assumes "reveal_down (\<lambda>i. used_count is_change start coins i > 0) exclude_used limit (rev [0..<start + 1]) [] = (out, c)"
  shows "case c of None \<Rightarrow> out = revealed_from is_change exclude_used coins start \<and> length out \<le> limit
    | Some i \<Rightarrow> i \<le> start \<and> length out = limit \<and>
        revealed_from is_change exclude_used coins start = out @ revealed_from is_change exclude_used coins i"
proof -
  let ?P = "\<lambda>i. \<not> exclude_used \<or> \<not> used_count is_change start coins i > 0"
  have used: "used_count is_change start coins i = uses_at is_change coins i" if "i \<le> start" for i
    using that by (auto simp: used_count_def uses_at_def intro!: arg_cong [where f = length] filter_cong)
  have P: "filter ?P (rev [0..<n + 1]) = revealed_from is_change exclude_used coins n" if "n \<le> start" for n
    unfolding revealed_from_def using that by (intro filter_cong) (auto simp: used)
  note r = reveal_down_spec [OF assms]
  show ?thesis
  proof (cases c)
    case None
    show ?thesis unfolding None option.case P [OF le_refl, symmetric] using r None by auto
  next
    case (Some i)
    then obtain before after where s: "length out = limit" "rev [0..<start + 1] = before @ i # after"
      "out = filter ?P before" using r by auto
    note i = rev_upt_split [OF s(2)]
    have "revealed_from is_change exclude_used coins start = filter ?P before @ filter ?P (i # after)"
      using P [of start] s(2) by (metis filter_append le_refl)
    also have "filter ?P (i # after) = revealed_from is_change exclude_used coins i"
      using P [of i] i by (simp only: less_Suc_eq_le Suc_eq_plus1 [symmetric])
    finally show ?thesis using Some s i by simp
  qed
qed

lemma list_revealed_addresses_Some:
  assumes "list_revealed_addresses item_text E is_change exclude_used limit start_index db = Some (page, c)"
    "db_coins [] [] db = Some coins"
    "start = (let revealed = if is_change then change_index db else receive_index db
       in case start_index of None \<Rightarrow> revealed | Some i \<Rightarrow> min i revealed)"
  shows "case c of None \<Rightarrow> map rv_index page = revealed_from is_change exclude_used coins start \<and> length page \<le> limit
    | Some i \<Rightarrow> i \<le> start \<and> length page = limit \<and> revealed_from is_change exclude_used coins start =
        map rv_index page @ revealed_from is_change exclude_used coins i"
    "\<forall>r \<in> set page. rv_address r = address_at E is_change (rv_index r) \<and>
       rv_used_count r = uses_at is_change coins (rv_index r)"
proof -
  have start: "min (case start_index of None \<Rightarrow> if is_change then change_index db else receive_index db | Some i \<Rightarrow> i)
      (if is_change then change_index db else receive_index db) = start"
    using assms(3) by (simp add: Let_def split: option.splits)
  obtain indexes where r: "reveal_down (\<lambda>i. used_count is_change start coins i > 0) exclude_used limit
      (rev [0..<start + 1]) [] = (indexes, c)"
    and p: "\<exists>derived. collect_options (\<lambda>i. map_option (Pair i) (derive_address E is_change i)) indexes = Some derived \<and>
      page = map (\<lambda>(i, a). \<lparr>rv_index = i, rv_address = a,
        rv_label = map_of (db_labels item_text (map (\<lambda>(_, a). Label_Address a) derived) db) (item_text (Label_Address a)),
        rv_used_count = used_count is_change start coins i\<rparr>) derived"
    using assms(1,2) unfolding list_revealed_addresses_def start Let_def
    by (auto simp: start bind_eq_Some_conv split: prod.splits)
  then obtain derived where d: "collect_options (\<lambda>i. map_option (Pair i) (derive_address E is_change i)) indexes = Some derived"
    and page: "page = map (\<lambda>(i, a). \<lparr>rv_index = i, rv_address = a,
        rv_label = map_of (db_labels item_text (map (\<lambda>(_, a). Label_Address a) derived) db) (item_text (Label_Address a)),
        rv_used_count = used_count is_change start coins i\<rparr>) derived"
    by blast
  have "list_all2 (\<lambda>i d. is_normal i \<and> d = (i, address_at E is_change i)) indexes derived"
    using d unfolding collect_options_eq_Some
    by (rule list_all2_mono) (auto simp: address_at_def)
  then have derived: "derived = map (\<lambda>i. (i, address_at E is_change i)) indexes"
    by (simp add: list_all2_guarded)
  then have i: "map rv_index page = indexes"
    by (simp add: page comp_def)
  then have l: "length page = length indexes" by (metis length_map)
  have le: "\<forall>i \<in> set indexes. i \<le> start"
  proof (cases c)
    case (Some j)
    then obtain before after where "rev [0..<start + 1] = before @ j # after" "set indexes \<subseteq> set before"
      using reveal_down_spec [OF r] by auto
    then have "set indexes \<subseteq> set (rev [0..<start + 1])" by auto
    then show ?thesis by auto
  qed (use reveal_down_spec [OF r] in \<open>auto split: if_splits\<close>)
  show "case c of None \<Rightarrow> map rv_index page = revealed_from is_change exclude_used coins start \<and> length page \<le> limit
    | Some i \<Rightarrow> i \<le> start \<and> length page = limit \<and> revealed_from is_change exclude_used coins start =
        map rv_index page @ revealed_from is_change exclude_used coins i"
    using reveal_page [OF r] unfolding i l by (cases c) auto
  show "\<forall>r \<in> set page. rv_address r = address_at E is_change (rv_index r) \<and>
       rv_used_count r = uses_at is_change coins (rv_index r)"
    using le by (auto simp: page derived used_count_def uses_at_def intro!: arg_cong [where f = length] filter_cong)
qed

end
