(* ===== verification/Spend_Commands.thy ===== *)
theory Spend_Commands
  imports Commands
begin

text \<open>
  The creation of a spend by the daemon: which coins become candidates, which error the
  check of the outpoints asked for gives, what the derivation indexes are afterwards, and
  the cases in which the command succeeds.
\<close>

section \<open>Candidates\<close>

lemma coin_to_candidate_fields [simp]:
  "cc_outpoint (coin_to_candidate c must seq info) = coin_outpoint c"
  "cc_amount (coin_to_candidate c must seq info) = coin_amount c"
  "cc_must_select (coin_to_candidate c must seq info) = must"
  "cc_sequence (coin_to_candidate c must seq info) = seq"
  by (simp_all add: coin_to_candidate_def)

lemma auto_candidates_mem:
  assumes "auto_candidates E coins = Some cands" "cand \<in> set cands"
  shows "\<exists>c \<in> set coins. cc_outpoint cand = coin_outpoint c \<and> cc_amount cand = coin_amount c \<and>
    (coin_block_info c \<noteq> None \<or> coin_is_from_self c) \<and> cc_sequence cand = None"
proof -
  obtain i where i: "i < length cands" "cand = cands ! i" using assms(2) by (metis in_set_conv_nth)
  define cs where "cs = filter (\<lambda>c. coin_block_info c \<noteq> None \<or> coin_is_from_self c) coins"
  have "list_all2 (\<lambda>c cand. cc_outpoint cand = coin_outpoint c \<and> cc_amount cand = coin_amount c \<and> cc_sequence cand = None) cs cands"
    using assms(1) unfolding auto_candidates_def collect_options_eq_Some cs_def
    by (rule list_all2_mono) (auto split: if_splits)
  with i have "cc_outpoint cand = coin_outpoint (cs ! i) \<and> cc_amount cand = coin_amount (cs ! i) \<and>
      cc_sequence cand = None \<and> cs ! i \<in> set cs"
    by (simp add: list_all2_conv_all_nth)
  then show ?thesis by (auto simp: cs_def)
qed

lemma manual_candidates_all:
  assumes "manual_candidates E coins = Some cands"
  shows "list_all2 (\<lambda>c cand. cc_outpoint cand = coin_outpoint c \<and> cc_amount cand = coin_amount c \<and>
    cc_must_select cand \<and> cc_sequence cand = None) coins cands"
  using assms unfolding manual_candidates_def collect_options_eq_Some
  by (rule list_all2_mono) (auto split: if_splits)

lemma coin_at_outpoint_Some:
  "coin_at_outpoint coins op = Some c \<Longrightarrow> c \<in> set coins \<and> coin_outpoint c = op"
  by (auto simp: coin_at_outpoint_def find_Some_iff)

lemma coin_at_outpoint_None:
  "coin_at_outpoint coins op = None \<longleftrightarrow> op \<notin> coin_outpoint ` set coins"
  by (auto simp: coin_at_outpoint_def find_None_iff)

definition spendable_now :: "bool \<Rightarrow> coin \<Rightarrow> bool" where
  "spendable_now check_immature c \<longleftrightarrow> \<not> is_spent c \<and> (check_immature \<longrightarrow> \<not> coin_is_immature c)"

lemma check_provided_Ok:
  "check_provided coins check_immature ops = Ok u \<longleftrightarrow>
     (\<forall>op \<in> set ops. \<exists>c. coin_at_outpoint coins op = Some c \<and> spendable_now check_immature c)"
  by (induction coins check_immature ops rule: check_provided.induct)
    (auto simp: result_simps spendable_now_def split: if_splits)

text \<open>The first outpoint that fails decides the error.\<close>

lemma check_provided_Err:
  assumes "check_provided coins check_immature ops = Err e"
  shows "\<exists>before op after. ops = before @ op # after \<and>
    check_provided coins check_immature before = Ok () \<and>
    (case coin_at_outpoint coins op of
       None \<Rightarrow> e = UnknownOutpoint op
     | Some c \<Rightarrow> if is_spent c then e = AlreadySpent op
        else check_immature \<and> coin_is_immature c \<and> e = ImmatureCoinbase op)"
  using assms
proof (induction ops)
  case (Cons op ops)
  show ?case
  proof (cases "\<exists>c. coin_at_outpoint coins op = Some c \<and> spendable_now check_immature c")
    case True
    then obtain c where c: "coin_at_outpoint coins op = Some c" "spendable_now check_immature c" by blast
    then have "check_provided coins check_immature ops = Err e"
      using Cons.prems by (auto simp: spendable_now_def split: if_splits)
    from Cons.IH [OF this] obtain before op' after where IH: "ops = before @ op' # after"
      "check_provided coins check_immature before = Ok ()"
      "case coin_at_outpoint coins op' of
         None \<Rightarrow> e = UnknownOutpoint op'
       | Some c \<Rightarrow> if is_spent c then e = AlreadySpent op'
          else check_immature \<and> coin_is_immature c \<and> e = ImmatureCoinbase op'" by blast
    have "check_provided coins check_immature (op # before) = Ok ()"
      using c IH(2) by (simp add: spendable_now_def)
    with IH show ?thesis
      by (intro exI [of _ "op # before"] exI [of _ op'] exI [of _ after] conjI) simp_all
  next
    case False
    then have "case coin_at_outpoint coins op of
         None \<Rightarrow> e = UnknownOutpoint op
       | Some c \<Rightarrow> if is_spent c then e = AlreadySpent op
          else check_immature \<and> coin_is_immature c \<and> e = ImmatureCoinbase op"
      using Cons.prems by (cases "coin_at_outpoint coins op") (auto simp: spendable_now_def split: if_splits)
    then show ?thesis
      by (intro exI [of _ "[]"] exI [of _ op] exI [of _ ops] conjI) simp_all
  qed
qed simp

text \<open>The coins a spend may use: those asked for, or the unspent ones that are confirmed or ours.\<close>

definition usable :: "outpoint list \<Rightarrow> coin \<Rightarrow> bool" where
  "usable coins_outpoints c \<longleftrightarrow> coin_spend_txid c = None \<and>
     (if coins_outpoints = [] then coin_block_info c \<noteq> None \<or> coin_is_from_self c
      else coin_outpoint c \<in> set coins_outpoints \<and> \<not> coin_is_immature c)"

lemma collect_coin_of_row_unique:
  assumes "coins_inv db" "db_coins sts ops db = Some cs" "c \<in> set cs" "c' \<in> set cs" "coin_outpoint c = coin_outpoint c'"
  shows "c = c'"
proof -
  obtain r where r: "r \<in> set (coins_table db)" "coin_of_row r = Some c"
    using db_coins_mem [OF assms(1,2)] assms(3) by blast
  obtain r' where r': "r' \<in> set (coins_table db)" "coin_of_row r' = Some c'"
    using db_coins_mem [OF assms(1,2)] assms(4) by blast
  have "rc_outpoint r = rc_outpoint r'"
    using assms(5) r(2) r'(2) by (metis coin_of_row_fields(1))
  then have "r = r'"
    using r(1) r'(1) assms(1) by (auto simp: coins_inv_def coins_ok_def distinct_map dest: inj_onD)
  with r r' show ?thesis by simp
qed

lemma spend_candidates_Ok:
  assumes "coins_inv db" "spend_candidates E coins_outpoints db = Ok cands" "cand \<in> set cands"
  shows "\<exists>coins c. db_coins [] [] db = Some coins \<and> c \<in> set coins \<and> usable coins_outpoints c \<and>
    cc_outpoint cand = coin_outpoint c \<and> cc_amount cand = coin_amount c \<and> cc_sequence cand = None \<and>
    (coins_outpoints \<noteq> [] \<longrightarrow> cc_must_select cand)"
proof -
  obtain coins where all: "db_coins [] [] db = Some coins" using db_coins_Some [OF assms(1)] by blast
  have in_all: "c \<in> set coins" if "db_coins sts ops db = Some cs" "c \<in> set cs" for sts ops cs c
    using db_coins_mem [OF assms(1) that(1)] db_coins_mem [OF assms(1) all] that(2) by auto
  show ?thesis
  proof (cases "coins_outpoints = []")
    case True
    then obtain cs where cs: "db_coins [St_Unconfirmed, St_Confirmed] [] db = Some cs" "auto_candidates E cs = Some cands"
      using assms(2) by (auto simp: spend_candidates_def result_simps)
    obtain c where c: "c \<in> set cs" "cc_outpoint cand = coin_outpoint c" "cc_amount cand = coin_amount c"
      "coin_block_info c \<noteq> None \<or> coin_is_from_self c" "cc_sequence cand = None"
      using auto_candidates_mem [OF cs(2) assms(3)] by blast
    obtain r where "coin_of_row r = Some c" "status_of_row r \<in> set [St_Unconfirmed, St_Confirmed]"
      using db_coins_mem [OF assms(1) cs(1)] c(1) by auto
    then have "coin_spend_txid c = None"
      by (auto simp: status_of_row_def coin_of_row_fields(2) split: if_splits)
    with c True all in_all [OF cs(1) c(1)] show ?thesis by (auto simp: usable_def)
  next
    case False
    then obtain cs where cs: "db_coins [] coins_outpoints db = Some cs"
      "check_provided cs True coins_outpoints = Ok ()" "manual_candidates E cs = Some cands"
      using assms(2) by (auto simp: spend_candidates_def result_simps)
    obtain i where i: "i < length cands" "cand = cands ! i" using assms(3) by (metis in_set_conv_nth)
    with manual_candidates_all [OF cs(3)] have c: "cs ! i \<in> set cs" "cc_outpoint cand = coin_outpoint (cs ! i)"
      "cc_amount cand = coin_amount (cs ! i)" "cc_must_select cand" "cc_sequence cand = None"
      by (simp_all add: list_all2_conv_all_nth)
    have op: "coin_outpoint (cs ! i) \<in> set coins_outpoints"
      using db_coins_mem [OF assms(1) cs(1)] c(1) False by (auto simp: coin_of_row_fields)
    then obtain c' where c': "coin_at_outpoint cs (coin_outpoint (cs ! i)) = Some c'" "spendable_now True c'"
      using cs(2) check_provided_Ok by blast
    have "c' = cs ! i"
      using collect_coin_of_row_unique [OF assms(1) cs(1)] coin_at_outpoint_Some [OF c'(1)] c(1) by blast
    with c'(2) op False have "usable coins_outpoints (cs ! i)"
      by (auto simp: usable_def spendable_now_def is_spent_def)
    with c all in_all [OF cs(1) c(1)] show ?thesis by blast
  qed
qed

section \<open>The derivation indexes after a spend\<close>

lemma maybe_increase_bump:
  "maybe_increase_last_deriv_index E info db =
     (case info of None \<Rightarrow> Some db | Some i \<Rightarrow> bump_index (dm_ops E) (adi_index i) (adi_is_change i) db)"
  by (auto simp: maybe_increase_last_deriv_index_def bump_index_def split: option.splits)

lemma maybe_increase_only:
  assumes "maybe_increase_last_deriv_index E info db = Some db'"
  shows "only_index db db'" "db_inv B (dm_ops E) db \<Longrightarrow> db_inv B (dm_ops E) db'"
    "\<And>i. info = Some i \<Longrightarrow> adi_index i \<le> (if adi_is_change i then change_index db' else receive_index db')"
  using assms unfolding maybe_increase_bump
  by (auto split: option.splits dest: bump_index_only intro: bump_index_db_inv)

lemma increase_all_only:
  assumes "increase_all E infos db = Some db'"
  shows "only_index db db'" "db_inv B (dm_ops E) db \<Longrightarrow> db_inv B (dm_ops E) db'"
    "\<forall>i. Some i \<in> set infos \<longrightarrow> adi_index i \<le> (if adi_is_change i then change_index db' else receive_index db')"
proof -
  have "only_index db db' \<and> (db_inv B (dm_ops E) db \<longrightarrow> db_inv B (dm_ops E) db') \<and>
    (\<forall>i. Some i \<in> set infos \<longrightarrow> adi_index i \<le> (if adi_is_change i then change_index db' else receive_index db'))"
    using assms
  proof (induction infos arbitrary: db)
    case (Cons info infos)
    then obtain db1 where 1: "maybe_increase_last_deriv_index E info db = Some db1"
      and 2: "increase_all E infos db1 = Some db'"
      by (auto simp: bind_eq_Some_conv)
    note IH = Cons.IH [OF 2] and m = maybe_increase_only [OF 1]
    have g: "index_grows db1 db'" using IH by (simp add: only_index_fields)
    show ?case
    proof (intro conjI allI impI)
      show "only_index db db'" using m(1) IH only_index_trans by blast
      show "db_inv B (dm_ops E) db'" if "db_inv B (dm_ops E) db" using m(2) [OF that] IH by blast
      fix i assume "Some i \<in> set (info # infos)"
      then consider "info = Some i" | "Some i \<in> set infos" by auto
      then show "adi_index i \<le> (if adi_is_change i then change_index db' else receive_index db')"
      proof cases
        case 1
        with m(3) [of i] g show ?thesis by (auto simp: index_grows_def split: if_splits)
      qed (use IH in blast)
    qed
  qed simp
  then show "only_index db db'" "db_inv B (dm_ops E) db \<Longrightarrow> db_inv B (dm_ops E) db'"
    "\<forall>i. Some i \<in> set infos \<longrightarrow> adi_index i \<le> (if adi_is_change i then change_index db' else receive_index db')"
    by blast+
qed


section \<open>The command\<close>

lemma rev_case_outcome:
  "(case r of Inl (CoinSelection missing) \<Rightarrow> Ok (Spend_Insufficient missing, db) | Inl e \<Rightarrow> Err (SpendCreation e)
     | Inr (res, g) \<Rightarrow> after_spend E dests change_addr res db) = Ok (Spend_Success psbt ws, db') \<longleftrightarrow>
   (\<exists>res g. r = Ok (res, g) \<and> after_spend E dests change_addr res db = Ok (Spend_Success psbt ws, db'))"
  by (auto split: sum.splits spend_creation_error.splits prod.splits)

lemma after_spend_Ok:
  assumes "after_spend E dests change_addr res db = Ok (out, db')"
  shows "out = Spend_Success (res_psbt res) (res_warnings res)" "only_index db db'"
    "db_inv B (dm_ops E) db \<Longrightarrow> db_inv B (dm_ops E) db'"
    "\<forall>i. Some i \<in> set (map (soa_info \<circ> fst) dests) \<longrightarrow>
       adi_index i \<le> (if adi_is_change i then change_index db' else receive_index db')"
    "res_has_change res \<Longrightarrow> soa_info change_addr = Some i \<Longrightarrow>
       adi_index i \<le> (if adi_is_change i then change_index db' else receive_index db')"
proof -
  have a: "increase_all E (map (soa_info \<circ> fst) dests @
      (if res_has_change res then [soa_info change_addr] else [])) db = Some db'"
    "out = Spend_Success (res_psbt res) (res_warnings res)"
    using assms by (auto simp: after_spend_def result_simps)
  note i = increase_all_only [OF a(1)]
  show "out = Spend_Success (res_psbt res) (res_warnings res)" "only_index db db'"
    "db_inv B (dm_ops E) db \<Longrightarrow> db_inv B (dm_ops E) db'"
    "\<forall>i. Some i \<in> set (map (soa_info \<circ> fst) dests) \<longrightarrow>
       adi_index i \<le> (if adi_is_change i then change_index db' else receive_index db')"
    "res_has_change res \<Longrightarrow> soa_info change_addr = Some i \<Longrightarrow>
       adi_index i \<le> (if adi_is_change i then change_index db' else receive_index db')"
    using a(2) i by auto
qed

text \<open>Where the coins of the inputs come from, for any spend made of candidates.\<close>

lemma create_spend_inputs:
  assumes "create_spend B M D C d get_tx g destinations cands fees change_addr locktime = Ok (res, g')"
    "txin \<in> set (tx_input (unsigned_tx (res_psbt res)))"
  shows "\<exists>cand \<in> set cands. txin = spends B cand"
  using create_spend_Ok [OF assms(1)] assms(2) by (metis (no_types, lifting) image_iff list.set_map subsetD)

lemma cmd_create_spend_Success:
  assumes "cmd_create_spend E destinations coins_outpoints feerate_vb change_address db = Ok (Spend_Success psbt ws, db')"
  obtains dests cands change_addr locktime res g where
    "1 \<le> feerate_vb" "destinations \<noteq> [] \<or> coins_outpoints \<noteq> []"
    "dests = map (\<lambda>(a, v). (spend_addr db a, v)) destinations"
    "\<forall>(a, _) \<in> set destinations. addr_valid_for (dm_btc E) a (dm_network E)"
    "spend_candidates E coins_outpoints db = Ok cands"
    "case change_address of Some a \<Rightarrow> change_addr = spend_addr db a \<and> addr_valid_for (dm_btc E) a (dm_network E)
       | None \<Rightarrow> next_change_addr E db = Some change_addr"
    "daemon_locktime E = Some locktime"
    "create_spend (dm_btc E) (dm_ms E) (dm_ops E) (dm_cs E) (dm_descriptor E) (db_get_tx db) []
       dests cands (Fees_Regular feerate_vb) change_addr locktime = Ok (res, g)"
    "psbt = res_psbt res" "ws = res_warnings res" "after_spend E dests change_addr res db = Ok (Spend_Success psbt ws, db')"
proof -
  have v: "validate_address E a = Ok b \<longleftrightarrow> b = a \<and> addr_valid_for (dm_btc E) a (dm_network E)" for a b
    by (auto simp: validate_address_def)
  obtain dests cands change_addr locktime where
    0: "1 \<le> feerate_vb" "destinations \<noteq> [] \<or> coins_outpoints \<noteq> []" and
    1: "collect_results (\<lambda>(a, value_sat).
            rbind (validate_address E a) (\<lambda>a. Ok (spend_addr db a, value_sat))) destinations = Ok dests" and
    2: "(case change_address of
            Some a \<Rightarrow> rbind (validate_address E a) (\<lambda>a. Ok (spend_addr db a))
          | None \<Rightarrow> ok_or CmdPanic (next_change_addr E db)) = Ok change_addr" and
    3: "spend_candidates E coins_outpoints db = Ok cands" "daemon_locktime E = Some locktime" and
    4: "(case create_spend (dm_btc E) (dm_ms E) (dm_ops E) (dm_cs E) (dm_descriptor E) (db_get_tx db) []
               dests cands (Fees_Regular feerate_vb) change_addr locktime of
          Inl (CoinSelection missing) \<Rightarrow> Ok (Spend_Insufficient missing, db)
        | Inl e \<Rightarrow> Err (SpendCreation e)
        | Inr (res, _) \<Rightarrow> after_spend E dests change_addr res db) = Ok (Spend_Success psbt ws, db')"
    using assms by (auto simp: cmd_create_spend_def rbind_eq_Inr ok_or_eq_Inr split: if_splits)
  from 4 obtain res g where r: "create_spend (dm_btc E) (dm_ms E) (dm_ops E) (dm_cs E) (dm_descriptor E) (db_get_tx db) []
       dests cands (Fees_Regular feerate_vb) change_addr locktime = Ok (res, g)"
    and a: "after_spend E dests change_addr res db = Ok (Spend_Success psbt ws, db')"
    unfolding rev_case_outcome by blast
  have "list_all2 (\<lambda>d d'. addr_valid_for (dm_btc E) (fst d) (dm_network E) \<and> d' = (spend_addr db (fst d), snd d)) destinations dests"
    using 1 unfolding collect_results_eq_Inr by (rule list_all2_mono) (auto simp: result_simps v)
  then have d: "dests = map (\<lambda>(a, v). (spend_addr db a, v)) destinations \<and>
      (\<forall>(a, _) \<in> set destinations. addr_valid_for (dm_btc E) a (dm_network E))"
    by (induction destinations arbitrary: dests) (auto simp: list_all2_Cons1)
  have c: "case change_address of Some a \<Rightarrow> change_addr = spend_addr db a \<and> addr_valid_for (dm_btc E) a (dm_network E)
       | None \<Rightarrow> next_change_addr E db = Some change_addr"
    using 2 by (auto simp: result_simps v split: option.splits)
  show thesis
    by (rule that [OF 0 _ _ 3(1) c 3(2) r _ _ a]) (use d after_spend_Ok(1) [OF a] in auto)
qed

end
