(* ===== verification/Update_Commands.thy ===== *)
theory Update_Commands
  imports Spend_Commands
begin

text \<open>The commands that change a stored draft or start from past transactions: merging the signatures
  of an updated draft (update_spend), replacing an unconfirmed transaction (rbf_psbt), starting a
  rescan and sweeping matured coins to a recovery address (create_recovery), all of
  src/lianad/src/commands/mod.rs.  The lemmas describe when each succeeds and what its result then is.\<close>

lemma find_unknown_None:
  "List.find (\<lambda>op. coin_at_outpoint coins op = None) ops = None \<longleftrightarrow> set ops \<subseteq> coin_outpoint ` set coins"
  by (auto simp: find_None_iff coin_at_outpoint_None)

section \<open>Merging signatures\<close>

lemma length_merge_at [simp]: "length (merge_at psbt db_tx i ins) = length ins"
  by (simp add: merge_at_def Let_def)

lemma merge_at_nth:
  "j < length ins \<Longrightarrow> merge_at psbt db_tx i ins ! j = (if j = i then merge_at psbt db_tx i ins ! i else ins ! j)"
  by (auto simp: merge_at_def Let_def)

lemma fold_merge_nth:
  assumes "distinct is" "j < length ins"
  shows "fold (merge_at psbt db_tx) is ins ! j =
    (if j \<in> set is then merge_at psbt db_tx j ins ! j else ins ! j)"
  using assms
proof (induction "is" arbitrary: ins)
  case (Cons i "is")
  have "merge_at psbt db_tx j (merge_at psbt db_tx i ins) ! j = merge_at psbt db_tx j ins ! j" if "i \<noteq> j"
    using that Cons.prems(2) by (auto simp: merge_at_def Let_def nth_list_update)
  with Cons show ?case by (auto simp: merge_at_nth [of j ins psbt db_tx i])
qed simp

lemma length_fold_merge [simp]: "length (fold (merge_at psbt db_tx) is ins) = length ins"
  by (induction "is" arbitrary: ins) auto

definition same_input :: "psbt \<Rightarrow> psbt \<Rightarrow> nat \<Rightarrow> bool" where
  "same_input db_psbt psbt i \<longleftrightarrow>
     i < length (tx_input (unsigned_tx db_psbt)) \<and> i < length (tx_input (unsigned_tx psbt)) \<and>
     i < length (psbt_inputs psbt) \<and>
     previous_output (tx_input (unsigned_tx psbt) ! i) = previous_output (tx_input (unsigned_tx db_psbt) ! i)"

lemma merge_psbt_inputs:
  "unsigned_tx (merge_psbt db_psbt psbt) = unsigned_tx db_psbt"
  "psbt_outputs (merge_psbt db_psbt psbt) = psbt_outputs db_psbt"
  "length (psbt_inputs (merge_psbt db_psbt psbt)) = length (psbt_inputs db_psbt)"
  "i < length (psbt_inputs db_psbt) \<Longrightarrow> psbt_inputs (merge_psbt db_psbt psbt) ! i =
     (if same_input db_psbt psbt i then merge_input (psbt_inputs db_psbt ! i) (psbt_inputs psbt ! i)
      else psbt_inputs db_psbt ! i)"
  by (auto simp: merge_psbt_def fold_merge_nth merge_at_def same_input_def Let_def)

definition sigs_ok :: "psbt_in \<Rightarrow> bool" where
  "sigs_ok pin \<longleftrightarrow> bt_ok (partial_sigs pin) \<and> bt_ok (tap_script_sigs pin)"

lemma map_of_bt_merge: "bt_ok a \<Longrightarrow> bt_ok b \<Longrightarrow> map_of (bt_extend a b) = map_of a ++ map_of b"
proof -
  assume a: "bt_ok a" and b: "bt_ok b"
  have "map_of (rev b) = map_of b"
    using bt_ok_distinct [OF b]
    by (intro map_of_eqI) (auto simp: rev_map [symmetric] map_of_eq_Some_iff distinct_rev)
  with a show ?thesis by (auto simp: map_of_bt_extend map_add_def fun_eq_iff split: option.splits)
qed

lemma merge_input_fields:
  assumes "sigs_ok a" "sigs_ok b"
  shows "map_of (partial_sigs (merge_input a b)) = map_of (partial_sigs a) ++ map_of (partial_sigs b)"
  "map_of (tap_script_sigs (merge_input a b)) = map_of (tap_script_sigs a) ++ map_of (tap_script_sigs b)"
  "tap_key_sig (merge_input a b) = (case tap_key_sig a of Some s \<Rightarrow> Some s | None \<Rightarrow> tap_key_sig b)"
  "witness_utxo (merge_input a b) = witness_utxo a" "bip32_derivation (merge_input a b) = bip32_derivation a"
  "tap_key_origins (merge_input a b) = tap_key_origins a" "sigs_ok (merge_input a b)"
  using assms
  by (auto simp: merge_input_def sigs_ok_def map_of_bt_merge bt_ok_extend split: option.splits)

lemma spend_tx_draft: "spend_tx t db = map_option rs_psbt (draft_at db t)"
  by (simp add: spend_tx_def draft_at_def)

lemma update_spend_Ok:
  assumes "update_spend E psbt db = Ok db'" "spends_ok (dm_btc E) (spends_table db)"
    "txid = compute_txid (dm_btc E) (unsigned_tx psbt)"
  shows "draft_at db' t = (if t = txid then Some (case draft_at db txid of
       None \<Rightarrow> \<lparr>rs_psbt = psbt, rs_txid = txid, rs_updated_at = Some (dm_now_secs E)\<rparr>
     | Some r \<Rightarrow> r\<lparr>rs_psbt := merge_psbt (rs_psbt r) psbt\<rparr>) else draft_at db t)"
    "draft_at db txid = None \<Longrightarrow> \<exists>coins. coins_by_outpoints (map previous_output (tx_input (unsigned_tx psbt))) db = Some coins \<and>
       (length coins = length (tx_input (unsigned_tx psbt)) \<or>
        previous_output ` set (tx_input (unsigned_tx psbt)) \<subseteq> coin_outpoint ` set coins)"
proof -
  show "draft_at db' t = (if t = txid then Some (case draft_at db txid of
       None \<Rightarrow> \<lparr>rs_psbt = psbt, rs_txid = txid, rs_updated_at = Some (dm_now_secs E)\<rparr>
     | Some r \<Rightarrow> r\<lparr>rs_psbt := merge_psbt (rs_psbt r) psbt\<rparr>) else draft_at db t)"
  proof (cases "draft_at db txid")
    case None
    then have "db' = store_spend (dm_btc E) (dm_now_secs E) psbt db"
      using assms(1,3) by (auto simp: update_spend_def spend_tx_draft Let_def result_simps split: option.splits if_splits)
    with None assms(2,3) show ?thesis by (simp add: draft_at_store)
  next
    case (Some r)
    then have db': "db' = store_spend (dm_btc E) (dm_now_secs E) (merge_psbt (rs_psbt r) psbt) db"
      using assms(1,3) by (auto simp: update_spend_def spend_tx_draft Let_def)
    have "rs_txid r = txid" "r \<in> set (spends_table db)"
      using Some by (auto simp: draft_at_def find_Some_iff)
    then have "compute_txid (dm_btc E) (unsigned_tx (merge_psbt (rs_psbt r) psbt)) = txid"
      using assms(2) by (auto simp: spends_ok_def merge_psbt_inputs)
    with db' Some assms(2) show ?thesis by (simp add: draft_at_store)
  qed
next
  show "draft_at db txid = None \<Longrightarrow> \<exists>coins. coins_by_outpoints (map previous_output (tx_input (unsigned_tx psbt))) db = Some coins \<and>
       (length coins = length (tx_input (unsigned_tx psbt)) \<or>
        previous_output ` set (tx_input (unsigned_tx psbt)) \<subseteq> coin_outpoint ` set coins)"
  proof -
    let ?ops = "map previous_output (tx_input (unsigned_tx psbt))"
    assume none: "draft_at db txid = None"
    then obtain coins where coins: "coins_by_outpoints ?ops db = Some coins"
      using assms(1,3) by (auto simp: update_spend_def spend_tx_draft Let_def result_simps)
    have "length coins = length ?ops \<or> List.find (\<lambda>op. coin_at_outpoint coins op = None) ?ops = None"
      using assms(1,3) none coins
      by (cases "List.find (\<lambda>op. coin_at_outpoint coins op = None) ?ops")
        (auto simp: update_spend_def spend_tx_draft Let_def split: if_splits)
    with coins show ?thesis by (auto simp: find_unknown_None)
  qed
qed

lemma update_spend_db_inv:
  assumes "db_inv B D db" "B = dm_btc E" "update_spend E psbt db = Ok db'"
  shows "db_inv B D db'"
  using assms
  by (auto simp: update_spend_def Let_def result_simps intro: store_spend_db_inv split: option.splits if_splits)

section \<open>Replacements\<close>

lemma rbf_loop_terminates:
  assumes "cands \<noteq> []"
  shows "\<exists>r. rbf_loop attempt is_cancel confirmed_cands cands = Some r"
proof -
  have once: "\<exists>r. rbf_loop attempt is_cancel confirmed_cands cs = Some r"
    if "\<not> (is_cancel \<and> list_all (\<lambda>c. \<not> cc_must_select c) cs)" for cs
    using that by (subst rbf_loop.simps) (auto split: sum.splits spend_creation_error.splits)
  have "\<not> list_all (\<lambda>c. \<not> cc_must_select c) (map (\<lambda>c. c\<lparr>cc_must_select := True\<rparr>) cands @ confirmed_cands)"
    using assms by (cases cands) auto
  then obtain r where "rbf_loop attempt is_cancel confirmed_cands
      (map (\<lambda>c. c\<lparr>cc_must_select := True\<rparr>) cands @ confirmed_cands) = Some r"
    using once by blast
  then show ?thesis
    by (subst rbf_loop.simps) (auto split: sum.splits spend_creation_error.splits)
qed

text \<open>What the loop returned comes from one of at most two attempts.\<close>

lemma rbf_loop_result:
  assumes "rbf_loop attempt is_cancel confirmed_cands cands = Some (Ok (Inr res))" "cands \<noteq> []"
  shows "attempt cands = Ok res \<or>
    is_cancel \<and> attempt (map (\<lambda>c. c\<lparr>cc_must_select := True\<rparr>) cands @ confirmed_cands) = Ok res"
proof -
  let ?next = "map (\<lambda>c. c\<lparr>cc_must_select := True\<rparr>) cands @ confirmed_cands"
  have last: "attempt ?next = Ok res" if "rbf_loop attempt b confirmed_cands ?next = Some (Ok (Inr res))" for b
    using that assms(2)
    by (subst (asm) rbf_loop.simps, cases cands) (auto split: sum.splits spend_creation_error.splits if_splits)
  from assms(1) show ?thesis
    by (subst (asm) rbf_loop.simps) (auto dest: last split: sum.splits spend_creation_error.splits if_splits)
qed

lemma min_feerate_and_fees_Some:
  assumes "min_feerate_and_fees entries (m, f) = Some (m', f')"
  shows "m \<le> m'" "f' = f + sum_list (map me_descendant_fee entries)"
    "\<forall>e \<in> set entries. me_base_fee e div me_vsize e < m'"
    "m' = m \<or> (\<exists>e \<in> set entries. m' = me_base_fee e div me_vsize e + 1)"
proof -
  have "m \<le> m' \<and> f' = f + sum_list (map me_descendant_fee entries) \<and>
      (\<forall>e \<in> set entries. me_base_fee e div me_vsize e < m') \<and>
      (m' = m \<or> (\<exists>e \<in> set entries. m' = me_base_fee e div me_vsize e + 1))"
    using assms
  proof (induction entries arbitrary: m f)
    case (Cons e entries)
    let ?rate = "me_base_fee e div me_vsize e + 1"
    have "min_feerate_and_fees entries (max m ?rate, f + me_descendant_fee e) = Some (m', f')"
      using Cons.prems by (auto simp: bind_eq_Some_conv checked_div_Some checked_add64_Some)
    from Cons.IH [OF this] show ?case by (auto simp: max_def split: if_splits)
  qed simp
  then show "m \<le> m'" "f' = f + sum_list (map me_descendant_fee entries)"
    "\<forall>e \<in> set entries. me_base_fee e div me_vsize e < m'"
    "m' = m \<or> (\<exists>e \<in> set entries. m' = me_base_fee e div me_vsize e + 1)" by blast+
qed

lemma rbf_checks_Ok:
  assumes "rbf_checks E txid is_cancel feerate_vb db = Ok (prev_tx, prev_coins, feerate, replaced)"
  shows "rbf_prev_tx db txid = Ok prev_tx" "is_explicitly_rbf (dm_btc E) prev_tx"
    "coins_by_outpoints (map previous_output (tx_input prev_tx)) db = Some prev_coins"
    "\<forall>i \<in> set (tx_input prev_tx). previous_output i \<in> coin_outpoint ` set prev_coins"
    "\<forall>c \<in> set prev_coins. coin_spend_block c = None"
    "\<forall>e \<in> set (dm_mempool_spenders E (map previous_output (tx_input prev_tx))). me_base_fee e div me_vsize e < feerate"
    "1 \<le> feerate"
    "replaced = sum_list (map me_descendant_fee (dm_mempool_spenders E (map previous_output (tx_input prev_tx))))"
    "is_cancel \<longleftrightarrow> feerate_vb = None" "feerate_vb \<noteq> None \<Longrightarrow> feerate_vb = Some feerate"
proof -
  let ?ops = "map previous_output (tx_input prev_tx)"
  have c: "rbf_prev_tx db txid = Ok prev_tx" "is_explicitly_rbf (dm_btc E) prev_tx"
    "coins_by_outpoints ?ops db = Some prev_coins"
    "List.find (\<lambda>op. coin_at_outpoint prev_coins op = None) ?ops = None"
    "List.find (\<lambda>c. coin_spend_block c \<noteq> None) prev_coins = None"
    "\<exists>m. min_feerate_and_fees (dm_mempool_spenders E ?ops) (1, 0) = Some (m, replaced) \<and> m \<le> feerate \<and>
       (if is_cancel then m = feerate else feerate_vb = Some feerate)"
    "\<not> (is_cancel \<and> feerate_vb \<noteq> None)"
    using assms
    by (auto simp: rbf_checks_def Let_def result_simps split: if_splits option.splits prod.splits)
  then obtain m where m: "min_feerate_and_fees (dm_mempool_spenders E ?ops) (1, 0) = Some (m, replaced)" "m \<le> feerate"
    by blast
  show "rbf_prev_tx db txid = Ok prev_tx" "is_explicitly_rbf (dm_btc E) prev_tx"
    "coins_by_outpoints ?ops db = Some prev_coins"
    by (fact c)+
  show "\<forall>i \<in> set (tx_input prev_tx). previous_output i \<in> coin_outpoint ` set prev_coins"
    using c(4) by (auto simp: find_unknown_None)
  show "\<forall>c \<in> set prev_coins. coin_spend_block c = None"
    using c(5) by (auto simp: find_None_iff)
  show "\<forall>e \<in> set (dm_mempool_spenders E ?ops). me_base_fee e div me_vsize e < feerate" "1 \<le> feerate"
    "replaced = sum_list (map me_descendant_fee (dm_mempool_spenders E ?ops))"
    using min_feerate_and_fees_Some [OF m(1)] m(2) by auto
  show "is_cancel \<longleftrightarrow> feerate_vb = None" "feerate_vb \<noteq> None \<Longrightarrow> feerate_vb = Some feerate"
    using c(6,7) by (auto split: if_splits)
qed

section \<open>Rescans and recoveries\<close>

lemma start_rescan_Ok:
  "start_rescan E timestamp db = Ok db' \<longleftrightarrow> dm_genesis_timestamp E \<le> timestamp \<and>
     (\<forall>t. dm_tip_time E = Some t \<longrightarrow> timestamp < t) \<and> w_rescan_timestamp (wallet_table db) = None \<and>
     \<not> dm_is_rescanning E \<and> dm_start_rescan E timestamp = Ok () \<and> db' = set_rescan timestamp db"
  by (auto simp: start_rescan_def Let_def result_simps split: option.splits if_splits)

definition matured_at :: "int \<Rightarrow> nat \<Rightarrow> coin \<Rightarrow> bool" where
  "matured_at tip timelock c \<longleftrightarrow> (\<exists>b. coin_block_info c = Some b \<and> bi_height b + int timelock \<le> tip + 1)"

lemma sweepable_Ok:
  "sweepable from_height tip timelock provided coins = Ok cands \<longleftrightarrow>
     cands = map (\<lambda>c. coin_to_candidate c True (Some (from_height timelock)) None) (filter (matured_at tip timelock) coins) \<and>
     (provided \<longrightarrow> (\<forall>c \<in> set coins. matured_at tip timelock c))"
proof (induction coins arbitrary: cands)
  case (Cons c coins)
  have "(case coin_block_info c of None \<Rightarrow> False | Some b \<Rightarrow> tip + 1 \<ge> bi_height b + int timelock) \<longleftrightarrow>
      matured_at tip timelock c"
    by (auto simp: matured_at_def split: option.splits)
  then have step: "sweepable from_height tip timelock provided (c # coins) =
      (if matured_at tip timelock c
       then rbind (sweepable from_height tip timelock provided coins) (\<lambda>cands.
         Ok (coin_to_candidate c True (Some (from_height timelock)) None # cands))
       else if provided then Err (OutpointNotRecoverable (coin_outpoint c) timelock)
       else sweepable from_height tip timelock provided coins)"
    by simp
  show ?case
  proof (cases "matured_at tip timelock c")
    case True
    then show ?thesis unfolding step by (auto simp: rbind_eq_Inr Cons.IH)
  next
    case False
    then show ?thesis unfolding step using Cons.IH [of cands] by auto
  qed
qed auto


section \<open>The change address of a replacement\<close>

definition change_of :: "prev_deriv \<Rightarrow> (address \<times> nat \<times> nat) option" where
  "change_of d = (case d of (a, amt, Some (index, True)) \<Rightarrow> Some (a, amt, index) | _ \<Rightarrow> None)"

lemma better_change_of:
  "better_change d best = (case change_of d of None \<Rightarrow> best
     | Some (a, k) \<Rightarrow> (case best of None \<Rightarrow> Some (a, k) | Some (_, k') \<Rightarrow> if k' \<le> k then Some (a, k) else best))"
  by (auto simp: better_change_def change_of_def split: prod.splits option.splits bool.splits)

lemma fold_better_change:
  "case fold better_change derivs best of
     None \<Rightarrow> best = None \<and> (\<forall>d \<in> set derivs. change_of d = None)
   | Some (a, k) \<Rightarrow> (best = Some (a, k) \<or> Some (a, k) \<in> change_of ` set derivs) \<and>
       (\<forall>a' k'. best = Some (a', k') \<or> Some (a', k') \<in> change_of ` set derivs \<longrightarrow> k' \<le> k)"
proof (induction derivs arbitrary: best)
  case Nil
  then show ?case by (auto split: option.splits)
next
  case (Cons d derivs)
  note IH = Cons.IH [of "better_change d best"]
  show ?case
  proof (cases "fold better_change (d # derivs) best")
    case None
    with IH have "better_change d best = None" "\<forall>d \<in> set derivs. change_of d = None" by auto
    then have "best = None \<and> (\<forall>d \<in> set (d # derivs). change_of d = None)"
      by (auto simp: better_change_of split: option.splits if_splits)
    with None show ?thesis by simp
  next
    case (Some r)
    obtain a k where r: "r = (a, k)" by (cases r) auto
    with IH Some have IH': "better_change d best = Some (a, k) \<or> Some (a, k) \<in> change_of ` set derivs"
      "\<And>a' k'. better_change d best = Some (a', k') \<or> Some (a', k') \<in> change_of ` set derivs \<Longrightarrow> k' \<le> k"
      by auto
    have 1: "best = Some (a, k) \<or> Some (a, k) \<in> change_of ` set (d # derivs)"
      using IH'(1) by (auto simp: better_change_of split: option.splits if_splits)
    have 2: "k' \<le> k" if "best = Some (a', k') \<or> Some (a', k') \<in> change_of ` set (d # derivs)" for a' k'
    proof -
      have "Some (a', k') \<in> change_of ` set derivs \<or> (\<exists>a2 k2. better_change d best = Some (a2, k2) \<and> k' \<le> k2)"
        using that by (cases k') (auto simp: better_change_of split: option.splits)
      then show ?thesis using IH'(2) by (meson order_trans)
    qed
    from 1 2 show ?thesis unfolding Some r by auto
  qed
qed

lemma prev_change_address_greatest:
  "case prev_change_address derivs of
     None \<Rightarrow> \<forall>d \<in> set derivs. change_of d = None
   | Some a \<Rightarrow> \<exists>k. Some (a, k) \<in> change_of ` set derivs \<and>
       (\<forall>a' k'. Some (a', k') \<in> change_of ` set derivs \<longrightarrow> k' \<le> k)"
proof (cases "fold better_change derivs None")
  case (Some r)
  then show ?thesis using fold_better_change [where derivs = derivs and best = None] by (cases r) (auto simp: prev_change_address_def)
qed (use fold_better_change [where derivs = derivs and best = None] in \<open>simp add: prev_change_address_def\<close>)

section \<open>The outcome of a replacement and of a recovery\<close>

lemma rbf_psbt_returns:
  assumes "\<And>t. is_explicitly_rbf (dm_btc E) t \<Longrightarrow> tx_input t \<noteq> []"
  shows "rbf_psbt E txid is_cancel feerate_vb db \<noteq> None"
proof (cases "rbf_checks E txid is_cancel feerate_vb db")
  case (Inr r)
  obtain prev_tx prev_coins feerate replaced where r: "r = (prev_tx, prev_coins, feerate, replaced)"
    using prod_cases4 by blast
  note c = rbf_checks_Ok [OF Inr [unfolded r]]
  obtain i where "i \<in> set (tx_input prev_tx)" using assms [OF c(2)] by (cases "tx_input prev_tx") auto
  then have "prev_coins \<noteq> []" using c(4) by auto
  have loop: "\<exists>y. rbf_loop attempt is_cancel confirmed
      (map (\<lambda>c. coin_to_candidate c m None None) prev_coins @ rest) = Some y" for attempt confirmed rest m
    using \<open>prev_coins \<noteq> []\<close> by (intro rbf_loop_terminates) simp
  have "\<exists>y. rbf_loop attempt is_cancel confirmed
      (map (\<lambda>c. coin_to_candidate c m None None) prev_coins) = Some y" for attempt confirmed m
    using \<open>prev_coins \<noteq> []\<close> by (intro rbf_loop_terminates) simp
  with loop show ?thesis
    by (auto simp: rbf_psbt_def Inr r Let_def split: option.splits prod.splits)
qed (simp add: rbf_psbt_def)

definition candidate_of :: "coin list \<Rightarrow> candidate_coin \<Rightarrow> bool" where
  "candidate_of coins cand \<longleftrightarrow> (\<exists>c \<in> set coins. cc_outpoint cand = coin_outpoint c \<and> cc_amount cand = coin_amount c)"

lemma candidate_of_coin:
  "c \<in> set coins \<Longrightarrow> candidate_of coins (coin_to_candidate c must_select sequence_of info)"
  "c \<in> set coins \<Longrightarrow> candidate_of coins (coin_to_candidate c must_select sequence_of info\<lparr>cc_must_select := m\<rparr>)"
  by (auto simp: candidate_of_def coin_to_candidate_def)

definition prev_derivs_of :: "('ms, 'tr, 'cs) daemon \<Rightarrow> ('ms, 'tr) database \<Rightarrow> tx \<Rightarrow> prev_deriv list option" where
  "prev_derivs_of E db t = collect_options (\<lambda>txo. map_option (\<lambda>a. (a, txo_value txo, derivation_index_by_address a db))
     (addr_from_script (dm_btc E) (txo_script txo))) (tx_output t)"

lemma rbf_psbt_Success:
  assumes "rbf_psbt E txid is_cancel feerate_vb db = Some (Ok (Spend_Success psbt ws, db'))"
    "\<And>t. is_explicitly_rbf (dm_btc E) t \<Longrightarrow> tx_input t \<noteq> []"
  obtains prev_tx prev_coins feerate replaced derivs change_addr confirmed cands locktime res g where
    "rbf_checks E txid is_cancel feerate_vb db = Ok (prev_tx, prev_coins, feerate, replaced)"
    "prev_derivs_of E db prev_tx = Some derivs" "daemon_locktime E = Some locktime"
    "case prev_change_address derivs of Some a \<Rightarrow> change_addr = spend_addr db a | None \<Rightarrow> next_change_addr E db = Some change_addr"
    "db_coins [St_Confirmed] [] db = Some confirmed"
    "\<forall>cand \<in> set cands. candidate_of (prev_coins @ confirmed) cand"
    "create_spend (dm_btc E) (dm_ms E) (dm_ops E) (dm_cs E) (dm_descriptor E) (db_get_tx db) []
       (rbf_destinations db is_cancel derivs) cands (Fees_Rbf feerate replaced) change_addr locktime = Ok (res, g)"
    "psbt = res_psbt res" "ws = res_warnings res"
    "after_spend E (rbf_destinations db is_cancel derivs) change_addr res db = Ok (Spend_Success psbt ws, db')"
proof -
  obtain prev_tx prev_coins feerate replaced where
    c: "rbf_checks E txid is_cancel feerate_vb db = Ok (prev_tx, prev_coins, feerate, replaced)"
    using assms(1) by (auto simp: rbf_psbt_def split: sum.splits)
  obtain derivs where d: "prev_derivs_of E db prev_tx = Some derivs"
    using assms(1) by (auto simp: rbf_psbt_def c prev_derivs_of_def split: option.splits)
  obtain change_addr where ca: "(case prev_change_address derivs of
      Some a \<Rightarrow> Some (spend_addr db a) | None \<Rightarrow> next_change_addr E db) = Some change_addr"
    using assms(1) d by (auto simp: rbf_psbt_def c prev_derivs_of_def Let_def split: option.splits)
  obtain confirmed locktime where l: "db_coins [St_Confirmed] [] db = Some confirmed" "daemon_locktime E = Some locktime"
    using assms(1) d ca by (auto simp: rbf_psbt_def c prev_derivs_of_def Let_def split: option.splits)
  define attempt where "attempt = (\<lambda>cands. create_spend (dm_btc E) (dm_ms E) (dm_ops E) (dm_cs E)
     (dm_descriptor E) (db_get_tx db) [] (rbf_destinations db is_cancel derivs) cands
     (Fees_Rbf feerate replaced) change_addr locktime)"
  define confirmed_cands where "confirmed_cands = map (\<lambda>c. coin_to_candidate c False None None)
     (filter (\<lambda>c. coin_at_outpoint prev_coins (coin_outpoint c) = None) confirmed)"
  define cands0 where "cands0 = map (\<lambda>c. coin_to_candidate c (\<not> is_cancel) None None) prev_coins @
     (if \<not> is_cancel then confirmed_cands else [])"
  have "map_option (\<lambda>r. rbind r (\<lambda>outcome. case outcome of
       Inl missing \<Rightarrow> Ok (Spend_Insufficient missing, db)
     | Inr (res, _) \<Rightarrow> after_spend E (rbf_destinations db is_cancel derivs) change_addr res db))
      (rbf_loop attempt is_cancel confirmed_cands cands0) = Some (Ok (Spend_Success psbt ws, db'))"
    using assms(1) c d ca l unfolding rbf_psbt_def prev_derivs_of_def attempt_def confirmed_cands_def cands0_def Let_def
    by simp
  note loop = this
  obtain z where z: "rbf_loop attempt is_cancel confirmed_cands cands0 = Some z" using loop by auto
  obtain outcome where ok: "z = Ok outcome" using loop z by (cases z) simp_all
  obtain p where p: "outcome = Inr p" using loop z ok by (cases outcome) simp_all
  obtain res g where pair: "p = (res, g)" by (cases p)
  have r: "rbf_loop attempt is_cancel confirmed_cands cands0 = Some (Ok (Inr (res, g)))"
    using z ok p pair by simp
  have a: "after_spend E (rbf_destinations db is_cancel derivs) change_addr res db = Ok (Spend_Success psbt ws, db')"
    using loop z ok p pair by simp
  obtain i where "i \<in> set (tx_input prev_tx)"
    using assms(2) rbf_checks_Ok(2) [OF c] by (cases "tx_input prev_tx") auto
  then have "prev_coins \<noteq> []" using rbf_checks_Ok(4) [OF c] by auto
  then have "cands0 \<noteq> []" by (simp add: cands0_def)
  from rbf_loop_result [OF r this] obtain cands where at: "attempt cands = Ok (res, g)"
    and cs: "cands = cands0 \<or> cands = map (\<lambda>c. c\<lparr>cc_must_select := True\<rparr>) cands0 @ confirmed_cands" by blast
  have "\<forall>cand \<in> set cands. candidate_of (prev_coins @ confirmed) cand"
    using cs by (auto simp: cands0_def confirmed_cands_def candidate_of_coin)
  moreover have "case prev_change_address derivs of Some a \<Rightarrow> change_addr = spend_addr db a
      | None \<Rightarrow> next_change_addr E db = Some change_addr"
    using ca by (auto split: option.splits)
  ultimately show thesis
    using that c d l at a after_spend_Ok(1) [OF a] unfolding attempt_def by blast
qed

lemma create_recovery_Ok:
  assumes "create_recovery E a coins_outpoints feerate_vb timelock db = Ok (r, db')"
  obtains t coins cands locktime res g where
    "1 \<le> feerate_vb" "addr_valid_for (dm_btc E) a (dm_network E)"
    "case timelock of Some t' \<Rightarrow> t = t' | None \<Rightarrow> first_timelock_value (dm_ms E) (dm_descriptor E) = Some t"
    "if coins_outpoints = [] then db_coins [St_Confirmed] [] db = Some coins
     else db_coins [] coins_outpoints db = Some coins \<and> check_provided coins False coins_outpoints = Ok ()"
    "sweepable (seq_from_height (dm_btc E)) (ct_height (dm_chain_tip E)) t (coins_outpoints \<noteq> []) coins = Ok cands"
    "cands \<noteq> []" "daemon_locktime E = Some locktime"
    "create_spend (dm_btc E) (dm_ms E) (dm_ops E) (dm_cs E) (dm_descriptor E)
       (db_get_tx db) [] [] cands (Fees_Regular feerate_vb) (spend_addr db a) locktime = Ok (res, g)"
    "rr_psbt r = res_psbt res" "rr_to_own_address r \<longleftrightarrow> soa_info (spend_addr db a) \<noteq> None"
    "if res_has_change res then maybe_increase_last_deriv_index E (soa_info (spend_addr db a)) db = Some db' else db' = db"
  using assms
  by (auto simp: create_recovery_def result_simps validate_address_def Let_def
      split: if_splits option.splits prod.splits intro: that)

end
