(* ===== verification/Examples.thy ===== *)
theory Examples
  imports Address_Commands Update_Commands "HOL-Library.Code_Target_Numeral"
begin

text \<open>
  A concrete wallet on which the properties are instantiated: a two-of-two primary path with a
  single-key recovery path after ten blocks, a compiler that keeps the policy as its own
  descriptor, scripts that are numbers, a selector that takes coins in order until the
  target is met, a database with three coins, and the daemon that serves it.
\<close>

section \<open>The descriptor\<close>

definition example_key :: "nat \<Rightarrow> desc_pk" where
  "example_key n = MultiXPub \<lparr>mx_origin = Some (n, [48]),
     mx_xkey = \<lparr>xp_public_key = n, xp_chain_code = 0, xp_depth = 1, xp_parent_fingerprint = n,
       xp_child_number = 48, xp_network = 0\<rparr>,
     mx_derivation_paths = [[0], [1]], mx_wildcard = Wildcard_Unhardened\<rparr>"

fun lift_conc :: "conc_policy \<Rightarrow> sem_policy" where
  "lift_conc (Conc_Key k) = Sem_Key k"
| "lift_conc (Conc_Older t) = Sem_Older t"
| "lift_conc (Conc_And ps) = Sem_Thresh (length ps) (map lift_conc ps)"
| "lift_conc (Conc_Or ps) = Sem_Thresh 1 (map (\<lambda>p. lift_conc (snd p)) ps)"
| "lift_conc (Conc_Thresh k ps) = Sem_Thresh k (map lift_conc ps)"

definition example_ms :: "(conc_policy \<times> nat, conc_policy) miniscript" where
  "example_ms = \<lparr>threshold_error = (\<lambda>k n. if 0 < k \<and> k \<le> n then None else Some 0),
     compile_tr = (\<lambda>p _. Inr p), compile_segwitv0 = (\<lambda>p. Inr (p, 2)), segwitv0_sane = (\<lambda>_. True),
     lift_ms = (\<lambda>p. Inr (lift_conc (fst p))), lift_tap_tree = (\<lambda>p. Some (Inr (lift_conc p))),
     tap_tree_keys = (\<lambda>_. [example_key 1]), internal_key = (\<lambda>_. example_key 1), normalized = (\<lambda>p. p),
     sha256 = (\<lambda>_. 0), bip341_nums_point = 0, regtest_network = 0\<rparr>"

definition example_primary :: path_info where
  "example_primary = Path_Multi 2 [example_key 1, example_key 2]"

definition example_recovery :: "(nat, path_info) btree" where
  "example_recovery = [(10, Path_Single (example_key 3))]"

definition example_policy :: liana_policy where
  "example_policy = \<lparr>primary_path = example_primary, recovery_paths = example_recovery, is_taproot_policy = False\<rparr>"

definition example_conc :: conc_policy where
  "example_conc = Conc_Or [(99, Conc_Thresh 2 [Conc_Key (example_key 1), Conc_Key (example_key 2)]),
     (1, Conc_And [Conc_Key (example_key 3), Conc_Older 10])]"

definition example_descriptor :: "(conc_policy \<times> nat, conc_policy) liana_descriptor" where
  "example_descriptor = \<lparr>multi_desc = Wsh_Ms (example_conc, 2), receive_desc = Wsh_Ms (example_conc, 0),
     change_desc = Wsh_Ms (example_conc, 1)\<rparr>"

text \<open>The keychain of a single-path descriptor; its scripts are the even or the odd numbers.\<close>

definition example_keychain :: "(conc_policy \<times> nat, conc_policy) descriptor \<Rightarrow> nat" where
  "example_keychain d = (case d of Wsh_Ms (_, k) \<Rightarrow> k | _ \<Rightarrow> 0)"

definition example_script :: "(conc_policy \<times> nat, conc_policy) derived \<Rightarrow> nat" where
  "example_script der = 2 * snd der + example_keychain (fst der)"

definition example_ops :: "(conc_policy \<times> nat, conc_policy) desc_ops" where
  "example_ops = \<lparr>into_single_descriptors = (\<lambda>d. case d of
       Wsh_Ms (p, _) \<Rightarrow> [Wsh_Ms (p, 0), Wsh_Ms (p, 1)] | _ \<Rightarrow> []),
     desc_keys = (\<lambda>_. map example_key [1, 2, 3]), master_fingerprint = key_fg,
     script_pubkey = example_script, address_of = (\<lambda>_. example_script),
     derived_pks = (\<lambda>der. map (\<lambda>n. (n, (n, [48, example_keychain (fst der), snd der]))) [1, 2, 3]),
     explicit_script = (\<lambda>der. Some (example_script der, 105)),
     update_psbt_in_tr = (\<lambda>_ pin. pin), update_psbt_out_tr = (\<lambda>_ out. out),
     max_weight_to_satisfy = (\<lambda>_. 300), plan = (\<lambda>_ _. Some (219, [])), varint_size = (\<lambda>_. 1)\<rparr>"

section \<open>Coin selection\<close>

text \<open>The candidates and the indexes selected, in the order they were selected.\<close>

type_synonym example_selector = "candidate list \<times> nat list"

definition selected_value :: "example_selector \<Rightarrow> nat" where
  "selected_value s = sum_list (map (\<lambda>i. cand_value (fst s ! i)) (snd s))"

definition selected_weight :: "example_selector \<Rightarrow> nat" where
  "selected_weight s = sum_list (map (\<lambda>i. cand_weight (fst s ! i)) (snd s))"

definition example_excess :: "target \<Rightarrow> drain \<Rightarrow> example_selector \<Rightarrow> int" where
  "example_excess t dr s = int (selected_value s) - int (tg_value_sum t) - int (dr_value dr) -
     int (tg_rate t * (selected_weight s + tg_weight_sum t + dw_output_weight (dr_weights dr) + 44) div 4) -
     int (case tg_replace t of None \<Rightarrow> 0 | Some fee \<Rightarrow> fee)"

definition example_drain :: "target \<Rightarrow> change_policy \<Rightarrow> example_selector \<Rightarrow> drain" where
  "example_drain t cp s =
     (let dr = \<lparr>dr_weights = cp_drain_weights cp, dr_value = 0\<rparr>;
          v = nat (max (example_excess t dr s) 0)
      in if cp_min_value cp < v then dr\<lparr>dr_value := v\<rparr>
         else \<lparr>dr_weights = \<lparr>dw_output_weight = 0, dw_spend_weight = 0, dw_n_outputs = 0\<rparr>, dr_value = 0\<rparr>)"

definition example_next :: "example_selector \<Rightarrow> bool \<times> example_selector" where
  "example_next s = (case List.find (\<lambda>i. i \<notin> set (snd s)) [0..<length (fst s)] of
     None \<Rightarrow> (False, s) | Some i \<Rightarrow> (True, (fst s, snd s @ [i])))"

definition example_cs :: "example_selector coin_select" where
  "example_cs = \<lparr>cs_new = (\<lambda>cands. (cands, [])), cs_select = (\<lambda>i s. (fst s, snd s @ [i])),
     cs_drain = example_drain, drain_is_none = (\<lambda>dr. dr_value dr = 0), lowest_fee_score = (\<lambda>_ _ _. None),
     cs_run_bnb = (\<lambda>_ _ s. (False, s)), cs_sort_by_value_pwu = (\<lambda>s. s),
     cs_is_target_met = (\<lambda>t dr s. 0 \<le> example_excess t dr s), cs_select_next = example_next,
     cs_excess = example_excess, cs_selected_indices = snd,
     spwu_fee = (\<lambda>rate w. (rate * w + 3) div 4), txin_base_weight = 160\<rparr>"

section \<open>The database\<close>

definition example_outpoint :: "nat \<Rightarrow> nat \<Rightarrow> outpoint" where
  "example_outpoint t n = \<lparr>op_txid = t, op_vout = n\<rparr>"

text \<open>A transaction is identified by its locktime in \<open>example_btc\<close>.\<close>

definition example_tx :: "nat \<Rightarrow> outpoint \<Rightarrow> txout list \<Rightarrow> tx" where
  "example_tx t op outs = \<lparr>tx_version = 2, lock_time = t,
     tx_input = [\<lparr>previous_output = op, sequence = 4294967293, witness = []\<rparr>], tx_output = outs\<rparr>"

definition example_tx_row :: "tx \<Rightarrow> tx_row" where
  "example_tx_row t = \<lparr>rt_txid = lock_time t, rt_tx = t, rt_num_inputs = Some (length (tx_input t)),
     rt_num_outputs = Some (length (tx_output t)), rt_is_coinbase = False\<rparr>"

definition example_spending_tx :: tx where
  "example_spending_tx = example_tx 14 (example_outpoint 13 0)
     [\<lparr>txo_value = 50000, txo_script = 1000\<rparr>, \<lparr>txo_value = 40000, txo_script = 3\<rparr>]"

definition example_coins :: "coin_row list" where
  "example_coins =
    [\<lparr>rc_blockheight = Some 100, rc_blocktime = Some 5000, rc_outpoint = example_outpoint 11 0, rc_amount = 100000,
       rc_derivation_index = 0, rc_is_change = False, rc_spend_txid = None, rc_spend_block_height = None,
       rc_spend_block_time = None, rc_is_immature = False, rc_is_from_self = False\<rparr>,
     \<lparr>rc_blockheight = Some 101, rc_blocktime = Some 5600, rc_outpoint = example_outpoint 13 0, rc_amount = 95000,
       rc_derivation_index = 1, rc_is_change = False, rc_spend_txid = Some 14, rc_spend_block_height = None,
       rc_spend_block_time = None, rc_is_immature = False, rc_is_from_self = False\<rparr>,
     \<lparr>rc_blockheight = None, rc_blocktime = None, rc_outpoint = example_outpoint 14 1, rc_amount = 40000,
       rc_derivation_index = 1, rc_is_change = True, rc_spend_txid = None, rc_spend_block_height = None,
       rc_spend_block_time = None, rc_is_immature = False, rc_is_from_self = True\<rparr>]"

definition example_addresses :: "nat \<Rightarrow> addr_row list" where
  "example_addresses n = map (\<lambda>i. \<lparr>ra_receive_address = 2 * i, ra_change_address = 2 * i + 1,
     ra_derivation_index = i\<rparr>) [0..<n]"

definition example_db :: "(conc_policy \<times> nat, conc_policy) database" where
  "example_db = \<lparr>db_version_row = 8, db_network = 0, tip_blockheight = Some 120, tip_blockhash = Some 7,
     wallet_descriptor = example_descriptor,
     wallet_table = \<lparr>w_timestamp = 4000, w_deposit_index = 3, w_change_index = 2,
       w_rescan_timestamp = None, w_last_poll_timestamp = None\<rparr>,
     coins_table = example_coins, addresses_table = example_addresses 203,
     transactions_table = map example_tx_row
       [example_tx 11 (example_outpoint 1 0) [\<lparr>txo_value = 100000, txo_script = 0\<rparr>],
        example_tx 13 (example_outpoint 2 0) [\<lparr>txo_value = 95000, txo_script = 2\<rparr>],
        example_spending_tx],
     spends_table = [], labels_table = []\<rparr>"

section \<open>The daemon\<close>

definition example_daemon :: "(conc_policy \<times> nat, conc_policy, example_selector) daemon" where
  "example_daemon = \<lparr>dm_btc = example_btc, dm_ms = example_ms, dm_ops = example_ops, dm_cs = example_cs,
     dm_descriptor = example_descriptor, dm_network = 0, dm_now_secs = 90100, dm_now_nanos = 5,
     dm_chain_tip = \<lparr>ct_height = 120, ct_hash = 7\<rparr>, dm_tip_time = Some 90000,
     dm_mempool_entry = (\<lambda>_. None),
     dm_mempool_spenders = (\<lambda>_. [\<lparr>me_vsize = 500, me_ancestor_vsize = 500, me_base_fee = 5000,
       me_ancestor_fee = 5000, me_descendant_fee = 5000\<rparr>]),
     dm_genesis_timestamp = 1000, dm_is_rescanning = False, dm_start_rescan = (\<lambda>_. Inr ()),
     dm_finalize = (\<lambda>p. Inr (unsigned_tx p)), dm_broadcast = (\<lambda>_. Inr ())\<rparr>"


section \<open>Its fields, and the evaluation of its commands\<close>

lemma example_ms_fields [simp]:
  "threshold_error example_ms = (\<lambda>k n. if 0 < k \<and> k \<le> n then None else Some 0)"
  "compile_tr example_ms = (\<lambda>p _. Inr p)"
  "compile_segwitv0 example_ms = (\<lambda>p. Inr (p, 2))"
  "segwitv0_sane example_ms = (\<lambda>_. True)"
  "lift_ms example_ms = (\<lambda>p. Inr (lift_conc (fst p)))"
  "lift_tap_tree example_ms = (\<lambda>p. Some (Inr (lift_conc p)))"
  "tap_tree_keys example_ms = (\<lambda>_. [example_key 1])"
  "internal_key example_ms = (\<lambda>_. example_key 1)"
  "normalized example_ms = (\<lambda>p. p)"
  "sha256 example_ms = (\<lambda>_. 0)"
  "bip341_nums_point example_ms = 0"
  "regtest_network example_ms = 0"
  by (simp_all add: example_ms_def)

lemma example_ops_fields [simp]:
  "into_single_descriptors example_ops = (\<lambda>d. case d of Wsh_Ms (p, _) \<Rightarrow> [Wsh_Ms (p, 0), Wsh_Ms (p, 1)] | _ \<Rightarrow> [])"
  "desc_keys example_ops = (\<lambda>_. map example_key [1, 2, 3])"
  "master_fingerprint example_ops = key_fg"
  "script_pubkey example_ops = example_script"
  "address_of example_ops = (\<lambda>_. example_script)"
  "derived_pks example_ops = (\<lambda>der. map (\<lambda>n. (n, (n, [48, example_keychain (fst der), snd der]))) [1, 2, 3])"
  "explicit_script example_ops = (\<lambda>der. Some (example_script der, 105))"
  "update_psbt_in_tr example_ops = (\<lambda>_ pin. pin)"
  "update_psbt_out_tr example_ops = (\<lambda>_ out. out)"
  "max_weight_to_satisfy example_ops = (\<lambda>_. 300)"
  "plan example_ops = (\<lambda>_ _. Some (219, []))"
  "varint_size example_ops = (\<lambda>_. 1)"
  by (simp_all add: example_ops_def)

lemma example_cs_fields [simp]:
  "cs_new example_cs = (\<lambda>cands. (cands, []))"
  "cs_select example_cs = (\<lambda>i s. (fst s, snd s @ [i]))"
  "cs_drain example_cs = example_drain"
  "drain_is_none example_cs = (\<lambda>dr. dr_value dr = 0)"
  "lowest_fee_score example_cs = (\<lambda>_ _ _. None)"
  "cs_run_bnb example_cs = (\<lambda>_ _ s. (False, s))"
  "cs_sort_by_value_pwu example_cs = (\<lambda>s. s)"
  "cs_is_target_met example_cs = (\<lambda>t dr s. 0 \<le> example_excess t dr s)"
  "cs_select_next example_cs = example_next"
  "cs_excess example_cs = example_excess"
  "cs_selected_indices example_cs = snd"
  "spwu_fee example_cs = (\<lambda>rate w. (rate * w + 3) div 4)"
  "txin_base_weight example_cs = 160"
  by (simp_all add: example_cs_def)

lemma example_daemon_fields [simp]:
  "dm_btc example_daemon = example_btc"
  "dm_ms example_daemon = example_ms"
  "dm_ops example_daemon = example_ops"
  "dm_cs example_daemon = example_cs"
  "dm_descriptor example_daemon = example_descriptor"
  "dm_network example_daemon = 0"
  "dm_now_secs example_daemon = 90100"
  "dm_now_nanos example_daemon = 5"
  "dm_chain_tip example_daemon = \<lparr>ct_height = 120, ct_hash = 7\<rparr>"
  "dm_tip_time example_daemon = Some 90000"
  "dm_mempool_entry example_daemon = (\<lambda>_. None)"
  "dm_mempool_spenders example_daemon = (\<lambda>_. [\<lparr>me_vsize = 500, me_ancestor_vsize = 500, me_base_fee = 5000, me_ancestor_fee = 5000, me_descendant_fee = 5000\<rparr>])"
  "dm_genesis_timestamp example_daemon = 1000"
  "dm_is_rescanning example_daemon = False"
  "dm_start_rescan example_daemon = (\<lambda>_. Inr ())"
  "dm_finalize example_daemon = (\<lambda>p. Inr (unsigned_tx p))"
  "dm_broadcast example_daemon = (\<lambda>_. Inr ())"
  by (simp_all add: example_daemon_def)

lemma example_btc_fields [simp]:
  "is_height_locked example_btc = (\<lambda>s. s < 4194304)"
  "is_relative_lock_time example_btc = (\<lambda>s. s < 2147483648)"
  "seq_from_height example_btc = (\<lambda>h. h)"
  "enable_rbf_no_locktime example_btc = 4294967293"
  "max_money example_btc = 2100000000000000"
  "minimal_non_dust example_btc = (\<lambda>_. 330)"
  "txout_weight example_btc = (\<lambda>_. 172)"
  "tx_weight example_btc = (\<lambda>t. 40 + 164 * length (tx_input t) + 172 * length (tx_output t))"
  "compute_txid example_btc = (\<lambda>t. lock_time t)"
  "tx_is_coinbase example_btc = (\<lambda>_. False)"
  "is_explicitly_rbf example_btc = (\<lambda>t. list_ex (\<lambda>i. sequence i < 4294967294) (tx_input t))"
  "addr_script example_btc = (\<lambda>a. a)"
  "addr_from_script example_btc = Some"
  "addr_valid_for example_btc = (\<lambda>_ _. True)"
  by (simp_all add: example_btc_def)

lemma example_descriptor_fields [simp]:
  "multi_desc example_descriptor = Wsh_Ms (example_conc, 2)"
  "receive_desc example_descriptor = Wsh_Ms (example_conc, 0)"
  "change_desc example_descriptor = Wsh_Ms (example_conc, 1)"
  by (simp_all add: example_descriptor_def)


lemma example_db_fields [simp]:
  "db_version_row example_db = 8" "db_network example_db = 0" "tip_blockheight example_db = Some 120"
  "tip_blockhash example_db = Some 7" "wallet_descriptor example_db = example_descriptor"
  "wallet_table example_db = \<lparr>w_timestamp = 4000, w_deposit_index = 3, w_change_index = 2,
     w_rescan_timestamp = None, w_last_poll_timestamp = None\<rparr>"
  "coins_table example_db = example_coins" "spends_table example_db = []" "labels_table example_db = []"
  "transactions_table example_db = map example_tx_row
     [example_tx 11 (example_outpoint 1 0) [\<lparr>txo_value = 100000, txo_script = 0\<rparr>],
      example_tx 13 (example_outpoint 2 0) [\<lparr>txo_value = 95000, txo_script = 2\<rparr>], example_spending_tx]"
  by (simp_all add: example_db_def)

lemma example_policy_of: "desc_policy example_ms example_descriptor = Some example_policy"
  by code_simp

lemma example_parsed: "from_parsed example_ms example_ops (Inr (Wsh_Ms (example_conc, 2))) = Ok example_descriptor"
  by code_simp

lemma example_serves: "serves example_daemon example_db"
  by (simp add: serves_def example_daemon_def example_db_def)

lemma example_addresses_injective: "addresses_injective example_ops example_db"
  by (auto simp: addresses_injective_def example_ops_def example_script_def example_db_def
      example_descriptor_def example_keychain_def Let_def) presburger+

lemma example_coins_inv: "coins_inv example_db"
  by (simp add: coins_inv_def coins_ok_def row_ok_def example_db_def example_coins_def
      example_tx_row_def example_tx_def example_spending_tx_def example_outpoint_def)

lemma example_addresses_inv: "addresses_inv example_ops example_db"
  by (auto simp: addresses_inv_def addresses_cover_def highest_index_def example_db_def example_addresses_def
      LOOK_AHEAD_LIMIT_def addr_row_at_Some is_normal_def example_ops_def example_script_def
      example_descriptor_def example_keychain_def addr_row_at_def derive_def)

lemma example_db_inv: "db_inv example_btc example_ops example_db"
  using example_coins_inv example_addresses_inv
  by (simp add: db_inv_def txs_ok_def spends_ok_def labels_ok_def example_db_def example_btc_def
      example_tx_row_def example_tx_def example_spending_tx_def)

lemma example_index_of: "derivation_index_by_address a example_db =
   (if a < 406 then Some (a div 2, odd a) else None)"
proof (cases "a < 406")
  case True
  have lk: "derivation_index_by_address (2 * i) example_db = Some (i, False)"
    "derivation_index_by_address (2 * i + 1) example_db = Some (i, True)" if "i < 203" for i
    using that derivation_index_lookup [OF example_addresses_inv example_addresses_injective, of i]
    by (simp_all add: highest_index_def LOOK_AHEAD_LIMIT_def is_normal_def example_script_def example_keychain_def)
  show ?thesis
  proof (cases "even a")
    case True
    with \<open>a < 406\<close> lk(1) [of "a div 2"] show ?thesis by auto
  next
    case False
    with \<open>a < 406\<close> lk(2) [of "a div 2"] show ?thesis by (auto simp: odd_two_times_div_two_succ)
  qed
next
  case False
  then have "filter (\<lambda>r. ra_receive_address r = a \<or> ra_change_address r = a) (addresses_table example_db) = []"
    by (auto simp: filter_empty_conv example_db_def example_addresses_def)
  with False show ?thesis by (simp add: derivation_index_by_address_def db_address_def)
qed



lemma eval_congs:
  "r = r' \<Longrightarrow> rbind r f = rbind r' f" "x = x' \<Longrightarrow> Option.bind x g = Option.bind x' g"
  "x = x' \<Longrightarrow> map_option h x = map_option h x'"
  by simp_all

lemmas example_data = example_coins_def example_tx_row_def example_tx_def example_spending_tx_def example_outpoint_def
  example_script_def example_keychain_def

lemmas example_selection = select_coins_for_spend_def sum_values_def wrap64_def checked_add64_def checked_mul64_def
  ancestor_extra_weight_def Let_def select_mandatory_def coin_to_candidate_def enumerate_eq_zip bnb_rounds_def
  DUST_OUTPUT_SATS_def LONG_TERM_FEERATE_VB_def select_until_met.simps [of example_cs]
  example_drain_def example_excess_def selected_value_def selected_weight_def example_next_def selection_result_def

lemmas example_rows = db_coins_def coins_where_def coin_of_row_def block_info_of_def

lemma example_max_sat_weight [simp]:
  "max_sat_weight example_ms example_ops example_descriptor p = Some (if p then 325 else 301)"
  by (simp add: max_sat_weight_def example_policy_of) (simp add: example_policy_def example_primary_def thresh_origins_def
      key_origins_def example_key_def add_origins_def)
end
