(* ===== verification/Example_Runs.thy ===== *)
theory Example_Runs
  imports Examples
begin

text \<open>
  Runs of the daemon of \<open>Examples\<close>, evaluated step by step: the creation of a spend, the
  merge of a signature, a replacement, a recovery and a poll of the backend.
\<close>

section \<open>The creation of a spend\<close>

definition example_candidates :: "candidate_coin list" where
  "example_candidates =
    [\<lparr>cc_outpoint = example_outpoint 11 0, cc_amount = 100000, cc_deriv_index = 0, cc_is_change = False,
       cc_must_select = False, cc_sequence = None, cc_ancestor_info = None\<rparr>,
     \<lparr>cc_outpoint = example_outpoint 14 1, cc_amount = 40000, cc_deriv_index = 1, cc_is_change = True,
       cc_must_select = False, cc_sequence = None, cc_ancestor_info = None\<rparr>]"

lemma example_spend_candidates: "spend_candidates example_daemon [] example_db = Ok example_candidates"
  by (simp add: spend_candidates_def auto_candidates_def coin_to_candidate_def mempool_ancestor_info_def
     example_rows example_data example_candidates_def)

lemma example_locktime: "daemon_locktime example_daemon = Some 120"
  by (simp add: daemon_locktime_def anti_fee_sniping_locktime_def MAX_ANTI_FEE_SNIPING_TIP_AGE_SECS_def)


lemma example_next_change: "next_change_addr example_daemon example_db =
    Some \<lparr>soa_addr = 7, soa_info = Some \<lparr>adi_index = 3, adi_is_change = True\<rparr>\<rparr>"
  by (simp add: next_change_addr_def derive_address_def derive_def is_normal_def cn_increment_def change_index_def
    desc_of_keychain_def example_data from_normal_idx_def)

lemma example_selected:
  "select_coins_for_spend example_btc example_cs example_candidates
     \<lparr>tx_version = 2, lock_time = 120, tx_input = [], tx_output = [\<lparr>txo_value = 30000, txo_script = 1000\<rparr>]\<rparr>
     \<lparr>txo_value = U64_MAX, txo_script = 7\<rparr> 2 None 325 False =
   Ok \<lparr>csr_selected = [hd example_candidates], csr_change_amount = 69564, csr_max_change_amount = 69564, csr_fee_for_ancestors = 0\<rparr>"
  by (simp add: example_selection example_candidates_def example_outpoint_def cong: eval_congs)


definition example_spend_in :: psbt_in where
  "example_spend_in = default_psbt_in\<lparr>bip32_derivation := [(1, 1, [48, 0, 0]), (2, 2, [48, 0, 0]), (3, 3, [48, 0, 0])],
     witness_script := Some 0, witness_utxo := Some \<lparr>txo_value = 100000, txo_script = 0\<rparr>,
     non_witness_utxo := Some (example_tx 11 (example_outpoint 1 0) [\<lparr>txo_value = 100000, txo_script = 0\<rparr>])\<rparr>"

definition example_change_out :: psbt_out where
  "example_change_out = default_psbt_out\<lparr>out_bip32_derivation := [(1, 1, [48, 1, 3]), (2, 2, [48, 1, 3]), (3, 3, [48, 1, 3])]\<rparr>"

text \<open>The draft that pays 30000 satoshis to the script 1000.\<close>

definition example_psbt :: psbt where
  "example_psbt = \<lparr>unsigned_tx = \<lparr>tx_version = 2, lock_time = 120,
       tx_input = [\<lparr>previous_output = example_outpoint 11 0, sequence = 4294967293, witness = []\<rparr>],
       tx_output = [\<lparr>txo_value = 30000, txo_script = 1000\<rparr>, \<lparr>txo_value = 69564, txo_script = 7\<rparr>]\<rparr>,
     psbt_inputs = [example_spend_in], psbt_outputs = [default_psbt_out, example_change_out]\<rparr>"

lemma example_built: "build_inputs example_btc example_ops example_descriptor (db_get_tx example_db) [] [hd example_candidates]
   = Some ([(\<lparr>previous_output = example_outpoint 11 0, sequence = 4294967293, witness = []\<rparr>, example_spend_in)],
      [(11, Some (example_tx 11 (example_outpoint 1 0) [\<lparr>txo_value = 100000, txo_script = 0\<rparr>]))])"
  by (simp add: example_candidates_def example_data example_spend_in_def desc_of_keychain_def default_psbt_in_def
   derive_def is_normal_def bip32_derivations_def candidate_derived_desc_def update_psbt_in_def
   is_taproot_def db_get_tx_def list_wallet_transactions_def tx_blocks_def List.map_filter_def block_info_of_def Let_def bt_extend_def)

lemma example_change: "spend_change_output example_btc example_ops example_descriptor
    \<lparr>soa_addr = 7, soa_info = Some \<lparr>adi_index = 3, adi_is_change = True\<rparr>\<rparr> 69564 =
   Ok [(\<lparr>txo_value = 69564, txo_script = 7\<rparr>, example_change_out)]"
  by (simp add: spend_change_output_def destination_output_def psbt_out_for_def check_output_value_def DUST_OUTPUT_SATS_def
     derive_def is_normal_def desc_of_keychain_def update_change_psbt_out_def bip32_derivations_def example_change_out_def
     default_psbt_out_def example_data bt_extend_def)

lemma example_sane: "sanity_check_psbt example_btc example_ms example_ops example_descriptor example_psbt True = Ok ()"
  by (simp add: sanity_check_psbt_def example_psbt_def example_spend_in_def sum_values_def wrap64_def Let_def
     MAX_FEE_def MIN_FEERATE_VB_def MAX_FEERATE_VB_def unsigned_tx_max_vbytes_def unsigned_tx_max_weight_def
     checked_mul64_def checked_add64_def checked_div_def checked_sub_def default_psbt_in_def)

lemma example_created:
  "create_spend example_btc example_ms example_ops example_cs example_descriptor (db_get_tx example_db) []
     [(\<lparr>soa_addr = 1000, soa_info = None\<rparr>, 30000)] example_candidates (Fees_Regular 2) 
     \<lparr>soa_addr = 7, soa_info = Some \<lparr>adi_index = 3, adi_is_change = True\<rparr>\<rparr> 120 =
   Ok (\<lparr>res_psbt = example_psbt, res_has_change = True, res_warnings = []\<rparr>,
     [(11, Some (example_tx 11 (example_outpoint 1 0) [\<lparr>txo_value = 100000, txo_script = 0\<rparr>]))])"
proof -
  have "use_primary_path example_btc example_candidates" by (simp add: use_primary_path_def example_candidates_def)
  then show ?thesis
    using example_sane
    by (simp add: create_spend_def MIN_FEERATE_VB_def destination_output_def psbt_out_for_def check_output_value_def Let_def
     example_selected example_built example_change DUST_OUTPUT_SATS_def example_psbt_def spend_warnings_def del: build_inputs.simps)
qed

lemma example_spend:
  "cmd_create_spend example_daemon [(1000, 30000)] [] 2 None example_db =
     Ok (Spend_Success example_psbt [], example_db\<lparr>wallet_table := (wallet_table example_db)\<lparr>w_change_index := 3\<rparr>\<rparr>)"
  by (simp add: cmd_create_spend_def example_spend_candidates example_locktime example_next_change example_created 
    validate_address_def spend_addr_def get_addr_info_def example_index_of after_spend_def maybe_increase_last_deriv_index_def
    change_index_def receive_index_def set_change_index_def set_derivation_index_def)
section \<open>A recovery\<close>

text \<open>The only coin confirmed for ten blocks and not spent is swept to the script 1000.\<close>

definition example_sweep :: "candidate_coin list" where
  "example_sweep = [\<lparr>cc_outpoint = example_outpoint 11 0, cc_amount = 100000, cc_deriv_index = 0, cc_is_change = False,
       cc_must_select = True, cc_sequence = Some 10, cc_ancestor_info = None\<rparr>]"

definition example_confirmed :: "coin list" where
  "example_confirmed = [\<lparr>coin_outpoint = example_outpoint 11 0, coin_is_immature = False,
     coin_block_info = Some \<lparr>bi_height = 100, bi_time = 5000\<rparr>, coin_amount = 100000, coin_derivation_index = 0,
     coin_is_change = False, coin_spend_txid = None, coin_spend_block = None, coin_is_from_self = False\<rparr>]"

lemma example_confirmed_coins: "db_coins [St_Confirmed] [] example_db = Some example_confirmed"
  by (simp add: example_rows example_data example_confirmed_def)

lemma example_sweepable: "sweepable (\<lambda>h. h) 120 10 False example_confirmed = Ok example_sweep"
  by (simp add: coin_to_candidate_def example_sweep_def example_confirmed_def)

lemma example_sweep_selected:
  "select_coins_for_spend example_btc example_cs example_sweep
     \<lparr>tx_version = 2, lock_time = 120, tx_input = [], tx_output = []\<rparr>
     \<lparr>txo_value = U64_MAX, txo_script = 1000\<rparr> 2 None 301 True =
   Ok \<lparr>csr_selected = example_sweep, csr_change_amount = 99662, csr_max_change_amount = 99662, csr_fee_for_ancestors = 0\<rparr>"
  by (simp add: example_selection example_sweep_def example_outpoint_def cong: eval_congs)

definition example_recovery_psbt :: psbt where
  "example_recovery_psbt = \<lparr>unsigned_tx = \<lparr>tx_version = 2, lock_time = 120,
       tx_input = [\<lparr>previous_output = example_outpoint 11 0, sequence = 10, witness = []\<rparr>],
       tx_output = [\<lparr>txo_value = 99662, txo_script = 1000\<rparr>]\<rparr>,
     psbt_inputs = [example_spend_in], psbt_outputs = [default_psbt_out]\<rparr>"

lemmas example_building = example_data example_spend_in_def desc_of_keychain_def default_psbt_in_def
  derive_def is_normal_def bip32_derivations_def candidate_derived_desc_def update_psbt_in_def
  is_taproot_def db_get_tx_def list_wallet_transactions_def tx_blocks_def List.map_filter_def block_info_of_def
  bt_extend_def

lemma example_sweep_built: "build_inputs example_btc example_ops example_descriptor (db_get_tx example_db) [] example_sweep
   = Some ([(\<lparr>previous_output = example_outpoint 11 0, sequence = 10, witness = []\<rparr>, example_spend_in)],
      [(11, Some (example_tx 11 (example_outpoint 1 0) [\<lparr>txo_value = 100000, txo_script = 0\<rparr>]))])"
  by (simp add: example_sweep_def example_building Let_def)

lemma example_recovery_sane:
  "sanity_check_psbt example_btc example_ms example_ops example_descriptor example_recovery_psbt False = Ok ()"
  by (simp add: sanity_check_psbt_def example_recovery_psbt_def example_spend_in_def sum_values_def wrap64_def Let_def
     MAX_FEE_def MIN_FEERATE_VB_def MAX_FEERATE_VB_def unsigned_tx_max_vbytes_def unsigned_tx_max_weight_def
     checked_mul64_def checked_add64_def checked_div_def checked_sub_def default_psbt_in_def)

lemma example_swept:
  "create_spend example_btc example_ms example_ops example_cs example_descriptor (db_get_tx example_db) [] []
     example_sweep (Fees_Regular 2) \<lparr>soa_addr = 1000, soa_info = None\<rparr> 120 =
   Ok (\<lparr>res_psbt = example_recovery_psbt, res_has_change = True, res_warnings = []\<rparr>,
     [(11, Some (example_tx 11 (example_outpoint 1 0) [\<lparr>txo_value = 100000, txo_script = 0\<rparr>]))])"
proof -
  have "\<not> use_primary_path example_btc example_sweep" by (simp add: use_primary_path_def example_sweep_def)
  then show ?thesis
    using example_recovery_sane
    by (simp add: create_spend_def MIN_FEERATE_VB_def Let_def example_sweep_selected example_sweep_built
     spend_change_output_def destination_output_def psbt_out_for_def check_output_value_def DUST_OUTPUT_SATS_def
     example_recovery_psbt_def spend_warnings_def del: build_inputs.simps)
qed

lemma example_recovered: "create_recovery example_daemon 1000 [] 2 None example_db =
    Ok (\<lparr>rr_psbt = example_recovery_psbt, rr_to_own_address = False\<rparr>, example_db)"
proof -
  have "first_timelock_value example_ms example_descriptor = Some 10"
    by (simp add: first_timelock_value_def example_policy_of) (simp add: example_policy_def example_recovery_def)
  moreover have "example_sweep \<noteq> []" by (simp add: example_sweep_def)
  ultimately show ?thesis
    by (simp add: create_recovery_def validate_address_def spend_addr_def get_addr_info_def example_index_of
      example_locktime Let_def example_confirmed_coins example_sweepable example_swept maybe_increase_last_deriv_index_def)
qed

section \<open>A replacement\<close>

definition example_replaced :: "coin list" where
  "example_replaced = [\<lparr>coin_outpoint = example_outpoint 13 0, coin_is_immature = False,
     coin_block_info = Some \<lparr>bi_height = 101, bi_time = 5600\<rparr>, coin_amount = 95000, coin_derivation_index = 1,
     coin_is_change = False, coin_spend_txid = Some 14, coin_spend_block = None, coin_is_from_self = False\<rparr>]"

lemma example_spending_coins: "db_coins [St_Spending] [] example_db = Some example_replaced"
  "coins_by_outpoints [example_outpoint 13 0] example_db = Some example_replaced"
  by (simp_all add: coins_by_outpoints_def example_rows example_data example_replaced_def)

lemma example_fetched: "db_get_tx example_db 14 [] = (Some example_spending_tx, [(14, Some example_spending_tx)])"
  "db_get_tx example_db 13 [] = (Some (example_tx 13 (example_outpoint 2 0) [\<lparr>txo_value = 95000, txo_script = 2\<rparr>]),
    [(13, Some (example_tx 13 (example_outpoint 2 0) [\<lparr>txo_value = 95000, txo_script = 2\<rparr>]))])"
  by (simp_all add: example_building Let_def)

lemma example_rbf_checks: "rbf_checks example_daemon 14 False (Some 20) example_db =
    Ok (example_spending_tx, example_replaced, 20, 5000)"
proof -
  have "tx_input example_spending_tx = [\<lparr>previous_output = example_outpoint 13 0, sequence = 4294967293, witness = []\<rparr>]"
    by (simp add: example_spending_tx_def example_tx_def)
  moreover have "rbf_prev_tx example_db 14 = Ok example_spending_tx"
    by (simp add: rbf_prev_tx_def spend_tx_def example_spending_coins example_fetched) (simp add: example_replaced_def)
  ultimately show ?thesis
    by (simp add: rbf_checks_def Let_def example_spending_coins)
      (simp add: coin_at_outpoint_def example_replaced_def checked_div_def checked_add64_def)
qed


definition example_rbf_candidates :: "candidate_coin list" where
  "example_rbf_candidates =
    [\<lparr>cc_outpoint = example_outpoint 13 0, cc_amount = 95000, cc_deriv_index = 1, cc_is_change = False,
       cc_must_select = True, cc_sequence = None, cc_ancestor_info = None\<rparr>,
     \<lparr>cc_outpoint = example_outpoint 11 0, cc_amount = 100000, cc_deriv_index = 0, cc_is_change = False,
       cc_must_select = False, cc_sequence = None, cc_ancestor_info = None\<rparr>]"

lemma example_rbf_selected:
  "select_coins_for_spend example_btc example_cs example_rbf_candidates
     \<lparr>tx_version = 2, lock_time = 120, tx_input = [], tx_output = [\<lparr>txo_value = 50000, txo_script = 1000\<rparr>]\<rparr>
     \<lparr>txo_value = U64_MAX, txo_script = 3\<rparr> 20 (Some 5000) 325 False =
   Ok \<lparr>csr_selected = [hd example_rbf_candidates], csr_change_amount = 35635, csr_max_change_amount = 35635,
     csr_fee_for_ancestors = 0\<rparr>"
  by (simp add: example_selection example_rbf_candidates_def example_outpoint_def cong: eval_congs)

definition example_rbf_in :: psbt_in where
  "example_rbf_in = default_psbt_in\<lparr>bip32_derivation := [(1, 1, [48, 0, 1]), (2, 2, [48, 0, 1]), (3, 3, [48, 0, 1])],
     witness_script := Some 2, witness_utxo := Some \<lparr>txo_value = 95000, txo_script = 2\<rparr>,
     non_witness_utxo := Some (example_tx 13 (example_outpoint 2 0) [\<lparr>txo_value = 95000, txo_script = 2\<rparr>])\<rparr>"

definition example_rbf_change :: psbt_out where
  "example_rbf_change = default_psbt_out\<lparr>out_bip32_derivation := [(1, 1, [48, 1, 1]), (2, 2, [48, 1, 1]), (3, 3, [48, 1, 1])]\<rparr>"

definition example_rbf_psbt :: psbt where
  "example_rbf_psbt = \<lparr>unsigned_tx = \<lparr>tx_version = 2, lock_time = 120,
       tx_input = [\<lparr>previous_output = example_outpoint 13 0, sequence = 4294967293, witness = []\<rparr>],
       tx_output = [\<lparr>txo_value = 50000, txo_script = 1000\<rparr>, \<lparr>txo_value = 35635, txo_script = 3\<rparr>]\<rparr>,
     psbt_inputs = [example_rbf_in], psbt_outputs = [default_psbt_out, example_rbf_change]\<rparr>"

lemma example_rbf_built: "build_inputs example_btc example_ops example_descriptor (db_get_tx example_db) []
     [hd example_rbf_candidates]
   = Some ([(\<lparr>previous_output = example_outpoint 13 0, sequence = 4294967293, witness = []\<rparr>, example_rbf_in)],
      [(13, Some (example_tx 13 (example_outpoint 2 0) [\<lparr>txo_value = 95000, txo_script = 2\<rparr>]))])"
  by (simp add: example_rbf_candidates_def example_building example_rbf_in_def Let_def)

lemma example_rbf_sane: "sanity_check_psbt example_btc example_ms example_ops example_descriptor example_rbf_psbt True = Ok ()"
  by (simp add: sanity_check_psbt_def example_rbf_psbt_def example_rbf_in_def sum_values_def wrap64_def Let_def
     MAX_FEE_def MIN_FEERATE_VB_def MAX_FEERATE_VB_def unsigned_tx_max_vbytes_def unsigned_tx_max_weight_def
     checked_mul64_def checked_add64_def checked_div_def checked_sub_def default_psbt_in_def)

lemma example_rbf_change: "spend_change_output example_btc example_ops example_descriptor
    \<lparr>soa_addr = 3, soa_info = Some \<lparr>adi_index = Suc 0, adi_is_change = True\<rparr>\<rparr> 35635 =
   Ok [(\<lparr>txo_value = 35635, txo_script = 3\<rparr>, example_rbf_change)]"
  by (simp add: spend_change_output_def destination_output_def psbt_out_for_def check_output_value_def DUST_OUTPUT_SATS_def
     derive_def is_normal_def desc_of_keychain_def update_change_psbt_out_def bip32_derivations_def example_rbf_change_def
     default_psbt_out_def example_data bt_extend_def)

lemma example_rbf_created:
  "create_spend example_btc example_ms example_ops example_cs example_descriptor (db_get_tx example_db) []
     [(\<lparr>soa_addr = 1000, soa_info = None\<rparr>, 50000)] example_rbf_candidates (Fees_Rbf 20 5000)
     \<lparr>soa_addr = 3, soa_info = Some \<lparr>adi_index = Suc 0, adi_is_change = True\<rparr>\<rparr> 120 =
   Ok (\<lparr>res_psbt = example_rbf_psbt, res_has_change = True, res_warnings = []\<rparr>,
     [(13, Some (example_tx 13 (example_outpoint 2 0) [\<lparr>txo_value = 95000, txo_script = 2\<rparr>]))])"
proof -
  have "use_primary_path example_btc example_rbf_candidates" by (simp add: use_primary_path_def example_rbf_candidates_def)
  then show ?thesis
    using example_rbf_sane
    by (simp add: create_spend_def MIN_FEERATE_VB_def destination_output_def psbt_out_for_def check_output_value_def Let_def
     example_rbf_selected example_rbf_built example_rbf_change DUST_OUTPUT_SATS_def example_rbf_psbt_def spend_warnings_def
     del: build_inputs.simps)
qed

lemma example_replacement: "rbf_psbt example_daemon 14 False (Some 20) example_db =
    Some (Ok (Spend_Success example_rbf_psbt [], example_db))"
proof -
  have outs: "tx_output example_spending_tx = [\<lparr>txo_value = 50000, txo_script = 1000\<rparr>, \<lparr>txo_value = 40000, txo_script = 3\<rparr>]"
    by (simp add: example_spending_tx_def example_tx_def)
  have cands: "map (\<lambda>c. coin_to_candidate c True None None) example_replaced @
      map (\<lambda>c. coin_to_candidate c False None None)
        (filter (\<lambda>c. coin_at_outpoint example_replaced (coin_outpoint c) = None) example_confirmed) = example_rbf_candidates"
    by (simp add: example_replaced_def example_confirmed_def example_rbf_candidates_def coin_to_candidate_def
      coin_at_outpoint_def example_outpoint_def)
  show ?thesis
    by (simp add: rbf_psbt_def example_rbf_checks outs example_index_of prev_change_address_def better_change_def
      rbf_destinations_def List.map_filter_def spend_addr_def get_addr_info_def Let_def example_confirmed_coins example_locktime
      cands rbf_loop.simps example_rbf_created after_spend_def maybe_increase_last_deriv_index_def change_index_def receive_index_def)
qed

section \<open>A signature\<close>

definition example_drafts :: "(conc_policy \<times> nat, conc_policy) database" where
  "example_drafts = store_spend example_btc 80000 example_psbt example_db"

definition example_signed :: psbt where
  "example_signed = example_psbt\<lparr>psbt_inputs := [example_spend_in\<lparr>partial_sigs := [((1, True), 77)]\<rparr>]\<rparr>"

lemma example_update: "update_spend example_daemon example_signed example_drafts =
    Ok (store_spend example_btc 90100 example_signed example_drafts)"
  by (simp add: update_spend_def example_drafts_def store_spend_def spend_tx_def example_signed_def Let_def merge_psbt_def
    merge_at_def merge_input_def bt_extend_def) (simp add: example_psbt_def example_spend_in_def merge_at_def merge_input_def
     bt_extend_def default_psbt_in_def)

section \<open>A poll\<close>

text \<open>
  The backend is one block ahead and tells of a new coin, confirmed in that block, on a
  receive address already revealed.
\<close>

definition example_view :: update_view where
  "example_view = \<lparr>uv_sync_wallet = (\<lambda>_ _. Sync_Ok None),
     uv_chain = [\<lparr>cv_tip = \<lparr>ct_height = 121, ct_hash = 8\<rparr>, cv_is_in_chain = (\<lambda>_. True), cv_common_ancestor = (\<lambda>_. None)\<rparr>],
     uv_received_coins = (\<lambda>_. [\<lparr>ux_outpoint = example_outpoint 15 0, ux_amount = 70000, ux_block_height = Some 121,
       ux_address = Utxo_Address 4, ux_is_immature = False\<rparr>]),
     uv_confirmed_coins = (\<lambda>ops. (map (\<lambda>op. (op, 121, 89000)) (filter (\<lambda>op. op_txid op = 15) ops), [])),
     uv_spending_coins = (\<lambda>_. []), uv_spent_coins = (\<lambda>_. ([], [])),
     uv_chain_tip = \<lparr>ct_height = 121, ct_hash = 8\<rparr>,
     uv_wallet_transaction = (\<lambda>t. Some (example_tx t (example_outpoint 3 0) [\<lparr>txo_value = 70000, txo_script = 4\<rparr>]))\<rparr>"

definition example_poll :: poll_view where
  "example_poll = \<lparr>pv_updates = [example_view], pv_is_rescanning = False, pv_block_before_date = (\<lambda>_. None),
     pv_rescan_updates = [], pv_now = 90100\<rparr>"

definition example_updated :: updated_coins where
  "example_updated = \<lparr>up_received = [\<lparr>coin_outpoint = example_outpoint 15 0, coin_is_immature = False,
       coin_block_info = None, coin_amount = 70000, coin_derivation_index = 2, coin_is_change = False,
       coin_spend_txid = None, coin_spend_block = None, coin_is_from_self = False\<rparr>],
     up_confirmed = [(example_outpoint 15 0, 121, 89000)], up_expired = [], up_spending = [],
     up_expired_spending = [], up_spent = []\<rparr>"

lemma example_update_coins:
  "update_coins example_btc example_ops example_view \<lparr>ct_height = 120, ct_hash = 7\<rparr> example_db = Some (example_updated, example_db)"
  by (simp add: update_coins_def example_rows example_data list_spending_coins_def example_view_def utxo_index_def
    example_index_of bump_index_def receive_index_def change_index_def coin_of_utxo_def example_updated_def Let_def)

definition example_new_row :: coin_row where
  "example_new_row = \<lparr>rc_blockheight = Some 121, rc_blocktime = Some 89000, rc_outpoint = example_outpoint 15 0, rc_amount = 70000,
       rc_derivation_index = 2, rc_is_change = False, rc_spend_txid = None, rc_spend_block_height = None,
       rc_spend_block_time = None, rc_is_immature = False, rc_is_from_self = False\<rparr>"

definition example_polled :: "(conc_policy \<times> nat, conc_policy) database" where
  "example_polled = example_db\<lparr>tip_blockheight := Some 121, tip_blockhash := Some 8,
     coins_table := example_coins @ [example_new_row],
     transactions_table := transactions_table example_db @
       [example_tx_row (example_tx 15 (example_outpoint 3 0) [\<lparr>txo_value = 70000, txo_script = 4\<rparr>])]\<rparr>"

lemma example_recorded:
  "record_updates example_btc example_view example_updated \<lparr>ct_height = 120, ct_hash = 7\<rparr>
     \<lparr>ct_height = 121, ct_hash = 8\<rparr> example_db = Some example_polled"
proof -
  have txs: "add_txs_to_db example_btc example_view example_updated example_db =
      Some (example_db\<lparr>transactions_table := transactions_table example_polled\<rparr>)" (is "_ = Some ?db1")
    by (simp add: add_txs_to_db_def example_updated_def list_saved_txids_def example_view_def Let_def has_tx_def
      example_polled_def example_data)
  have "new_unspent_coins (up_received example_updated) ?db1 =
      Some (?db1\<lparr>coins_table := example_coins @ [row_of_coin (hd (up_received example_updated))]\<rparr>)" (is "_ = Some ?db2")
    by (simp add: example_updated_def has_tx_def example_polled_def example_data)
  moreover have "confirm_coins (up_confirmed example_updated) ?db2 = ?db1\<lparr>coins_table := coins_table example_polled\<rparr>"
    by (simp add: example_updated_def confirm_coins_def update_coin_def confirm_row_def row_of_coin_def example_polled_def
      example_new_row_def example_data)
  moreover have "update_coins_from_self 120 (?db1\<lparr>coins_table := coins_table example_polled\<rparr>) =
      Some (?db1\<lparr>coins_table := coins_table example_polled\<rparr>)"
    by (simp add: update_coins_from_self_def from_self_max_iterations_def from_self_round_def becomes_self_def
      tx_from_self_def spent_by_def unconfirmed_or_above_def above_def counts_as_self_def example_polled_def
      example_new_row_def example_data)
  ultimately show ?thesis
    by (simp add: record_updates_def txs) (simp add: example_updated_def remove_coins_def unspend_coins_def
      update_tip_def example_polled_def)
qed

lemma example_updates: "updates example_btc example_ops [example_view] example_db = Ok example_polled"
proof -
  have "uv_sync_wallet example_view r c = Sync_Ok None" "uv_chain_tip example_view = \<lparr>ct_height = 121, ct_hash = 8\<rparr>"
    "new_tip (uv_chain example_view) \<lparr>ct_height = 120, ct_hash = 7\<rparr> = Some (Tip_Progress \<lparr>ct_height = 121, ct_hash = 8\<rparr>)" for r c
    by (simp_all add: example_view_def)
  then show ?thesis
    by (simp add: chain_tip_def Let_def example_update_coins example_recorded)
qed

lemma example_poll_run: "poll example_btc example_ops example_poll example_db = Ok (set_last_poll 90100 example_polled)"
proof -
  have "pv_updates example_poll = [example_view]" "pv_now example_poll = 90100" "\<not> pv_is_rescanning example_poll"
    by (simp_all add: example_poll_def)
  moreover have "w_rescan_timestamp (wallet_table example_polled) = None" by (simp add: example_polled_def)
  ultimately show ?thesis
    by (simp add: poll_def example_updates rescan_check_def Let_def del: updates.simps)
qed

end
