(* ===== verification/Policy_Properties.thy ===== *)
theory Policy_Properties
  imports Example_Runs
begin

text \<open>
  The properties of wallet policies and descriptors: which policies are accepted and inferred,
  what is counted of the signatures of a transaction, which paths are available, and what
  the pruning of a transaction and the search for its change outputs give.
\<close>

section \<open>Policies\<close>

text \<open>C33: A policy is accepted exactly when it has recovery paths, none of them with a zero timelock,
  its keys are valid and all distinct, no path has two keys of one signer, and, when asked, it compiles;
  the policy returned is the one given.\<close>

theorem policy_new_accepts:
  "policy_new M prim recs tap compile = Ok p \<longleftrightarrow>
     p = \<lparr>primary_path = prim, recovery_paths = recs, is_taproot_policy = tap\<rparr> \<and> policy_wf p \<and>
     (compile \<longrightarrow> (\<exists>d. compile_multipath_descriptor_fallible M p = Ok d))"
  by (rule policy_new_Ok)

lemma example_policy_wf: "policy_wf example_policy"
  using desc_policy_wf(1) [OF example_policy_of] .

lemma example_compiles: "compile_multipath_descriptor_fallible example_ms example_policy = Ok (Wsh_Ms (example_conc, 2))"
  by (simp add: compile_multipath_descriptor_fallible_def example_policy_def into_policy_def into_ms_policy_def
      example_primary_def example_recovery_def example_conc_def)

theorem policy_new_accepts_witness:
  "policy_new example_ms example_primary example_recovery False True = Ok example_policy"
  by (subst policy_new_accepts) (use example_policy_wf example_compiles in \<open>simp add: example_policy_def\<close>)



text \<open>C35: The inference inverts the normal form of a policy, wherever the timelock of a recovery path stands
  and in whatever order the recovery paths appear.\<close>

theorem inference_inverts_normal_form:
  assumes "policy_wf p" "bt_ok (recovery_paths p)" "canonical_path (primary_path p)"
    "\<forall>(t, path) \<in> set (recovery_paths p). canonical_path path \<and> t \<le> U16_MAX"
    "set rs = set (recovery_paths p)" "distinct (map fst rs)"
    "list_all2 (\<lambda>r s. s \<in> set (recovery_forms r)) rs subs"
  shows "policy_of_sem M (is_taproot_policy p) (Sem_Thresh 1 (primary_subs (primary_path p) @ subs)) = Ok p"
  using assms by (rule policy_of_normal_form)

theorem inference_inverts_normal_form_witness:
  "policy_of_sem example_ms False (lift_conc example_conc) = Ok example_policy"
  using inference_inverts_normal_form [of example_policy "recovery_paths example_policy"
      "[Sem_Thresh 2 [Sem_Key (example_key 3), Sem_Older 10]]" example_ms] example_policy_wf
  by (simp add: example_policy_def example_recovery_def example_primary_def example_conc_def canonical_path_def
      primary_subs_def recovery_forms_def bt_ok_def numeral_2_eq_2)

section \<open>Signatures of a transaction\<close>

text \<open>The information on a path counts exactly the signatures made by its keys at a derivation
  of one of their paths, in total and for each signer, against the threshold of the path.\<close>

theorem spend_info_counts:
  assumes "spend_info path sigs = Some si"
  shows "threshold si = path_threshold path \<and> sigs_count si = length (filter (key_of_path path) sigs) \<and>
    map_of (signed_pubkeys si) fg =
      (let n = length (filter (\<lambda>s. key_of_path path s \<and> fst s = fg) sigs) in if n = 0 then None else Some n)"
  using spend_info_spec [OF assms] by blast

theorem spend_info_counts_witness:
  "\<exists>si. spend_info example_primary [(2, [48, 0, 5]), (7, [48, 0, 5]), (1, [9])] = Some si \<and>
     threshold si = 2 \<and> sigs_count si = 1 \<and> map_of (signed_pubkeys si) 2 = Some 1"
proof -
  let ?sigs = "[(2, [48, 0, 5]), (7, [48, 0, 5]), (1, [9])] :: key_origin list"
  obtain si where si: "spend_info example_primary ?sigs = Some si"
    by (simp add: spend_info_def example_primary_def thresh_origins_def key_origins_def example_key_def
        add_origins_def count_sig_def)
  have "key_of_path example_primary (2, [48, 0, 5])" "\<not> key_of_path example_primary (7, [48, 0, 5])"
    "\<not> key_of_path example_primary (1, [9])" "path_threshold example_primary = 2"
    by (auto simp: key_of_path_def example_primary_def key_origins_def example_key_def)
  then show ?thesis
    using spend_info_counts [OF si, of 2] si by simp
qed

lemma example_info: "partial_spend_info example_btc example_ms example_descriptor example_signed =
    Ok \<lparr>psi_primary_path = \<lparr>threshold = 2, sigs_count = 1, signed_pubkeys = [(1, 1)]\<rparr>, psi_recovery_paths = []\<rparr>"
  by (simp add: partial_spend_info_def example_signed_def example_psbt_def partial_spend_info_txin_def example_policy_of
      pubkeys_signed_def is_taproot_def example_spend_in_def default_psbt_in_def List.map_filter_def Let_def timelock_available_def)
    (simp add: example_policy_def example_primary_def example_recovery_def spend_info_def thresh_origins_def key_origins_def
      example_key_def add_origins_def count_sig_def)

text \<open>C31: For the descriptor of a wallet, the information on a transaction is given exactly when it has an input and an output, one PSBT part
  for each, the same sequence on every input, and the same information for every input, which is then the one
  returned; otherwise the error is the one of a malformed transaction when its parts do not match or are
  missing, and the one of inconsistent inputs when they are sane. It never panics.\<close>

theorem partial_spend_info_spec:
  assumes "desc_policy M d = Some p"
  shows "(partial_spend_info B M d psbt = Ok info \<longleftrightarrow> psbt_sane psbt \<and>
     (\<forall>(pin, txin) \<in> set (zip (psbt_inputs psbt) (tx_input (unsigned_tx psbt))).
        sequence txin = sequence (hd (tx_input (unsigned_tx psbt))) \<and>
        partial_spend_info_txin B M d pin txin = Some info)) \<and>
    (partial_spend_info B M d psbt = Err e \<longrightarrow> e = (if psbt_sane psbt then InconsistentPsbt else InsanePsbt))"
  using partial_spend_info_Ok partial_spend_info_Err [OF assms] by blast

theorem partial_spend_info_spec_witness:
  "psbt_sane example_signed \<and> InsanePsbt = (if psbt_sane (example_psbt\<lparr>psbt_outputs := []\<rparr>) then InconsistentPsbt else InsanePsbt)"
proof -
  have "partial_spend_info example_btc example_ms example_descriptor (example_psbt\<lparr>psbt_outputs := []\<rparr>) = Err InsanePsbt"
    by (simp add: partial_spend_info_def)
  then show ?thesis
    using partial_spend_info_spec [OF example_policy_of] example_info by blast
qed

text \<open>A recovery path is part of the information of an input exactly when the sequence of the input is
  a relative height of at least its timelock; it then counts the signatures of the keys of that path.\<close>

theorem recovery_available_iff:
  assumes "desc_policy M d = Some p" "partial_spend_info_txin B M d psbt_in txin = Some info"
  shows "map_of (psi_recovery_paths info) t =
    (if is_height_locked B (sequence txin) \<and> t \<le> sequence txin
     then Option.bind (map_of (recovery_paths p) t) (\<lambda>path. spend_info path (pubkeys_signed (is_taproot d) psbt_in))
     else None)"
  using partial_spend_info_txin_recovery [OF assms, of t] by (simp add: timelock_available_def)

theorem recovery_available_iff_witness:
  "map_of [(10, \<lparr>threshold = 1, sigs_count = 0, signed_pubkeys = []\<rparr>)] 10 =
     Option.bind (map_of (recovery_paths example_policy) 10)
       (\<lambda>path. spend_info path (pubkeys_signed (is_taproot example_descriptor) example_spend_in))"
proof -
  have "partial_spend_info_txin example_btc example_ms example_descriptor example_spend_in
      \<lparr>previous_output = example_outpoint 11 0, sequence = 10, witness = []\<rparr> =
    Some \<lparr>psi_primary_path = \<lparr>threshold = 2, sigs_count = 0, signed_pubkeys = []\<rparr>,
      psi_recovery_paths = [(10, \<lparr>threshold = 1, sigs_count = 0, signed_pubkeys = []\<rparr>)]\<rparr>"
    by (simp add: partial_spend_info_txin_def example_policy_of pubkeys_signed_def is_taproot_def example_spend_in_def
        default_psbt_in_def List.map_filter_def Let_def timelock_available_def)
      (simp add: example_policy_def example_primary_def example_recovery_def spend_info_def thresh_origins_def key_origins_def
        example_key_def add_origins_def)
  from recovery_available_iff [OF example_policy_of this, of 10] show ?thesis by simp
qed

text \<open>The timelocks of the recovery paths that have their signatures.\<close>

definition signed_timelocks :: "partial_info \<Rightarrow> nat set" where
  "signed_timelocks sigs = {t. \<exists>path. map_of (psi_recovery_paths sigs) t = Some path \<and> path_signed path}"

text \<open>The status of a draft: broadcastable once the primary path has its signatures; otherwise decided by the
  signed recovery path of the least timelock, which makes it broadcastable if every coin has that many
  confirmations in the next block and timelocked if not; unsigned when no path has its signatures.\<close>

theorem status_from_signatures:
  assumes "bt_ok (psi_recovery_paths sigs)" "signed = signed_timelocks sigs"
  shows "from_signatures sigs heights tip = Some
    (if path_signed (psi_primary_path sigs) then Broadcastable
     else if signed = {} then Unsigned
     else if timelock_matured (Min signed) heights tip then Broadcastable else Timelocked)"
proof (cases "List.find (\<lambda>(_, path). path_signed path) (psi_recovery_paths sigs)")
  case None
  then have "signed = {}"
    using assms(2) by (auto simp: find_None_iff signed_timelocks_def dest: map_of_SomeD)
  with None show ?thesis by (simp add: from_signatures_cases)
next
  case (Some r)
  obtain t path where r: "r = (t, path)" by (cases r)
  have "map_of (psi_recovery_paths sigs) t = Some path" "path_signed path"
    "\<forall>k' v'. map_of (psi_recovery_paths sigs) k' = Some v' \<longrightarrow> path_signed v' \<longrightarrow> t \<le> k'"
    using find_first_bt [OF assms(1) Some [unfolded r]] by blast+
  then have "t \<in> signed" "\<forall>t' \<in> signed. t \<le> t'" using assms(2) by (auto simp: signed_timelocks_def)
  moreover have "finite signed"
    using assms(2) finite_subset [of signed "fst ` set (psi_recovery_paths sigs)"]
    by (force simp: signed_timelocks_def dest: map_of_SomeD)
  ultimately have "Min signed = t" "signed \<noteq> {}" by (auto intro: Min_eqI)
  with Some r show ?thesis by (simp add: from_signatures_cases)
qed

theorem status_from_signatures_witness:
  "from_signatures \<lparr>psi_primary_path = \<lparr>threshold = 2, sigs_count = 1, signed_pubkeys = []\<rparr>,
     psi_recovery_paths = [(10, \<lparr>threshold = 1, sigs_count = 1, signed_pubkeys = []\<rparr>)]\<rparr> [Some 112] 120 = Some Timelocked"
proof -
  let ?sigs = "\<lparr>psi_primary_path = \<lparr>threshold = 2, sigs_count = 1, signed_pubkeys = []\<rparr>,
     psi_recovery_paths = [(10, \<lparr>threshold = 1, sigs_count = 1, signed_pubkeys = []\<rparr>)]\<rparr> :: partial_info"
  have "signed_timelocks ?sigs = {10}" by (auto simp: signed_timelocks_def path_signed_def)
  then show ?thesis
    using status_from_signatures [of ?sigs "{10}" "[Some 112]" 120]
    by (simp add: bt_ok_def timelock_matured_def path_signed_def)
qed

section \<open>Pruning, change outputs and weights\<close>

text \<open>The derivations that pruning leaves: the ones of the keys of the path.\<close>

definition only_path_derivations :: "path_info \<Rightarrow> psbt_in \<Rightarrow> bool" where
  "only_path_derivations path pin \<longleftrightarrow>
     (\<forall>(_, origin) \<in> set (bip32_derivation pin). key_of_path path origin) \<and>
     (\<forall>(_, _, origin) \<in> set (tap_key_origins pin). key_of_path path origin)"

lemma prune_input_only:
  assumes "thresh_origins path = Some (k, os)"
  shows "only_path_derivations path (prune_input os pin)"
  using key_is_for_path_iff [OF assms]
  by (auto simp: only_path_derivations_def prune_input_def bt_retain_def)

text \<open>C32: Pruning a transaction to its last available path gives, for the recovery path of the greatest timelock
  available and for the primary path when there is none, the same transaction with only the derivations
  of the keys of that path, and it keeps what every input tells of the signatures of that path.\<close>

theorem prune_keeps_path_signatures:
  assumes "desc_policy M d = Some p" "partial_spend_info B M d psbt = Ok info"
    "\<forall>pin \<in> set (psbt_inputs psbt). psbt_in_ok pin"
  shows "\<exists>path psbt'. last_avail_path p info path \<and> prune_bip32_derivs_last_avail B M d psbt = Ok psbt' \<and>
    unsigned_tx psbt' = unsigned_tx psbt \<and> psbt_outputs psbt' = psbt_outputs psbt \<and>
    list_all2 (\<lambda>pin pin'. only_path_derivations path pin' \<and>
        spend_info path (pubkeys_signed tap pin') = spend_info path (pubkeys_signed tap pin))
      (psbt_inputs psbt) (psbt_inputs psbt')"
proof -
  obtain path k os where p: "last_avail_path p info path" "thresh_origins path = Some (k, os)"
    "prune_bip32_derivs_last_avail B M d psbt = Ok (psbt\<lparr>psbt_inputs := map (prune_input os) (psbt_inputs psbt)\<rparr>)"
    using prune_last_avail_Ok [OF assms(1,2)] by blast
  have "list_all2 (\<lambda>pin pin'. only_path_derivations path pin' \<and>
        spend_info path (pubkeys_signed tap pin') = spend_info path (pubkeys_signed tap pin))
      (psbt_inputs psbt) (map (prune_input os) (psbt_inputs psbt))"
    using assms(3) prune_input_only [OF p(2)] spend_info_prune [OF p(2)]
    by (auto simp: list_all2_conv_all_nth)
  with p show ?thesis by (intro exI [of _ path] exI [of _ "psbt\<lparr>psbt_inputs := map (prune_input os) (psbt_inputs psbt)\<rparr>"]) simp
qed

theorem prune_keeps_path_signatures_witness:
  "\<exists>path psbt'. last_avail_path example_policy
      \<lparr>psi_primary_path = \<lparr>threshold = 2, sigs_count = 1, signed_pubkeys = [(1, 1)]\<rparr>, psi_recovery_paths = []\<rparr> path \<and>
    prune_bip32_derivs_last_avail example_btc example_ms example_descriptor example_signed = Ok psbt' \<and>
    unsigned_tx psbt' = unsigned_tx example_signed \<and> psbt_outputs psbt' = psbt_outputs example_signed \<and>
    list_all2 (\<lambda>pin pin'. only_path_derivations path pin' \<and>
        spend_info path (pubkeys_signed False pin') = spend_info path (pubkeys_signed False pin))
      (psbt_inputs example_signed) (psbt_inputs psbt')"
  by (rule prune_keeps_path_signatures [OF example_policy_of example_info])
    (simp add: example_signed_def psbt_in_ok_def example_spend_in_def default_psbt_in_def bt_ok_def)

text \<open>The change outputs found are exactly the outputs whose last derivation index gives, on one of the
  keychains of the wallet, the script of the output; each is given with its position and its keychain.\<close>

theorem change_indexes_exact:
  assumes "change_indexes D d psbt = Some is"
  shows "set is = {c. \<exists>i < length (psbt_outputs psbt).
    out_kind D d (tx_output (unsigned_tx psbt)) (i, psbt_outputs psbt ! i) = Some c}"
proof
  show "set is \<subseteq> {c. \<exists>i < length (psbt_outputs psbt).
      out_kind D d (tx_output (unsigned_tx psbt)) (i, psbt_outputs psbt ! i) = Some c}"
    using change_indexes_Some [OF assms] by blast
  show "{c. \<exists>i < length (psbt_outputs psbt).
      out_kind D d (tx_output (unsigned_tx psbt)) (i, psbt_outputs psbt ! i) = Some c} \<subseteq> set is"
    using change_indexes_all [OF assms] by blast
qed

theorem change_indexes_exact_witness:
  "set [ChangeAddress 1] = {c. \<exists>i < length (psbt_outputs example_psbt).
    out_kind example_ops example_descriptor (tx_output (unsigned_tx example_psbt)) (i, psbt_outputs example_psbt ! i) = Some c}"
  by (rule change_indexes_exact)
    (simp add: change_indexes_def example_psbt_def out_der_index_def default_psbt_out_def example_change_out_def
      derive_def is_normal_def example_script_def example_keychain_def)

text \<open>The size of a transaction once satisfied, in virtual bytes, is the least number of them that holds
  the weight of the transaction, of a satisfaction of each input and, when its inputs have no witness
  yet, of the segwit marker; no value is given when that overflows 64 bits.\<close>

theorem unsigned_tx_max_vbytes_spec:
  "unsigned_tx_max_vbytes B M D d t prim = Some vb \<longleftrightarrow>
    (\<exists>s w. max_sat_weight M D d prim = Some s \<and>
       w = tx_weight B t + s * length (tx_input t) +
         (if tx_input t \<noteq> [] \<and> (\<forall>i \<in> set (tx_input t). witness i = []) then 2 else 0) \<and>
       w + 3 \<le> U64_MAX \<and> w \<le> 4 * vb \<and> 4 * vb < w + 4)"
  unfolding unsigned_tx_max_vbytes_ceil unsigned_tx_max_weight_Some by auto

theorem unsigned_tx_max_vbytes_spec_witness:
  "unsigned_tx_max_vbytes example_btc example_ms example_ops example_descriptor (unsigned_tx example_psbt) True = Some 219"
  by (subst unsigned_tx_max_vbytes_spec) (simp add: example_psbt_def)

end
