(* ===== verification/Spending_Properties.thy ===== *)
theory Spending_Properties
  imports Example_Runs
begin

text \<open>
  The properties of the creation of a spend: the checks of the transaction created, what it
  spends and pays and the fee it leaves, the end of the coin selection, the weight given to
  unconfirmed ancestors, and the locktime against fee sniping.
\<close>

text \<open>C36: The check of a transaction passes exactly when its parts match, every input has its derivations and the
  output it spends, no output is dust, and the fee (the values being added as 64-bit words) is not
  negative, at most one bitcoin, and between 1 and 1000 satoshis for each virtual byte.\<close>

theorem sanity_check_psbt_iff:
  "sanity_check_psbt B M D d psbt prim = Ok u \<longleftrightarrow>
    length (psbt_inputs psbt) = length (tx_input (unsigned_tx psbt)) \<and>
    length (psbt_outputs psbt) = length (tx_output (unsigned_tx psbt)) \<and> tx_output (unsigned_tx psbt) \<noteq> [] \<and>
    (\<forall>pin \<in> set (psbt_inputs psbt). (bip32_derivation pin \<noteq> [] \<or> tap_key_origins pin \<noteq> []) \<and> witness_utxo pin \<noteq> None) \<and>
    (\<forall>txo \<in> set (tx_output (unsigned_tx psbt)). minimal_non_dust B (txo_script txo) \<le> txo_value txo) \<and>
    (\<exists>fee vb. wrap64 (sum_list (map utxo_value (psbt_inputs psbt))) =
          wrap64 (sum_list (map txo_value (tx_output (unsigned_tx psbt)))) + fee \<and> fee \<le> MAX_FEE \<and>
        unsigned_tx_max_vbytes B M D d (unsigned_tx psbt) prim = Some vb \<and> 0 < vb \<and>
        MIN_FEERATE_VB \<le> fee div vb \<and> fee div vb \<le> MAX_FEERATE_VB)"
  by (rule sanity_check_psbt_Ok)

theorem sanity_check_psbt_iff_witness:
  "\<exists>fee vb. wrap64 (sum_list (map utxo_value (psbt_inputs example_psbt))) =
      wrap64 (sum_list (map txo_value (tx_output (unsigned_tx example_psbt)))) + fee \<and> fee \<le> MAX_FEE \<and>
    unsigned_tx_max_vbytes example_btc example_ms example_ops example_descriptor (unsigned_tx example_psbt) True = Some vb \<and>
    0 < vb \<and> MIN_FEERATE_VB \<le> fee div vb \<and> fee div vb \<le> MAX_FEERATE_VB"
  using example_sane unfolding sanity_check_psbt_iff by blast

text \<open>A spend created successfully spends coins among the candidates, whose outpoints are distinct, each with the sequence asked
  for it, pays every destination its amount in order and then the change when there is some, all
  between the dust limit of 500 satoshis and the supply, has the locktime given, and passed the check of the transaction.\<close>

theorem create_spend_sound:
  assumes "create_spend B M D C d get_tx g destinations cands fees change_addr locktime = Ok (res, g')"
  shows "\<exists>sel change. set sel \<subseteq> set cands \<and> distinct (map cc_outpoint cands) \<and>
    tx_input (unsigned_tx (res_psbt res)) = map (spends B) sel \<and>
    map utxo_value (psbt_inputs (res_psbt res)) = map cc_amount sel \<and>
    tx_output (unsigned_tx (res_psbt res)) = map (pays B) (destinations @ change_payment change_addr change) \<and>
    (res_has_change res \<longleftrightarrow> 0 < change) \<and>
    (\<forall>(_, amount) \<in> set (destinations @ change_payment change_addr change). DUST_OUTPUT_SATS \<le> amount \<and> amount \<le> max_money B) \<and>
    lock_time (unsigned_tx (res_psbt res)) = locktime \<and>
    sanity_check_psbt B M D d (res_psbt res) (use_primary_path B cands) = Ok ()"
  by (rule create_spend_Ok [OF assms], intro exI conjI) assumption+

theorem create_spend_sound_witness:
  "\<exists>sel. set sel \<subseteq> set example_candidates \<and> tx_input (unsigned_tx example_psbt) = map (spends example_btc) sel"
  using create_spend_sound [OF example_created] by auto

text \<open>C2: When its inputs and its outputs each sum to less than \<open>2^64\<close>, a spend created successfully spends exactly its outputs and
  a fee of at most one bitcoin, with at least one and less than 1001 satoshis for each virtual byte of the signed transaction.\<close>

theorem create_spend_fee:
  assumes "create_spend B M D C d get_tx g destinations cands fees change_addr locktime = Ok (res, g')"
    "sum_list (map utxo_value (psbt_inputs (res_psbt res))) \<le> U64_MAX"
    "sum_list (map txo_value (tx_output (unsigned_tx (res_psbt res)))) \<le> U64_MAX"
  shows "\<exists>fee vb. sum_list (map utxo_value (psbt_inputs (res_psbt res))) =
      sum_list (map txo_value (tx_output (unsigned_tx (res_psbt res)))) + fee \<and> fee \<le> MAX_FEE \<and>
    unsigned_tx_max_vbytes B M D d (unsigned_tx (res_psbt res)) (use_primary_path B cands) = Some vb \<and>
    vb \<le> fee \<and> fee < 1001 * vb"
proof -
  have w: "wrap64 n = n" if "n \<le> U64_MAX" for n using that by (simp add: wrap64_def)
  have "sanity_check_psbt B M D d (res_psbt res) (use_primary_path B cands) = Ok ()"
    by (rule create_spend_Ok [OF assms(1)])
  then obtain fee vb where f: "wrap64 (sum_list (map utxo_value (psbt_inputs (res_psbt res)))) =
          wrap64 (sum_list (map txo_value (tx_output (unsigned_tx (res_psbt res))))) + fee" "fee \<le> MAX_FEE"
        "unsigned_tx_max_vbytes B M D d (unsigned_tx (res_psbt res)) (use_primary_path B cands) = Some vb" "0 < vb"
        "MIN_FEERATE_VB \<le> fee div vb" "fee div vb \<le> MAX_FEERATE_VB"
    unfolding sanity_check_psbt_Ok by blast
  have "vb \<le> fee" "fee < 1001 * vb"
    using feerate_bounds [OF f(4-6)] by (simp_all add: MAX_FEERATE_VB_def)
  then show ?thesis
    using f(1-3) w [OF assms(2)] w [OF assms(3)] by (intro exI [of _ fee] exI [of _ vb]) simp
qed

theorem create_spend_fee_witness:
  "\<exists>fee vb. sum_list (map utxo_value (psbt_inputs example_psbt)) =
      sum_list (map txo_value (tx_output (unsigned_tx example_psbt))) + fee \<and> fee \<le> MAX_FEE \<and>
    unsigned_tx_max_vbytes example_btc example_ms example_ops example_descriptor (unsigned_tx example_psbt)
      (use_primary_path example_btc example_candidates) = Some vb \<and> vb \<le> fee \<and> fee < 1001 * vb"
  using create_spend_fee [OF example_created]
  by (simp add: example_psbt_def utxo_value_def example_spend_in_def)

text \<open>Whatever the target, the fallback selection that adds candidates one by one ends, when each candidate added leaves fewer
  of them to add.\<close>

theorem coin_selection_terminates:
  assumes "selector_progress C remaining"
  shows "\<exists>r. select_until_met C target cp dw must s = Some r"
  using assms by (rule select_until_met_terminates)

definition example_remaining :: "example_selector \<Rightarrow> nat" where
  "example_remaining s = card {i. i < length (fst s) \<and> i \<notin> set (snd s)}"

lemma example_progress: "selector_progress example_cs example_remaining"
  unfolding selector_progress_def
proof (intro allI impI)
  fix s s' assume "cs_select_next example_cs s = (True, s')"
  then obtain i where i: "i < length (fst s)" "i \<notin> set (snd s)" "s' = (fst s, snd s @ [i])"
    by (auto simp: example_next_def find_Some_iff split: option.splits)
  then have "{j. j < length (fst s') \<and> j \<notin> set (snd s')} \<subset> {j. j < length (fst s) \<and> j \<notin> set (snd s)}" by auto
  then show "example_remaining s' < example_remaining s"
    unfolding example_remaining_def by (intro psubset_card_mono) auto
qed

theorem coin_selection_terminates_witness:
  "\<exists>r. select_until_met example_cs \<lparr>tg_rate = 2, tg_replace = None, tg_value_sum = 90000, tg_weight_sum = 172, tg_n_outputs = 1\<rparr>
     \<lparr>cp_drain_weights = \<lparr>dw_output_weight = 172, dw_spend_weight = 485, dw_n_outputs = 1\<rparr>, cp_min_value = 499, cp_feerate = 2, cp_long_term_feerate = 5\<rparr>
     \<lparr>dw_output_weight = 172, dw_spend_weight = 485, dw_n_outputs = 1\<rparr> True ([], []) = Some r"
  using example_progress by (rule coin_selection_terminates)

text \<open>The weight added to an unconfirmed coin raises its feerate with its ancestors to the target: with the
  virtual bytes added paid at the target rate, the ancestors' fee pays that rate for all their
  size, and no more than one virtual byte is added in excess.\<close>

theorem ancestor_weight_covers_package:
  assumes "ancestor_extra_weight rate (Some info) = Some extra"
  shows "0 < rate \<and> extra mod 4 = 0 \<and> ai_vsize info * rate \<le> ai_fee info + (extra div 4) * rate \<and>
    (0 < extra \<longrightarrow> ai_fee info + (extra div 4) * rate < (ai_vsize info + 1) * rate)"
  using ancestor_extra_weight_Some [OF assms] by simp

theorem ancestor_weight_covers_package_witness:
  "(200 :: nat) * 3 \<le> 400 + (268 div 4) * 3 \<and> 400 + (268 div 4) * 3 < (200 + 1) * (3 :: nat)"
proof -
  have "ancestor_extra_weight 3 (Some \<lparr>ai_vsize = 200, ai_fee = 400\<rparr>) = Some 268"
    by (simp add: ancestor_extra_weight_def checked_div_def checked_mul64_def)
  from ancestor_weight_covers_package [OF this] show ?thesis by simp
qed

text \<open>The locktime against fee sniping exists below the limit of heights, is never above the tip and at most 100
  blocks below it unless it is zero, and is only set when the tip is at most eight hours old.\<close>

theorem anti_fee_sniping_in_bounds:
  assumes "tip < LOCK_TIME_THRESHOLD"
  shows "\<exists>h. anti_fee_sniping_locktime secs nanos tip time = Some h \<and> h \<le> tip \<and> (h = 0 \<or> tip \<le> h + 100) \<and>
    (h \<noteq> 0 \<longrightarrow> (\<exists>t. time = Some t \<and> secs \<le> t + 8 * 60 * 60))"
  using anti_fee_sniping_bounds [OF assms] by (simp add: MAX_ANTI_FEE_SNIPING_TIP_AGE_SECS_def)

theorem anti_fee_sniping_in_bounds_witness:
  "\<exists>h. anti_fee_sniping_locktime 90100 991 120 (Some 90000) = Some h \<and> h \<le> 120 \<and> (h = 0 \<or> 120 \<le> h + 100)"
  using anti_fee_sniping_in_bounds [of 120 90100 991 "Some 90000"] by auto

end
