(* ===== verification/Database_Properties.thy ===== *)
theory Database_Properties
  imports Example_Runs
begin

text \<open>
  The properties of the wallet database: its creation, the addresses it knows and its
  derivation indexes, the coins by status, reorganisations, the coins that come from the wallet
  itself, drafts, labels and the transactions of a period.
\<close>

section \<open>Creation and addresses\<close>

text \<open>A new database satisfies the invariant, passes the sanity check of its network and descriptor, has
  no tip, no coins and indexes at zero, and holds the first 200 addresses of both keychains.\<close>

theorem create_fresh_db_ok:
  assumes "create_fresh_db D network d timestamp = Some db"
  shows "db_inv B D db \<and> db_sanity_check network d db = Ok () \<and> chain_tip db = None \<and> coins_table db = [] \<and>
    receive_index db = 0 \<and> change_index db = 0 \<and> length (addresses_table db) = 200"
proof -
  have inv: "db_inv B D db" using assms by (rule create_fresh_db_inv)
  obtain rows where rows: "insert_addresses D d network [0..<LOOK_AHEAD_LIMIT] [] = Some rows"
    using assms by (auto simp: create_fresh_db_def)
  then have "map Some rows = map (addr_row_at D d network) [0..<LOOK_AHEAD_LIMIT]"
    using insert_addresses_Some by fastforce
  then have "length rows = LOOK_AHEAD_LIMIT" by (metis length_map length_upt minus_nat.diff_0)
  with inv assms rows show ?thesis
    by (auto simp: create_fresh_db_def db_sanity_check_def chain_tip_def receive_index_def change_index_def LOOK_AHEAD_LIMIT_def)
qed

lemma example_fresh: "\<exists>db. create_fresh_db example_ops 0 example_descriptor 1000 = Some db"
proof -
  have "insert_addresses example_ops (wallet_descriptor example_db) (db_network example_db) [0..<LOOK_AHEAD_LIMIT] [] \<noteq> None"
    by (rule insert_addresses_succeeds [OF example_addresses_injective])
      (simp_all add: LOOK_AHEAD_LIMIT_def addresses_cover_def)
  then show ?thesis by (auto simp: create_fresh_db_def)
qed

theorem create_fresh_db_ok_witness:
  "\<exists>db. create_fresh_db example_ops 0 example_descriptor 1000 = Some db \<and> db_inv example_btc example_ops db \<and>
    length (addresses_table db) = 200"
  using example_fresh create_fresh_db_ok [where D = example_ops and B = example_btc] by metis

text \<open>Looking up an address of the wallet that is below the look-ahead gives back its index and its keychain.\<close>

theorem address_lookup_roundtrip:
  assumes "addresses_inv D db" "addresses_injective D db"
    "i < highest_index (wallet_table db) + LOOK_AHEAD_LIMIT" "is_normal i"
  shows "derivation_index_by_address (address_of D (db_network db)
      (if is_change then change_desc (wallet_descriptor db) else receive_desc (wallet_descriptor db), i)) db = Some (i, is_change)"
  using derivation_index_lookup [OF assms] by simp

theorem address_lookup_roundtrip_witness:
  "derivation_index_by_address (address_of example_ops 0 (change_desc example_descriptor, 202)) example_db = Some (202, True)"
  using address_lookup_roundtrip [OF example_addresses_inv example_addresses_injective, of 202 True]
  by (simp add: highest_index_def LOOK_AHEAD_LIMIT_def is_normal_def)

text \<open>Setting a derivation index only ever raises it, leaves the other keychain's index and everything but the wallet row
  and the addresses as they were, and keeps the invariant: the addresses known always reach 200
  past the highest index.\<close>

theorem set_derivation_index_spec:
  assumes "db_inv B D db" "set_derivation_index D index is_change db = Some db'"
  shows "db_inv B D db' \<and> length (addresses_table db') = highest_index (wallet_table db') + LOOK_AHEAD_LIMIT \<and>
    wallet_table db' = (if is_change then (wallet_table db)\<lparr>w_change_index := max index (w_change_index (wallet_table db))\<rparr>
      else (wallet_table db)\<lparr>w_deposit_index := max index (w_deposit_index (wallet_table db))\<rparr>) \<and>
    db' = db\<lparr>wallet_table := wallet_table db', addresses_table := addresses_table db'\<rparr>"
proof -
  have inv: "db_inv B D db'" using assms by (rule set_derivation_index_db_inv)
  then have "map Some (addresses_table db') = map (addr_row_at D (wallet_descriptor db') (db_network db'))
      [0..<highest_index (wallet_table db') + LOOK_AHEAD_LIMIT]"
    by (simp add: db_inv_def addresses_inv_def addresses_cover_def)
  then have "length (addresses_table db') = highest_index (wallet_table db') + LOOK_AHEAD_LIMIT"
    by (metis length_map length_upt minus_nat.diff_0)
  with inv show ?thesis
    using set_derivation_index_Some(1,2) [OF assms(2)] by (simp add: wallet_with_index_def)
qed

theorem set_derivation_index_spec_witness:
  "\<exists>db'. set_derivation_index example_ops 7 True example_db = Some db' \<and> db_inv example_btc example_ops db' \<and>
    length (addresses_table db') = highest_index (wallet_table db') + LOOK_AHEAD_LIMIT"
proof -
  have "set_derivation_index example_ops 7 True example_db \<noteq> None"
    by (rule set_derivation_index_succeeds [OF example_addresses_injective example_addresses_inv])
      (simp add: LOOK_AHEAD_LIMIT_def)
  then show ?thesis using set_derivation_index_spec [OF example_db_inv] by blast
qed

section \<open>Coins\<close>

text \<open>A query for coins returns exactly the coins of the table whose status is among the ones asked for and whose outpoint
  is, an empty list being no restriction; the status is spent when the spend is confirmed, spending
  when there is one, then confirmed or unconfirmed as the deposit is.\<close>

theorem db_coins_exact:
  assumes "coins_inv db"
  shows "\<exists>cs. db_coins statuses outpoints db = Some cs \<and>
    (\<forall>c. c \<in> set cs \<longleftrightarrow> (\<exists>r \<in> set (coins_table db). coin_of_row r = Some c \<and>
      (statuses = [] \<or> status_of_row r \<in> set statuses) \<and> (outpoints = [] \<or> rc_outpoint r \<in> set outpoints)))"
proof -
  obtain cs where cs: "db_coins statuses outpoints db = Some cs" using db_coins_Some [OF assms] by blast
  then show ?thesis using db_coins_mem [OF assms cs] by blast
qed

theorem db_coins_exact_witness:
  "\<exists>cs. db_coins [St_Confirmed] [] example_db = Some cs \<and>
    (\<forall>c. c \<in> set cs \<longleftrightarrow> (\<exists>r \<in> set example_coins. coin_of_row r = Some c \<and> status_of_row r = St_Confirmed))"
  using db_coins_exact [OF example_coins_inv, of "[St_Confirmed]" "[]"] by simp

text \<open>C37: Rolling back to a tip keeps the coins and the transactions that spend them, and makes unconfirmed exactly the deposits
  and the spends of higher blocks; the coins left unconfirmed are no longer known to be from the wallet
  itself. It keeps the invariant, sets the tip, and doing it again changes nothing.\<close>

theorem rollback_spec:
  assumes "db_inv B D db" "row_at db op = Some r"
  shows "\<exists>r'. row_at (rollback_tip tip db) op = Some r' \<and> db_inv B D (rollback_tip tip db) \<and>
    chain_tip (rollback_tip tip db) = Some tip \<and> rollback_tip tip (rollback_tip tip db) = rollback_tip tip db \<and>
    rc_spend_txid r' = rc_spend_txid r \<and>
    rc_blockheight r' = (if above (ct_height tip) (rc_blockheight r) then None else rc_blockheight r) \<and>
    rc_spend_block_height r' = (if above (ct_height tip) (rc_blockheight r) \<or> above (ct_height tip) (rc_spend_block_height r)
      then None else rc_spend_block_height r) \<and>
    (rc_is_from_self r' \<longleftrightarrow> rc_is_from_self r \<and> rc_blockheight r' \<noteq> None)"
proof -
  have "row_ok r"
    using assms by (auto simp: row_at_def db_inv_def coins_inv_def coins_ok_def find_Some_iff)
  moreover have "rollback_tip tip (rollback_tip tip db) = rollback_tip tip db"
    by (simp add: rollback_tip_def update_tip_def comp_def rollback_row_idem)
  ultimately show ?thesis
    using assms(2) rollback_tip_db_inv [OF assms(1), of tip]
    by (intro exI [of _ "rollback_row (ct_height tip) r"]) (simp add: row_at_rollback rollback_row_spec)
qed

theorem rollback_spec_witness:
  "\<exists>r'. row_at (rollback_tip \<lparr>ct_height = 100, ct_hash = 6\<rparr> example_db) (example_outpoint 13 0) = Some r' \<and>
     rc_blockheight r' = None \<and> rc_spend_txid r' = Some 14"
proof -
  have "row_at example_db (example_outpoint 13 0) = Some (example_coins ! 1)"
    by (simp add: row_at_def example_data)
  from rollback_spec [OF example_db_inv this, of "\<lparr>ct_height = 100, ct_hash = 6\<rparr>"] show ?thesis
    by (auto simp: example_data above_def)
qed

text \<open>C38: The pass that finds the coins created by the wallet itself ends, and marks the least set of coins that holds
  the ones already marked and every recent coin all of whose inputs are coins of the wallet that are confirmed
  or in the set; nothing else changes.\<close>

theorem update_coins_from_self_least_set:
  assumes "coins_inv db" "spends_within h (transactions_table db) (coins_table db)"
  shows "update_coins_from_self h db =
    Some (db\<lparr>coins_table := flagged (self_coin h (transactions_table db) (coins_table db)) (coins_table db)\<rparr>)"
  using assms by (rule update_coins_from_self_least)

theorem update_coins_from_self_least_set_witness:
  "update_coins_from_self 120 example_db =
    Some (example_db\<lparr>coins_table := flagged (self_coin 120 (transactions_table example_db) example_coins) example_coins\<rparr>)"
  using update_coins_from_self_least_set [OF example_coins_inv, of 120]
  by (simp add: spends_within_def spent_by_def unconfirmed_or_above_def above_def example_data)

section \<open>Drafts, labels and transactions\<close>

text \<open>Storing a draft leaves the other drafts as they were; a new draft is stored with the time, and a draft already stored gets
  the new transaction but keeps the time it was first stored with.\<close>

theorem store_spend_spec:
  assumes "spends_ok B (spends_table db)"
  shows "draft_at (store_spend B now psbt db) t =
    (if t = compute_txid B (unsigned_tx psbt)
     then Some (case draft_at db t of
         None \<Rightarrow> \<lparr>rs_psbt = psbt, rs_txid = t, rs_updated_at = Some now\<rparr>
       | Some r \<Rightarrow> r\<lparr>rs_psbt := psbt\<rparr>)
     else draft_at db t)"
  using assms by (rule draft_at_store)

theorem store_spend_spec_witness:
  "draft_at (store_spend example_btc 90100 example_signed example_drafts) 120 =
     Some \<lparr>rs_psbt = example_signed, rs_txid = 120, rs_updated_at = Some 80000\<rparr>"
proof -
  have "spends_ok example_btc (spends_table example_drafts)"
    using store_spend_db_inv [OF example_db_inv] by (simp add: example_drafts_def db_inv_def)
  moreover have "draft_at example_drafts 120 = Some \<lparr>rs_psbt = example_psbt, rs_txid = 120, rs_updated_at = Some 80000\<rparr>"
    by (simp add: draft_at_def example_drafts_def store_spend_def) (simp add: example_psbt_def)
  ultimately show ?thesis
    using store_spend_spec [of example_btc example_drafts 90100 example_signed 120]
    by (simp add: example_signed_def) (simp add: example_psbt_def)
qed

text \<open>After an update of labels, each item has the label last given for it, none when that was a removal, and the
  label it had when it is not part of the update.\<close>

theorem update_labels_spec:
  assumes "inj item_text"
  shows "label_of (labels_table (update_labels item_text items db)) (item_text item) =
    (case map_of (rev items) item of None \<Rightarrow> label_of (labels_table db) (item_text item) | Some v \<Rightarrow> v)"
  using assms by (rule label_of_update)

definition example_item_text :: "label_item \<Rightarrow> string" where
  "example_item_text item = (case item of Label_Address a \<Rightarrow> CHR ''a'' # replicate a CHR ''1''
     | Label_Txid t \<Rightarrow> CHR ''t'' # replicate t CHR ''1''
     | Label_OutPoint op \<Rightarrow> CHR ''o'' # replicate (op_txid op) CHR ''1'' @ CHR '':'' # replicate (op_vout op) CHR ''1'')"

lemma replicate_sep:
  "c \<noteq> d \<Longrightarrow> replicate m c @ d # replicate n c = replicate m' c @ d # replicate n' c \<longleftrightarrow> m = m' \<and> n = n'"
  by (induction m arbitrary: m') (case_tac m', auto dest: arg_cong [where f = length])+

lemma example_item_text_inj: "inj example_item_text"
proof (rule injI)
  fix x y assume "example_item_text x = example_item_text y"
  then show "x = y"
    by (cases x; cases y) (auto simp: example_item_text_def replicate_sep dest: arg_cong [where f = length])
qed

theorem update_labels_spec_witness:
  "label_of (labels_table (update_labels example_item_text [(Label_Txid 11, Some ''rent''), (Label_Txid 14, None)] example_db))
     (example_item_text (Label_Txid 11)) = Some ''rent''"
  by (subst update_labels_spec [OF example_item_text_inj]) simp

text \<open>The transactions listed for a period are those of at most the number of events asked for, each the confirmation in
  the period of a deposit or of a spend; an event of the period that is left out is no later than any
  event taken, and the limit is then reached.\<close>

theorem list_txids_latest:
  "\<exists>events. list_txids start end limit db = remdups (map fst events) \<and> distinct events \<and>
     (\<forall>e \<in> set events. event_in (coins_table db) e \<and> start \<le> snd e \<and> snd e \<le> end) \<and> length events \<le> limit \<and>
     (\<forall>e. event_in (coins_table db) e \<longrightarrow> start \<le> snd e \<longrightarrow> snd e \<le> end \<longrightarrow> e \<notin> set events \<longrightarrow>
        length events = limit \<and> (\<forall>e' \<in> set events. snd e \<le> snd e'))"
  by (rule list_txids_spec)

theorem list_txids_latest_witness:
  "\<exists>events. list_txids 0 6000 1 example_db = remdups (map fst events) \<and> length events \<le> 1 \<and>
     set events \<subseteq> {e. event_in example_coins e \<and> snd e \<le> 6000}"
proof -
  obtain events where "list_txids 0 6000 1 example_db = remdups (map fst events)" "length events \<le> 1"
    "\<forall>e \<in> set events. event_in example_coins e \<and> 0 \<le> snd e \<and> snd e \<le> 6000"
    using list_txids_latest [of 0 6000 1 example_db] by auto
  then show ?thesis by (intro exI [of _ events]) auto
qed

end
