(* ===== verification/Chain_Properties.thy ===== *)
theory Chain_Properties
  imports Example_Runs
begin

text \<open>
  The properties of following the chain: what the backend reports of our coins, the search of
  the common ancestor, what one update writes, and the states the
  poller reaches.
\<close>

section \<open>The backend\<close>

definition example_node :: "nat node" where
  "example_node = \<lparr>nd_chain_tip = \<lparr>ct_height = 121, ct_hash = 8\<rparr>,
     nd_block_hash = (\<lambda>h. if 0 \<le> h \<and> h \<le> 121 then Some (nat h) else None),
     nd_block_stats = (\<lambda>hash. if hash \<le> 121 then Some \<lparr>bs_confirmations = 122 - int hash,
         bs_previous = (if hash = 0 then None else Some (hash - 1)), bs_hash = hash, bs_height = int hash, bs_time = 600 * hash, bs_median_time = 600 * hash\<rparr>
       else if hash = 500 then Some \<lparr>bs_confirmations = -1, bs_previous = Some 119, bs_hash = 500, bs_height = 120, bs_time = 72000, bs_median_time = 72000\<rparr>
       else None),
     nd_list_since_block = (\<lambda>_. []),
     nd_transaction = (\<lambda>t. if t = 15 then Some \<lparr>gt_conflicting_txs = [], gt_block = Some \<lparr>blk_hash = 8, blk_height = 121, blk_time = 89000\<rparr>,
         gt_tx = example_tx 15 (example_outpoint 3 0) [\<lparr>txo_value = 70000, txo_script = 4\<rparr>], gt_is_coinbase = False, gt_confirmations = 1\<rparr>
       else if t = 14 then Some \<lparr>gt_conflicting_txs = [15], gt_block = None, gt_tx = example_spending_tx,
         gt_is_coinbase = False, gt_confirmations = 0\<rparr> else None),
     nd_in_mempool = (\<lambda>_. False), nd_is_spent = (\<lambda>op. op = example_outpoint 3 0),
     nd_spender_txid = (\<lambda>op. if op = example_outpoint 3 0 then Some 15 else None)\<rparr>"

text \<open>Among the coins asked about, the ones reported confirmed are those whose transaction is in a block, with the height and time
  of that block and not before a coinbase has matured; the ones reported expired are those whose
  transaction is neither in a block nor in the mempool.\<close>

theorem bitcoind_confirmed_spec:
  "((op, h, t) \<in> set (fst (bitcoind_confirmed_coins N ops)) \<longleftrightarrow> op \<in> set ops \<and>
     (\<exists>res block. nd_transaction N (op_txid op) = Some res \<and> gt_block res = Some block \<and>
        blk_height block = h \<and> blk_time block = t \<and>
        (gt_is_coinbase res \<longrightarrow> COINBASE_MATURITY \<le> gt_confirmations res))) \<and>
   (op \<in> set (snd (bitcoind_confirmed_coins N ops)) \<longleftrightarrow> op \<in> set ops \<and>
     (\<exists>res. nd_transaction N (op_txid op) = Some res \<and> gt_block res = None) \<and> \<not> nd_in_mempool N (op_txid op))"
  by (simp add: bitcoind_confirmed_coins_iff)

theorem bitcoind_confirmed_spec_witness:
  "(example_outpoint 15 0, 121, 89000) \<in> set (fst (bitcoind_confirmed_coins example_node [example_outpoint 15 0, example_outpoint 14 1])) \<and>
   example_outpoint 14 1 \<in> set (snd (bitcoind_confirmed_coins example_node [example_outpoint 15 0, example_outpoint 14 1]))"
  by (subst bitcoind_confirmed_spec [THEN conjunct1], subst bitcoind_confirmed_spec [THEN conjunct2])
    (simp add: example_node_def example_outpoint_def)

text \<open>C39: A coin reported spent is spent by a transaction that is in the block given: the transaction known to spend it, or one that
  conflicts with it and has the coin among its inputs; a spend reported expired is in no block, has no confirmed
  conflict on that coin, and has left the mempool.\<close>

theorem bitcoind_spent_spec:
  "((op, txid, h, t) \<in> set (fst (bitcoind_spent_coins N ops)) \<longrightarrow>
     (\<exists>res block. nd_transaction N txid = Some res \<and> gt_block res = Some block \<and> blk_height block = h \<and> blk_time block = t \<and>
       ((op, txid) \<in> set ops \<or> op \<in> fst ` set ops \<and> op \<in> previous_output ` set (tx_input (gt_tx res))))) \<and>
   (op \<in> set (snd (bitcoind_spent_coins N ops)) \<longrightarrow>
     (\<exists>txid res. (op, txid) \<in> set ops \<and> nd_transaction N txid = Some res \<and> gt_block res = None \<and>
       confirmed_conflict N op res = None \<and> \<not> nd_in_mempool N txid))"
  using bitcoind_spent_coins_sound bitcoind_spent_expired by blast

theorem bitcoind_spent_spec_witness:
  "\<exists>res block. nd_transaction example_node 15 = Some res \<and> gt_block res = Some block \<and> blk_height block = 121 \<and> blk_time block = 89000"
proof -
  have "(example_outpoint 3 0, 15, 121, 89000) \<in> set (fst (bitcoind_spent_coins example_node [(example_outpoint 3 0, 14)]))"
    by (simp add: example_node_def confirmed_conflict_def example_tx_def)
  then show ?thesis using bitcoind_spent_spec [of "example_outpoint 3 0" 15 121 89000 example_node] by blast
qed



section \<open>An update of the wallet\<close>

text \<open>C6: One update of the database leaves each coin as the reports say: gone when its deposit expired, else received or kept,
  then confirmed, unspent when its spend expired, spent and its spend confirmed; what the reports say nothing about stays.
  Up to the mark of coins from the wallet itself this determines every row. The tip becomes the one given and
  the invariant is kept.\<close>

theorem record_updates_spec:
  assumes "record_updates B v up current latest db = Some db'" "db_inv B D db" "chain_tip db = Some current"
  shows "db_inv B D db' \<and> chain_tip db' = Some latest \<and> wallet_table db' = wallet_table db \<and>
    map_option unflagged (row_at db' op) =
      (if op \<in> set (up_expired up) then None
       else map_option (unflagged \<circ> spent_at (up_spent up) op \<circ> updated_at (up_spending up) spend_row_coin op \<circ>
          unspent_at (up_expired_spending up) op \<circ> confirmed_at (up_confirmed up) op)
         (case received_at (up_received up) op of Some r \<Rightarrow> Some r | None \<Rightarrow> row_at db op))"
  using record_updates_Some [OF assms(1,2)] assms(3) by simp

theorem record_updates_spec_witness:
  "db_inv example_btc example_ops example_polled \<and> chain_tip example_polled = Some \<lparr>ct_height = 121, ct_hash = 8\<rparr>"
  using record_updates_spec [OF example_recorded example_db_inv] by (simp add: chain_tip_def)

text \<open>Whatever the messages, timeouts and answers of the backend, every state the poller reaches has a database that satisfies the
  invariant, derivation indexes no lower than at its start, and, once found synced, stays so.\<close>

theorem poller_safe:
  assumes "poller_reaches B D s0 s" "db_inv B D (ps_db s0)"
  shows "db_inv B D (ps_db s) \<and> receive_index (ps_db s0) \<le> receive_index (ps_db s) \<and>
    change_index (ps_db s0) \<le> change_index (ps_db s) \<and> (ps_synced s0 \<longrightarrow> ps_synced s)"
  using poller_reaches_inv [OF assms] by (simp add: index_grows_def)

theorem poller_safe_witness:
  "db_inv example_btc example_ops (set_last_poll 90100 example_polled)"
proof -
  let ?s0 = "\<lparr>ps_last_poll = None, ps_synced = False, ps_db = example_db\<rparr>"
  have "poller_step example_btc example_ops 90100 (Ev_Timeout True example_poll) ?s0 =
      Some (Ok \<lparr>ps_last_poll = Some 90100, ps_synced = True, ps_db = set_last_poll 90100 example_polled\<rparr>)"
    by (simp add: poller_step_def poll_if_synced_def Let_def example_poll_run)
  then have "poller_reaches example_btc example_ops ?s0
      \<lparr>ps_last_poll = Some 90100, ps_synced = True, ps_db = set_last_poll 90100 example_polled\<rparr>"
    by (rule poller_reaches.step [OF poller_reaches.start])
  from poller_safe [OF this] show ?thesis using example_db_inv by simp
qed

end
