(* ===== verification/Command_Properties.thy ===== *)
theory Command_Properties
  imports Example_Runs
begin

text \<open>
  The properties of the daemon's commands on addresses: the addresses handed out and revealed, and
  the update of the derivation indexes.
\<close>

text \<open>A new address is the receive address of the index after the last one; the index is raised by exactly one, the
  database keeps its invariant, and it now recognises the address as the wallet's, at that index.\<close>

theorem new_address_is_fresh:
  assumes "db_inv B (dm_ops E) db" "addresses_injective (dm_ops E) db" "serves E db"
    "is_normal (receive_index db)" "get_new_address E db = Some (r, db')"
  shows "ga_derivation_index r = receive_index db + 1 \<and> receive_index db' = receive_index db + 1 \<and>
    change_index db' = change_index db \<and> db_inv B (dm_ops E) db' \<and> ga_address r = address_at E False (receive_index db + 1) \<and>
    derivation_index_by_address (ga_address r) db' = Some (receive_index db + 1, False)"
  using get_new_address_Some [OF assms(5,4)] get_new_address_known [OF assms] get_new_address_db_inv [OF assms(1,5)]
  by (simp add: address_at_def desc_of_keychain_def)

theorem new_address_is_fresh_witness:
  "\<exists>r db'. get_new_address example_daemon example_db = Some (r, db') \<and> ga_derivation_index r = 4 \<and> ga_address r = 8 \<and>
    derivation_index_by_address 8 db' = Some (4, False)"
proof -
  have "get_new_address example_daemon example_db \<noteq> None"
    by (rule get_new_address_succeeds)
      (simp_all add: example_addresses_injective example_addresses_inv receive_index_def LOOK_AHEAD_LIMIT_def)
  then obtain r db' where "get_new_address example_daemon example_db = Some (r, db')" by (auto simp: not_None_eq)
  then show ?thesis
    using new_address_is_fresh [of example_btc example_daemon example_db r db'] example_db_inv example_addresses_injective example_serves
    by (auto simp: receive_index_def is_normal_def address_at_def desc_of_keychain_def example_script_def example_keychain_def)
qed

text \<open>A successful update of the derivation indexes raises each to the value asked for, by at most 1000, lowers none,
  returns the values it leaves, and keeps the invariant.\<close>

theorem update_deriv_indexes_spec:
  assumes "update_deriv_indexes E receive change db = (Ok (r, c), db')" "db_inv B (dm_ops E) db"
  shows "r = raised (receive_index db) receive \<and> c = raised (change_index db) change \<and>
    receive_index db' = r \<and> change_index db' = c \<and> coins_table db' = coins_table db \<and> db_inv B (dm_ops E) db'"
  using update_deriv_indexes_Ok [OF assms(1)] update_deriv_indexes_db_inv [OF assms(2,1)]
    only_index_fields(1) by metis

lemma example_raised: "\<exists>db'. set_derivation_index example_ops 7 False example_db = Some db'"
proof -
  have "set_derivation_index example_ops 7 False example_db \<noteq> None"
    by (rule set_derivation_index_succeeds [OF example_addresses_injective example_addresses_inv])
      (simp add: LOOK_AHEAD_LIMIT_def)
  then show ?thesis by auto
qed

theorem update_deriv_indexes_spec_witness:
  "\<exists>db'. update_deriv_indexes example_daemon (Some 7) (Some 1) example_db = (Ok (7, 2), db') \<and>
    receive_index db' = 7 \<and> change_index db' = 2 \<and> db_inv example_btc example_ops db'"
proof -
  obtain db' where "set_derivation_index example_ops 7 False example_db = Some db'" using example_raised by blast
  then have run: "update_deriv_indexes example_daemon (Some 7) (Some 1) example_db = (Ok (7, 2), db')"
    by (simp add: update_deriv_indexes_def update_deriv_index_def receive_index_def change_index_def
        set_receive_index_def MAX_INCREMENT_GAP_def from_normal_idx_def Let_def)
  from update_deriv_indexes_spec [OF this, of example_btc] show ?thesis
    using run example_db_inv by auto
qed

text \<open>The update of the derivation indexes is not all or nothing: when the index asked for the change keychain is hardened,
  the command fails after it has raised the index of the receive keychain.\<close>

theorem update_deriv_indexes_not_atomic:
  assumes "set_receive_index (dm_ops E) index db = Some db'" "receive_index db < index"
    "index \<le> receive_index db + MAX_INCREMENT_GAP" "is_normal index" "\<not> is_normal bad"
  shows "update_deriv_indexes E (Some index) (Some bad) db = (Err InvalidDerivationIndex, db') \<and>
    receive_index db' = index"
proof -
  have "receive_index db' = max index (receive_index db)"
    using index_after_set(1) [of "dm_ops E" index False db db'] assms(1) by (simp add: set_receive_index_def)
  then show ?thesis using update_deriv_indexes_partial [OF assms] assms(2) by simp
qed

theorem update_deriv_indexes_not_atomic_witness:
  "\<exists>db'. update_deriv_indexes example_daemon (Some 7) (Some HARDENED_START) example_db = (Err InvalidDerivationIndex, db') \<and>
    receive_index db' = 7"
proof -
  obtain db' where "set_receive_index (dm_ops example_daemon) 7 example_db = Some db'"
    using example_raised by (auto simp: set_receive_index_def)
  from update_deriv_indexes_not_atomic [OF this, of HARDENED_START] show ?thesis
    by (auto simp: receive_index_def MAX_INCREMENT_GAP_def is_normal_def)
qed

text \<open>The pages of revealed addresses are complete: a page followed by the listing from where it says to continue is the listing
  from where it started, a page with nowhere to continue is that whole listing, and no page is longer
  than asked; each address is the one of its index and is given with the number of coins it received.\<close>

theorem revealed_pages_complete:
  assumes "list_revealed_addresses item_text E is_change exclude_used limit start_index db = Some (page, c)"
    "db_coins [] [] db = Some coins"
    "start = (let revealed = if is_change then change_index db else receive_index db
       in case start_index of None \<Rightarrow> revealed | Some i \<Rightarrow> min i revealed)"
  shows "(case c of
      None \<Rightarrow> map rv_index page = revealed_from is_change exclude_used coins start \<and> length page \<le> limit
    | Some i \<Rightarrow> i \<le> start \<and> length page = limit \<and>
        revealed_from is_change exclude_used coins start = map rv_index page @ revealed_from is_change exclude_used coins i) \<and>
    (\<forall>r \<in> set page. rv_address r = address_at E is_change (rv_index r) \<and> rv_used_count r = uses_at is_change coins (rv_index r))"
  using list_revealed_addresses_Some [OF assms] by (cases c) auto

lemma example_revealed: "list_revealed_addresses example_text example_daemon False True 1 None example_db =
    Some ([\<lparr>rv_index = 3, rv_address = 6, rv_label = None, rv_used_count = 0\<rparr>], Some 2)"
proof -
  obtain coins where coins: "db_coins [] [] example_db = Some coins" "used_count False 3 coins 3 = 0"
    by (simp add: example_rows example_data used_count_def)
  have "rev [0..<3] = [2, 1, 0 :: nat]" by (simp add: upt_rec)
  then show ?thesis
    using coins(2) by (simp add: list_revealed_addresses_def receive_index_def Let_def coins(1) derive_address_def derive_def
        is_normal_def desc_of_keychain_def db_labels_def example_script_def example_keychain_def)
qed

theorem revealed_pages_complete_witness:
  "\<exists>coins. db_coins [] [] example_db = Some coins \<and> revealed_from False True coins 3 = 3 # revealed_from False True coins 2"
proof -
  obtain coins where coins: "db_coins [] [] example_db = Some coins" using db_coins_Some [OF example_coins_inv] by blast
  have "3 = (let revealed = if False then change_index example_db else receive_index example_db
       in case None of None \<Rightarrow> revealed | Some i \<Rightarrow> min i revealed)"
    by (simp add: receive_index_def)
  from revealed_pages_complete [OF example_revealed coins this] coins show ?thesis by auto
qed

end
