(* ===== verification/Json.thy ===== *)
theory Json
  imports Prelude "HOL-Library.AList"
begin

text \<open>
  The JSON values of \<open>serde_json\<close> and the accessors by which the handlers of the daemon
  (theory \<open>Rpc\<close>) and the protocol of the business service (theory \<open>Ws_Protocol\<close>) take them apart.
\<close>

section \<open>JSON values\<close>

text \<open>A number is a \<open>u64\<close>, a negative \<open>i64\<close> or a float, which no command reads.\<close>

datatype json_number = Pos_Int nat | Neg_Int int | Float_Num nat

datatype json = J_Null | J_Bool bool | J_Number json_number | J_String string
  | J_Array "json list" | J_Object "(string \<times> json) list"

abbreviation I64_MAX :: nat where "I64_MAX \<equiv> 9223372036854775807"

fun as_u64 :: "json \<Rightarrow> nat option" where
  "as_u64 (J_Number (Pos_Int n)) = Some n"
| "as_u64 _ = None"

fun as_i64 :: "json \<Rightarrow> int option" where
  "as_i64 (J_Number (Pos_Int n)) = (if n \<le> I64_MAX then Some (int n) else None)"
| "as_i64 (J_Number (Neg_Int i)) = Some i"
| "as_i64 _ = None"

fun as_bool :: "json \<Rightarrow> bool option" where
  "as_bool (J_Bool b) = Some b"
| "as_bool _ = None"

fun as_str :: "json \<Rightarrow> string option" where
  "as_str (J_String s) = Some s"
| "as_str _ = None"

fun as_array :: "json \<Rightarrow> json list option" where
  "as_array (J_Array vs) = Some vs"
| "as_array _ = None"

fun as_object :: "json \<Rightarrow> (string \<times> json) list option" where
  "as_object (J_Object kvs) = Some kvs"
| "as_object _ = None"

text \<open>\<open>try_into\<close> to an unsigned type of the given greatest value.\<close>

definition try_unsigned :: "nat \<Rightarrow> int \<Rightarrow> nat option" where
  "try_unsigned greatest i = (if 0 \<le> i \<and> i \<le> int greatest then Some (nat i) else None)"

definition try_smaller :: "nat \<Rightarrow> nat \<Rightarrow> nat option" where
  "try_smaller greatest n = (if n \<le> greatest then Some n else None)"

text \<open>
  \<open>value.get(name)\<close>, and \<open>value[name]\<close>, which is null where the first finds nothing; an assignment
  to \<open>value[name]\<close>.
\<close>

fun json_get :: "string \<Rightarrow> json \<Rightarrow> json option" where
  "json_get name (J_Object kvs) = map_of kvs name"
| "json_get name _ = None"

definition json_index :: "string \<Rightarrow> json \<Rightarrow> json" where
  "json_index name v = (case json_get name v of None \<Rightarrow> J_Null | Some w \<Rightarrow> w)"

fun json_set :: "string \<Rightarrow> json \<Rightarrow> json \<Rightarrow> json" where
  "json_set name w (J_Object kvs) = J_Object (AList.update name w kvs)"
| "json_set name w v = v"

end
