(* ===== verification/Rpc.thy ===== *)
theory Rpc
  imports Update_Commands Address_Commands Json
begin

text \<open>
  The types of the JSON-RPC interface (\<open>lianad/src/jsonrpc/rpc.rs\<close>): parameters by position or
  by name, error codes, and the errors that the commands become; and the text form of labels
  (\<open>lianad/src/database/mod.rs\<close>). JSON values are those of \<open>serde_json\<close>; the parsers of
  addresses, outpoints, transaction ids and PSBTs are parameters.
\<close>

section \<open>Requests and errors\<close>

datatype params = Params_Array "json list" | Params_Map "(string \<times> json) list"

fun params_get :: "params \<Rightarrow> nat \<Rightarrow> string \<Rightarrow> json option" where
  "params_get (Params_Array vs) index name = (if index < length vs then Some (vs ! index) else None)"
| "params_get (Params_Map kvs) index name = map_of kvs name"

datatype req_id = Req_Num nat | Req_Str string

record request =
  rq_jsonrpc :: string
  rq_method :: string
  rq_params :: "params option"
  rq_id :: req_id

definition BROADCAST_ERROR :: int where "BROADCAST_ERROR = 1000"

datatype error_code = Method_Not_Found | Invalid_Params | Internal_Error | Server_Error int

fun error_code_to_i64 :: "error_code \<Rightarrow> int" where
  "error_code_to_i64 Method_Not_Found = -32601"
| "error_code_to_i64 Invalid_Params = -32602"
| "error_code_to_i64 Internal_Error = -32603"
| "error_code_to_i64 (Server_Error code) = code"

definition error_code_from_i64 :: "int \<Rightarrow> error_code" where
  "error_code_from_i64 code =
     (if code = -32601 then Method_Not_Found
      else if code = -32602 then Invalid_Params
      else if code = -32603 then Internal_Error
      else Server_Error code)"

text \<open>
  The message of an error is what it says: of a parameter that is missing or does not parse, or of
  the command error it comes from.
\<close>

datatype rpc_message = No_Such_Method | Missing_Params string | Invalid_Param string
  | Label_Too_Long string | From_Command command_error

record rpc_error =
  re_code :: error_code
  re_message :: rpc_message

definition method_not_found :: rpc_error where
  "method_not_found = \<lparr>re_code = Method_Not_Found, re_message = No_Such_Method\<rparr>"

definition invalid_params :: "rpc_message \<Rightarrow> rpc_error" where
  "invalid_params m = \<lparr>re_code = Invalid_Params, re_message = m\<rparr>"

text \<open>\<open>From<CommandError>\<close>. A panic has no error: it ends the process.\<close>

definition error_of_command :: "command_error \<Rightarrow> rpc_error option" where
  "error_of_command e = (case e of
     RescanTrigger _ \<Rightarrow> Some \<lparr>re_code = Internal_Error, re_message = From_Command e\<rparr>
   | TxBroadcast _ \<Rightarrow> Some \<lparr>re_code = Server_Error BROADCAST_ERROR, re_message = From_Command e\<rparr>
   | CmdPanic \<Rightarrow> None
   | _ \<Rightarrow> Some \<lparr>re_code = Invalid_Params, re_message = From_Command e\<rparr>)"

section \<open>Labels\<close>

text \<open>The parsers (\<open>FromStr\<close>) of the \<open>bitcoin\<close> crate.\<close>

record parsers =
  parse_address :: "string \<Rightarrow> address option"
  parse_outpoint :: "string \<Rightarrow> outpoint option"
  parse_txid :: "string \<Rightarrow> txid option"
  parse_psbt :: "string \<Rightarrow> psbt option"
  deserialize_hex :: "string \<Rightarrow> txid option"
  item_text :: "label_item \<Rightarrow> string"

definition label_item_from_str :: "btc \<Rightarrow> parsers \<Rightarrow> nat \<Rightarrow> string \<Rightarrow> label_item option" where
  "label_item_from_str B P network s = (case parse_address P s of
     Some addr \<Rightarrow> if \<not> addr_valid_for B addr network then None else Some (Label_Address addr)
   | None \<Rightarrow>
       (case parse_txid P s of
          Some txid \<Rightarrow> Some (Label_Txid txid)
        | None \<Rightarrow> map_option Label_OutPoint (parse_outpoint P s)))"

text \<open>
  A label of BIP329: what it refers to and its text; other kinds of records are ignored.
  \<open>deserialize_hex\<close> reads the bytes of a transaction id in the order of its encoding, the reverse of
  the order of its text.
\<close>

datatype bip329_label = Bip_Transaction txid "string option" | Bip_Address address "string option"
  | Bip_Output outpoint "string option" | Bip_Other

definition label_from_bip329 :: "btc \<Rightarrow> parsers \<Rightarrow> bip329_label \<Rightarrow> nat \<Rightarrow> (label_item \<times> string) option" where
  "label_from_bip329 B P label network = (case label of
     Bip_Transaction ref text \<Rightarrow>
       (case (parse_txid P (item_text P (Label_Txid ref)), text) of
          (Some txid, Some label) \<Rightarrow> Some (Label_Txid txid, label)
        | _ \<Rightarrow> None)
   | Bip_Address ref text \<Rightarrow>
       (case (parse_address P (item_text P (Label_Address ref)), text) of
          (Some addr, Some label) \<Rightarrow> if addr_valid_for B addr network then Some (Label_Address addr, label) else None
        | _ \<Rightarrow> None)
   | Bip_Output ref text \<Rightarrow>
       (case (parse_outpoint P (item_text P (Label_OutPoint ref)), text) of
          (Some outpoint, Some label) \<Rightarrow> Some (Label_OutPoint outpoint, label)
        | _ \<Rightarrow> None)
   | Bip_Other \<Rightarrow> None)"

text \<open>The label of a row; \<open>None\<close> is a panic.\<close>

definition label_to_bip329 :: "parsers \<Rightarrow> label_row \<Rightarrow> bip329_label option" where
  "label_to_bip329 P r =
     (let label = (if rl_value r = [] then None else Some (rl_value r))
      in case rl_item_kind r of
        Kind_Address \<Rightarrow> map_option (\<lambda>a. Bip_Address a label) (parse_address P (rl_item r))
      | Kind_OutPoint \<Rightarrow> map_option (\<lambda>op. Bip_Output op label) (parse_outpoint P (rl_item r))
      | Kind_Txid \<Rightarrow>
          Option.bind (deserialize_hex P (rl_item r)) (\<lambda>frontward.
          map_option (\<lambda>t. Bip_Transaction t label) (deserialize_hex P (item_text P (Label_Txid frontward)))))"

text \<open>What the parsers promise: they read back what is written.\<close>

definition parsers_ok :: "parsers \<Rightarrow> bool" where
  "parsers_ok P \<longleftrightarrow> (\<forall>a. parse_address P (item_text P (Label_Address a)) = Some a) \<and>
     (\<forall>op. parse_outpoint P (item_text P (Label_OutPoint op)) = Some op) \<and>
     (\<forall>t. parse_txid P (item_text P (Label_Txid t)) = Some t) \<and>
     (\<exists>reversed. \<forall>t. deserialize_hex P (item_text P (Label_Txid t)) = Some (reversed t) \<and> reversed (reversed t) = t)"

lemma label_bip329_roundtrip:
  assumes "parsers_ok P" "case item of Label_Address a \<Rightarrow> addr_valid_for B a network | _ \<Rightarrow> True" "v \<noteq> []"
  shows "Option.bind (label_to_bip329 P \<lparr>rl_item_kind = label_kind item, rl_item = item_text P item, rl_value = v\<rparr>)
    (\<lambda>l. label_from_bip329 B P l network) = Some (item, v)"
proof -
  obtain reversed where r: "\<And>t. deserialize_hex P (item_text P (Label_Txid t)) = Some (reversed t)" "\<And>t. reversed (reversed t) = t"
    using assms(1) by (auto simp: parsers_ok_def)
  show ?thesis
    using assms r
    by (cases item) (auto simp: label_to_bip329_def label_from_bip329_def label_kind_def parsers_ok_def)
qed

end
