(* ===== verification/Api.thy ===== *)
theory Api
  imports Rpc
begin

text \<open>
  The JSON-RPC commands (\<open>lianad/src/jsonrpc/api.rs\<close>): each reads its parameters and calls a command
  of the daemon. A reply carries the value that the code then serialises.
\<close>

section \<open>Replies\<close>

text \<open>A request is answered with a value or an error, or it crashes the daemon; the database is the one it leaves.\<close>

datatype ('v, 'db) outcome = Reply 'v 'db | Refused rpc_error 'db | Crashed

record ('ms, 'tr) get_info_result =
  gi_version :: string
  gi_network :: nat
  gi_block_height :: int
  gi_sync :: nat
  gi_main_descriptor :: "('ms, 'tr) liana_descriptor"
  gi_rescan_progress :: "nat option"
  gi_timestamp :: nat
  gi_last_poll_timestamp :: "nat option"
  gi_receive_index :: nat
  gi_change_index :: nat

datatype ('ms, 'tr) rpc_value = V_Empty | V_Info "('ms, 'tr) get_info_result" | V_Address get_address_result | V_Indexes nat nat
  | V_Coins "list_coins_entry list" | V_Addresses "address_info list"
  | V_Revealed "revealed_address list" "child_number option" | V_Spend create_spend_result
  | V_Drafts "(psbt \<times> nat option) list" | V_Transactions "(tx \<times> int option \<times> nat option) list"
  | V_Recovery create_recovery_result | V_Labels "(string \<times> string) list" | V_Bip329 "bip329_label list"

text \<open>
  What a request reads beside the daemon's environment: the version of the package, the parsers, the order in which a hash map is
  iterated, and the progress of the sync and of a rescan (percentages, floats in the code).
\<close>

record rpc_env =
  rv_version :: string
  rv_parsers :: parsers
  rv_order :: "(address \<times> nat) list \<Rightarrow> (address \<times> nat) list"
  rv_item_order :: "(label_item \<times> string option) list \<Rightarrow> (label_item \<times> string option) list"
  rv_sync_progress :: nat
  rv_rescan_progress :: "nat option"

definition get_info :: "rpc_env \<Rightarrow> ('ms, 'tr, 'cs) daemon \<Rightarrow> ('ms, 'tr) database \<Rightarrow> ('ms, 'tr) get_info_result" where
  "get_info V E db = \<lparr>gi_version = rv_version V, gi_network = dm_network E,
     gi_block_height = (case chain_tip db of Some tip \<Rightarrow> ct_height tip | None \<Rightarrow> 0),
     gi_sync = rv_sync_progress V, gi_main_descriptor = dm_descriptor E,
     gi_rescan_progress = map_option (\<lambda>_. case rv_rescan_progress V of Some p \<Rightarrow> p | None \<Rightarrow> 100)
       (w_rescan_timestamp (wallet_table db)),
     gi_timestamp = w_timestamp (wallet_table db), gi_last_poll_timestamp = w_last_poll_timestamp (wallet_table db),
     gi_receive_index = receive_index db, gi_change_index = change_index db\<rparr>"

definition reply_of :: "('a \<Rightarrow> ('ms, 'tr) rpc_value) \<Rightarrow> command_error + 'a \<times> 'db \<Rightarrow> 'db \<Rightarrow> (('ms, 'tr) rpc_value, 'db) outcome" where
  "reply_of f r db = (case r of
     Inr (x, db') \<Rightarrow> Reply (f x) db'
   | Inl e \<Rightarrow> (case error_of_command e of Some err \<Rightarrow> Refused err db | None \<Rightarrow> Crashed))"

definition reply_read :: "('a \<Rightarrow> ('ms, 'tr) rpc_value) \<Rightarrow> command_error + 'a \<Rightarrow> 'db \<Rightarrow> (('ms, 'tr) rpc_value, 'db) outcome" where
  "reply_read f r db = reply_of f (rbind r (\<lambda>x. Ok (x, db))) db"

text \<open>The reading of the parameters comes first; its error leaves the database as it is.\<close>

definition with_params :: "rpc_message + 'a \<Rightarrow> 'db \<Rightarrow> ('a \<Rightarrow> (('ms, 'tr) rpc_value, 'db) outcome) \<Rightarrow> (('ms, 'tr) rpc_value, 'db) outcome" where
  "with_params r db f = (case r of Inl m \<Rightarrow> Refused (invalid_params m) db | Inr x \<Rightarrow> f x)"

section \<open>Reading parameters\<close>

definition required :: "params \<Rightarrow> nat \<Rightarrow> string \<Rightarrow> (json \<Rightarrow> 'a option) \<Rightarrow> rpc_message + 'a" where
  "required p index name read =
     rbind (ok_or (Missing_Params name) (params_get p index name)) (\<lambda>v. ok_or (Invalid_Param name) (read v))"

definition optional :: "params \<Rightarrow> nat \<Rightarrow> string \<Rightarrow> (json \<Rightarrow> 'a option) \<Rightarrow> rpc_message + 'a option" where
  "optional p index name read = (case params_get p index name of
     None \<Rightarrow> Ok None
   | Some v \<Rightarrow> rbind (ok_or (Invalid_Param name) (read v)) (\<lambda>x. Ok (Some x)))"

definition as_u32 :: "json \<Rightarrow> nat option" where
  "as_u32 v = Option.bind (as_u64 v) (try_smaller U32_MAX)"

text \<open>The commands that read an unsigned number through \<open>as_i64\<close>.\<close>

definition as_i64_unsigned :: "nat \<Rightarrow> json \<Rightarrow> nat option" where
  "as_i64_unsigned greatest v = Option.bind (as_i64 v) (try_unsigned greatest)"

definition read_list :: "(string \<Rightarrow> 'a option) \<Rightarrow> json \<Rightarrow> 'a list option" where
  "read_list parse v = Option.bind (as_array v) (collect_options (\<lambda>e. Option.bind (as_str e) parse))"

text \<open>A \<open>HashMap\<close>: inserting a key again replaces its value.\<close>

definition hm_insert :: "'k \<Rightarrow> 'v \<Rightarrow> ('k \<times> 'v) list \<Rightarrow> ('k \<times> 'v) list" where
  "hm_insert k v m = filter (\<lambda>(k', _). k' \<noteq> k) m @ [(k, v)]"

definition read_destinations :: "parsers \<Rightarrow> json \<Rightarrow> (address \<times> nat) list option" where
  "read_destinations P v = Option.bind (as_object v) (\<lambda>obj.
     map_option (\<lambda>kvs. fold (\<lambda>(a, amount). hm_insert a amount) kvs [])
       (collect_options (\<lambda>(k, v). Option.bind (parse_address P k) (\<lambda>addr.
          map_option (Pair addr) (as_i64_unsigned U64_MAX v))) obj))"

definition get_opt_u32 :: "params option \<Rightarrow> nat \<Rightarrow> string \<Rightarrow> rpc_message + nat option" where
  "get_opt_u32 params index name = (case params of
     None \<Rightarrow> Ok None
   | Some p \<Rightarrow> optional p index name as_u32)"

text \<open>A filter that is not an array is ignored; an element that does not parse is an error.\<close>

definition read_filter :: "params option \<Rightarrow> nat \<Rightarrow> string \<Rightarrow> (string \<Rightarrow> 'a option) \<Rightarrow> rpc_message + 'a list" where
  "read_filter params index name parse =
     (case Option.bind (Option.bind params (\<lambda>p. params_get p index name)) as_array of
        None \<Rightarrow> Ok []
      | Some vs \<Rightarrow> ok_or (Invalid_Param name) (collect_options (\<lambda>v. Option.bind (as_str v) parse) vs))"


section \<open>The commands\<close>

definition api_create_spend ::
  "rpc_env \<Rightarrow> ('ms, 'tr, 'cs) daemon \<Rightarrow> params \<Rightarrow> ('ms, 'tr) database \<Rightarrow> (('ms, 'tr) rpc_value, ('ms, 'tr) database) outcome" where
  "api_create_spend V E p db =
     (let P = rv_parsers V in
      with_params (required p 0 ''destinations'' (read_destinations P)) db (\<lambda>destinations.
      with_params (required p 1 ''outpoints'' (read_list (parse_outpoint P))) db (\<lambda>outpoints.
      with_params (required p 2 ''feerate'' as_u64) db (\<lambda>feerate.
      with_params (optional p 3 ''change_address'' (\<lambda>v. Option.bind (as_str v) (parse_address P))) db (\<lambda>change_address.
      reply_of V_Spend (cmd_create_spend E (rv_order V destinations) outpoints feerate change_address db) db)))))"

definition read_txid :: "parsers \<Rightarrow> json \<Rightarrow> txid option" where
  "read_txid P v = Option.bind (as_str v) (parse_txid P)"

definition api_update_spend ::
  "rpc_env \<Rightarrow> ('ms, 'tr, 'cs) daemon \<Rightarrow> params \<Rightarrow> ('ms, 'tr) database \<Rightarrow> (('ms, 'tr) rpc_value, ('ms, 'tr) database) outcome" where
  "api_update_spend V E p db =
     with_params (required p 0 ''psbt'' (\<lambda>v. Option.bind (as_str v) (parse_psbt (rv_parsers V)))) db (\<lambda>psbt.
     reply_of (\<lambda>_. V_Empty) (rbind (update_spend E psbt db) (\<lambda>db'. Ok ((), db'))) db)"

definition api_delete_spend ::
  "rpc_env \<Rightarrow> params \<Rightarrow> ('ms, 'tr) database \<Rightarrow> (('ms, 'tr) rpc_value, ('ms, 'tr) database) outcome" where
  "api_delete_spend V p db =
     with_params (required p 0 ''txid'' (read_txid (rv_parsers V))) db (\<lambda>txid. Reply V_Empty (delete_spend txid db))"

definition api_broadcast_spend ::
  "rpc_env \<Rightarrow> ('ms, 'tr, 'cs) daemon \<Rightarrow> params \<Rightarrow> ('ms, 'tr) database \<Rightarrow> (('ms, 'tr) rpc_value, ('ms, 'tr) database) outcome" where
  "api_broadcast_spend V E p db =
     with_params (required p 0 ''txid'' (read_txid (rv_parsers V))) db (\<lambda>txid.
     reply_read (\<lambda>_. V_Empty) (broadcast_spend E txid db) db)"

text \<open>A search of a replacement that did not end would leave the request without an answer.\<close>

definition api_rbf_psbt ::
  "rpc_env \<Rightarrow> ('ms, 'tr, 'cs) daemon \<Rightarrow> params \<Rightarrow> ('ms, 'tr) database \<Rightarrow> (('ms, 'tr) rpc_value, ('ms, 'tr) database) outcome" where
  "api_rbf_psbt V E p db =
     with_params (required p 0 ''txid'' (read_txid (rv_parsers V))) db (\<lambda>txid.
     with_params (required p 1 ''is_cancel'' as_bool) db (\<lambda>is_cancel.
     with_params (optional p 2 ''feerate'' as_u64) db (\<lambda>feerate_vb.
     case rbf_psbt E txid is_cancel feerate_vb db of
       None \<Rightarrow> Crashed
     | Some r \<Rightarrow> reply_of V_Spend r db)))"

definition api_list_coins ::
  "rpc_env \<Rightarrow> ('ms, 'tr, 'cs) daemon \<Rightarrow> params option \<Rightarrow> ('ms, 'tr) database \<Rightarrow> (('ms, 'tr) rpc_value, ('ms, 'tr) database) outcome" where
  "api_list_coins V E params db =
     with_params (read_filter params 0 ''statuses'' status_from_arg) db (\<lambda>statuses.
     with_params (read_filter params 1 ''outpoints'' (parse_outpoint (rv_parsers V))) db (\<lambda>outpoints.
     reply_read V_Coins (ok_or CmdPanic (list_coins E statuses outpoints db)) db))"

definition api_list_addresses ::
  "('ms, 'tr, 'cs) daemon \<Rightarrow> params option \<Rightarrow> ('ms, 'tr) database \<Rightarrow> (('ms, 'tr) rpc_value, ('ms, 'tr) database) outcome" where
  "api_list_addresses E params db =
     with_params (get_opt_u32 params 0 ''start_index'') db (\<lambda>start_index.
     with_params (get_opt_u32 params 1 ''count'') db (\<lambda>num.
     reply_read V_Addresses (list_addresses E start_index num db) db))"

definition api_list_revealed_addresses ::
  "rpc_env \<Rightarrow> ('ms, 'tr, 'cs) daemon \<Rightarrow> params \<Rightarrow> ('ms, 'tr) database \<Rightarrow> (('ms, 'tr) rpc_value, ('ms, 'tr) database) outcome" where
  "api_list_revealed_addresses V E p db =
     with_params (required p 0 ''is_change'' as_bool) db (\<lambda>is_change.
     with_params (required p 1 ''exclude_used'' as_bool) db (\<lambda>exclude_used.
     with_params (required p 2 ''limit'' as_u64) db (\<lambda>limit.
     with_params (case params_get p 3 ''start_index'' of
         None \<Rightarrow> Ok None
       | Some ind \<Rightarrow>
           (if ind = J_Null then Ok None
            else rbind (ok_or (Invalid_Param ''start_index'') (as_u32 ind)) (\<lambda>i. Ok (Some i)))) db (\<lambda>start_index.
     reply_read (\<lambda>(page, continue_from). V_Revealed page continue_from)
       (ok_or CmdPanic (list_revealed_addresses (item_text (rv_parsers V)) E is_change exclude_used limit start_index db)) db))))"

definition api_update_deriv_indexes ::
  "('ms, 'tr, 'cs) daemon \<Rightarrow> params \<Rightarrow> ('ms, 'tr) database \<Rightarrow> (('ms, 'tr) rpc_value, ('ms, 'tr) database) outcome" where
  "api_update_deriv_indexes E p db =
     (if params_get p 0 ''receive'' = None \<and> params_get p 1 ''change'' = None
      then Refused (invalid_params (Missing_Params ''receive or change'')) db
      else
        with_params (optional p 0 ''receive'' (as_i64_unsigned U32_MAX)) db (\<lambda>receive.
        with_params (optional p 1 ''change'' (as_i64_unsigned U32_MAX)) db (\<lambda>change.
        case update_deriv_indexes E receive change db of
          (Inr (r, c), db') \<Rightarrow> Reply (V_Indexes r c) db'
        | (Inl e, db') \<Rightarrow> reply_of (\<lambda>_ :: unit. V_Empty) (Err e) db')))"

definition api_list_confirmed ::
  "('ms, 'tr, 'cs) daemon \<Rightarrow> params \<Rightarrow> ('ms, 'tr) database \<Rightarrow> (('ms, 'tr) rpc_value, ('ms, 'tr) database) outcome" where
  "api_list_confirmed E p db =
     with_params (required p 0 ''start'' (as_i64_unsigned U32_MAX)) db (\<lambda>start.
     with_params (required p 1 ''end'' (as_i64_unsigned U32_MAX)) db (\<lambda>end.
     with_params (required p 2 ''limit'' (as_i64_unsigned U64_MAX)) db (\<lambda>limit.
     reply_read V_Transactions (ok_or CmdPanic (list_confirmed_transactions start end limit db)) db)))"

definition api_list_spendtxs ::
  "rpc_env \<Rightarrow> ('ms, 'tr, 'cs) daemon \<Rightarrow> params option \<Rightarrow> ('ms, 'tr) database \<Rightarrow> (('ms, 'tr) rpc_value, ('ms, 'tr) database) outcome" where
  "api_list_spendtxs V E params db =
     with_params (case params of
         None \<Rightarrow> Ok None
       | Some p \<Rightarrow> optional p 0 ''txids'' (read_list (parse_txid (rv_parsers V)))) db (\<lambda>txids.
     reply_read V_Drafts (cmd_list_spend E txids db) db)"

definition api_list_transactions ::
  "rpc_env \<Rightarrow> params \<Rightarrow> ('ms, 'tr) database \<Rightarrow> (('ms, 'tr) rpc_value, ('ms, 'tr) database) outcome" where
  "api_list_transactions V p db =
     with_params (required p 0 ''txids'' (read_list (parse_txid (rv_parsers V)))) db (\<lambda>txids.
     reply_read V_Transactions (ok_or CmdPanic (list_transactions txids db)) db)"

definition api_start_rescan ::
  "('ms, 'tr, 'cs) daemon \<Rightarrow> params \<Rightarrow> ('ms, 'tr) database \<Rightarrow> (('ms, 'tr) rpc_value, ('ms, 'tr) database) outcome" where
  "api_start_rescan E p db =
     with_params (required p 0 ''timestamp'' as_u32) db (\<lambda>timestamp.
     reply_of (\<lambda>_. V_Empty) (rbind (start_rescan E timestamp db) (\<lambda>db'. Ok ((), db'))) db)"

definition api_create_recovery ::
  "rpc_env \<Rightarrow> ('ms, 'tr, 'cs) daemon \<Rightarrow> params \<Rightarrow> ('ms, 'tr) database \<Rightarrow> (('ms, 'tr) rpc_value, ('ms, 'tr) database) outcome" where
  "api_create_recovery V E p db =
     (let P = rv_parsers V in
      with_params (required p 0 ''address'' (\<lambda>v. Option.bind (as_str v) (parse_address P))) db (\<lambda>address.
      with_params (required p 1 ''feerate'' as_u64) db (\<lambda>feerate.
      with_params (optional p 2 ''timelock'' (\<lambda>v. Option.bind (as_u64 v) (try_smaller U16_MAX))) db (\<lambda>timelock.
      with_params (optional p 3 ''outpoints'' (read_list (parse_outpoint P))) db (\<lambda>outpoints.
      reply_of V_Recovery (create_recovery E address (case outpoints of Some ops \<Rightarrow> ops | None \<Rightarrow> []) feerate timelock db) db)))))"

text \<open>A value that is not a string removes the label; a label has at most 100 bytes.\<close>

definition read_label :: "btc \<Rightarrow> parsers \<Rightarrow> nat \<Rightarrow> string \<times> json \<Rightarrow> rpc_message + label_item \<times> string option" where
  "read_label B P network = (\<lambda>(item, v).
     (let value = as_str v in
      if (case value of Some s \<Rightarrow> length s > 100 | None \<Rightarrow> False) then Err (Label_Too_Long item)
      else rbind (ok_or (Invalid_Param item) (label_item_from_str B P network item)) (\<lambda>item. Ok (item, value))))"

definition api_update_labels ::
  "rpc_env \<Rightarrow> ('ms, 'tr, 'cs) daemon \<Rightarrow> params \<Rightarrow> ('ms, 'tr) database \<Rightarrow> (('ms, 'tr) rpc_value, ('ms, 'tr) database) outcome" where
  "api_update_labels V E p db =
     (let P = rv_parsers V in
      with_params (required p 0 ''labels'' as_object) db (\<lambda>labels.
      with_params (collect_results (read_label (dm_btc E) P (dm_network E)) labels) db (\<lambda>items.
      Reply V_Empty (update_labels (item_text P)
        (rv_item_order V (fold (\<lambda>(item, value). hm_insert item value) items [])) db))))"

definition api_get_labels ::
  "rpc_env \<Rightarrow> ('ms, 'tr, 'cs) daemon \<Rightarrow> params \<Rightarrow> ('ms, 'tr) database \<Rightarrow> (('ms, 'tr) rpc_value, ('ms, 'tr) database) outcome" where
  "api_get_labels V E p db =
     (let P = rv_parsers V in
      with_params (required p 0 ''items'' as_array) db (\<lambda>items.
      with_params (ok_or (Invalid_Param ''items'') (collect_options (\<lambda>v.
          Option.bind (as_str v) (label_item_from_str (dm_btc E) P (dm_network E))) items)) db (\<lambda>items.
      Reply (V_Labels (db_labels (item_text P) items db)) db)))"

definition api_get_labels_bip329 ::
  "rpc_env \<Rightarrow> params \<Rightarrow> ('ms, 'tr) database \<Rightarrow> (('ms, 'tr) rpc_value, ('ms, 'tr) database) outcome" where
  "api_get_labels_bip329 V p db =
     with_params (required p 0 ''offset'' as_u32) db (\<lambda>offset.
     with_params (required p 1 ''limit'' as_u32) db (\<lambda>limit.
     reply_read V_Bip329 (ok_or CmdPanic
       (collect_options (label_to_bip329 (rv_parsers V)) (labels_bip329 offset limit db))) db))"

section \<open>Dispatch\<close>

text \<open>A method whose parameters may not be left out.\<close>

definition needs_params :: "string \<Rightarrow> params option \<Rightarrow> 'db \<Rightarrow> (params \<Rightarrow> (('ms, 'tr) rpc_value, 'db) outcome) \<Rightarrow> (('ms, 'tr) rpc_value, 'db) outcome" where
  "needs_params name params db f = with_params (ok_or (Missing_Params name) params) db f"

definition handle_request ::
  "rpc_env \<Rightarrow> ('ms, 'tr, 'cs) daemon \<Rightarrow> request \<Rightarrow> ('ms, 'tr) database \<Rightarrow> (('ms, 'tr) rpc_value, ('ms, 'tr) database) outcome" where
  "handle_request V E req db =
     (let m = rq_method req; params = rq_params req in
      if m = ''broadcastspend'' then needs_params ''txid'' params db (\<lambda>p. api_broadcast_spend V E p db)
      else if m = ''createrecovery'' then needs_params ''address and feerate'' params db (\<lambda>p. api_create_recovery V E p db)
      else if m = ''createspend'' then needs_params ''outpoints, destinations and feerate'' params db (\<lambda>p. api_create_spend V E p db)
      else if m = ''delspendtx'' then needs_params ''txid'' params db (\<lambda>p. api_delete_spend V p db)
      else if m = ''rbfpsbt'' then needs_params ''txid, feerate and is_cancel'' params db (\<lambda>p. api_rbf_psbt V E p db)
      else if m = ''getinfo'' then Reply (V_Info (get_info V E db)) db
      else if m = ''getnewaddress'' then reply_of V_Address (ok_or CmdPanic (get_new_address E db)) db
      else if m = ''updatederivationindexes'' then needs_params ''receive or change'' params db (\<lambda>p. api_update_deriv_indexes E p db)
      else if m = ''listcoins'' then api_list_coins V E params db
      else if m = ''listaddresses'' then api_list_addresses E params db
      else if m = ''listrevealedaddresses'' then needs_params ''is_change, exclude_used and limit'' params db (\<lambda>p. api_list_revealed_addresses V E p db)
      else if m = ''listconfirmed'' then needs_params ''start, end and limit'' params db (\<lambda>p. api_list_confirmed E p db)
      else if m = ''listspendtxs'' then api_list_spendtxs V E params db
      else if m = ''listtransactions'' then needs_params ''txids'' params db (\<lambda>p. api_list_transactions V p db)
      else if m = ''startrescan'' then needs_params ''timestamp'' params db (\<lambda>p. api_start_rescan E p db)
      else if m = ''stop'' then Reply V_Empty db
      else if m = ''updatespend'' then needs_params ''psbt'' params db (\<lambda>p. api_update_spend V E p db)
      else if m = ''updatelabels'' then needs_params ''labels'' params db (\<lambda>p. api_update_labels V E p db)
      else if m = ''getlabels'' then needs_params ''items'' params db (\<lambda>p. api_get_labels V E p db)
      else if m = ''getlabelsbip329'' then needs_params ''offset and limit'' params db (\<lambda>p. api_get_labels_bip329 V p db)
      else Refused method_not_found db)"

end
