(* ===== verification/Api_Lemmas.thy ===== *)
theory Api_Lemmas
  imports Api
begin

text \<open>
  What a request may do to the database, whatever its method and its parameters: the
  invariant is kept, derivation indexes only grow, and the coins, the transactions, the
  tip and the descriptor are left to the poller.
\<close>

section \<open>The effect of a command\<close>

definition request_effect :: "('ms, 'tr) database \<Rightarrow> ('ms, 'tr) database \<Rightarrow> bool" where
  "request_effect db db' \<longleftrightarrow> index_grows db db' \<and> coins_table db' = coins_table db \<and>
     transactions_table db' = transactions_table db \<and> chain_tip db' = chain_tip db \<and>
     wallet_descriptor db' = wallet_descriptor db \<and> db_network db' = db_network db"

definition command_safe :: "btc \<Rightarrow> ('ms, 'tr) desc_ops \<Rightarrow> ('ms, 'tr) database \<Rightarrow> ('ms, 'tr) database \<Rightarrow> bool" where
  "command_safe B D db db' \<longleftrightarrow> (db_inv B D db \<longrightarrow> db_inv B D db') \<and> request_effect db db'"

lemma command_safe_refl [simp]: "command_safe B D db db"
  by (simp add: command_safe_def request_effect_def)

lemma chain_tip_other [simp]:
  "chain_tip (spends_table_update f db) = chain_tip db"
  "chain_tip (labels_table_update h db) = chain_tip db"
  "chain_tip (wallet_table_update g db) = chain_tip db"
  by (simp_all add: chain_tip_def)

lemma only_index_effect: "only_index db db' \<Longrightarrow> request_effect db db'"
  by (simp add: request_effect_def only_index_fields)

lemma after_spend_safe:
  assumes "after_spend E dests change_addr res db = Ok (out, db')"
  shows "command_safe B (dm_ops E) db db'"
  using after_spend_Ok(2,3) [OF assms] by (simp add: command_safe_def only_index_effect)

lemma rbind_OkE: "rbind m f = Ok y \<Longrightarrow> (\<And>x. m = Ok x \<Longrightarrow> f x = Ok y \<Longrightarrow> P) \<Longrightarrow> P"
  by (auto simp: result_simps)

lemma if_Err_OkE: "(if b then Err e else r) = Ok y \<Longrightarrow> (\<not> b \<Longrightarrow> r = Ok y \<Longrightarrow> P) \<Longrightarrow> P"
  by (auto split: if_splits)

lemma create_spend_outcome:
  assumes "(case r of Inl (CoinSelection missing) \<Rightarrow> Ok (Spend_Insufficient missing, db)
      | Inl e \<Rightarrow> Err (SpendCreation e) | Inr (res, g) \<Rightarrow> f res) = Ok (out, db')"
  shows "db' = db \<or> (\<exists>res. f res = Ok (out, db'))"
proof (cases r)
  case (Inl e)
  then show ?thesis using assms by (cases e) auto
next
  case (Inr x)
  then show ?thesis using assms by (cases x) auto
qed

lemma cmd_create_spend_safe:
  assumes "cmd_create_spend E destinations coins_outpoints feerate_vb change_address db = Ok (out, db')"
  shows "command_safe B (dm_ops E) db db'"
proof -
  have "\<exists>dests change_addr. db' = db \<or> (\<exists>res. after_spend E dests change_addr res db = Ok (out, db'))"
    using assms unfolding cmd_create_spend_def
    by (elim if_Err_OkE rbind_OkE) (drule create_spend_outcome, blast)
  then show ?thesis using after_spend_safe by fastforce
qed

lemma rbf_outcome:
  assumes "map_option (\<lambda>r. rbind r (\<lambda>outcome. case outcome of Inl missing \<Rightarrow> Ok (Spend_Insufficient missing, db)
      | Inr (res, g) \<Rightarrow> f res)) m = Some (Ok (out, db'))"
  shows "db' = db \<or> (\<exists>res. f res = Ok (out, db'))"
proof -
  obtain outcome where "m = Some (Ok outcome)" and o: "(case outcome of Inl missing \<Rightarrow> Ok (Spend_Insufficient missing, db)
      | Inr (res, g) \<Rightarrow> f res) = Ok (out, db')"
    using assms by (auto simp: result_simps)
  then show ?thesis by (cases outcome) (auto simp: prod.case_eq_if)
qed

lemma rbf_psbt_safe:
  assumes "rbf_psbt E txid is_cancel feerate_vb db = Some (Ok (out, db'))"
  shows "command_safe B (dm_ops E) db db'"
proof -
  have "\<exists>dests change_addr. db' = db \<or> (\<exists>res. after_spend E dests change_addr res db = Ok (out, db'))"
    using assms unfolding rbf_psbt_def Let_def
    by (simp split: sum.split_asm prod.split_asm option.split_asm del: option.map_sel map_option_eq_Some)
      (drule rbf_outcome, blast)+
  then show ?thesis using after_spend_safe by fastforce
qed

lemma create_recovery_safe:
  assumes "create_recovery E a coins_outpoints feerate_vb timelock db = Ok (r, db')"
  shows "command_safe B (dm_ops E) db db'"
proof -
  obtain t coins cands locktime g and res :: create_spend_res where "if res_has_change res then maybe_increase_last_deriv_index E (soa_info (spend_addr db a)) db = Some db' else db' = db"
    by (rule create_recovery_Ok [OF assms], rule that) assumption+
  then show ?thesis
    using maybe_increase_only(1,2) [of E "soa_info (spend_addr db a)" db db']
    by (auto simp: command_safe_def only_index_effect split: if_splits)
qed

lemma get_new_address_safe:
  assumes "get_new_address E db = Some (r, db')"
  shows "command_safe B (dm_ops E) db db'"
proof -
  obtain i where "set_derivation_index (dm_ops E) i False db = Some db'"
    using assms by (auto simp: get_new_address_def set_receive_index_def split: bind_splits)
  then show ?thesis
    using set_derivation_index_only(1) set_derivation_index_db_inv only_index_effect by (metis command_safe_def)
qed

lemma update_deriv_index_safe:
  assumes "update_deriv_index set_index i requested db = (res, db')"
    "\<And>i. set_index i = set_derivation_index D i is_change"
  shows "command_safe B D db db'"
proof -
  have "db' = db \<or> (\<exists>j. set_derivation_index D j is_change db = Some db')"
    using assms by (auto simp: update_deriv_index_def Let_def split: option.splits if_splits)
  then show ?thesis
    using set_derivation_index_only(1) set_derivation_index_db_inv only_index_effect by (metis command_safe_def command_safe_refl)
qed

lemma command_safe_trans: "command_safe B D a b \<Longrightarrow> command_safe B D b c \<Longrightarrow> command_safe B D a c"
  using index_grows_trans by (fastforce simp: command_safe_def request_effect_def)

lemma update_deriv_indexes_safe:
  assumes "update_deriv_indexes E receive change db = (res, db')"
  shows "command_safe B (dm_ops E) db db'"
proof -
  let ?set = "\<lambda>c i. set_derivation_index (dm_ops E) i c"
  obtain r1 db1 where u1: "update_deriv_index (set_receive_index (dm_ops E)) (receive_index db) receive db = (r1, db1)"
    by (cases "update_deriv_index (set_receive_index (dm_ops E)) (receive_index db) receive db")
  have s1: "command_safe B (dm_ops E) db db1"
    using update_deriv_index_safe [OF u1, of "dm_ops E" False] by (simp add: fun_eq_iff set_receive_index_def)
  show ?thesis
  proof (cases r1)
    case (Inl e)
    then show ?thesis using assms u1 s1 by (simp add: update_deriv_indexes_def Let_def)
  next
    case (Inr r)
    obtain r2 db2 where u2: "update_deriv_index (set_change_index (dm_ops E)) (change_index db) change db1 = (r2, db2)"
      by (cases "update_deriv_index (set_change_index (dm_ops E)) (change_index db) change db1")
    have "command_safe B (dm_ops E) db1 db2"
      using update_deriv_index_safe [OF u2, of "dm_ops E" True] by (simp add: fun_eq_iff set_change_index_def)
    moreover have "db' = db2"
      using assms u1 u2 Inr by (cases r2) (simp_all add: update_deriv_indexes_def Let_def)
    ultimately show ?thesis using s1 command_safe_trans by blast
  qed
qed

lemma store_spend_effect: "request_effect db (store_spend B now psbt db)"
  by (simp add: store_spend_def Let_def request_effect_def index_grows_def receive_index_def change_index_def)

lemma update_spend_safe:
  assumes "update_spend E psbt db = Ok db'"
  shows "command_safe (dm_btc E) D db db'"
proof -
  have "request_effect db db'"
    using assms by (auto simp: update_spend_def Let_def result_simps store_spend_effect split: option.splits if_splits)
  then show ?thesis using update_spend_db_inv [OF _ refl assms] by (simp add: command_safe_def)
qed

lemma delete_spend_safe: "command_safe B D db (delete_spend txid db)"
  using delete_spend_db_inv
  by (auto simp: command_safe_def request_effect_def delete_spend_def index_grows_def receive_index_def change_index_def)

lemma update_labels_safe: "command_safe B D db (update_labels text items db)"
  using update_labels_db_inv
  by (auto simp: command_safe_def request_effect_def update_labels_def index_grows_def receive_index_def change_index_def)

lemma start_rescan_safe:
  assumes "start_rescan E timestamp db = Ok db'"
  shows "command_safe B D db db'"
proof -
  have "db' = set_rescan timestamp db" using assms by (simp add: start_rescan_Ok)
  then show ?thesis
    using set_rescan_db_inv
    by (auto simp: command_safe_def request_effect_def set_rescan_def index_grows_def receive_index_def change_index_def)
qed

section \<open>The effect of a request\<close>

definition leaves :: "('db \<Rightarrow> bool) \<Rightarrow> ('v, 'db) outcome \<Rightarrow> bool" where
  "leaves Q out \<longleftrightarrow> (case out of Reply _ db' \<Rightarrow> Q db' | Refused _ db' \<Rightarrow> Q db' | Crashed \<Rightarrow> True)"

lemma leaves_simps [simp]:
  "leaves Q (Reply v db') \<longleftrightarrow> Q db'" "leaves Q (Refused err db') \<longleftrightarrow> Q db'" "leaves Q Crashed"
  by (simp_all add: leaves_def)

lemma leaves_reply_of:
  "Q db \<Longrightarrow> (\<And>x db'. r = Ok (x, db') \<Longrightarrow> Q db') \<Longrightarrow> leaves Q (reply_of f r db)"
  by (auto simp: reply_of_def split: sum.splits option.splits)

lemma leaves_reply_read: "Q db \<Longrightarrow> leaves Q (reply_read f r db)"
  by (auto simp: reply_read_def result_simps intro!: leaves_reply_of)

lemma leaves_with_params:
  "Q db \<Longrightarrow> (\<And>x. r = Ok x \<Longrightarrow> leaves Q (f x)) \<Longrightarrow> leaves Q (with_params r db f)"
  by (auto simp: with_params_def split: sum.splits)

lemma leaves_reply_changed:
  "Q db \<Longrightarrow> (\<And>db'. r = Ok db' \<Longrightarrow> Q db') \<Longrightarrow> leaves Q (reply_of f (rbind r (\<lambda>db'. Ok (x, db'))) db)"
  by (rule leaves_reply_of) (auto simp: result_simps)

lemmas leaves_intros = leaves_reply_changed leaves_reply_of leaves_reply_read leaves_with_params

lemmas api_defs = needs_params_def api_create_spend_def api_update_spend_def api_delete_spend_def api_broadcast_spend_def
  api_list_coins_def api_list_addresses_def api_list_revealed_addresses_def
  api_list_confirmed_def api_list_spendtxs_def api_list_transactions_def api_start_rescan_def
  api_create_recovery_def api_update_labels_def api_get_labels_def api_get_labels_bip329_def Let_def

lemmas command_safe_intros = cmd_create_spend_safe rbf_psbt_safe create_recovery_safe get_new_address_safe
  update_spend_safe delete_spend_safe update_labels_safe start_rescan_safe

lemma api_update_deriv_indexes_safe:
  "leaves (command_safe B (dm_ops E) db) (api_update_deriv_indexes E p db)"
proof -
  have "leaves (command_safe B (dm_ops E) db)
      (case update_deriv_indexes E receive change db of
         (Inr (r, c), db') \<Rightarrow> Reply (V_Indexes r c) db'
       | (Inl e, db') \<Rightarrow> reply_of (\<lambda>_ :: unit. V_Empty) (Err e) db')" for receive change
    using update_deriv_indexes_safe [of E receive change db]
    by (auto split: prod.splits sum.splits intro!: leaves_reply_of)
  then show ?thesis
    by (auto simp: api_update_deriv_indexes_def intro!: leaves_with_params)
qed

lemma api_rbf_psbt_safe: "leaves (command_safe B (dm_ops E) db) (api_rbf_psbt V E p db)"
  by (auto simp: api_rbf_psbt_def intro!: leaves_with_params leaves_reply_of split: option.splits intro: rbf_psbt_safe)

lemma get_new_address_request_safe:
  "leaves (command_safe B (dm_ops E) db) (reply_of V_Address (ok_or CmdPanic (get_new_address E db)) db)"
  by (rule leaves_reply_of) (auto simp: result_simps intro: get_new_address_safe)

lemma handle_request_safe:
  "leaves (command_safe (dm_btc E) (dm_ops E) db) (handle_request V E req db)"
  unfolding handle_request_def needs_params_def Let_def
  by (auto intro!: leaves_with_params leaves_reply_changed leaves_reply_read get_new_address_request_safe
        api_update_deriv_indexes_safe api_rbf_psbt_safe simp: api_defs
      intro: leaves_reply_of command_safe_intros)

end
