(* ===== verification/Rpc_Server.thy ===== *)
theory Rpc_Server
  imports Api_Lemmas "HOL-Library.Word"
begin

text \<open>
  The connections of the JSON-RPC server (\<open>lianad/src/jsonrpc/server/unix.rs\<close>): how requests are cut
  from the bytes of the socket and answered (\<open>lianad/src/jsonrpc/rpc.rs\<close>). The deserialisation of
  a request is a parameter; the socket is the list of what its reads find.
\<close>

section \<open>Responses\<close>

record ('ms, 'tr) response =
  rs_jsonrpc :: string
  rs_result :: "('ms, 'tr) rpc_value option"
  rs_error :: "rpc_error option"
  rs_id :: req_id

definition response_new :: "req_id \<Rightarrow> ('ms, 'tr) rpc_value option \<Rightarrow> rpc_error option \<Rightarrow> ('ms, 'tr) response" where
  "response_new i result err = \<lparr>rs_jsonrpc = ''2.0'', rs_result = result, rs_error = err, rs_id = i\<rparr>"

definition response_success :: "req_id \<Rightarrow> ('ms, 'tr) rpc_value \<Rightarrow> ('ms, 'tr) response" where
  "response_success i result = response_new i (Some result) None"

definition response_error :: "req_id \<Rightarrow> rpc_error \<Rightarrow> ('ms, 'tr) response" where
  "response_error i err = response_new i None (Some err)"

section \<open>Reading a command\<close>

type_synonym byte = "8 word"

text \<open>
  The socket: each element is what arrives at once, or an error of the read; at the end of the list the
  connection is closed. A read returns no more than the room it is given.
\<close>

type_synonym socket = "byte list option list"

fun socket_read :: "nat \<Rightarrow> socket \<Rightarrow> (byte list \<times> socket) option" where
  "socket_read room [] = Some ([], [])"
| "socket_read room (None # s) = None"
| "socket_read room (Some c # s) = Some (if length c \<le> room then (c, s) else (take room c, Some (drop room c) # s))"

record reader =
  rd_buf :: "byte list"
  rd_end :: nat
  rd_cursor :: nat
  rd_socket :: socket

datatype read_error = Read_Failed | Malformed_Request | Read_Panic

definition slice :: "nat \<Rightarrow> nat \<Rightarrow> 'a list \<Rightarrow> 'a list option" where
  "slice a b xs = (if a \<le> b \<and> b \<le> length xs then Some (take (b - a) (drop a xs)) else None)"

fun position :: "('a \<Rightarrow> bool) \<Rightarrow> 'a list \<Rightarrow> nat option" where
  "position p [] = None"
| "position p (x # xs) = (if p x then Some 0 else map_option Suc (position p xs))"

fun socket_size :: "socket \<Rightarrow> nat" where
  "socket_size [] = 0"
| "socket_size (None # s) = socket_size s"
| "socket_size (Some c # s) = length c + socket_size s"

lemma socket_read_size:
  "socket_read room s = Some (new, s') \<Longrightarrow> socket_size s = length new + socket_size s'"
  by (induction room s rule: socket_read.induct) (auto split: if_splits)

function read_loop :: "(byte list \<Rightarrow> request option) \<Rightarrow> reader \<Rightarrow> read_error + request option \<times> reader" where
  "read_loop parse r =
     (let buf = rd_buf r; cursor = rd_cursor r; used = rd_end r in
      case slice cursor used buf of
        None \<Rightarrow> Err Read_Panic
      | Some window \<Rightarrow>
          (case position (\<lambda>byt. byt = 10) window of
             Some pos \<Rightarrow>
               (case parse (take (cursor + pos) buf) of
                  None \<Rightarrow> Err Malformed_Request
                | Some req \<Rightarrow>
                    Ok (Some req, r\<lparr>rd_buf := drop (pos + 1) buf, rd_cursor := 0, rd_end := used - (pos + 1)\<rparr>))
           | None \<Rightarrow>
               (case socket_read (length buf - used) (rd_socket r) of
                  None \<Rightarrow> Err Read_Failed
                | Some (new, socket) \<Rightarrow>
                    (if new = [] then Ok (None, r\<lparr>rd_socket := socket\<rparr>)
                     else
                       (let used' = used + length new;
                            filled = take used buf @ new @ drop used' buf;
                            buf' = (if used' = length filled then filled @ replicate (length filled) 0 else filled)
                        in read_loop parse (r\<lparr>rd_buf := buf', rd_end := used', rd_socket := socket\<rparr>))))))"
  by pat_completeness auto

termination
  by (relation "measure (\<lambda>(parse, r). socket_size (rd_socket r))")
    (auto dest: socket_read_size)

definition read_command :: "(byte list \<Rightarrow> request option) \<Rightarrow> reader \<Rightarrow> read_error + request option \<times> reader" where
  "read_command parse r = (if rd_buf r = [] then Err Read_Panic else read_loop parse r)"

declare read_loop.simps [simp del]

section \<open>Answering the requests of a connection\<close>

text \<open>
  One round of a connection: whether another thread has asked for the shutdown, what the request reads,
  and whether the response could be written.
\<close>

record ('ms, 'tr, 'cs) round =
  ro_shutdown :: bool
  ro_env :: rpc_env
  ro_daemon :: "('ms, 'tr, 'cs) daemon"
  ro_written :: bool

text \<open>The response to a request and the database it leaves; \<open>None\<close> is a panic.\<close>

definition respond :: "rpc_env \<Rightarrow> ('ms, 'tr, 'cs) daemon \<Rightarrow> request \<Rightarrow> ('ms, 'tr) database \<Rightarrow> (('ms, 'tr) response \<times> ('ms, 'tr) database) option" where
  "respond V E req db = (case handle_request V E req db of
     Reply v db' \<Rightarrow> Some (response_success (rq_id req) v, db')
   | Refused err db' \<Rightarrow> Some (response_error (rq_id req) err, db')
   | Crashed \<Rightarrow> None)"

text \<open>
  The responses of a connection in their order, whether it asked for the shutdown, and the database. When no round
  is left the connection waits for the next request.
\<close>

fun connection_handler ::
  "(byte list \<Rightarrow> request option) \<Rightarrow> ('ms, 'tr, 'cs) round list \<Rightarrow> reader \<Rightarrow> bool \<Rightarrow> ('ms, 'tr) database
     \<Rightarrow> (('ms, 'tr) response list \<times> bool \<times> ('ms, 'tr) database) option" where
  "connection_handler parse [] r stopped db = Some ([], stopped, db)"
| "connection_handler parse (t # ts) r stopped db =
     (if stopped \<or> ro_shutdown t then Some ([], stopped, db)
      else
        (case read_command parse r of
           Inl Read_Panic \<Rightarrow> None
         | Inl _ \<Rightarrow> Some ([], stopped, db)
         | Inr (None, _) \<Rightarrow> Some ([], stopped, db)
         | Inr (Some req, r') \<Rightarrow>
             (let stopped' = (stopped \<or> rq_method req = ''stop'') in
              case respond (ro_env t) (ro_daemon t) req db of
                None \<Rightarrow> None
              | Some (response, db') \<Rightarrow>
                  (if \<not> ro_written t then Some ([], stopped', db')
                   else map_option (\<lambda>(rs, stopped, db). (response # rs, stopped, db)) (connection_handler parse ts r' stopped' db')))))"

definition new_reader :: "socket \<Rightarrow> reader" where
  "new_reader socket = \<lparr>rd_buf = replicate 2048 0, rd_end = 0, rd_cursor = 0, rd_socket = socket\<rparr>"

section \<open>Framing\<close>

text \<open>The bytes that are still to be read: the rest of the buffer, then of the socket.\<close>

fun socket_bytes :: "socket \<Rightarrow> byte list" where
  "socket_bytes [] = []"
| "socket_bytes (None # s) = []"
| "socket_bytes (Some c # s) = c @ socket_bytes s"

definition to_read :: "reader \<Rightarrow> byte list" where
  "to_read r = take (rd_end r) (rd_buf r) @ socket_bytes (rd_socket r)"

text \<open>The socket neither fails nor delivers nothing before it is closed.\<close>

definition socket_ok :: "socket \<Rightarrow> bool" where
  "socket_ok s \<longleftrightarrow> None \<notin> set s \<and> Some [] \<notin> set s"

text \<open>The buffer always has room, so that a read of nothing is the end of the connection.\<close>

definition reader_ok :: "reader \<Rightarrow> bool" where
  "reader_ok r \<longleftrightarrow> rd_cursor r = 0 \<and> rd_end r < length (rd_buf r)"

definition split_line :: "byte list \<Rightarrow> (byte list \<times> byte list) option" where
  "split_line bs = (if 10 \<in> set bs then Some (takeWhile (\<lambda>b. b \<noteq> 10) bs, tl (dropWhile (\<lambda>b. b \<noteq> 10) bs)) else None)"

lemma position_None: "position p xs = None \<longleftrightarrow> (\<forall>x \<in> set xs. \<not> p x)"
  by (induction xs) auto

lemma position_Some:
  "position p xs = Some n \<Longrightarrow> n < length xs \<and> takeWhile (\<lambda>x. \<not> p x) xs = take n xs \<and>
     dropWhile (\<lambda>x. \<not> p x) xs = drop n xs \<and> p (xs ! n)"
  by (induction xs arbitrary: n) (auto split: if_splits)

lemma socket_read_ok:
  assumes "socket_ok s" "0 < room"
  obtains new s' where "socket_read room s = Some (new, s')" "socket_ok s'" "length new \<le> room"
    "socket_bytes s = new @ socket_bytes s'" "new = [] \<longleftrightarrow> s = []"
proof (cases s)
  case Nil
  then show ?thesis using that [of "[]" "[]"] by (simp add: socket_ok_def)
next
  case (Cons e s')
  with assms(1) obtain c where c: "s = Some c # s'" "c \<noteq> []" "socket_ok s'"
    by (cases e) (auto simp: socket_ok_def)
  show ?thesis
  proof (cases "length c \<le> room")
    case True
    then show ?thesis using that [of c s'] c by simp
  next
    case False
    then show ?thesis
      using that [of "take room c" "Some (drop room c) # s'"] c assms(2) by (auto simp: socket_ok_def)
  qed
qed

lemma split_line_append [simp]: "10 \<notin> set line \<Longrightarrow> split_line (line @ 10 # rest) = Some (line, rest)"
  unfolding split_line_def by (induction line) auto

lemma split_line_position:
  assumes "position (\<lambda>b. b = 10) xs = Some pos"
  shows "split_line (xs @ ys) = Some (take pos xs, drop (pos + 1) xs @ ys)"
proof -
  note p = position_Some [OF assms]
  have "xs ! pos = 10" "pos < length xs" using p by auto
  then have "xs = take pos xs @ 10 # drop (pos + 1) xs" by (metis Suc_eq_plus1 id_take_nth_drop)
  moreover have "10 \<notin> set (take pos xs)" using p by (metis (mono_tags, lifting) set_takeWhileD)
  ultimately show ?thesis using split_line_append by (metis append.assoc append_Cons)
qed

lemma split_line_None: "split_line bs = None \<longleftrightarrow> 10 \<notin> set bs"
  by (simp add: split_line_def)

text \<open>What reading one command must do, however its bytes arrive.\<close>

definition reads_line ::
  "(byte list \<Rightarrow> request option) \<Rightarrow> byte list \<Rightarrow> read_error + request option \<times> reader \<Rightarrow> bool" where
  "reads_line parse bytes out = (case split_line bytes of
     None \<Rightarrow> (\<exists>r'. out = Ok (None, r'))
   | Some (line, rest) \<Rightarrow>
       (case parse line of
          None \<Rightarrow> out = Err Malformed_Request
        | Some req \<Rightarrow> (\<exists>r'. out = Ok (Some req, r') \<and> to_read r' = rest \<and> reader_ok r' \<and> socket_ok (rd_socket r'))))"

lemma read_loop_reads:
  assumes "reader_ok r" "socket_ok (rd_socket r)"
  shows "reads_line parse (to_read r) (read_loop parse r)"
  using assms
proof (induction parse r rule: read_loop.induct)
  case (1 parse r)
  let ?buf = "rd_buf r" and ?used = "rd_end r"
  have ok: "rd_cursor r = 0" "?used < length ?buf" using 1(2) by (simp_all add: reader_ok_def)
  then have w: "slice (rd_cursor r) ?used ?buf = Some (take ?used ?buf)" by (simp add: slice_def)
  show ?case
  proof (cases "position (\<lambda>byt. byt = 10) (take ?used ?buf)")
    case (Some pos)
    then have pos: "pos < ?used" using position_Some [OF Some] by simp
    have "split_line (to_read r) = Some (take pos ?buf, drop (pos + 1) (take ?used ?buf) @ socket_bytes (rd_socket r))"
      using split_line_position [OF Some] pos by (simp add: to_read_def min_def)
    moreover have "read_loop parse r = (case parse (take pos ?buf) of
        None \<Rightarrow> Err Malformed_Request
      | Some req \<Rightarrow> Ok (Some req, r\<lparr>rd_buf := drop (pos + 1) ?buf, rd_cursor := 0, rd_end := ?used - (pos + 1)\<rparr>))"
      using w Some ok(1) by (subst read_loop.simps) (simp add: Let_def)
    ultimately show ?thesis
      using pos ok(2) 1(3) by (auto simp: reads_line_def to_read_def reader_ok_def drop_take split: option.split)
  next
    case None
    obtain new s' where s: "socket_read (length ?buf - ?used) (rd_socket r) = Some (new, s')" "socket_ok s'"
      "length new \<le> length ?buf - ?used" "socket_bytes (rd_socket r) = new @ socket_bytes s'" "new = [] \<longleftrightarrow> rd_socket r = []"
      by (rule socket_read_ok [OF 1(3), of "length ?buf - ?used"]) (use ok in auto)
    show ?thesis
    proof (cases "new = []")
      case True
      then have "split_line (to_read r) = None"
        using None s unfolding position_None split_line_None by (auto simp: to_read_def)
      then show ?thesis
        using w None s True by (subst read_loop.simps) (simp add: reads_line_def Let_def)
    next
      case False
      let ?used' = "?used + length new"
      let ?filled = "take ?used ?buf @ new @ drop ?used' ?buf"
      let ?buf' = "if ?used' = length ?filled then ?filled @ replicate (length ?filled) 0 else ?filled"
      let ?r' = "r\<lparr>rd_buf := ?buf', rd_end := ?used', rd_socket := s'\<rparr>"
      have len: "length ?filled = length ?buf" using s(3) ok(2) by simp
      have "reader_ok ?r'" using ok len s(3) False by (auto simp: reader_ok_def)
      moreover have "to_read ?r' = to_read r" using ok s(3,4) by (simp add: to_read_def min_def)
      ultimately have "reads_line parse (to_read r) (read_loop parse ?r')"
        using 1(1) [OF refl refl refl w None s(1) refl False refl refl refl] s(2) by simp
      then show ?thesis
        using w None s False by (subst read_loop.simps) (simp add: Let_def)
    qed
  qed
qed

lemma read_command_reads:
  assumes "reader_ok r" "socket_ok (rd_socket r)"
  shows "reads_line parse (to_read r) (read_command parse r)"
  using read_loop_reads [OF assms] assms(1) by (auto simp: read_command_def reader_ok_def)

section \<open>The responses of a connection\<close>

lemma split_line_length:
  assumes "split_line bs = Some (line, rest)"
  shows "length rest < length bs"
proof -
  have "10 \<in> set bs \<Longrightarrow> length (tl (dropWhile (\<lambda>b. b \<noteq> 10) bs)) < length bs"
    by (induction bs) auto
  then show ?thesis using assms by (auto simp: split_line_def split: if_splits)
qed

text \<open>The complete lines of what is still to be read.\<close>

function complete_lines :: "byte list \<Rightarrow> byte list list" where
  "complete_lines bs = (case split_line bs of None \<Rightarrow> [] | Some (line, rest) \<Rightarrow> line # complete_lines rest)"
  by pat_completeness auto

termination
  by (relation "measure length") (auto dest: split_line_length)

declare complete_lines.simps [simp del]

definition answers :: "(byte list \<Rightarrow> request option) \<Rightarrow> byte list \<Rightarrow> ('ms, 'tr) response \<Rightarrow> bool" where
  "answers parse line response \<longleftrightarrow> (\<exists>req. parse line = Some req \<and> rs_id response = rq_id req \<and>
     rs_jsonrpc response = ''2.0'' \<and> (rs_error response = None \<longleftrightarrow> rs_result response \<noteq> None))"

definition asks_stop :: "(byte list \<Rightarrow> request option) \<Rightarrow> byte list \<Rightarrow> bool" where
  "asks_stop parse line \<longleftrightarrow> (\<exists>req. parse line = Some req \<and> rq_method req = ''stop'')"

lemma respond_Some:
  assumes "respond V E req db = Some (response, db')"
  shows "rs_id response = rq_id req" "rs_jsonrpc response = ''2.0''" "rs_error response = None \<longleftrightarrow> rs_result response \<noteq> None"
    "command_safe (dm_btc E) (dm_ops E) db db'"
  using assms handle_request_safe [of E db V req]
  by (auto simp: respond_def response_success_def response_error_def response_new_def split: outcome.splits)

lemma read_command_never_panics:
  assumes "reader_ok r" "socket_ok (rd_socket r)"
  shows "read_command parse r \<noteq> Err Read_Panic"
  using read_command_reads [OF assms, of parse] by (auto simp: reads_line_def split: option.splits)

lemma read_command_Some:
  assumes "reader_ok r" "socket_ok (rd_socket r)" "read_command parse r = Ok (Some req, r')"
  obtains line where "complete_lines (to_read r) = line # complete_lines (to_read r')" "parse line = Some req"
    "reader_ok r'" "socket_ok (rd_socket r')"
  using read_command_reads [OF assms(1,2), of parse] assms(3) that
  by (auto simp: reads_line_def complete_lines.simps [of "to_read r"] split: option.splits)

definition good_answers ::
  "(byte list \<Rightarrow> request option) \<Rightarrow> byte list list \<Rightarrow> ('ms, 'tr) response list \<Rightarrow> bool" where
  "good_answers parse lines rs \<longleftrightarrow> list_all2 (answers parse) (take (length rs) lines) rs \<and>
     \<not> list_ex (asks_stop parse) (butlast (take (length rs) lines))"

lemma good_answers_Nil [simp]: "good_answers parse lines []"
  by (simp add: good_answers_def)

lemma good_answers_Cons:
  assumes "answers parse line response" "good_answers parse lines rs" "asks_stop parse line \<longrightarrow> rs = []"
  shows "good_answers parse (line # lines) (response # rs)"
  using assms by (auto simp: good_answers_def)

lemma connection_handler_stopped:
  "connection_handler parse ts r True db = Some ([], True, db)"
  by (cases ts) auto

lemma connection_handler_answers:
  assumes "connection_handler parse ts r stopped db = Some (rs, stopped', db')"
    "reader_ok r" "socket_ok (rd_socket r)"
    "\<forall>t \<in> set ts. dm_btc (ro_daemon t) = B \<and> dm_ops (ro_daemon t) = D"
  shows "good_answers parse (complete_lines (to_read r)) rs \<and> command_safe B D db db'"
  using assms
proof (induction parse ts r stopped db arbitrary: rs stopped' db' rule: connection_handler.induct)
  case (2 parse t ts r stopped db)
  show ?case
  proof (cases "rs = [] \<and> db' = db")
    case False
    then obtain req r' response db1 where a: "\<not> stopped" "\<not> ro_shutdown t" "read_command parse r = Ok (Some req, r')"
      "respond (ro_env t) (ro_daemon t) req db = Some (response, db1)"
      and rest: "if \<not> ro_written t then rs = [] \<and> db' = db1
        else \<exists>rs'. rs = response # rs' \<and> connection_handler parse ts r' (rq_method req = ''stop'') db1 = Some (rs', stopped', db')"
      using 2(2) by (auto simp: Let_def split: if_splits sum.splits prod.splits option.splits read_error.splits)
    obtain line where l: "complete_lines (to_read r) = line # complete_lines (to_read r')" "parse line = Some req"
      "reader_ok r'" "socket_ok (rd_socket r')"
      by (rule read_command_Some [OF 2(3,4) a(3)])
    have safe: "command_safe B D db db1" using respond_Some(4) [OF a(4)] 2(5) by simp
    show ?thesis
    proof (cases "ro_written t")
      case False
      then show ?thesis using rest safe by simp
    next
      case True
      then obtain rs' where rs': "rs = response # rs'"
        "connection_handler parse ts r' (rq_method req = ''stop'') db1 = Some (rs', stopped', db')" using rest by auto
      have "good_answers parse (complete_lines (to_read r')) rs' \<and> command_safe B D db1 db'"
        using 2(1) a rs'(2) True l(3,4) 2(5) by simp
      moreover have "answers parse line response"
        using respond_Some(1-3) [OF a(4)] l(2) by (simp add: answers_def)
      moreover have "asks_stop parse line \<longrightarrow> rs' = []"
        using rs'(2) l(2) by (auto simp: asks_stop_def connection_handler_stopped)
      ultimately show ?thesis
        using l(1) rs'(1) safe command_safe_trans good_answers_Cons by metis
    qed
  qed simp
qed simp

text \<open>A connection that nothing interrupts answers every line it receives.\<close>

definition ordinary :: "(byte list \<Rightarrow> request option) \<Rightarrow> byte list \<Rightarrow> bool" where
  "ordinary parse line \<longleftrightarrow> (\<exists>req. parse line = Some req \<and> rq_method req \<noteq> ''stop'')"

lemma connection_handler_complete:
  assumes "connection_handler parse ts r False db = Some (rs, stopped', db')"
    "reader_ok r" "socket_ok (rd_socket r)" "list_all (ordinary parse) (complete_lines (to_read r))"
    "length (complete_lines (to_read r)) \<le> length ts" "\<forall>t \<in> set ts. \<not> ro_shutdown t \<and> ro_written t"
  shows "length rs = length (complete_lines (to_read r))"
  using assms
proof (induction ts arbitrary: r db rs)
  case (Cons t ts)
  note reads = read_command_reads [OF Cons.prems(2,3), of parse]
  show ?case
  proof (cases "split_line (to_read r)")
    case None
    then obtain r' where "read_command parse r = Ok (None, r')" using reads by (auto simp: reads_line_def)
    then have "rs = []" using Cons.prems(1,6) by simp
    then show ?thesis using None by (simp add: complete_lines.simps [of "to_read r"])
  next
    case (Some l)
    then obtain line rest where l: "split_line (to_read r) = Some (line, rest)" by (cases l) auto
    then have lines: "complete_lines (to_read r) = line # complete_lines rest"
      by (simp add: complete_lines.simps [of "to_read r"])
    then obtain req where req: "parse line = Some req" "rq_method req \<noteq> ''stop''"
      using Cons.prems(4) by (auto simp: ordinary_def)
    then obtain r' where r': "read_command parse r = Ok (Some req, r')" "to_read r' = rest" "reader_ok r'" "socket_ok (rd_socket r')"
      using reads l by (auto simp: reads_line_def)
    then obtain response db1 rs' where "rs = response # rs'"
      "connection_handler parse ts r' False db1 = Some (rs', stopped', db')"
      using Cons.prems(1,6) req(2) by (auto simp: Let_def split: option.splits)
    moreover have "length rs' = length (complete_lines rest)"
      using Cons.IH [OF calculation(2) r'(3,4)] Cons.prems(4-6) lines r'(2) by simp
    ultimately show ?thesis using lines by simp
  qed
qed simp

end
