(* ===== verification/Daemon.thy ===== *)
theory Daemon
  imports Rpc_Server
begin

text \<open>
  The daemon as a whole: its poller and its connections work on the same database, in any order. A
  request and a poll are a step each; the code takes its locks for shorter than that, so what
  interleaves within a command is not modelled.
\<close>

section \<open>The reachable states\<close>

inductive daemon_reaches ::
  "btc \<Rightarrow> ('ms, 'tr) desc_ops \<Rightarrow> ('ms, 'tr, 'cs) daemon set \<Rightarrow> ('ms, 'tr) poller_state \<Rightarrow> ('ms, 'tr) poller_state \<Rightarrow> bool"
  for B D Es s0 where
  start: "daemon_reaches B D Es s0 s0"
| poller: "daemon_reaches B D Es s0 s \<Longrightarrow> poller_step B D now ev s = Some (Ok s') \<Longrightarrow> daemon_reaches B D Es s0 s'"
| request: "daemon_reaches B D Es s0 s \<Longrightarrow> E \<in> Es \<Longrightarrow> respond V E req (ps_db s) = Some (response, db') \<Longrightarrow>
    daemon_reaches B D Es s0 (s\<lparr>ps_db := db'\<rparr>)"

lemma daemon_reaches_trans:
  "daemon_reaches B D Es s1 s2 \<Longrightarrow> daemon_reaches B D Es s0 s1 \<Longrightarrow> daemon_reaches B D Es s0 s2"
  by (induction rule: daemon_reaches.induct) (auto intro: daemon_reaches.intros)

lemma poller_reaches_one:
  assumes "poller_step B D now ev s = Some (Ok s')"
  shows "poller_reaches B D s s'"
  using poller_reaches.step [OF poller_reaches.start assms] .

lemma daemon_reaches_inv:
  assumes "daemon_reaches B D Es s0 s" "db_inv B D (ps_db s0)" "\<forall>E \<in> Es. dm_btc E = B \<and> dm_ops E = D"
  shows "db_inv B D (ps_db s) \<and> index_grows (ps_db s0) (ps_db s) \<and> (ps_synced s0 \<longrightarrow> ps_synced s)"
  using assms
proof (induction rule: daemon_reaches.induct)
  case start
  then show ?case by simp
next
  case (poller s now ev s')
  then show ?case
    using poller_reaches_inv [OF poller_reaches_one [OF poller.hyps(2)]] index_grows_trans by blast
next
  case (request s E V req response db')
  have "command_safe B D (ps_db s) db'" using respond_Some(4) [OF request.hyps(3)] request by simp
  then have "db_inv B D db'" "index_grows (ps_db s) db'" using request by (auto simp: command_safe_def request_effect_def)
  then show ?case using request index_grows_trans by fastforce
qed

text \<open>A run of a connection is a run of the daemon.\<close>

lemma connection_reaches:
  assumes "connection_handler parse ts r stopped db = Some (rs, stopped', db')" "\<forall>t \<in> set ts. ro_daemon t \<in> Es"
    "daemon_reaches B D Es s0 (s\<lparr>ps_db := db\<rparr>)"
  shows "daemon_reaches B D Es s0 (s\<lparr>ps_db := db'\<rparr>)"
  using assms
proof (induction parse ts r stopped db arbitrary: rs stopped' db' rule: connection_handler.induct)
  case (2 parse t ts r stopped db)
  show ?case
  proof (cases "db' = db")
    case False
    then obtain req r' response db1 where a: "\<not> stopped" "\<not> ro_shutdown t" "read_command parse r = Ok (Some req, r')"
      "respond (ro_env t) (ro_daemon t) req db = Some (response, db1)"
      and rest: "if \<not> ro_written t then db' = db1
        else \<exists>rs'. connection_handler parse ts r' (rq_method req = ''stop'') db1 = Some (rs', stopped', db')"
      using 2(2) by (auto simp: Let_def split: if_splits sum.splits prod.splits option.splits read_error.splits)
    have one: "daemon_reaches B D Es s0 (s\<lparr>ps_db := db1\<rparr>)"
      using daemon_reaches.request [OF 2(4), of "ro_daemon t" "ro_env t" req response db1] a(4) 2(3) by simp
    show ?thesis
    proof (cases "ro_written t")
      case False
      then show ?thesis using rest one by simp
    next
      case True
      then show ?thesis using 2(1) a rest one 2(3) by fastforce
    qed
  qed (use 2 in simp)
qed simp

section \<open>Refused requests\<close>

definition rpc_methods :: "string list" where
  "rpc_methods = [''broadcastspend'', ''createrecovery'', ''createspend'', ''delspendtx'', ''rbfpsbt'', ''getinfo'', ''getnewaddress'',
     ''updatederivationindexes'', ''listcoins'', ''listaddresses'', ''listrevealedaddresses'', ''listconfirmed'', ''listspendtxs'',
     ''listtransactions'', ''startrescan'', ''stop'', ''updatespend'', ''updatelabels'', ''getlabels'', ''getlabelsbip329'']"

definition command_codes :: "error_code set" where
  "command_codes = {Invalid_Params, Internal_Error, Server_Error BROADCAST_ERROR}"

definition refuses :: "bool \<Rightarrow> 'db \<Rightarrow> ('v, 'db) outcome \<Rightarrow> bool" where
  "refuses atomic db out \<longleftrightarrow> (\<forall>err db'. out = Refused err db' \<longrightarrow> re_code err \<in> command_codes \<and> (atomic \<longrightarrow> db' = db))"

lemma refuses_Reply [simp]: "refuses atomic db (Reply v db')"
  by (simp add: refuses_def)

lemma error_of_command_code: "error_of_command e = Some err \<Longrightarrow> re_code err \<in> command_codes"
  by (cases e) (auto simp: error_of_command_def command_codes_def)

lemma refuses_reply_of: "refuses atomic db (reply_of f r db)"
  using error_of_command_code by (auto simp: refuses_def reply_of_def split: sum.splits option.splits)

lemma refuses_reply_err: "\<not> atomic \<Longrightarrow> refuses atomic db (reply_of f r db')"
  using error_of_command_code by (auto simp: refuses_def reply_of_def split: sum.splits option.splits)

lemma refuses_reply_read: "refuses atomic db (reply_read f r db)"
  by (simp add: reply_read_def refuses_reply_of)

lemma refuses_with_params:
  "(\<And>x. r = Ok x \<Longrightarrow> refuses atomic db (f x)) \<Longrightarrow> refuses atomic db (with_params r db f)"
  by (auto simp: refuses_def with_params_def invalid_params_def command_codes_def split: sum.splits)

lemma refuses_update_deriv_indexes: "refuses False db (api_update_deriv_indexes E p db)"
  unfolding api_update_deriv_indexes_def
  by (auto intro!: refuses_with_params refuses_reply_err split: prod.splits sum.splits)
    (simp add: refuses_def invalid_params_def command_codes_def)

lemma refuses_rbf_psbt: "refuses atomic db (api_rbf_psbt V E p db)"
  unfolding api_rbf_psbt_def
  by (auto intro!: refuses_with_params refuses_reply_of split: option.splits) (simp add: refuses_def)

lemma handle_request_refuses:
  assumes "rq_method req \<in> set rpc_methods"
  shows "refuses (rq_method req \<noteq> ''updatederivationindexes'') db (handle_request V E req db)"
  using assms unfolding handle_request_def needs_params_def Let_def rpc_methods_def
  by (auto intro!: refuses_with_params refuses_reply_read refuses_reply_of refuses_rbf_psbt refuses_update_deriv_indexes
      simp: api_defs)

lemma handle_request_unknown:
  assumes "rq_method req \<notin> set rpc_methods"
  shows "handle_request V E req db = Refused method_not_found db"
  using assms by (auto simp: handle_request_def Let_def rpc_methods_def)

end
