(* ===== verification/Api_Properties.thy ===== *)
theory Api_Properties
  imports Daemon Example_Runs
begin

text \<open>
  The properties of the JSON-RPC interface and of the daemon it drives: how requests are cut from the
  socket and answered, what a request may change, and the states that polls and requests
  reach together.
\<close>

section \<open>Connections\<close>

text \<open>C11: Reading a command depends only on the bytes and not on how they arrive: while no line is complete the connection waits, and
  when it is closed there is no command; otherwise the request is the first line, what follows it is left to be
  read, and the buffer keeps room. A line that is no request closes the connection.\<close>

theorem read_command_frames:
  assumes "reader_ok r" "socket_ok (rd_socket r)"
  shows "case split_line (to_read r) of
      None \<Rightarrow> \<exists>r'. read_command parse r = Ok (None, r')
    | Some (line, rest) \<Rightarrow>
        (case parse line of
           None \<Rightarrow> read_command parse r = Err Malformed_Request
         | Some req \<Rightarrow> \<exists>r'. read_command parse r = Ok (Some req, r') \<and> to_read r' = rest \<and> reader_ok r' \<and> socket_ok (rd_socket r'))"
  using read_command_reads [OF assms, of parse] by (simp add: reads_line_def)

definition example_parse :: "byte list \<Rightarrow> request option" where
  "example_parse line = (if line = [] then None else
     Some \<lparr>rq_jsonrpc = ''2.0'', rq_method = (if line = [115] then ''stop'' else ''getinfo''), rq_params = None, rq_id = Req_Num (length line)\<rparr>)"

definition example_reader :: reader where
  "example_reader = \<lparr>rd_buf = [0, 0], rd_end = 0, rd_cursor = 0, rd_socket = [Some [103, 10, 103], Some [103, 10]]\<rparr>"

lemma example_reader_ok: "reader_ok example_reader" "socket_ok (rd_socket example_reader)"
  by (simp_all add: example_reader_def reader_ok_def socket_ok_def)

lemma example_reader_lines:
  "split_line (to_read example_reader) = Some ([103], [103, 103, 10])"
  "complete_lines (to_read example_reader) = [[103], [103, 103]]"
  by (simp_all add: example_reader_def to_read_def split_line_def complete_lines.simps)

theorem read_command_frames_witness:
  "\<exists>r'. read_command example_parse example_reader = Ok (example_parse [103], r') \<and> to_read r' = [103, 103, 10]"
  using read_command_frames [OF example_reader_ok, of example_parse]
  by (simp add: example_reader_lines) (auto simp: example_parse_def)

text \<open>C12: The responses of a connection answer the lines it receives in their order, each with the identifier of its request and
  either a result or an error; nothing is answered after a request to stop. When nothing interrupts the connection it
  answers every line. The database keeps its invariant.\<close>

theorem connection_answers:
  assumes "connection_handler parse ts r False db = Some (rs, stopped', db')" "reader_ok r" "socket_ok (rd_socket r)"
    "\<forall>t \<in> set ts. dm_btc (ro_daemon t) = B \<and> dm_ops (ro_daemon t) = D" "db_inv B D db"
  shows "list_all2 (answers parse) (take (length rs) (complete_lines (to_read r))) rs \<and>
    \<not> list_ex (asks_stop parse) (butlast (take (length rs) (complete_lines (to_read r)))) \<and> db_inv B D db' \<and>
    (list_all (ordinary parse) (complete_lines (to_read r)) \<and> length (complete_lines (to_read r)) \<le> length ts \<and>
     (\<forall>t \<in> set ts. \<not> ro_shutdown t \<and> ro_written t) \<longrightarrow> length rs = length (complete_lines (to_read r)))"
  using connection_handler_answers [OF assms(1-4)] assms(5) connection_handler_complete [OF assms(1-3)]
  by (simp add: good_answers_def command_safe_def)

definition example_parsers :: parsers where
  "example_parsers = \<lparr>parse_address = (\<lambda>s. case s of c # t \<Rightarrow> if c = CHR ''a'' then Some (length t) else None | [] \<Rightarrow> None),
     parse_outpoint = (\<lambda>s. case s of c # t \<Rightarrow>
         if c = CHR ''o'' then Some \<lparr>op_txid = length (takeWhile (\<lambda>d. d \<noteq> CHR '':'') t), op_vout = length (tl (dropWhile (\<lambda>d. d \<noteq> CHR '':'') t))\<rparr>
         else None | [] \<Rightarrow> None),
     parse_txid = (\<lambda>s. case s of c # t \<Rightarrow> if c = CHR ''t'' then Some (length t) else None | [] \<Rightarrow> None),
     parse_psbt = (\<lambda>_. None),
     deserialize_hex = (\<lambda>s. case s of c # t \<Rightarrow> if c = CHR ''t'' then Some (length t) else None | [] \<Rightarrow> None),
     item_text = (\<lambda>item. case item of Label_Address a \<Rightarrow> CHR ''a'' # replicate a CHR ''1''
     | Label_Txid t \<Rightarrow> CHR ''t'' # replicate t CHR ''1''
     | Label_OutPoint op \<Rightarrow> CHR ''o'' # replicate (op_txid op) CHR ''1'' @ CHR '':'' # replicate (op_vout op) CHR ''1'')\<rparr>"

definition example_env :: rpc_env where
  "example_env = \<lparr>rv_version = ''13.0-dev'', rv_parsers = example_parsers, rv_order = (\<lambda>m. m), rv_item_order = (\<lambda>m. m),
     rv_sync_progress = 100, rv_rescan_progress = None\<rparr>"

definition example_rounds :: "(conc_policy \<times> nat, conc_policy, example_selector) round list" where
  "example_rounds = replicate 2 \<lparr>ro_shutdown = False, ro_env = example_env, ro_daemon = example_daemon, ro_written = True\<rparr>"

lemma example_getinfo:
  "rq_method req = ''getinfo'' \<Longrightarrow> respond V E req db = Some (response_success (rq_id req) (V_Info (get_info V E db)), db)"
  by (simp add: respond_def handle_request_def Let_def)

lemma example_connection:
  "\<exists>rs. connection_handler example_parse example_rounds example_reader False example_db = Some (rs, False, example_db)"
proof -
  obtain r1 req1 where r1: "read_command example_parse example_reader = Ok (Some req1, r1)" "rq_method req1 = ''getinfo''"
    "reader_ok r1" "socket_ok (rd_socket r1)" "to_read r1 = [103, 103, 10]"
    using read_command_reads [OF example_reader_ok, of example_parse]
    by (auto simp: reads_line_def example_reader_lines example_parse_def)
  obtain r2 req2 where r2: "read_command example_parse r1 = Ok (Some req2, r2)" "rq_method req2 = ''getinfo''"
    using read_command_reads [OF r1(3,4), of example_parse] r1(5)
    by (auto simp: reads_line_def split_line_def example_parse_def)
  show ?thesis
    by (simp add: example_rounds_def numeral_2_eq_2 r1(1,2) r2 Let_def example_getinfo)
qed

theorem connection_answers_witness:
  "\<exists>rs. connection_handler example_parse example_rounds example_reader False example_db = Some (rs, False, example_db) \<and>
     length rs = 2 \<and> map rs_id rs = [Req_Num 1, Req_Num 2]"
proof -
  obtain rs where c: "connection_handler example_parse example_rounds example_reader False example_db = Some (rs, False, example_db)"
    using example_connection by blast
  have d: "\<forall>t \<in> set example_rounds. dm_btc (ro_daemon t) = example_btc \<and> dm_ops (ro_daemon t) = example_ops"
    "\<forall>t \<in> set example_rounds. \<not> ro_shutdown t \<and> ro_written t" "length example_rounds = 2"
    by (simp_all add: example_rounds_def)
  have "length rs = 2" "list_all2 (answers example_parse) (take (length rs) [[103], [103, 103]]) rs"
    using connection_answers [OF c example_reader_ok d(1) example_db_inv] d(2,3)
    by (auto simp: example_reader_lines ordinary_def example_parse_def)
  then show ?thesis
    using c by (auto simp: list_all2_Cons1 answers_def example_parse_def)
qed

section \<open>Requests\<close>

text \<open>Whatever its method and parameters, a request that is answered, with a result or an error, keeps the invariant of the database;
  it lowers no derivation index and leaves the coins, the transactions, the tip of the chain, the
  descriptor and the network to the poller.\<close>

theorem request_effects:
  assumes "respond V E req db = Some (response, db')" "db_inv (dm_btc E) (dm_ops E) db"
  shows "db_inv (dm_btc E) (dm_ops E) db' \<and> receive_index db \<le> receive_index db' \<and> change_index db \<le> change_index db' \<and>
    coins_table db' = coins_table db \<and> transactions_table db' = transactions_table db \<and> chain_tip db' = chain_tip db \<and>
    wallet_descriptor db' = wallet_descriptor db \<and> db_network db' = db_network db"
  using respond_Some(4) [OF assms(1)] assms(2) by (simp add: command_safe_def request_effect_def index_grows_def)

definition example_request :: "string \<Rightarrow> params option \<Rightarrow> request" where
  "example_request m p = \<lparr>rq_jsonrpc = ''2.0'', rq_method = m, rq_params = p, rq_id = Req_Num 7\<rparr>"

lemma example_new_address:
  "\<exists>r db'. get_new_address example_daemon example_db = Some (r, db') \<and> receive_index db' = 4"
proof -
  have "get_new_address example_daemon example_db \<noteq> None"
    by (rule get_new_address_succeeds)
      (simp_all add: example_addresses_injective example_addresses_inv receive_index_def LOOK_AHEAD_LIMIT_def)
  then obtain r db' where r: "get_new_address example_daemon example_db = Some (r, db')" by (auto simp: not_None_eq)
  then show ?thesis using get_new_address_Some(2) [OF r] by (auto simp: receive_index_def is_normal_def)
qed

lemma example_respond_new_address:
  "\<exists>response db'. respond example_env example_daemon (example_request ''getnewaddress'' None) example_db = Some (response, db') \<and>
     rs_error response = None \<and> receive_index db' = 4"
  using example_new_address
  by (auto simp: respond_def handle_request_def Let_def example_request_def reply_of_def ok_or_def response_success_def response_new_def)

theorem request_effects_witness:
  "\<exists>response db'. respond example_env example_daemon (example_request ''getnewaddress'' None) example_db = Some (response, db') \<and>
     receive_index db' = 4 \<and> coins_table db' = example_coins \<and> db_inv example_btc example_ops db'"
proof -
  obtain response db' where r: "respond example_env example_daemon (example_request ''getnewaddress'' None) example_db = Some (response, db')"
    "receive_index db' = 4" using example_respond_new_address by blast
  then show ?thesis using request_effects [OF r(1)] example_db_inv by simp
qed



section \<open>The daemon\<close>

text \<open>C7: Whatever polls and requests follow one another, with whatever answers of the backend, every state that the daemon reaches has a
  database that satisfies the invariant and derivation indexes no lower than at its start; once found
  synced it stays so.\<close>

theorem daemon_safe:
  assumes "daemon_reaches B D Es s0 s" "db_inv B D (ps_db s0)" "\<forall>E \<in> Es. dm_btc E = B \<and> dm_ops E = D"
  shows "db_inv B D (ps_db s) \<and> receive_index (ps_db s0) \<le> receive_index (ps_db s) \<and>
    change_index (ps_db s0) \<le> change_index (ps_db s) \<and> (ps_synced s0 \<longrightarrow> ps_synced s)"
  using daemon_reaches_inv [OF assms] by (simp add: index_grows_def)

theorem daemon_safe_witness:
  "\<exists>s. daemon_reaches example_btc example_ops {example_daemon} \<lparr>ps_last_poll = None, ps_synced = False, ps_db = example_db\<rparr> s \<and>
     ps_synced s \<and> db_inv example_btc example_ops (ps_db s) \<and> tip_blockheight (ps_db s) = Some 121"
proof -
  let ?s0 = "\<lparr>ps_last_poll = None, ps_synced = False, ps_db = example_db\<rparr>"
  let ?s1 = "\<lparr>ps_last_poll = Some 90100, ps_synced = True, ps_db = set_last_poll 90100 example_polled\<rparr>"
  let ?db = "set_last_poll 90100 example_polled"
  let ?req = "example_request ''delspendtx'' (Some (Params_Array [J_String ''t1'']))"
  have "poller_step example_btc example_ops 90100 (Ev_Timeout True example_poll) ?s0 = Some (Ok ?s1)"
    by (simp add: poller_step_def poll_if_synced_def Let_def example_poll_run)
  then have "daemon_reaches example_btc example_ops {example_daemon} ?s0 ?s1"
    by (rule daemon_reaches.poller [OF daemon_reaches.start])
  moreover have "respond example_env example_daemon ?req ?db = Some (response_success (Req_Num 7) V_Empty, delete_spend 1 ?db)"
    by (simp add: respond_def handle_request_def Let_def example_request_def needs_params_def api_delete_spend_def with_params_def
        required_def read_txid_def example_env_def example_parsers_def ok_or_def)
  ultimately have "daemon_reaches example_btc example_ops {example_daemon} ?s0 (?s1\<lparr>ps_db := delete_spend 1 ?db\<rparr>)"
    using daemon_reaches.request by fastforce
  from daemon_safe [OF this] this show ?thesis
    using example_db_inv by (intro exI [of _ "?s1\<lparr>ps_db := delete_spend 1 ?db\<rparr>"])
      (simp add: delete_spend_def set_last_poll_def example_polled_def)
qed

section \<open>Labels\<close>

text \<open>A label of the database that is not empty, exported and imported again on the network of its address, is the same label of the same
  item, whenever the parsers read back what is written and reversing the bytes of a transaction id twice gives them back.\<close>

theorem label_survives_export:
  assumes "parsers_ok P" "case item of Label_Address a \<Rightarrow> addr_valid_for B a network | _ \<Rightarrow> True" "v \<noteq> []"
    "rl_item_kind r = label_kind item" "rl_item r = item_text P item" "rl_value r = v"
  shows "\<exists>l. label_to_bip329 P r = Some l \<and> label_from_bip329 B P l network = Some (item, v)"
proof -
  have "r = \<lparr>rl_item_kind = label_kind item, rl_item = item_text P item, rl_value = v\<rparr>" using assms(4-6) by simp
  then show ?thesis using label_bip329_roundtrip [OF assms(1-3)] by (auto simp: bind_eq_Some_conv)
qed

lemma takeWhile_replicate_sep [simp]:
  "c \<noteq> d \<Longrightarrow> takeWhile (\<lambda>x. x \<noteq> d) (replicate n c @ d # ys) = replicate n c"
  "c \<noteq> d \<Longrightarrow> dropWhile (\<lambda>x. x \<noteq> d) (replicate n c @ d # ys) = d # ys"
  by (induction n) auto

lemma example_parsers_ok: "parsers_ok example_parsers"
  by (auto simp: parsers_ok_def example_parsers_def intro!: exI [of _ "\<lambda>t. t"])

theorem label_survives_export_witness:
  "\<exists>l. label_to_bip329 example_parsers \<lparr>rl_item_kind = Kind_Txid, rl_item = ''t111'', rl_value = ''rent''\<rparr> = Some l \<and>
     label_from_bip329 example_btc example_parsers l 0 = Some (Label_Txid 3, ''rent'')"
  by (rule label_survives_export [OF example_parsers_ok])
    (simp_all add: label_kind_def example_parsers_def numeral_3_eq_3)

end
