(* ===== verification/Migrations.thy ===== *)
theory Migrations
  imports From_Self
begin

text \<open>
  The upgrade of a database file of an earlier version (\<open>lianad/src/database/sqlite/utils.rs\<close>) and
  the opening of the database at startup (\<open>setup_sqlite\<close> of \<open>lianad/src/lib.rs\<close>).

  A file has the tables and columns that were added since version 0; the rows of the model have all
  the columns, and the value of one that the file does not have means nothing. Adding a column or
  a table twice and a statement about one that is not there are errors of SQLite.
\<close>

record ('ms, 'tr) db_file =
  df_columns :: "string list"
  df_data :: "('ms, 'tr) database"

type_synonym ('ms, 'tr) db_result = "(sqlite_db_error + unit) \<times> ('ms, 'tr) db_file"

section \<open>Statements\<close>

text \<open>A transaction of the database: nothing is written when one of its statements fails.\<close>

definition db_exec ::
  "(('ms, 'tr) db_file \<Rightarrow> sqlite_db_error + ('ms, 'tr) db_file) \<Rightarrow> ('ms, 'tr) db_file \<Rightarrow> ('ms, 'tr) db_result" where
  "db_exec modifications f = (case modifications f of Inl e \<Rightarrow> (Err e, f) | Inr f' \<Rightarrow> (Ok (), f'))"

text \<open>\<open>ALTER TABLE\<close> and \<open>CREATE TABLE\<close>, with what they make of the rows.\<close>

definition add_column ::
  "string \<Rightarrow> (('ms, 'tr) database \<Rightarrow> ('ms, 'tr) database) \<Rightarrow> ('ms, 'tr) db_file \<Rightarrow> sqlite_db_error + ('ms, 'tr) db_file" where
  "add_column name fill f =
     (if name \<in> set (df_columns f) then Err Rusqlite
      else Ok (f\<lparr>df_columns := name # df_columns f, df_data := fill (df_data f)\<rparr>))"

definition needs :: "string \<Rightarrow> ('ms, 'tr) db_file \<Rightarrow> sqlite_db_error + ('ms, 'tr) db_file" where
  "needs name f = (if name \<in> set (df_columns f) then Ok f else Err Rusqlite)"

definition set_version :: "int \<Rightarrow> ('ms, 'tr) db_file \<Rightarrow> sqlite_db_error + ('ms, 'tr) db_file" where
  "set_version v f = Ok (f\<lparr>df_data := (df_data f)\<lparr>db_version_row := v\<rparr>\<rparr>)"

definition map_coins :: "(coin_row \<Rightarrow> coin_row) \<Rightarrow> ('ms, 'tr) database \<Rightarrow> ('ms, 'tr) database" where
  "map_coins g d = d\<lparr>coins_table := map g (coins_table d)\<rparr>"

definition map_txs :: "(tx_row \<Rightarrow> tx_row) \<Rightarrow> ('ms, 'tr) database \<Rightarrow> ('ms, 'tr) database" where
  "map_txs g d = d\<lparr>transactions_table := map g (transactions_table d)\<rparr>"

text \<open>
  \<open>INSERT INTO coins_new SELECT * FROM coins\<close> takes as many columns as the new table has. The rows keep
  their order.
\<close>

definition recreate_coins ::
  "(('ms, 'tr) database \<Rightarrow> bool) \<Rightarrow> ('ms, 'tr) db_file \<Rightarrow> sqlite_db_error + ('ms, 'tr) db_file" where
  "recreate_coins constraints f =
     (if ''coins.is_immature'' \<in> set (df_columns f) \<and> ''coins.is_from_self'' \<notin> set (df_columns f) \<and>
         distinct (map rc_outpoint (coins_table (df_data f))) \<and> constraints (df_data f)
      then Ok f else Err Rusqlite)"

definition coins_reference_txs :: "('ms, 'tr) database \<Rightarrow> bool" where
  "coins_reference_txs d = list_all (\<lambda>r. op_txid (rc_outpoint r) \<in> rt_txid ` set (transactions_table d) \<and>
     (case rc_spend_txid r of None \<Rightarrow> True | Some t \<Rightarrow> t \<in> rt_txid ` set (transactions_table d))) (coins_table d)"

text \<open>The columns of a transaction that version 5 does not have hold nothing yet.\<close>

fun insert_txs :: "btc \<Rightarrow> tx list \<Rightarrow> ('ms, 'tr) db_file \<Rightarrow> sqlite_db_error + ('ms, 'tr) db_file" where
  "insert_txs B [] f = Ok f"
| "insert_txs B (t # ts) f =
     (let rows = transactions_table (df_data f) in
      if compute_txid B t \<in> rt_txid ` set rows \<or> t \<in> rt_tx ` set rows then Err Rusqlite
      else insert_txs B ts (f\<lparr>df_data := (df_data f)\<lparr>transactions_table := rows @
             [\<lparr>rt_txid = compute_txid B t, rt_tx = t, rt_num_inputs = None, rt_num_outputs = None, rt_is_coinbase = False\<rparr>]\<rparr>\<rparr>))"

section \<open>The migrations\<close>

definition migrate_v0_to_v1 :: "('ms, 'tr) db_file \<Rightarrow> ('ms, 'tr) db_result" where
  "migrate_v0_to_v1 = db_exec (\<lambda>f.
     rbind (add_column ''spend_transactions.updated_at''
       (\<lambda>d. d\<lparr>spends_table := map (\<lambda>r. r\<lparr>rs_updated_at := None\<rparr>) (spends_table d)\<rparr>) f) (set_version 1))"

definition migrate_v1_to_v2 :: "('ms, 'tr) db_file \<Rightarrow> ('ms, 'tr) db_result" where
  "migrate_v1_to_v2 = db_exec (\<lambda>f.
     rbind (add_column ''coins.is_immature'' (map_coins (\<lambda>r. r\<lparr>rc_is_immature := False\<rparr>)) f) (set_version 2))"

definition migrate_v2_to_v3 :: "('ms, 'tr) db_file \<Rightarrow> ('ms, 'tr) db_result" where
  "migrate_v2_to_v3 = db_exec (\<lambda>f. rbind (add_column ''labels'' (\<lambda>d. d\<lparr>labels_table := []\<rparr>) f) (set_version 3))"

definition migrate_v3_to_v4 :: "('ms, 'tr) db_file \<Rightarrow> ('ms, 'tr) db_result" where
  "migrate_v3_to_v4 = db_exec (\<lambda>f. rbind (recreate_coins (\<lambda>_. True) f) (set_version 4))"

definition migrate_v4_to_v5 :: "btc \<Rightarrow> tx list \<Rightarrow> ('ms, 'tr) db_file \<Rightarrow> ('ms, 'tr) db_result" where
  "migrate_v4_to_v5 B bitcoin_txs = db_exec (\<lambda>f.
     rbind (add_column ''transactions'' (\<lambda>d. d\<lparr>transactions_table := []\<rparr>) f) (\<lambda>f.
     rbind (insert_txs B bitcoin_txs f) (\<lambda>f.
     rbind (recreate_coins coins_reference_txs f) (set_version 5))))"

definition migrate_v5_to_v6 :: "('ms, 'tr) db_file \<Rightarrow> ('ms, 'tr) db_result" where
  "migrate_v5_to_v6 = db_exec (\<lambda>f.
     rbind (add_column ''wallets.last_poll_timestamp''
       (\<lambda>d. d\<lparr>wallet_table := (wallet_table d)\<lparr>w_last_poll_timestamp := None\<rparr>\<rparr>) f) (set_version 6))"

definition migrate_v6_to_v7 :: "('ms, 'tr) db_file \<Rightarrow> ('ms, 'tr) db_result" where
  "migrate_v6_to_v7 = db_exec (\<lambda>f.
     rbind (needs ''transactions'' f) (\<lambda>f.
     rbind (add_column ''transactions.num_inputs'' (map_txs (\<lambda>t. t\<lparr>rt_num_inputs := None\<rparr>)) f) (\<lambda>f.
     rbind (add_column ''transactions.num_outputs'' (map_txs (\<lambda>t. t\<lparr>rt_num_outputs := None\<rparr>)) f) (\<lambda>f.
     rbind (add_column ''transactions.is_coinbase'' (map_txs (\<lambda>t. t\<lparr>rt_is_coinbase := False\<rparr>)) f) (\<lambda>f.
     rbind (add_column ''coins.is_from_self'' (map_coins (\<lambda>r. r\<lparr>rc_is_from_self := False\<rparr>)) f) (set_version 7))))))"

text \<open>
  The last migration counts the inputs and outputs of the stored transactions in batches, each row in a transaction of
  its own, until no count is missing. The counts must be positive.
\<close>

definition uncounted :: "tx_row list \<Rightarrow> tx_row list" where
  "uncounted rows = filter (\<lambda>t. rt_num_inputs t = None) rows"

definition count_tx :: "btc \<Rightarrow> txid \<Rightarrow> tx_row list \<Rightarrow> sqlite_db_error + tx_row list" where
  "count_tx B txid rows = (case find (\<lambda>t. rt_txid t = txid) rows of
     None \<Rightarrow> Err Rusqlite
   | Some row \<Rightarrow>
       (let t = rt_tx row in
        if tx_input t = [] \<or> tx_output t = [] then Err Rusqlite
        else if length (filter (\<lambda>t. rt_txid t = txid) rows) \<noteq> 1 then Err SqlitePanic
        else Ok (map (\<lambda>r. if rt_txid r = txid
               then r\<lparr>rt_num_inputs := Some (length (tx_input t)), rt_num_outputs := Some (length (tx_output t)),
                      rt_is_coinbase := tx_is_coinbase B t\<rparr>
               else r) rows)))"

fun count_batch :: "btc \<Rightarrow> txid list \<Rightarrow> tx_row list \<Rightarrow> (sqlite_db_error + unit) \<times> tx_row list" where
  "count_batch B [] rows = (Ok (), rows)"
| "count_batch B (txid # txids) rows = (case count_tx B txid rows of
     Inl e \<Rightarrow> (Err e, rows)
   | Inr rows' \<Rightarrow> count_batch B txids rows')"

definition TXIDS_BATCH_SIZE :: nat where "TXIDS_BATCH_SIZE = 100"

lemma count_tx_uncounted:
  assumes "count_tx B txid rows = Ok rows'"
  shows "length (uncounted rows') \<le> length (uncounted rows)"
    "txid \<in> rt_txid ` set (uncounted rows) \<Longrightarrow> length (uncounted rows') < length (uncounted rows)"
proof -
  obtain t where rows': "rows' = map (\<lambda>r. if rt_txid r = txid
      then r\<lparr>rt_num_inputs := Some (length (tx_input t)), rt_num_outputs := Some (length (tx_output t)),
             rt_is_coinbase := tx_is_coinbase B t\<rparr> else r) rows"
    using assms by (auto simp: count_tx_def Let_def split: option.splits if_splits)
  have eq: "length (uncounted rows') = length (filter (\<lambda>r. rt_txid r \<noteq> txid) (uncounted rows))"
    unfolding rows' uncounted_def by (simp add: filter_map comp_def) (metis (mono_tags, lifting))
  then show "length (uncounted rows') \<le> length (uncounted rows)" by simp
  show "length (uncounted rows') < length (uncounted rows)" if "txid \<in> rt_txid ` set (uncounted rows)"
    unfolding eq using that by (auto intro: length_filter_less)
qed

lemma count_batch_uncounted_le:
  "count_batch B txids rows = (Ok (), rows') \<Longrightarrow> length (uncounted rows') \<le> length (uncounted rows)"
  by (induction B txids rows rule: count_batch.induct) (auto split: sum.splits dest!: count_tx_uncounted(1))

lemma count_batch_uncounted:
  assumes "count_batch B (map rt_txid (take n (uncounted rows))) rows = (Ok (), rows')" "map rt_txid (take n (uncounted rows)) \<noteq> []"
  shows "length (uncounted rows') < length (uncounted rows)"
proof (cases "take n (uncounted rows)")
  case (Cons t ts)
  then have "rt_txid t \<in> rt_txid ` set (uncounted rows)" by (metis image_eqI in_set_takeD list.set_intros(1))
  moreover obtain rows1 where "count_tx B (rt_txid t) rows = Ok rows1" "count_batch B (map rt_txid ts) rows1 = (Ok (), rows')"
    using assms(1) Cons by (auto split: sum.splits)
  ultimately show ?thesis using count_tx_uncounted(2) count_batch_uncounted_le by (metis le_less_trans)
qed (use assms(2) in simp)

function count_all :: "btc \<Rightarrow> tx_row list \<Rightarrow> (sqlite_db_error + unit) \<times> tx_row list" where
  "count_all B rows =
     (let txids = map rt_txid (take TXIDS_BATCH_SIZE (uncounted rows)) in
      if txids = [] then (Ok (), rows)
      else
        (case count_batch B txids rows of
           (Inl e, rows') \<Rightarrow> (Err e, rows')
         | (Inr _, rows') \<Rightarrow> count_all B rows'))"
  by pat_completeness auto

termination
  by (relation "measure (\<lambda>(B, rows). length (uncounted rows))") (auto intro!: count_batch_uncounted [OF sym])

declare count_all.simps [simp del]

text \<open>
  Then, in one transaction, it checks that no count is missing and runs the pass over the coins from the wallet itself on all
  coins; the code has a copy of the statement of \<open>update_coins_from_self\<close>.
\<close>

definition migrate_v7_to_v8 :: "btc \<Rightarrow> ('ms, 'tr) db_file \<Rightarrow> ('ms, 'tr) db_result" where
  "migrate_v7_to_v8 B f =
     (if ''transactions.num_inputs'' \<notin> set (df_columns f) then (Err Rusqlite, f)
      else
        (case count_all B (transactions_table (df_data f)) of
           (Inl e, rows) \<Rightarrow> (Err e, f\<lparr>df_data := (df_data f)\<lparr>transactions_table := rows\<rparr>\<rparr>)
         | (Inr _, rows) \<Rightarrow>
             db_exec (\<lambda>f.
               if list_ex (\<lambda>t. rt_num_inputs t = None \<or> rt_num_outputs t = None) (transactions_table (df_data f)) then Err SqlitePanic
               else rbind (ok_or SqlitePanic (update_coins_from_self 0 (df_data f))) (\<lambda>d. set_version 8 (f\<lparr>df_data := d\<rparr>)))
             (f\<lparr>df_data := (df_data f)\<lparr>transactions_table := rows\<rparr>\<rparr>)))"

definition db_version :: "('ms, 'tr) db_file \<Rightarrow> int" where
  "db_version f = db_version_row (df_data f)"

definition migrate_step :: "btc \<Rightarrow> tx list \<Rightarrow> ('ms, 'tr) db_file \<Rightarrow> ('ms, 'tr) db_result" where
  "migrate_step B bitcoin_txs f =
     (let version = db_version f in
      if version = 0 then migrate_v0_to_v1 f
      else if version = 1 then migrate_v1_to_v2 f
      else if version = 2 then migrate_v2_to_v3 f
      else if version = 3 then migrate_v3_to_v4 f
      else if version = 4 then migrate_v4_to_v5 B bitcoin_txs f
      else if version = 5 then migrate_v5_to_v6 f
      else if version = 6 then migrate_v6_to_v7 f
      else if version = 7 then migrate_v7_to_v8 B f
      else (Err (UnsupportedVersion version), f))"

lemma db_exec_Ok: "db_exec m f = (Ok u, f') \<longleftrightarrow> m f = Ok f'"
  by (auto simp: db_exec_def split: sum.splits)

lemma set_version_Ok: "set_version v f = Ok f' \<longleftrightarrow> f' = f\<lparr>df_data := (df_data f)\<lparr>db_version_row := v\<rparr>\<rparr>"
  by (auto simp: set_version_def)

lemmas migration_defs = migrate_v0_to_v1_def migrate_v1_to_v2_def migrate_v2_to_v3_def migrate_v3_to_v4_def
  migrate_v4_to_v5_def migrate_v5_to_v6_def migrate_v6_to_v7_def migrate_v7_to_v8_def

lemma migrate_step_version:
  assumes "migrate_step B bitcoin_txs f = (Ok u, f')"
  shows "0 \<le> db_version f" "db_version f < 8" "db_version f' = db_version f + 1"
  using assms
  by (auto simp: migrate_step_def Let_def migration_defs db_exec_Ok rbind_eq_Inr set_version_Ok db_version_def
      split: if_splits prod.splits sum.splits)

function maybe_apply_migration :: "btc \<Rightarrow> tx list \<Rightarrow> ('ms, 'tr) db_file \<Rightarrow> ('ms, 'tr) db_result" where
  "maybe_apply_migration B bitcoin_txs f =
     (if db_version f = DB_VERSION then (Ok (), f)
      else
        (case migrate_step B bitcoin_txs f of
           (Inl e, f') \<Rightarrow> (Err e, f')
         | (Inr _, f') \<Rightarrow> maybe_apply_migration B bitcoin_txs f'))"
  by pat_completeness auto

termination
  by (relation "measure (\<lambda>(B, txs, f). nat (8 - db_version f))")
    (auto dest!: sym [of "(_, _)"] dest: migrate_step_version)

declare maybe_apply_migration.simps [simp del]

section \<open>Opening the database\<close>

definition all_columns :: "string list" where
  "all_columns = [''spend_transactions.updated_at'', ''coins.is_immature'', ''labels'', ''transactions'', ''wallets.last_poll_timestamp'',
     ''transactions.num_inputs'', ''transactions.num_outputs'', ''transactions.is_coinbase'', ''coins.is_from_self'']"

definition MAX_DB_VERSION_NO_TX_DB :: int where "MAX_DB_VERSION_NO_TX_DB = 4"

text \<open>The file at the path of the database, if there is one; creating a file that exists is an error.\<close>

definition sqlite_db_new ::
  "('ms, 'tr) desc_ops \<Rightarrow> (nat \<times> ('ms, 'tr) liana_descriptor \<times> nat) option \<Rightarrow> ('ms, 'tr) db_file option
     \<Rightarrow> sqlite_db_error + ('ms, 'tr) db_file" where
  "sqlite_db_new D fresh_options path =
     (case fresh_options of
        Some (network, main_descriptor, timestamp) \<Rightarrow>
          (if path \<noteq> None then Err FileCreation
           else rbind (ok_or Rusqlite (create_fresh_db D network main_descriptor timestamp)) (\<lambda>d.
                Ok \<lparr>df_columns = all_columns, df_data = d\<rparr>))
      | None \<Rightarrow> ok_or FileNotFound path)"

datatype startup_error = Startup_Database sqlite_db_error | Backend_Required | Missing_Transaction

text \<open>
  The result and the file that is left. The transactions that an old database does not have are asked of the
  node, whose answers are a parameter.
\<close>

definition setup_sqlite ::
  "btc \<Rightarrow> ('ms, 'tr) desc_ops \<Rightarrow> nat \<Rightarrow> ('ms, 'tr) liana_descriptor \<Rightarrow> nat \<Rightarrow> bool \<Rightarrow> (txid \<Rightarrow> tx option) option
     \<Rightarrow> ('ms, 'tr) db_file option \<Rightarrow> (startup_error + unit) \<times> ('ms, 'tr) db_file option" where
  "setup_sqlite B D network main_descriptor now fresh_data_dir bitcoind path =
     (case sqlite_db_new D (if fresh_data_dir then Some (network, main_descriptor, now) else None) path of
        Inl e \<Rightarrow> (Err (Startup_Database e), path)
      | Inr f \<Rightarrow>
          (let checked = (\<lambda>f. (map_err Startup_Database (db_sanity_check network main_descriptor (df_data f)), Some f)) in
           if fresh_data_dir then checked f
           else
             (case (if db_version f \<le> MAX_DB_VERSION_NO_TX_DB
                    then rbind (ok_or Backend_Required bitcoind) (\<lambda>get_transaction.
                         ok_or Missing_Transaction (collect_options get_transaction (list_all_txids (df_data f))))
                    else Ok []) of
                Inl e \<Rightarrow> (Err e, Some f)
              | Inr wallet_txs \<Rightarrow>
                  (case maybe_apply_migration B wallet_txs f of
                     (Inl e, f') \<Rightarrow> (Err (Startup_Database e), Some f')
                   | (Inr _, f') \<Rightarrow> checked f'))))"

end
