(* ===== verification/Migration_Lemmas.thy ===== *)
theory Migration_Lemmas
  imports Migrations Poller_Lemmas
begin

text \<open>
  The upgrade of any file that an earlier version left: it succeeds, loses nothing, and gives a database with the
  invariant that the rest of the daemon relies on.
\<close>

section \<open>Files of each version\<close>

definition column_versions :: "(string \<times> int) list" where
  "column_versions = [(''coins.is_from_self'', 7), (''transactions.is_coinbase'', 7), (''transactions.num_outputs'', 7),
     (''transactions.num_inputs'', 7), (''wallets.last_poll_timestamp'', 6), (''transactions'', 5), (''labels'', 3),
     (''coins.is_immature'', 2), (''spend_transactions.updated_at'', 1)]"

definition columns_of :: "int \<Rightarrow> string set" where
  "columns_of v = set (map fst (filter (\<lambda>(c, n). n \<le> v) column_versions))"

definition counted :: "tx_row \<Rightarrow> bool" where
  "counted t \<longleftrightarrow> rt_num_inputs t = Some (length (tx_input (rt_tx t))) \<and> rt_num_outputs t = Some (length (tx_output (rt_tx t)))"

text \<open>Version 7 is also what an interrupted upgrade to version 8 leaves, with some of the transactions counted.\<close>

definition stored_ok :: "btc \<Rightarrow> int \<Rightarrow> tx_row list \<Rightarrow> bool" where
  "stored_ok B v rows \<longleftrightarrow> distinct (map rt_txid rows) \<and>
     (\<forall>t \<in> set rows. rt_txid t = compute_txid B (rt_tx t) \<and> tx_input (rt_tx t) \<noteq> [] \<and> tx_output (rt_tx t) \<noteq> [] \<and>
        (v = 7 \<longrightarrow> rt_num_inputs t = None \<or> counted t) \<and> (v = 8 \<longrightarrow> counted t))"

definition txs_given :: "btc \<Rightarrow> tx list \<Rightarrow> ('ms, 'tr) database \<Rightarrow> bool" where
  "txs_given B txs d \<longleftrightarrow> distinct (map (compute_txid B) txs) \<and> (\<forall>t \<in> set txs. tx_input t \<noteq> [] \<and> tx_output t \<noteq> []) \<and>
     set (list_all_txids d) \<subseteq> compute_txid B ` set txs"

definition old_coin_ok :: "int \<Rightarrow> coin_row \<Rightarrow> bool" where
  "old_coin_ok v r \<longleftrightarrow> row_ok (if v < 2 then r\<lparr>rc_is_immature := False\<rparr> else r)"

definition file_sound :: "btc \<Rightarrow> ('ms, 'tr) desc_ops \<Rightarrow> ('ms, 'tr) db_file \<Rightarrow> bool" where
  "file_sound B D f \<longleftrightarrow> (let d = df_data f; v = db_version f in
     0 \<le> v \<and> v \<le> 8 \<and> set (df_columns f) = columns_of v \<and>
     distinct (map rc_outpoint (coins_table d)) \<and> (\<forall>r \<in> set (coins_table d). old_coin_ok v r) \<and>
     addresses_inv D d \<and> spends_ok B (spends_table d) \<and> (3 \<le> v \<longrightarrow> labels_ok (labels_table d)) \<and>
     (tip_blockheight d = None \<longleftrightarrow> tip_blockhash d = None) \<and>
     (5 \<le> v \<longrightarrow> coins_reference_txs d \<and> stored_ok B v (transactions_table d)))"

definition file_ok :: "btc \<Rightarrow> ('ms, 'tr) desc_ops \<Rightarrow> tx list \<Rightarrow> ('ms, 'tr) db_file \<Rightarrow> bool" where
  "file_ok B D txs f \<longleftrightarrow> file_sound B D f \<and> (db_version f < 5 \<longrightarrow> txs_given B txs (df_data f))"

text \<open>What a coin is, but for the columns added since version 0.\<close>

definition coin_core :: "coin_row \<Rightarrow> coin_row" where
  "coin_core r = r\<lparr>rc_is_immature := False, rc_is_from_self := False\<rparr>"

text \<open>What the upgrade of a file of version \<open>v\<close> may not lose.\<close>

definition keeps :: "int \<Rightarrow> ('ms, 'tr) database \<Rightarrow> ('ms, 'tr) database \<Rightarrow> bool" where
  "keeps v d d' \<longleftrightarrow> db_network d' = db_network d \<and> tip_blockheight d' = tip_blockheight d \<and> tip_blockhash d' = tip_blockhash d \<and>
     wallet_descriptor d' = wallet_descriptor d \<and> addresses_table d' = addresses_table d \<and>
     (wallet_table d')\<lparr>w_last_poll_timestamp := None\<rparr> = (wallet_table d)\<lparr>w_last_poll_timestamp := None\<rparr> \<and>
     map coin_core (coins_table d') = map coin_core (coins_table d) \<and>
     map (\<lambda>r. (rs_txid r, rs_psbt r)) (spends_table d') = map (\<lambda>r. (rs_txid r, rs_psbt r)) (spends_table d) \<and>
     (1 \<le> v \<longrightarrow> spends_table d' = spends_table d) \<and>
     (2 \<le> v \<longrightarrow> map rc_is_immature (coins_table d') = map rc_is_immature (coins_table d)) \<and>
     (3 \<le> v \<longrightarrow> labels_table d' = labels_table d) \<and>
     (5 \<le> v \<longrightarrow> map (\<lambda>t. (rt_txid t, rt_tx t)) (transactions_table d') = map (\<lambda>t. (rt_txid t, rt_tx t)) (transactions_table d)) \<and>
     (6 \<le> v \<longrightarrow> wallet_table d' = wallet_table d)"

lemma keeps_refl: "keeps v d d"
  by (simp add: keeps_def)

lemma keeps_trans: "keeps v a b \<Longrightarrow> keeps w b c \<Longrightarrow> v \<le> w \<Longrightarrow> keeps v a c"
  by (auto simp: keeps_def)

section \<open>Each migration\<close>

definition upgrades :: "btc \<Rightarrow> ('ms, 'tr) desc_ops \<Rightarrow> tx list \<Rightarrow> ('ms, 'tr) db_file \<Rightarrow> bool" where
  "upgrades B D txs f \<longleftrightarrow> (\<exists>f'. migrate_step B txs f = (Ok (), f') \<and> file_ok B D txs f' \<and>
     keeps (db_version f) (df_data f) (df_data f'))"

lemmas step_defs = upgrades_def migrate_step_def migration_defs db_exec_def add_column_def set_version_def needs_def
  db_version_def

lemmas file_defs = file_ok_def file_sound_def Let_def columns_of_def column_versions_def

lemma addresses_inv_cong:
  "wallet_descriptor d' = wallet_descriptor d \<Longrightarrow> db_network d' = db_network d \<Longrightarrow> addresses_table d' = addresses_table d \<Longrightarrow>
     highest_index (wallet_table d') = highest_index (wallet_table d) \<Longrightarrow> addresses_inv D d' = addresses_inv D d"
  by (simp add: addresses_inv_def)

lemma upgrades_v0:
  assumes "file_ok B D txs f" "db_version f = 0"
  shows "upgrades B D txs f"
  using assms
  by (simp add: step_defs file_defs)
    (auto simp: keeps_def spends_ok_def comp_def txs_given_def list_all_txids_def old_coin_ok_def cong: addresses_inv_cong)

lemma upgrades_v1:
  assumes "file_ok B D txs f" "db_version f = 1"
  shows "upgrades B D txs f"
  using assms
  by (simp add: step_defs file_defs)
    (auto simp: keeps_def map_coins_def comp_def coin_core_def txs_given_def list_all_txids_def List.map_filter_def old_coin_ok_def filter_map cong: addresses_inv_cong)

lemma upgrades_v2:
  assumes "file_ok B D txs f" "db_version f = 2"
  shows "upgrades B D txs f"
  using assms
  by (simp add: step_defs file_defs)
    (auto simp: keeps_def labels_ok_def txs_given_def list_all_txids_def old_coin_ok_def cong: addresses_inv_cong)

lemma upgrades_v3:
  assumes "file_ok B D txs f" "db_version f = 3"
  shows "upgrades B D txs f"
  using assms
  by (simp add: step_defs file_defs recreate_coins_def)
    (auto simp: keeps_def txs_given_def list_all_txids_def old_coin_ok_def cong: addresses_inv_cong)

lemma list_all_txids_reference:
  "set (list_all_txids d) \<subseteq> rt_txid ` set (transactions_table d) \<longleftrightarrow> coins_reference_txs d"
  by (force simp: list_all_txids_def coins_reference_txs_def list_all_iff List.map_filter_def split: option.splits)

lemma coins_reference_cong:
  assumes "list_all_txids d' = list_all_txids d" "map rt_txid (transactions_table d') = map rt_txid (transactions_table d)"
  shows "coins_reference_txs d' = coins_reference_txs d"
  using assms(1) arg_cong [OF assms(2), of set] by (simp add: list_all_txids_reference [symmetric])

lemma upgrades_v5:
  assumes "file_ok B D txs f" "db_version f = 5"
  shows "upgrades B D txs f"
proof -
  let ?d = "df_data f"
  let ?d' = "?d\<lparr>wallet_table := (wallet_table ?d)\<lparr>w_last_poll_timestamp := None\<rparr>, db_version_row := 6\<rparr>"
  have step: "migrate_step B txs f = (Ok (), \<lparr>df_columns = ''wallets.last_poll_timestamp'' # df_columns f, df_data = ?d'\<rparr>)"
    (is "_ = (_, ?f')")
    using assms by (simp add: step_defs file_defs)
  have "coins_reference_txs ?d' = coins_reference_txs ?d" by (rule coins_reference_cong) (simp_all add: list_all_txids_def)
  moreover have "stored_ok B 6 rows \<longleftrightarrow> stored_ok B 5 rows" for rows by (simp add: stored_ok_def)
  moreover have "old_coin_ok 6 r \<longleftrightarrow> old_coin_ok 5 r" for r by (simp add: old_coin_ok_def)
  ultimately have "file_ok B D txs ?f'"
    using assms by (simp add: file_defs db_version_def addresses_inv_def highest_index_def)
  moreover have "keeps 5 ?d ?d'" by (simp add: keeps_def)
  ultimately show ?thesis using step assms(2) by (simp add: upgrades_def)
qed

lemma upgrades_v6:
  assumes "file_ok B D txs f" "db_version f = 6"
  shows "upgrades B D txs f"
proof -
  let ?d = "df_data f"
  let ?tx = "\<lambda>t. t\<lparr>rt_num_inputs := None, rt_num_outputs := None, rt_is_coinbase := False\<rparr>"
  let ?d' = "?d\<lparr>transactions_table := map ?tx (transactions_table ?d),
    coins_table := map (\<lambda>r. r\<lparr>rc_is_from_self := False\<rparr>) (coins_table ?d), db_version_row := 7\<rparr>"
  have step: "migrate_step B txs f = (Ok (), \<lparr>df_columns = [''coins.is_from_self'', ''transactions.is_coinbase'',
      ''transactions.num_outputs'', ''transactions.num_inputs''] @ df_columns f, df_data = ?d'\<rparr>)" (is "_ = (_, ?f')")
    using assms by (simp add: step_defs file_defs map_txs_def map_coins_def comp_def)
  have "coins_reference_txs ?d' = coins_reference_txs ?d"
    by (rule coins_reference_cong) (simp_all add: list_all_txids_def List.map_filter_def comp_def filter_map)
  moreover have "stored_ok B 7 (transactions_table ?d')"
    using assms by (simp add: file_defs stored_ok_def comp_def)
  moreover have "old_coin_ok 7 (r\<lparr>rc_is_from_self := False\<rparr>) \<longleftrightarrow> old_coin_ok 6 r" for r
    by (simp add: old_coin_ok_def row_ok_def)
  ultimately have "file_ok B D txs ?f'"
    using assms by (simp add: file_defs db_version_def comp_def addresses_inv_def)
  moreover have "keeps 6 ?d ?d'"
    by (simp add: keeps_def comp_def coin_core_def)
  ultimately show ?thesis using step assms(2) by (simp add: upgrades_def)
qed

text \<open>Version 5 stores the transactions that were given.\<close>

definition inserted :: "btc \<Rightarrow> tx list \<Rightarrow> tx_row list" where
  "inserted B txs = map (\<lambda>t. \<lparr>rt_txid = compute_txid B t, rt_tx = t, rt_num_inputs = None, rt_num_outputs = None, rt_is_coinbase = False\<rparr>) txs"

lemma inserted_fields:
  "map rt_txid (inserted B txs) = map (compute_txid B) txs" "rt_txid ` set (inserted B txs) = compute_txid B ` set txs"
  "map rt_tx (inserted B txs) = txs"
  by (auto simp: inserted_def comp_def image_image)

lemma insert_txs_Ok:
  assumes "distinct (map rt_txid (transactions_table (df_data f) @ inserted B txs))"
    "\<forall>t \<in> set (transactions_table (df_data f)). rt_txid t = compute_txid B (rt_tx t)"
  shows "insert_txs B txs f =
    Ok (f\<lparr>df_data := (df_data f)\<lparr>transactions_table := transactions_table (df_data f) @ inserted B txs\<rparr>\<rparr>)"
  using assms
proof (induction B txs f rule: insert_txs.induct)
  case (2 B t ts f)
  let ?rows = "transactions_table (df_data f)"
  have "compute_txid B t \<notin> rt_txid ` set ?rows" using 2(2) by (simp add: inserted_def)
  moreover have "t \<notin> rt_tx ` set ?rows" using 2(3) calculation by (auto simp: image_iff)
  ultimately show ?case
    using 2 by (simp add: Let_def inserted_def)
qed (simp add: inserted_def)

lemma upgrades_v4:
  assumes "file_ok B D txs f" "db_version f = 4"
  shows "upgrades B D txs f"
proof -
  let ?d = "df_data f"
  let ?d1 = "?d\<lparr>transactions_table := inserted B txs\<rparr>"
  let ?d' = "?d1\<lparr>db_version_row := 5\<rparr>"
  have given: "txs_given B txs ?d" using assms by (simp add: file_ok_def file_sound_def Let_def)
  have ref: "coins_reference_txs ?d1"
    using given list_all_txids_reference [of ?d1] by (simp add: txs_given_def list_all_txids_def inserted_fields)
  have ins: "insert_txs B txs (f\<lparr>df_columns := c, df_data := ?d\<lparr>transactions_table := []\<rparr>\<rparr>) =
      Ok (f\<lparr>df_columns := c, df_data := ?d1\<rparr>)" for c
    using insert_txs_Ok [of "f\<lparr>df_columns := c, df_data := ?d\<lparr>transactions_table := []\<rparr>\<rparr>" B txs] given
    by (simp add: inserted_fields txs_given_def)
  have step: "migrate_step B txs f = (Ok (), \<lparr>df_columns = ''transactions'' # df_columns f, df_data = ?d'\<rparr>)" (is "_ = (_, ?f')")
    using assms ins ref by (simp add: step_defs file_defs recreate_coins_def)
  have "stored_ok B 5 (inserted B txs)"
    using given by (auto simp: stored_ok_def txs_given_def inserted_fields inserted_def comp_def)
  moreover have "coins_reference_txs ?d'" using ref coins_reference_cong [of ?d' ?d1] by (simp add: list_all_txids_def)
  moreover have "old_coin_ok 5 r \<longleftrightarrow> old_coin_ok 4 r" for r by (simp add: old_coin_ok_def)
  ultimately have "file_ok B D txs ?f'"
    using assms by (simp add: file_defs db_version_def addresses_inv_def)
  moreover have "keeps 4 ?d ?d'" by (simp add: keeps_def)
  ultimately show ?thesis using step assms(2) by (simp add: upgrades_def)
qed

section \<open>The last migration\<close>

definition tx_pairs :: "tx_row list \<Rightarrow> (txid \<times> tx) list" where
  "tx_pairs rows = map (\<lambda>t. (rt_txid t, rt_tx t)) rows"

lemma tx_pairs_txids: "tx_pairs a = tx_pairs b \<Longrightarrow> map rt_txid a = map rt_txid b"
proof -
  assume "tx_pairs a = tx_pairs b"
  then have "map fst (tx_pairs a) = map fst (tx_pairs b)" by simp
  then show ?thesis by (simp add: tx_pairs_def comp_def)
qed

lemma count_tx_ok:
  assumes "stored_ok B 7 rows" "txid \<in> rt_txid ` set rows"
  obtains rows' where "count_tx B txid rows = Ok rows'" "stored_ok B 7 rows'" "tx_pairs rows' = tx_pairs rows"
proof -
  have d: "distinct (map rt_txid rows)" using assms(1) by (simp add: stored_ok_def)
  obtain row where row: "find (\<lambda>t. rt_txid t = txid) rows = Some row" "row \<in> set rows" "rt_txid row = txid"
    using assms(2) by (cases "find (\<lambda>t. rt_txid t = txid) rows") (auto simp: find_None_iff find_Some_iff)
  have same: "rt_tx r = rt_tx row" if "r \<in> set rows" "rt_txid r = txid" for r
    using d that row(2,3) by (metis distinct_map inj_onD)
  have "filter (\<lambda>t. rt_txid t = txid) rows = [row]"
    using d row(2,3) by (induction rows) (auto simp: filter_empty_conv image_iff)
  then have "count_tx B txid rows = Ok (map (\<lambda>r. if rt_txid r = txid
      then r\<lparr>rt_num_inputs := Some (length (tx_input (rt_tx row))), rt_num_outputs := Some (length (tx_output (rt_tx row))),
             rt_is_coinbase := tx_is_coinbase B (rt_tx row)\<rparr> else r) rows)" (is "_ = Ok ?rows'")
    using row assms(1) by (simp add: count_tx_def Let_def stored_ok_def)
  moreover have "tx_pairs ?rows' = tx_pairs rows" by (simp add: tx_pairs_def comp_def)
  moreover have "stored_ok B 7 ?rows'"
    unfolding stored_ok_def
  proof (intro conjI ballI)
    show "distinct (map rt_txid ?rows')" unfolding tx_pairs_txids [OF calculation(2)] by (rule d)
  qed (use assms(1) same in \<open>auto simp: stored_ok_def counted_def split: if_splits\<close>)
  ultimately show ?thesis using that by blast
qed

lemma count_batch_ok:
  assumes "stored_ok B 7 rows" "set txids \<subseteq> rt_txid ` set rows"
  shows "\<exists>rows'. count_batch B txids rows = (Ok (), rows') \<and> stored_ok B 7 rows' \<and> tx_pairs rows' = tx_pairs rows"
  using assms
proof (induction txids arbitrary: rows)
  case (Cons txid txids)
  obtain rows1 where r: "count_tx B txid rows = Ok rows1" "stored_ok B 7 rows1" "tx_pairs rows1 = tx_pairs rows"
    using count_tx_ok [OF Cons.prems(1), of txid] Cons.prems(2) by auto
  have "rt_txid ` set rows1 = rt_txid ` set rows" using arg_cong [OF tx_pairs_txids [OF r(3)], of set] by simp
  then show ?case using Cons.IH [OF r(2)] Cons.prems(2) r by auto
qed simp

lemma count_all_ok:
  assumes "stored_ok B 7 rows"
  shows "\<exists>rows'. count_all B rows = (Ok (), rows') \<and> stored_ok B 8 rows' \<and> tx_pairs rows' = tx_pairs rows"
  using assms
proof (induction B rows rule: count_all.induct)
  case (1 B rows)
  let ?txids = "map rt_txid (take TXIDS_BATCH_SIZE (uncounted rows))"
  show ?case
  proof (cases "?txids = []")
    case True
    then have "\<forall>t \<in> set rows. rt_num_inputs t \<noteq> None"
      by (simp add: TXIDS_BATCH_SIZE_def uncounted_def filter_empty_conv)
    then have "stored_ok B 8 rows" using 1(2) unfolding stored_ok_def by fastforce
    then show ?thesis using True by (subst count_all.simps) (simp add: Let_def)
  next
    case False
    have "set ?txids \<subseteq> rt_txid ` set rows" by (auto simp: uncounted_def dest: in_set_takeD)
    then obtain rows' where r: "count_batch B ?txids rows = (Ok (), rows')" "stored_ok B 7 rows'" "tx_pairs rows' = tx_pairs rows"
      using count_batch_ok [OF 1(2)] by blast
    then show ?thesis
      using 1(1) [OF refl False r(1) [symmetric] refl r(2)] False by (subst count_all.simps) (simp add: Let_def)
  qed
qed

lemma update_coins_from_self_shape:
  assumes "update_coins_from_self h d = Some d'"
  shows "\<exists>rows. d' = d\<lparr>coins_table := rows\<rparr> \<and> map unflagged rows = map unflagged (coins_table d)"
  using assms from_self_loop_unflagged by (fastforce simp: update_coins_from_self_def)

lemma upgrades_v7:
  assumes "file_ok B D txs f" "db_version f = 7"
  shows "upgrades B D txs f"
proof -
  let ?d = "df_data f"
  obtain rows where rows: "count_all B (transactions_table ?d) = (Ok (), rows)" "stored_ok B 8 rows"
    "tx_pairs rows = tx_pairs (transactions_table ?d)"
    using count_all_ok assms by (fastforce simp: file_ok_def file_sound_def Let_def)
  let ?d1 = "?d\<lparr>transactions_table := rows\<rparr>"
  obtain d2 where d2: "update_coins_from_self 0 ?d1 = Some d2" using update_coins_from_self_total by blast
  obtain coins where coins: "d2 = ?d1\<lparr>coins_table := coins\<rparr>" "map unflagged coins = map unflagged (coins_table ?d)"
    using update_coins_from_self_shape [OF d2] by auto
  let ?d' = "d2\<lparr>db_version_row := 8\<rparr>"
  have "\<not> list_ex (\<lambda>t. rt_num_inputs t = None \<or> rt_num_outputs t = None) rows"
    using rows(2) by (auto simp: list_ex_iff stored_ok_def counted_def)
  then have step: "migrate_step B txs f = (Ok (), f\<lparr>df_data := ?d'\<rparr>)" (is "_ = (_, ?f')")
    using assms rows(1) d2 by (simp add: step_defs file_defs ok_or_def)
  have core: "map (\<lambda>r. g (unflagged r)) coins = map (\<lambda>r. g (unflagged r)) (coins_table ?d)" for g :: "coin_row \<Rightarrow> 'z"
    using arg_cong [OF coins(2), of "map g"] by (simp add: comp_def)
  have outs: "map rc_outpoint coins = map rc_outpoint (coins_table ?d)"
    using core [of rc_outpoint] by (simp add: unflagged_def)
  have spends: "map rc_spend_txid coins = map rc_spend_txid (coins_table ?d)"
    using core [of rc_spend_txid] by (simp add: unflagged_def)
  have "list_all_txids ?d' = remdups (map op_txid (map rc_outpoint coins) @ List.map_filter (\<lambda>t. t) (map rc_spend_txid coins))"
    unfolding coins(1) list_all_txids_def by (simp add: List.map_filter_def filter_map comp_def)
  also have "\<dots> = list_all_txids ?d"
    unfolding outs spends list_all_txids_def by (simp add: List.map_filter_def filter_map comp_def)
  finally have "coins_reference_txs ?d' = coins_reference_txs ?d"
    using tx_pairs_txids [OF rows(3)] by (intro coins_reference_cong) (simp_all add: coins(1))
  moreover have "(\<forall>r \<in> set coins. old_coin_ok 8 r) \<longleftrightarrow> (\<forall>r \<in> set (coins_table ?d). old_coin_ok 7 r)"
  proof -
    have "old_coin_ok v (unflagged r) \<longleftrightarrow> row_ok r" if "2 \<le> v" for r v
      using that by (simp add: old_coin_ok_def row_ok_def unflagged_def)
    then have "set (map (\<lambda>r. old_coin_ok 7 (unflagged r)) coins) = row_ok ` set coins"
      "set (map (\<lambda>r. old_coin_ok 7 (unflagged r)) (coins_table ?d)) = row_ok ` set (coins_table ?d)" by simp_all
    then have "row_ok ` set coins = row_ok ` set (coins_table ?d)" using core [of "old_coin_ok 7"] by metis
    then show ?thesis by (simp add: old_coin_ok_def) (metis (mono_tags) imageE image_eqI)
  qed
  moreover have "addresses_inv D ?d' = addresses_inv D ?d" by (simp add: addresses_inv_def coins(1))
  ultimately have "file_ok B D txs ?f'"
    using assms rows(2) outs by (simp add: file_defs db_version_def coins(1))
  moreover have "keeps 7 ?d ?d'"
    using rows(3) core [of coin_core] core [of rc_is_immature]
    by (simp add: keeps_def coins(1) tx_pairs_def unflagged_def coin_core_def [abs_def])
  ultimately show ?thesis using step assms(2) by (simp add: upgrades_def)
qed

section \<open>The whole upgrade\<close>

lemma migrate_step_upgrades:
  assumes "file_ok B D txs f" "db_version f \<noteq> 8"
  shows "upgrades B D txs f"
proof -
  have "db_version f \<in> {0, 1, 2, 3, 4, 5, 6, 7}" using assms by (auto simp: file_ok_def file_sound_def Let_def)
  then show ?thesis
    using upgrades_v0 [OF assms(1)] upgrades_v1 [OF assms(1)] upgrades_v2 [OF assms(1)] upgrades_v3 [OF assms(1)]
      upgrades_v4 [OF assms(1)] upgrades_v5 [OF assms(1)] upgrades_v6 [OF assms(1)] upgrades_v7 [OF assms(1)] by blast
qed

lemma maybe_apply_migration_ok:
  assumes "file_ok B D txs f"
  shows "\<exists>f'. maybe_apply_migration B txs f = (Ok (), f') \<and> file_ok B D txs f' \<and> db_version f' = 8 \<and>
    keeps (db_version f) (df_data f) (df_data f')"
  using assms
proof (induction B txs f rule: maybe_apply_migration.induct)
  case (1 B txs f)
  show ?case
  proof (cases "db_version f = DB_VERSION")
    case True
    then show ?thesis using 1(2) keeps_refl by (subst maybe_apply_migration.simps) (simp add: DB_VERSION_def)
  next
    case False
    then obtain f1 where f1: "migrate_step B txs f = (Ok (), f1)" "file_ok B D txs f1" "keeps (db_version f) (df_data f) (df_data f1)"
      using migrate_step_upgrades [OF 1(2)] by (auto simp: upgrades_def DB_VERSION_def)
    obtain f' where f': "maybe_apply_migration B txs f1 = (Ok (), f')" "file_ok B D txs f'" "db_version f' = 8"
      "keeps (db_version f1) (df_data f1) (df_data f')"
      using 1(1) [OF False f1(1) [symmetric] refl f1(2)] by blast
    then show ?thesis
      using False f1 migrate_step_version(3) [OF f1(1)] keeps_trans [OF f1(3) f'(4)]
      by (subst maybe_apply_migration.simps) simp
  qed
qed

lemma file_ok_current:
  assumes "file_ok B D txs f" "db_version f = 8"
  shows "db_inv B D (df_data f)"
proof -
  let ?d = "df_data f"
  have "coins_reference_txs ?d" "distinct (map rc_outpoint (coins_table ?d))" "\<forall>r \<in> set (coins_table ?d). row_ok r"
    using assms by (simp_all add: file_ok_def file_sound_def Let_def old_coin_ok_def)
  then have "coins_inv ?d"
    by (auto simp: coins_inv_def coins_ok_def coins_reference_txs_def list_all_iff)
  moreover have "txs_ok B (transactions_table ?d)"
    using assms by (simp add: file_ok_def file_sound_def Let_def stored_ok_def txs_ok_def counted_def)
  ultimately show ?thesis using assms by (simp add: file_ok_def file_sound_def Let_def db_inv_def)
qed

section \<open>Startup\<close>

text \<open>The node has the transactions of the coins, under their own ids.\<close>

definition node_knows :: "btc \<Rightarrow> (txid \<Rightarrow> tx option) \<Rightarrow> ('ms, 'tr) database \<Rightarrow> bool" where
  "node_knows B get_transaction d \<longleftrightarrow> (\<forall>txid \<in> set (list_all_txids d). \<exists>t. get_transaction txid = Some t \<and>
     compute_txid B t = txid \<and> tx_input t \<noteq> [] \<and> tx_output t \<noteq> [])"

lemma node_knows_given:
  assumes "node_knows B get_transaction d"
  obtains txs where "collect_options get_transaction (list_all_txids d) = Some txs" "txs_given B txs d"
proof -
  let ?ids = "list_all_txids d"
  let ?txs = "map (\<lambda>i. the (get_transaction i)) ?ids"
  have a: "get_transaction i = Some (the (get_transaction i)) \<and> compute_txid B (the (get_transaction i)) = i \<and>
      tx_input (the (get_transaction i)) \<noteq> [] \<and> tx_output (the (get_transaction i)) \<noteq> []" if "i \<in> set ?ids" for i
    using assms that by (force simp: node_knows_def)
  have "collect_options get_transaction ids = Some (map (\<lambda>i. the (get_transaction i)) ids)" if "set ids \<subseteq> set ?ids" for ids
    using that
  proof (induction ids)
    case (Cons i ids)
    have "get_transaction i = Some (the (get_transaction i))" using a Cons.prems by simp
    then show ?case using Cons by (cases "get_transaction i") auto
  qed simp
  moreover have ids: "map (compute_txid B) ?txs = ?ids" unfolding map_map using a by (intro map_idI) simp
  moreover have "distinct ?ids" by (simp add: list_all_txids_def)
  moreover have "compute_txid B ` set ?txs = set ?ids" using arg_cong [OF ids, of set] by (simp only: set_map)
  ultimately have "collect_options get_transaction ?ids = Some ?txs" "txs_given B ?txs d"
    using a by (simp_all add: txs_given_def)
  then show ?thesis using that [of ?txs] by blast
qed

lemma stored_txs_known:
  assumes "db_inv B D db" "list_all_txids d = list_all_txids db"
  shows "node_knows B (\<lambda>txid. map_option rt_tx (find (\<lambda>r. rt_txid r = txid) (transactions_table db))) d"
  unfolding node_knows_def
proof
  fix txid assume a: "txid \<in> set (list_all_txids d)"
  have "coins_reference_txs db"
    using assms(1) by (auto simp: db_inv_def coins_inv_def coins_ok_def coins_reference_txs_def list_all_iff split: option.split)
  then have "txid \<in> rt_txid ` set (transactions_table db)"
    using a assms(2) list_all_txids_reference [of db] by auto
  then obtain r where r: "find (\<lambda>r. rt_txid r = txid) (transactions_table db) = Some r" "r \<in> set (transactions_table db)" "rt_txid r = txid"
    by (cases "find (\<lambda>r. rt_txid r = txid) (transactions_table db)") (auto simp: find_None_iff find_Some_iff)
  then have "compute_txid B (rt_tx r) = txid \<and> tx_input (rt_tx r) \<noteq> [] \<and> tx_output (rt_tx r) \<noteq> []"
    using assms(1) by (auto simp: db_inv_def txs_ok_def)
  then show "\<exists>t. map_option rt_tx (find (\<lambda>r. rt_txid r = txid) (transactions_table db)) = Some t \<and>
      compute_txid B t = txid \<and> tx_input t \<noteq> [] \<and> tx_output t \<noteq> []"
    using r(1) by simp
qed

lemma setup_sqlite_upgrades:
  assumes "file_sound B D f" "db_network (df_data f) = network" "wallet_descriptor (df_data f) = desc"
    "db_version f < 5 \<longrightarrow> (\<exists>get_transaction. bitcoind = Some get_transaction \<and> node_knows B get_transaction (df_data f))"
  shows "\<exists>f'. setup_sqlite B D network desc now False bitcoind (Some f) = (Ok (), Some f') \<and> db_inv B D (df_data f') \<and>
    db_version f' = 8 \<and> keeps (db_version f) (df_data f) (df_data f')"
proof -
  obtain txs where txs: "(if db_version f \<le> MAX_DB_VERSION_NO_TX_DB
        then rbind (ok_or Backend_Required bitcoind) (\<lambda>get_transaction.
             ok_or Missing_Transaction (collect_options get_transaction (list_all_txids (df_data f))))
        else Ok []) = Ok txs" "db_version f < 5 \<longrightarrow> txs_given B txs (df_data f)"
    using assms(4) by (cases "db_version f < 5") (auto simp: MAX_DB_VERSION_NO_TX_DB_def ok_or_def elim: node_knows_given)
  have "file_ok B D txs f" using assms(1) txs(2) by (simp add: file_ok_def)
  then obtain f' where f': "maybe_apply_migration B txs f = (Ok (), f')" "file_ok B D txs f'" "db_version f' = 8"
    "keeps (db_version f) (df_data f) (df_data f')"
    using maybe_apply_migration_ok by blast
  have "db_sanity_check network desc (df_data f') = Ok ()"
    using f'(3,4) assms(2,3) by (simp add: db_sanity_check_def keeps_def db_version_def DB_VERSION_def)
  then have "setup_sqlite B D network desc now False bitcoind (Some f) = (Ok (), Some f')"
    using txs(1) f'(1) by (simp add: setup_sqlite_def sqlite_db_new_def ok_or_def map_err_def)
  then show ?thesis using f' file_ok_current by blast
qed

end
