(* ===== verification/Business_Text.thy ===== *)
theory Business_Text
  imports Prelude "HOL-Library.Char_ord" "HOL-Library.List_Lexorder"
begin

text \<open>
  The text operations of Rust's standard library that the business installer relies on:
  \<open>trim\<close>, \<open>to_lowercase\<close>, \<open>eq_ignore_ascii_case\<close>, \<open>contains\<close>, the decimal \<open>parse\<close> of the unsigned
  integers and their \<open>to_string\<close>. A string is the list of its characters, U+0000 to U+00FF; on
  these characters the definitions are those of Unicode (\<open>White_Space\<close>, the lowercase mapping).
\<close>

section \<open>Characters\<close>

definition is_whitespace :: "char \<Rightarrow> bool" where
  "is_whitespace c = (let n = (of_char c :: nat) in 9 \<le> n \<and> n \<le> 13 \<or> n = 32 \<or> n = 133 \<or> n = 160)"

definition char_lower :: "char \<Rightarrow> char" where
  "char_lower c =
     (let n = (of_char c :: nat) in
      if 65 \<le> n \<and> n \<le> 90 \<or> 192 \<le> n \<and> n \<le> 222 \<and> n \<noteq> 215 then char_of (n + 32) else c)"

definition char_ascii_lower :: "char \<Rightarrow> char" where
  "char_ascii_lower c = (let n = (of_char c :: nat) in if 65 \<le> n \<and> n \<le> 90 then char_of (n + 32) else c)"

definition is_ascii_digit :: "char \<Rightarrow> bool" where
  "is_ascii_digit c = (let n = (of_char c :: nat) in 48 \<le> n \<and> n \<le> 57)"

section \<open>Strings\<close>

definition trim :: "string \<Rightarrow> string" where
  "trim s = rev (dropWhile is_whitespace (rev (dropWhile is_whitespace s)))"

definition to_lowercase :: "string \<Rightarrow> string" where
  "to_lowercase s = map char_lower s"

definition eq_ignore_ascii_case :: "string \<Rightarrow> string \<Rightarrow> bool" where
  "eq_ignore_ascii_case s t = (map char_ascii_lower s = map char_ascii_lower t)"

fun str_contains :: "string \<Rightarrow> string \<Rightarrow> bool" where
  "str_contains [] q = (q = [])"
| "str_contains (c # s) q = (take (length q) (c # s) = q \<or> str_contains s q)"

section \<open>Decimal numbers\<close>

definition digit_char :: "nat \<Rightarrow> char" where
  "digit_char d = char_of (48 + d)"

definition digit_val :: "char \<Rightarrow> nat" where
  "digit_val c = of_char c - 48"

fun show_nat :: "nat \<Rightarrow> string" where
  "show_nat n = (if n < 10 then [digit_char n] else show_nat (n div 10) @ [digit_char (n mod 10)])"

declare show_nat.simps [simp del]

text \<open>
  \<open>s.parse()\<close> of an unsigned integer of at most \<open>max\<close>: an optional plus sign and at least one digit;
  anything else, and a value above the maximum, is an error.
\<close>

definition digits_val :: "string \<Rightarrow> nat" where
  "digits_val s = foldl (\<lambda>v c. 10 * v + digit_val c) 0 s"

definition parse_unsigned :: "nat \<Rightarrow> string \<Rightarrow> nat option" where
  "parse_unsigned mx s =
     (let ds = (case s of c # r \<Rightarrow> if c = CHR ''+'' then r else s | [] \<Rightarrow> []) in
      if ds \<noteq> [] \<and> list_all is_ascii_digit ds \<and> digits_val ds \<le> mx then Some (digits_val ds) else None)"

abbreviation parse_u8 :: "string \<Rightarrow> nat option" where "parse_u8 \<equiv> parse_unsigned 255"
abbreviation parse_u64 :: "string \<Rightarrow> nat option" where "parse_u64 \<equiv> parse_unsigned (2 ^ 64 - 1)"

section \<open>Reading back what was written\<close>

lemma of_char_digit [simp]: "d < 10 \<Longrightarrow> (of_char (digit_char d) :: nat) = 48 + d"
  by (simp add: digit_char_def)

lemma digit_val_char [simp]: "d < 10 \<Longrightarrow> digit_val (digit_char d) = d"
  by (simp add: digit_val_def)

lemma is_digit_char [simp]: "d < 10 \<Longrightarrow> is_ascii_digit (digit_char d)"
  by (simp add: is_ascii_digit_def)

lemma digits_val_snoc: "digits_val (s @ [c]) = 10 * digits_val s + digit_val c"
  by (simp add: digits_val_def)

lemma show_nat_digits: "list_all is_ascii_digit (show_nat n)"
  by (induction n rule: show_nat.induct) (simp add: show_nat.simps)

lemma show_nat_val: "digits_val (show_nat n) = n"
proof (induction n rule: show_nat.induct)
  case (1 n)
  show ?case
  proof (cases "n < 10")
    case True then show ?thesis by (subst show_nat.simps) (simp add: digits_val_def)
  next
    case False
    then show ?thesis using 1 by (subst show_nat.simps) (simp add: digits_val_snoc)
  qed
qed

lemma show_nat_not_Nil [simp]: "show_nat n \<noteq> []"
  by (subst show_nat.simps) simp

lemma parse_digits:
  assumes "s \<noteq> []" "list_all is_ascii_digit s"
  shows "parse_unsigned mx s = (if digits_val s \<le> mx then Some (digits_val s) else None)"
proof -
  obtain c r where s: "s = c # r" using assms(1) by (cases s) auto
  have "c \<noteq> CHR ''+''" using assms(2) unfolding s by (auto simp: is_ascii_digit_def)
  then show ?thesis using assms unfolding parse_unsigned_def s by simp
qed

lemma parse_show_nat [simp]: "parse_unsigned mx (show_nat n) = (if n \<le> mx then Some n else None)"
  using parse_digits [OF show_nat_not_Nil show_nat_digits] by (simp add: show_nat_val)

lemma parse_Nil [simp]: "parse_unsigned mx [] = None"
  by (simp add: parse_unsigned_def)

lemma parse_unsigned_le: "parse_unsigned mx s = Some n \<Longrightarrow> n \<le> mx"
  by (auto simp: parse_unsigned_def Let_def split: if_splits)

text \<open>The filter of the number inputs: what is kept of a typed text is read back, or is empty.\<close>

lemma filtered_digits: "list_all is_ascii_digit (filter is_ascii_digit s)"
  by (simp add: list_all_iff)

lemma to_lowercase_idem [simp]: "to_lowercase (to_lowercase s) = to_lowercase s"
proof -
  have "char_lower (char_lower c) = char_lower c" for c
    by (cases "65 \<le> (of_char c :: nat) \<and> (of_char c :: nat) \<le> 90
               \<or> 192 \<le> (of_char c :: nat) \<and> (of_char c :: nat) \<le> 222 \<and> (of_char c :: nat) \<noteq> 215")
       (auto simp: char_lower_def Let_def)
  then show ?thesis by (simp add: to_lowercase_def)
qed

end
