(* ===== verification/Bitcoind_Rpc.thy ===== *)
theory Bitcoind_Rpc
  imports Backend Json Business_Text
begin

text \<open>
  The interface to a \<open>bitcoind\<close> node (\<open>lianad/src/bitcoin/d/mod.rs\<close>): the requests with their
  retries, what is read of the answers, the watch-only wallet, rescans. The node is a
  state that each request and each pause of the code may change, with the answer it gives: the record
  \<open>rpc_server\<close>. Texts of hashes, addresses, descriptors and transactions are the record \<open>texts\<close>.
\<close>

section \<open>Errors\<close>

text \<open>An error of \<open>jsonrpc\<close>, as far as the code tells them apart.\<close>

datatype jsonrpc_error =
  Rpc_Code int string | Http_Status nat | Io_TimedOut | Io_Other | Minreq_Other | Jsonrpc_Other

datatype wallet_error =
  Creating string | ImportingDescriptor string | Loading_Wallet string | MissingOrTooManyWallet | MissingDescriptor

datatype bitcoind_error =
  CookieFile | Server jsonrpc_error | BatchMissingResponse | Wallet_Error string wallet_error | InvalidVersion nat
  | NetworkMismatch string string | StartRescan | RescanPastPruneHeight

definition is_warming_up :: "bitcoind_error \<Rightarrow> bool" where
  "is_warming_up e = (case e of Server (Rpc_Code code message) \<Rightarrow> code = -28 | _ \<Rightarrow> False)"

definition is_timeout :: "bitcoind_error \<Rightarrow> bool" where
  "is_timeout e = (e = Server Io_TimedOut)"

definition is_transient :: "bitcoind_error \<Rightarrow> bool" where
  "is_transient e =
     (case e of
        Server (Http_Status status) \<Rightarrow> status = 503
      | Server Io_TimedOut \<Rightarrow> True
      | Server Io_Other \<Rightarrow> True
      | _ \<Rightarrow> False)"

definition is_unauthorized :: "bitcoind_error \<Rightarrow> bool" where
  "is_unauthorized e = (case e of Server (Http_Status status) \<Rightarrow> status = 401 | _ \<Rightarrow> False)"

section \<open>Requests\<close>

datatype rpc_client = Node_Client | Sendonly_Client | Watchonly_Client

record 's rpc_server =
  sv_answer :: "rpc_client \<Rightarrow> string \<Rightarrow> json list option \<Rightarrow> 's \<Rightarrow> (jsonrpc_error + json) \<times> 's"
  sv_sleep :: "nat \<Rightarrow> 's \<Rightarrow> 's"

record bitcoind =
  bd_wallet_path :: string
  bd_retries :: nat

definition BITCOIND_RETRY_LIMIT :: nat where "BITCOIND_RETRY_LIMIT = 60"
definition MIN_BITCOIND_VERSION :: nat where "MIN_BITCOIND_VERSION = 240000"
definition MIN_TAPROOT_BITCOIND_VERSION :: nat where "MIN_TAPROOT_BITCOIND_VERSION = 260000"

text \<open>A computation that talks to the node: it may panic (\<open>expect\<close>) or fail.\<close>

datatype rpc_failure = Rpc_Panic | Rpc_Failed bitcoind_error

type_synonym ('s, 'a) rpc = "'s \<Rightarrow> (rpc_failure + 'a) \<times> 's"

definition ret :: "'a \<Rightarrow> ('s, 'a) rpc" where
  "ret x s = (Inr x, s)"

definition fail :: "rpc_failure \<Rightarrow> ('s, 'a) rpc" where
  "fail e s = (Inl e, s)"

definition andthen :: "('s, 'a) rpc \<Rightarrow> ('a \<Rightarrow> ('s, 'b) rpc) \<Rightarrow> ('s, 'b) rpc" where
  "andthen m f s = (case m s of (Inl e, s) \<Rightarrow> (Inl e, s) | (Inr x, s) \<Rightarrow> f x s)"

text \<open>\<open>expect\<close> on an option, and on the result of a request; a result taken as a value.\<close>

definition expect :: "'a option \<Rightarrow> ('s, 'a) rpc" where
  "expect x = (case x of None \<Rightarrow> fail Rpc_Panic | Some y \<Rightarrow> ret y)"

definition unwrap_request :: "('s, 'a) rpc \<Rightarrow> ('s, 'a) rpc" where
  "unwrap_request m s = (case m s of (Inl e, s) \<Rightarrow> (Inl Rpc_Panic, s) | r \<Rightarrow> r)"

definition attempt :: "('s, 'a) rpc \<Rightarrow> ('s, bitcoind_error + 'a) rpc" where
  "attempt m s =
     (case m s of
        (Inl Rpc_Panic, s) \<Rightarrow> (Inl Rpc_Panic, s)
      | (Inl (Rpc_Failed e), s) \<Rightarrow> (Inr (Inl e), s)
      | (Inr x, s) \<Rightarrow> (Inr (Inr x), s))"

definition try_request :: "'s rpc_server \<Rightarrow> rpc_client \<Rightarrow> string \<Rightarrow> json list option \<Rightarrow> ('s, json) rpc" where
  "try_request V cl meth ps s =
     (case sv_answer V cl meth ps s of
        (Inl e, s) \<Rightarrow> (Inl (Rpc_Failed (Server e)), s)
      | (Inr j, s) \<Rightarrow> (Inr j, s))"

text \<open>
  The loop of \<open>retry\<close>, with the number of rounds left: an answer or an error that no retry can
  help ends it; after a pause for any other it goes on, and after the last round that error is returned.
\<close>

fun retry_loop :: "'s rpc_server \<Rightarrow> ('s, 'a) rpc \<Rightarrow> nat \<Rightarrow> bitcoind_error option \<Rightarrow> ('s, 'a) rpc" where
  "retry_loop V req 0 before s = (Inl (case before of None \<Rightarrow> Rpc_Panic | Some e \<Rightarrow> Rpc_Failed e), s)"
| "retry_loop V req (Suc n) before s =
     (case req s of
        (Inr x, s) \<Rightarrow> (Inr x, s)
      | (Inl Rpc_Panic, s) \<Rightarrow> (Inl Rpc_Panic, s)
      | (Inl (Rpc_Failed e), s) \<Rightarrow>
          if is_warming_up e then retry_loop V req n (Some e) (sv_sleep V 1 s)
          else if is_unauthorized e then (Inl (Rpc_Failed e), s)
          else if is_transient e then retry_loop V req n (Some e) (sv_sleep V 1 s)
          else (Inl (Rpc_Failed e), s))"

definition retry :: "bitcoind \<Rightarrow> 's rpc_server \<Rightarrow> ('s, 'a) rpc \<Rightarrow> ('s, 'a) rpc" where
  "retry B V req = retry_loop V req (bd_retries B + 1) None"

definition make_request ::
  "bitcoind \<Rightarrow> 's rpc_server \<Rightarrow> rpc_client \<Rightarrow> string \<Rightarrow> json list option \<Rightarrow> ('s, json) rpc" where
  "make_request B V cl meth ps = retry B V (try_request V cl meth ps)"

text \<open>A request whose answer is not waited for: a timeout is what is expected.\<close>

definition make_noreply_request :: "'s rpc_server \<Rightarrow> string \<Rightarrow> json list option \<Rightarrow> ('s, unit) rpc" where
  "make_noreply_request V meth ps =
     andthen (attempt (try_request V Sendonly_Client meth ps)) (\<lambda>r.
     case r of Inr j \<Rightarrow> ret () | Inl e \<Rightarrow> if is_timeout e then ret () else fail (Rpc_Failed e))"

definition make_fallible_node_request :: "bitcoind \<Rightarrow> 's rpc_server \<Rightarrow> string \<Rightarrow> json list option \<Rightarrow> ('s, json) rpc" where
  "make_fallible_node_request B V meth ps = make_request B V Node_Client meth ps"

definition make_node_request :: "bitcoind \<Rightarrow> 's rpc_server \<Rightarrow> string \<Rightarrow> json list option \<Rightarrow> ('s, json) rpc" where
  "make_node_request B V meth ps = unwrap_request (make_request B V Node_Client meth ps)"

definition make_wallet_request :: "bitcoind \<Rightarrow> 's rpc_server \<Rightarrow> string \<Rightarrow> json list option \<Rightarrow> ('s, json) rpc" where
  "make_wallet_request B V meth ps = unwrap_request (make_request B V Watchonly_Client meth ps)"

definition make_faillible_wallet_request ::
  "bitcoind \<Rightarrow> 's rpc_server \<Rightarrow> string \<Rightarrow> json list option \<Rightarrow> ('s, json) rpc" where
  "make_faillible_wallet_request B V meth ps = make_request B V Watchonly_Client meth ps"

section \<open>What is read of the answers\<close>

record 'd texts =
  txid_of_text :: "string \<Rightarrow> txid option"
  txid_text :: "txid \<Rightarrow> string"
  hash_of_text :: "string \<Rightarrow> block_hash option"
  hash_text :: "block_hash \<Rightarrow> string"
  address_of_text :: "string \<Rightarrow> address option"
  desc_of_text :: "string \<Rightarrow> 'd option"
  desc_text :: "'d \<Rightarrow> string"
  tx_of_hex :: "string \<Rightarrow> tx option"
  tx_hex :: "tx \<Rightarrow> string"
  amount_of_btc :: "json_number \<Rightarrow> nat option"
  error_text :: "bitcoind_error \<Rightarrow> string"
  json_text :: "json \<Rightarrow> string"

text \<open>The conversions \<open>as i32\<close> and \<open>as u32\<close> keep the low 32 bits.\<close>

definition to_i32 :: "int \<Rightarrow> int" where
  "to_i32 i = (i + 2 ^ 31) mod 2 ^ 32 - 2 ^ 31"

definition to_u32 :: "nat \<Rightarrow> nat" where
  "to_u32 n = n mod 2 ^ 32"

definition json_int :: "int \<Rightarrow> json" where
  "json_int i = J_Number (if 0 \<le> i then Pos_Int (nat i) else Neg_Int i)"

definition field_u64 :: "string \<Rightarrow> json \<Rightarrow> nat option" where
  "field_u64 name j = Option.bind (json_get name j) as_u64"

definition field_i64 :: "string \<Rightarrow> json \<Rightarrow> int option" where
  "field_i64 name j = Option.bind (json_get name j) as_i64"

definition field_str :: "string \<Rightarrow> json \<Rightarrow> string option" where
  "field_str name j = Option.bind (json_get name j) as_str"

definition field_array :: "string \<Rightarrow> json \<Rightarrow> json list option" where
  "field_array name j = Option.bind (json_get name j) as_array"

fun as_number :: "json \<Rightarrow> json_number option" where
  "as_number (J_Number n) = Some n"
| "as_number _ = None"

definition field_amount :: "'d texts \<Rightarrow> string \<Rightarrow> json \<Rightarrow> nat option" where
  "field_amount X name j = Option.bind (Option.bind (json_get name j) as_number) (amount_of_btc X)"

text \<open>An answer that lacks a field is a panic, here \<open>None\<close>.\<close>

definition ls_block_entry_of_json :: "'d texts \<Rightarrow> json \<Rightarrow> 'd ls_block_entry option" where
  "ls_block_entry_of_json X j =
     Option.bind (Option.bind (field_str ''txid'' j) (txid_of_text X)) (\<lambda>txid.
     Option.bind (field_u64 ''vout'' j) (\<lambda>vout.
     Option.bind (field_amount X ''amount'' j) (\<lambda>amount.
     Option.bind (Option.bind (field_str ''address'' j) (address_of_text X)) (\<lambda>addr.
     Option.bind (Option.bind (field_array ''parent_descs'' j) (\<lambda>ds.
        collect_options (\<lambda>d. Option.bind (as_str d) (desc_of_text X)) ds)) (\<lambda>descs.
     Option.bind (field_str ''category'' j) (\<lambda>category.
     Some \<lparr>ls_outpoint = \<lparr>op_txid = txid, op_vout = to_u32 vout\<rparr>, ls_amount = amount,
       ls_block_height = map_option to_i32 (field_i64 ''blockheight'' j), ls_address = addr,
       ls_parent_descs = descs, ls_is_immature = (category = ''immature'')\<rparr>))))))"

fun received_entries :: "'d texts \<Rightarrow> json list \<Rightarrow> 'd ls_block_entry list option" where
  "received_entries X [] = Some []"
| "received_entries X (j # js) =
     (case field_str ''category'' j of
        None \<Rightarrow> None
      | Some category \<Rightarrow>
          if category \<in> {''receive'', ''generate'', ''immature''}
          then Option.bind (ls_block_entry_of_json X j) (\<lambda>e. map_option (Cons e) (received_entries X js))
          else received_entries X js)"

definition ls_block_res_of_json :: "'d texts \<Rightarrow> json \<Rightarrow> 'd ls_block_entry list option" where
  "ls_block_res_of_json X j = Option.bind (field_array ''transactions'' j) (received_entries X)"

definition get_tx_res_of_json :: "'d texts \<Rightarrow> json \<Rightarrow> get_tx_res option" where
  "get_tx_res_of_json X j =
     Option.bind (case field_str ''blockhash'' j of
        None \<Rightarrow> Some None | Some s \<Rightarrow> map_option Some (hash_of_text X s)) (\<lambda>block_hash.
     Option.bind (case field_array ''walletconflicts'' j of
        None \<Rightarrow> Some []
      | Some vs \<Rightarrow> collect_options (\<lambda>v. Option.bind (as_str v) (txid_of_text X)) vs) (\<lambda>conflicts.
     Option.bind (Option.bind (field_str ''hex'' j) (tx_of_hex X)) (\<lambda>tx.
     Option.bind (field_i64 ''confirmations'' j) (\<lambda>confs.
     Some \<lparr>gt_conflicting_txs = conflicts,
       gt_block = (case (block_hash, field_i64 ''blockheight'' j, field_u64 ''blocktime'' j) of
          (Some hash, Some height, Some time) \<Rightarrow>
            Some \<lparr>blk_hash = hash, blk_height = to_i32 height, blk_time = to_u32 time\<rparr>
        | _ \<Rightarrow> None),
       gt_tx = tx,
       gt_is_coinbase = (case Option.bind (json_get ''generated'' j) as_bool of None \<Rightarrow> False | Some b \<Rightarrow> b),
       gt_confirmations = to_i32 confs\<rparr>))))"

definition block_stats_of_json :: "'d texts \<Rightarrow> block_hash \<Rightarrow> json \<Rightarrow> block_stats option" where
  "block_stats_of_json X hash j =
     Option.bind (field_i64 ''confirmations'' j) (\<lambda>confs.
     Option.bind (case field_str ''previousblockhash'' j of
        None \<Rightarrow> Some None | Some s \<Rightarrow> map_option Some (hash_of_text X s)) (\<lambda>previous.
     Option.bind (field_i64 ''height'' j) (\<lambda>height.
     Option.bind (field_u64 ''time'' j) (\<lambda>time.
     Option.bind (field_u64 ''mediantime'' j) (\<lambda>median.
     Some \<lparr>bs_confirmations = to_i32 confs, bs_previous = previous, bs_hash = hash, bs_height = to_i32 height,
       bs_time = to_u32 time, bs_median_time = to_u32 median\<rparr>)))))"

definition mempool_entry_of_json :: "'d texts \<Rightarrow> json \<Rightarrow> mempool_entry option" where
  "mempool_entry_of_json X j =
     Option.bind (field_u64 ''vsize'' j) (\<lambda>vsize.
     Option.bind (field_u64 ''ancestorsize'' j) (\<lambda>ancestor_vsize.
     Option.bind (json_get ''fees'' j) (\<lambda>fees.
     Option.bind (field_amount X ''base'' fees) (\<lambda>base.
     Option.bind (field_amount X ''ancestor'' fees) (\<lambda>ancestor.
     Option.bind (field_amount X ''descendant'' fees) (\<lambda>descendant.
     Some \<lparr>me_vsize = vsize, me_ancestor_vsize = ancestor_vsize, me_base_fee = base, me_ancestor_fee = ancestor,
       me_descendant_fee = descendant\<rparr>))))))"

record list_desc_entry =
  ld_desc :: string
  ld_range :: "(nat \<times> nat) option"
  ld_timestamp :: nat

text \<open>A range that is there must be two indexes.\<close>

definition range_of_json :: "json \<Rightarrow> (nat \<times> nat) option option" where
  "range_of_json j =
     (case field_array ''range'' j of
        None \<Rightarrow> Some None
      | Some vs \<Rightarrow>
          (case collect_options as_u64 vs of
             Some [a, b] \<Rightarrow> Some (Some (to_u32 a, to_u32 b))
           | _ \<Rightarrow> None))"

definition list_desc_entry_of_json :: "json \<Rightarrow> list_desc_entry option" where
  "list_desc_entry_of_json j =
     Option.bind (field_str ''desc'' j) (\<lambda>desc.
     Option.bind (range_of_json j) (\<lambda>range.
     Option.bind (Option.bind (field_u64 ''timestamp'' j) (try_smaller 4294967295)) (\<lambda>timestamp.
     Some \<lparr>ld_desc = desc, ld_range = range, ld_timestamp = timestamp\<rparr>)))"

definition descs_contain_timestamp :: "'d texts \<Rightarrow> list_desc_entry list \<Rightarrow> 'd \<Rightarrow> nat \<Rightarrow> bool" where
  "descs_contain_timestamp X entries d timestamp =
     (case find (\<lambda>(e, t). desc_text X e = desc_text X d)
        (List.map_filter (\<lambda>e. map_option (\<lambda>d. (d, ld_timestamp e)) (desc_of_text X (ld_desc e))) entries) of
        None \<Rightarrow> False | Some (_, t) \<Rightarrow> t = timestamp)"

text \<open>The warning of a wallet command: a field of version 24, a list since version 25.\<close>

definition warning_from_res :: "json \<Rightarrow> string option" where
  "warning_from_res j =
     (case field_str ''warning'' j of
        Some (c # cs) \<Rightarrow> Some (c # cs)
      | _ \<Rightarrow>
          (case field_array ''warnings'' j of
             None \<Rightarrow> None
           | Some ws \<Rightarrow> find_map (\<lambda>w. case as_str w of Some (c # cs) \<Rightarrow> Some (c # cs) | _ \<Rightarrow> None) ws))"

definition encode_rpc_path :: "string \<Rightarrow> string" where
  "encode_rpc_path p = concat (map (\<lambda>c. if c = CHR '' '' then ''%20'' else [c]) p)"

end
