(* ===== verification/Bitcoind_Node.thy ===== *)
theory Bitcoind_Node
  imports Bitcoind_Rpc
begin

text \<open>
  The operations on a \<open>bitcoind\<close> node (\<open>lianad/src/bitcoin/d/mod.rs\<close>): its checks at startup, the
  watch-only wallet, the queries of the poller and of the commands, rescans. A loop of the code that
  waits for the node may not end: it is a partial function, \<open>None\<close> being a loop that does not.
\<close>

section \<open>The connection\<close>

partial_function (option) check_client ::
  "bitcoind \<Rightarrow> 's rpc_server \<Rightarrow> rpc_client \<Rightarrow> 's \<Rightarrow> ((rpc_failure + unit) \<times> 's) option" where
  "check_client B V cl s =
     (case make_request B V cl ''echo'' None s of
        (Inr j, s) \<Rightarrow> Some (Inr (), s)
      | (Inl Rpc_Panic, s) \<Rightarrow> Some (Inl Rpc_Panic, s)
      | (Inl (Rpc_Failed e), s) \<Rightarrow>
          if is_warming_up e then check_client B V cl (sv_sleep V 1 s) else Some (Inl (Rpc_Failed e), s))"

definition check_connection :: "bitcoind \<Rightarrow> 's rpc_server \<Rightarrow> 's \<Rightarrow> ((rpc_failure + unit) \<times> 's) option" where
  "check_connection B V s =
     (case check_client B V Node_Client s of
        Some (Inr u, s) \<Rightarrow> check_client B V Watchonly_Client s
      | r \<Rightarrow> r)"

text \<open>
  A new interface: the connection is checked without retries. The clients, with their URLs,
  credentials and timeouts, are the server.
\<close>

definition new_bitcoind :: "'s rpc_server \<Rightarrow> string \<Rightarrow> 's \<Rightarrow> ((rpc_failure + bitcoind) \<times> 's) option" where
  "new_bitcoind V path s =
     (case check_connection \<lparr>bd_wallet_path = path, bd_retries = 0\<rparr> V s of
        None \<Rightarrow> None
      | Some (Inl e, s) \<Rightarrow> Some (Inl e, s)
      | Some (Inr u, s) \<Rightarrow> Some (Inr \<lparr>bd_wallet_path = path, bd_retries = BITCOIND_RETRY_LIMIT\<rparr>, s))"

definition stop_bitcoind :: "bitcoind \<Rightarrow> 's rpc_server \<Rightarrow> ('s, unit) rpc" where
  "stop_bitcoind B V = andthen (make_node_request B V ''stop'' None) (\<lambda>j. ret ())"

definition get_bitcoind_version :: "bitcoind \<Rightarrow> 's rpc_server \<Rightarrow> ('s, nat) rpc" where
  "get_bitcoind_version B V =
     andthen (make_node_request B V ''getnetworkinfo'' None) (\<lambda>j. expect (field_u64 ''version'' j))"

definition get_network_bip70 :: "bitcoind \<Rightarrow> 's rpc_server \<Rightarrow> ('s, string) rpc" where
  "get_network_bip70 B V =
     andthen (make_node_request B V ''getblockchaininfo'' None) (\<lambda>j. expect (field_str ''chain'' j))"

datatype btc_network = Bitcoin_Net | Testnet_Net | Testnet4_Net | Regtest_Net | Signet_Net

fun bip70_net :: "btc_network \<Rightarrow> string" where
  "bip70_net Bitcoin_Net = ''main''"
| "bip70_net Testnet_Net = ''test''"
| "bip70_net Testnet4_Net = ''testnet4''"
| "bip70_net Regtest_Net = ''regtest''"
| "bip70_net Signet_Net = ''signet''"

definition node_sanity_checks :: "bitcoind \<Rightarrow> 's rpc_server \<Rightarrow> btc_network \<Rightarrow> bool \<Rightarrow> ('s, unit) rpc" where
  "node_sanity_checks B V net taproot =
     andthen (get_bitcoind_version B V) (\<lambda>version.
     if version < MIN_BITCOIND_VERSION then fail (Rpc_Failed (InvalidVersion version))
     else if taproot \<and> version < MIN_TAPROOT_BITCOIND_VERSION then fail (Rpc_Failed (InvalidVersion version))
     else andthen (get_network_bip70 B V) (\<lambda>chain.
       if chain \<noteq> bip70_net net then fail (Rpc_Failed (NetworkMismatch (bip70_net net) chain)) else ret ()))"

section \<open>The watch-only wallet\<close>

definition list_wallets :: "bitcoind \<Rightarrow> 's rpc_server \<Rightarrow> ('s, string list) rpc" where
  "list_wallets B V =
     andthen (make_node_request B V ''listwallets'' None)
       (\<lambda>j. expect (Option.bind (as_array j) (collect_options as_str)))"

definition unload_wallet :: "bitcoind \<Rightarrow> 's rpc_server \<Rightarrow> string \<Rightarrow> ('s, string option) rpc" where
  "unload_wallet B V path =
     andthen (make_node_request B V ''unloadwallet'' (Some [J_String path])) (\<lambda>j. ret (warning_from_res j))"

definition create_wallet :: "'d texts \<Rightarrow> bitcoind \<Rightarrow> 's rpc_server \<Rightarrow> string \<Rightarrow> ('s, string + unit) rpc" where
  "create_wallet X B V path =
     andthen (attempt (make_fallible_node_request B V ''createwallet''
       (Some [J_String path, J_Bool True, J_Bool True, J_Null, J_Bool False, J_Bool True, J_Bool True])))
     (\<lambda>r. ret (case r of
        Inl e \<Rightarrow> Inl (error_text X e)
      | Inr j \<Rightarrow>
          (case warning_from_res j of
             Some w \<Rightarrow> Inl w
           | None \<Rightarrow> if json_get ''name'' j = None then Inl ''Unknown error when create watchonly wallet'' else Inr ())))"

definition import_json :: "'d texts \<Rightarrow> 'd \<Rightarrow> (string \<times> json) list \<Rightarrow> json \<Rightarrow> json" where
  "import_json X d index_range timestamp =
     J_Object ([(''active'', J_Bool False), (''desc'', J_String (desc_text X d))] @ index_range @ [(''timestamp'', timestamp)])"

definition import_descriptor :: "'d texts \<Rightarrow> bitcoind \<Rightarrow> 's rpc_server \<Rightarrow> 'd list \<Rightarrow> ('s, string option) rpc" where
  "import_descriptor X B V descs =
     andthen (make_wallet_request B V ''importdescriptors''
       (Some [J_Array (map (\<lambda>d. import_json X d [] (J_String ''now'')) descs)]))
     (\<lambda>j. ret (case as_array j of
        Some rs \<Rightarrow>
          if list_all (\<lambda>r. Option.bind (json_get ''success'' r) as_bool = Some True) rs then None else Some (json_text X j)
      | None \<Rightarrow> Some (json_text X j)))"

definition list_descriptors :: "bitcoind \<Rightarrow> 's rpc_server \<Rightarrow> ('s, list_desc_entry list) rpc" where
  "list_descriptors B V =
     andthen (make_wallet_request B V ''listdescriptors'' None) (\<lambda>j.
     expect (Option.bind (field_array ''descriptors'' j) (collect_options list_desc_entry_of_json)))"

partial_function (option) maybe_unload_watchonly_wallet ::
  "bitcoind \<Rightarrow> 's rpc_server \<Rightarrow> 's \<Rightarrow> ((rpc_failure + unit) \<times> 's) option" where
  "maybe_unload_watchonly_wallet B V s =
     (case list_wallets B V s of
        (Inl e, s) \<Rightarrow> Some (Inl e, s)
      | (Inr ws, s) \<Rightarrow>
          if bd_wallet_path B \<notin> set ws then Some (Inr (), s)
          else case unload_wallet B V (bd_wallet_path B) s of
                 (Inl e, s) \<Rightarrow> Some (Inl e, s)
               | (Inr w, s) \<Rightarrow> maybe_unload_watchonly_wallet B V s)"

text \<open>The creation after the leftovers are unloaded.\<close>

definition create_and_import :: "'d texts \<Rightarrow> bitcoind \<Rightarrow> 's rpc_server \<Rightarrow> 'd list \<Rightarrow> ('s, unit) rpc" where
  "create_and_import X B V descs =
     andthen (create_wallet X B V (bd_wallet_path B)) (\<lambda>r.
     case r of
       Inl e \<Rightarrow> fail (Rpc_Failed (Wallet_Error (bd_wallet_path B) (Creating e)))
     | Inr u \<Rightarrow>
         andthen (import_descriptor X B V descs) (\<lambda>err.
         case err of
           Some e \<Rightarrow> fail (Rpc_Failed (Wallet_Error (bd_wallet_path B) (ImportingDescriptor e)))
         | None \<Rightarrow> ret ()))"

definition create_watchonly_wallet ::
  "'d texts \<Rightarrow> bitcoind \<Rightarrow> 's rpc_server \<Rightarrow> 'd list \<Rightarrow> 's \<Rightarrow> ((rpc_failure + unit) \<times> 's) option" where
  "create_watchonly_wallet X B V descs s =
     (case maybe_unload_watchonly_wallet B V s of
        None \<Rightarrow> None
      | Some (Inl e, s) \<Rightarrow> Some (Inl e, s)
      | Some (Inr u, s) \<Rightarrow> Some (create_and_import X B V descs s))"

partial_function (option) wait_loaded :: "bitcoind \<Rightarrow> 's rpc_server \<Rightarrow> 's \<Rightarrow> ((rpc_failure + unit) \<times> 's) option" where
  "wait_loaded B V s =
     (case list_wallets B V (sv_sleep V 3 s) of
        (Inl e, s) \<Rightarrow> Some (Inl e, s)
      | (Inr ws, s) \<Rightarrow> if bd_wallet_path B \<in> set ws then Some (Inr (), s) else wait_loaded B V s)"

definition maybe_load_watchonly_wallet :: "bitcoind \<Rightarrow> 's rpc_server \<Rightarrow> 's \<Rightarrow> ((rpc_failure + unit) \<times> 's) option" where
  "maybe_load_watchonly_wallet B V s =
     (case list_wallets B V s of
        (Inl e, s) \<Rightarrow> Some (Inl e, s)
      | (Inr ws, s) \<Rightarrow>
          if bd_wallet_path B \<in> set ws then Some (Inr (), s)
          else case make_fallible_node_request B V ''loadwallet'' (Some [J_String (bd_wallet_path B)]) s of
                 (Inr j, s) \<Rightarrow> Some (Inr (), s)
               | (Inl (Rpc_Failed (Server (Rpc_Code code message))), s) \<Rightarrow>
                   if code = -4 \<and> str_contains (to_lowercase message) ''wallet already loading''
                   then wait_loaded B V s
                   else Some (Inl (Rpc_Failed (Server (Rpc_Code code message))), s)
               | (Inl e, s) \<Rightarrow> Some (Inl e, s))"

definition wallet_sanity_checks :: "'d texts \<Rightarrow> bitcoind \<Rightarrow> 's rpc_server \<Rightarrow> 'd \<Rightarrow> 'd \<Rightarrow> ('s, unit) rpc" where
  "wallet_sanity_checks X B V receive change =
     andthen (list_wallets B V) (\<lambda>ws.
     if length (filter (\<lambda>w. w = bd_wallet_path B) ws) \<noteq> 1
     then fail (Rpc_Failed (Wallet_Error (bd_wallet_path B) MissingOrTooManyWallet))
     else andthen (list_descriptors B V) (\<lambda>entries.
       let descs = List.map_filter (\<lambda>e. desc_of_text X (ld_desc e)) entries in
       if receive \<notin> set descs \<or> change \<notin> set descs
       then fail (Rpc_Failed (Wallet_Error (bd_wallet_path B) MissingDescriptor)) else ret ()))"

section \<open>The chain\<close>

definition block_chain_info :: "bitcoind \<Rightarrow> 's rpc_server \<Rightarrow> ('s, json) rpc" where
  "block_chain_info B V = make_node_request B V ''getblockchaininfo'' None"

text \<open>\<open>try_into\<close> to an \<open>i32\<close>.\<close>

definition try_i32 :: "int \<Rightarrow> int option" where
  "try_i32 i = (if - (2 ^ 31) \<le> i \<and> i < 2 ^ 31 then Some i else None)"

record sync_progress =
  sync_percentage :: json_number
  sync_headers :: nat
  sync_blocks :: nat

definition node_sync_progress :: "bitcoind \<Rightarrow> 's rpc_server \<Rightarrow> ('s, sync_progress) rpc" where
  "node_sync_progress B V =
     andthen (block_chain_info B V) (\<lambda>j.
     expect (Option.bind (Option.bind (json_get ''verificationprogress'' j) as_number) (\<lambda>percentage.
       Option.bind (field_u64 ''headers'' j) (\<lambda>headers.
       Option.bind (field_u64 ''blocks'' j) (\<lambda>blocks.
       Some \<lparr>sync_percentage = percentage, sync_headers = headers, sync_blocks = blocks\<rparr>)))))"

definition node_chain_tip :: "'d texts \<Rightarrow> bitcoind \<Rightarrow> 's rpc_server \<Rightarrow> ('s, block_chain_tip) rpc" where
  "node_chain_tip X B V =
     andthen (block_chain_info B V) (\<lambda>j.
     expect (Option.bind (Option.bind (field_str ''bestblockhash'' j) (hash_of_text X)) (\<lambda>hash.
       Option.bind (Option.bind (field_i64 ''blocks'' j) try_i32) (\<lambda>height.
       Some \<lparr>ct_height = height, ct_hash = hash\<rparr>))))"

definition get_block_hash :: "'d texts \<Rightarrow> bitcoind \<Rightarrow> 's rpc_server \<Rightarrow> int \<Rightarrow> ('s, block_hash option) rpc" where
  "get_block_hash X B V height =
     andthen (attempt (make_fallible_node_request B V ''getblockhash'' (Some [json_int height]))) (\<lambda>r.
     case r of Inl e \<Rightarrow> ret None
     | Inr j \<Rightarrow> andthen (expect (Option.bind (as_str j) (hash_of_text X))) (\<lambda>hash. ret (Some hash)))"

definition get_block_stats :: "'d texts \<Rightarrow> bitcoind \<Rightarrow> 's rpc_server \<Rightarrow> block_hash \<Rightarrow> ('s, block_stats option) rpc" where
  "get_block_stats X B V hash =
     andthen (attempt (make_fallible_node_request B V ''getblockheader'' (Some [J_String (hash_text X hash)]))) (\<lambda>r.
     case r of Inl e \<Rightarrow> ret None
     | Inr j \<Rightarrow> andthen (expect (block_stats_of_json X hash j)) (\<lambda>stats. ret (Some stats)))"

definition since_block_params :: "string \<Rightarrow> json list" where
  "since_block_params hash = [J_String hash, J_Number (Pos_Int 1), J_Bool True, J_Bool False, J_Bool True]"

definition list_since_block ::
  "'d texts \<Rightarrow> bitcoind \<Rightarrow> 's rpc_server \<Rightarrow> block_hash \<Rightarrow> ('s, 'd ls_block_entry list) rpc" where
  "list_since_block X B V hash =
     andthen (make_wallet_request B V ''listsinceblock'' (Some (since_block_params (hash_text X hash)))) (\<lambda>j.
     expect (ls_block_res_of_json X j))"

definition get_transaction :: "'d texts \<Rightarrow> bitcoind \<Rightarrow> 's rpc_server \<Rightarrow> txid \<Rightarrow> ('s, get_tx_res option) rpc" where
  "get_transaction X B V txid =
     andthen (attempt (make_faillible_wallet_request B V ''gettransaction'' (Some [J_String (txid_text X txid)]))) (\<lambda>r.
     case r of Inl e \<Rightarrow> ret None
     | Inr j \<Rightarrow> andthen (expect (get_tx_res_of_json X j)) (\<lambda>res. ret (Some res)))"

definition node_is_spent :: "'d texts \<Rightarrow> bitcoind \<Rightarrow> 's rpc_server \<Rightarrow> outpoint \<Rightarrow> ('s, bool) rpc" where
  "node_is_spent X B V op =
     andthen (make_node_request B V ''gettxout''
       (Some [J_String (txid_text X (op_txid op)), J_Number (Pos_Int (op_vout op))])) (\<lambda>j.
     ret (json_get ''bestblock'' j = None))"

definition get_mempool_entry :: "'d texts \<Rightarrow> bitcoind \<Rightarrow> 's rpc_server \<Rightarrow> txid \<Rightarrow> ('s, mempool_entry option) rpc" where
  "get_mempool_entry X B V txid =
     andthen (attempt (make_fallible_node_request B V ''getmempoolentry'' (Some [J_String (txid_text X txid)]))) (\<lambda>r.
     case r of
       Inr j \<Rightarrow> andthen (expect (mempool_entry_of_json X j)) (\<lambda>e. ret (Some e))
     | Inl e \<Rightarrow> (case e of Server (Rpc_Code code message) \<Rightarrow> if code = -5 then ret None else fail Rpc_Panic
                | _ \<Rightarrow> fail Rpc_Panic))"

definition is_in_mempool :: "'d texts \<Rightarrow> bitcoind \<Rightarrow> 's rpc_server \<Rightarrow> txid \<Rightarrow> ('s, bool) rpc" where
  "is_in_mempool X B V txid = andthen (get_mempool_entry X B V txid) (\<lambda>e. ret (e \<noteq> None))"

definition mempool_txs_spending_prevouts ::
  "'d texts \<Rightarrow> bitcoind \<Rightarrow> 's rpc_server \<Rightarrow> outpoint list \<Rightarrow> ('s, txid list) rpc" where
  "mempool_txs_spending_prevouts X B V ops =
     andthen (make_node_request B V ''gettxspendingprevout''
       (Some [J_Array (map (\<lambda>op. J_Object [(''txid'', J_String (txid_text X (op_txid op))),
          (''vout'', J_Number (Pos_Int (op_vout op)))]) ops)])) (\<lambda>j.
     expect (Option.bind (as_array j) (\<lambda>es.
       collect_options (\<lambda>v. Option.bind (as_str v) (txid_of_text X)) (List.map_filter (json_get ''spendingtxid'') es))))"

definition broadcast_raw :: "'d texts \<Rightarrow> bitcoind \<Rightarrow> 's rpc_server \<Rightarrow> tx \<Rightarrow> ('s, unit) rpc" where
  "broadcast_raw X B V tx =
     andthen (make_fallible_node_request B V ''sendrawtransaction'' (Some [J_String (tx_hex X tx)])) (\<lambda>j. ret ())"

section \<open>The spender of a coin\<close>

text \<open>One input of a transaction of the wallet, as \<open>gettransaction\<close> shows it.\<close>

definition input_outpoint :: "'d texts \<Rightarrow> json \<Rightarrow> outpoint option" where
  "input_outpoint X j =
     Option.bind (Option.bind (field_str ''txid'' j) (txid_of_text X)) (\<lambda>txid.
     map_option (\<lambda>vout. \<lparr>op_txid = txid, op_vout = to_u32 vout\<rparr>) (field_u64 ''vout'' j))"

text \<open>
  The inner loop: the first input that spends the coin decides. An unconfirmed transaction with
  conflicts that is not in the mempool was replaced and is not the spender.
\<close>

fun scan_inputs ::
  "'d texts \<Rightarrow> bitcoind \<Rightarrow> 's rpc_server \<Rightarrow> outpoint \<Rightarrow> string \<Rightarrow> json \<Rightarrow> json list \<Rightarrow> ('s, txid option) rpc" where
  "scan_inputs X B V op spending res [] = ret None"
| "scan_inputs X B V op spending res (i # is) =
     (case input_outpoint X i of
        None \<Rightarrow> fail Rpc_Panic
      | Some iop \<Rightarrow>
          if op \<noteq> iop then scan_inputs X B V op spending res is
          else
            andthen (expect (txid_of_text X spending)) (\<lambda>txid.
            andthen (expect (field_i64 ''confirmations'' res)) (\<lambda>confs.
            andthen (expect (field_array ''walletconflicts'' res)) (\<lambda>conflicts.
            andthen (if confs = 0 \<and> conflicts \<noteq> [] then is_in_mempool X B V txid else ret True) (\<lambda>valid.
            ret (if valid then Some txid else None))))))"

fun scan_transactions ::
  "'d texts \<Rightarrow> bitcoind \<Rightarrow> 's rpc_server \<Rightarrow> outpoint \<Rightarrow> json list \<Rightarrow> string list \<Rightarrow> ('s, txid option) rpc" where
  "scan_transactions X B V op [] visited = ret None"
| "scan_transactions X B V op (t # ts) visited =
     (if field_str ''category'' t \<noteq> Some ''send'' then scan_transactions X B V op ts visited
      else case field_str ''txid'' t of
        None \<Rightarrow> fail Rpc_Panic
      | Some spending \<Rightarrow>
          if spending \<in> set visited \<or> txid_text X (op_txid op) = spending
          then scan_transactions X B V op ts visited
          else
            andthen (make_wallet_request B V ''gettransaction'' (Some [J_String spending, J_Bool True, J_Bool True])) (\<lambda>res.
            andthen (expect (Option.bind (json_get ''decoded'' res) (field_array ''vin''))) (\<lambda>vin.
            andthen (scan_inputs X B V op spending res vin) (\<lambda>r.
            case r of Some txid \<Rightarrow> ret (Some txid) | None \<Rightarrow> scan_transactions X B V op ts (spending # visited)))))"

definition get_spender_txid :: "'d texts \<Rightarrow> bitcoind \<Rightarrow> 's rpc_server \<Rightarrow> outpoint \<Rightarrow> ('s, txid option) rpc" where
  "get_spender_txid X B V op =
     andthen (make_wallet_request B V ''gettransaction'' (Some [J_String (txid_text X (op_txid op))])) (\<lambda>req.
     andthen (case field_i64 ''blockheight'' req of
        Some h \<Rightarrow> ret (to_i32 h) | None \<Rightarrow> andthen (node_chain_tip X B V) (\<lambda>tip. ret (ct_height tip))) (\<lambda>height.
     andthen (attempt (make_fallible_node_request B V ''getblockhash'' (Some [json_int (to_i32 (height - 1))]))) (\<lambda>r.
     case r of
       Inl e \<Rightarrow> ret None
     | Inr j \<Rightarrow>
         andthen (expect (as_str j)) (\<lambda>hash.
         andthen (make_wallet_request B V ''listsinceblock'' (Some (since_block_params hash))) (\<lambda>res.
         andthen (expect (field_array ''transactions'' res)) (\<lambda>ts.
         scan_transactions X B V op ts []))))))"

section \<open>Rescans\<close>

text \<open>The binary search of \<open>d/utils.rs\<close> over the answers of the node.\<close>

function search_rpc :: "'d texts \<Rightarrow> bitcoind \<Rightarrow> 's rpc_server \<Rightarrow> nat \<Rightarrow> int \<Rightarrow> int \<Rightarrow> ('s, int option) rpc" where
  "search_rpc X B V target s e =
     (if s < e then
        (let current = s + (e - s) div 2; next_height = current + 1 in
         andthen (get_block_hash X B V next_height) (\<lambda>hash.
         case hash of
           None \<Rightarrow> ret None
         | Some hash \<Rightarrow>
             andthen (get_block_stats X B V hash) (\<lambda>stats.
             case stats of
               None \<Rightarrow> ret None
             | Some stats \<Rightarrow>
                 if target > bs_time stats then search_rpc X B V target next_height e
                 else search_rpc X B V target s current)))
      else ret (Some s))"
  by pat_completeness auto
termination by (relation "measure (\<lambda>(X, B, V, target, s, e). nat (e - s))") auto

declare search_rpc.simps [simp del]

definition tip_before_timestamp ::
  "'d texts \<Rightarrow> bitcoind \<Rightarrow> 's rpc_server \<Rightarrow> nat \<Rightarrow> ('s, block_chain_tip option) rpc" where
  "tip_before_timestamp X B V target =
     andthen (node_chain_tip X B V) (\<lambda>tip.
     andthen (get_block_hash X B V 0) (\<lambda>genesis.
     andthen (expect genesis) (\<lambda>genesis.
     andthen (get_block_stats X B V genesis) (\<lambda>genesis_stats.
     case genesis_stats of
       None \<Rightarrow> ret None
     | Some genesis_stats \<Rightarrow>
         andthen (get_block_stats X B V (ct_hash tip)) (\<lambda>tip_stats.
         case tip_stats of
           None \<Rightarrow> ret None
         | Some tip_stats \<Rightarrow>
             if \<not> (bs_time genesis_stats \<le> target \<and> target < bs_time tip_stats) then ret None
             else
               andthen (search_rpc X B V target 0 (ct_height tip)) (\<lambda>h.
               case h of
                 None \<Rightarrow> ret None
               | Some h \<Rightarrow>
                   andthen (get_block_hash X B V h) (\<lambda>hash.
                   ret (map_option (\<lambda>hash. \<lparr>ct_height = h, ct_hash = hash\<rparr>) hash))))))))"

definition check_prune_height :: "'d texts \<Rightarrow> bitcoind \<Rightarrow> 's rpc_server \<Rightarrow> nat \<Rightarrow> ('s, unit) rpc" where
  "check_prune_height X B V timestamp =
     andthen (block_chain_info B V) (\<lambda>info.
     case json_get ''pruneheight'' info of
       None \<Rightarrow> ret ()
     | Some h \<Rightarrow>
         andthen (expect (Option.bind (as_i64 h) try_i32)) (\<lambda>prune_height.
         andthen (tip_before_timestamp X B V timestamp) (\<lambda>tip.
         case tip of
           Some tip \<Rightarrow> if prune_height \<le> ct_height tip then ret () else fail (Rpc_Failed RescanPastPruneHeight)
         | None \<Rightarrow> fail (Rpc_Failed RescanPastPruneHeight))))"

definition check_descs_timestamp :: "'d texts \<Rightarrow> bitcoind \<Rightarrow> 's rpc_server \<Rightarrow> 'd list \<Rightarrow> nat \<Rightarrow> ('s, bool) rpc" where
  "check_descs_timestamp X B V descs timestamp =
     andthen (list_descriptors B V) (\<lambda>entries.
     ret (list_all (\<lambda>d. descs_contain_timestamp X entries d timestamp) descs))"

definition RESCAN_RETRIES :: nat where "RESCAN_RETRIES = 10"

text \<open>
  The loop of \<open>start_rescan\<close>: the import is asked for without waiting for its answer, whose errors are
  only logged, until the descriptors are seen imported at the date.
\<close>

fun rescan_loop ::
  "'d texts \<Rightarrow> bitcoind \<Rightarrow> 's rpc_server \<Rightarrow> 'd list \<Rightarrow> nat \<Rightarrow> json \<Rightarrow> nat \<Rightarrow> ('s, unit) rpc" where
  "rescan_loop X B V descs timestamp imports 0 = fail (Rpc_Failed StartRescan)"
| "rescan_loop X B V descs timestamp imports (Suc n) =
     andthen (attempt (make_noreply_request V ''importdescriptors'' (Some [imports]))) (\<lambda>r.
     andthen (check_descs_timestamp X B V descs timestamp) (\<lambda>imported.
     if imported then ret ()
     else if n = 0 then fail (Rpc_Failed StartRescan)
     else (\<lambda>s. rescan_loop X B V descs timestamp imports n (sv_sleep V 1 s))))"

definition max_range :: "list_desc_entry list \<Rightarrow> nat" where
  "max_range entries = fold (\<lambda>e r. max r (case ld_range e of None \<Rightarrow> 0 | Some (a, b) \<Rightarrow> b)) entries 1000"

definition start_bitcoind_rescan :: "'d texts \<Rightarrow> bitcoind \<Rightarrow> 's rpc_server \<Rightarrow> 'd list \<Rightarrow> nat \<Rightarrow> ('s, unit) rpc" where
  "start_bitcoind_rescan X B V descs timestamp =
     andthen (list_descriptors B V) (\<lambda>entries.
     andthen (check_prune_height X B V timestamp) (\<lambda>u.
     rescan_loop X B V descs timestamp
       (J_Array (map (\<lambda>d. import_json X d [(''range'', J_Number (Pos_Int (max_range entries)))] (J_Number (Pos_Int timestamp))) descs))
       RESCAN_RETRIES))"

text \<open>A rescan goes on when the wallet says how far it is; \<open>scanning\<close> is false otherwise.\<close>

definition bitcoind_rescan_progress :: "bitcoind \<Rightarrow> 's rpc_server \<Rightarrow> ('s, json_number option) rpc" where
  "bitcoind_rescan_progress B V =
     andthen (make_wallet_request B V ''getwalletinfo'' None) (\<lambda>j.
     ret (Option.bind (json_get ''scanning'' j) (\<lambda>sc. Option.bind (json_get ''progress'' sc) as_number)))"

end
