(* ===== verification/Bitcoind_Backend.thy ===== *)
theory Bitcoind_Backend
  imports Bitcoind_Node
begin

text \<open>
  The backend of the poller over the requests to a \<open>bitcoind\<close> node (\<open>lianad/src/bitcoin/mod.rs\<close>,
  \<open>impl BitcoinInterface for d::BitcoinD\<close>): the loops with the requests they make and the cache of
  \<open>gettransaction\<close>, and that they compute what the functions of \<open>Backend\<close> do when the answers
  are those of one node. The loops push onto their two lists; here the recursion returns them.
\<close>

section \<open>The loops\<close>

type_synonym node_tx_cache = "txid \<rightharpoonup> get_tx_res"

definition cached_transaction ::
  "'d texts \<Rightarrow> bitcoind \<Rightarrow> 's rpc_server \<Rightarrow> txid \<Rightarrow> node_tx_cache \<Rightarrow> ('s, get_tx_res option \<times> node_tx_cache) rpc" where
  "cached_transaction X B V txid cache =
     (case cache txid of
        Some res \<Rightarrow> ret (Some res, cache)
      | None \<Rightarrow>
          andthen (get_transaction X B V txid) (\<lambda>r.
          ret (case r of Some res \<Rightarrow> (Some res, cache(txid \<mapsto> res)) | None \<Rightarrow> (None, cache))))"

definition rpc_genesis_block :: "'d texts \<Rightarrow> bitcoind \<Rightarrow> 's rpc_server \<Rightarrow> ('s, block_chain_tip) rpc" where
  "rpc_genesis_block X B V =
     andthen (get_block_hash X B V 0) (\<lambda>hash.
     andthen (expect hash) (\<lambda>hash. ret \<lparr>ct_height = 0, ct_hash = hash\<rparr>))"

definition rpc_is_in_chain :: "'d texts \<Rightarrow> bitcoind \<Rightarrow> 's rpc_server \<Rightarrow> block_chain_tip \<Rightarrow> ('s, bool) rpc" where
  "rpc_is_in_chain X B V tip =
     andthen (get_block_hash X B V (ct_height tip)) (\<lambda>hash.
     ret (case hash of Some h \<Rightarrow> h = ct_hash tip | None \<Rightarrow> False))"

definition rpc_received_coins ::
  "'d texts \<Rightarrow> bitcoind \<Rightarrow> 's rpc_server \<Rightarrow> block_chain_tip \<Rightarrow> 'd list \<Rightarrow> ('s, utxo list) rpc" where
  "rpc_received_coins X B V tip descs =
     andthen (list_since_block X B V (ct_hash tip)) (\<lambda>entries. ret (List.map_filter (\<lambda>e.
       if list_ex (\<lambda>parent_desc. list_ex (\<lambda>desc. desc = parent_desc) descs) (ls_parent_descs e)
       then Some \<lparr>ux_outpoint = ls_outpoint e, ux_amount = ls_amount e, ux_block_height = ls_block_height e,
         ux_address = Utxo_Address (ls_address e), ux_is_immature = ls_is_immature e\<rparr>
       else None) entries))"

fun rpc_confirmed_coins ::
  "'d texts \<Rightarrow> bitcoind \<Rightarrow> 's rpc_server \<Rightarrow> outpoint list \<Rightarrow> node_tx_cache \<Rightarrow>
     ('s, (outpoint \<times> int \<times> nat) list \<times> outpoint list) rpc" where
  "rpc_confirmed_coins X B V [] cache = ret ([], [])"
| "rpc_confirmed_coins X B V (op # ops) cache =
     andthen (cached_transaction X B V (op_txid op) cache) (\<lambda>(r, cache).
     case r of
       None \<Rightarrow> rpc_confirmed_coins X B V ops cache
     | Some res \<Rightarrow>
         (case gt_block res of
            Some block \<Rightarrow>
              if gt_is_coinbase res \<and> gt_confirmations res < COINBASE_MATURITY
              then rpc_confirmed_coins X B V ops cache
              else andthen (rpc_confirmed_coins X B V ops cache) (\<lambda>(confirmed, expired).
                ret ((op, blk_height block, blk_time block) # confirmed, expired))
          | None \<Rightarrow>
              andthen (is_in_mempool X B V (op_txid op)) (\<lambda>here.
              andthen (rpc_confirmed_coins X B V ops cache) (\<lambda>(confirmed, expired).
              ret (confirmed, if here then expired else op # expired)))))"

fun rpc_spending_coins ::
  "'d texts \<Rightarrow> bitcoind \<Rightarrow> 's rpc_server \<Rightarrow> outpoint list \<Rightarrow> ('s, (outpoint \<times> txid) list) rpc" where
  "rpc_spending_coins X B V [] = ret []"
| "rpc_spending_coins X B V (op # ops) =
     andthen (node_is_spent X B V op) (\<lambda>gone.
     if \<not> gone then rpc_spending_coins X B V ops
     else
       andthen (get_spender_txid X B V op) (\<lambda>spender.
       case spender of
         None \<Rightarrow> rpc_spending_coins X B V ops
       | Some txid \<Rightarrow> andthen (rpc_spending_coins X B V ops) (\<lambda>rest. ret ((op, txid) # rest))))"

text \<open>The search for a confirmed conflict that spends the coin.\<close>

definition spends_outpoint :: "outpoint \<Rightarrow> get_tx_res \<Rightarrow> bool" where
  "spends_outpoint op res = list_ex (\<lambda>txin. previous_output txin = op) (tx_input (gt_tx res))"

fun rpc_confirmed_conflict ::
  "'d texts \<Rightarrow> bitcoind \<Rightarrow> 's rpc_server \<Rightarrow> outpoint \<Rightarrow> txid list \<Rightarrow> node_tx_cache \<Rightarrow>
     ('s, (txid \<times> block) option \<times> node_tx_cache) rpc" where
  "rpc_confirmed_conflict X B V op [] cache = ret (None, cache)"
| "rpc_confirmed_conflict X B V op (txid # txids) cache =
     andthen (cached_transaction X B V txid cache) (\<lambda>(r, cache).
     case Option.bind r (\<lambda>res. Option.bind (gt_block res) (\<lambda>block.
         if spends_outpoint op res then Some (txid, block) else None)) of
       Some conflict \<Rightarrow> ret (Some conflict, cache)
     | None \<Rightarrow> rpc_confirmed_conflict X B V op txids cache)"

fun rpc_spent_coins ::
  "'d texts \<Rightarrow> bitcoind \<Rightarrow> 's rpc_server \<Rightarrow> (outpoint \<times> txid) list \<Rightarrow> node_tx_cache \<Rightarrow>
     ('s, (outpoint \<times> txid \<times> int \<times> nat) list \<times> outpoint list) rpc" where
  "rpc_spent_coins X B V [] cache = ret ([], [])"
| "rpc_spent_coins X B V ((op, txid) # rest) cache =
     andthen (cached_transaction X B V txid cache) (\<lambda>(r, cache).
     case r of
       None \<Rightarrow> rpc_spent_coins X B V rest cache
     | Some res \<Rightarrow>
         (case gt_block res of
            Some block \<Rightarrow>
              andthen (rpc_spent_coins X B V rest cache) (\<lambda>(spent, expired).
              ret ((op, txid, blk_height block, blk_time block) # spent, expired))
          | None \<Rightarrow>
              andthen (rpc_confirmed_conflict X B V op (gt_conflicting_txs res) cache) (\<lambda>(conflict, cache).
              case conflict of
                Some (other, block) \<Rightarrow>
                  andthen (rpc_spent_coins X B V rest cache) (\<lambda>(spent, expired).
                  ret ((op, other, blk_height block, blk_time block) # spent, expired))
              | None \<Rightarrow>
                  andthen (is_in_mempool X B V txid) (\<lambda>here.
                  andthen (rpc_spent_coins X B V rest cache) (\<lambda>(spent, expired).
                  ret (spent, if here then expired else op # expired))))))"

text \<open>The walk to the common ancestor; the outer \<open>None\<close> is a walk that does not end.\<close>

partial_function (option) rpc_walk ::
  "'d texts \<Rightarrow> bitcoind \<Rightarrow> 's rpc_server \<Rightarrow> block_stats \<Rightarrow> block_chain_tip \<Rightarrow> 's \<Rightarrow>
     ((rpc_failure + block_chain_tip option) \<times> 's) option" where
  "rpc_walk X B V stats ancestor s =
     (if bs_confirmations stats \<noteq> -1 then Some (Inr (Some ancestor), s)
      else case bs_previous stats of
        None \<Rightarrow> Some (Inr None, s)
      | Some previous \<Rightarrow>
          (case get_block_stats X B V previous s of
             (Inl e, s) \<Rightarrow> Some (Inl e, s)
           | (Inr None, s) \<Rightarrow> Some (Inr None, s)
           | (Inr (Some stats), s) \<Rightarrow>
               rpc_walk X B V stats \<lparr>ct_height = bs_height stats, ct_hash = bs_hash stats\<rparr> s))"

definition rpc_common_ancestor ::
  "'d texts \<Rightarrow> bitcoind \<Rightarrow> 's rpc_server \<Rightarrow> block_chain_tip \<Rightarrow> 's \<Rightarrow>
     ((rpc_failure + block_chain_tip option) \<times> 's) option" where
  "rpc_common_ancestor X B V tip s =
     (case get_block_stats X B V (ct_hash tip) s of
        (Inl e, s) \<Rightarrow> Some (Inl e, s)
      | (Inr None, s) \<Rightarrow> Some (Inr None, s)
      | (Inr (Some stats), s) \<Rightarrow> rpc_walk X B V stats tip s)"

text \<open>An error of a broadcast that is not one of the node is a panic.\<close>

definition rpc_broadcast_tx :: "'d texts \<Rightarrow> bitcoind \<Rightarrow> 's rpc_server \<Rightarrow> tx \<Rightarrow> ('s, jsonrpc_error + unit) rpc" where
  "rpc_broadcast_tx X B V tx =
     andthen (attempt (broadcast_raw X B V tx)) (\<lambda>r.
     case r of Inr u \<Rightarrow> ret (Inr ()) | Inl (Server e) \<Rightarrow> ret (Inl e) | Inl e \<Rightarrow> fail Rpc_Panic)"

definition rpc_start_rescan ::
  "'d texts \<Rightarrow> bitcoind \<Rightarrow> 's rpc_server \<Rightarrow> 'd list \<Rightarrow> nat \<Rightarrow> ('s, string + unit) rpc" where
  "rpc_start_rescan X B V descs timestamp =
     andthen (attempt (start_bitcoind_rescan X B V descs timestamp)) (\<lambda>r. ret (map_err (error_text X) r))"

definition rpc_tip_time :: "'d texts \<Rightarrow> bitcoind \<Rightarrow> 's rpc_server \<Rightarrow> ('s, nat option) rpc" where
  "rpc_tip_time X B V =
     andthen (node_chain_tip X B V) (\<lambda>tip.
     andthen (get_block_stats X B V (ct_hash tip)) (\<lambda>stats. ret (map_option bs_time stats)))"

definition rpc_wallet_transaction ::
  "'d texts \<Rightarrow> bitcoind \<Rightarrow> 's rpc_server \<Rightarrow> txid \<Rightarrow> ('s, (tx \<times> block option) option) rpc" where
  "rpc_wallet_transaction X B V txid =
     andthen (get_transaction X B V txid) (\<lambda>r. ret (map_option (\<lambda>res. (gt_tx res, gt_block res)) r))"

fun rpc_mempool_entries ::
  "'d texts \<Rightarrow> bitcoind \<Rightarrow> 's rpc_server \<Rightarrow> txid list \<Rightarrow> ('s, mempool_entry list) rpc" where
  "rpc_mempool_entries X B V [] = ret []"
| "rpc_mempool_entries X B V (txid # txids) =
     andthen (get_mempool_entry X B V txid) (\<lambda>e.
     andthen (rpc_mempool_entries X B V txids) (\<lambda>es.
     ret (case e of Some e \<Rightarrow> e # es | None \<Rightarrow> es)))"

definition rpc_mempool_spenders ::
  "'d texts \<Rightarrow> bitcoind \<Rightarrow> 's rpc_server \<Rightarrow> outpoint list \<Rightarrow> ('s, mempool_entry list) rpc" where
  "rpc_mempool_spenders X B V ops = andthen (mempool_txs_spending_prevouts X B V ops) (rpc_mempool_entries X B V)"

end
