(* ===== verification/Bitcoind_Lemmas.thy ===== *)
theory Bitcoind_Lemmas
  imports Bitcoind_Backend
begin

text \<open>
  Facts on the computations that talk to a \<open>bitcoind\<close> node: when they succeed (collection
  \<open>rpc_simps\<close>), what they compute when the node answers as one value (\<open>reads\<close>), which fail by a panic
  only (\<open>panics\<close>).
\<close>

named_theorems rpc_simps \<open>when a computation that talks to the node succeeds\<close>

section \<open>Success\<close>

lemma ret_Inr [rpc_simps]: "ret x s = (Inr y, s') \<longleftrightarrow> x = y \<and> s = s'"
  by (auto simp: ret_def)

lemma fail_Inr [rpc_simps]: "fail e s = (Inr y, s') \<longleftrightarrow> False"
  by (simp add: fail_def)

lemma andthen_Inr [rpc_simps]:
  "andthen m f s = (Inr y, s') \<longleftrightarrow> (\<exists>x s1. m s = (Inr x, s1) \<and> f x s1 = (Inr y, s'))"
  by (auto simp: andthen_def split: prod.splits sum.splits)

lemma expect_Inr [rpc_simps]: "expect x s = (Inr y, s') \<longleftrightarrow> x = Some y \<and> s = s'"
  by (auto simp: expect_def ret_def fail_def split: option.splits)

lemma attempt_Inr_Inr [rpc_simps]: "attempt m s = (Inr (Inr x), s') \<longleftrightarrow> m s = (Inr x, s')"
  by (auto simp: attempt_def split: prod.splits sum.splits rpc_failure.splits)

lemma unwrap_request_Inr [rpc_simps]: "unwrap_request m s = (Inr x, s') \<longleftrightarrow> m s = (Inr x, s')"
  by (auto simp: unwrap_request_def split: prod.splits sum.splits)

lemma case_sum_success [rpc_simps]:
  "(case v of Inl e \<Rightarrow> m e | Inr x \<Rightarrow> f x) s = (Inr y, s') \<longleftrightarrow>
     (\<exists>e. v = Inl e \<and> m e s = (Inr y, s')) \<or> (\<exists>x. v = Inr x \<and> f x s = (Inr y, s'))"
  by (cases v) simp_all

section \<open>What is computed from the answers of one node\<close>

text \<open>In every state satisfying \<open>I\<close> the computation gives \<open>x\<close> and leaves such a state.\<close>

definition reads :: "('s \<Rightarrow> bool) \<Rightarrow> ('s, 'a) rpc \<Rightarrow> 'a \<Rightarrow> bool" where
  "reads I m x \<longleftrightarrow> (\<forall>s. I s \<longrightarrow> (\<exists>s'. m s = (Inr x, s') \<and> I s'))"

lemma reads_ret [intro]: "reads I (ret x) x"
  by (simp add: reads_def ret_def)

lemma reads_andthen: "reads I m x \<Longrightarrow> reads I (f x) y \<Longrightarrow> reads I (andthen m f) y"
  unfolding reads_def andthen_def by fastforce

lemma reads_expect: "x = Some y \<Longrightarrow> reads I (expect x) y"
  by (simp add: expect_def reads_ret)

lemma reads_attempt: "reads I m x \<Longrightarrow> reads I (attempt m) (Inr x)"
  unfolding reads_def attempt_def by fastforce

lemma readsD: "reads I m x \<Longrightarrow> I s \<Longrightarrow> \<exists>s'. m s = (Inr x, s') \<and> I s'"
  by (simp add: reads_def)

lemma reads_retry: "reads I req x \<Longrightarrow> reads I (retry B V req) x"
  unfolding reads_def retry_def by fastforce

text \<open>A node whose answers are those of the record \<open>N\<close> of the backend, while \<open>I\<close> holds.\<close>

definition answers_as :: "'d texts \<Rightarrow> bitcoind \<Rightarrow> 's rpc_server \<Rightarrow> ('s \<Rightarrow> bool) \<Rightarrow> 'd node \<Rightarrow> bool" where
  "answers_as X B V I N \<longleftrightarrow>
     reads I (node_chain_tip X B V) (nd_chain_tip N) \<and>
     (\<forall>h. reads I (get_block_hash X B V h) (nd_block_hash N h)) \<and>
     (\<forall>hash. reads I (get_block_stats X B V hash) (nd_block_stats N hash)) \<and>
     (\<forall>hash. reads I (list_since_block X B V hash) (nd_list_since_block N hash)) \<and>
     (\<forall>txid. reads I (get_transaction X B V txid) (nd_transaction N txid)) \<and>
     (\<forall>txid. reads I (is_in_mempool X B V txid) (nd_in_mempool N txid)) \<and>
     (\<forall>op. reads I (node_is_spent X B V op) (nd_is_spent N op)) \<and>
     (\<forall>op. reads I (get_spender_txid X B V op) (nd_spender_txid N op))"

definition cache_ok :: "'d node \<Rightarrow> node_tx_cache \<Rightarrow> bool" where
  "cache_ok N cache \<longleftrightarrow> (\<forall>txid res. cache txid = Some res \<longrightarrow> nd_transaction N txid = Some res)"

lemma cache_ok_empty: "cache_ok N Map.empty"
  by (simp add: cache_ok_def)

lemma cached_transaction_reads:
  assumes "answers_as X B V I N" "cache_ok N cache"
  obtains cache' where "reads I (cached_transaction X B V txid cache) (nd_transaction N txid, cache')" "cache_ok N cache'"
proof (cases "cache txid")
  case None
  let ?c = "case nd_transaction N txid of Some res \<Rightarrow> cache(txid \<mapsto> res) | None \<Rightarrow> cache"
  have "reads I (get_transaction X B V txid) (nd_transaction N txid)"
    using assms(1) by (simp add: answers_as_def)
  then have "reads I (cached_transaction X B V txid cache) (nd_transaction N txid, ?c)"
    unfolding cached_transaction_def None
    by (cases "nd_transaction N txid") (auto intro!: reads_andthen reads_ret)
  moreover have "cache_ok N ?c"
    using assms(2) by (cases "nd_transaction N txid") (auto simp: cache_ok_def)
  ultimately show ?thesis by (rule that)
next
  case (Some res)
  with assms have "reads I (cached_transaction X B V txid cache) (nd_transaction N txid, cache)"
    by (auto simp: cached_transaction_def cache_ok_def)
  then show ?thesis using assms(2) by (rule that)
qed

lemma confirmed_coins_reads:
  assumes "answers_as X B V I N" "cache_ok N cache"
  shows "reads I (rpc_confirmed_coins X B V ops cache) (bitcoind_confirmed_coins N ops)"
  using assms(2)
proof (induction ops arbitrary: cache)
  case (Cons op ops)
  obtain cache' where c: "reads I (cached_transaction X B V (op_txid op) cache) (nd_transaction N (op_txid op), cache')"
    "cache_ok N cache'"
    using cached_transaction_reads [OF assms(1) Cons.prems] .
  note IH = Cons.IH [OF c(2)]
  have m: "reads I (is_in_mempool X B V (op_txid op)) (nd_in_mempool N (op_txid op))"
    using assms(1) by (simp add: answers_as_def)
  show ?case
    using IH by (auto split: option.splits prod.splits
      intro!: reads_andthen [OF c(1)] reads_andthen [OF IH] reads_andthen [OF m] reads_ret)
qed (simp add: reads_ret)

lemma spending_coins_reads:
  assumes "answers_as X B V I N"
  shows "reads I (rpc_spending_coins X B V ops) (bitcoind_spending_coins N ops)"
proof (induction ops)
  case (Cons op ops)
  have s: "reads I (node_is_spent X B V op) (nd_is_spent N op)"
    and t: "reads I (get_spender_txid X B V op) (nd_spender_txid N op)"
    using assms by (simp_all add: answers_as_def)
  show ?case
    using Cons.IH
    by (auto simp: bitcoind_spending_coins_def List.map_filter_simps split: option.splits
      intro!: reads_andthen [OF s] reads_andthen [OF t] reads_andthen [OF Cons.IH] reads_ret)
qed (simp add: reads_ret bitcoind_spending_coins_def List.map_filter_simps)

lemma find_map_spends:
  "find_map (\<lambda>txin. if previous_output txin = op then Some v else None) ins =
     (if list_ex (\<lambda>txin. previous_output txin = op) ins then Some v else None)"
  by (induction ins) auto

lemma confirmed_conflict_reads:
  assumes "answers_as X B V I N" "cache_ok N cache"
  obtains cache' where "cache_ok N cache'"
    "reads I (rpc_confirmed_conflict X B V op (gt_conflicting_txs res) cache) (confirmed_conflict N op res, cache')"
proof -
  define f where "f txid = Option.bind (nd_transaction N txid) (\<lambda>t. Option.bind (gt_block t) (\<lambda>block.
     if spends_outpoint op t then Some (txid, block) else None))" for txid
  have "\<exists>cache'. cache_ok N cache' \<and> reads I (rpc_confirmed_conflict X B V op txids cache) (find_map f txids, cache')" for txids
    using assms(2)
  proof (induction txids arbitrary: cache)
    case (Cons txid txids)
    obtain c where c: "reads I (cached_transaction X B V txid cache) (nd_transaction N txid, c)" "cache_ok N c"
      using cached_transaction_reads [OF assms(1) Cons.prems] .
    obtain c' where c': "cache_ok N c'" "reads I (rpc_confirmed_conflict X B V op txids c) (find_map f txids, c')"
      using Cons.IH [OF c(2)] by blast
    show ?case
    proof (cases "f txid")
      case None
      then have "reads I (rpc_confirmed_conflict X B V op (txid # txids) cache) (find_map f (txid # txids), c')"
        using c'(2) by (auto simp: f_def [symmetric] intro!: reads_andthen [OF c(1)])
      with c'(1) show ?thesis by blast
    next
      case (Some v)
      then have "reads I (rpc_confirmed_conflict X B V op (txid # txids) cache) (find_map f (txid # txids), c)"
        by (auto simp: f_def [symmetric] intro!: reads_andthen [OF c(1)] reads_ret)
      with c(2) show ?thesis by blast
    qed
  qed (auto intro: reads_ret)
  moreover have "confirmed_conflict N op res = find_map f (gt_conflicting_txs res)"
    by (simp add: confirmed_conflict_def f_def [abs_def] find_map_spends spends_outpoint_def)
  ultimately show ?thesis using that by metis
qed

lemma spent_coins_reads:
  assumes "answers_as X B V I N" "cache_ok N cache"
  shows "reads I (rpc_spent_coins X B V ops cache) (bitcoind_spent_coins N ops)"
  using assms(2)
proof (induction ops arbitrary: cache)
  case (Cons coin ops)
  obtain op txid where coin: "coin = (op, txid)" by (cases coin)
  obtain c where c: "reads I (cached_transaction X B V txid cache) (nd_transaction N txid, c)" "cache_ok N c"
    using cached_transaction_reads [OF assms(1) Cons.prems] .
  have m: "reads I (is_in_mempool X B V txid) (nd_in_mempool N txid)"
    using assms(1) by (simp add: answers_as_def)
  note IH = Cons.IH [OF c(2)]
  show ?case
  proof (cases "nd_transaction N txid")
    case None
    with IH show ?thesis by (auto simp: coin split: prod.splits intro!: reads_andthen [OF c(1)])
  next
    case (Some res)
    obtain c' where c': "cache_ok N c'"
      "reads I (rpc_confirmed_conflict X B V op (gt_conflicting_txs res) c) (confirmed_conflict N op res, c')"
      using confirmed_conflict_reads [OF assms(1) c(2)] .
    note IH' = Cons.IH [OF c'(1)]
    from Some show ?thesis
      by (auto simp: coin split: prod.splits option.splits
        intro!: reads_andthen [OF c(1)] reads_andthen [OF IH] reads_andthen [OF c'(2)] reads_andthen [OF m]
          reads_andthen [OF IH'] reads_ret)
  qed
qed (simp add: reads_ret)

lemma block_stats_answer:
  assumes "answers_as X B V I N" "I s"
  obtains s' where "get_block_stats X B V hash s = (Inr (nd_block_stats N hash), s')" "I s'"
proof -
  have "reads I (get_block_stats X B V hash) (nd_block_stats N hash)"
    using assms(1) by (simp add: answers_as_def)
  from readsD [OF this assms(2)] that show ?thesis by blast
qed

lemma walk_reads:
  assumes "walk_to_chain N stats ancestor = Some r" "answers_as X B V I N" "I s"
  shows "\<exists>s'. rpc_walk X B V stats ancestor s = Some (Inr r, s') \<and> I s'"
proof -
  have "answers_as X B V I N \<longrightarrow> (\<forall>s. I s \<longrightarrow> (\<exists>s'. rpc_walk X B V stats ancestor s = Some (Inr r, s') \<and> I s'))"
    using assms(1)
  proof (induction rule: walk_to_chain.raw_induct [rotated, consumes 1])
    case (1 walk N stats ancestor r)
    show ?case
    proof (intro allI impI)
      fix s assume N: "answers_as X B V I N" and I: "I s"
      show "\<exists>s'. rpc_walk X B V stats ancestor s = Some (Inr r, s') \<and> I s'"
      proof (cases "bs_previous stats")
        case None
        with 1(2) I show ?thesis by (subst rpc_walk.simps) (auto split: if_splits)
      next
        case (Some previous)
        obtain s1 where s1: "get_block_stats X B V previous s = (Inr (nd_block_stats N previous), s1)" "I s1"
          using block_stats_answer [OF N I] .
        from 1(2) I Some s1 N show ?thesis
          by (subst rpc_walk.simps) (auto split: if_splits option.splits dest!: 1(1))
      qed
    qed
  qed
  with assms(2,3) show ?thesis by blast
qed

lemma common_ancestor_reads:
  assumes "answers_as X B V I N" "bitcoind_common_ancestor N tip = Some r" "I s"
  shows "\<exists>s'. rpc_common_ancestor X B V tip s = Some (Inr r, s') \<and> I s'"
proof -
  obtain s1 where "get_block_stats X B V (ct_hash tip) s = (Inr (nd_block_stats N (ct_hash tip)), s1)" "I s1"
    using block_stats_answer [OF assms(1,3)] .
  with assms show ?thesis
    by (auto simp: rpc_common_ancestor_def bitcoind_common_ancestor_def split: option.splits dest: walk_reads)
qed

lemma search_reads:
  assumes "answers_as X B V I N"
  shows "reads I (search_rpc X B V target s e) (search_block N target s e)"
proof (induction N\<equiv>N target s e rule: search_block.induct)
  case (1 target s e)
  have h: "reads I (get_block_hash X B V h) (nd_block_hash N h)"
    and t: "reads I (get_block_stats X B V hash) (nd_block_stats N hash)" for h hash
    using assms by (simp_all add: answers_as_def)
  show ?case
  proof (cases "s < e")
    case True
    let ?next = "s + (e - s) div 2 + 1"
    show ?thesis
    proof (cases "nd_block_hash N ?next")
      case None
      with True show ?thesis
        by (subst search_rpc.simps, subst search_block.simps)
          (auto simp: Let_def time_at_def intro!: reads_andthen [OF h] reads_ret)
    next
      case hash: (Some hash)
      show ?thesis
      proof (cases "nd_block_stats N hash")
        case None
        with True hash show ?thesis
          by (subst search_rpc.simps, subst search_block.simps)
            (auto simp: Let_def time_at_def intro!: reads_andthen [OF h] reads_andthen [OF t] reads_ret)
      next
        case (Some stats)
        with hash have "time_at N ?next = Some (bs_time stats)" by (simp add: time_at_def)
        note IH = 1 [OF True refl refl refl this]
        from True hash Some IH show ?thesis
          by (subst search_rpc.simps, subst search_block.simps)
            (auto simp: Let_def time_at_def intro!: reads_andthen [OF h] reads_andthen [OF t])
      qed
    qed
  next
    case False
    then show ?thesis by (subst search_rpc.simps, subst search_block.simps) (simp add: reads_ret)
  qed
qed

lemma tip_before_timestamp_reads:
  assumes "answers_as X B V I N" "block_before_date N target = Ok r"
  shows "reads I (tip_before_timestamp X B V target) r"
proof -
  have h: "reads I (get_block_hash X B V h) (nd_block_hash N h)"
    and t: "reads I (get_block_stats X B V hash) (nd_block_stats N hash)"
    and tip: "reads I (node_chain_tip X B V) (nd_chain_tip N)" for h hash
    using assms by (simp_all add: answers_as_def)
  note step = reads_andthen [OF tip] reads_andthen [OF h] reads_andthen [OF t]
    reads_andthen [OF reads_expect] reads_andthen [OF search_reads [OF assms(1)]] reads_ret
  show ?thesis
    using assms(2) unfolding tip_before_timestamp_def block_before_date_def
    by (auto split: option.splits if_splits intro!: step)
qed

section \<open>Failures that can only be panics\<close>

definition panics :: "('s, 'a) rpc \<Rightarrow> bool" where
  "panics m \<longleftrightarrow> (\<forall>s e s'. m s = (Inl e, s') \<longrightarrow> e = Rpc_Panic)"

lemma panicsD: "panics m \<Longrightarrow> m s = (Inl e, s') \<Longrightarrow> e = Rpc_Panic"
  unfolding panics_def by blast

named_theorems panics_intros \<open>computations that fail by a panic only\<close>

lemma panics_ret [panics_intros]: "panics (ret x)"
  by (simp add: panics_def ret_def)

lemma panics_andthen [panics_intros]: "panics m \<Longrightarrow> (\<And>x. panics (f x)) \<Longrightarrow> panics (andthen m f)"
  unfolding panics_def andthen_def by (auto split: prod.splits sum.splits)

lemma panics_expect [panics_intros]: "panics (expect x)"
  by (auto simp: panics_def expect_def fail_def ret_def split: option.splits)

lemma panics_attempt [panics_intros]: "panics (attempt m)"
  by (auto simp: panics_def attempt_def split: prod.splits sum.splits rpc_failure.splits)

lemma panics_unwrap [panics_intros]: "panics (unwrap_request m)"
  by (auto simp: panics_def unwrap_request_def split: prod.splits sum.splits)

lemma panics_node_request [panics_intros]: "panics (make_node_request B V meth ps)" "panics (make_wallet_request B V meth ps)"
  by (simp_all add: make_node_request_def make_wallet_request_def panics_unwrap)

lemma panics_case_option [panics_intros]:
  "panics m \<Longrightarrow> (\<And>x. panics (f x)) \<Longrightarrow> panics (case v of None \<Rightarrow> m | Some x \<Rightarrow> f x)"
  by (cases v) simp_all

lemma panics_case_sum [panics_intros]:
  "(\<And>x. panics (f x)) \<Longrightarrow> (\<And>y. panics (g y)) \<Longrightarrow> panics (case v of Inl x \<Rightarrow> f x | Inr y \<Rightarrow> g y)"
  by (cases v) simp_all

lemma panics_queries [panics_intros]:
  "panics (block_chain_info B V)" "panics (list_descriptors B V)" "panics (check_descs_timestamp X B V descs timestamp)"
  "panics (node_chain_tip X B V)" "panics (get_block_hash X B V h)" "panics (get_block_stats X B V hash)"
  unfolding block_chain_info_def list_descriptors_def check_descs_timestamp_def node_chain_tip_def get_block_hash_def
    get_block_stats_def by (intro panics_intros)+

lemma panics_search [panics_intros]: "panics (search_rpc X B V target s e)"
proof (induction X B V target s e rule: search_rpc.induct)
  case (1 X B V target s e)
  then show ?case by (subst search_rpc.simps) (auto simp: Let_def intro!: panics_intros)
qed

lemma panics_tip_before [panics_intros]: "panics (tip_before_timestamp X B V target)"
  unfolding tip_before_timestamp_def by (auto intro!: panics_intros split: option.split)

lemma check_prune_height_fails:
  assumes "check_prune_height X B V timestamp s = (Inl e, s')"
  shows "e = Rpc_Panic \<or> e = Rpc_Failed RescanPastPruneHeight"
proof -
  have p: "panics (block_chain_info B V)" "panics (tip_before_timestamp X B V timestamp)"
    "panics (expect (Option.bind (as_i64 h) try_i32))" for h
    by (intro panics_intros)+
  from assms show ?thesis
    unfolding check_prune_height_def andthen_def
    by (auto simp: ret_def fail_def split: prod.splits sum.splits option.splits if_splits dest: panicsD [OF p(1)]
      panicsD [OF p(2)] panicsD [OF p(3)])
qed

end
