(* ===== verification/Bitcoind_Requests.thy ===== *)
theory Bitcoind_Requests
  imports Bitcoind_Lemmas
begin

text \<open>
  The requests a computation makes to a \<open>bitcoind\<close> node. The server \<open>logged\<close> is any server that
  also keeps the list of what it was asked, with its answers: on it, the rounds of a retry and
  the number of imports a rescan asks for are facts about a list.
\<close>

section \<open>A server that keeps its requests\<close>

type_synonym request_log = "(rpc_client \<times> string \<times> json list option \<times> (jsonrpc_error + json)) list"

definition logged :: "'s rpc_server \<Rightarrow> ('s \<times> request_log) rpc_server" where
  "logged V = \<lparr>sv_answer = (\<lambda>cl meth ps (s, l). case sv_answer V cl meth ps s of (a, s') \<Rightarrow> (a, s', l @ [(cl, meth, ps, a)])),
     sv_sleep = (\<lambda>n (s, l). (sv_sleep V n s, l))\<rparr>"

lemma logged_answer [simp]:
  "sv_answer (logged V) cl meth ps (s, l) = (case sv_answer V cl meth ps s of (a, s') \<Rightarrow> (a, s', l @ [(cl, meth, ps, a)]))"
  by (simp add: logged_def)

lemma logged_sleep [simp]: "sv_sleep (logged V) n (s, l) = (sv_sleep V n s, l)"
  by (simp add: logged_def)

section \<open>The rounds of a retry\<close>

definition retryable :: "jsonrpc_error + json \<Rightarrow> bool" where
  "retryable a = (case a of
     Inl e \<Rightarrow> is_warming_up (Server e) \<or> (\<not> is_unauthorized (Server e) \<and> is_transient (Server e)) | Inr j \<Rightarrow> False)"

definition outcome :: "jsonrpc_error + json \<Rightarrow> rpc_failure + json" where
  "outcome a = map_err (\<lambda>e. Rpc_Failed (Server e)) a"

lemma retry_round:
  "retry_loop V (try_request V cl meth ps) (Suc n) before s =
     (case sv_answer V cl meth ps s of (a, s1) \<Rightarrow>
        if retryable a then retry_loop V (try_request V cl meth ps) n (Some (Server (projl a))) (sv_sleep V 1 s1)
        else (outcome a, s1))"
proof (cases "sv_answer V cl meth ps s")
  case (Pair a s1)
  then have "try_request V cl meth ps s = (outcome a, s1)"
    by (simp add: try_request_def outcome_def map_err_def split: sum.splits)
  with Pair show ?thesis by (cases a) (simp_all add: outcome_def retryable_def)
qed

text \<open>
  The rounds up to the last: each of those before it was answered by an error worth a retry, and the last
  is the first that was not, unless no round is left.
\<close>

lemma retry_loop_logged:
  "\<exists>as a s'. retry_loop (logged V) (try_request (logged V) cl meth ps) (Suc n) before (s, l) =
       (outcome a, s', l @ map (\<lambda>x. (cl, meth, ps, x)) (as @ [a])) \<and>
     length as \<le> n \<and> list_all retryable as \<and> (length as = n \<or> \<not> retryable a)"
proof (induction n arbitrary: before s l)
  case 0
  obtain a s1 where a: "sv_answer V cl meth ps s = (a, s1)" by fastforce
  then show ?case
    by (intro exI [of _ "[]"] exI [of _ a] exI [of _ "if retryable a then sv_sleep V 1 s1 else s1"])
      (cases a, auto simp: retry_round outcome_def retryable_def simp del: retry_loop.simps(2))
next
  case (Suc n)
  obtain a s1 where a: "sv_answer V cl meth ps s = (a, s1)" by fastforce
  show ?case
  proof (cases "retryable a")
    case False
    with a show ?thesis
      by (intro exI [of _ "[]"] exI [of _ a] exI [of _ s1]) (simp add: retry_round del: retry_loop.simps(2))
  next
    case True
    let ?l = "l @ [(cl, meth, ps, a)]"
    from Suc.IH [of "Some (Server (projl a))" "sv_sleep V 1 s1" ?l] obtain as b s' where
      r: "retry_loop (logged V) (try_request (logged V) cl meth ps) (Suc n) (Some (Server (projl a))) (sv_sleep V 1 s1, ?l) =
        (outcome b, s', ?l @ map (\<lambda>x. (cl, meth, ps, x)) (as @ [b]))"
      "length as \<le> n" "list_all retryable as" "length as = n \<or> \<not> retryable b"
      by blast
    show ?thesis
      by (subst retry_round, intro exI [of _ "a # as"] exI [of _ b] exI [of _ s'])
        (use a True r in \<open>simp del: retry_loop.simps(2)\<close>)
  qed
qed

lemma make_request_logged:
  "\<exists>as a s'. make_request B (logged V) cl meth ps (s, l) =
       (outcome a, s', l @ map (\<lambda>x. (cl, meth, ps, x)) (as @ [a])) \<and>
     length as \<le> bd_retries B \<and> list_all retryable as \<and> (length as = bd_retries B \<or> \<not> retryable a)"
  unfolding make_request_def retry_def Suc_eq_plus1 [symmetric] by (rule retry_loop_logged)

section \<open>The warm-up of the node\<close>

text \<open>A measure of the time left until the node has started.\<close>

definition starts_within :: "'s rpc_server \<Rightarrow> ('s \<Rightarrow> nat) \<Rightarrow> bool" where
  "starts_within V left \<longleftrightarrow>
     (\<forall>cl meth ps s a s'. sv_answer V cl meth ps s = (a, s') \<longrightarrow> left s' \<le> left s \<and>
        (\<forall>e. a = Inl e \<longrightarrow> is_warming_up (Server e) \<longrightarrow> 0 < left s')) \<and>
     (\<forall>n s. left (sv_sleep V n s) \<le> left s - n)"

lemma starts_withinD:
  assumes "starts_within V left"
  shows "sv_answer V cl meth ps s = (a, s') \<Longrightarrow> left s' \<le> left s"
    "sv_answer V cl meth ps s = (Inl e, s') \<Longrightarrow> is_warming_up (Server e) \<Longrightarrow> 0 < left s'"
    "left (sv_sleep V n s) \<le> left s - n"
  using assms unfolding starts_within_def by blast+

lemma warming_up_retry:
  assumes "starts_within V left"
    "retry_loop V (try_request V cl meth ps) n before s = (Inl (Rpc_Failed e), s')" "is_warming_up e"
    "\<And>e. before = Some e \<Longrightarrow> is_warming_up e \<Longrightarrow> left s < k" "left s \<le> k" "n = 0 \<longrightarrow> before \<noteq> None"
  shows "left s' < k"
  using assms(2,4-)
proof (induction n arbitrary: before s)
  case 0
  with assms(3) show ?case by (auto split: option.splits)
next
  case (Suc n)
  obtain a s1 where a: "sv_answer V cl meth ps s = (a, s1)" by fastforce
  note m = starts_withinD [OF assms(1)]
  show ?case
  proof (cases "retryable a")
    case True
    then obtain e' where e': "a = Inl e'" by (cases a) (auto simp: retryable_def)
    have "retry_loop V (try_request V cl meth ps) n (Some (Server e')) (sv_sleep V 1 s1) = (Inl (Rpc_Failed e), s')"
      using Suc.prems(1) True a e' by (simp add: retry_round del: retry_loop.simps(2))
    moreover have "left (sv_sleep V 1 s1) \<le> k" "is_warming_up (Server e') \<Longrightarrow> left (sv_sleep V 1 s1) < k"
      using m(1) [OF a] m(2) [of cl meth ps s e' s1] m(3) [of 1 s1] a e' Suc.prems(3) by auto
    ultimately show ?thesis by (intro Suc.IH) auto
  next
    case False
    with Suc.prems(1) a have "outcome a = Inl (Rpc_Failed e)"
      by (simp add: retry_round del: retry_loop.simps(2))
    with False assms(3) show ?thesis by (cases a) (auto simp: outcome_def retryable_def)
  qed
qed

lemma warming_up_request:
  assumes "starts_within V left" "make_request B V cl meth ps s = (Inl (Rpc_Failed e), s')" "is_warming_up e"
  shows "left s' < left s"
  using assms(2) unfolding make_request_def retry_def
  by (rule warming_up_retry [OF assms(1) _ assms(3)]) simp_all

lemma check_client_returns:
  assumes "starts_within V left"
  shows "\<exists>r s'. check_client B V cl s = Some (r, s') \<and> (\<forall>e. r = Inl (Rpc_Failed e) \<longrightarrow> \<not> is_warming_up e)"
proof (induction "left s" arbitrary: s rule: less_induct)
  case less
  obtain r s1 where r: "make_request B V cl ''echo'' None s = (r, s1)" by fastforce
  show ?case
  proof (cases "\<exists>e. r = Inl (Rpc_Failed e) \<and> is_warming_up e")
    case True
    then obtain e where e: "r = Inl (Rpc_Failed e)" "is_warming_up e" by blast
    then have "left (sv_sleep V 1 s1) < left s"
      using warming_up_request [OF assms] r starts_withinD(3) [OF assms, of 1 s1] by fastforce
    with less r e show ?thesis by (subst check_client.simps) simp
  next
    case False
    with r show ?thesis by (subst check_client.simps) (auto split: sum.splits rpc_failure.splits)
  qed
qed

section \<open>Relations between the logs before and after\<close>

definition relates_logs :: "(request_log \<Rightarrow> request_log \<Rightarrow> bool) \<Rightarrow> ('s \<times> request_log, 'a) rpc \<Rightarrow> bool" where
  "relates_logs R m \<longleftrightarrow> (\<forall>s. R (snd s) (snd (snd (m s))))"

text \<open>
  A relation that requests by the methods allowed keep is kept by every computation made of them.
\<close>

locale log_order =
  fixes R :: "request_log \<Rightarrow> request_log \<Rightarrow> bool" and allowed :: "string \<Rightarrow> bool"
  assumes R_refl: "R l l"
    and R_trans: "R l l' \<Longrightarrow> R l' l'' \<Longrightarrow> R l l''"
    and R_request: "allowed meth \<Longrightarrow> R l (l @ map (\<lambda>x. (cl, meth, ps, x)) as)"
begin

lemma relatedD: "relates_logs R m \<Longrightarrow> m (s, l) = (r, s', l') \<Longrightarrow> R l l'"
  by (metis relates_logs_def snd_conv)

lemma related_ret: "relates_logs R (ret x)" "relates_logs R (fail e)"
  by (simp_all add: relates_logs_def ret_def fail_def R_refl)

lemma related_andthen: "relates_logs R m \<Longrightarrow> (\<And>x. relates_logs R (f x)) \<Longrightarrow> relates_logs R (andthen m f)"
  unfolding relates_logs_def
proof (intro allI)
  fix s
  assume m: "\<forall>s. R (snd s) (snd (snd (m s)))" and f: "\<And>x. \<forall>s. R (snd s) (snd (snd (f x s)))"
  obtain r s1 where r: "m s = (r, s1)" by (cases "m s")
  with m have "R (snd s) (snd s1)" by (metis snd_conv)
  moreover have "R (snd s1) (snd (snd (f x s1)))" for x using f by blast
  ultimately show "R (snd s) (snd (snd (andthen m f s)))"
    by (cases r) (auto simp: andthen_def r intro: R_trans)
qed

lemma related_expect: "relates_logs R (expect x)"
  by (auto simp: expect_def related_ret split: option.splits)

lemma related_attempt: "relates_logs R m \<Longrightarrow> relates_logs R (attempt m)"
  unfolding relates_logs_def attempt_def by (auto split: prod.splits sum.splits rpc_failure.splits) (metis snd_conv)+

lemma related_unwrap: "relates_logs R m \<Longrightarrow> relates_logs R (unwrap_request m)"
  unfolding relates_logs_def unwrap_request_def by (auto split: prod.splits sum.splits) (metis snd_conv)+

lemma related_case_option:
  "relates_logs R m \<Longrightarrow> (\<And>x. relates_logs R (f x)) \<Longrightarrow> relates_logs R (case v of None \<Rightarrow> m | Some x \<Rightarrow> f x)"
  by (cases v) simp_all

lemma related_case_sum:
  "(\<And>x. relates_logs R (f x)) \<Longrightarrow> (\<And>y. relates_logs R (g y)) \<Longrightarrow> relates_logs R (case v of Inl x \<Rightarrow> f x | Inr y \<Rightarrow> g y)"
  by (cases v) simp_all

lemma related_if: "relates_logs R m \<Longrightarrow> relates_logs R m' \<Longrightarrow> relates_logs R (if b then m else m')"
  by simp

lemma related_request: "allowed meth \<Longrightarrow> relates_logs R (make_request B (logged V) cl meth ps)"
  unfolding relates_logs_def
proof (intro allI)
  fix s :: "'a \<times> request_log"
  assume m: "allowed meth"
  obtain s0 l where s: "s = (s0, l)" by (cases s)
  from make_request_logged [of B V cl meth ps s0 l] obtain as a s' where
    "make_request B (logged V) cl meth ps s = (outcome a, s', l @ map (\<lambda>x. (cl, meth, ps, x)) (as @ [a]))"
    unfolding s by blast
  with R_request [OF m, of l cl ps "as @ [a]"]
  show "R (snd s) (snd (snd (make_request B (logged V) cl meth ps s)))" by (simp add: s)
qed

lemma related_requests:
  assumes "allowed meth"
  shows "relates_logs R (make_node_request B (logged V) meth ps)"
    "relates_logs R (make_wallet_request B (logged V) meth ps)"
    "relates_logs R (make_fallible_node_request B (logged V) meth ps)"
  unfolding make_node_request_def make_wallet_request_def make_fallible_node_request_def
  by (intro related_unwrap related_request assms)+

lemmas related_intros = related_ret related_andthen related_expect related_attempt related_unwrap related_case_option
  related_case_sum related_if related_request related_requests

end

section \<open>The spender of a coin\<close>

text \<open>The log only grows.\<close>

interpretation grown: log_order "\<lambda>l l'. set l \<subseteq> set l'" "\<lambda>_. True"
  by unfold_locales auto

lemma mempool_grows: "relates_logs (\<lambda>l l'. set l \<subseteq> set l') (is_in_mempool X B (logged V) txid)"
  unfolding is_in_mempool_def get_mempool_entry_def
  by (intro grown.related_andthen grown.related_attempt grown.related_requests TrueI grown.related_ret)
    (auto intro!: grown.related_andthen grown.related_expect grown.related_ret
      split: sum.split bitcoind_error.split jsonrpc_error.split)

lemma request_answer_logged:
  assumes "make_request B (logged V) cl meth ps (s, l) = (Inr j, s', l')"
  shows "(cl, meth, ps, Inr j) \<in> set l'"
proof -
  from make_request_logged [of B V cl meth ps s l] assms obtain as a where
    "outcome a = Inr j" "l' = l @ map (\<lambda>x. (cl, meth, ps, x)) (as @ [a])" by auto
  then show ?thesis by (cases a) (auto simp: outcome_def)
qed

text \<open>
  The log shows the transaction with the coin among its inputs, and it confirmed, without a conflict, or an
  entry of the mempool.
\<close>

definition shows_spender :: "'d texts \<Rightarrow> outpoint \<Rightarrow> request_log \<Rightarrow> json \<Rightarrow> txid \<Rightarrow> bool" where
  "shows_spender X op l res txid \<longleftrightarrow>
     (\<exists>vin i. Option.bind (json_get ''decoded'' res) (field_array ''vin'') = Some vin \<and> i \<in> set vin \<and>
        input_outpoint X i = Some op) \<and>
     (\<exists>confs conflicts. field_i64 ''confirmations'' res = Some confs \<and> field_array ''walletconflicts'' res = Some conflicts \<and>
        (confs \<noteq> 0 \<or> conflicts = [] \<or>
         (\<exists>j. (Node_Client, ''getmempoolentry'', Some [J_String (txid_text X txid)], Inr j) \<in> set l)))"

lemma in_mempool_logged:
  assumes "is_in_mempool X B (logged V) txid (s, l) = (Inr True, s', l')"
  shows "\<exists>j. (Node_Client, ''getmempoolentry'', Some [J_String (txid_text X txid)], Inr j) \<in> set l'"
proof -
  let ?ps = "Some [J_String (txid_text X txid)]"
  have error: "(case e of Server (Rpc_Code code message) \<Rightarrow> if code = -5 then ret None else fail Rpc_Panic
      | _ \<Rightarrow> fail Rpc_Panic) s1 \<noteq> (Inr (Some x), s2)" for e and s1 :: "'s \<times> request_log" and x :: mempool_entry and s2
    by (cases e) (auto simp: ret_def fail_def split: jsonrpc_error.split)
  from assms obtain x where "get_mempool_entry X B (logged V) txid (s, l) = (Inr (Some x), s', l')"
    unfolding is_in_mempool_def by (auto simp: rpc_simps)
  then obtain j s1 l1 where j: "make_request B (logged V) Node_Client ''getmempoolentry'' ?ps (s, l) = (Inr j, s1, l1)"
    "expect (mempool_entry_of_json X j) (s1, l1) = (Inr x, s', l')"
    unfolding get_mempool_entry_def make_fallible_node_request_def
    by (auto simp: rpc_simps error)
  with request_answer_logged [OF j(1)] show ?thesis by (auto simp: rpc_simps)
qed

lemma scan_inputs_sound:
  assumes "scan_inputs X B (logged V) op spending res ins (s, l) = (Inr (Some txid), s', l')"
    "Option.bind (json_get ''decoded'' res) (field_array ''vin'') = Some vin" "set ins \<subseteq> set vin"
  shows "txid_of_text X spending = Some txid \<and> shows_spender X op l' res txid \<and> set l \<subseteq> set l'"
  using assms(1,3)
proof (induction ins)
  case (Cons i ins)
  show ?case
  proof (cases "input_outpoint X i = Some op")
    case True
    with Cons.prems assms(2) show ?thesis
      by (auto simp: rpc_simps shows_spender_def split: if_splits
        dest: in_mempool_logged grown.relatedD [OF mempool_grows, THEN subsetD])
  next
    case False
    with Cons show ?thesis by (auto simp: rpc_simps split: option.splits if_splits)
  qed
qed (simp add: rpc_simps)

lemma scan_transactions_sound:
  assumes "scan_transactions X B (logged V) op ts visited (s, l) = (Inr (Some txid), s', l')"
  shows "\<exists>spending res. spending \<noteq> txid_text X (op_txid op) \<and> txid_of_text X spending = Some txid \<and>
    (Watchonly_Client, ''gettransaction'', Some [J_String spending, J_Bool True, J_Bool True], Inr res) \<in> set l' \<and>
    shows_spender X op l' res txid"
  using assms
proof (induction ts arbitrary: visited s l)
  case (Cons t ts)
  consider (skip) s1 l1 visited' where "scan_transactions X B (logged V) op ts visited' (s1, l1) = (Inr (Some txid), s', l')"
    | (here) spending res s1 l1 vin where "txid_text X (op_txid op) \<noteq> spending"
        "make_request B (logged V) Watchonly_Client ''gettransaction'' (Some [J_String spending, J_Bool True, J_Bool True]) (s, l) =
           (Inr res, s1, l1)"
        "Option.bind (json_get ''decoded'' res) (field_array ''vin'') = Some vin"
        "scan_inputs X B (logged V) op spending res vin (s1, l1) = (Inr (Some txid), s', l')"
    using Cons.prems
    by (fastforce simp: rpc_simps make_wallet_request_def split: if_splits option.splits)
  then show ?case
  proof cases
    case skip
    then show ?thesis by (rule Cons.IH)
  next
    case here
    have "txid_of_text X spending = Some txid \<and> shows_spender X op l' res txid \<and> set l1 \<subseteq> set l'"
      by (rule scan_inputs_sound [OF here(4,3) subset_refl])
    moreover have "(Watchonly_Client, ''gettransaction'', Some [J_String spending, J_Bool True, J_Bool True], Inr res) \<in> set l1"
      by (rule request_answer_logged [OF here(2)])
    ultimately show ?thesis using here(1) by (intro exI [of _ spending] exI [of _ res]) auto
  qed
qed (simp add: rpc_simps)

lemma get_spender_txid_sound:
  assumes "get_spender_txid X B (logged V) op (s, l) = (Inr (Some txid), s', l')"
  shows "\<exists>spending res. spending \<noteq> txid_text X (op_txid op) \<and> txid_of_text X spending = Some txid \<and>
    (Watchonly_Client, ''gettransaction'', Some [J_String spending, J_Bool True, J_Bool True], Inr res) \<in> set l' \<and>
    shows_spender X op l' res txid"
proof -
  have "\<exists>ts s1 l1. scan_transactions X B (logged V) op ts [] (s1, l1) = (Inr (Some txid), s', l')"
    using assms by (auto simp: get_spender_txid_def rpc_simps)
  then show ?thesis by (blast dest: scan_transactions_sound)
qed

section \<open>The imports of a rescan\<close>

definition import_count :: "request_log \<Rightarrow> nat" where
  "import_count l = length (filter (\<lambda>(cl, meth, ps, a). meth = ''importdescriptors'') l)"

lemma import_count_append [simp]: "import_count (l @ l') = import_count l + import_count l'"
  by (simp add: import_count_def)

text \<open>Every other request leaves the number of imports.\<close>

interpretation silent: log_order "\<lambda>l l'. import_count l' = import_count l" "\<lambda>meth. meth \<noteq> ''importdescriptors''"
  by unfold_locales (auto simp: import_count_def)

lemma silent_queries:
  "relates_logs (\<lambda>l l'. import_count l' = import_count l) (block_chain_info B (logged V))"
  "relates_logs (\<lambda>l l'. import_count l' = import_count l) (list_descriptors B (logged V))"
  "relates_logs (\<lambda>l l'. import_count l' = import_count l) (check_descs_timestamp X B (logged V) descs timestamp)"
  "relates_logs (\<lambda>l l'. import_count l' = import_count l) (node_chain_tip X B (logged V))"
  "relates_logs (\<lambda>l l'. import_count l' = import_count l) (get_block_hash X B (logged V) h)"
  "relates_logs (\<lambda>l l'. import_count l' = import_count l) (get_block_stats X B (logged V) hash)"
  unfolding block_chain_info_def list_descriptors_def check_descs_timestamp_def node_chain_tip_def get_block_hash_def
    get_block_stats_def by (intro silent.related_intros; simp)+

lemma silent_search:
  "relates_logs (\<lambda>l l'. import_count l' = import_count l) (search_rpc X B (logged V) target s e)"
proof (induction "nat (e - s)" arbitrary: s e rule: less_induct)
  case less
  then show ?case
    by (subst search_rpc.simps) (auto simp: Let_def intro!: silent.related_intros silent_queries less)
qed

lemma silent_check_prune:
  "relates_logs (\<lambda>l l'. import_count l' = import_count l) (check_prune_height X B (logged V) timestamp)"
  unfolding check_prune_height_def tip_before_timestamp_def
  by (intro silent.related_intros silent_queries silent_search)

text \<open>One request that is not waited for is one entry of the log.\<close>

lemma noreply_import:
  "\<exists>r s' a. attempt (make_noreply_request (logged V) ''importdescriptors'' ps) (s, l) =
     (Inr r, s', l @ [(Sendonly_Client, ''importdescriptors'', ps, a)])"
  by (auto simp: attempt_def make_noreply_request_def andthen_def try_request_def ret_def fail_def
    split: prod.splits sum.splits)

text \<open>The loop: how many imports are asked for, what success and failure mean.\<close>

lemma rescan_loop_logged:
  assumes "rescan_loop X B (logged V) descs timestamp ps (Suc n) (s, l) = (r, s', l')"
  shows "import_count l + 1 \<le> import_count l' \<and> import_count l' \<le> import_count l + Suc n \<and>
    (r = Inl Rpc_Panic \<or> r = Inl (Rpc_Failed StartRescan) \<and> import_count l' = import_count l + Suc n \<or>
     r = Inr () \<and> (\<exists>s1. check_descs_timestamp X B (logged V) descs timestamp s1 = (Inr True, s', l')))"
  using assms
proof (induction n arbitrary: s l)
  case 0
  obtain r1 s1 a where a: "attempt (make_noreply_request (logged V) ''importdescriptors'' (Some [ps])) (s, l) =
      (Inr r1, s1, l @ [(Sendonly_Client, ''importdescriptors'', Some [ps], a)])" (is "_ = (_, _, ?l)")
    using noreply_import [of V "Some [ps]" s l] by blast
  obtain r2 s2 l2 where c: "check_descs_timestamp X B (logged V) descs timestamp (s1, ?l) = (r2, s2, l2)"
    by (metis surj_pair)
  have l2: "import_count l2 = import_count l + 1"
    using silent.relatedD [OF silent_queries(3) c] by (simp add: import_count_def)
  show ?case
  proof (cases r2)
    case (Inl e)
    then have "e = Rpc_Panic" using panicsD [OF panics_queries(3)] c by metis
    with 0 a c l2 Inl show ?thesis by (auto simp: andthen_def)
  next
    case (Inr found)
    with 0 a c l2 show ?thesis by (auto simp: andthen_def ret_def fail_def split: if_splits)
  qed
next
  case (Suc n)
  obtain r1 s1 a where a: "attempt (make_noreply_request (logged V) ''importdescriptors'' (Some [ps])) (s, l) =
      (Inr r1, s1, l @ [(Sendonly_Client, ''importdescriptors'', Some [ps], a)])" (is "_ = (_, _, ?l)")
    using noreply_import [of V "Some [ps]" s l] by blast
  obtain r2 s2 l2 where c: "check_descs_timestamp X B (logged V) descs timestamp (s1, ?l) = (r2, s2, l2)"
    by (metis surj_pair)
  have l2: "import_count l2 = import_count l + 1"
    using silent.relatedD [OF silent_queries(3) c] by (simp add: import_count_def)
  show ?case
  proof (cases r2)
    case (Inl e)
    then have "e = Rpc_Panic" using panicsD [OF panics_queries(3)] c by metis
    with Suc.prems a c l2 Inl show ?thesis by (subst (asm) rescan_loop.simps) (auto simp: andthen_def)
  next
    case (Inr found)
    show ?thesis
    proof (cases found)
      case True
      with Suc.prems a c l2 Inr show ?thesis by (subst (asm) rescan_loop.simps) (auto simp: andthen_def ret_def)
    next
      case False
      with Suc.prems a c Inr have "rescan_loop X B (logged V) descs timestamp ps (Suc n) (sv_sleep V 1 s2, l2) = (r, s', l')"
        by (subst (asm) rescan_loop.simps) (auto simp: andthen_def simp del: rescan_loop.simps)
      from Suc.IH [OF this] l2 show ?thesis by auto
    qed
  qed
qed

end
