(* ===== verification/Bitcoind_Properties.thy ===== *)
theory Bitcoind_Properties
  imports Bitcoind_Requests
begin

text \<open>
  The properties of the interface to a \<open>bitcoind\<close> node: its requests and retries, the backend
  of the poller it implements, the search for the spender of a coin, rescans; and a node with its
  answers on which they are applied.
\<close>

section \<open>A node\<close>

text \<open>
  Hashes are written in unary. The node has two blocks, one transaction for whatever it is asked for,
  and an empty mempool. Its state is the number of requests it answered.
\<close>

definition sample_texts :: "nat texts" where
  "sample_texts = \<lparr>txid_of_text = (\<lambda>s. Some (length s)), txid_text = (\<lambda>n. replicate n CHR ''a''),
     hash_of_text = (\<lambda>s. Some (length s)), hash_text = (\<lambda>n. replicate n CHR ''a''),
     address_of_text = (\<lambda>s. Some (length s)), desc_of_text = (\<lambda>s. Some (length s)), desc_text = (\<lambda>n. replicate n CHR ''d''),
     tx_of_hex = (\<lambda>s. Some \<lparr>tx_version = 2, lock_time = 0, tx_input = [], tx_output = []\<rparr>),
     tx_hex = (\<lambda>t. ''00''), amount_of_btc = (\<lambda>n. Some 1), error_text = (\<lambda>e. ''error''), json_text = (\<lambda>j. ''json'')\<rparr>"

definition sample_tx_json :: json where
  "sample_tx_json = J_Object [(''hex'', J_String ''00''), (''confirmations'', J_Number (Pos_Int 1)),
     (''blockheight'', J_Number (Pos_Int 1)), (''walletconflicts'', J_Array []),
     (''decoded'', J_Object [(''vin'', J_Array [J_Object [(''txid'', J_String ''a''), (''vout'', J_Number (Pos_Int 0))]])])]"

definition sample_header :: "nat \<Rightarrow> json" where
  "sample_header n = J_Object [(''confirmations'', J_Number (Pos_Int (2 - n))), (''height'', J_Number (Pos_Int n)),
     (''time'', J_Number (Pos_Int (100 + n))), (''mediantime'', J_Number (Pos_Int 100))]"

definition sample_descriptors :: json where
  "sample_descriptors = J_Object [(''descriptors'', J_Array
     [J_Object [(''desc'', J_String ''d''), (''timestamp'', J_Number (Pos_Int 100))],
      J_Object [(''desc'', J_String ''dd''), (''timestamp'', J_Number (Pos_Int 100))]])]"

definition sample_answer :: "string \<Rightarrow> json list option \<Rightarrow> jsonrpc_error + json" where
  "sample_answer meth ps =
     (if meth = ''getblockchaininfo'' then
        Inr (J_Object [(''bestblockhash'', J_String ''a''), (''blocks'', J_Number (Pos_Int 1))])
      else if meth = ''getblockhash'' then
        (if ps = Some [J_Number (Pos_Int 0)] then Inr (J_String '''')
         else if ps = Some [J_Number (Pos_Int 1)] then Inr (J_String ''a'') else Inl (Rpc_Code (-8) ''out of range''))
      else if meth = ''getblockheader'' then
        (if ps = Some [J_String ''''] then Inr (sample_header 0)
         else if ps = Some [J_String ''a''] then Inr (sample_header 1) else Inl (Rpc_Code (-5) ''not found''))
      else if meth = ''listsinceblock'' then
        Inr (J_Object [(''transactions'', J_Array [J_Object [(''category'', J_String ''send''), (''txid'', J_String ''aaaaa'')]])])
      else if meth = ''gettransaction'' then Inr sample_tx_json
      else if meth = ''gettxout'' then Inr J_Null
      else if meth = ''getmempoolentry'' then Inl (Rpc_Code (-5) ''not in mempool'')
      else if meth = ''listdescriptors'' then Inr sample_descriptors
      else if meth = ''importdescriptors'' then Inl Io_TimedOut
      else Inr J_Null)"

definition sample_server :: "nat rpc_server" where
  "sample_server = \<lparr>sv_answer = (\<lambda>cl meth ps n. (sample_answer meth ps, Suc n)), sv_sleep = (\<lambda>t n. n)\<rparr>"

definition sample_bitcoind :: bitcoind where
  "sample_bitcoind = \<lparr>bd_wallet_path = ''wallet'', bd_retries = 0\<rparr>"

definition sample_node :: "nat node" where
  "sample_node = \<lparr>nd_chain_tip = \<lparr>ct_height = 1, ct_hash = 1\<rparr>,
     nd_block_hash = (\<lambda>h. if h = 0 then Some 0 else if h = 1 then Some 1 else None),
     nd_block_stats = (\<lambda>hash. if hash \<le> 1 then Some \<lparr>bs_confirmations = 2 - int hash, bs_previous = None, bs_hash = hash,
        bs_height = int hash, bs_time = 100 + hash, bs_median_time = 100\<rparr> else None),
     nd_list_since_block = (\<lambda>_. []),
     nd_transaction = (\<lambda>_. Some \<lparr>gt_conflicting_txs = [], gt_block = None,
        gt_tx = \<lparr>tx_version = 2, lock_time = 0, tx_input = [], tx_output = []\<rparr>, gt_is_coinbase = False, gt_confirmations = 1\<rparr>),
     nd_in_mempool = (\<lambda>_. False), nd_is_spent = (\<lambda>_. True),
     nd_spender_txid = (\<lambda>op. if op = \<lparr>op_txid = 1, op_vout = 0\<rparr> then Some 5 else None)\<rparr>"

lemma sample_request:
  "make_request sample_bitcoind sample_server cl meth ps n = (outcome (sample_answer meth ps), Suc n)"
proof -
  have "bd_retries sample_bitcoind + 1 = Suc 0" by (simp add: sample_bitcoind_def)
  then show ?thesis
    by (cases "sample_answer meth ps")
      (simp_all add: make_request_def retry_def retry_round sample_server_def outcome_def retryable_def del: retry_loop.simps(2))
qed

lemma sample_logged_request:
  "make_request sample_bitcoind (logged sample_server) cl meth ps (n, l) =
     (outcome (sample_answer meth ps), Suc n, l @ [(cl, meth, ps, sample_answer meth ps)])"
proof -
  have "bd_retries sample_bitcoind + 1 = Suc 0" by (simp add: sample_bitcoind_def)
  then show ?thesis
    by (cases "sample_answer meth ps")
      (simp_all add: make_request_def retry_def retry_round sample_server_def outcome_def retryable_def del: retry_loop.simps(2))
qed

lemmas run_defs = node_chain_tip_def block_chain_info_def get_block_hash_def get_block_stats_def list_since_block_def
  get_transaction_def is_in_mempool_def get_mempool_entry_def node_is_spent_def make_node_request_def make_wallet_request_def
  make_fallible_node_request_def make_faillible_wallet_request_def unwrap_request_def andthen_def attempt_def expect_def
  ret_def fail_def sample_request outcome_def

lemmas read_defs = field_str_def field_i64_def field_u64_def field_array_def json_int_def to_i32_def to_u32_def
  try_i32_def

lemma sample_reads_tip: "reads (\<lambda>_. True) (node_chain_tip sample_texts sample_bitcoind sample_server) (nd_chain_tip sample_node)"
  by (simp add: reads_def run_defs read_defs sample_answer_def sample_texts_def sample_node_def)

lemma sample_reads_hash:
  "reads (\<lambda>_. True) (get_block_hash sample_texts sample_bitcoind sample_server h) (nd_block_hash sample_node h)"
  by (auto simp: reads_def run_defs read_defs sample_answer_def sample_texts_def sample_node_def nat_eq_iff)

lemma sample_reads_stats:
  "reads (\<lambda>_. True) (get_block_stats sample_texts sample_bitcoind sample_server hash) (nd_block_stats sample_node hash)"
proof -
  consider "hash = 0" | "hash = 1" | n where "hash = Suc (Suc n)" by (metis One_nat_def not0_implies_Suc)
  then show ?thesis
    by cases (auto simp: reads_def run_defs read_defs sample_answer_def sample_header_def sample_texts_def sample_node_def
      block_stats_of_json_def Cons_replicate_eq)
qed

lemma sample_reads_list:
  "reads (\<lambda>_. True) (list_since_block sample_texts sample_bitcoind sample_server hash) (nd_list_since_block sample_node hash)"
  by (simp add: reads_def run_defs read_defs sample_answer_def sample_node_def ls_block_res_of_json_def)

lemma sample_reads_transaction:
  "reads (\<lambda>_. True) (get_transaction sample_texts sample_bitcoind sample_server txid) (nd_transaction sample_node txid)"
  by (simp add: reads_def run_defs read_defs sample_answer_def sample_tx_json_def sample_texts_def sample_node_def
    get_tx_res_of_json_def)

lemma sample_reads_mempool:
  "reads (\<lambda>_. True) (is_in_mempool sample_texts sample_bitcoind sample_server txid) (nd_in_mempool sample_node txid)"
  by (simp add: reads_def run_defs read_defs sample_answer_def sample_node_def)

lemma sample_reads_spent:
  "reads (\<lambda>_. True) (node_is_spent sample_texts sample_bitcoind sample_server op) (nd_is_spent sample_node op)"
  by (simp add: reads_def run_defs read_defs sample_answer_def sample_node_def)

lemma sample_reads_spender:
  "reads (\<lambda>_. True) (get_spender_txid sample_texts sample_bitcoind sample_server op) (nd_spender_txid sample_node op)"
  by (auto simp: reads_def get_spender_txid_def run_defs read_defs sample_answer_def sample_tx_json_def sample_texts_def sample_node_def
    input_outpoint_def)

lemma sample_answers_as: "answers_as sample_texts sample_bitcoind sample_server (\<lambda>_. True) sample_node"
  by (simp add: answers_as_def sample_reads_tip sample_reads_hash sample_reads_stats sample_reads_list sample_reads_transaction
    sample_reads_mempool sample_reads_spent sample_reads_spender)

section \<open>Requests\<close>

text \<open>A request is sent again only after an error worth a retry, at most as many times as there are retries; its result
  is the last answer, which is final unless no retry was left.\<close>

theorem retry_rounds:
  "\<exists>as a s'. make_request B (logged V) cl meth ps (s, []) = (outcome a, s', map (\<lambda>x. (cl, meth, ps, x)) (as @ [a])) \<and>
     length as \<le> bd_retries B \<and> list_all retryable as \<and> (length as = bd_retries B \<or> retryable a = False)"
  using make_request_logged [of B V cl meth ps s "[]"] by simp

text \<open>The comment of the retry says that a request is always retried while the node warms up. It is not: to a node that
  goes on warming up longer than the retries last, a request is a panic.\<close>

theorem warm_up_is_given_up:
  assumes "\<forall>s. \<exists>message s'. sv_answer V Node_Client meth ps s = (Inl (Rpc_Code (-28) message), s')"
  shows "fst (make_node_request B V meth ps s) = Inl Rpc_Panic"
proof -
  have "\<exists>e. fst (retry_loop V (try_request V Node_Client meth ps) (Suc n) before s) = Inl (Rpc_Failed e)" for n before s
  proof (induction n arbitrary: before s)
    case 0
    from assms obtain message s' where "sv_answer V Node_Client meth ps s = (Inl (Rpc_Code (-28) message), s')" by blast
    then show ?case by (simp add: retry_round retryable_def is_warming_up_def del: retry_loop.simps(2))
  next
    case (Suc n)
    from assms obtain message s' where "sv_answer V Node_Client meth ps s = (Inl (Rpc_Code (-28) message), s')" by blast
    then show ?case
      by (subst retry_round) (use Suc.IH in \<open>simp add: retryable_def is_warming_up_def del: retry_loop.simps(2)\<close>)
  qed
  from this [of "bd_retries B" None s] show ?thesis
    by (auto simp: make_node_request_def unwrap_request_def make_request_def retry_def split: prod.splits sum.splits
      simp del: retry_loop.simps(2))
qed

theorem warm_up_is_given_up_witness:
  "fst (make_node_request \<lparr>bd_wallet_path = ''wallet'', bd_retries = BITCOIND_RETRY_LIMIT\<rparr>
     \<lparr>sv_answer = (\<lambda>cl meth ps n. (Inl (Rpc_Code (-28) ''Loading block index''), n)), sv_sleep = (\<lambda>t n. n + t)\<rparr>
     ''getblockchaininfo'' None (0 :: nat)) = Inl Rpc_Panic"
  by (rule warm_up_is_given_up) simp


definition starting_server :: "nat rpc_server" where
  "starting_server = \<lparr>sv_answer = (\<lambda>cl meth ps n. (if 0 < n then Inl (Rpc_Code (-28) ''Verifying blocks'') else Inr J_Null, n)),
     sv_sleep = (\<lambda>t n. n - t)\<rparr>"


section \<open>The backend of the poller\<close>



section \<open>Spenders and rescans\<close>



text \<open>C29: A rescan asks for the import at most ten times. It succeeds only when the node then shows the descriptors
  imported at the date, and fails to start only after all ten.\<close>

theorem rescan_imports_bounded:
  assumes "start_bitcoind_rescan X B (logged V) descs timestamp (s, []) = (r, s', l)"
  shows "import_count l \<le> 10 \<and> (r = Inl (Rpc_Failed StartRescan) \<longrightarrow> import_count l = 10) \<and>
    (r = Inr () \<longrightarrow> 1 \<le> import_count l \<and>
       (\<exists>s1. check_descs_timestamp X B (logged V) descs timestamp s1 = (Inr True, s', l)))"
proof -
  obtain r1 s1 l1 where q: "list_descriptors B (logged V) (s, []) = (r1, s1, l1)" by (metis surj_pair)
  have l1: "import_count l1 = 0" using silent.relatedD [OF silent_queries(2) q] by (simp add: import_count_def)
  show ?thesis
  proof (cases r1)
    case (Inl e)
    with q have "e = Rpc_Panic" using panicsD [OF panics_queries(2)] by metis
    with assms q Inl l1 show ?thesis by (auto simp: start_bitcoind_rescan_def andthen_def)
  next
    case (Inr entries)
    obtain r2 s2 l2 where p: "check_prune_height X B (logged V) timestamp (s1, l1) = (r2, s2, l2)" by (metis surj_pair)
    have l2: "import_count l2 = 0" using silent.relatedD [OF silent_check_prune p] l1 by simp
    show ?thesis
    proof (cases r2)
      case (Inl e)
      with p have "e = Rpc_Panic \<or> e = Rpc_Failed RescanPastPruneHeight" using check_prune_height_fails by metis
      with assms q Inr p Inl l2 show ?thesis by (auto simp: start_bitcoind_rescan_def andthen_def)
    next
      case (Inr u)
      with assms q \<open>r1 = Inr entries\<close> p have "\<exists>ps. rescan_loop X B (logged V) descs timestamp ps (Suc 9) (s2, l2) = (r, s', l)"
        by (auto simp: start_bitcoind_rescan_def andthen_def RESCAN_RETRIES_def eval_nat_numeral simp del: rescan_loop.simps)
      with rescan_loop_logged [where n = 9] l2 show ?thesis by fastforce
    qed
  qed
qed

lemma sample_list_descriptors:
  "list_descriptors sample_bitcoind (logged sample_server) (n, l) =
     (Inr [\<lparr>ld_desc = ''d'', ld_range = None, ld_timestamp = 100\<rparr>, \<lparr>ld_desc = ''dd'', ld_range = None, ld_timestamp = 100\<rparr>],
      Suc n, l @ [(Watchonly_Client, ''listdescriptors'', None, Inr sample_descriptors)])"
  by (simp add: list_descriptors_def run_defs sample_logged_request sample_answer_def sample_descriptors_def field_array_def
    field_str_def field_u64_def list_desc_entry_of_json_def range_of_json_def try_smaller_def)

lemma sample_prune_height:
  "\<exists>s1 l1. check_prune_height sample_texts sample_bitcoind (logged sample_server) 100 (n, l) = (Inr (), s1, l1)"
  by (simp add: check_prune_height_def run_defs sample_logged_request sample_answer_def)

theorem rescan_imports_bounded_witness:
  "\<exists>s1 s2 l. check_descs_timestamp sample_texts sample_bitcoind (logged sample_server) [1, 2] 100 s1 = (Inr True, s2, l) \<and>
     1 \<le> import_count l \<and> import_count l \<le> 10"
proof -
  have found: "\<exists>s1 l1. check_descs_timestamp sample_texts sample_bitcoind (logged sample_server) [1, 2] 100 (n, l) = (Inr True, s1, l1)"
    for n l
    by (simp add: check_descs_timestamp_def andthen_def sample_list_descriptors ret_def descs_contain_timestamp_def
      List.map_filter_simps sample_texts_def numeral_2_eq_2)
  have loop: "\<exists>s1 l1. rescan_loop sample_texts sample_bitcoind (logged sample_server) [1, 2] 100 ps (Suc 9) (n, l) = (Inr (), s1, l1)"
    for ps n l
  proof -
    obtain r s1 a where "attempt (make_noreply_request (logged sample_server) ''importdescriptors'' (Some [ps])) (n, l) =
        (Inr r, s1, l @ [(Sendonly_Client, ''importdescriptors'', Some [ps], a)])"
      using noreply_import [of sample_server "Some [ps]" n l] by blast
    moreover obtain s2 l2 where "check_descs_timestamp sample_texts sample_bitcoind (logged sample_server) [1, 2] 100
        (s1, l @ [(Sendonly_Client, ''importdescriptors'', Some [ps], a)]) = (Inr True, s2, l2)"
      using found by blast
    ultimately show ?thesis by (subst rescan_loop.simps) (simp add: andthen_def ret_def)
  qed
  have ten: "RESCAN_RETRIES = Suc 9" by (simp add: RESCAN_RETRIES_def)
  obtain s1 l1 where p: "check_prune_height sample_texts sample_bitcoind (logged sample_server) 100
      (Suc 0, [(Watchonly_Client, ''listdescriptors'', None, Inr sample_descriptors)]) = (Inr (), s1, l1)"
    using sample_prune_height by blast
  have "\<exists>n l. start_bitcoind_rescan sample_texts sample_bitcoind (logged sample_server) [1, 2] 100 (0, []) = (Inr (), n, l)"
    using loop by (simp add: start_bitcoind_rescan_def andthen_def sample_list_descriptors p ten del: rescan_loop.simps)
  then obtain n l where "start_bitcoind_rescan sample_texts sample_bitcoind (logged sample_server) [1, 2] 100 (0, []) = (Inr (), n, l)"
    by blast
  from rescan_imports_bounded [OF this] show ?thesis by blast
qed

end
