(* ===== verification/Business_Models.thy ===== *)
theory Business_Models
  imports Bitcoin_Types Business_Text
begin

text \<open>
  The domain model of Liana Connect (\<open>liana-connect/src/ws_business/models.rs\<close>): wallets, their
  policy templates, keys, users, and what is derived of them (the validity of a template, the role
  of a user for a wallet, the status of a wallet as a user sees it). Identifiers (\<open>Uuid\<close>) are
  naturals, with \<open>0\<close> for the nil one; a \<open>BTreeSet\<close> is its ascending list.
\<close>

type_synonym uuid = nat

definition BLOCKS_PER_HOUR :: nat where "BLOCKS_PER_HOUR = 6"
definition BLOCKS_PER_DAY :: nat where "BLOCKS_PER_DAY = 144"
definition BLOCKS_PER_MONTH :: nat where "BLOCKS_PER_MONTH = 4380"
definition BLOCKS_PER_YEAR :: nat where "BLOCKS_PER_YEAR = 52560"

section \<open>Statuses, roles and keys\<close>

datatype wallet_status = Created | Drafted | Locked | Validated | Registration | Finalized

datatype user_role = WizardSardineAdmin | WalletManager | Participant

fun show_user_role :: "user_role \<Rightarrow> string" where
  "show_user_role WizardSardineAdmin = ''WsAdmin''"
| "show_user_role WalletManager = ''WalletManager''"
| "show_user_role Participant = ''Participant''"

datatype key_type = Internal | External | Cosigner | SafetyNet

datatype xpub_source = Source_Device | Source_File | Source_Pasted

datatype device_kind =
  Ledger | LedgerNano | LedgerNanoS | LedgerNanoPlus | LedgerFlex | LedgerStax | SpecterDiy
  | Bitbox02 | Bitbox02Nova | Jade | JadePlus | Coldcard | ColdcardMk4 | ColdcardQ
  | Other_Device string

fun show_device_kind :: "device_kind \<Rightarrow> string" where
  "show_device_kind Ledger = ''Ledger''"
| "show_device_kind LedgerNano = ''LedgerNano''"
| "show_device_kind LedgerNanoS = ''LedgerNanoS''"
| "show_device_kind LedgerNanoPlus = ''LedgerNanoPlus''"
| "show_device_kind LedgerFlex = ''LedgerFlex''"
| "show_device_kind LedgerStax = ''LedgerStax''"
| "show_device_kind SpecterDiy = ''SpecterDiy''"
| "show_device_kind Bitbox02 = ''Bitbox02''"
| "show_device_kind Bitbox02Nova = ''Bitbox02Nova''"
| "show_device_kind Jade = ''Jade''"
| "show_device_kind JadePlus = ''JadePlus''"
| "show_device_kind Coldcard = ''Coldcard''"
| "show_device_kind ColdcardMk4 = ''ColdcardMk4''"
| "show_device_kind ColdcardQ = ''ColdcardQ''"
| "show_device_kind (Other_Device s) = s"

definition parse_device_kind :: "string \<Rightarrow> device_kind" where
  "parse_device_kind s =
     (if s = ''Ledger'' then Ledger
      else if s = ''LedgerNano'' then LedgerNano
      else if s = ''LedgerNanoS'' then LedgerNanoS
      else if s = ''LedgerNanoPlus'' then LedgerNanoPlus
      else if s = ''LedgerFlex'' then LedgerFlex
      else if s = ''LedgerStax'' then LedgerStax
      else if s = ''SpecterDiy'' then SpecterDiy
      else if s = ''Bitbox02'' then Bitbox02
      else if s = ''Bitbox02Nova'' then Bitbox02Nova
      else if s = ''Jade'' then Jade
      else if s = ''JadePlus'' then JadePlus
      else if s = ''Coldcard'' then Coldcard
      else if s = ''ColdcardMk4'' then ColdcardMk4
      else if s = ''ColdcardQ'' then ColdcardQ
      else Other_Device s)"

record xpub_data =
  xd_value :: string
  xd_source :: xpub_source
  xd_device_kind :: "device_kind option"
  xd_device_version :: "string option"
  xd_file_name :: "string option"

record provider =
  provider_uuid :: string
  provider_name :: string

datatype key_identity =
  Id_Email string | Id_Token string | Id_TokenWithProvider string "provider option" | Id_Other string

fun show_key_identity :: "key_identity \<Rightarrow> string" where
  "show_key_identity (Id_TokenWithProvider token pr) =
     (case pr of None \<Rightarrow> token | Some p \<Rightarrow> provider_name p)"
| "show_key_identity (Id_Token s) = s"
| "show_key_identity (Id_Email s) = s"
| "show_key_identity (Id_Other s) = s"

record ws_key =
  key_id :: nat
  key_alias :: string
  key_description :: string
  key_identity :: key_identity
  key_type :: key_type
  key_xpub :: "desc_pk option"
  key_xpub_source :: "xpub_source option"
  key_xpub_device_kind :: "device_kind option"
  key_xpub_device_version :: "string option"
  key_xpub_file_name :: "string option"
  key_last_edited :: "nat option"
  key_last_editor :: "uuid option"

text \<open>The origin of a descriptor key; \<open>Key::fingerprint\<close> takes its fingerprint.\<close>

fun pk_origin :: "desc_pk \<Rightarrow> key_origin option" where
  "pk_origin (Single_Pub org k) = org"
| "pk_origin (XPub x) = x_origin x"
| "pk_origin (MultiXPub x) = mx_origin x"

definition key_fingerprint :: "ws_key \<Rightarrow> fingerprint option" where
  "key_fingerprint k =
     (case key_xpub k of None \<Rightarrow> None
      | Some pk \<Rightarrow> (case pk_origin pk of Some (fg, _) \<Rightarrow> Some fg | None \<Rightarrow> None))"

section \<open>Timelocks\<close>

record timelock =
  tl_blocks :: nat

text \<open>The largest of years, months and days that are not zero, or the blocks when there is none.\<close>

definition show_timelock :: "timelock \<Rightarrow> string" where
  "show_timelock t =
     (let b = tl_blocks t in
      if b = 0 then ''0 blocks''
      else
        let (parts, r) = (if BLOCKS_PER_YEAR \<le> b
              then ([show_nat (b div BLOCKS_PER_YEAR) @ ''y''], b mod BLOCKS_PER_YEAR) else ([], b));
            (parts, r) = (if BLOCKS_PER_MONTH \<le> r
              then (parts @ [show_nat (r div BLOCKS_PER_MONTH) @ ''m''], r mod BLOCKS_PER_MONTH) else (parts, r));
            (parts, r) = (if BLOCKS_PER_DAY \<le> r
              then (parts @ [show_nat (r div BLOCKS_PER_DAY) @ ''d''], r mod BLOCKS_PER_DAY) else (parts, r));
            parts = (if parts = [] then [show_nat r @ '' blocks''] else parts)
        in concat (tl (concat (map (\<lambda>p. ['' '', p]) parts))))"

definition timelock_is_zero :: "timelock \<Rightarrow> bool" where
  "timelock_is_zero t = (tl_blocks t = 0)"

section \<open>Spending paths and templates\<close>

record spending_path =
  sp_is_primary :: bool
  sp_threshold_n :: nat
  sp_key_ids :: "nat list"
  sp_last_edited :: "nat option"
  sp_last_editor :: "uuid option"

definition spending_path_new :: "bool \<Rightarrow> nat \<Rightarrow> nat list \<Rightarrow> spending_path" where
  "spending_path_new primary n ids =
     \<lparr>sp_is_primary = primary, sp_threshold_n = n, sp_key_ids = ids, sp_last_edited = None, sp_last_editor = None\<rparr>"

definition threshold_m :: "spending_path \<Rightarrow> nat" where
  "threshold_m p = length (sp_key_ids p)"

definition spending_path_valid :: "spending_path \<Rightarrow> bool" where
  "spending_path_valid p =
     (let m = length (sp_key_ids p) in 0 < sp_threshold_n p \<and> sp_threshold_n p \<le> m \<and> 0 < m)"

definition path_contains_key :: "spending_path \<Rightarrow> nat \<Rightarrow> bool" where
  "path_contains_key p i = (i \<in> set (sp_key_ids p))"

record secondary_path =
  sec_path :: spending_path
  sec_timelock :: timelock

definition secondary_valid :: "secondary_path \<Rightarrow> bool" where
  "secondary_valid s =
     (0 < tl_blocks (sec_timelock s) \<and> tl_blocks (sec_timelock s) \<le> 65535 \<and> spending_path_valid (sec_path s))"

record policy_template =
  tpl_keys :: "(nat, ws_key) btree"
  tpl_primary :: spending_path
  tpl_secondary :: "secondary_path list"
  tpl_keys_ready :: bool

definition template_new :: policy_template where
  "template_new = \<lparr>tpl_keys = [], tpl_primary = spending_path_new True 1 [], tpl_secondary = [],
     tpl_keys_ready = False\<rparr>"

text \<open>The loop of \<open>is_valid\<close> over the recovery paths, with the timelocks it has seen.\<close>

fun secondaries_valid :: "nat \<Rightarrow> nat list \<Rightarrow> secondary_path list \<Rightarrow> bool" where
  "secondaries_valid n seen [] = True"
| "secondaries_valid n seen (p # ps) =
     (if \<not> secondary_valid p
         \<or> \<not> list_all (\<lambda>i. i < n) (sp_key_ids (sec_path p))
         \<or> tl_blocks (sec_timelock p) \<in> set seen
      then False
      else secondaries_valid n (insort_insert (tl_blocks (sec_timelock p)) seen) ps)"

definition template_valid :: "policy_template \<Rightarrow> bool" where
  "template_valid t =
     (let n = length (tpl_keys t) mod 256 in
      if \<not> list_all (\<lambda>i. i < n) (sp_key_ids (tpl_primary t)) \<or> \<not> spending_path_valid (tpl_primary t) then False
      else if \<not> secondaries_valid n [] (tpl_secondary t) then False
      else tpl_secondary t \<noteq> [])"

section \<open>Organisations, users and wallets\<close>

record org =
  org_name :: string
  org_id :: uuid
  org_wallets :: "uuid list"
  org_users :: "uuid list"
  org_owners :: "uuid list"
  org_last_edited :: "nat option"
  org_last_editor :: "uuid option"

record ws_user =
  u_name :: string
  u_uuid :: uuid
  u_email :: string
  u_role :: user_role
  u_last_edited :: "nat option"
  u_last_editor :: "uuid option"

record registration_infos =
  ri_user :: uuid
  ri_fingerprint :: fingerprint
  ri_registered :: bool
  ri_registered_alias :: "string option"
  ri_proof :: "nat list option"

record wallet =
  w_alias :: string
  w_org :: uuid
  w_owner :: uuid
  w_id :: uuid
  w_status :: wallet_status
  w_template :: "policy_template option"
  w_last_edited :: "nat option"
  w_last_editor :: "uuid option"
  w_descriptor :: "string option"
  w_devices :: "fingerprint list option"

text \<open>\<open>User::role\<close>: the role of a user for a wallet; \<open>None\<close> is no access.\<close>

definition user_role_for :: "ws_user \<Rightarrow> wallet \<Rightarrow> user_role option" where
  "user_role_for u w =
     (case u_role u of
        WalletManager \<Rightarrow> None
      | WizardSardineAdmin \<Rightarrow> Some WizardSardineAdmin
      | Participant \<Rightarrow>
          if w_owner w = u_uuid u then Some WalletManager
          else case w_template w of
                 None \<Rightarrow> None
               | Some t \<Rightarrow>
                   if list_ex (\<lambda>k. key_identity k = Id_Email (u_email u)) (map snd (tpl_keys t))
                   then Some Participant else None)"

text \<open>
  The bodies of the loops of \<open>effective_status\<close> and \<open>user_devices\<close> over the keys: the fingerprint
  of a key of the user (the email already in lower case) that is among the pending devices.
\<close>

definition pending_device :: "fingerprint list \<Rightarrow> string \<Rightarrow> ws_key \<Rightarrow> fingerprint option" where
  "pending_device devices email_lower k =
     (case key_identity k of
        Id_Email e \<Rightarrow>
          if to_lowercase e = email_lower then
            (case key_xpub k of
               None \<Rightarrow> None
             | Some pk \<Rightarrow>
                 (case pk_origin pk of
                    None \<Rightarrow> None
                  | Some (fg, _) \<Rightarrow> if fg \<in> set devices then Some fg else None))
          else None
      | _ \<Rightarrow> None)"

text \<open>The template and the pending devices, when both are there and there is a device.\<close>

definition pending_registration :: "wallet \<Rightarrow> (policy_template \<times> fingerprint list) option" where
  "pending_registration w =
     (case (w_template w, w_devices w) of
        (Some t, Some d) \<Rightarrow> if d \<noteq> [] then Some (t, d) else None
      | _ \<Rightarrow> None)"

definition effective_status :: "wallet \<Rightarrow> string \<Rightarrow> wallet_status" where
  "effective_status w email =
     (if w_status w \<noteq> Finalized then w_status w
      else case pending_registration w of
             None \<Rightarrow> w_status w
           | Some (t, d) \<Rightarrow>
               if list_ex (\<lambda>k. pending_device d (to_lowercase email) k \<noteq> None) (map snd (tpl_keys t))
               then Registration else w_status w)"

definition user_devices :: "wallet \<Rightarrow> string \<Rightarrow> fingerprint list" where
  "user_devices w email =
     (case pending_registration w of
        None \<Rightarrow> []
      | Some (t, d) \<Rightarrow> List.map_filter (pending_device d (to_lowercase email)) (map snd (tpl_keys t)))"

end
