(* ===== verification/Ws_Protocol.thy ===== *)
theory Ws_Protocol
  imports Business_Models Json
begin

text \<open>
  The protocol of Liana Connect (\<open>liana-connect/src/ws_business/protocol.rs\<close>): requests and
  responses, their payloads as JSON values, and their envelopes in a web-socket message. What the
  derived \<open>Serialize\<close> and \<open>Deserialize\<close> make of a whole type, the text of a JSON value and the text
  of a \<open>Uuid\<close> are the record \<open>codec\<close> of parameters.
\<close>

section \<open>Messages\<close>

datatype ws_message = Ws_Text string | Ws_Not_Text

record protocol_request =
  pq_type :: string
  pq_token :: string
  pq_request_id :: string
  pq_payload :: "json option"

record wss_error =
  we_code :: string
  we_message :: string
  we_request_id :: "string option"

record protocol_response =
  pp_type :: string
  pp_request_id :: "string option"
  pp_payload :: "json option"
  pp_error :: "wss_error option"

datatype conversion_error = DeserializationFailed string | InvalidMessageType

datatype ws_request =
    Rq_Connect nat | Rq_Ping | Rq_Close
  | Rq_FetchOrg uuid | Rq_EditWallet wallet | Rq_FetchWallet uuid
  | Rq_EditXpub uuid nat "xpub_data option" | Rq_FetchUser uuid
  | Rq_DeviceRegistered uuid registration_infos

datatype ws_response =
    Rs_Connected nat uuid | Rs_Pong | Rs_Org org | Rs_Wallet wallet | Rs_User ws_user
  | Rs_Error wss_error | Rs_DeleteUserOrg uuid uuid

record codec =
  request_text :: "protocol_request \<Rightarrow> string"
  text_request :: "string \<Rightarrow> string + protocol_request"
  response_text :: "protocol_response \<Rightarrow> string"
  text_response :: "string \<Rightarrow> string + protocol_response"
  uuid_text :: "uuid \<Rightarrow> string"
  text_uuid :: "string \<Rightarrow> string + uuid"
  org_value :: "org \<Rightarrow> json"
  value_org :: "json \<Rightarrow> string + org"
  wallet_value :: "wallet \<Rightarrow> json"
  value_wallet :: "json \<Rightarrow> string + wallet"
  user_value :: "ws_user \<Rightarrow> json"
  value_user :: "json \<Rightarrow> string + ws_user"
  xpub_value :: "xpub_data \<Rightarrow> json"
  value_xpub :: "json \<Rightarrow> string + xpub_data"
  infos_value :: "registration_infos \<Rightarrow> json"
  value_infos :: "json \<Rightarrow> string + registration_infos"

section \<open>Envelopes\<close>

definition create_ws_request :: "codec \<Rightarrow> string \<Rightarrow> string \<Rightarrow> string \<Rightarrow> json option \<Rightarrow> ws_message" where
  "create_ws_request C ty token rid payload =
     Ws_Text (request_text C \<lparr>pq_type = ty, pq_token = token, pq_request_id = rid, pq_payload = payload\<rparr>)"

fun parse_ws_response :: "codec \<Rightarrow> ws_message \<Rightarrow> conversion_error + protocol_response" where
  "parse_ws_response C (Ws_Text t) = map_err DeserializationFailed (text_response C t)"
| "parse_ws_response C Ws_Not_Text = Err InvalidMessageType"

fun parse_ws_request :: "codec \<Rightarrow> ws_message \<Rightarrow> conversion_error + protocol_request" where
  "parse_ws_request C (Ws_Text t) = map_err DeserializationFailed (text_request C t)"
| "parse_ws_request C Ws_Not_Text = Err InvalidMessageType"

section \<open>Payloads\<close>

definition connect_payload :: "nat \<Rightarrow> json" where
  "connect_payload v = J_Object [(''version'', J_Number (Pos_Int v))]"

definition fetch_by_id_payload :: "codec \<Rightarrow> uuid \<Rightarrow> json" where
  "fetch_by_id_payload C i = J_Object [(''id'', J_String (uuid_text C i))]"

definition edit_wallet_payload :: "codec \<Rightarrow> wallet \<Rightarrow> json" where
  "edit_wallet_payload C w = J_Object [(''wallet'', wallet_value C w)]"

definition edit_xpub_payload :: "codec \<Rightarrow> uuid \<Rightarrow> nat \<Rightarrow> xpub_data option \<Rightarrow> json" where
  "edit_xpub_payload C i k x =
     (let payload = J_Object [(''wallet_id'', J_String (uuid_text C i)), (''key_id'', J_Number (Pos_Int k))] in
      case x of None \<Rightarrow> payload | Some x \<Rightarrow> json_set ''xpub'' (xpub_value C x) payload)"

definition device_registered_payload :: "codec \<Rightarrow> uuid \<Rightarrow> registration_infos \<Rightarrow> json" where
  "device_registered_payload C i infos =
     J_Object [(''wallet_id'', J_String (uuid_text C i)), (''infos'', infos_value C infos)]"

definition missing_payload :: "json option \<Rightarrow> conversion_error + json" where
  "missing_payload p = ok_or (DeserializationFailed ''Missing payload'') p"

definition parse_connected :: "codec \<Rightarrow> json option \<Rightarrow> conversion_error + ws_response" where
  "parse_connected C p =
     rbind (missing_payload p) (\<lambda>v.
     rbind (ok_or (DeserializationFailed ''Missing version'') (as_u64 (json_index ''version'' v))) (\<lambda>version.
     rbind (ok_or (DeserializationFailed ''Missing user'') (as_str (json_index ''user'' v))) (\<lambda>user.
     rbind (map_err DeserializationFailed (text_uuid C user)) (\<lambda>user.
     Ok (Rs_Connected (version mod 256) user)))))"

definition parse_org :: "codec \<Rightarrow> json option \<Rightarrow> conversion_error + ws_response" where
  "parse_org C p = rbind (missing_payload p) (\<lambda>v.
     rbind (map_err DeserializationFailed (value_org C v)) (\<lambda>x. Ok (Rs_Org x)))"

definition parse_wallet :: "codec \<Rightarrow> json option \<Rightarrow> conversion_error + ws_response" where
  "parse_wallet C p = rbind (missing_payload p) (\<lambda>v.
     rbind (map_err DeserializationFailed (value_wallet C v)) (\<lambda>x. Ok (Rs_Wallet x)))"

definition parse_user :: "codec \<Rightarrow> json option \<Rightarrow> conversion_error + ws_response" where
  "parse_user C p = rbind (missing_payload p) (\<lambda>v.
     rbind (map_err DeserializationFailed (value_user C v)) (\<lambda>x. Ok (Rs_User x)))"

definition parse_delete_user_org :: "codec \<Rightarrow> json option \<Rightarrow> conversion_error + ws_response" where
  "parse_delete_user_org C p =
     rbind (missing_payload p) (\<lambda>v.
     rbind (ok_or (DeserializationFailed ''Missing user'') (as_str (json_index ''user'' v))) (\<lambda>user.
     rbind (map_err DeserializationFailed (text_uuid C user)) (\<lambda>user.
     rbind (ok_or (DeserializationFailed ''Missing org'') (as_str (json_index ''org'' v))) (\<lambda>og.
     rbind (map_err DeserializationFailed (text_uuid C og)) (\<lambda>og.
     Ok (Rs_DeleteUserOrg user og))))))"

definition parse_connect_request :: "json option \<Rightarrow> conversion_error + ws_request" where
  "parse_connect_request p =
     rbind (missing_payload p) (\<lambda>v.
     rbind (ok_or (DeserializationFailed ''Missing version'') (as_u64 (json_index ''version'' v))) (\<lambda>version.
     Ok (Rq_Connect (version mod 256))))"

definition invalid_uuid :: "string \<Rightarrow> conversion_error" where
  "invalid_uuid e = DeserializationFailed (''Invalid UUID: '' @ e)"

definition parse_fetch_request :: "codec \<Rightarrow> json option \<Rightarrow> conversion_error + uuid" where
  "parse_fetch_request C p =
     rbind (missing_payload p) (\<lambda>v.
     rbind (ok_or (DeserializationFailed ''Missing id'') (as_str (json_index ''id'' v))) (\<lambda>s.
     map_err invalid_uuid (text_uuid C s)))"

definition parse_edit_wallet_request :: "codec \<Rightarrow> json option \<Rightarrow> conversion_error + ws_request" where
  "parse_edit_wallet_request C p =
     rbind (missing_payload p) (\<lambda>v.
     rbind (ok_or (DeserializationFailed ''Missing wallet'') (json_get ''wallet'' v)) (\<lambda>w.
     rbind (map_err DeserializationFailed (value_wallet C w)) (\<lambda>w. Ok (Rq_EditWallet w))))"

definition parse_edit_xpub_request :: "codec \<Rightarrow> json option \<Rightarrow> conversion_error + ws_request" where
  "parse_edit_xpub_request C p =
     rbind (missing_payload p) (\<lambda>v.
     rbind (ok_or (DeserializationFailed ''Missing wallet_id'') (as_str (json_index ''wallet_id'' v))) (\<lambda>s.
     rbind (map_err invalid_uuid (text_uuid C s)) (\<lambda>i.
     rbind (ok_or (DeserializationFailed ''Missing key_id'') (as_u64 (json_index ''key_id'' v))) (\<lambda>k.
     rbind (case json_get ''xpub'' v of
              None \<Rightarrow> Ok None
            | Some x \<Rightarrow> if x = J_Null then Ok None
                        else rbind (map_err DeserializationFailed (value_xpub C x)) (\<lambda>x. Ok (Some x))) (\<lambda>x.
     Ok (Rq_EditXpub i (k mod 256) x))))))"

definition parse_device_registered_request :: "codec \<Rightarrow> json option \<Rightarrow> conversion_error + ws_request" where
  "parse_device_registered_request C p =
     rbind (missing_payload p) (\<lambda>v.
     rbind (ok_or (DeserializationFailed ''Missing wallet_id'') (as_str (json_index ''wallet_id'' v))) (\<lambda>s.
     rbind (map_err invalid_uuid (text_uuid C s)) (\<lambda>i.
     rbind (map_err DeserializationFailed (value_infos C (json_index ''infos'' v))) (\<lambda>infos.
     Ok (Rq_DeviceRegistered i infos)))))"

section \<open>Requests\<close>

fun request_method :: "ws_request \<Rightarrow> string" where
  "request_method (Rq_Connect v) = ''connect''"
| "request_method Rq_Ping = ''ping''"
| "request_method Rq_Close = ''close''"
| "request_method (Rq_FetchOrg i) = ''fetch_org''"
| "request_method (Rq_EditWallet w) = ''edit_wallet''"
| "request_method (Rq_FetchWallet i) = ''fetch_wallet''"
| "request_method (Rq_EditXpub i k x) = ''edit_xpub''"
| "request_method (Rq_FetchUser i) = ''fetch_user''"
| "request_method (Rq_DeviceRegistered i infos) = ''device_registered''"

fun request_payload :: "codec \<Rightarrow> ws_request \<Rightarrow> json option" where
  "request_payload C (Rq_Connect v) = Some (connect_payload v)"
| "request_payload C Rq_Ping = None"
| "request_payload C Rq_Close = None"
| "request_payload C (Rq_FetchOrg i) = Some (fetch_by_id_payload C i)"
| "request_payload C (Rq_FetchWallet i) = Some (fetch_by_id_payload C i)"
| "request_payload C (Rq_FetchUser i) = Some (fetch_by_id_payload C i)"
| "request_payload C (Rq_EditWallet w) = Some (edit_wallet_payload C w)"
| "request_payload C (Rq_EditXpub i k x) = Some (edit_xpub_payload C i k x)"
| "request_payload C (Rq_DeviceRegistered i infos) = Some (device_registered_payload C i infos)"

definition request_from_ws_message ::
  "codec \<Rightarrow> ws_message \<Rightarrow> conversion_error + ws_request \<times> string \<times> string" where
  "request_from_ws_message C m =
     rbind (parse_ws_request C m) (\<lambda>pq.
     let ty = pq_type pq; payload = pq_payload pq in
     rbind (if ty = ''connect'' then parse_connect_request payload
            else if ty = ''ping'' then Ok Rq_Ping
            else if ty = ''close'' then Ok Rq_Close
            else if ty = ''fetch_org'' then rbind (parse_fetch_request C payload) (\<lambda>i. Ok (Rq_FetchOrg i))
            else if ty = ''fetch_wallet'' then rbind (parse_fetch_request C payload) (\<lambda>i. Ok (Rq_FetchWallet i))
            else if ty = ''fetch_user'' then rbind (parse_fetch_request C payload) (\<lambda>i. Ok (Rq_FetchUser i))
            else if ty = ''edit_wallet'' then parse_edit_wallet_request C payload
            else if ty = ''edit_xpub'' then parse_edit_xpub_request C payload
            else if ty = ''device_registered'' then parse_device_registered_request C payload
            else Err (DeserializationFailed (''Unknown message type: '' @ ty)))
       (\<lambda>rq. Ok (rq, pq_token pq, pq_request_id pq)))"

definition request_to_ws_message_with_id :: "codec \<Rightarrow> ws_request \<Rightarrow> string \<Rightarrow> string \<Rightarrow> ws_message" where
  "request_to_ws_message_with_id C rq token rid =
     create_ws_request C (request_method rq) token rid (request_payload C rq)"

text \<open>\<open>to_ws_message\<close>, for the fresh identifier that \<open>Uuid::new_v4\<close> has drawn.\<close>

definition request_to_ws_message :: "codec \<Rightarrow> uuid \<Rightarrow> ws_request \<Rightarrow> string \<Rightarrow> ws_message \<times> uuid" where
  "request_to_ws_message C fresh rq token =
     (create_ws_request C (request_method rq) token (uuid_text C fresh) (request_payload C rq), fresh)"

section \<open>Responses\<close>

fun response_method :: "ws_response \<Rightarrow> string" where
  "response_method (Rs_Connected v u) = ''connected''"
| "response_method Rs_Pong = ''pong''"
| "response_method (Rs_Org x) = ''org''"
| "response_method (Rs_Wallet x) = ''wallet''"
| "response_method (Rs_User x) = ''user''"
| "response_method (Rs_Error e) = ''error''"
| "response_method (Rs_DeleteUserOrg u x) = ''delete_user_org''"

fun response_payload :: "codec \<Rightarrow> ws_response \<Rightarrow> json option" where
  "response_payload C (Rs_Connected v u) =
     Some (J_Object [(''version'', J_Number (Pos_Int v)), (''user'', J_String (uuid_text C u))])"
| "response_payload C Rs_Pong = None"
| "response_payload C (Rs_Org x) = Some (org_value C x)"
| "response_payload C (Rs_Wallet x) = Some (wallet_value C x)"
| "response_payload C (Rs_User x) = Some (user_value C x)"
| "response_payload C (Rs_Error e) = None"
| "response_payload C (Rs_DeleteUserOrg u x) =
     Some (J_Object [(''user'', J_String (uuid_text C u)), (''org'', J_String (uuid_text C x))])"

definition response_to_ws_message :: "codec \<Rightarrow> ws_response \<Rightarrow> string option \<Rightarrow> ws_message" where
  "response_to_ws_message C rs rid =
     Ws_Text (response_text C \<lparr>pp_type = response_method rs, pp_request_id = rid,
       pp_payload = response_payload C rs,
       pp_error = (case rs of Rs_Error e \<Rightarrow> Some e | _ \<Rightarrow> None)\<rparr>)"

text \<open>A payload that does not parse is an unknown message, which is ignored.\<close>

definition ignore_unparsed :: "conversion_error + ws_response \<Rightarrow> ws_response option" where
  "ignore_unparsed r = (case r of Inr x \<Rightarrow> Some x | Inl e \<Rightarrow> None)"

definition response_from_ws_message ::
  "codec \<Rightarrow> ws_message \<Rightarrow> conversion_error + ws_response option \<times> string option" where
  "response_from_ws_message C m =
     rbind (parse_ws_response C m) (\<lambda>pp.
     let rid = pp_request_id pp; ty = pp_type pp; payload = pp_payload pp in
     case pp_error pp of
       Some e \<Rightarrow> Ok (Some (Rs_Error e), rid)
     | None \<Rightarrow>
         rbind (if ty = ''connected'' then rbind (parse_connected C payload) (\<lambda>r. Ok (Some r))
                else if ty = ''pong'' then Ok (Some Rs_Pong)
                else if ty = ''org'' then Ok (ignore_unparsed (parse_org C payload))
                else if ty = ''wallet'' then Ok (ignore_unparsed (parse_wallet C payload))
                else if ty = ''user'' then Ok (ignore_unparsed (parse_user C payload))
                else if ty = ''delete_user_org'' then Ok (ignore_unparsed (parse_delete_user_org C payload))
                else Ok None)
           (\<lambda>r. Ok (r, rid)))"

section \<open>What is sent is what is received\<close>

text \<open>
  The laws of the serialisation that the protocol relies on, for the parts of one message: what is
  read back is what was written, and an extended key is not written as null.
\<close>

definition uuid_ok :: "codec \<Rightarrow> bool" where
  "uuid_ok C \<longleftrightarrow> (\<forall>i. text_uuid C (uuid_text C i) = Ok i)"

definition request_text_ok :: "codec \<Rightarrow> protocol_request \<Rightarrow> bool" where
  "request_text_ok C q \<longleftrightarrow> text_request C (request_text C q) = Ok q"

definition response_text_ok :: "codec \<Rightarrow> protocol_response \<Rightarrow> bool" where
  "response_text_ok C p \<longleftrightarrow> text_response C (response_text C p) = Ok p"

fun request_values_ok :: "codec \<Rightarrow> ws_request \<Rightarrow> bool" where
  "request_values_ok C (Rq_Connect v) = (v < 256)"
| "request_values_ok C (Rq_EditWallet w) = (value_wallet C (wallet_value C w) = Ok w)"
| "request_values_ok C (Rq_EditXpub i k x) =
     (k < 256 \<and> (case x of None \<Rightarrow> True
        | Some x \<Rightarrow> value_xpub C (xpub_value C x) = Ok x \<and> xpub_value C x \<noteq> J_Null))"
| "request_values_ok C (Rq_DeviceRegistered i infos) = (value_infos C (infos_value C infos) = Ok infos)"
| "request_values_ok C _ = True"

fun response_values_ok :: "codec \<Rightarrow> ws_response \<Rightarrow> bool" where
  "response_values_ok C (Rs_Connected v u) = (v < 256)"
| "response_values_ok C (Rs_Org x) = (value_org C (org_value C x) = Ok x)"
| "response_values_ok C (Rs_Wallet x) = (value_wallet C (wallet_value C x) = Ok x)"
| "response_values_ok C (Rs_User x) = (value_user C (user_value C x) = Ok x)"
| "response_values_ok C _ = True"

lemmas payload_defs = connect_payload_def fetch_by_id_payload_def edit_wallet_payload_def
  edit_xpub_payload_def device_registered_payload_def missing_payload_def json_index_def

lemmas parse_request_defs = parse_connect_request_def parse_fetch_request_def
  parse_edit_wallet_request_def parse_edit_xpub_request_def parse_device_registered_request_def

lemmas parse_response_defs = parse_connected_def parse_org_def parse_wallet_def parse_user_def
  parse_delete_user_org_def ignore_unparsed_def

lemma request_roundtrip_lemma:
  assumes "uuid_ok C" "request_values_ok C rq"
    and "request_text_ok C \<lparr>pq_type = request_method rq, pq_token = token, pq_request_id = rid,
           pq_payload = request_payload C rq\<rparr>"
  shows "request_from_ws_message C (request_to_ws_message_with_id C rq token rid) = Ok (rq, token, rid)"
  using assms
  by (cases rq)
     (auto simp: uuid_ok_def request_text_ok_def request_from_ws_message_def request_to_ws_message_with_id_def
        create_ws_request_def payload_defs parse_request_defs split: option.splits)

lemma response_roundtrip_lemma:
  assumes "uuid_ok C" "response_values_ok C rs"
    and "response_text_ok C \<lparr>pp_type = response_method rs, pp_request_id = rid, pp_payload = response_payload C rs,
           pp_error = (case rs of Rs_Error e \<Rightarrow> Some e | _ \<Rightarrow> None)\<rparr>"
  shows "response_from_ws_message C (response_to_ws_message C rs rid) = Ok (Some rs, rid)"
  using assms
  by (cases rs)
     (auto simp: uuid_ok_def response_text_ok_def response_from_ws_message_def response_to_ws_message_def
        payload_defs parse_response_defs)

end
