(* ===== verification/Ws_Client.thy ===== *)
theory Ws_Client
  imports Ws_Protocol
begin

text \<open>
  The client of the business service (\<open>business-installer/src/client.rs\<close>): its caches of
  organisations, wallets and users, the requests it hands to the thread of the connection, the
  notifications it sends to the interface, and how that thread handles each message of the server.
  A channel is the list of what was sent on it; instants are counted in nanoseconds.
\<close>

section \<open>State\<close>

text \<open>Why a message could not be handled; the code carries the text of this.\<close>

datatype response_kind = Kind_Connected | Kind_Pong | Kind_Org | Kind_Wallet | Kind_User | Kind_None

datatype handling_error =
  Convert_Failed conversion_error | Server_Said string string | Kind_Mismatch uuid response_kind ws_response

datatype backend_error =
  BE_None | BE_SubscriptionFailed | BE_TokenMissing | BE_WsConnection
  | BE_WsMessageHandling handling_error | BE_Wss wss_error | BE_RequestTimeout

definition show_warning :: "backend_error \<Rightarrow> bool" where
  "show_warning e = (e \<noteq> BE_None)"

datatype notification =
  N_Connected | N_Disconnected | N_AuthCodeSent | N_InvalidEmail | N_AuthCodeFail | N_LoginSuccess
  | N_LoginFail | N_Org uuid | N_Wallet uuid | N_User uuid | N_Error backend_error | N_Update

datatype network = Net_Bitcoin | Net_Testnet | Net_Testnet4 | Net_Signet | Net_Regtest

record ws_client =
  cl_orgs :: "(uuid, org) btree"
  cl_wallets :: "(uuid, wallet) btree"
  cl_users :: "(uuid, ws_user) btree"
  cl_user_id :: "uuid option"
  cl_token :: "string option"
  cl_has_sender :: bool
  cl_connected :: bool
  cl_network :: "network option"
  cl_email :: "string option"
  cl_sent :: "(uuid, ws_request \<times> nat \<times> nat) btree"
  cl_last_ping :: "nat option"
  cl_outbox :: "ws_request list"
  cl_notifs :: "notification list"

definition NIL_UUID :: uuid where "NIL_UUID = 0"

definition dummy_user :: ws_user where
  "dummy_user = \<lparr>u_name = ''None'', u_uuid = NIL_UUID, u_email = ''contact@lianawallet.com'',
     u_role = WizardSardineAdmin, u_last_edited = None, u_last_editor = None\<rparr>"

definition client_new :: ws_client where
  "client_new = \<lparr>cl_orgs = [], cl_wallets = [], cl_users = bt_insert NIL_UUID dummy_user [], cl_user_id = None,
     cl_token = None, cl_has_sender = False, cl_connected = False, cl_network = None, cl_email = None,
     cl_sent = [], cl_last_ping = None, cl_outbox = [], cl_notifs = []\<rparr>"

definition send_notif :: "notification \<Rightarrow> ws_client \<Rightarrow> ws_client" where
  "send_notif n c = c\<lparr>cl_notifs := cl_notifs c @ [n]\<rparr>"

text \<open>\<open>request_sender.send\<close>, from the thread of the connection and from the interface.\<close>

definition send_request :: "ws_request \<Rightarrow> ws_client \<Rightarrow> ws_client" where
  "send_request rq c = c\<lparr>cl_outbox := cl_outbox c @ [rq]\<rparr>"

definition set_token :: "string \<Rightarrow> ws_client \<Rightarrow> ws_client" where
  "set_token t c = c\<lparr>cl_token := Some t\<rparr>"

section \<open>Responses and the requests they answer\<close>

fun expected_response :: "ws_request \<Rightarrow> response_kind" where
  "expected_response (Rq_Connect v) = Kind_Connected"
| "expected_response Rq_Ping = Kind_Pong"
| "expected_response Rq_Close = Kind_None"
| "expected_response (Rq_FetchOrg i) = Kind_Org"
| "expected_response (Rq_EditWallet w) = Kind_Wallet"
| "expected_response (Rq_FetchWallet i) = Kind_Wallet"
| "expected_response (Rq_EditXpub i k x) = Kind_Wallet"
| "expected_response (Rq_DeviceRegistered i infos) = Kind_Wallet"
| "expected_response (Rq_FetchUser i) = Kind_User"

fun matches_response :: "ws_response \<Rightarrow> response_kind \<Rightarrow> bool" where
  "matches_response (Rs_Connected v u) Kind_Connected = True"
| "matches_response Rs_Pong Kind_Pong = True"
| "matches_response (Rs_Org x) Kind_Org = True"
| "matches_response (Rs_Wallet x) Kind_Wallet = True"
| "matches_response (Rs_User x) Kind_User = True"
| "matches_response (Rs_Error e) _ = True"
| "matches_response _ _ = False"

section \<open>Handlers\<close>

definition fetch_user_maybe :: "uuid option \<Rightarrow> ws_client \<Rightarrow> ws_client" where
  "fetch_user_maybe u c =
     (case u of None \<Rightarrow> c
      | Some i \<Rightarrow>
          if i = NIL_UUID then c
          else if bt_contains (cl_users c) i then c
          else send_request (Rq_FetchUser i) c)"

definition handle_pong :: "ws_client \<Rightarrow> ws_client" where
  "handle_pong c = c\<lparr>cl_last_ping := None\<rparr>"

definition handle_org :: "org \<Rightarrow> ws_client \<Rightarrow> ws_client" where
  "handle_org x c =
     (let c = fetch_user_maybe (org_last_editor x) c;
          c = c\<lparr>cl_orgs := bt_insert (org_id x) x (cl_orgs c)\<rparr>;
          c = fold (\<lambda>i c. if bt_contains (cl_users c) i then c else send_request (Rq_FetchUser i) c) (org_users x) c;
          c = fold (\<lambda>i c. if bt_contains (cl_wallets c) i then c else send_request (Rq_FetchWallet i) c) (org_wallets x) c
      in send_notif (N_Org (org_id x)) c)"

text \<open>The users that edited a template last, in the order the code asks for them.\<close>

definition template_editors :: "policy_template \<Rightarrow> uuid option list" where
  "template_editors t =
     map (\<lambda>(_, k). key_last_editor k) (tpl_keys t)
     @ [sp_last_editor (tpl_primary t)]
     @ map (\<lambda>p. sp_last_editor (sec_path p)) (tpl_secondary t)"

definition handle_wallet :: "wallet \<Rightarrow> ws_client \<Rightarrow> ws_client" where
  "handle_wallet w c =
     (let c = fetch_user_maybe (w_last_editor w) c;
          c = (case w_template w of None \<Rightarrow> c | Some t \<Rightarrow> fold fetch_user_maybe (template_editors t) c);
          c = c\<lparr>cl_wallets := bt_insert (w_id w) w (cl_wallets c)\<rparr>;
          c = c\<lparr>cl_orgs := bt_modify (w_org w)
                 (\<lambda>x. x\<lparr>org_wallets := insort_insert (w_id w) (org_wallets x)\<rparr>) (cl_orgs c)\<rparr>;
          c = (if \<not> bt_contains (cl_users c) (w_owner w) \<and> w_owner w \<noteq> NIL_UUID
               then send_request (Rq_FetchUser (w_owner w)) c else c)
      in send_notif (N_Wallet (w_id w)) c)"

definition handle_user :: "ws_user \<Rightarrow> ws_client \<Rightarrow> ws_client" where
  "handle_user u c =
     (let c = fetch_user_maybe (u_last_editor u) c;
          c = c\<lparr>cl_users := bt_insert (u_uuid u) u (cl_users c)\<rparr>
      in send_notif (N_User (u_uuid u)) c)"

definition handle_delete_user_org :: "uuid option \<Rightarrow> uuid \<Rightarrow> uuid \<Rightarrow> ws_client \<Rightarrow> ws_client" where
  "handle_delete_user_org user target og c =
     (case user of None \<Rightarrow> c
      | Some u \<Rightarrow>
          if target \<noteq> u then c
          else send_notif N_Update (c\<lparr>cl_orgs := bt_remove og (cl_orgs c)\<rparr>))"

definition unknown_user :: "uuid \<Rightarrow> ws_user" where
  "unknown_user i = \<lparr>u_name = ''Unknown'', u_uuid = i, u_email = [], u_role = Participant,
     u_last_edited = None, u_last_editor = None\<rparr>"

definition handle_error :: "wss_error \<Rightarrow> uuid option \<Rightarrow> ws_client \<Rightarrow> (handling_error + unit) \<times> ws_client" where
  "handle_error e rid c =
     (let original = (case rid of None \<Rightarrow> None | Some i \<Rightarrow> map_of (cl_sent c) i);
          c = (case rid of None \<Rightarrow> c | Some i \<Rightarrow> c\<lparr>cl_sent := bt_remove i (cl_sent c)\<rparr>);
          failed = (Err (Server_Said (we_code e) (we_message e)), c)
      in if we_code e = ''UNAUTHORIZED'' then
           (case original of
              Some (Rq_FetchUser i, _) \<Rightarrow>
                (Ok (), send_notif (N_User i) (c\<lparr>cl_users := bt_insert i (unknown_user i) (cl_users c)\<rparr>))
            | _ \<Rightarrow> failed)
         else failed)"

definition handle_response :: "ws_response \<Rightarrow> ws_client \<Rightarrow> ws_client" where
  "handle_response rs c =
     (case rs of
        Rs_Error e \<Rightarrow> c
      | Rs_Connected v u \<Rightarrow> send_notif N_Connected c
      | Rs_Pong \<Rightarrow> handle_pong c
      | Rs_Org x \<Rightarrow> handle_org x c
      | Rs_Wallet w \<Rightarrow> handle_wallet w c
      | Rs_User u \<Rightarrow> handle_user u c
      | Rs_DeleteUserOrg u x \<Rightarrow> handle_delete_user_org (cl_user_id c) u x c)"

definition handle_wss_message :: "codec \<Rightarrow> ws_message \<Rightarrow> ws_client \<Rightarrow> (handling_error + unit) \<times> ws_client" where
  "handle_wss_message C m c =
     (case response_from_ws_message C m of
        Inl e \<Rightarrow> (Err (Convert_Failed e), c)
      | Inr (rs, rid) \<Rightarrow>
          (let rid = (case rid of None \<Rightarrow> None
                      | Some s \<Rightarrow> (case text_uuid C s of Inl _ \<Rightarrow> None | Inr i \<Rightarrow> Some i)) in
           case rs of
             None \<Rightarrow> (Ok (), case rid of None \<Rightarrow> c | Some i \<Rightarrow> c\<lparr>cl_sent := bt_remove i (cl_sent c)\<rparr>)
           | Some (Rs_Error e) \<Rightarrow> handle_error e rid c
           | Some rs \<Rightarrow>
               (case rid of
                  None \<Rightarrow> (Ok (), handle_response rs c)
                | Some i \<Rightarrow>
                    (case map_of (cl_sent c) i of
                       None \<Rightarrow> (Ok (), handle_response rs c)
                     | Some (rq, _) \<Rightarrow>
                         if \<not> matches_response rs (expected_response rq)
                         then (Err (Kind_Mismatch i (expected_response rq) rs), c)
                         else (Ok (), handle_response rs (c\<lparr>cl_sent := bt_remove i (cl_sent c)\<rparr>))))))"

section \<open>The thread of the connection\<close>

text \<open>
  The handshake: without a token, a connection, or a \<open>Connected\<close> as the first answer, the thread
  reports an error and ends. \<open>connect\<close> and \<open>sent\<close> are whether the connection opened and the first
  message went out; \<open>reply\<close> is the first message read, if any.
\<close>

definition wss_handshake ::
  "codec \<Rightarrow> string option \<Rightarrow> bool \<Rightarrow> bool \<Rightarrow> ws_message option \<Rightarrow> ws_client \<Rightarrow> bool \<times> ws_client" where
  "wss_handshake C token connect sent reply c =
     (let failed = (False, send_notif (N_Error BE_WsConnection) c) in
      case token of
        None \<Rightarrow> (False, send_notif (N_Error BE_TokenMissing) c)
      | Some t \<Rightarrow>
          if \<not> connect \<or> \<not> sent then failed
          else case reply of
                 None \<Rightarrow> failed
               | Some m \<Rightarrow>
                   (case response_from_ws_message C m of
                      Inr (Some (Rs_Connected v u), _) \<Rightarrow>
                        (True, send_request (Rq_FetchUser u)
                                (send_notif N_Connected (c\<lparr>cl_user_id := Some u, cl_connected := True\<rparr>)))
                    | _ \<Rightarrow> failed))"

text \<open>
  One request taken from the channel: \<open>Close\<close> ends the loop; any other is recorded and sent, under
  the fresh identifier, and forgotten again when the sending fails. The first component tells
  whether the loop goes on, the second what was written to the socket.
\<close>

definition wss_send ::
  "codec \<Rightarrow> string \<Rightarrow> uuid \<Rightarrow> nat \<Rightarrow> bool \<Rightarrow> ws_request \<Rightarrow> ws_client \<Rightarrow> bool \<times> ws_message option \<times> ws_client" where
  "wss_send C token fresh now sent rq c =
     (if rq = Rq_Close then (False, None, c\<lparr>cl_connected := False\<rparr>)
      else
        let (m, i) = request_to_ws_message C fresh rq token;
            c = c\<lparr>cl_sent := bt_insert i (rq, now, 0) (cl_sent c)\<rparr>
        in if sent then (True, Some m, c)
           else (False, None, send_notif (N_Error BE_WsConnection) (c\<lparr>cl_sent := bt_remove i (cl_sent c)\<rparr>)))"

text \<open>One read of the socket: a text, the end of the stream, an error, or anything else.\<close>

datatype ws_read = Read_Text string | Read_Close | Read_WouldBlock | Read_Error | Read_Other

definition wss_receive :: "codec \<Rightarrow> ws_read \<Rightarrow> ws_client \<Rightarrow> bool \<times> ws_client" where
  "wss_receive C r c =
     (case r of
        Read_Text t \<Rightarrow>
          (case handle_wss_message C (Ws_Text t) c of
             (Inl e, c) \<Rightarrow> (True, send_notif (N_Error (BE_WsMessageHandling e)) c)
           | (Inr _, c) \<Rightarrow> (True, c))
      | Read_Close \<Rightarrow> (False, send_notif N_Disconnected c)
      | Read_WouldBlock \<Rightarrow> (True, c)
      | Read_Error \<Rightarrow> (False, send_notif N_Disconnected c)
      | Read_Other \<Rightarrow> (True, c))"

definition SECOND :: nat where "SECOND = 1000000000"

definition ping_tick :: "nat \<Rightarrow> ws_client \<Rightarrow> ws_client" where
  "ping_tick now c = (send_request Rq_Ping c)\<lparr>cl_last_ping := Some now\<rparr>"

definition ping_timeout_tick :: "nat \<Rightarrow> ws_client \<Rightarrow> ws_client" where
  "ping_timeout_tick now c =
     (let should_disconnect = (case cl_last_ping c of Some t \<Rightarrow> now - t > 30 * SECOND | None \<Rightarrow> False) in
      if should_disconnect then send_notif N_Disconnected (c\<lparr>cl_connected := False\<rparr>) else c)"

text \<open>
  The checker of timed out requests: a request unanswered for thirty seconds is sent again, up to
  three times, then dropped with an error. \<open>get_mut\<close> renews the time of the old entry and counts.
\<close>

definition retry_request :: "nat \<Rightarrow> uuid \<times> ws_request \<times> nat \<Rightarrow> ws_client \<Rightarrow> ws_client" where
  "retry_request now e c =
     (case e of (i, rq, tries) \<Rightarrow>
        if 3 \<le> tries
        then send_notif (N_Error BE_RequestTimeout) (c\<lparr>cl_sent := bt_remove i (cl_sent c)\<rparr>)
        else send_request rq (c\<lparr>cl_sent := bt_modify i (\<lambda>(q, t, n). (q, now, n + 1)) (cl_sent c)\<rparr>))"

definition request_timeout_tick :: "nat \<Rightarrow> ws_client \<Rightarrow> ws_client" where
  "request_timeout_tick now c =
     (let stale = map (\<lambda>(i, rq, t, n). (i, rq, n)) (filter (\<lambda>(i, rq, t, n). now - t > 30 * SECOND) (cl_sent c))
      in fold (retry_request now) stale c)"

section \<open>The operations the interface calls\<close>

definition get_org :: "ws_client \<Rightarrow> uuid \<Rightarrow> org option" where
  "get_org c i =
     (case map_of (cl_orgs c) i of None \<Rightarrow> None
      | Some x \<Rightarrow> Some (x\<lparr>org_wallets := filter (\<lambda>w. bt_contains (cl_wallets c) w) (org_wallets x),
                         org_last_edited := None, org_last_editor := None\<rparr>))"

definition get_user :: "ws_client \<Rightarrow> uuid \<Rightarrow> ws_user option" where
  "get_user c i = map_of (cl_users c) i"

definition get_wallet :: "ws_client \<Rightarrow> uuid \<Rightarrow> wallet option" where
  "get_wallet c i = map_of (cl_wallets c) i"

definition client_close :: "ws_client \<Rightarrow> ws_client" where
  "client_close c =
     (if \<not> cl_connected c then c
      else (if cl_has_sender c then send_request Rq_Close c else c)\<lparr>cl_connected := False, cl_has_sender := False\<rparr>)"

text \<open>\<open>connect_ws\<close> opens a new channel and starts the thread, which is not connected yet.\<close>

definition connect_ws :: "ws_client \<Rightarrow> ws_client" where
  "connect_ws c =
     (let c = (if cl_connected c then client_close c else c) in
      c\<lparr>cl_has_sender := True, cl_outbox := [], cl_connected := False\<rparr>)"

definition when_connected :: "ws_request \<Rightarrow> ws_client \<Rightarrow> ws_client" where
  "when_connected rq c =
     (if \<not> cl_connected c then send_notif N_Disconnected c
      else if cl_has_sender c then send_request rq c else c)"

definition edit_wallet :: "wallet \<Rightarrow> ws_client \<Rightarrow> ws_client" where
  "edit_wallet w c = when_connected (Rq_EditWallet w) c"

definition edit_xpub :: "uuid \<Rightarrow> xpub_data option \<Rightarrow> nat \<Rightarrow> ws_client \<Rightarrow> ws_client" where
  "edit_xpub i x k c = when_connected (Rq_EditXpub i k x) c"

definition device_registered :: "uuid \<Rightarrow> registration_infos \<Rightarrow> ws_client \<Rightarrow> ws_client" where
  "device_registered i infos c = when_connected (Rq_DeviceRegistered i infos) c"

definition fetch_user :: "uuid \<Rightarrow> ws_client \<Rightarrow> ws_client" where
  "fetch_user i c = when_connected (Rq_FetchUser i) c"

definition client_logout :: "ws_client \<Rightarrow> ws_client" where
  "client_logout c =
     (client_close (c\<lparr>cl_token := None\<rparr>))\<lparr>cl_orgs := [], cl_wallets := [], cl_users := [], cl_email := None\<rparr>"

end
