(* ===== verification/Installer_State.thy ===== *)
theory Installer_State
  imports Ws_Client
begin

text \<open>
  The state of the business installer (\<open>business-installer/src/state/\<close>: \<open>app.rs\<close>, \<open>mod.rs\<close> and
  \<open>views/\<close>): the copy of the template that the server owns, the views and their modals with the
  small updates they make of themselves, and the record \<open>installer\<close> that the handlers pass on. What the
  code calls of other crates is the record \<open>ui_ops\<close>; the calls to the operating system, to the
  devices and to the authentication service are logged in the order they are made.
\<close>

section \<open>The parameters\<close>

record ui_ops =
  tr :: "string \<Rightarrow> (string \<times> string) list \<Rightarrow> string"
  email_ok :: "string \<Rightarrow> bool"
  bip39_word :: "string \<Rightarrow> bool"
  xpub_of_text :: "string \<Rightarrow> string + desc_pk"
  xpub_text :: "desc_pk \<Rightarrow> string"
  network_kind :: "network \<Rightarrow> nat"
  network_text :: "network \<Rightarrow> string"
  fingerprint_text :: "fingerprint \<Rightarrow> string"

section \<open>The template the server owns\<close>

record app_state =
  as_keys :: "(nat, ws_key) btree"
  as_primary :: spending_path
  as_secondary :: "secondary_path list"
  as_keys_ready :: bool
  as_next_key_id :: nat
  as_selected_org :: "uuid option"
  as_selected_wallet :: "uuid option"
  as_wallet_template :: "policy_template option"
  as_role :: "user_role option"
  as_global_role :: "user_role option"
  as_reconnecting :: bool
  as_exit :: bool
  as_time_offset :: int
  as_escapes :: nat

definition app_template :: "app_state \<Rightarrow> policy_template" where
  "app_template a = \<lparr>tpl_keys = as_keys a, tpl_primary = as_primary a, tpl_secondary = as_secondary a,
     tpl_keys_ready = as_keys_ready a\<rparr>"

text \<open>\<open>keys().max()\<close> is the last key of the ordered map; the addition wraps at 256.\<close>

definition next_key_id_of :: "(nat, ws_key) btree \<Rightarrow> nat" where
  "next_key_id_of m = (if m = [] then 0 else (fst (last m) + 1) mod 256)"

definition apply_server_template :: "policy_template \<Rightarrow> app_state \<Rightarrow> app_state" where
  "apply_server_template t a = a\<lparr>as_next_key_id := next_key_id_of (tpl_keys t), as_keys := tpl_keys t,
     as_primary := tpl_primary t, as_secondary := tpl_secondary t, as_keys_ready := tpl_keys_ready t\<rparr>"

definition app_new :: app_state where
  "app_new = \<lparr>as_keys = [], as_primary = spending_path_new True 0 [], as_secondary = [], as_keys_ready = False,
     as_next_key_id = 0, as_selected_org = None, as_selected_wallet = None, as_wallet_template = None,
     as_role = None, as_global_role = None, as_reconnecting = False, as_exit = False, as_time_offset = 0,
     as_escapes = 0\<rparr>"

text \<open>The age of a timestamp of the server: the unit of the message and its count.\<close>

datatype age = Just_Now | Minutes_Ago nat | Hours_Ago nat | Days_Ago nat | Weeks_Ago nat | Months_Ago nat

definition now_adjusted :: "nat \<Rightarrow> app_state \<Rightarrow> nat" where
  "now_adjusted client_ts a = nat ((int client_ts + as_time_offset a) mod 2 ^ 64)"

definition relative_age :: "nat \<Rightarrow> app_state \<Rightarrow> nat \<Rightarrow> age" where
  "relative_age client_ts a ts =
     (let now = now_adjusted client_ts a in
      if now < ts then Just_Now
      else let d = now - ts in
        if d < 60 then Just_Now
        else if d < 60 * 60 then Minutes_Ago (d div 60)
        else if d < 24 * (60 * 60) then Hours_Ago (d div (60 * 60))
        else if d < 7 * (24 * (60 * 60)) then Days_Ago (d div (24 * (60 * 60)))
        else if d < 30 * (24 * (60 * 60)) then Weeks_Ago (d div (7 * (24 * (60 * 60))))
        else Months_Ago (d div (30 * (24 * (60 * 60)))))"

section \<open>The modal of a spending path\<close>

definition MAX_TIMELOCK_BLOCKS :: nat where "MAX_TIMELOCK_BLOCKS = 65535"

datatype timelock_unit = Unit_Blocks | Unit_Hours | Unit_Days | Unit_Months

fun blocks_per_unit :: "timelock_unit \<Rightarrow> nat" where
  "blocks_per_unit Unit_Blocks = 1"
| "blocks_per_unit Unit_Hours = BLOCKS_PER_HOUR"
| "blocks_per_unit Unit_Days = BLOCKS_PER_DAY"
| "blocks_per_unit Unit_Months = BLOCKS_PER_MONTH"

definition from_blocks :: "timelock_unit \<Rightarrow> nat \<Rightarrow> nat" where
  "from_blocks u b = b div blocks_per_unit u"

text \<open>The product of two \<open>u64\<close> wraps, as in a release build.\<close>

definition to_blocks :: "timelock_unit \<Rightarrow> nat \<Rightarrow> nat" where
  "to_blocks u v = wrap64 (v * blocks_per_unit u)"

definition to_blocks_capped :: "timelock_unit \<Rightarrow> nat \<Rightarrow> nat" where
  "to_blocks_capped u v = min (to_blocks u v) MAX_TIMELOCK_BLOCKS"

fun max_value :: "timelock_unit \<Rightarrow> nat" where
  "max_value Unit_Months = 15"
| "max_value u = MAX_TIMELOCK_BLOCKS div blocks_per_unit u"

record path_modal =
  pm_is_primary :: bool
  pm_path_index :: "nat option"
  pm_selected :: "nat list"
  pm_threshold :: string
  pm_timelock :: "string option"
  pm_unit :: timelock_unit

definition update_threshold :: "string \<Rightarrow> path_modal \<Rightarrow> path_modal" where
  "update_threshold v m = m\<lparr>pm_threshold := filter is_ascii_digit v\<rparr>"

definition update_timelock :: "string \<Rightarrow> path_modal \<Rightarrow> path_modal" where
  "update_timelock v m = m\<lparr>pm_timelock := Some (filter is_ascii_digit v)\<rparr>"

definition toggle_key :: "nat \<Rightarrow> path_modal \<Rightarrow> path_modal" where
  "toggle_key k m =
     (let old = length (pm_selected m);
          was_enabled = 1 < old;
          was_at_max = (parse_u64 (pm_threshold m) = Some old);
          is_adding = (k \<notin> set (pm_selected m));
          sel = (if is_adding then pm_selected m @ [k] else remove1 k (pm_selected m));
          new = length sel;
          is_enabled = 1 < new;
          m = m\<lparr>pm_selected := sel\<rparr>
      in if \<not> is_enabled then m\<lparr>pm_threshold := []\<rparr>
         else if \<not> was_enabled then m\<lparr>pm_threshold := show_nat new\<rparr>
         else if is_adding \<and> was_at_max then m\<lparr>pm_threshold := show_nat new\<rparr>
         else m)"

section \<open>The modal of a key\<close>

record signer_option =
  so_name :: string
  so_email :: string
  so_already_used :: bool

datatype token_warning = Token_Duplicate | Token_Invalid

record key_modal =
  km_key_id :: nat
  km_alias :: string
  km_description :: string
  km_key_type :: key_type
  km_is_new :: bool
  km_email :: string
  km_original_email :: string
  km_token :: string
  km_provider :: "provider option"
  km_token_warning :: "token_warning option"
  km_signers :: "signer_option list"

definition key_modal_new ::
  "nat \<Rightarrow> string \<Rightarrow> string \<Rightarrow> key_type \<Rightarrow> bool \<Rightarrow> string \<Rightarrow> string \<Rightarrow> provider option \<Rightarrow> signer_option list \<Rightarrow> key_modal" where
  "key_modal_new i alias descr ty is_new email token pr signers =
     \<lparr>km_key_id = i, km_alias = alias, km_description = descr, km_key_type = ty, km_is_new = is_new,
      km_email = email, km_original_email = email, km_token = token, km_provider = pr,
      km_token_warning = None, km_signers = signers\<rparr>"

definition filtered_signers :: "key_modal \<Rightarrow> signer_option list" where
  "filtered_signers m =
     (let q = to_lowercase (trim (km_email m)) in
      if q = [] \<or> q = to_lowercase (trim (km_original_email m)) then km_signers m
      else filter (\<lambda>x. str_contains (to_lowercase (so_name x)) q \<or> str_contains (to_lowercase (so_email x)) q)
             (km_signers m))"

definition fallback_signer :: "ui_ops \<Rightarrow> key_modal \<Rightarrow> string option" where
  "fallback_signer U m =
     (let email = trim (km_email m) in
      if email = [] \<or> \<not> email_ok U email then None
      else if \<not> list_ex (\<lambda>x. eq_ignore_ascii_case (so_email x) email) (km_signers m) then Some email
      else None)"

text \<open>\<open>Token::from_str\<close>: a \<open>u16\<close> and three words of the English list, joined by hyphens.\<close>

fun split_on :: "char \<Rightarrow> string \<Rightarrow> string list" where
  "split_on c [] = [[]]"
| "split_on c (x # s) =
     (if x = c then [] # split_on c s
      else (case split_on c s of [] \<Rightarrow> [[x]] | p # ps \<Rightarrow> (x # p) # ps))"

definition token_of_text :: "ui_ops \<Rightarrow> string \<Rightarrow> (nat \<times> string list) option" where
  "token_of_text U s =
     (case split_on CHR ''-'' s of
        [n, w1, w2, w3] \<Rightarrow>
          (case parse_unsigned 65535 n of None \<Rightarrow> None
           | Some i \<Rightarrow> if bip39_word U w1 \<and> bip39_word U w2 \<and> bip39_word U w3
                       then Some (i, [w1, w2, w3]) else None)
      | _ \<Rightarrow> None)"

definition update_token :: "ui_ops \<Rightarrow> string \<Rightarrow> (nat, ws_key) btree \<Rightarrow> key_modal \<Rightarrow> key_modal" where
  "update_token U v ks m =
     (let v = trim v;
          m = m\<lparr>km_token := v, km_provider := None\<rparr>
      in if trim v = [] then m\<lparr>km_token_warning := None\<rparr>
         else if token_of_text U v = None then m\<lparr>km_token_warning := Some Token_Invalid\<rparr>
         else if list_ex (\<lambda>(i, k). i \<noteq> km_key_id m
                  \<and> (case key_identity k of Id_TokenWithProvider t _ \<Rightarrow> t = v | _ \<Rightarrow> False)) ks
         then m\<lparr>km_token_warning := Some Token_Duplicate\<rparr>
         else m\<lparr>km_token_warning := None\<rparr>)"

definition uses_token :: "key_type \<Rightarrow> bool" where
  "uses_token ty = (ty \<in> {Cosigner, SafetyNet})"

definition can_save_key :: "ui_ops \<Rightarrow> key_modal option \<Rightarrow> bool" where
  "can_save_key U mo =
     (case mo of None \<Rightarrow> False
      | Some m \<Rightarrow>
          if trim (km_alias m) = [] then False
          else if uses_token (km_key_type m)
          then token_of_text U (km_token m) \<noteq> None \<and> km_token_warning m = None
          else email_ok U (km_email m))"

section \<open>The modal of an extended key\<close>

datatype modal_step = Step_Select | Step_Details

datatype input_source = Input_Device string string "string option" | Input_File string | Input_Pasted

record xpub_modal =
  xm_key_id :: nat
  xm_alias :: string
  xm_current :: "desc_pk option"
  xm_input :: string
  xm_processing :: bool
  xm_device :: "fingerprint option"
  xm_account :: child_number
  xm_options_collapsed :: bool
  xm_paste_expanded :: bool
  xm_step :: modal_step
  xm_fetch_error :: "string option"
  xm_network :: network
  xm_source :: "input_source option"
  xm_active_request :: "nat option"
  xm_next_request :: nat

definition xpub_modal_new :: "ui_ops \<Rightarrow> nat \<Rightarrow> string \<Rightarrow> desc_pk option \<Rightarrow> network \<Rightarrow> xpub_modal" where
  "xpub_modal_new U i alias cur net =
     \<lparr>xm_key_id = i, xm_alias = alias, xm_current = cur,
      xm_input = (case cur of None \<Rightarrow> [] | Some k \<Rightarrow> xpub_text U k), xm_processing = False, xm_device = None,
      xm_account = HARDENED_START, xm_options_collapsed = True, xm_paste_expanded = False,
      xm_step = Step_Select, xm_fetch_error = None, xm_network = net, xm_source = None,
      xm_active_request = None, xm_next_request = 0\<rparr>"

definition select_device :: "fingerprint \<Rightarrow> xpub_modal \<Rightarrow> xpub_modal" where
  "select_device fg m = m\<lparr>xm_device := Some fg, xm_fetch_error := None, xm_source := None,
     xm_step := Step_Details, xm_processing := True\<rparr>"

definition go_back :: "xpub_modal \<Rightarrow> xpub_modal" where
  "go_back m = m\<lparr>xm_step := Step_Select, xm_device := None, xm_fetch_error := None,
     xm_processing := False, xm_active_request := None\<rparr>"

definition update_account :: "child_number \<Rightarrow> xpub_modal \<Rightarrow> xpub_modal" where
  "update_account acc m = m\<lparr>xm_account := acc, xm_source := None, xm_active_request := None\<rparr>"

definition start_fetch :: "xpub_modal \<Rightarrow> nat \<times> xpub_modal" where
  "start_fetch m = (xm_next_request m, m\<lparr>xm_processing := True, xm_fetch_error := None,
     xm_next_request := wrap64 (xm_next_request m + 1), xm_active_request := Some (xm_next_request m)\<rparr>)"

definition matches_fetch_request :: "xpub_modal \<Rightarrow> nat \<Rightarrow> fingerprint \<Rightarrow> deriv_path \<Rightarrow> bool" where
  "matches_fetch_request m rid fg path =
     (xm_step m = Step_Details \<and> xm_device m = Some fg
      \<and> (if 2 < length path then Some (path ! 2) else None) = Some (xm_account m)
      \<and> xm_active_request m = Some rid)"

definition matches_fetch_error_request :: "xpub_modal \<Rightarrow> nat \<Rightarrow> bool" where
  "matches_fetch_error_request m rid = (xm_step m = Step_Details \<and> xm_active_request m = Some rid)"

definition set_processing :: "bool \<Rightarrow> xpub_modal \<Rightarrow> xpub_modal" where
  "set_processing p m =
     (let m = m\<lparr>xm_processing := p\<rparr> in if \<not> p then m\<lparr>xm_active_request := None\<rparr> else m)"

definition set_fetch_error :: "string \<Rightarrow> xpub_modal \<Rightarrow> xpub_modal" where
  "set_fetch_error e m = m\<lparr>xm_fetch_error := Some e, xm_processing := False, xm_active_request := None\<rparr>"

definition validate_xpub_format :: "ui_ops \<Rightarrow> string \<Rightarrow> string + desc_pk" where
  "validate_xpub_format U s =
     (if trim s = [] then Err (tr U ''business-xpub-empty'' [])
      else map_err (\<lambda>e. tr U ''business-xpub-invalid-format'' [(''error'', e)]) (xpub_of_text U (trim s)))"

fun check_key_network :: "ui_ops \<Rightarrow> desc_pk \<Rightarrow> network \<Rightarrow> bool" where
  "check_key_network U (XPub x) net =
     (xp_network (x_xkey x) = network_kind U (if net = Net_Bitcoin then Net_Bitcoin else Net_Testnet))"
| "check_key_network U (MultiXPub x) net =
     (xp_network (mx_xkey x) = network_kind U (if net = Net_Bitcoin then Net_Bitcoin else Net_Testnet))"
| "check_key_network U (Single_Pub _ _) net = True"

definition validate_xpub :: "ui_ops \<Rightarrow> string \<Rightarrow> network \<Rightarrow> string + desc_pk" where
  "validate_xpub U s net =
     rbind (validate_xpub_format U s) (\<lambda>k.
     if \<not> check_key_network U k net
     then Err (tr U ''business-xpub-invalid-network'' [(''network'', network_text U net)]) else Ok k)"

definition modal_has_changes :: "ui_ops \<Rightarrow> xpub_modal \<Rightarrow> bool" where
  "modal_has_changes U m =
     (case xm_current m of
        Some cur \<Rightarrow> (case validate_xpub_format U (xm_input m) of Inr k \<Rightarrow> k \<noteq> cur | Inl _ \<Rightarrow> xm_input m \<noteq> [])
      | None \<Rightarrow> xm_input m \<noteq> [])"

section \<open>The registration of devices\<close>

datatype registration_step = Registering | ConfirmColdcard "nat list option" string | Step_Error

record registration_modal =
  rm_fingerprint :: fingerprint
  rm_device_kind :: "string option"
  rm_step :: registration_step
  rm_error :: "string option"

record registration_view =
  rv_descriptor :: "string option"
  rv_user_devices :: "fingerprint list"
  rv_completed :: "fingerprint list"
  rv_modal :: "registration_modal option"

definition load_wallet :: "string option \<Rightarrow> fingerprint list \<Rightarrow> registration_view \<Rightarrow> registration_view" where
  "load_wallet d ds r = r\<lparr>rv_descriptor := d, rv_user_devices := ds, rv_completed := [], rv_modal := None\<rparr>"

definition sync_wallet :: "string option \<Rightarrow> fingerprint list \<Rightarrow> registration_view \<Rightarrow> registration_view" where
  "sync_wallet d ds r =
     (let completed = fold (\<lambda>fg cs. if fg \<notin> set ds \<and> fg \<notin> set cs then cs @ [fg] else cs)
                        (rv_user_devices r) (rv_completed r)
      in r\<lparr>rv_descriptor := d, rv_user_devices := ds, rv_completed := filter (\<lambda>fg. fg \<notin> set ds) completed\<rparr>)"

definition is_registered :: "registration_view \<Rightarrow> fingerprint \<Rightarrow> bool" where
  "is_registered r fg = (fg \<in> set (rv_completed r))"

definition visible_devices :: "registration_view \<Rightarrow> fingerprint list" where
  "visible_devices r = fold (\<lambda>fg ds. if fg \<notin> set ds then ds @ [fg] else ds) (rv_completed r) (rv_user_devices r)"

definition has_visible_devices :: "registration_view \<Rightarrow> bool" where
  "has_visible_devices r = (rv_user_devices r \<noteq> [] \<or> rv_completed r \<noteq> [])"

definition set_modal_error :: "string \<Rightarrow> registration_view \<Rightarrow> registration_view" where
  "set_modal_error e r =
     r\<lparr>rv_modal := map_option (\<lambda>m. m\<lparr>rm_step := Step_Error, rm_error := Some e\<rparr>) (rv_modal r)\<rparr>"

definition open_registration :: "fingerprint \<Rightarrow> string option \<Rightarrow> registration_view \<Rightarrow> registration_view" where
  "open_registration fg kind r =
     r\<lparr>rv_modal := Some \<lparr>rm_fingerprint = fg, rm_device_kind = kind, rm_step = Registering, rm_error = None\<rparr>\<rparr>"

section \<open>Login\<close>

datatype login_step = AccountSelect | EmailEntry | CodeEntry | Authenticated

record form_value =
  fv_value :: string
  fv_warning :: "string option"
  fv_valid :: bool

definition empty_form :: form_value where
  "empty_form = \<lparr>fv_value = [], fv_warning = None, fv_valid = True\<rparr>"

text \<open>An account is its email and its access token.\<close>

record login =
  lg_current :: login_step
  lg_email :: form_value
  lg_email_processing :: bool
  lg_code :: form_value
  lg_code_processing :: bool
  lg_accounts :: "(string \<times> string) list"
  lg_account_processing :: bool
  lg_selected_email :: "string option"

definition with_cached_accounts :: "(string \<times> string) list \<Rightarrow> login" where
  "with_cached_accounts accs = \<lparr>lg_current = (if accs = [] then EmailEntry else AccountSelect),
     lg_email = empty_form, lg_email_processing = False, lg_code = empty_form, lg_code_processing = False,
     lg_accounts = accs, lg_account_processing = False, lg_selected_email = None\<rparr>"

definition update_email :: "ui_ops \<Rightarrow> string \<Rightarrow> login \<Rightarrow> login" where
  "update_email U e l =
     (let valid = (e = [] \<or> email_ok U e) in
      l\<lparr>lg_email := \<lparr>fv_value = e,
          fv_warning = (if \<not> valid then Some (tr U ''settings-email-invalid'' []) else None), fv_valid = valid\<rparr>\<rparr>)"

text \<open>The length of a code is in bytes, two for a character from U+0080.\<close>

definition utf8_length :: "string \<Rightarrow> nat" where
  "utf8_length s = sum_list (map (\<lambda>c. if (of_char c :: nat) < 128 then 1 else 2) s)"

definition update_code :: "ui_ops \<Rightarrow> string \<Rightarrow> login \<Rightarrow> login" where
  "update_code U c l =
     (let invalid = (6 < utf8_length c \<or> \<not> list_all is_ascii_digit c) in
      l\<lparr>lg_code := \<lparr>fv_value = c,
          fv_warning = (if invalid then Some (tr U ''business-code-six-digits'' []) else None),
          fv_valid = \<not> invalid\<rparr>\<rparr>)"

definition code_can_send :: "login \<Rightarrow> bool" where
  "code_can_send l = (fv_valid (lg_code l) \<and> \<not> lg_code_processing l \<and> length (fv_value (lg_code l)) = 6)"

section \<open>Conflicts\<close>

datatype conflict_type =
  Key_Modified nat uuid | Key_Deleted | Path_Modified bool "nat option" uuid | Path_Deleted | Key_In_Path_Deleted

record conflict =
  cf_type :: conflict_type
  cf_title :: string
  cf_message :: string

fun is_choice :: "conflict_type \<Rightarrow> bool" where
  "is_choice (Key_Modified k w) = True"
| "is_choice (Path_Modified p i w) = True"
| "is_choice _ = False"

section \<open>The state\<close>

record views =
  vw_warning :: "(string \<times> string) option"
  vw_help :: "string option"
  vw_conflict :: "conflict option"
  vw_key :: "key_modal option"
  vw_path :: "path_modal option"
  vw_xpub :: "xpub_modal option"
  vw_registration :: registration_view
  vw_login :: login
  vw_org_filter :: string
  vw_wallet_filter :: string

datatype view = View_Login | View_OrgSelect | View_WalletSelect | View_TemplateEdit | View_Xpub
  | View_Keys | View_Registration | View_Loading

text \<open>What the service of the devices lists: the kind is the text of \<open>async_hwi::DeviceKind\<close>.\<close>

datatype device_state = Supported | Locked_Device | Unsupported

record signing_device =
  sd_state :: device_state
  sd_fingerprint :: "fingerprint option"
  sd_kind :: string
  sd_version :: "string option"

datatype call =
  Call_HwStart | Call_HwStop | Call_GetXpub fingerprint nat deriv_path | Call_RegisterWallet fingerprint string string
  | Call_AuthRequest string | Call_AuthCode string | Call_StartRefresh | Call_ClearTokens "string list"
  | Call_ConnectWs network | Call_SetNetwork network | Call_OpenMail string string

record installer =
  st_app :: app_state
  st_views :: views
  st_backend :: ws_client
  st_view :: view
  st_hw :: "signing_device list"
  st_hw_running :: bool
  st_network :: network
  st_connection_error :: "string option"
  st_pending_fetches :: "uuid list"
  st_calls :: "call list"

abbreviation upd_app :: "(app_state \<Rightarrow> app_state) \<Rightarrow> installer \<Rightarrow> installer" where
  "upd_app f s \<equiv> s\<lparr>st_app := f (st_app s)\<rparr>"

abbreviation upd_views :: "(views \<Rightarrow> views) \<Rightarrow> installer \<Rightarrow> installer" where
  "upd_views f s \<equiv> s\<lparr>st_views := f (st_views s)\<rparr>"

abbreviation upd_backend :: "(ws_client \<Rightarrow> ws_client) \<Rightarrow> installer \<Rightarrow> installer" where
  "upd_backend f s \<equiv> s\<lparr>st_backend := f (st_backend s)\<rparr>"

abbreviation log_call :: "call \<Rightarrow> installer \<Rightarrow> installer" where
  "log_call c s \<equiv> s\<lparr>st_calls := st_calls s @ [c]\<rparr>"

text \<open>\<open>if let Some(modal) = &mut \<dots>\<close> for each modal.\<close>

definition on_key_modal :: "(key_modal \<Rightarrow> key_modal) \<Rightarrow> installer \<Rightarrow> installer" where
  "on_key_modal f s = upd_views (\<lambda>v. v\<lparr>vw_key := map_option f (vw_key v)\<rparr>) s"

definition on_path_modal :: "(path_modal \<Rightarrow> path_modal) \<Rightarrow> installer \<Rightarrow> installer" where
  "on_path_modal f s = upd_views (\<lambda>v. v\<lparr>vw_path := map_option f (vw_path v)\<rparr>) s"

definition on_xpub_modal :: "(xpub_modal \<Rightarrow> xpub_modal) \<Rightarrow> installer \<Rightarrow> installer" where
  "on_xpub_modal f s = upd_views (\<lambda>v. v\<lparr>vw_xpub := map_option f (vw_xpub v)\<rparr>) s"

definition on_registration :: "(registration_view \<Rightarrow> registration_view) \<Rightarrow> installer \<Rightarrow> installer" where
  "on_registration f s = upd_views (\<lambda>v. v\<lparr>vw_registration := f (vw_registration v)\<rparr>) s"

definition on_login :: "(login \<Rightarrow> login) \<Rightarrow> installer \<Rightarrow> installer" where
  "on_login f s = upd_views (\<lambda>v. v\<lparr>vw_login := f (vw_login v)\<rparr>) s"

definition show_warning_modal :: "string \<Rightarrow> string \<Rightarrow> installer \<Rightarrow> installer" where
  "show_warning_modal title message s = upd_views (\<lambda>v. v\<lparr>vw_warning := Some (title, message)\<rparr>) s"

definition start_hw :: "installer \<Rightarrow> installer" where
  "start_hw s = (if \<not> st_hw_running s then (log_call Call_HwStart s)\<lparr>st_hw_running := True\<rparr> else s)"

definition stop_hw :: "installer \<Rightarrow> installer" where
  "stop_hw s = (if st_hw_running s then (log_call Call_HwStop s)\<lparr>st_hw_running := False\<rparr> else s)"

definition selected_wallet :: "installer \<Rightarrow> wallet option" where
  "selected_wallet s = (case as_selected_wallet (st_app s) of None \<Rightarrow> None | Some i \<Rightarrow> get_wallet (st_backend s) i)"

definition is_template_valid :: "installer \<Rightarrow> bool" where
  "is_template_valid s = template_valid (app_template (st_app s))"

definition login_email :: "installer \<Rightarrow> string" where
  "login_email s = fv_value (lg_email (vw_login (st_views s)))"

end
