(* ===== verification/Template_Editing.thy ===== *)
theory Template_Editing
  imports Installer_State
begin

text \<open>
  The handlers of the business installer that edit the keys and the spending paths of a wallet
  (\<open>state/update.rs\<close>, \<open>state/mod.rs\<close>, \<open>state/views/keys\<close> and \<open>paths\<close>). The server owns the template:
  a handler builds the edited wallet from the copy in \<open>app\<close> and sends it; the copy changes only when
  the server answers (theory \<open>Wallet_Updates\<close>).
\<close>

section \<open>The signers offered for a key\<close>

fun dedup_by :: "('a \<Rightarrow> 'a \<Rightarrow> bool) \<Rightarrow> 'a list \<Rightarrow> 'a list" where
  "dedup_by same [] = []"
| "dedup_by same [x] = [x]"
| "dedup_by same (x # y # r) = (if same y x then dedup_by same (x # r) else x # dedup_by same (y # r))"

fun identity_email :: "key_identity \<Rightarrow> string option" where
  "identity_email (Id_Email e) = Some e"
| "identity_email (Id_Other e) = Some e"
| "identity_email _ = None"

text \<open>The second sort is \<open>sort_unstable_by\<close>: the order it leaves among equal emails is one of the possible ones.\<close>

definition signer_options :: "app_state \<Rightarrow> ws_client \<Rightarrow> nat option \<Rightarrow> key_type \<Rightarrow> signer_option list" where
  "signer_options a b editing ty =
     (let others = filter (\<lambda>(i, k). Some i \<noteq> editing) (as_keys a);
          used = map to_lowercase (List.map_filter (\<lambda>(i, k). identity_email (key_identity k)) others);
          user_ids = (case Option.bind (as_selected_org a) (get_org b) of None \<Rightarrow> [] | Some x \<Rightarrow> org_users x);
          members = (if ty = Internal then
              dedup_by (\<lambda>l r. eq_ignore_ascii_case (so_email l) (so_email r))
               (sort_key (\<lambda>x. (to_lowercase (so_name x), to_lowercase (so_email x)))
                 (map (\<lambda>u. \<lparr>so_name = u_name u, so_email = u_email u,
                             so_already_used = (to_lowercase (u_email u) \<in> set used)\<rparr>)
                   (List.map_filter (get_user b) user_ids)))
            else []);
          member_emails = map (\<lambda>x. to_lowercase (so_email x)) members;
          extra = dedup_by (\<lambda>l r. eq_ignore_ascii_case (snd l) (snd r))
               (sort_key (\<lambda>x. to_lowercase (snd x))
                 (filter (\<lambda>(alias, e). to_lowercase e \<notin> set member_emails)
                   (List.map_filter (\<lambda>(i, k). map_option (Pair (key_alias k)) (identity_email (key_identity k)))
                     (filter (\<lambda>(i, k). key_type k = ty) others))))
      in members @ map (\<lambda>(alias, e). \<lparr>so_name = alias, so_email = e, so_already_used = True\<rparr>) extra)"

definition fetch_signer_users :: "installer \<Rightarrow> installer" where
  "fetch_signer_users s =
     (case Option.bind (as_selected_org (st_app s)) (get_org (st_backend s)) of
        None \<Rightarrow> s
      | Some x \<Rightarrow>
          fold (\<lambda>i s. if get_user (st_backend s) i = None \<and> i \<notin> set (st_pending_fetches s)
                      then upd_backend (fetch_user i) (s\<lparr>st_pending_fetches := insort_insert i (st_pending_fetches s)\<rparr>)
                      else s) (org_users x) s)"

definition refresh_signers :: "installer \<Rightarrow> installer" where
  "refresh_signers s =
     (case vw_key (st_views s) of
        None \<Rightarrow> s
      | Some m \<Rightarrow>
          on_key_modal (\<lambda>m'. m'\<lparr>km_signers :=
             signer_options (st_app s) (st_backend s) (Some (km_key_id m)) (km_key_type m)\<rparr>) s)"

section \<open>Sending an edited wallet\<close>

definition build_wallet :: "wallet_status \<Rightarrow> policy_template \<Rightarrow> installer \<Rightarrow> wallet option" where
  "build_wallet st t s =
     (case as_selected_wallet (st_app s) of
        None \<Rightarrow> None
      | Some i \<Rightarrow>
          (case get_wallet (st_backend s) i of
             None \<Rightarrow> None
           | Some w \<Rightarrow> Some \<lparr>w_alias = w_alias w, w_org = w_org w, w_owner = w_owner w, w_id = w_id w,
               w_status = st, w_template = Some t, w_last_edited = None, w_last_editor = None,
               w_descriptor = w_descriptor w, w_devices = w_devices w\<rparr>))"

definition build_wallet_from_app_state :: "wallet_status \<Rightarrow> installer \<Rightarrow> wallet option" where
  "build_wallet_from_app_state st s = build_wallet st (app_template (st_app s)) s"

text \<open>\<open>if let Some(wallet) = self.build_wallet(\<dots>) { self.backend.edit_wallet(wallet); }\<close>\<close>

definition send_template :: "wallet_status \<Rightarrow> policy_template \<Rightarrow> installer \<Rightarrow> installer" where
  "send_template st t s =
     (case build_wallet st t s of None \<Rightarrow> s | Some w \<Rightarrow> upd_backend (edit_wallet w) s)"

definition is_manager :: "installer \<Rightarrow> bool" where
  "is_manager s = (as_role (st_app s) \<in> {Some WizardSardineAdmin, Some WalletManager})"

definition edit_template :: "(policy_template \<Rightarrow> policy_template) \<Rightarrow> installer \<Rightarrow> installer" where
  "edit_template f s =
     (if as_role (st_app s) \<noteq> Some WizardSardineAdmin then s
      else send_template Drafted (f (app_template (st_app s))) s)"

section \<open>Keys\<close>

definition on_key_add :: "installer \<Rightarrow> installer" where
  "on_key_add s =
     (let i = as_next_key_id (st_app s);
          s = fetch_signer_users (s\<lparr>st_pending_fetches := []\<rparr>)
      in upd_views (\<lambda>v. v\<lparr>vw_key := Some (key_modal_new i [] [] Internal True [] [] None
           (signer_options (st_app s) (st_backend s) None Internal))\<rparr>) s)"

fun identity_fields :: "key_identity \<Rightarrow> string \<times> string \<times> provider option" where
  "identity_fields (Id_Email e) = (e, [], None)"
| "identity_fields (Id_TokenWithProvider t pr) = ([], t, pr)"
| "identity_fields (Id_Token t) = ([], t, None)"
| "identity_fields (Id_Other e) = (e, [], None)"

definition on_key_edit :: "nat \<Rightarrow> installer \<Rightarrow> installer" where
  "on_key_edit i s =
     (case map_of (as_keys (st_app s)) i of
        None \<Rightarrow> s
      | Some k \<Rightarrow>
          (let (email, token, pr) = identity_fields (key_identity k);
               s = fetch_signer_users (s\<lparr>st_pending_fetches := []\<rparr>)
           in upd_views (\<lambda>v. v\<lparr>vw_key := Some (key_modal_new i (key_alias k) (key_description k) (key_type k)
                False email token pr (signer_options (st_app s) (st_backend s) (Some i) (key_type k)))\<rparr>) s))"

definition on_key_update_email :: "string \<Rightarrow> installer \<Rightarrow> installer" where
  "on_key_update_email v s = on_key_modal (\<lambda>m. m\<lparr>km_email := trim v\<rparr>) s"

definition on_key_update_alias :: "string \<Rightarrow> installer \<Rightarrow> installer" where
  "on_key_update_alias v s = on_key_modal (\<lambda>m. m\<lparr>km_alias := v\<rparr>) s"

definition on_key_select_signer :: "string \<Rightarrow> installer \<Rightarrow> installer" where
  "on_key_select_signer email s =
     (let alias_blank = (case vw_key (st_views s) of None \<Rightarrow> False | Some m \<Rightarrow> trim (km_alias m) = []);
          s = on_key_update_email email s
      in if \<not> alias_blank then s
         else case Option.bind (as_selected_org (st_app s)) (get_org (st_backend s)) of
                None \<Rightarrow> s
              | Some x \<Rightarrow>
                  (case find (\<lambda>u. to_lowercase (u_email u) = to_lowercase email)
                          (List.map_filter (get_user (st_backend s)) (org_users x)) of
                     None \<Rightarrow> s
                   | Some u \<Rightarrow> on_key_update_alias (u_name u) s))"

definition on_key_update_type :: "key_type \<Rightarrow> installer \<Rightarrow> installer" where
  "on_key_update_type ty s =
     refresh_signers (on_key_modal (\<lambda>m. m\<lparr>km_key_type := ty, km_token_warning := None\<rparr>) s)"

definition delete_key :: "nat \<Rightarrow> policy_template \<Rightarrow> policy_template" where
  "delete_key i t =
     (let keep = filter (\<lambda>j. j \<noteq> i) in
      t\<lparr>tpl_keys := bt_remove i (tpl_keys t),
        tpl_primary := (tpl_primary t)\<lparr>sp_key_ids := keep (sp_key_ids (tpl_primary t))\<rparr>,
        tpl_secondary := map (\<lambda>p. p\<lparr>sec_path := (sec_path p)\<lparr>sp_key_ids := keep (sp_key_ids (sec_path p))\<rparr>\<rparr>)
          (tpl_secondary t)\<rparr>)"

definition on_key_delete :: "nat \<Rightarrow> installer \<Rightarrow> installer" where
  "on_key_delete i s =
     (let s = (case vw_key (st_views s) of
                 None \<Rightarrow> s
               | Some m \<Rightarrow> if km_key_id m = i then upd_views (\<lambda>v. v\<lparr>vw_key := None\<rparr>) s else s)
      in if is_manager s then send_template Drafted (delete_key i (app_template (st_app s))) s else s)"

definition modal_identity :: "key_modal \<Rightarrow> key_identity" where
  "modal_identity m =
     (if uses_token (km_key_type m) then Id_TokenWithProvider (km_token m) (km_provider m) else Id_Email (km_email m))"

definition saved_keys :: "key_modal \<Rightarrow> (nat, ws_key) btree \<Rightarrow> (nat, ws_key) btree" where
  "saved_keys m ks =
     (if km_is_new m then
        bt_insert (km_key_id m)
          \<lparr>key_id = km_key_id m, key_alias = km_alias m, key_description = km_description m,
           key_identity = modal_identity m, key_type = km_key_type m, key_xpub = None, key_xpub_source = None,
           key_xpub_device_kind = None, key_xpub_device_version = None, key_xpub_file_name = None,
           key_last_edited = None, key_last_editor = None\<rparr> ks
      else
        bt_modify (km_key_id m)
          (\<lambda>k. k\<lparr>key_alias := km_alias m, key_description := km_description m,
                 key_identity := modal_identity m, key_type := km_key_type m\<rparr>) ks)"

definition on_key_save :: "installer \<Rightarrow> installer" where
  "on_key_save s =
     (case vw_key (st_views s) of
        None \<Rightarrow> s
      | Some m \<Rightarrow>
          (let keys = saved_keys m (as_keys (st_app s));
               s = upd_views (\<lambda>v. v\<lparr>vw_key := None\<rparr>) s
           in if is_manager s then send_template Drafted ((app_template (st_app s))\<lparr>tpl_keys := keys\<rparr>) s else s))"

definition on_mark_keys_ready :: "bool \<Rightarrow> installer \<Rightarrow> installer" where
  "on_mark_keys_ready ready s =
     (if as_role (st_app s) \<noteq> Some WalletManager then s
      else case map_option w_status (selected_wallet s) of
             None \<Rightarrow> s
           | Some st \<Rightarrow> send_template st ((app_template (st_app s))\<lparr>tpl_keys_ready := ready\<rparr>) s)"

section \<open>Spending paths\<close>

definition add_key_to :: "nat \<Rightarrow> spending_path \<Rightarrow> spending_path" where
  "add_key_to i p = (if \<not> path_contains_key p i then p\<lparr>sp_key_ids := sp_key_ids p @ [i]\<rparr> else p)"

definition del_key_from :: "nat \<Rightarrow> spending_path \<Rightarrow> spending_path" where
  "del_key_from i p =
     (let p = p\<lparr>sp_key_ids := filter (\<lambda>j. j \<noteq> i) (sp_key_ids p)\<rparr>;
          m = length (sp_key_ids p)
      in if m < sp_threshold_n p \<and> 0 < m then p\<lparr>sp_threshold_n := m mod 256\<rparr> else p)"

definition on_add_key_to_primary :: "nat \<Rightarrow> installer \<Rightarrow> installer" where
  "on_add_key_to_primary i = edit_template (\<lambda>t. t\<lparr>tpl_primary := add_key_to i (tpl_primary t)\<rparr>)"

definition on_del_key_from_primary :: "nat \<Rightarrow> installer \<Rightarrow> installer" where
  "on_del_key_from_primary i = edit_template (\<lambda>t. t\<lparr>tpl_primary := del_key_from i (tpl_primary t)\<rparr>)"

text \<open>\<open>if let Some(secondary) = t.secondary_paths.get_mut(path_index)\<close>\<close>

definition on_secondary :: "nat \<Rightarrow> (secondary_path \<Rightarrow> secondary_path) \<Rightarrow> secondary_path list \<Rightarrow> secondary_path list" where
  "on_secondary n f ps = (if n < length ps then ps[n := f (ps ! n)] else ps)"

definition on_add_key_to_secondary :: "nat \<Rightarrow> nat \<Rightarrow> installer \<Rightarrow> installer" where
  "on_add_key_to_secondary n i = edit_template (\<lambda>t. t\<lparr>tpl_secondary :=
     on_secondary n (\<lambda>p. p\<lparr>sec_path := add_key_to i (sec_path p)\<rparr>) (tpl_secondary t)\<rparr>)"

definition on_del_key_from_secondary :: "nat \<Rightarrow> nat \<Rightarrow> installer \<Rightarrow> installer" where
  "on_del_key_from_secondary n i = edit_template (\<lambda>t. t\<lparr>tpl_secondary :=
     on_secondary n (\<lambda>p. p\<lparr>sec_path := del_key_from i (sec_path p)\<rparr>) (tpl_secondary t)\<rparr>)"

definition sort_paths :: "secondary_path list \<Rightarrow> secondary_path list" where
  "sort_paths ps = sort_key (\<lambda>p. tl_blocks (sec_timelock p)) ps"

definition on_add_secondary_path :: "installer \<Rightarrow> installer" where
  "on_add_secondary_path = edit_template (\<lambda>t. t\<lparr>tpl_secondary := sort_paths (tpl_secondary t
     @ [\<lparr>sec_path = spending_path_new False 1 [], sec_timelock = \<lparr>tl_blocks = 0\<rparr>\<rparr>])\<rparr>)"

definition on_delete_secondary_path :: "nat \<Rightarrow> installer \<Rightarrow> installer" where
  "on_delete_secondary_path n = edit_template (\<lambda>t. if n < length (tpl_secondary t)
     then t\<lparr>tpl_secondary := take n (tpl_secondary t) @ drop (n + 1) (tpl_secondary t)\<rparr> else t)"

text \<open>The largest unit that divides the timelock, and the timelock in that unit.\<close>

definition best_unit :: "nat \<Rightarrow> timelock_unit \<times> nat" where
  "best_unit b =
     (if blocks_per_unit Unit_Months \<le> b \<and> b mod blocks_per_unit Unit_Months = 0
      then (Unit_Months, from_blocks Unit_Months b)
      else if blocks_per_unit Unit_Days \<le> b \<and> b mod blocks_per_unit Unit_Days = 0
      then (Unit_Days, from_blocks Unit_Days b)
      else if blocks_per_unit Unit_Hours \<le> b \<and> b mod blocks_per_unit Unit_Hours = 0
      then (Unit_Hours, from_blocks Unit_Hours b)
      else (Unit_Blocks, b))"

definition open_path_modal :: "path_modal \<Rightarrow> installer \<Rightarrow> installer" where
  "open_path_modal m s = upd_views (\<lambda>v. v\<lparr>vw_path := Some m\<rparr>) s"

definition on_edit_path :: "bool \<Rightarrow> nat option \<Rightarrow> installer \<Rightarrow> installer" where
  "on_edit_path primary idx s =
     (if primary then
        open_path_modal \<lparr>pm_is_primary = True, pm_path_index = None,
          pm_selected = sp_key_ids (as_primary (st_app s)),
          pm_threshold = show_nat (sp_threshold_n (as_primary (st_app s))),
          pm_timelock = None, pm_unit = Unit_Hours\<rparr> s
      else case idx of
             None \<Rightarrow> s
           | Some n \<Rightarrow>
               if n < length (as_secondary (st_app s)) then
                 (let p = as_secondary (st_app s) ! n;
                      (unit, val) = best_unit (tl_blocks (sec_timelock p))
                  in open_path_modal \<lparr>pm_is_primary = False, pm_path_index = Some n,
                       pm_selected = sp_key_ids (sec_path p),
                       pm_threshold = show_nat (sp_threshold_n (sec_path p)),
                       pm_timelock = Some (show_nat val), pm_unit = unit\<rparr> s)
               else s)"

definition on_new_path_modal :: "installer \<Rightarrow> installer" where
  "on_new_path_modal = open_path_modal \<lparr>pm_is_primary = False, pm_path_index = None, pm_selected = [],
     pm_threshold = [], pm_timelock = Some [], pm_unit = Unit_Days\<rparr>"

definition resolved_threshold :: "nat \<Rightarrow> nat option \<Rightarrow> nat option" where
  "resolved_threshold selected parsed =
     (case parsed of
        Some n \<Rightarrow> if 0 < n \<and> n \<le> selected \<and> 0 < selected then Some n
                  else if 0 < selected then Some (selected mod 256) else None
      | None \<Rightarrow> if 0 < selected then Some (selected mod 256) else None)"

definition set_threshold :: "nat option \<Rightarrow> spending_path \<Rightarrow> spending_path" where
  "set_threshold n p = (case n of None \<Rightarrow> p | Some n \<Rightarrow> p\<lparr>sp_threshold_n := n\<rparr>)"

definition saved_template :: "path_modal \<Rightarrow> policy_template \<Rightarrow> policy_template" where
  "saved_template m t =
     (let sel = pm_selected m;
          n = resolved_threshold (length sel) (parse_u8 (pm_threshold m))
      in if pm_is_primary m then
           t\<lparr>tpl_primary := set_threshold n ((tpl_primary t)\<lparr>sp_key_ids := sel\<rparr>)\<rparr>
         else case pm_path_index m of
           Some idx \<Rightarrow>
             t\<lparr>tpl_secondary := sort_paths (on_secondary idx (\<lambda>p.
                 let p = p\<lparr>sec_path := set_threshold n ((sec_path p)\<lparr>sp_key_ids := sel\<rparr>)\<rparr> in
                 case pm_timelock m of
                   None \<Rightarrow> p
                 | Some txt \<Rightarrow>
                     (case parse_u64 txt of
                        None \<Rightarrow> p
                      | Some v \<Rightarrow> p\<lparr>sec_timelock := (sec_timelock p)\<lparr>tl_blocks := to_blocks_capped (pm_unit m) v\<rparr>\<rparr>))
               (tpl_secondary t))\<rparr>
         | None \<Rightarrow>
             (let blocks = (case Option.bind (pm_timelock m) parse_u64 of
                              None \<Rightarrow> BLOCKS_PER_DAY | Some v \<Rightarrow> to_blocks_capped (pm_unit m) v)
              in t\<lparr>tpl_secondary := sort_paths (tpl_secondary t
                   @ [\<lparr>sec_path = spending_path_new False (case n of None \<Rightarrow> 1 | Some n \<Rightarrow> n) sel,
                      sec_timelock = \<lparr>tl_blocks = blocks\<rparr>\<rparr>])\<rparr>))"

definition on_save_path :: "installer \<Rightarrow> installer" where
  "on_save_path s =
     (case vw_path (st_views s) of
        None \<Rightarrow> s
      | Some m \<Rightarrow>
          (let t = saved_template m (app_template (st_app s));
               s = upd_views (\<lambda>v. v\<lparr>vw_path := None\<rparr>) s
           in if as_role (st_app s) = Some WizardSardineAdmin then send_template Drafted t s else s))"

section \<open>The status of the wallet\<close>

definition send_status :: "wallet_status \<Rightarrow> installer \<Rightarrow> installer" where
  "send_status st s = send_template st (app_template (st_app s)) s"

definition on_lock :: "installer \<Rightarrow> installer" where
  "on_lock s =
     (if as_role (st_app s) \<noteq> Some WizardSardineAdmin then s
      else if is_template_valid s then send_status Locked s else s)"

definition on_unlock :: "installer \<Rightarrow> installer" where
  "on_unlock s = (if as_role (st_app s) \<noteq> Some WizardSardineAdmin then s else send_status Drafted s)"

definition on_validate :: "installer \<Rightarrow> installer" where
  "on_validate s =
     (if as_role (st_app s) \<noteq> Some WalletManager then s
      else if map_option w_status (selected_wallet s) \<noteq> Some Locked then s
      else send_status Validated s)"

end
