(* ===== verification/Wallet_Updates.thy ===== *)
theory Wallet_Updates
  imports Template_Editing
begin

text \<open>
  How the business installer follows the server (\<open>state/update.rs\<close>): the selection of a wallet, an
  update of a wallet that arrives while modals are open, the resolution of the conflicts this makes,
  and the navigation between the views.
\<close>

text \<open>The task a handler hands to the runtime.\<close>

datatype task = Task_None | Task_Update | Task_Focus string | Task_Fetch fingerprint child_number nat
  | Task_Register fingerprint string string | Task_PickFile | Task_Clipboard

section \<open>Selecting an organisation and a wallet\<close>

definition on_org_selected :: "uuid \<Rightarrow> installer \<Rightarrow> installer" where
  "on_org_selected i s =
     (if get_org (st_backend s) i \<noteq> None
      then (upd_app (\<lambda>a. a\<lparr>as_selected_org := Some i\<rparr>) s)\<lparr>st_view := View_WalletSelect\<rparr> else s)"

definition load_template :: "wallet \<Rightarrow> installer \<Rightarrow> installer" where
  "load_template w s =
     upd_app (apply_server_template (case w_template w of None \<Rightarrow> template_new | Some t \<Rightarrow> t)) s"

text \<open>The view of a wallet that is not in registration, from its status as the user sees it.\<close>

definition route_to_wallet :: "wallet_status option \<Rightarrow> installer \<Rightarrow> installer \<times> task" where
  "route_to_wallet st s =
     (case st of
        Some Validated \<Rightarrow> (s\<lparr>st_view := View_Xpub\<rparr>, Task_None)
      | Some Finalized \<Rightarrow> ((upd_app (\<lambda>a. a\<lparr>as_exit := True\<rparr>) s)\<lparr>st_view := View_Loading\<rparr>, Task_Update)
      | _ \<Rightarrow> (s\<lparr>st_view := View_TemplateEdit\<rparr>, Task_None))"

definition on_wallet_selected :: "ui_ops \<Rightarrow> uuid \<Rightarrow> installer \<Rightarrow> installer \<times> task" where
  "on_wallet_selected U i s =
     (case cl_user_id (st_backend s) of
        None \<Rightarrow> (show_warning_modal (tr U ''common-error'' []) (tr U ''business-user-session-not-found'' []) s, Task_None)
      | Some u \<Rightarrow>
          (let email = login_email s;
               (st, role) = (case (get_wallet (st_backend s) i, get_user (st_backend s) u) of
                   (Some w, Some user) \<Rightarrow> (Some (effective_status w email), user_role_for user w)
                 | _ \<Rightarrow> (None, None))
           in case role of
                None \<Rightarrow> (show_warning_modal (tr U ''business-access-error'' []) (tr U ''business-wallet-access-denied'' []) s,
                          Task_None)
              | Some r \<Rightarrow>
                  (let s = upd_app (\<lambda>a. a\<lparr>as_role := Some r, as_selected_wallet := Some i\<rparr>) s in
                   case get_wallet (st_backend s) i of
                     None \<Rightarrow> route_to_wallet st s
                   | Some w \<Rightarrow>
                       (let s = upd_app (\<lambda>a. a\<lparr>as_wallet_template :=
                              Some (case w_template w of None \<Rightarrow> template_new | Some t \<Rightarrow> t)\<rparr>) s;
                            s = load_template w s
                        in if effective_status w email = Registration
                           then (on_registration (load_wallet (w_descriptor w) (user_devices w email))
                                   (start_hw (s\<lparr>st_view := View_Registration\<rparr>)), Task_None)
                           else route_to_wallet st s))))"

section \<open>Conflicts with open modals\<close>

definition raise_conflict :: "ui_ops \<Rightarrow> conflict_type \<Rightarrow> string \<Rightarrow> string \<Rightarrow> (string \<times> string) list \<Rightarrow> installer \<Rightarrow> installer" where
  "raise_conflict U ty title message args s =
     upd_views (\<lambda>v. v\<lparr>vw_conflict := Some \<lparr>cf_type = ty, cf_title = tr U title [], cf_message = tr U message args\<rparr>\<rparr>) s"

text \<open>
  The first part: a key that is being edited was deleted or modified. \<open>None\<close> is the end of the part
  without a conflict.
\<close>

definition key_conflict :: "ui_ops \<Rightarrow> wallet \<Rightarrow> uuid \<Rightarrow> installer \<Rightarrow> installer option" where
  "key_conflict U w wid s =
     (case vw_key (st_views s) of
        None \<Rightarrow> None
      | Some m \<Rightarrow>
          if km_is_new m then None
          else
            (case Option.bind (w_template w) (\<lambda>t. map_of (tpl_keys t) (km_key_id m)) of
               None \<Rightarrow> Some (raise_conflict U Key_Deleted ''business-key-deleted'' ''business-key-deleted-message'' []
                             (upd_views (\<lambda>v. v\<lparr>vw_key := None\<rparr>) s))
             | Some server \<Rightarrow>
                 (case map_of (as_keys (st_app s)) (km_key_id m) of
                    Some local \<Rightarrow>
                      if server \<noteq> local
                      then Some (raise_conflict U (Key_Modified (km_key_id m) wid)
                             ''business-key-modified'' ''business-key-modified-message'' [] s)
                      else None
                  | None \<Rightarrow> None)))"

definition modal_threshold :: "path_modal \<Rightarrow> nat" where
  "modal_threshold m = (case parse_u8 (pm_threshold m) of None \<Rightarrow> 0 | Some n \<Rightarrow> n)"

definition modal_blocks :: "path_modal \<Rightarrow> nat" where
  "modal_blocks m =
     (case Option.bind (pm_timelock m) parse_u64 of None \<Rightarrow> 0 | Some v \<Rightarrow> to_blocks_capped (pm_unit m) v)"

definition remove_deleted_keys :: "nat list \<Rightarrow> path_modal \<Rightarrow> path_modal" where
  "remove_deleted_keys deleted m =
     (let m = m\<lparr>pm_selected := filter (\<lambda>i. i \<notin> set deleted) (pm_selected m)\<rparr>;
          n = length (pm_selected m)
      in case parse_u8 (pm_threshold m) of
           Some t \<Rightarrow> if n < t \<and> 0 < n then m\<lparr>pm_threshold := show_nat n\<rparr> else m
         | None \<Rightarrow> m)"

definition path_conflict :: "ui_ops \<Rightarrow> wallet \<Rightarrow> uuid \<Rightarrow> installer \<Rightarrow> installer" where
  "path_conflict U w wid s =
     (case (vw_path (st_views s), w_template w) of
        (Some m, Some t) \<Rightarrow>
          (case filter (\<lambda>i. \<not> bt_contains (tpl_keys t) i) (pm_selected m) of
             i # is \<Rightarrow>
               (let alias = (case map_of (as_keys (st_app s)) i of
                               Some k \<Rightarrow> key_alias k
                             | None \<Rightarrow> tr U ''business-key-number'' [(''id'', show_nat i)])
                in raise_conflict U Key_In_Path_Deleted ''business-key-removed'' ''business-key-removed-from-path''
                     [(''alias'', alias)] (on_path_modal (remove_deleted_keys (i # is)) s))
           | [] \<Rightarrow>
               if pm_is_primary m then
                 if as_keys (st_app s) = []
                    \<or> set (pm_selected m) \<noteq> set (sp_key_ids (tpl_primary t))
                    \<or> modal_threshold m \<noteq> sp_threshold_n (tpl_primary t)
                 then raise_conflict U (Path_Modified True None wid) ''business-path-modified''
                        ''business-primary-path-modified-message'' [] s
                 else s
               else
                 (case pm_path_index m of
                    None \<Rightarrow> s
                  | Some n \<Rightarrow>
                      if length (tpl_secondary t) \<le> n then
                        raise_conflict U Path_Deleted ''business-path-deleted'' ''business-path-deleted-message'' []
                          (upd_views (\<lambda>v. v\<lparr>vw_path := None\<rparr>) s)
                      else
                        (let p = tpl_secondary t ! n in
                         if set (pm_selected m) \<noteq> set (sp_key_ids (sec_path p))
                            \<or> modal_threshold m \<noteq> sp_threshold_n (sec_path p)
                            \<or> modal_blocks m \<noteq> tl_blocks (sec_timelock p)
                         then raise_conflict U (Path_Modified False (Some n) wid) ''business-path-modified''
                                ''business-recovery-path-modified-message'' [] s
                         else s)))
      | _ \<Rightarrow> s)"

definition check_modal_conflicts :: "ui_ops \<Rightarrow> wallet \<Rightarrow> uuid \<Rightarrow> installer \<Rightarrow> installer" where
  "check_modal_conflicts U w wid s =
     (case key_conflict U w wid s of Some s' \<Rightarrow> s' | None \<Rightarrow> path_conflict U w wid s)"

section \<open>An update of a wallet\<close>

text \<open>The redirections on a change of status; the first component tells whether the handler returns.\<close>

definition redirect :: "wallet \<Rightarrow> installer \<Rightarrow> bool \<times> installer" where
  "redirect w s =
     (case Option.bind (cl_user_id (st_backend s)) (get_user (st_backend s)) of
        None \<Rightarrow> (False, s)
      | Some user \<Rightarrow>
          (let st = effective_status w (login_email s) in
           case user_role_for user w of
             Some WalletManager \<Rightarrow>
               if st_view s = View_Keys \<and> st = Locked then (True, s\<lparr>st_view := View_TemplateEdit\<rparr>)
               else if st_view s = View_TemplateEdit \<and> st = Validated then (True, s\<lparr>st_view := View_Xpub\<rparr>)
               else (False, s)
           | Some WizardSardineAdmin \<Rightarrow>
               if st_view s = View_TemplateEdit \<and> st = Validated
               then (False, (upd_app (\<lambda>a. a\<lparr>as_selected_wallet := None\<rparr>) s)\<lparr>st_view := View_WalletSelect\<rparr>)
               else (False, s)
           | _ \<Rightarrow> (False, s)))"

definition close_xpub :: "installer \<Rightarrow> installer" where
  "close_xpub s = upd_views (\<lambda>v. v\<lparr>vw_xpub := None\<rparr>) s"

definition close_registration :: "installer \<Rightarrow> installer" where
  "close_registration s = on_registration (\<lambda>r. r\<lparr>rv_modal := None\<rparr>) s"

definition exit_to_wallet :: "installer \<Rightarrow> installer \<times> task" where
  "exit_to_wallet s = ((upd_app (\<lambda>a. a\<lparr>as_exit := True\<rparr>) s)\<lparr>st_view := View_Loading\<rparr>, Task_Update)"

text \<open>The update on the view of the registration, and on the view of the extended keys.\<close>

definition update_registration :: "wallet \<Rightarrow> installer \<Rightarrow> (installer \<times> task) option \<times> installer" where
  "update_registration w s =
     (if st_view s \<noteq> View_Registration then (None, s)
      else
        let email = login_email s; st = effective_status w email in
        if st = Registration then (None, on_registration (sync_wallet (w_descriptor w) (user_devices w email)) s)
        else if st = Finalized then
          (let s = (if rv_modal (vw_registration (st_views s)) \<noteq> None then close_registration s else s)
           in (Some (exit_to_wallet (stop_hw s)), s))
        else (None, s))"

definition update_xpub_view :: "wallet \<Rightarrow> installer \<Rightarrow> (installer \<times> task) option" where
  "update_xpub_view w s =
     (if st_view s \<noteq> View_Xpub then None
      else
        let email = login_email s in
        case effective_status w email of
          Registration \<Rightarrow>
            (let s = (if vw_xpub (st_views s) \<noteq> None then close_xpub s else s);
                 s = on_registration (load_wallet (w_descriptor w) (user_devices w email)) s
             in Some ((start_hw s)\<lparr>st_view := View_Registration\<rparr>, Task_None))
        | Finalized \<Rightarrow>
            (let s = (if vw_xpub (st_views s) \<noteq> None then stop_hw (close_xpub s) else s)
             in Some (exit_to_wallet s))
        | _ \<Rightarrow> None)"

definition on_backend_wallet :: "ui_ops \<Rightarrow> uuid \<Rightarrow> installer \<Rightarrow> installer \<times> task" where
  "on_backend_wallet U wid s =
     (case get_wallet (st_backend s) wid of
        None \<Rightarrow> (s, Task_None)
      | Some w \<Rightarrow>
          if as_selected_wallet (st_app s) \<noteq> Some wid then (s, Task_None)
          else
            let s = check_modal_conflicts U w wid s;
                s = (if vw_conflict (st_views s) = None then load_template w s else s);
                (returns, s) = redirect w s
            in if returns then (s, Task_None)
               else
                 let (finished, s) = update_registration w s in
                 case finished of
                   Some r \<Rightarrow> r
                 | None \<Rightarrow>
                     (case update_xpub_view w s of
                        Some r \<Rightarrow> r
                      | None \<Rightarrow> (if vw_xpub (st_views s) \<noteq> None then stop_hw (close_xpub s) else s, Task_None)))"

section \<open>Resolving a conflict\<close>

definition reload_key :: "nat \<Rightarrow> policy_template \<Rightarrow> installer \<Rightarrow> installer" where
  "reload_key i t s =
     (case map_of (tpl_keys t) i of
        None \<Rightarrow> s
      | Some k \<Rightarrow>
          (let (email, token, _) = identity_fields (key_identity k) in
           upd_app (apply_server_template t)
             (on_key_modal (\<lambda>m. m\<lparr>km_alias := key_alias k, km_description := key_description k, km_email := email,
                km_token := token, km_key_type := key_type k, km_token_warning := None\<rparr>) s)))"

definition reload_path :: "bool \<Rightarrow> nat option \<Rightarrow> policy_template \<Rightarrow> installer \<Rightarrow> installer" where
  "reload_path primary idx t s =
     (if primary then
        upd_app (apply_server_template t)
          (on_path_modal (\<lambda>m. m\<lparr>pm_selected := sp_key_ids (tpl_primary t),
             pm_threshold := show_nat (sp_threshold_n (tpl_primary t))\<rparr>) s)
      else case idx of
             None \<Rightarrow> s
           | Some n \<Rightarrow>
               if n < length (tpl_secondary t) then
                 (let p = tpl_secondary t ! n in
                  upd_app (apply_server_template t)
                    (on_path_modal (\<lambda>m. m\<lparr>pm_selected := sp_key_ids (sec_path p),
                       pm_threshold := show_nat (sp_threshold_n (sec_path p)),
                       pm_timelock := Some (show_nat (tl_blocks (sec_timelock p)))\<rparr>) s))
               else s)"

definition on_conflict_reload :: "installer \<Rightarrow> installer" where
  "on_conflict_reload s =
     (case vw_conflict (st_views s) of
        None \<Rightarrow> s
      | Some cf \<Rightarrow>
          (let s = upd_views (\<lambda>v. v\<lparr>vw_conflict := None\<rparr>) s;
               template = (\<lambda>wid. Option.bind (get_wallet (st_backend s) wid) w_template)
           in case cf_type cf of
                Key_Modified i wid \<Rightarrow> (case template wid of None \<Rightarrow> s | Some t \<Rightarrow> reload_key i t s)
              | Path_Modified primary idx wid \<Rightarrow>
                  (case template wid of None \<Rightarrow> s | Some t \<Rightarrow> reload_path primary idx t s)
              | _ \<Rightarrow> s))"

definition close_conflict :: "installer \<Rightarrow> installer" where
  "close_conflict s = upd_views (\<lambda>v. v\<lparr>vw_conflict := None\<rparr>) s"

section \<open>Navigation\<close>

fun navigate_back_target :: "view \<Rightarrow> view option" where
  "navigate_back_target View_WalletSelect = Some View_OrgSelect"
| "navigate_back_target View_TemplateEdit = Some View_WalletSelect"
| "navigate_back_target View_Keys = Some View_WalletSelect"
| "navigate_back_target View_Xpub = Some View_WalletSelect"
| "navigate_back_target View_Registration = Some View_WalletSelect"
| "navigate_back_target View_OrgSelect = Some View_Login"
| "navigate_back_target View_Login = None"
| "navigate_back_target View_Loading = None"

definition on_navigate_to_org_select :: "installer \<Rightarrow> installer" where
  "on_navigate_to_org_select s =
     (if lg_current (vw_login (st_views s)) = Authenticated then s\<lparr>st_view := View_OrgSelect\<rparr> else s)"

definition on_navigate_to_wallet_select :: "installer \<Rightarrow> installer" where
  "on_navigate_to_wallet_select s =
     (if as_selected_org (st_app s) \<noteq> None
      then (if st_view s = View_Registration then stop_hw s else s)\<lparr>st_view := View_WalletSelect\<rparr> else s)"

definition on_navigate_back :: "installer \<Rightarrow> installer \<times> task" where
  "on_navigate_back s =
     (let back = (\<lambda>s. (case navigate_back_target (st_view s) of None \<Rightarrow> s | Some v \<Rightarrow> s\<lparr>st_view := v\<rparr>)) in
      case st_view s of
        View_OrgSelect \<Rightarrow> (s\<lparr>st_view := View_Login\<rparr>, Task_Focus ''login_email'')
      | View_Login \<Rightarrow>
          (case lg_current (vw_login (st_views s)) of
             CodeEntry \<Rightarrow>
               (on_login (\<lambda>l. l\<lparr>lg_email_processing := False, lg_current := EmailEntry\<rparr>) s, Task_Focus ''login_email'')
           | EmailEntry \<Rightarrow>
               if lg_accounts (vw_login (st_views s)) \<noteq> []
               then (on_login (\<lambda>l. l\<lparr>lg_current := AccountSelect\<rparr>) s, Task_None) else (s, Task_None)
           | _ \<Rightarrow> (s, Task_None))
      | View_Registration \<Rightarrow> (back (stop_hw s), Task_None)
      | View_Loading \<Rightarrow> (s, Task_None)
      | _ \<Rightarrow> (back s, Task_None))"

text \<open>The tab of a draft that its manager may not edit yet (\<open>views/wallet_edit.rs\<close>) and the route.\<close>

definition template_edit_disabled :: "user_role option \<Rightarrow> wallet_status option \<Rightarrow> bool \<Rightarrow> bool" where
  "template_edit_disabled role st keys_ready =
     (role = Some WalletManager \<and> st \<in> {Some Created, Some Drafted} \<and> \<not> keys_ready)"

definition wallet_edit_view :: "view \<Rightarrow> user_role option \<Rightarrow> wallet_status option \<Rightarrow> bool \<Rightarrow> view" where
  "wallet_edit_view cur role st keys_ready =
     (if cur = View_TemplateEdit \<and> template_edit_disabled role st keys_ready then View_Keys else cur)"

definition wallet_edit_route :: "installer \<Rightarrow> view" where
  "wallet_edit_route s =
     wallet_edit_view (st_view s) (as_role (st_app s)) (map_option w_status (selected_wallet s)) (as_keys_ready (st_app s))"

definition route :: "installer \<Rightarrow> view" where
  "route s =
     (if st_view s = View_Login \<and> lg_current (vw_login (st_views s)) = Authenticated then View_OrgSelect
      else wallet_edit_route s)"

end
