(* ===== verification/Device_Handlers.thy ===== *)
theory Device_Handlers
  imports Wallet_Updates
begin

text \<open>
  The handlers of the business installer for the extended keys and the signing devices
  (\<open>state/update.rs\<close>): fetching a key from a device, reading it from a file or the clipboard, saving
  it, and registering the descriptor on the devices of the user.
\<close>

section \<open>Messages of the devices\<close>

datatype hw_message =
    Hw_Update | Hw_Xpub nat fingerprint deriv_path xpub | Hw_Error "nat option" string | Hw_Other

definition hardware_wallet_error_message :: "ui_ops \<Rightarrow> string \<Rightarrow> string" where
  "hardware_wallet_error_message U e =
     (let message = (if str_contains e ''status: Unknown,'' then tr U ''business-device-disconnected'' []
                     else tr U ''warning-hardware-wallet-error'' [])
      in tr U ''common-error-with-detail'' [(''message'', message), (''error'', e)])"

text \<open>The kind and the version of the first device with the fingerprint; a locked one shows no version.\<close>

definition device_info :: "fingerprint \<Rightarrow> installer \<Rightarrow> (string \<times> string option) option" where
  "device_info fg s =
     map_option (\<lambda>d. (sd_kind d, if sd_state d = Locked_Device then None else sd_version d))
       (find (\<lambda>d. sd_fingerprint d = Some fg) (st_hw s))"

definition fetched_source :: "ui_ops \<Rightarrow> fingerprint \<Rightarrow> (string \<times> string option) option \<Rightarrow> input_source" where
  "fetched_source U fg info =
     Input_Device (case info of None \<Rightarrow> ''Unknown'' | Some (k, _) \<Rightarrow> k) (fingerprint_text U fg)
       (case info of None \<Rightarrow> None | Some (_, v) \<Rightarrow> v)"

definition on_hw_message :: "ui_ops \<Rightarrow> hw_message \<Rightarrow> installer \<Rightarrow> installer" where
  "on_hw_message U msg s =
     (case msg of
        Hw_Xpub rid fg path key \<Rightarrow>
          on_xpub_modal (\<lambda>m.
            if \<not> matches_fetch_request m rid fg path then m
            else (set_processing False m)\<lparr>
                   xm_input := xpub_text U (XPub \<lparr>x_origin = Some (fg, path), x_xkey = key,
                     x_derivation_path = [], x_wildcard = Wildcard_None\<rparr>),
                   xm_source := Some (fetched_source U fg (device_info fg s))\<rparr>) s
      | Hw_Error (Some rid) e \<Rightarrow>
          on_xpub_modal (\<lambda>m. if matches_fetch_error_request m rid
            then set_fetch_error (hardware_wallet_error_message U e) m else m) s
      | _ \<Rightarrow> s)"

section \<open>Extended keys\<close>

definition on_xpub_select_key :: "ui_ops \<Rightarrow> nat \<Rightarrow> installer \<Rightarrow> installer" where
  "on_xpub_select_key U i s =
     (case map_of (as_keys (st_app s)) i of
        None \<Rightarrow> s
      | Some k \<Rightarrow> start_hw (upd_views (\<lambda>v. v\<lparr>vw_xpub :=
          Some (xpub_modal_new U i (key_alias k) (key_xpub k) (st_network s))\<rparr>) s))"

definition set_xpub_modal :: "xpub_modal \<Rightarrow> installer \<Rightarrow> installer" where
  "set_xpub_modal m s = upd_views (\<lambda>v. v\<lparr>vw_xpub := Some m\<rparr>) s"

definition on_xpub_select_device :: "fingerprint \<Rightarrow> installer \<Rightarrow> installer \<times> task" where
  "on_xpub_select_device fg s =
     (case vw_xpub (st_views s) of
        None \<Rightarrow> (s, Task_None)
      | Some m \<Rightarrow>
          (let m = select_device fg m; acc = xm_account m; (rid, m) = start_fetch m
           in (set_xpub_modal m s, Task_Fetch fg acc rid)))"

definition on_xpub_retry :: "installer \<Rightarrow> installer \<times> task" where
  "on_xpub_retry s =
     (case vw_xpub (st_views s) of
        None \<Rightarrow> (s, Task_None)
      | Some m \<Rightarrow>
          (case xm_device m of
             None \<Rightarrow> (s, Task_None)
           | Some fg \<Rightarrow> (let acc = xm_account m; (rid, m) = start_fetch m
                          in (set_xpub_modal m s, Task_Fetch fg acc rid))))"

text \<open>
  Only a supported device is looked for, so that the messages for a locked and for an unsupported
  device are never shown: both are reported as not found.
\<close>

definition hardened :: "nat \<Rightarrow> child_number" where
  "hardened i = HARDENED_START + i"

definition account_path :: "network \<Rightarrow> child_number \<Rightarrow> deriv_path" where
  "account_path net acc = [hardened 48, hardened (if net = Net_Bitcoin then 0 else 1), acc, hardened 2]"

definition fetch_failed :: "string \<Rightarrow> installer \<Rightarrow> installer" where
  "fetch_failed e s = on_xpub_modal (\<lambda>m. set_fetch_error e (set_processing False m)) s"

definition on_xpub_fetch_from_device ::
  "ui_ops \<Rightarrow> fingerprint \<Rightarrow> child_number \<Rightarrow> nat \<Rightarrow> installer \<Rightarrow> installer" where
  "on_xpub_fetch_from_device U fg acc rid s =
     (case find (\<lambda>d. sd_state d = Supported \<and> sd_fingerprint d = Some fg) (st_hw s) of
        Some d \<Rightarrow>
          (case sd_state d of
             Supported \<Rightarrow> log_call (Call_GetXpub fg rid (account_path (st_network s) acc)) s
           | Locked_Device \<Rightarrow> fetch_failed (tr U ''business-device-locked-unlock'' []) s
           | Unsupported \<Rightarrow> fetch_failed (tr U ''business-device-not-supported'' []) s)
      | None \<Rightarrow> fetch_failed (tr U ''business-hardware-wallet-not-found'' []) s)"

text \<open>The first line of a text that is not blank, without the space around it.\<close>

definition first_line :: "string \<Rightarrow> string" where
  "first_line t = (case find (\<lambda>l. trim l \<noteq> []) (split_on (CHR 0x0A) t) of None \<Rightarrow> [] | Some l \<Rightarrow> trim l)"

definition on_xpub_file_loaded :: "string + string \<times> string \<Rightarrow> installer \<Rightarrow> installer" where
  "on_xpub_file_loaded r s =
     (case r of
        Inr (content, name) \<Rightarrow> on_xpub_modal (\<lambda>m. m\<lparr>xm_input := content, xm_source := Some (Input_File name)\<rparr>) s
      | Inl e \<Rightarrow> s)"

definition on_xpub_pasted :: "string \<Rightarrow> installer \<Rightarrow> installer" where
  "on_xpub_pasted t s = on_xpub_modal (\<lambda>m. m\<lparr>xm_input := t, xm_source := Some Input_Pasted\<rparr>) s"

definition on_xpub_update_account :: "child_number \<Rightarrow> installer \<Rightarrow> installer \<times> task" where
  "on_xpub_update_account acc s =
     (case vw_xpub (st_views s) of
        None \<Rightarrow> (s, Task_None)
      | Some m \<Rightarrow>
          if xm_processing m then (s, Task_None)
          else
            let m = update_account acc m in
            (case (xm_step m, xm_device m) of
               (Step_Details, Some fg) \<Rightarrow>
                 (let (rid, m) = start_fetch m in (set_xpub_modal m s, Task_Fetch fg acc rid))
             | _ \<Rightarrow> (set_xpub_modal m s, Task_None)))"

definition xpub_data_of :: "ui_ops \<Rightarrow> desc_pk \<Rightarrow> input_source option \<Rightarrow> xpub_data" where
  "xpub_data_of U k src =
     (let (source, kind, version, name) =
        (case src of
           Some (Input_Device kind fg version) \<Rightarrow> (Source_Device, Some (parse_device_kind kind), version, None)
         | Some (Input_File name) \<Rightarrow> (Source_File, None, None, Some name)
         | _ \<Rightarrow> (Source_Pasted, None, None, None))
      in \<lparr>xd_value = xpub_text U k, xd_source = source, xd_device_kind = kind, xd_device_version = version,
          xd_file_name = name\<rparr>)"

definition send_xpub :: "xpub_data option \<Rightarrow> nat \<Rightarrow> installer \<Rightarrow> installer" where
  "send_xpub x i s =
     (case as_selected_wallet (st_app s) of None \<Rightarrow> s | Some w \<Rightarrow> upd_backend (edit_xpub w x i) s)"

definition on_xpub_save :: "ui_ops \<Rightarrow> installer \<Rightarrow> installer" where
  "on_xpub_save U s =
     (case vw_xpub (st_views s) of
        None \<Rightarrow> s
      | Some m \<Rightarrow>
          (case validate_xpub U (xm_input m) (xm_network m) of
             Inl e \<Rightarrow> s
           | Inr k \<Rightarrow> stop_hw (close_xpub (send_xpub (Some (xpub_data_of U k (xm_source m))) (xm_key_id m) s))))"

definition on_xpub_clear :: "installer \<Rightarrow> installer" where
  "on_xpub_clear s =
     (case vw_xpub (st_views s) of
        None \<Rightarrow> s
      | Some m \<Rightarrow> stop_hw (close_xpub (send_xpub None (xm_key_id m) s)))"

definition on_xpub_select_paste :: "installer \<Rightarrow> installer" where
  "on_xpub_select_paste s = on_xpub_modal (\<lambda>m.
     let m = m\<lparr>xm_paste_expanded := \<not> xm_paste_expanded m\<rparr> in
     if xm_paste_expanded m then m\<lparr>xm_input := [], xm_source := None\<rparr> else m) s"

section \<open>Registration\<close>

definition on_registration_select_device :: "ui_ops \<Rightarrow> fingerprint \<Rightarrow> installer \<Rightarrow> installer \<times> task" where
  "on_registration_select_device U fg s =
     (case find (\<lambda>d. sd_state d = Supported \<and> sd_fingerprint d = Some fg) (st_hw s) of
        None \<Rightarrow> (s, Task_None)
      | Some d \<Rightarrow>
          (let s = on_registration (open_registration fg (Some (sd_kind d))) s in
           case rv_descriptor (vw_registration (st_views s)) of
             None \<Rightarrow> (on_registration (set_modal_error (tr U ''business-no-descriptor-available'' [])) s, Task_None)
           | Some descr \<Rightarrow>
               (s, Task_Register fg (case selected_wallet s of None \<Rightarrow> ''Liana'' | Some w \<Rightarrow> w_alias w) descr)))"

text \<open>
  \<open>DeviceRegistered\<close> goes out only when a wallet is selected and the user is known; otherwise the
  modal shows the error.
\<close>

definition send_device_registered :: "ui_ops \<Rightarrow> fingerprint \<Rightarrow> nat list option \<Rightarrow> string \<Rightarrow> installer \<Rightarrow> installer" where
  "send_device_registered U fg hmac alias s =
     (case as_selected_wallet (st_app s) of
        None \<Rightarrow> on_registration (set_modal_error (tr U ''business-no-wallet-selected'' [])) s
      | Some w \<Rightarrow>
          (case cl_user_id (st_backend s) of
             None \<Rightarrow> on_registration (set_modal_error (tr U ''business-no-user-id-available'' [])) s
           | Some u \<Rightarrow>
               close_registration (upd_backend (device_registered w
                 \<lparr>ri_user = u, ri_fingerprint = fg, ri_registered = True, ri_registered_alias = Some alias,
                  ri_proof = hmac\<rparr>) s)))"

definition on_registration_result ::
  "ui_ops \<Rightarrow> string + fingerprint \<times> nat list option \<times> string \<Rightarrow> installer \<Rightarrow> installer" where
  "on_registration_result U r s =
     (case r of
        Inl e \<Rightarrow> on_registration (set_modal_error (hardware_wallet_error_message U e)) s
      | Inr (fg, hmac, alias) \<Rightarrow>
          (let is_coldcard = (case Option.bind (rv_modal (vw_registration (st_views s))) rm_device_kind of
                                Some k \<Rightarrow> k = ''Coldcard'' | None \<Rightarrow> False)
           in if is_coldcard
              then on_registration (\<lambda>r. r\<lparr>rv_modal := map_option (\<lambda>m. m\<lparr>rm_step := ConfirmColdcard hmac alias\<rparr>)
                     (rv_modal r)\<rparr>) s
              else send_device_registered U fg hmac alias s))"

definition on_registration_retry :: "ui_ops \<Rightarrow> installer \<Rightarrow> installer \<times> task" where
  "on_registration_retry U s =
     (case rv_modal (vw_registration (st_views s)) of
        None \<Rightarrow> (s, Task_None)
      | Some m \<Rightarrow> on_registration_select_device U (rm_fingerprint m) (close_registration s))"

definition on_registration_confirm_yes :: "ui_ops \<Rightarrow> installer \<Rightarrow> installer" where
  "on_registration_confirm_yes U s =
     (case rv_modal (vw_registration (st_views s)) of
        None \<Rightarrow> s
      | Some m \<Rightarrow>
          (case rm_step m of
             ConfirmColdcard hmac name \<Rightarrow> send_device_registered U (rm_fingerprint m) hmac name s
           | _ \<Rightarrow> s))"

definition skipped :: "uuid \<Rightarrow> fingerprint \<Rightarrow> registration_infos" where
  "skipped u fg = \<lparr>ri_user = u, ri_fingerprint = fg, ri_registered = False, ri_registered_alias = None,
     ri_proof = None\<rparr>"

definition on_registration_skip :: "fingerprint \<Rightarrow> installer \<Rightarrow> installer" where
  "on_registration_skip fg s =
     (case (as_selected_wallet (st_app s), cl_user_id (st_backend s)) of
        (Some w, Some u) \<Rightarrow>
          on_registration (\<lambda>r. r\<lparr>rv_user_devices := filter (\<lambda>d. d \<noteq> fg) (rv_user_devices r)\<rparr>)
            (upd_backend (device_registered w (skipped u fg)) s)
      | _ \<Rightarrow> s)"

definition on_registration_skip_all :: "installer \<Rightarrow> installer \<times> task" where
  "on_registration_skip_all s =
     (case (as_selected_wallet (st_app s), cl_user_id (st_backend s)) of
        (Some w, Some u) \<Rightarrow>
          exit_to_wallet (stop_hw (fold (\<lambda>fg. upd_backend (device_registered w (skipped u fg)))
            (rv_user_devices (vw_registration (st_views s))) s))
      | _ \<Rightarrow> (s, Task_None))"

end
