(* ===== verification/Installer_Update.thy ===== *)
theory Installer_Update
  imports Device_Handlers
begin

text \<open>
  The message loop of the business installer: the handlers of login and logout, of the notifications
  of the backend, and \<open>State::update\<close>, which gives every message to its handler
  (\<open>state/message.rs\<close>, \<open>state/update.rs\<close>). The record \<open>env\<close> holds what a step reads of the outside:
  the accounts of the cache file that are still valid with those to remove, and whether the mail
  program opened.
\<close>

record env =
  ev_accounts :: "(string \<times> string) list"
  ev_to_remove :: "string list"
  ev_mail_opened :: bool

section \<open>Login\<close>

definition auth_code :: "string \<Rightarrow> installer \<Rightarrow> installer" where
  "auth_code c s = log_call (Call_AuthCode c) s"

definition on_login_update_code :: "ui_ops \<Rightarrow> string \<Rightarrow> installer \<Rightarrow> installer" where
  "on_login_update_code U c s =
     (let s = on_login (update_code U c) s in
      if code_can_send (vw_login (st_views s))
      then on_login (\<lambda>l. l\<lparr>lg_code_processing := True\<rparr>) (auth_code (fv_value (lg_code (vw_login (st_views s)))) s)
      else s)"

definition on_login_send_token :: "installer \<Rightarrow> installer" where
  "on_login_send_token s =
     (let f = lg_email (vw_login (st_views s)) in
      if fv_valid f \<and> fv_value f \<noteq> [] then
        log_call (Call_AuthRequest (fv_value f)) (upd_backend (\<lambda>c. c\<lparr>cl_email := Some (fv_value f)\<rparr>)
          (on_login (\<lambda>l. l\<lparr>lg_email_processing := True\<rparr>) s))
      else s)"

definition on_login_send_auth_code :: "installer \<Rightarrow> installer" where
  "on_login_send_auth_code s = auth_code (trim (fv_value (lg_code (vw_login (st_views s))))) s"

definition clear_invalid_tokens :: "string list \<Rightarrow> installer \<Rightarrow> installer" where
  "clear_invalid_tokens es s = (if es = [] then s else log_call (Call_ClearTokens es) s)"

definition connect :: "installer \<Rightarrow> installer" where
  "connect s = log_call (Call_ConnectWs (st_network s)) (upd_backend connect_ws s)"

definition on_account_connect :: "string \<Rightarrow> installer \<Rightarrow> installer" where
  "on_account_connect email s =
     (case find (\<lambda>a. fst a = email) (lg_accounts (vw_login (st_views s))) of
        None \<Rightarrow> s
      | Some (_, token) \<Rightarrow>
          connect (upd_backend (set_token token)
            (on_login (\<lambda>l. l\<lparr>lg_account_processing := True, lg_selected_email := Some email,
               lg_email := (lg_email l)\<lparr>fv_value := email\<rparr>\<rparr>) s)))"

definition on_account_new_email :: "installer \<Rightarrow> installer \<times> task" where
  "on_account_new_email s =
     (on_login (\<lambda>l. l\<lparr>lg_current := EmailEntry, lg_email := \<lparr>fv_value = [], fv_warning = None, fv_valid = False\<rparr>\<rparr>) s,
      Task_Focus ''login_email'')"

definition drop_account :: "string \<Rightarrow> login \<Rightarrow> login" where
  "drop_account email l = l\<lparr>lg_accounts := filter (\<lambda>a. fst a \<noteq> email) (lg_accounts l)\<rparr>"

definition on_account_delete :: "string \<Rightarrow> installer \<Rightarrow> installer" where
  "on_account_delete email s =
     on_login (\<lambda>l. if lg_accounts l = [] then l\<lparr>lg_current := EmailEntry\<rparr> else l)
       (on_login (drop_account email) (clear_invalid_tokens [email] s))"

definition on_escape_pressed :: "env \<Rightarrow> installer \<Rightarrow> installer" where
  "on_escape_pressed E s =
     (if st_network s \<noteq> Net_Bitcoin then s
      else if st_view s \<noteq> View_Login then s
      else
        let s = upd_app (\<lambda>a. a\<lparr>as_escapes := min 255 (as_escapes a + 1)\<rparr>) s in
        if as_escapes (st_app s) < 3 then s
        else
          on_login (\<lambda>l. with_cached_accounts (ev_accounts E))
            (clear_invalid_tokens (ev_to_remove E)
              (log_call (Call_SetNetwork Net_Signet)
                (upd_backend (\<lambda>c. c\<lparr>cl_network := Some Net_Signet\<rparr>) (s\<lparr>st_network := Net_Signet\<rparr>)))))"

section \<open>Notifications\<close>

definition on_backend_connected :: "installer \<Rightarrow> installer" where
  "on_backend_connected s =
     log_call Call_StartRefresh
       (if lg_account_processing (vw_login (st_views s)) then
          (on_login (\<lambda>l. l\<lparr>lg_current := Authenticated, lg_account_processing := False,
             lg_selected_email := None\<rparr>) s)\<lparr>st_view := View_OrgSelect\<rparr>
        else s)"

definition on_backend_auth_code_sent :: "installer \<Rightarrow> installer \<times> task" where
  "on_backend_auth_code_sent s =
     (on_login (\<lambda>l. l\<lparr>lg_current := CodeEntry, lg_code := empty_form, lg_email_processing := False\<rparr>) s,
      Task_Focus ''login_code'')"

definition email_refused :: "ui_ops \<Rightarrow> string \<Rightarrow> installer \<Rightarrow> installer" where
  "email_refused U why s =
     on_login (\<lambda>l. l\<lparr>lg_email := (lg_email l)\<lparr>fv_valid := False, fv_warning := Some (tr U why [])\<rparr>,
       lg_email_processing := False\<rparr>) s"

definition on_backend_login_success :: "installer \<Rightarrow> installer" where
  "on_backend_login_success s =
     connect (upd_app (\<lambda>a. a\<lparr>as_reconnecting := True\<rparr>)
       ((on_login (\<lambda>l. l\<lparr>lg_current := Authenticated, lg_code := (lg_code l)\<lparr>fv_value := []\<rparr>,
           lg_code_processing := False\<rparr>) s)\<lparr>st_view := View_OrgSelect\<rparr>))"

definition on_backend_login_fail :: "ui_ops \<Rightarrow> installer \<Rightarrow> installer" where
  "on_backend_login_fail U s =
     on_login (\<lambda>l. l\<lparr>lg_code := (lg_code l)\<lparr>fv_valid := False, fv_warning := Some (tr U ''business-login-failed'' [])\<rparr>,
       lg_code_processing := False\<rparr>) s"

definition after_accounts :: "login \<Rightarrow> login" where
  "after_accounts l = l\<lparr>lg_current := (if lg_accounts l = [] then EmailEntry else AccountSelect)\<rparr>"

definition cached_connection_failed :: "ui_ops \<Rightarrow> installer \<Rightarrow> installer" where
  "cached_connection_failed U s =
     (let failed = (case lg_selected_email (vw_login (st_views s)) of None \<Rightarrow> [] | Some e \<Rightarrow> e);
          s = on_login (\<lambda>l. l\<lparr>lg_selected_email := None, lg_account_processing := False\<rparr>) s;
          s = (if failed \<noteq> [] then clear_invalid_tokens [failed] s else s);
          s = on_login (drop_account failed) s;
          s = show_warning_modal (tr U ''common-connection-failed'' [])
                (tr U ''business-account-connection-failed'' [(''email'', failed)]) s
      in on_login after_accounts s)"

text \<open>The text of an error is left to the parameter of the translations.\<close>

definition on_backend_error :: "ui_ops \<Rightarrow> (backend_error \<Rightarrow> string) \<Rightarrow> backend_error \<Rightarrow> installer \<Rightarrow> installer" where
  "on_backend_error U show_error e s =
     (if lg_account_processing (vw_login (st_views s)) then cached_connection_failed U s
      else
        let s = on_login (\<lambda>l. l\<lparr>lg_email_processing := False, lg_code_processing := False\<rparr>) s in
        if show_warning e then show_warning_modal (tr U ''business-backend-error'' []) (show_error e) s else s)"

definition on_backend_disconnected :: "ui_ops \<Rightarrow> installer \<Rightarrow> installer" where
  "on_backend_disconnected U s =
     (if lg_account_processing (vw_login (st_views s)) then cached_connection_failed U s
      else show_warning_modal (tr U ''business-connection-error'' [])
             (tr U ''business-lost-connection-restart'' []) s)"

definition on_backend_user :: "uuid \<Rightarrow> installer \<Rightarrow> installer" where
  "on_backend_user i s =
     (let s = s\<lparr>st_pending_fetches := filter (\<lambda>j. j \<noteq> i) (st_pending_fetches s)\<rparr>;
          s = (case get_user (st_backend s) i of
                 None \<Rightarrow> s
               | Some u \<Rightarrow>
                   if to_lowercase (u_email u) = to_lowercase (login_email s)
                   then upd_app (\<lambda>a. a\<lparr>as_global_role := Some (u_role u)\<rparr>) s else s)
      in refresh_signers s)"

definition on_backend_notif ::
  "ui_ops \<Rightarrow> (backend_error \<Rightarrow> string) \<Rightarrow> notification \<Rightarrow> installer \<Rightarrow> installer \<times> task" where
  "on_backend_notif U show_error n s =
     (case n of
        N_Connected \<Rightarrow> (on_backend_connected s, Task_None)
      | N_Disconnected \<Rightarrow> (on_backend_disconnected U s, Task_None)
      | N_AuthCodeSent \<Rightarrow> on_backend_auth_code_sent s
      | N_InvalidEmail \<Rightarrow> (email_refused U ''settings-email-invalid'' s, Task_None)
      | N_AuthCodeFail \<Rightarrow> (email_refused U ''business-auth-code-request-failed'' s, Task_None)
      | N_LoginSuccess \<Rightarrow> (on_backend_login_success s, Task_None)
      | N_LoginFail \<Rightarrow> (on_backend_login_fail U s, Task_None)
      | N_Error e \<Rightarrow> (on_backend_error U show_error e s, Task_None)
      | N_Org i \<Rightarrow> (s, Task_None)
      | N_Wallet i \<Rightarrow> on_backend_wallet U i s
      | N_User i \<Rightarrow> (on_backend_user i s, Task_None)
      | N_Update \<Rightarrow> (s, Task_None))"

section \<open>Logout\<close>

definition on_logout :: "env \<Rightarrow> installer \<Rightarrow> installer \<times> task" where
  "on_logout E s =
     (let s = upd_backend client_logout s;
          s = clear_invalid_tokens (ev_to_remove E) s;
          s = on_login (\<lambda>l. with_cached_accounts (ev_accounts E)) s;
          s = upd_app (\<lambda>a. a\<lparr>as_selected_org := None, as_selected_wallet := None, as_wallet_template := None,
                as_global_role := None, as_reconnecting := False, as_exit := False\<rparr>) s;
          s = s\<lparr>st_view := View_Login\<rparr>
      in (s, if lg_current (vw_login (st_views s)) = EmailEntry then Task_Focus ''login_email'' else Task_None))"

definition on_back_to_login :: "installer \<Rightarrow> installer \<times> task" where
  "on_back_to_login s =
     (let s = s\<lparr>st_connection_error := None\<rparr>;
          failed = (case lg_selected_email (vw_login (st_views s)) of None \<Rightarrow> [] | Some e \<Rightarrow> e);
          s = on_login (\<lambda>l. l\<lparr>lg_selected_email := None\<rparr>) s;
          s = (if failed \<noteq> [] then clear_invalid_tokens [failed] s else s);
          s = on_login (\<lambda>l. after_accounts (drop_account failed l)) s;
          s = s\<lparr>st_view := View_Login\<rparr>
      in (s, if lg_current (vw_login (st_views s)) = EmailEntry then Task_Focus ''login_email'' else Task_None))"

section \<open>Help\<close>

definition on_help_show :: "installer \<Rightarrow> installer" where
  "on_help_show s =
     upd_views (\<lambda>v. v\<lparr>vw_help := Some (case selected_wallet s of None \<Rightarrow> ''this wallet'' | Some w \<Rightarrow> w_alias w)\<rparr>) s"

definition help_subject :: "string \<Rightarrow> string" where
  "help_subject name = ''Changes needed before I can approve '' @ [CHR 0x22] @ name @ [CHR 0x22]"

definition help_body :: "string \<Rightarrow> string" where
  "help_body name = ''Hi,'' @ [CHR 0x0A, CHR 0x0A] @ ''I reviewed the template for '' @ name
     @ '' and can'' @ [CHR 0x27] @ ''t approve it as-is. Could you adjust:'' @ [CHR 0x0A, CHR 0x0A]
     @ ''<your requirements>'' @ [CHR 0x0A, CHR 0x0A] @ ''Thanks.''"

definition on_help_email :: "ui_ops \<Rightarrow> env \<Rightarrow> installer \<Rightarrow> installer" where
  "on_help_email U E s =
     (let name = (case vw_help (st_views s) of None \<Rightarrow> ''this wallet'' | Some n \<Rightarrow> n);
          s = log_call (Call_OpenMail (help_subject name) (help_body name)) s
      in if ev_mail_opened E then s
         else show_warning_modal (tr U ''business-email-app-open-failed'' [])
                (tr U ''business-email-app-open-failed-message'' []) s)"

section \<open>Messages\<close>

text \<open>The messages of \<open>Msg\<close>, in the groups of its comments.\<close>

datatype login_msg =
    LoginUpdateEmail string | LoginUpdateCode string | LoginSendToken | LoginResendToken | LoginSendAuthCode
  | Disconnect | AccountSelectConnect string | AccountSelectDelete string | AccountSelectNewEmail
  | EscapePressed | BackToLogin

datatype select_msg =
    OrgSelected uuid | OrgWalletSelected uuid | WalletSelectUpdateSearchFilter string | OrgSelectUpdateSearchFilter string

datatype key_msg =
    KeyAdd | KeyEdit nat | KeyDelete nat | KeySave | MarkKeysReady bool | KeyCancelModal | KeyUpdateAlias string
  | KeyUpdateDescr string | KeyUpdateEmail string | KeySelectSigner string | KeyUpdateToken string
  | KeyUpdateType key_type

datatype path_msg =
    AddKeyToPrimary nat | DelKeyFromPrimary nat | AddKeyToSecondary nat nat | DelKeyFromSecondary nat nat
  | AddSecondaryPath | DeleteSecondaryPath nat | EditPath bool "nat option" | NewPathModal | ToggleKeyInPath nat
  | SavePath | CancelPathModal | UpdateThreshold string | UpdateTimelock string | UpdateTimelockUnit timelock_unit

datatype template_msg = Lock | Unlock | Validate | HelpShowModal | HelpCloseModal | HelpEmailWs

datatype navigate_msg =
    NavigateToHome | NavigateToKeys | NavigateToOrgSelect | NavigateToWalletSelect | NavigateBack

datatype backend_msg = BackendNotif notification | BackendDisconnected

datatype xpub_msg =
    HardwareWallets hw_message | XpubSelectKey nat | XpubUpdateInput string | XpubSelectDevice fingerprint
  | XpubDeviceBack | XpubFetchFromDevice fingerprint child_number nat | XpubRetry | XpubLoadFromFile
  | XpubFileLoaded "string + string \<times> string" | XpubSelectPaste | XpubPaste | XpubPasted string
  | XpubUpdateAccount child_number | XpubSave | XpubClear | XpubCancelModal | XpubToggleOptions

datatype registration_msg =
    RegSelectDevice fingerprint | RegResult "string + fingerprint \<times> nat list option \<times> string"
  | RegCancelModal | RegRetry | RegConfirmYes | RegConfirmNo | RegSkip fingerprint | RegSkipAll

datatype dialog_msg =
    WarningShowModal string string | WarningCloseModal | ConflictReload | ConflictKeepLocal | ConflictDismiss | Update

datatype msg =
    Msg_Login login_msg | Msg_Select select_msg | Msg_Key key_msg | Msg_Path path_msg | Msg_Template template_msg
  | Msg_Navigate navigate_msg | Msg_Backend backend_msg | Msg_Xpub xpub_msg | Msg_Registration registration_msg
  | Msg_Dialog dialog_msg

text \<open>The record of the parameters and of the outside of one step.\<close>

record ctx =
  cx_ops :: ui_ops
  cx_show_error :: "backend_error \<Rightarrow> string"
  cx_env :: env

definition quiet :: "installer \<Rightarrow> installer \<times> task" where
  "quiet s = (s, Task_None)"

fun login_update :: "ctx \<Rightarrow> login_msg \<Rightarrow> installer \<Rightarrow> installer \<times> task" where
  "login_update X (LoginUpdateEmail e) s = quiet (on_login (update_email (cx_ops X) e) s)"
| "login_update X (LoginUpdateCode c) s = quiet (on_login_update_code (cx_ops X) c s)"
| "login_update X LoginSendToken s = quiet (on_login_send_token s)"
| "login_update X LoginResendToken s = quiet (on_login_send_token s)"
| "login_update X LoginSendAuthCode s = quiet (on_login_send_auth_code s)"
| "login_update X (AccountSelectConnect e) s = quiet (on_account_connect e s)"
| "login_update X (AccountSelectDelete e) s = quiet (on_account_delete e s)"
| "login_update X AccountSelectNewEmail s = on_account_new_email s"
| "login_update X EscapePressed s = quiet (on_escape_pressed (cx_env X) s)"
| "login_update X Disconnect s = on_logout (cx_env X) s"
| "login_update X BackToLogin s = on_back_to_login s"

fun select_update :: "ctx \<Rightarrow> select_msg \<Rightarrow> installer \<Rightarrow> installer \<times> task" where
  "select_update X (OrgSelected i) s = quiet (on_org_selected i s)"
| "select_update X (OrgWalletSelected i) s = on_wallet_selected (cx_ops X) i s"
| "select_update X (WalletSelectUpdateSearchFilter v) s = quiet (upd_views (\<lambda>w. w\<lparr>vw_wallet_filter := v\<rparr>) s)"
| "select_update X (OrgSelectUpdateSearchFilter v) s = quiet (upd_views (\<lambda>w. w\<lparr>vw_org_filter := v\<rparr>) s)"

fun key_update :: "ctx \<Rightarrow> key_msg \<Rightarrow> installer \<Rightarrow> installer" where
  "key_update X KeyCancelModal s = upd_views (\<lambda>v. v\<lparr>vw_key := None\<rparr>) s"
| "key_update X (KeyUpdateAlias v) s = on_key_update_alias v s"
| "key_update X (KeyUpdateDescr v) s = on_key_modal (\<lambda>m. m\<lparr>km_description := v\<rparr>) s"
| "key_update X (KeyUpdateEmail v) s = on_key_update_email v s"
| "key_update X (KeySelectSigner e) s = on_key_select_signer e s"
| "key_update X (KeyUpdateToken v) s = on_key_modal (update_token (cx_ops X) v (as_keys (st_app s))) s"
| "key_update X (KeyUpdateType ty) s = on_key_update_type ty s"
| "key_update X KeyAdd s = on_key_add s"
| "key_update X (KeyEdit i) s = on_key_edit i s"
| "key_update X (KeyDelete i) s = on_key_delete i s"
| "key_update X KeySave s = on_key_save s"
| "key_update X (MarkKeysReady r) s = on_mark_keys_ready r s"

fun path_update :: "ctx \<Rightarrow> path_msg \<Rightarrow> installer \<Rightarrow> installer" where
  "path_update X CancelPathModal s = upd_views (\<lambda>v. v\<lparr>vw_path := None\<rparr>) s"
| "path_update X (UpdateThreshold v) s = on_path_modal (update_threshold v) s"
| "path_update X (UpdateTimelock v) s = on_path_modal (update_timelock v) s"
| "path_update X (UpdateTimelockUnit u) s = on_path_modal (\<lambda>m. m\<lparr>pm_unit := u\<rparr>) s"
| "path_update X (ToggleKeyInPath i) s = on_path_modal (toggle_key i) s"
| "path_update X (AddKeyToPrimary i) s = on_add_key_to_primary i s"
| "path_update X (DelKeyFromPrimary i) s = on_del_key_from_primary i s"
| "path_update X (AddKeyToSecondary n i) s = on_add_key_to_secondary n i s"
| "path_update X (DelKeyFromSecondary n i) s = on_del_key_from_secondary n i s"
| "path_update X AddSecondaryPath s = on_add_secondary_path s"
| "path_update X (DeleteSecondaryPath n) s = on_delete_secondary_path n s"
| "path_update X (EditPath p n) s = on_edit_path p n s"
| "path_update X NewPathModal s = on_new_path_modal s"
| "path_update X SavePath s = on_save_path s"

fun template_update :: "ctx \<Rightarrow> template_msg \<Rightarrow> installer \<Rightarrow> installer" where
  "template_update X Lock s = on_lock s"
| "template_update X Unlock s = on_unlock s"
| "template_update X Validate s = on_validate s"
| "template_update X HelpShowModal s = on_help_show s"
| "template_update X HelpCloseModal s = upd_views (\<lambda>v. v\<lparr>vw_help := None\<rparr>) s"
| "template_update X HelpEmailWs s = on_help_email (cx_ops X) (cx_env X) s"

fun navigate_update :: "navigate_msg \<Rightarrow> installer \<Rightarrow> installer \<times> task" where
  "navigate_update NavigateToHome s = quiet (s\<lparr>st_view := View_TemplateEdit\<rparr>)"
| "navigate_update NavigateToKeys s = quiet (s\<lparr>st_view := View_Keys\<rparr>)"
| "navigate_update NavigateToOrgSelect s = quiet (on_navigate_to_org_select s)"
| "navigate_update NavigateToWalletSelect s = quiet (on_navigate_to_wallet_select s)"
| "navigate_update NavigateBack s = on_navigate_back s"

fun backend_update :: "ctx \<Rightarrow> backend_msg \<Rightarrow> installer \<Rightarrow> installer \<times> task" where
  "backend_update X (BackendNotif n) s = on_backend_notif (cx_ops X) (cx_show_error X) n s"
| "backend_update X BackendDisconnected s = quiet (on_backend_disconnected (cx_ops X) s)"

fun xpub_update :: "ctx \<Rightarrow> xpub_msg \<Rightarrow> installer \<Rightarrow> installer \<times> task" where
  "xpub_update X (HardwareWallets m) s = quiet (on_hw_message (cx_ops X) m s)"
| "xpub_update X (XpubSelectKey i) s = quiet (on_xpub_select_key (cx_ops X) i s)"
| "xpub_update X (XpubUpdateInput v) s = quiet (on_xpub_modal (\<lambda>m. m\<lparr>xm_input := v\<rparr>) s)"
| "xpub_update X (XpubSelectDevice fg) s = on_xpub_select_device fg s"
| "xpub_update X XpubDeviceBack s = quiet (on_xpub_modal go_back s)"
| "xpub_update X (XpubFetchFromDevice fg acc rid) s = quiet (on_xpub_fetch_from_device (cx_ops X) fg acc rid s)"
| "xpub_update X XpubRetry s = on_xpub_retry s"
| "xpub_update X XpubLoadFromFile s = (s, Task_PickFile)"
| "xpub_update X (XpubFileLoaded r) s = quiet (on_xpub_file_loaded r s)"
| "xpub_update X XpubSelectPaste s = quiet (on_xpub_select_paste s)"
| "xpub_update X XpubPaste s = (s, Task_Clipboard)"
| "xpub_update X (XpubPasted t) s = quiet (on_xpub_pasted t s)"
| "xpub_update X (XpubUpdateAccount acc) s = on_xpub_update_account acc s"
| "xpub_update X XpubSave s = quiet (on_xpub_save (cx_ops X) s)"
| "xpub_update X XpubClear s = quiet (on_xpub_clear s)"
| "xpub_update X XpubCancelModal s = quiet (stop_hw (close_xpub s))"
| "xpub_update X XpubToggleOptions s =
     quiet (on_xpub_modal (\<lambda>m. m\<lparr>xm_options_collapsed := \<not> xm_options_collapsed m\<rparr>) s)"

fun registration_update :: "ctx \<Rightarrow> registration_msg \<Rightarrow> installer \<Rightarrow> installer \<times> task" where
  "registration_update X (RegSelectDevice fg) s = on_registration_select_device (cx_ops X) fg s"
| "registration_update X (RegResult r) s = quiet (on_registration_result (cx_ops X) r s)"
| "registration_update X RegCancelModal s = quiet (close_registration s)"
| "registration_update X RegRetry s = on_registration_retry (cx_ops X) s"
| "registration_update X RegConfirmYes s = quiet (on_registration_confirm_yes (cx_ops X) s)"
| "registration_update X RegConfirmNo s = quiet (close_registration s)"
| "registration_update X (RegSkip fg) s = quiet (on_registration_skip fg s)"
| "registration_update X RegSkipAll s = on_registration_skip_all s"

fun dialog_update :: "dialog_msg \<Rightarrow> installer \<Rightarrow> installer" where
  "dialog_update (WarningShowModal t m) s = show_warning_modal t m s"
| "dialog_update WarningCloseModal s = upd_views (\<lambda>v. v\<lparr>vw_warning := None\<rparr>) s"
| "dialog_update ConflictReload s = on_conflict_reload s"
| "dialog_update ConflictKeepLocal s = close_conflict s"
| "dialog_update ConflictDismiss s = close_conflict s"
| "dialog_update Update s = s"

fun installer_update :: "ctx \<Rightarrow> msg \<Rightarrow> installer \<Rightarrow> installer \<times> task" where
  "installer_update X (Msg_Login m) s = login_update X m s"
| "installer_update X (Msg_Select m) s = select_update X m s"
| "installer_update X (Msg_Key m) s = quiet (key_update X m s)"
| "installer_update X (Msg_Path m) s = quiet (path_update X m s)"
| "installer_update X (Msg_Template m) s = quiet (template_update X m s)"
| "installer_update X (Msg_Navigate m) s = navigate_update m s"
| "installer_update X (Msg_Backend m) s = backend_update X m s"
| "installer_update X (Msg_Xpub m) s = xpub_update X m s"
| "installer_update X (Msg_Registration m) s = registration_update X m s"
| "installer_update X (Msg_Dialog m) s = quiet (dialog_update m s)"

end
