(* ===== verification/Ws_Client_Lemmas.thy ===== *)
theory Ws_Client_Lemmas
  imports Ws_Client
begin

text \<open>
  What the thread of the connection keeps of the client: the caches are ordered and indexed by the
  identifiers of what they hold, what an organisation or a wallet refers to is cached or asked for,
  a message that is refused changes no cache; and the interface \<open>backend\<close> through which the views use
  the client (the trait \<open>Backend\<close> of \<open>backend.rs\<close>), with its laws.
\<close>

section \<open>Invariant of the caches\<close>

definition indexed :: "('v \<Rightarrow> uuid) \<Rightarrow> (uuid, 'v) btree \<Rightarrow> bool" where
  "indexed key_of m \<longleftrightarrow> bt_ok m \<and> (\<forall>(i, v) \<in> set m. key_of v = i)"

definition cache_ok :: "ws_client \<Rightarrow> bool" where
  "cache_ok c \<longleftrightarrow> indexed org_id (cl_orgs c) \<and> indexed w_id (cl_wallets c) \<and> indexed u_uuid (cl_users c)
     \<and> bt_ok (cl_sent c)"

lemma subset_bt_insert: "set (bt_insert k v m) \<subseteq> insert (k, v) (set m)"
  by (induction m) auto

lemma indexed_empty [simp]: "indexed key_of []"
  by (simp add: indexed_def)

lemma indexed_insert [simp]: "indexed key_of m \<Longrightarrow> key_of v = i \<Longrightarrow> indexed key_of (bt_insert i v m)"
  using subset_bt_insert unfolding indexed_def by (fastforce simp: bt_ok_insert)

lemma indexed_remove [simp]: "indexed key_of m \<Longrightarrow> indexed key_of (bt_remove i m)"
  unfolding indexed_def by (auto simp: bt_ok_remove) (auto simp: bt_remove_def)

lemma indexed_modify [simp]: "indexed key_of m \<Longrightarrow> (\<And>v. key_of (f v) = key_of v) \<Longrightarrow> indexed key_of (bt_modify i f m)"
proof -
  assume "indexed key_of m" "\<And>v. key_of (f v) = key_of v"
  then have "\<forall>(j, v) \<in> set (bt_modify i f m). key_of v = j"
    by (auto simp: indexed_def bt_modify_def)
  with \<open>indexed key_of m\<close> show ?thesis by (simp add: indexed_def)
qed

lemma indexed_get: "indexed key_of m \<Longrightarrow> map_of m i = Some v \<Longrightarrow> key_of v = i"
  unfolding indexed_def using map_of_SomeD by fastforce

section \<open>What sending and asking change\<close>

lemma send_notif_fields [simp]:
  "cl_orgs (send_notif n c) = cl_orgs c" "cl_wallets (send_notif n c) = cl_wallets c"
  "cl_users (send_notif n c) = cl_users c" "cl_sent (send_notif n c) = cl_sent c"
  "cl_outbox (send_notif n c) = cl_outbox c" "cl_notifs (send_notif n c) = cl_notifs c @ [n]"
  "cl_user_id (send_notif n c) = cl_user_id c" "cl_connected (send_notif n c) = cl_connected c"
  "cl_has_sender (send_notif n c) = cl_has_sender c"
  by (simp_all add: send_notif_def)

lemma send_request_fields [simp]:
  "cl_orgs (send_request r c) = cl_orgs c" "cl_wallets (send_request r c) = cl_wallets c"
  "cl_users (send_request r c) = cl_users c" "cl_sent (send_request r c) = cl_sent c"
  "cl_outbox (send_request r c) = cl_outbox c @ [r]" "cl_notifs (send_request r c) = cl_notifs c"
  "cl_user_id (send_request r c) = cl_user_id c" "cl_connected (send_request r c) = cl_connected c"
  "cl_has_sender (send_request r c) = cl_has_sender c"
  by (simp_all add: send_request_def)

text \<open>\<open>asks c c'\<close>: \<open>c'\<close> differs from \<open>c\<close> only in requests to fetch that were added.\<close>

fun is_fetch :: "ws_request \<Rightarrow> bool" where
  "is_fetch (Rq_FetchUser i) = True"
| "is_fetch (Rq_FetchWallet i) = True"
| "is_fetch _ = False"

definition asks :: "ws_client \<Rightarrow> ws_client \<Rightarrow> bool" where
  "asks c c' \<longleftrightarrow> (\<exists>rs. list_all is_fetch rs \<and> c' = c\<lparr>cl_outbox := cl_outbox c @ rs\<rparr>)"

lemma asks_refl [simp]: "asks c c"
  unfolding asks_def by (rule exI [of _ "[]"]) simp

lemma asks_trans: "asks c c' \<Longrightarrow> asks c' c'' \<Longrightarrow> asks c c''"
  unfolding asks_def by (elim exE conjE) (rule_tac x = "rs @ rsa" in exI, simp)

lemma asks_send: "is_fetch r \<Longrightarrow> asks c (send_request r c)"
  unfolding asks_def send_request_def by (rule exI [of _ "[r]"]) simp

lemma asks_fetch_user_maybe [simp]: "asks c (fetch_user_maybe u c)"
  by (auto simp: fetch_user_maybe_def asks_send split: option.split)

lemma asks_fold: "(\<And>x c. asks c (f x c)) \<Longrightarrow> asks c (fold f xs c)"
  by (induction xs arbitrary: c) (auto intro: asks_trans)

lemma asks_fields:
  assumes "asks c c'"
  shows "cl_orgs c' = cl_orgs c" "cl_wallets c' = cl_wallets c" "cl_users c' = cl_users c"
    "cl_sent c' = cl_sent c" "cl_notifs c' = cl_notifs c" "cl_user_id c' = cl_user_id c"
    "cl_connected c' = cl_connected c" "cl_has_sender c' = cl_has_sender c"
    "\<exists>rs. list_all is_fetch rs \<and> cl_outbox c' = cl_outbox c @ rs"
  using assms by (auto simp: asks_def)

section \<open>The handlers\<close>

text \<open>An organisation: the caches, and the requests for what they lack.\<close>

definition ask_missing :: "('i \<Rightarrow> ws_client \<Rightarrow> bool) \<Rightarrow> ('i \<Rightarrow> ws_request) \<Rightarrow> 'i list \<Rightarrow> ws_client \<Rightarrow> ws_client" where
  "ask_missing known rq is c = fold (\<lambda>i c. if known i c then c else send_request (rq i) c) is c"

lemma ask_missing_outbox:
  assumes "\<And>i c r. known i (send_request r c) = known i c"
  shows "cl_outbox (ask_missing known rq is c) = cl_outbox c @ map rq (filter (\<lambda>i. \<not> known i c) is)"
  unfolding ask_missing_def
  by (induction "is" arbitrary: c) (auto simp: assms)

lemma asks_ask_missing: "(\<And>i. is_fetch (rq i)) \<Longrightarrow> asks c (ask_missing known rq is c)"
  unfolding ask_missing_def
  by (rule asks_fold) (auto simp: asks_send)

lemma handle_org_eq:
  "handle_org x c =
     (let c = fetch_user_maybe (org_last_editor x) c;
          c = c\<lparr>cl_orgs := bt_insert (org_id x) x (cl_orgs c)\<rparr>;
          c = ask_missing (\<lambda>i c. bt_contains (cl_users c) i) Rq_FetchUser (org_users x) c;
          c = ask_missing (\<lambda>i c. bt_contains (cl_wallets c) i) Rq_FetchWallet (org_wallets x) c
      in send_notif (N_Org (org_id x)) c)"
  by (simp add: handle_org_def ask_missing_def)

lemmas ask_users = ask_missing_outbox [where known = "\<lambda>i c. bt_contains (cl_users c) i", simplified]
lemmas ask_wallets = ask_missing_outbox [where known = "\<lambda>i c. bt_contains (cl_wallets c) i", simplified]

lemma asks_missing_users [simp]: "asks c (ask_missing known Rq_FetchUser is c)"
  and asks_missing_wallets [simp]: "asks c (ask_missing known Rq_FetchWallet is c)"
  by (simp_all add: asks_ask_missing)

lemma handle_org_fields:
  "cl_orgs (handle_org x c) = bt_insert (org_id x) x (cl_orgs c)"
  "cl_wallets (handle_org x c) = cl_wallets c" "cl_users (handle_org x c) = cl_users c"
  "cl_sent (handle_org x c) = cl_sent c" "cl_notifs (handle_org x c) = cl_notifs c @ [N_Org (org_id x)]"
  by (simp_all add: handle_org_eq Let_def asks_fields [OF asks_missing_wallets]
        asks_fields [OF asks_missing_users] asks_fields [OF asks_fetch_user_maybe])

lemma handle_org_outbox:
  "cl_outbox (handle_org x c) =
     cl_outbox (fetch_user_maybe (org_last_editor x) c)
     @ map Rq_FetchUser (filter (\<lambda>i. \<not> bt_contains (cl_users c) i) (org_users x))
     @ map Rq_FetchWallet (filter (\<lambda>i. \<not> bt_contains (cl_wallets c) i) (org_wallets x))"
  by (simp add: handle_org_eq Let_def ask_users ask_wallets
        asks_fields [OF asks_missing_users] asks_fields [OF asks_fetch_user_maybe])

lemma asks_template_editors:
  "asks c (case t of None \<Rightarrow> c | Some t \<Rightarrow> fold fetch_user_maybe (template_editors t) c)"
  by (auto intro: asks_fold split: option.split)

lemma handle_wallet_fields:
  "cl_orgs (handle_wallet w c) = bt_modify (w_org w)
     (\<lambda>x. x\<lparr>org_wallets := insort_insert (w_id w) (org_wallets x)\<rparr>) (cl_orgs c)"
  "cl_wallets (handle_wallet w c) = bt_insert (w_id w) w (cl_wallets c)"
  "cl_users (handle_wallet w c) = cl_users c" "cl_sent (handle_wallet w c) = cl_sent c"
  "cl_notifs (handle_wallet w c) = cl_notifs c @ [N_Wallet (w_id w)]"
  by (simp_all add: handle_wallet_def Let_def asks_fields [OF asks_template_editors]
        asks_fields [OF asks_fetch_user_maybe])

lemma handle_user_fields:
  "cl_orgs (handle_user u c) = cl_orgs c" "cl_wallets (handle_user u c) = cl_wallets c"
  "cl_users (handle_user u c) = bt_insert (u_uuid u) u (cl_users c)" "cl_sent (handle_user u c) = cl_sent c"
  "cl_notifs (handle_user u c) = cl_notifs c @ [N_User (u_uuid u)]"
  by (simp_all add: handle_user_def Let_def asks_fields [OF asks_fetch_user_maybe])

lemmas handler_fields = handle_org_fields handle_wallet_fields handle_user_fields

lemma handle_response_cache_ok:
  assumes "cache_ok c"
  shows "cache_ok (handle_response rs c)"
  using assms
  by (cases rs)
     (auto simp: cache_ok_def handle_response_def handler_fields handle_pong_def
        handle_delete_user_org_def split: option.split)

lemma handle_error_cache_ok: "cache_ok c \<Longrightarrow> cache_ok (snd (handle_error e rid c))"
  by (auto simp: cache_ok_def handle_error_def Let_def bt_ok_remove unknown_user_def
        split: option.split ws_request.split)

lemma cache_ok_sent [simp]: "cache_ok c \<Longrightarrow> cache_ok (c\<lparr>cl_sent := bt_remove i (cl_sent c)\<rparr>)"
  by (simp add: cache_ok_def bt_ok_remove)

lemma handle_wss_message_cache_ok:
  assumes "cache_ok c"
  shows "cache_ok (snd (handle_wss_message C m c))"
  using assms
  by (auto simp: handle_wss_message_def Let_def handle_response_cache_ok handle_error_cache_ok
        split: sum.split option.split ws_response.split prod.split)

lemma client_new_cache_ok: "cache_ok client_new"
  by (simp add: cache_ok_def client_new_def dummy_user_def indexed_def bt_ok_def)

section \<open>The interface of the views\<close>

locale backend =
  fixes wallet_of :: "'c \<Rightarrow> uuid \<Rightarrow> wallet option"
    and user_of :: "'c \<Rightarrow> uuid \<Rightarrow> ws_user option"
    and org_of :: "'c \<Rightarrow> uuid \<Rightarrow> org option"
    and requests :: "'c \<Rightarrow> ws_request list"
    and post :: "ws_request \<Rightarrow> 'c \<Rightarrow> 'c"
  assumes wallet_post: "wallet_of (post r c) = wallet_of c"
    and user_post: "user_of (post r c) = user_of c"
    and org_post: "org_of (post r c) = org_of c"
    and post_appends: "requests (post r c) = requests c \<or> requests (post r c) = requests c @ [r]"
begin

text \<open>A request that is there after a sequence of posts was there before or is one of those posted.\<close>

lemma requests_post: "r' \<in> set (requests (post r c)) \<Longrightarrow> r' \<in> set (requests c) \<or> r' = r"
  using post_appends [of r c] by auto

lemma caches_post_all:
  "wallet_of (fold post rs c) = wallet_of c" "user_of (fold post rs c) = user_of c" "org_of (fold post rs c) = org_of c"
  by (induction rs arbitrary: c) (simp_all add: wallet_post user_post org_post)

lemma requests_post_all: "r' \<in> set (requests (fold post rs c)) \<Longrightarrow> r' \<in> set (requests c) \<or> r' \<in> set rs"
  by (induction rs arbitrary: c) (auto dest: requests_post)

end

lemma when_connected_fields [simp]:
  "cl_orgs (when_connected r c) = cl_orgs c" "cl_wallets (when_connected r c) = cl_wallets c"
  "cl_users (when_connected r c) = cl_users c" "cl_user_id (when_connected r c) = cl_user_id c"
  "cl_sent (when_connected r c) = cl_sent c" "cl_connected (when_connected r c) = cl_connected c"
  "cl_has_sender (when_connected r c) = cl_has_sender c"
  by (simp_all add: when_connected_def)

lemma when_connected_outbox:
  "cl_outbox (when_connected r c) = (if cl_connected c \<and> cl_has_sender c then cl_outbox c @ [r] else cl_outbox c)"
  by (simp add: when_connected_def)

interpretation ws: backend get_wallet get_user get_org cl_outbox when_connected
  by unfold_locales (auto simp: get_wallet_def get_user_def get_org_def when_connected_outbox fun_eq_iff split: option.split)

section \<open>What the views leave of the client\<close>

text \<open>
  \<open>kept E c c'\<close>: the requests awaiting an answer are the same, no wallet was added to the cache, the
  invariant is kept, and the edits sent in between are among \<open>E\<close>.
\<close>

definition kept :: "wallet set \<Rightarrow> ws_client \<Rightarrow> ws_client \<Rightarrow> bool" where
  "kept E c c' \<longleftrightarrow> cl_sent c' = cl_sent c \<and> set (cl_wallets c') \<subseteq> set (cl_wallets c) \<and> (cache_ok c \<longrightarrow> cache_ok c')
     \<and> (\<forall>w. Rq_EditWallet w \<in> set (cl_outbox c') \<longrightarrow> Rq_EditWallet w \<in> set (cl_outbox c) \<or> w \<in> E)"

lemma kept_refl [simp]: "kept E c c"
  by (simp add: kept_def)

lemma kept_trans: "kept E c c' \<Longrightarrow> kept E c' c'' \<Longrightarrow> kept E c c''"
  by (auto simp: kept_def)

lemma kept_mono: "kept E c c' \<Longrightarrow> E \<subseteq> E' \<Longrightarrow> kept E' c c'"
  by (auto simp: kept_def)

lemma cache_ok_when_connected [simp]: "cache_ok (when_connected r c) = cache_ok c"
  by (simp add: cache_ok_def)

lemma kept_post:
  assumes "kept E c c'" "\<And>w. r = Rq_EditWallet w \<Longrightarrow> w \<in> E"
  shows "kept E c (when_connected r c')"
  using assms by (auto simp: kept_def dest: ws.requests_post)

lemma kept_posts [simp]:
  "kept E c c' \<Longrightarrow> kept E c (edit_xpub i x k c')" "kept E c c' \<Longrightarrow> kept E c (device_registered i infos c')"
  "kept E c c' \<Longrightarrow> kept E c (fetch_user j c')"
  unfolding edit_xpub_def device_registered_def fetch_user_def by (auto intro: kept_post)

lemma kept_edit: "kept E c c' \<Longrightarrow> w \<in> E \<Longrightarrow> kept E c (edit_wallet w c')"
  unfolding edit_wallet_def by (rule kept_post) auto

lemma kept_client_upd [simp]:
  "kept E c c' \<Longrightarrow> kept E c (connect_ws c')" "kept E c c' \<Longrightarrow> kept E c (set_token t c')"
  "kept E c c' \<Longrightarrow> kept E c (c'\<lparr>cl_email := e\<rparr>)" "kept E c c' \<Longrightarrow> kept E c (c'\<lparr>cl_network := n\<rparr>)"
  by (auto simp: kept_def connect_ws_def client_close_def set_token_def cache_ok_def Let_def)

lemma kept_logout [simp]: "kept E c c' \<Longrightarrow> kept E c (client_logout c')"
  by (auto simp: kept_def client_logout_def client_close_def cache_ok_def)

end
