(* ===== verification/Editing_Lemmas.thy ===== *)
theory Editing_Lemmas
  imports Installer_Update Ws_Client_Lemmas
begin

text \<open>
  What the handlers of the business installer leave alone. \<open>unedited s s'\<close>: the copy of the template is
  the same, no edit of a wallet was sent and the client is otherwise kept. Every handler does this, but
  those that send an edit (which keep the template) and those that load a template of the server
  (which send no edit).
\<close>

definition unedited :: "installer \<Rightarrow> installer \<Rightarrow> bool" where
  "unedited s s' \<longleftrightarrow> app_template (st_app s') = app_template (st_app s) \<and> kept {} (st_backend s) (st_backend s')"

named_theorems unedited_intros \<open>handlers that send no edit and keep the template\<close>

lemma unedited_refl [simp, unedited_intros]: "unedited s s"
  by (simp add: unedited_def)

lemma unedited_trans: "unedited s s' \<Longrightarrow> unedited s' s'' \<Longrightarrow> unedited s s''"
  by (auto simp: unedited_def intro: kept_trans)

section \<open>Frames\<close>

lemma app_template_upd [simp]:
  "app_template (a\<lparr>as_selected_org := o1\<rparr>) = app_template a"
  "app_template (a\<lparr>as_selected_wallet := o1\<rparr>) = app_template a"
  "app_template (a\<lparr>as_wallet_template := o2\<rparr>) = app_template a"
  "app_template (a\<lparr>as_role := o3\<rparr>) = app_template a"
  "app_template (a\<lparr>as_global_role := o3\<rparr>) = app_template a"
  "app_template (a\<lparr>as_reconnecting := b\<rparr>) = app_template a"
  "app_template (a\<lparr>as_exit := b\<rparr>) = app_template a"
  "app_template (a\<lparr>as_escapes := n\<rparr>) = app_template a"
  by (simp_all add: app_template_def)

lemma app_template_apply [simp]: "app_template (apply_server_template t a) = t"
  by (simp add: app_template_def apply_server_template_def)

lemma uneditedI:
  "app_template (st_app s') = app_template (st_app s) \<Longrightarrow> kept {} (st_backend s) (st_backend s') \<Longrightarrow> unedited s s'"
  by (simp add: unedited_def)

text \<open>An update of other parts of the state, after one that sends no edit.\<close>

lemma unedited_upd:
  "unedited s s1 \<Longrightarrow> unedited s (s1\<lparr>st_views := v\<rparr>)"
  "unedited s s1 \<Longrightarrow> unedited s (s1\<lparr>st_view := w\<rparr>)"
  "unedited s s1 \<Longrightarrow> unedited s (s1\<lparr>st_calls := cs\<rparr>)"
  "unedited s s1 \<Longrightarrow> unedited s (s1\<lparr>st_hw_running := b\<rparr>)"
  "unedited s s1 \<Longrightarrow> unedited s (s1\<lparr>st_network := n\<rparr>)"
  "unedited s s1 \<Longrightarrow> unedited s (s1\<lparr>st_connection_error := e\<rparr>)"
  "unedited s s1 \<Longrightarrow> unedited s (s1\<lparr>st_pending_fetches := p\<rparr>)"
  by (simp_all add: unedited_def)

lemmas [unedited_intros] = unedited_upd

lemma unedited_app [unedited_intros]:
  "unedited s s1 \<Longrightarrow> app_template a = app_template (st_app s1) \<Longrightarrow> unedited s (s1\<lparr>st_app := a\<rparr>)"
  by (simp add: unedited_def)

lemma unedited_backend [unedited_intros]:
  "unedited s s1 \<Longrightarrow> unedited s (upd_backend (edit_xpub i x k) s1)"
  "unedited s s1 \<Longrightarrow> unedited s (upd_backend (device_registered i infos) s1)"
  "unedited s s1 \<Longrightarrow> unedited s (upd_backend (fetch_user j) s1)"
  by (simp_all add: unedited_def)

lemma unedited_hw [unedited_intros]: "unedited s s1 \<Longrightarrow> unedited s (start_hw s1)" "unedited s s1 \<Longrightarrow> unedited s (stop_hw s1)"
  by (simp_all add: start_hw_def stop_hw_def unedited_upd)

lemma unedited_modals [unedited_intros]:
  "unedited s s1 \<Longrightarrow> unedited s (on_key_modal f1 s1)" "unedited s s1 \<Longrightarrow> unedited s (on_path_modal f2 s1)"
  "unedited s s1 \<Longrightarrow> unedited s (on_xpub_modal f3 s1)" "unedited s s1 \<Longrightarrow> unedited s (on_registration f4 s1)"
  "unedited s s1 \<Longrightarrow> unedited s (on_login f5 s1)" "unedited s s1 \<Longrightarrow> unedited s (show_warning_modal t m s1)"
  "unedited s s1 \<Longrightarrow> unedited s (open_path_modal pm s1)" "unedited s s1 \<Longrightarrow> unedited s (set_xpub_modal xm s1)"
  "unedited s s1 \<Longrightarrow> unedited s (close_xpub s1)" "unedited s s1 \<Longrightarrow> unedited s (close_registration s1)"
  "unedited s s1 \<Longrightarrow> unedited s (close_conflict s1)" "unedited s s1 \<Longrightarrow> unedited s (raise_conflict U ct ti me ar s1)"
  by (simp_all add: on_key_modal_def on_path_modal_def on_xpub_modal_def on_registration_def on_login_def
      show_warning_modal_def open_path_modal_def set_xpub_modal_def close_xpub_def close_registration_def
      close_conflict_def raise_conflict_def unedited_upd)

lemma unedited_if [unedited_intros]: "(b \<Longrightarrow> unedited s s1) \<Longrightarrow> (\<not> b \<Longrightarrow> unedited s s2) \<Longrightarrow> unedited s (if b then s1 else s2)"
  by simp

lemma unedited_option [unedited_intros]:
  "(x = None \<Longrightarrow> unedited s s1) \<Longrightarrow> (\<And>y. x = Some y \<Longrightarrow> unedited s (f y)) \<Longrightarrow>
   unedited s (case x of None \<Rightarrow> s1 | Some y \<Rightarrow> f y)"
  by (simp split: option.split)

lemma unedited_fold [unedited_intros]:
  "unedited s s1 \<Longrightarrow> (\<And>x s1. unedited s s1 \<Longrightarrow> unedited s (f x s1)) \<Longrightarrow> unedited s (fold f xs s1)"
  by (induction xs arbitrary: s1) auto

lemma unedited_Let [unedited_intros]: "unedited s (f x) \<Longrightarrow> unedited s (Let x f)"
  by simp

lemma wrappers_frame [simp]:
  "st_app (on_key_modal f1 s) = st_app s" "st_app (on_path_modal f2 s) = st_app s"
  "st_app (on_xpub_modal f3 s) = st_app s" "st_app (on_registration f4 s) = st_app s"
  "st_app (on_login f5 s) = st_app s" "st_app (show_warning_modal t m s) = st_app s"
  "st_app (start_hw s) = st_app s" "st_app (stop_hw s) = st_app s"
  "st_app (close_xpub s) = st_app s" "st_app (close_registration s) = st_app s" "st_app (close_conflict s) = st_app s"
  "st_app (raise_conflict U ct ti me ar s) = st_app s"
  "st_backend (on_key_modal f1 s) = st_backend s" "st_backend (on_path_modal f2 s) = st_backend s"
  "st_backend (on_xpub_modal f3 s) = st_backend s" "st_backend (on_registration f4 s) = st_backend s"
  "st_backend (on_login f5 s) = st_backend s" "st_backend (show_warning_modal t m s) = st_backend s"
  "st_backend (start_hw s) = st_backend s" "st_backend (stop_hw s) = st_backend s"
  "st_backend (close_xpub s) = st_backend s" "st_backend (close_registration s) = st_backend s"
  "st_backend (close_conflict s) = st_backend s" "st_backend (raise_conflict U ct ti me ar s) = st_backend s"
  by (simp_all add: on_key_modal_def on_path_modal_def on_xpub_modal_def on_registration_def on_login_def
      show_warning_modal_def start_hw_def stop_hw_def close_xpub_def close_registration_def
      close_conflict_def raise_conflict_def)

section \<open>Handlers that keep\<close>

lemma unedited_fetch_signers [unedited_intros]: "unedited s s1 \<Longrightarrow> unedited s (fetch_signer_users s1)"
  unfolding fetch_signer_users_def by (intro unedited_intros) auto

lemma unedited_refresh [unedited_intros]: "unedited s s1 \<Longrightarrow> unedited s (refresh_signers s1)"
  unfolding refresh_signers_def by (intro unedited_intros)

lemma unedited_key_modal_handlers:
  "unedited s (on_key_add s)" "unedited s (on_key_edit i s)" "unedited s (on_key_update_email v s)"
  "unedited s (on_key_update_alias v s)" "unedited s (on_key_update_type ty s)"
  unfolding on_key_add_def on_key_edit_def on_key_update_email_def on_key_update_alias_def on_key_update_type_def
  by (intro unedited_intros; simp split: prod.split; intro allI impI unedited_intros; simp)+

lemma unedited_select_signer: "unedited s (on_key_select_signer e s)"
  unfolding on_key_select_signer_def on_key_update_email_def on_key_update_alias_def Let_def
  by (intro unedited_intros)

lemma unedited_path_modal_handlers:
  "unedited s (on_edit_path p n s)" "unedited s (on_new_path_modal s)" "unedited s (on_help_show s)"
  "unedited s (on_help_email U E s)"
  unfolding on_edit_path_def on_new_path_modal_def on_help_show_def on_help_email_def Let_def
  by (intro unedited_intros; simp split: prod.split; intro allI impI unedited_intros; simp)+

lemma unedited_login_handlers:
  "unedited s (on_login_update_code U c s)" "unedited s (on_login_send_token s)" "unedited s (on_login_send_auth_code s)"
  "unedited s (on_account_connect e s)" "unedited s (fst (on_account_new_email s))" "unedited s (on_account_delete e s)"
  "unedited s (on_escape_pressed E s)" "unedited s (fst (on_logout E s))" "unedited s (fst (on_back_to_login s))"
  unfolding on_login_update_code_def on_login_send_token_def on_login_send_auth_code_def auth_code_def
    on_account_connect_def connect_def on_account_new_email_def on_account_delete_def clear_invalid_tokens_def
    on_escape_pressed_def on_logout_def on_back_to_login_def Let_def
  by (auto intro!: uneditedI split: option.split)

lemma unedited_cached_failed [unedited_intros]: "unedited s (cached_connection_failed U s)"
  unfolding cached_connection_failed_def Let_def clear_invalid_tokens_def by (intro unedited_intros)

lemma unedited_notif_handlers:
  "unedited s (on_backend_connected s)" "unedited s (on_backend_disconnected U s)"
  "unedited s (fst (on_backend_auth_code_sent s))" "unedited s (email_refused U why s)"
  "unedited s (on_backend_login_success s)" "unedited s (on_backend_login_fail U s)"
  "unedited s (on_backend_error U sh e s)" "unedited s (on_backend_user i s)"
  unfolding on_backend_connected_def on_backend_disconnected_def on_backend_auth_code_sent_def email_refused_def
    on_backend_login_success_def connect_def on_backend_login_fail_def on_backend_error_def on_backend_user_def Let_def
  by (auto intro!: uneditedI unedited_refresh unedited_cached_failed split: option.split)

lemma unedited_login_update: "unedited s (fst (login_update X m s))"
  by (cases m) (auto simp: quiet_def unedited_login_handlers intro: unedited_intros)

section \<open>Devices\<close>

lemma unedited_send_xpub [unedited_intros]: "unedited s s1 \<Longrightarrow> unedited s (send_xpub x i s1)"
  unfolding send_xpub_def by (intro unedited_intros)

lemma unedited_send_registered [unedited_intros]: "unedited s s1 \<Longrightarrow> unedited s (send_device_registered U fg h a s1)"
  unfolding send_device_registered_def by (intro unedited_intros)

lemma unedited_exit [unedited_intros]: "unedited s s1 \<Longrightarrow> unedited s (fst (exit_to_wallet s1))"
  unfolding exit_to_wallet_def by (simp add: unedited_intros)

lemma unedited_reg_select [unedited_intros]: "unedited s s1 \<Longrightarrow> unedited s (fst (on_registration_select_device U fg s1))"
  unfolding on_registration_select_device_def Let_def by (auto intro: unedited_intros split: option.split)

lemma unedited_xpub_handlers:
  "unedited s (on_hw_message U hm s)" "unedited s (on_xpub_select_key U i s)" "unedited s (fst (on_xpub_select_device fg s))"
  "unedited s (fst (on_xpub_retry s))" "unedited s (on_xpub_fetch_from_device U fg acc rid s)"
  "unedited s (on_xpub_file_loaded r s)" "unedited s (on_xpub_pasted t s)" "unedited s (fst (on_xpub_update_account acc s))"
  "unedited s (on_xpub_save U s)" "unedited s (on_xpub_clear s)" "unedited s (on_xpub_select_paste s)"
  unfolding on_hw_message_def on_xpub_select_key_def on_xpub_select_device_def on_xpub_retry_def
    on_xpub_fetch_from_device_def fetch_failed_def on_xpub_file_loaded_def on_xpub_pasted_def on_xpub_update_account_def
    on_xpub_save_def on_xpub_clear_def on_xpub_select_paste_def Let_def
  by (auto intro: unedited_intros split: option.split prod.split sum.split hw_message.split device_state.split modal_step.split)

lemma unedited_registration_handlers:
  "unedited s (on_registration_result U rr s)" "unedited s (fst (on_registration_retry U s))"
  "unedited s (on_registration_confirm_yes U s)" "unedited s (on_registration_skip fg s)"
  "unedited s (fst (on_registration_skip_all s))"
  unfolding on_registration_result_def on_registration_retry_def on_registration_confirm_yes_def
    on_registration_skip_def on_registration_skip_all_def Let_def
  by (auto intro!: unedited_intros split: option.split prod.split sum.split registration_step.split)

lemma unedited_device_update: "unedited s (fst (xpub_update X m s))" "unedited s (fst (registration_update X m2 s))"
  by (cases m, auto simp: quiet_def unedited_xpub_handlers intro: unedited_intros)
     (cases m2, auto simp: quiet_def unedited_registration_handlers intro: unedited_intros)

end
