(* ===== verification/Editing_Effects.thy ===== *)
theory Editing_Effects
  imports Editing_Lemmas
begin

text \<open>
  The two kinds of step of the business installer that matter to the server: the edits that a
  handler sends, with who may send which, and the templates that it loads.
\<close>

section \<open>Edits\<close>

text \<open>An edit of the keys of a template: a key deleted everywhere, or other keys in the map.\<close>

definition keys_edit :: "policy_template \<Rightarrow> policy_template \<Rightarrow> bool" where
  "keys_edit t0 t \<longleftrightarrow> (\<exists>i. t = delete_key i t0) \<or> (\<exists>ks. t = t0\<lparr>tpl_keys := ks\<rparr>)"

text \<open>
  What a user may send of a wallet whose status is \<open>st0\<close>, with the template \<open>t0\<close> on the screen: the
  administrator of the service any draft, and the lock of a valid template as it is; the manager of the wallet
  edits of the keys, that the keys are ready, and the validation of a locked template as it is.
\<close>

definition allowed_edit ::
  "user_role option \<Rightarrow> wallet_status \<Rightarrow> policy_template \<Rightarrow> wallet_status \<Rightarrow> policy_template \<Rightarrow> bool" where
  "allowed_edit role st0 t0 st t =
     (case role of
        Some WizardSardineAdmin \<Rightarrow> st = Drafted \<or> st = Locked \<and> t = t0 \<and> template_valid t0
      | Some WalletManager \<Rightarrow> st = Drafted \<and> keys_edit t0 t \<or> st = Validated \<and> st0 = Locked \<and> t = t0
                             \<or> st = st0 \<and> t = t0\<lparr>tpl_keys_ready := tpl_keys_ready t\<rparr>
      | _ \<Rightarrow> False)"

definition authorised :: "installer \<Rightarrow> wallet \<Rightarrow> bool" where
  "authorised s w \<longleftrightarrow>
     (\<exists>w0 t. selected_wallet s = Some w0
        \<and> w = w0\<lparr>w_status := w_status w, w_template := Some t, w_last_edited := None, w_last_editor := None\<rparr>
        \<and> allowed_edit (as_role (st_app s)) (w_status w0) (app_template (st_app s)) (w_status w) t)"

definition sends :: "installer \<Rightarrow> installer \<Rightarrow> bool" where
  "sends s s' \<longleftrightarrow> app_template (st_app s') = app_template (st_app s)
     \<and> kept (Collect (authorised s)) (st_backend s) (st_backend s')"

lemma unedited_sends: "unedited s s' \<Longrightarrow> sends s s'"
  by (auto simp: unedited_def sends_def intro: kept_mono)

lemma build_wallet_selected:
  "build_wallet st t s = map_option
     (\<lambda>w. w\<lparr>w_status := st, w_template := Some t, w_last_edited := None, w_last_editor := None\<rparr>) (selected_wallet s)"
  by (simp add: build_wallet_def selected_wallet_def split: option.split)

lemma send_template_sends:
  assumes "\<And>w0. selected_wallet s = Some w0 \<Longrightarrow>
    allowed_edit (as_role (st_app s)) (w_status w0) (app_template (st_app s)) st t"
  shows "sends s (send_template st t s)"
proof (cases "selected_wallet s")
  case (Some w0)
  let ?w = "w0\<lparr>w_status := st, w_template := Some t, w_last_edited := None, w_last_editor := None\<rparr>"
  have "authorised s ?w"
    unfolding authorised_def using assms [OF Some] Some by (intro exI [of _ w0] exI [of _ t]) simp
  then show ?thesis
    by (auto simp: sends_def send_template_def build_wallet_selected Some kept_edit)
qed (simp add: send_template_def build_wallet_selected sends_def)

text \<open>Closing a modal first changes nothing of what is sent.\<close>

lemma selected_wallet_views [simp]: "selected_wallet (s\<lparr>st_views := v\<rparr>) = selected_wallet s"
  by (simp add: selected_wallet_def split: option.split)

lemma authorised_views [simp]: "authorised (s\<lparr>st_views := v\<rparr>) = authorised s"
  by (simp add: fun_eq_iff authorised_def)

lemma sends_views: "sends (s\<lparr>st_views := v\<rparr>) s' \<Longrightarrow> sends s s'"
  by (simp add: sends_def)

lemma sends_if: "(b \<Longrightarrow> sends s s') \<Longrightarrow> sends s (if b then s' else s)"
  by (simp add: unedited_sends)

lemma edit_template_sends: "sends s (edit_template f s)"
  unfolding edit_template_def
  by (auto intro: send_template_sends simp: allowed_edit_def unedited_sends)

lemma manager_draft: "is_manager s \<Longrightarrow> keys_edit t0 t \<Longrightarrow> allowed_edit (as_role (st_app s)) st0 t0 Drafted t"
  by (auto simp: is_manager_def allowed_edit_def)

lemma keys_edit_delete [simp]: "keys_edit t0 (delete_key i t0)"
  and keys_edit_keys [simp]: "keys_edit t0 (t0\<lparr>tpl_keys := ks\<rparr>)"
  by (auto simp: keys_edit_def)

lemma on_key_delete_sends: "sends s (on_key_delete i s)"
proof -
  have *: "sends s' (if is_manager s' then send_template Drafted (delete_key i (app_template (st_app s'))) s' else s')" for s'
    by (intro sends_if send_template_sends manager_draft) simp_all
  let ?s = "case vw_key (st_views s) of None \<Rightarrow> s
    | Some m \<Rightarrow> if km_key_id m = i then upd_views (\<lambda>v. v\<lparr>vw_key := None\<rparr>) s else s"
  have "\<exists>v. ?s = s\<lparr>st_views := v\<rparr>"
    by (auto split: option.split intro: exI [of _ "st_views s"])
  then obtain v where v: "?s = s\<lparr>st_views := v\<rparr>" ..
  show ?thesis
    unfolding on_key_delete_def Let_def v by (rule sends_views [OF *])
qed

lemma on_key_save_sends: "sends s (on_key_save s)"
proof -
  have *: "sends s' (if is_manager s' then send_template Drafted ((app_template (st_app s'))\<lparr>tpl_keys := ks\<rparr>) s' else s')" for s' ks
    by (intro sends_if send_template_sends manager_draft) simp_all
  show ?thesis
    unfolding on_key_save_def Let_def
    by (cases "vw_key (st_views s)") (simp add: unedited_sends, simp only: option.case, rule sends_views [OF *])
qed

lemma on_mark_keys_ready_sends: "sends s (on_mark_keys_ready r s)"
  unfolding on_mark_keys_ready_def
  by (auto intro: send_template_sends simp: allowed_edit_def unedited_sends split: option.split)

lemma on_save_path_sends: "sends s (on_save_path s)"
proof -
  have *: "sends s' (if as_role (st_app s') = Some WizardSardineAdmin then send_template Drafted t s' else s')" for s' t
    by (intro sends_if send_template_sends) (simp add: allowed_edit_def)
  show ?thesis
    unfolding on_save_path_def Let_def
    by (cases "vw_path (st_views s)") (simp add: unedited_sends, simp only: option.case, rule sends_views [OF *])
qed

lemma status_handlers_send: "sends s (on_lock s)" "sends s (on_unlock s)" "sends s (on_validate s)"
  unfolding on_lock_def on_unlock_def on_validate_def send_status_def is_template_valid_def
  by (auto intro: send_template_sends simp: allowed_edit_def unedited_sends)

lemma key_update_sends: "sends s (key_update X m s)"
  by (cases m) (auto simp: on_key_delete_sends on_key_save_sends on_mark_keys_ready_sends
     intro: unedited_sends unedited_key_modal_handlers unedited_select_signer unedited_intros)

lemma path_update_sends: "sends s (path_update X m s)"
  by (cases m) (auto simp: on_save_path_sends on_add_key_to_primary_def on_del_key_from_primary_def
     on_add_key_to_secondary_def on_del_key_from_secondary_def on_add_secondary_path_def on_delete_secondary_path_def
     edit_template_sends intro: unedited_sends unedited_path_modal_handlers unedited_intros)

lemma template_update_sends: "sends s (template_update X m s)"
  by (cases m) (auto simp: status_handlers_send intro: unedited_sends unedited_path_modal_handlers unedited_intros)

section \<open>Templates of the server\<close>

definition server_template :: "wallet \<Rightarrow> policy_template" where
  "server_template w = (case w_template w of None \<Rightarrow> template_new | Some t \<Rightarrow> t)"

definition loads :: "installer \<Rightarrow> installer \<Rightarrow> bool" where
  "loads s s' \<longleftrightarrow> kept {} (st_backend s) (st_backend s') \<and>
     (app_template (st_app s') = app_template (st_app s)
      \<or> (\<exists>i w. get_wallet (st_backend s) i = Some w \<and> app_template (st_app s') = server_template w))"

lemma unedited_loads: "unedited s s' \<Longrightarrow> loads s s'"
  by (auto simp: unedited_def loads_def)

lemma loads_unedited: "loads s s' \<Longrightarrow> unedited s' s'' \<Longrightarrow> loads s s''"
  by (auto simp: unedited_def loads_def intro: kept_trans)

lemma load_template_loads:
  "unedited s s' \<Longrightarrow> get_wallet (st_backend s) i = Some w \<Longrightarrow> loads s (load_template w s')"
  by (auto simp: load_template_def loads_def server_template_def unedited_def)

text \<open>A conflict changes nothing but the views.\<close>

definition views_only :: "installer \<Rightarrow> installer \<Rightarrow> bool" where
  "views_only s s' \<longleftrightarrow> (\<exists>v. s' = s\<lparr>st_views := v\<rparr>)"

named_theorems views_intros \<open>updates of the views only\<close>

lemma views_only_refl [views_intros]: "views_only s s"
  unfolding views_only_def by (rule exI [of _ "st_views s"]) simp

lemma views_only_upd [views_intros]: "views_only s s1 \<Longrightarrow> views_only s (s1\<lparr>st_views := v\<rparr>)"
  by (auto simp: views_only_def)

lemma views_only_raise [views_intros]: "views_only s s1 \<Longrightarrow> views_only s (raise_conflict U ct ti me ar s1)"
  by (auto simp: views_only_def raise_conflict_def)

lemma views_only_path [views_intros]: "views_only s s1 \<Longrightarrow> views_only s (on_path_modal f s1)"
  by (auto simp: views_only_def on_path_modal_def)

lemma views_only_cases [views_intros]:
  "(b \<Longrightarrow> views_only s s1) \<Longrightarrow> (\<not> b \<Longrightarrow> views_only s s2) \<Longrightarrow> views_only s (if b then s1 else s2)"
  "(x = None \<Longrightarrow> views_only s s1) \<Longrightarrow> (\<And>y. x = Some y \<Longrightarrow> views_only s (f y)) \<Longrightarrow>
     views_only s (case x of None \<Rightarrow> s1 | Some y \<Rightarrow> f y)"
  "(l = [] \<Longrightarrow> views_only s s1) \<Longrightarrow> (\<And>y ys. l = y # ys \<Longrightarrow> views_only s (g y ys)) \<Longrightarrow>
     views_only s (case l of [] \<Rightarrow> s1 | y # ys \<Rightarrow> g y ys)"
  by (simp_all split: option.split list.split)

lemma path_conflict_views: "views_only s (path_conflict U w i s)"
  unfolding path_conflict_def prod.case Let_def by (intro views_intros)

lemma key_conflict_views: "key_conflict U w i s = Some s' \<Longrightarrow> views_only s s'"
  unfolding key_conflict_def by (auto split: option.splits if_splits intro!: views_intros)

lemma conflicts_views: "views_only s (check_modal_conflicts U w i s)"
  using path_conflict_views key_conflict_views by (auto simp: check_modal_conflicts_def split: option.split)

lemma views_only_unedited: "views_only s s' \<Longrightarrow> unedited s s'"
  by (auto simp: views_only_def intro: unedited_intros)

lemmas unedited_conflicts = views_only_unedited [OF conflicts_views]

lemma unedited_redirect: "unedited s (snd (redirect w s))"
  unfolding redirect_def Let_def by (auto intro!: uneditedI split: option.split user_role.split)

lemma unedited_update_registration:
  "unedited s (snd (update_registration w s))"
  "fst (update_registration w s) = Some r \<Longrightarrow> unedited s (fst r)"
  unfolding update_registration_def exit_to_wallet_def Let_def
  by (auto intro!: uneditedI simp: on_registration_def split: if_splits)

lemma unedited_update_xpub: "update_xpub_view w s = Some r \<Longrightarrow> unedited s (fst r)"
  unfolding update_xpub_view_def exit_to_wallet_def Let_def
  by (auto intro!: uneditedI split: if_splits wallet_status.splits)

lemma on_backend_wallet_loads: "loads s (fst (on_backend_wallet U i s))"
proof (cases "get_wallet (st_backend s) i")
  case (Some w)
  let ?s1 = "check_modal_conflicts U w i s"
  let ?s2 = "if vw_conflict (st_views ?s1) = None then load_template w ?s1 else ?s1"
  let ?s3 = "snd (redirect w ?s2)"
  let ?s4 = "snd (update_registration w ?s3)"
  have 2: "loads s ?s2"
    using load_template_loads [OF unedited_conflicts Some] unedited_loads [OF unedited_conflicts] by auto
  have 3: "loads s ?s3" by (rule loads_unedited [OF 2 unedited_redirect])
  have 4: "loads s ?s4" by (rule loads_unedited [OF 3 unedited_update_registration(1)])
  have "loads s (fst r)" if "fst (update_registration w ?s3) = Some r" for r
    using loads_unedited [OF 3 unedited_update_registration(2)] that by blast
  moreover have "loads s (fst r)" if "update_xpub_view w ?s4 = Some r" for r
    using loads_unedited [OF 4 unedited_update_xpub] that by blast
  moreover have "loads s (if vw_xpub (st_views ?s4) \<noteq> None then stop_hw (close_xpub ?s4) else ?s4)"
    by (rule loads_unedited [OF 4]) (auto intro: unedited_intros)
  ultimately show ?thesis
    using 3 by (auto simp: on_backend_wallet_def Some Let_def case_prod_unfold unedited_loads split: option.split)
qed (simp add: on_backend_wallet_def unedited_loads)

lemma on_wallet_selected_loads: "loads s (fst (on_wallet_selected U i s))"
proof -
  have route: "unedited s' (fst (route_to_wallet st s'))" for st s'
    by (auto simp: route_to_wallet_def intro!: uneditedI split: option.split wallet_status.split)
  define s1 where "s1 r = upd_app (\<lambda>a. a\<lparr>as_role := Some r, as_selected_wallet := Some i\<rparr>) s" for r
  have s1: "unedited s (s1 r)" for r by (auto simp: s1_def intro!: uneditedI)
  have b1: "st_backend (s1 r) = st_backend s" for r by (simp add: s1_def)
  define s2 where "s2 r w = load_template w (upd_app (\<lambda>a. a\<lparr>as_wallet_template :=
      Some (case w_template w of None \<Rightarrow> template_new | Some t \<Rightarrow> t)\<rparr>) (s1 r))" for r w
  have s2: "loads s (s2 r w)" if "get_wallet (st_backend s) i = Some w" for r w
    unfolding s2_def
    by (rule load_template_loads [OF unedited_trans [OF s1 [of r]] that]) (auto intro!: uneditedI)
  have s3: "loads s (on_registration f (start_hw ((s2 r w)\<lparr>st_view := v\<rparr>)))"
    if "get_wallet (st_backend s) i = Some w" for r w f v
    by (rule loads_unedited [OF s2 [OF that]]) (auto intro!: uneditedI)
  show ?thesis
    unfolding on_wallet_selected_def Let_def s1_def [symmetric] s2_def [symmetric]
    by (auto simp: b1 s3 intro: unedited_loads unedited_intros loads_unedited [OF s2] loads_unedited [OF unedited_loads [OF s1]] route
        split: option.split)
qed

lemma reload_loads:
  assumes "unedited s s1" "get_wallet (st_backend s) wid = Some w" "w_template w = Some t"
  shows "loads s (reload_key i t s1)" "loads s (reload_path p idx t s1)"
proof -
  have t: "t = server_template w" using assms(3) by (simp add: server_template_def)
  show "loads s (reload_key i t s1)" "loads s (reload_path p idx t s1)"
    using assms(1,2) t unfolding reload_key_def reload_path_def Let_def
    by (auto simp: loads_def unedited_def split: option.split prod.split)
qed

lemma on_conflict_reload_loads: "loads s (on_conflict_reload s)"
proof (cases "vw_conflict (st_views s)")
  case (Some cf)
  let ?s = "upd_views (\<lambda>v. v\<lparr>vw_conflict := None\<rparr>) s"
  have 1: "unedited s ?s" by (intro unedited_intros)
  show ?thesis
    unfolding on_conflict_reload_def Some option.case Let_def
    by (auto simp: bind_eq_Some_conv intro: unedited_loads [OF 1] reload_loads [OF 1]
        split: option.split conflict_type.split)
qed (simp add: on_conflict_reload_def unedited_loads)

lemma select_update_loads: "loads s (fst (select_update X m s))"
  by (cases m) (auto simp: quiet_def on_org_selected_def on_wallet_selected_loads intro!: unedited_loads uneditedI)

lemma navigate_keeps: "unedited s (fst (navigate_update m s))"
  by (cases m) (auto simp: quiet_def on_navigate_to_org_select_def on_navigate_to_wallet_select_def
      on_navigate_back_def Let_def intro!: uneditedI split: view.split login_step.split option.split)

lemma backend_update_loads: "loads s (fst (backend_update X m s))"
  by (cases m) (auto simp: quiet_def on_backend_notif_def on_backend_wallet_loads
      intro: unedited_loads unedited_notif_handlers unedited_intros split: notification.split)

lemma dialog_update_loads: "loads s (dialog_update m s)"
  by (cases m) (auto simp: on_conflict_reload_loads intro: unedited_loads unedited_intros)

section \<open>Every message\<close>

lemma installer_update_effect:
  "sends s (fst (installer_update X m s)) \<or> loads s (fst (installer_update X m s))"
  by (cases m)
     (simp_all add: quiet_def unedited_sends [OF unedited_login_update] select_update_loads key_update_sends path_update_sends
        template_update_sends unedited_sends [OF navigate_keeps] backend_update_loads unedited_sends [OF unedited_device_update(1)]
        unedited_sends [OF unedited_device_update(2)] dialog_update_loads)

end
