(* ===== verification/Ws_Retries.thy ===== *)
theory Ws_Retries
  imports Ws_Client_Lemmas
begin

text \<open>
  The requests that the server leaves unanswered: what a round of the checker of timed out requests
  (\<open>request_timeout_checker_thread\<close>) and of the thread that sends them does to the table of requests.
\<close>

fun send_all :: "codec \<Rightarrow> string \<Rightarrow> nat \<Rightarrow> uuid list \<Rightarrow> ws_request list \<Rightarrow> ws_client \<Rightarrow> ws_client" where
  "send_all C token now (j # js) (r # rs) c = send_all C token now js rs (snd (snd (wss_send C token j now True r c)))"
| "send_all C token now _ _ c = c"

text \<open>
  A round in which the server stays silent: the checker runs at the instant \<open>now\<close>, then the thread
  sends everything that waits in the channel, with the identifiers it draws.
\<close>

definition silent_round :: "codec \<Rightarrow> string \<Rightarrow> nat \<times> uuid list \<Rightarrow> ws_client \<Rightarrow> ws_client" where
  "silent_round C token r c =
     (let c = request_timeout_tick (fst r) c
      in send_all C token (fst r) (snd r) (cl_outbox c) (c\<lparr>cl_outbox := []\<rparr>))"

text \<open>The identifiers of a round are enough, distinct and new, as random ones are.\<close>

definition fresh_round :: "nat \<times> uuid list \<Rightarrow> ws_client \<Rightarrow> bool" where
  "fresh_round r c \<longleftrightarrow> distinct (snd r) \<and> length (cl_outbox (request_timeout_tick (fst r) c)) \<le> length (snd r)
     \<and> (\<forall>j \<in> set (snd r). map_of (cl_sent c) j = None)"

fun fresh_rounds :: "codec \<Rightarrow> string \<Rightarrow> (nat \<times> uuid list) list \<Rightarrow> ws_client \<Rightarrow> bool" where
  "fresh_rounds C token [] c = True"
| "fresh_rounds C token (r # rs) c = (fresh_round r c \<and> fresh_rounds C token rs (silent_round C token r c))"

section \<open>The checker\<close>

lemma retry_request_sent:
  "map_of (cl_sent (retry_request now (i, rq, n) c)) k =
     (if k = i then (if 3 \<le> n then None else map_option (\<lambda>(q, t, m). (q, now, m + 1)) (map_of (cl_sent c) i))
      else map_of (cl_sent c) k)"
  by (simp add: retry_request_def map_of_bt_remove map_of_bt_modify)

lemma retry_request_outbox:
  "cl_outbox (retry_request now (i, rq, n) c) = cl_outbox c @ (if 3 \<le> n then [] else [rq])"
  by (simp add: retry_request_def)

lemma retry_all_sent:
  assumes "distinct (map fst es)"
  shows "map_of (cl_sent (fold (retry_request now) es c)) k =
     (case map_of es k of
        None \<Rightarrow> map_of (cl_sent c) k
      | Some (rq, n) \<Rightarrow> if 3 \<le> n then None else map_option (\<lambda>(q, t, m). (q, now, m + 1)) (map_of (cl_sent c) k))"
  using assms
proof (induction es arbitrary: c)
  case (Cons e es)
  obtain i rq n where e: "e = (i, rq, n)" by (cases e)
  have "map_of es i = None" using Cons.prems e by (simp add: map_of_eq_None_iff)
  then show ?case using Cons e by (auto simp: retry_request_sent split: option.split)
qed simp

lemma retry_all_outbox:
  "cl_outbox (fold (retry_request now) es c) = cl_outbox c @ map (\<lambda>(i, rq, n). rq) (filter (\<lambda>(i, rq, n). n < 3) es)"
  by (induction es arbitrary: c) (auto simp: retry_request_outbox)

definition stale_entries :: "nat \<Rightarrow> ws_client \<Rightarrow> (uuid \<times> ws_request \<times> nat) list" where
  "stale_entries now c = map (\<lambda>(i, rq, t, n). (i, rq, n)) (filter (\<lambda>(i, rq, t, n). now - t > 30 * SECOND) (cl_sent c))"

lemma tick_eq: "request_timeout_tick now c = fold (retry_request now) (stale_entries now c) c"
  by (simp add: request_timeout_tick_def stale_entries_def)

lemma stale_fst: "map fst (stale_entries now c) = map fst (filter (\<lambda>(i, rq, t, n). now - t > 30 * SECOND) (cl_sent c))"
  by (auto simp: stale_entries_def)

lemma stale_distinct:
  assumes "bt_ok (cl_sent c)"
  shows "distinct (map fst (stale_entries now c))"
  unfolding stale_fst using bt_ok_distinct [OF assms] by (simp add: distinct_map_filter)

lemma stale_lookup:
  assumes "bt_ok (cl_sent c)"
  shows "map_of (stale_entries now c) i =
     (case map_of (cl_sent c) i of
        Some (rq, t, n) \<Rightarrow> if now - t > 30 * SECOND then Some (rq, n) else None | None \<Rightarrow> None)"
  using bt_ok_distinct [OF assms] unfolding stale_entries_def
proof (induction "cl_sent c" arbitrary: c)
  case (Cons e es)
  obtain j rq t n where e: "e = (j, rq, t, n)" by (cases e)
  from Cons(1) [of "c\<lparr>cl_sent := es\<rparr>"] Cons(2-)
  have IH: "map_of (map (\<lambda>(i, rq, t, n). (i, rq, n)) (filter (\<lambda>(i, rq, t, n). now - t > 30 * SECOND) es)) i =
     (case map_of es i of Some (rq, t, n) \<Rightarrow> if now - t > 30 * SECOND then Some (rq, n) else None | None \<Rightarrow> None)"
    by (simp flip: Cons(2))
  have "map_of es j = None" using Cons(2-) e by (simp add: map_of_eq_None_iff flip: Cons(2))
  with IH show ?case by (auto simp flip: Cons(2) simp: e)
qed simp

lemma tick_sent:
  assumes "bt_ok (cl_sent c)"
  shows "map_of (cl_sent (request_timeout_tick now c)) i =
     (case map_of (cl_sent c) i of None \<Rightarrow> None
      | Some (rq, t, n) \<Rightarrow>
          if now - t > 30 * SECOND then (if 3 \<le> n then None else Some (rq, now, n + 1)) else Some (rq, t, n))"
  unfolding tick_eq
  by (auto simp: retry_all_sent [OF stale_distinct [OF assms]] stale_lookup [OF assms] split: option.split)

lemma tick_outbox:
  assumes "bt_ok (cl_sent c)" "map_of (cl_sent c) i = Some (rq, t, n)" "now - t > 30 * SECOND" "n < 3"
  shows "rq \<in> set (cl_outbox (request_timeout_tick now c))"
proof -
  have "map_of (stale_entries now c) i = Some (rq, n)" using assms(2,3) by (simp add: stale_lookup [OF assms(1)])
  then have "(i, rq, n) \<in> set (stale_entries now c)" by (rule map_of_SomeD)
  with assms(4) show ?thesis unfolding tick_eq by (force simp: retry_all_outbox)
qed

lemma retry_bt_ok: "bt_ok (cl_sent c) \<Longrightarrow> bt_ok (cl_sent (retry_request now e c))"
  by (cases e) (simp add: retry_request_def bt_ok_remove)

lemma tick_bt_ok: "bt_ok (cl_sent c) \<Longrightarrow> bt_ok (cl_sent (request_timeout_tick now c))"
proof -
  have "bt_ok (cl_sent c) \<Longrightarrow> bt_ok (cl_sent (fold (retry_request now) es c))" for es
    by (induction es arbitrary: c) (auto simp: retry_bt_ok)
  then show "bt_ok (cl_sent c) \<Longrightarrow> bt_ok (cl_sent (request_timeout_tick now c))" by (simp add: tick_eq)
qed

section \<open>The thread that sends\<close>

lemma wss_send_sent:
  "cl_sent (snd (snd (wss_send C token j now True r c))) =
     (if r = Rq_Close then cl_sent c else bt_insert j (r, now, 0) (cl_sent c))"
  by (simp add: wss_send_def request_to_ws_message_def)

lemma send_all_bt_ok: "bt_ok (cl_sent c) \<Longrightarrow> bt_ok (cl_sent (send_all C token now js rs c))"
  by (induction C token now js rs c rule: send_all.induct) (simp_all add: wss_send_sent bt_ok_insert)

lemma send_all_keeps:
  assumes "bt_ok (cl_sent c)" "k \<notin> set js"
  shows "map_of (cl_sent (send_all C token now js rs c)) k = map_of (cl_sent c) k"
  using assms
  by (induction C token now js rs c rule: send_all.induct) (simp_all add: wss_send_sent bt_ok_insert map_of_bt_insert)

lemma send_all_records:
  assumes "bt_ok (cl_sent c)" "distinct js" "length rs \<le> length js" "r \<in> set rs" "r \<noteq> Rq_Close"
  shows "\<exists>j. map_of (cl_sent (send_all C token now js rs c)) j = Some (r, now, 0)"
  using assms
proof (induction C token now js rs c rule: send_all.induct)
  case (1 C token now j js q rs c)
  let ?c = "snd (snd (wss_send C token j now True q c))"
  have ok: "bt_ok (cl_sent ?c)" using 1(2) by (simp add: wss_send_sent bt_ok_insert)
  show ?case
  proof (cases "r = q")
    case True
    then have "map_of (cl_sent ?c) j = Some (r, now, 0)"
      using 1(2,6) by (simp add: wss_send_sent map_of_bt_insert)
    moreover have "map_of (cl_sent (send_all C token now js rs ?c)) j = map_of (cl_sent ?c) j"
      using 1(3) by (intro send_all_keeps [OF ok]) simp
    ultimately show ?thesis by auto
  next
    case False
    then show ?thesis using 1 ok by simp
  qed
qed simp_all

lemma silent_round_keeps_fresh_entry:
  assumes ok: "bt_ok (cl_sent c)" and fresh: "fresh_round r c"
    and entry: "map_of (cl_sent c) i = Some (rq, t, 0)" and rq: "rq \<noteq> Rq_Close"
  shows "bt_ok (cl_sent (silent_round C token r c))"
    and "\<exists>i t. map_of (cl_sent (silent_round C token r c)) i = Some (rq, t, 0)"
proof -
  obtain now js where r: "r = (now, js)" by (cases r)
  let ?c = "request_timeout_tick now c"
  have ok': "bt_ok (cl_sent (?c\<lparr>cl_outbox := []\<rparr>))" using tick_bt_ok [OF ok] by simp
  show "bt_ok (cl_sent (silent_round C token r c))"
    using send_all_bt_ok [OF ok'] by (simp add: silent_round_def r Let_def)
  show "\<exists>i t. map_of (cl_sent (silent_round C token r c)) i = Some (rq, t, 0)"
  proof (cases "now - t > 30 * SECOND")
    case True
    then have "rq \<in> set (cl_outbox ?c)" using tick_outbox [OF ok entry] by simp
    then show ?thesis
      using send_all_records [OF ok', of js "cl_outbox ?c" rq C token now] fresh rq
      by (auto simp: silent_round_def r fresh_round_def Let_def)
  next
    case False
    then have "map_of (cl_sent (?c\<lparr>cl_outbox := []\<rparr>)) i = Some (rq, t, 0)"
      using entry by (simp add: tick_sent [OF ok])
    moreover have "i \<notin> set js" using fresh entry by (auto simp: fresh_round_def r)
    ultimately have "map_of (cl_sent (send_all C token now js (cl_outbox ?c) (?c\<lparr>cl_outbox := []\<rparr>))) i = Some (rq, t, 0)"
      by (simp add: send_all_keeps [OF ok'])
    then show ?thesis by (auto simp: silent_round_def r Let_def)
  qed
qed

end
