(* ===== verification/Installer_Session.thy ===== *)
theory Installer_Session
  imports Editing_Effects Ws_Retries
begin

text \<open>
  A session of the business installer: any interleaving of the messages of the user and of the
  runtime with the steps of the thread of the connection, and what holds in every state it reaches.
  The set \<open>W\<close> of a session holds every wallet the server has sent in it.
\<close>

section \<open>The edits that are under way\<close>

text \<open>The edits that wait in the channel or for an answer of the server.\<close>

definition pending_edits :: "ws_client \<Rightarrow> wallet set" where
  "pending_edits c = {w. Rq_EditWallet w \<in> set (cl_outbox c) \<or> (\<exists>i t n. (i, Rq_EditWallet w, t, n) \<in> set (cl_sent c))}"

definition thread_ok :: "ws_client \<Rightarrow> ws_client \<Rightarrow> bool" where
  "thread_ok c c' \<longleftrightarrow> pending_edits c' \<subseteq> pending_edits c \<and> (cache_ok c \<longrightarrow> cache_ok c')"

lemma thread_ok_refl [simp]: "thread_ok c c"
  by (simp add: thread_ok_def)

lemma thread_ok_trans: "thread_ok c c' \<Longrightarrow> thread_ok c' c'' \<Longrightarrow> thread_ok c c''"
  by (auto simp: thread_ok_def)

lemma asks_edits: "asks c c' \<Longrightarrow> Rq_EditWallet w \<in> set (cl_outbox c') \<longleftrightarrow> Rq_EditWallet w \<in> set (cl_outbox c)"
  by (fastforce simp: asks_def list_all_iff)

lemma handler_edits:
  "Rq_EditWallet w \<in> set (cl_outbox (handle_org x c)) \<longleftrightarrow> Rq_EditWallet w \<in> set (cl_outbox c)"
  "Rq_EditWallet w \<in> set (cl_outbox (handle_wallet w' c)) \<longleftrightarrow> Rq_EditWallet w \<in> set (cl_outbox c)"
  "Rq_EditWallet w \<in> set (cl_outbox (handle_user u c)) \<longleftrightarrow> Rq_EditWallet w \<in> set (cl_outbox c)"
  using asks_edits [OF asks_fetch_user_maybe] asks_edits [OF asks_template_editors]
  by (auto simp: handle_org_outbox handle_wallet_def handle_user_def Let_def)

lemma set_bt_remove: "set (bt_remove i m) \<subseteq> set m"
  by (auto simp: bt_remove_def)

lemma pending_remove: "pending_edits (c\<lparr>cl_sent := bt_remove i (cl_sent c)\<rparr>) \<subseteq> pending_edits c"
  using set_bt_remove by (fastforce simp: pending_edits_def)

lemma handle_response_pending: "pending_edits (handle_response rs c) = pending_edits c"
  by (cases rs)
     (auto simp: pending_edits_def handle_response_def handler_fields handler_edits
        handle_pong_def handle_delete_user_org_def split: option.splits if_splits)

lemma handle_response_thread: "thread_ok c (handle_response rs c)"
  by (simp add: thread_ok_def handle_response_pending handle_response_cache_ok)

lemma handle_error_thread: "thread_ok c (snd (handle_error e rid c))"
proof -
  let ?c = "case rid of None \<Rightarrow> c | Some i \<Rightarrow> c\<lparr>cl_sent := bt_remove i (cl_sent c)\<rparr>"
  have "pending_edits ?c \<subseteq> pending_edits c" using pending_remove by (auto split: option.split)
  moreover have "pending_edits (snd (handle_error e rid c)) = pending_edits ?c"
    by (auto simp: handle_error_def pending_edits_def Let_def split: option.splits ws_request.splits prod.splits)
  ultimately show ?thesis using handle_error_cache_ok by (auto simp: thread_ok_def)
qed

lemma thread_ok_remove [simp]: "thread_ok c (c\<lparr>cl_sent := bt_remove i (cl_sent c)\<rparr>)"
  using pending_remove by (simp add: thread_ok_def)

lemma handle_wss_message_thread: "thread_ok c (snd (handle_wss_message C m c))"
  using thread_ok_trans [OF thread_ok_remove handle_response_thread]
  by (auto simp: handle_wss_message_def Let_def handle_response_thread handle_error_thread
        split: sum.split option.split ws_response.split prod.split)

lemma send_notif_thread [simp]: "thread_ok c (send_notif n c)"
  by (simp add: thread_ok_def pending_edits_def cache_ok_def)

lemma wss_receive_thread: "thread_ok c (snd (wss_receive C r c))"
proof (cases r)
  case (Read_Text t)
  show ?thesis
    using handle_wss_message_thread [of c C "Ws_Text t"]
      thread_ok_trans [OF handle_wss_message_thread [of c C "Ws_Text t"] send_notif_thread]
    by (auto simp: wss_receive_def Read_Text split: prod.split sum.split)
qed (simp_all add: wss_receive_def)

lemma wss_send_thread:
  assumes "cl_outbox c = rq # rest"
  shows "thread_ok c (snd (snd (wss_send C token j now ok rq (c\<lparr>cl_outbox := rest\<rparr>))))" (is "thread_ok c ?c")
proof -
  have "set (cl_sent ?c) \<subseteq> insert (j, rq, now, 0) (set (cl_sent c))" "cl_outbox ?c = rest"
    using subset_bt_insert [of j "(rq, now, 0)" "cl_sent c"] set_bt_remove [of j "bt_insert j (rq, now, 0) (cl_sent c)"]
    by (auto simp: wss_send_def request_to_ws_message_def Let_def)
  moreover have "cache_ok c \<Longrightarrow> cache_ok ?c"
    by (simp add: cache_ok_def wss_send_def request_to_ws_message_def bt_ok_insert bt_ok_remove Let_def)
  ultimately show ?thesis using assms by (auto simp: thread_ok_def pending_edits_def)
qed

lemma wss_handshake_thread: "thread_ok c (snd (wss_handshake C token co se reply c))"
  by (auto simp: wss_handshake_def thread_ok_def pending_edits_def cache_ok_def Let_def
        split: option.split sum.split prod.split ws_response.split)

lemma ticks_thread: "thread_ok c (ping_tick now c)" "thread_ok c (ping_timeout_tick now c)"
  by (simp_all add: thread_ok_def pending_edits_def cache_ok_def ping_tick_def ping_timeout_tick_def Let_def)

lemma request_timeout_thread: "thread_ok c (request_timeout_tick now c)"
proof -
  have "thread_ok c (fold (retry_request now) es c')"
    if "thread_ok c c'" "\<forall>(i, rq, n) \<in> set es. \<forall>w. rq = Rq_EditWallet w \<longrightarrow> w \<in> pending_edits c" for es c'
    using that
  proof (induction es arbitrary: c')
    case (Cons e es)
    obtain i rq n where e: "e = (i, rq, n)" by (cases e)
    have "thread_ok c (retry_request now e c')"
    proof (cases "3 \<le> n")
      case True
      then show ?thesis
        using thread_ok_trans [OF Cons.prems(1)] thread_ok_trans [OF thread_ok_remove send_notif_thread]
        by (simp add: e retry_request_def)
    next
      case False
      have "pending_edits (retry_request now (i, rq, n) c') \<subseteq> pending_edits c' \<union> {w. rq = Rq_EditWallet w}"
        using False by (fastforce simp: pending_edits_def retry_request_def bt_modify_def split: if_splits)
      then show ?thesis
        using Cons.prems e False by (auto simp: thread_ok_def retry_request_def cache_ok_def)
    qed
    with Cons show ?case by simp
  qed simp
  moreover have "\<forall>(i, rq, n) \<in> set (stale_entries now c). \<forall>w. rq = Rq_EditWallet w \<longrightarrow> w \<in> pending_edits c"
    by (auto simp: stale_entries_def pending_edits_def)
  ultimately show ?thesis by (simp add: tick_eq)
qed

section \<open>Sessions\<close>

definition wallets_of :: "ws_client \<Rightarrow> wallet set" where
  "wallets_of c = snd ` set (cl_wallets c)"

inductive session :: "codec \<Rightarrow> wallet set \<Rightarrow> installer \<Rightarrow> bool" for C where
  start: "st_backend s = client_new \<Longrightarrow> st_app s = app_new \<Longrightarrow> session C {} s"
| message: "session C W s \<Longrightarrow> session C W (fst (installer_update X m s))"
| devices: "session C W s \<Longrightarrow> session C W (s\<lparr>st_hw := ds\<rparr>)"
| handshake: "session C W s \<Longrightarrow> session C W (upd_backend (\<lambda>c. snd (wss_handshake C token co se reply c)) s)"
| receive: "session C W s \<Longrightarrow> c = snd (wss_receive C r (st_backend s)) \<Longrightarrow>
            session C (W \<union> wallets_of c) (s\<lparr>st_backend := c\<rparr>)"
| send: "session C W s \<Longrightarrow> cl_outbox (st_backend s) = rq # rest \<Longrightarrow>
         session C W (upd_backend (\<lambda>c. snd (snd (wss_send C token j now ok rq (c\<lparr>cl_outbox := rest\<rparr>)))) s)"
| retry: "session C W s \<Longrightarrow> session C W (upd_backend (request_timeout_tick now) s)"
| ping: "session C W s \<Longrightarrow> session C W (upd_backend (ping_tick now) s)"
| ping_timeout: "session C W s \<Longrightarrow> session C W (upd_backend (ping_timeout_tick now) s)"

text \<open>An edit of a wallet: its template and its status, nothing else.\<close>

definition edit_of :: "wallet \<Rightarrow> wallet \<Rightarrow> bool" where
  "edit_of w0 w \<longleftrightarrow> (\<exists>t. w = w0\<lparr>w_status := w_status w, w_template := Some t, w_last_edited := None, w_last_editor := None\<rparr>)"

definition session_ok :: "wallet set \<Rightarrow> installer \<Rightarrow> bool" where
  "session_ok W s \<longleftrightarrow> cache_ok (st_backend s) \<and> wallets_of (st_backend s) \<subseteq> W
     \<and> (app_template (st_app s) = app_template app_new \<or> (\<exists>w \<in> W. app_template (st_app s) = server_template w))
     \<and> (\<forall>w \<in> pending_edits (st_backend s). \<exists>w0 \<in> W. edit_of w0 w)"

lemma get_wallet_of: "get_wallet c i = Some w \<Longrightarrow> w \<in> wallets_of c"
  unfolding get_wallet_def wallets_of_def by (force dest: map_of_SomeD)

lemma authorised_edit_of: "authorised s w \<Longrightarrow> \<exists>w0 \<in> wallets_of (st_backend s). edit_of w0 w"
  by (auto simp: authorised_def edit_of_def selected_wallet_def intro: get_wallet_of split: option.splits)

lemma kept_session:
  assumes "kept E c c'" "\<forall>w \<in> E. \<exists>w0 \<in> wallets_of c. edit_of w0 w"
    and "cache_ok c" "wallets_of c \<subseteq> W" "\<forall>w \<in> pending_edits c. \<exists>w0 \<in> W. edit_of w0 w"
  shows "cache_ok c' \<and> wallets_of c' \<subseteq> W \<and> (\<forall>w \<in> pending_edits c'. \<exists>w0 \<in> W. edit_of w0 w)"
proof -
  have "wallets_of c' \<subseteq> wallets_of c" using assms(1) by (auto simp: kept_def wallets_of_def)
  moreover have "pending_edits c' \<subseteq> pending_edits c \<union> E" using assms(1) by (auto simp: kept_def pending_edits_def)
  moreover have "cache_ok c'" using assms(1,3) by (simp add: kept_def)
  ultimately show ?thesis using assms(2,4,5) by blast
qed

lemma installer_update_session:
  assumes "session_ok W s"
  shows "session_ok W (fst (installer_update X m s))"
proof (cases "sends s (fst (installer_update X m s))")
  case True
  then have "kept (Collect (authorised s)) (st_backend s) (st_backend (fst (installer_update X m s)))"
    by (simp add: sends_def)
  from kept_session [OF this, of W] authorised_edit_of assms True show ?thesis
    by (auto simp: session_ok_def sends_def)
next
  case False
  then have l: "loads s (fst (installer_update X m s))" using installer_update_effect by blast
  then have "kept {} (st_backend s) (st_backend (fst (installer_update X m s)))" by (simp add: loads_def)
  from kept_session [OF this, of W] assms
  have kept: "cache_ok (st_backend (fst (installer_update X m s)))
     \<and> wallets_of (st_backend (fst (installer_update X m s))) \<subseteq> W
     \<and> (\<forall>w \<in> pending_edits (st_backend (fst (installer_update X m s))). \<exists>w0 \<in> W. edit_of w0 w)"
    by (simp add: session_ok_def)
  from l have "app_template (st_app (fst (installer_update X m s))) = app_template (st_app s)
     \<or> (\<exists>w \<in> W. app_template (st_app (fst (installer_update X m s))) = server_template w)"
    using get_wallet_of assms unfolding loads_def session_ok_def by blast
  with kept assms show ?thesis unfolding session_ok_def by auto
qed

lemma thread_session:
  assumes "session_ok W s" "thread_ok (st_backend s) c" "wallets_of c \<subseteq> W'" "W \<subseteq> W'"
  shows "session_ok W' (s\<lparr>st_backend := c\<rparr>)"
  using assms unfolding session_ok_def thread_ok_def by (simp, blast)

lemma wss_send_wallets: "cl_wallets (snd (snd (wss_send C token j now ok rq c))) = cl_wallets c"
  by (simp add: wss_send_def request_to_ws_message_def Let_def)

lemma tick_wallets:
  "cl_wallets (request_timeout_tick now c) = cl_wallets c" "cl_wallets (ping_tick now c) = cl_wallets c"
  "cl_wallets (ping_timeout_tick now c) = cl_wallets c"
  "cl_wallets (snd (wss_handshake C token co se reply c)) = cl_wallets c"
proof -
  have "cl_wallets (fold (retry_request now) es c) = cl_wallets c" for es
    by (induction es arbitrary: c) (auto simp: retry_request_def)
  then show "cl_wallets (request_timeout_tick now c) = cl_wallets c" by (simp add: tick_eq)
qed (auto simp: ping_tick_def ping_timeout_tick_def wss_handshake_def Let_def
      split: option.split sum.split prod.split ws_response.split)

lemma session_start: "st_backend s = client_new \<Longrightarrow> st_app s = app_new \<Longrightarrow> session_ok {} s"
  using client_new_cache_ok by (simp add: session_ok_def wallets_of_def pending_edits_def client_new_def)

lemma session_invariant:
  assumes "session C W s"
  shows "session_ok W s"
  using assms
proof induction
  case (start s)
  then show ?case by (rule session_start)
next
  case (message W s X m)
  show ?case by (rule installer_update_session [OF message.IH])
next
  case (devices W s ds)
  then show ?case by (simp add: session_ok_def)
next
  case (handshake W s token co se reply)
  then show ?case
    by (intro thread_session [OF handshake.IH wss_handshake_thread])
       (auto simp: session_ok_def wallets_of_def tick_wallets)
next
  case (receive W s c r)
  then show ?case
    by (intro thread_session [OF receive.IH]) (auto simp: wss_receive_thread)
next
  case (send W s rq rest token j now ok)
  then show ?case
    by (intro thread_session [OF send.IH wss_send_thread])
       (auto simp: session_ok_def wallets_of_def wss_send_wallets)
next
  case (retry W s now)
  then show ?case
    by (intro thread_session [OF retry.IH request_timeout_thread])
       (auto simp: session_ok_def wallets_of_def tick_wallets)
next
  case (ping W s now)
  then show ?case
    by (intro thread_session [OF ping.IH ticks_thread(1)])
       (auto simp: session_ok_def wallets_of_def tick_wallets)
next
  case (ping_timeout W s now)
  then show ?case
    by (intro thread_session [OF ping_timeout.IH ticks_thread(2)])
       (auto simp: session_ok_def wallets_of_def tick_wallets)
qed

end
