(* ===== verification/Business_Examples.thy ===== *)
theory Business_Examples
  imports Installer_Session
begin

text \<open>
  A small wallet of a business, the messages of its server as a table of texts, and a session in
  which the administrator of the service connects, selects the wallet and locks it. The witnesses of
  the properties of the business client are taken here.
\<close>

section \<open>A wallet\<close>

definition ex_key :: "nat \<Rightarrow> string \<Rightarrow> ws_key" where
  "ex_key i alias = \<lparr>key_id = i, key_alias = alias, key_description = [], key_identity = Id_Email (alias @ ''@x.org''),
     key_type = Internal, key_xpub = Some (Single_Pub (Some (i, [])) i), key_xpub_source = None,
     key_xpub_device_kind = None, key_xpub_device_version = None, key_xpub_file_name = None,
     key_last_edited = None, key_last_editor = None\<rparr>"

text \<open>One key at any time, or any of two others after two days.\<close>

definition ex_template :: policy_template where
  "ex_template = \<lparr>tpl_keys = [(0, ex_key 0 ''ann''), (1, ex_key 1 ''bob''), (2, ex_key 2 ''eve'')],
     tpl_primary = spending_path_new True 1 [0],
     tpl_secondary = [\<lparr>sec_path = spending_path_new False 1 [1, 2], sec_timelock = \<lparr>tl_blocks = 288\<rparr>\<rparr>],
     tpl_keys_ready = True\<rparr>"

definition ex_wallet :: wallet where
  "ex_wallet = \<lparr>w_alias = ''Treasury'', w_org = 3, w_owner = 6, w_id = 7, w_status = Drafted,
     w_template = Some ex_template, w_last_edited = None, w_last_editor = None, w_descriptor = None,
     w_devices = None\<rparr>"

definition ex_user :: ws_user where
  "ex_user = \<lparr>u_name = ''Zoe'', u_uuid = 5, u_email = ''zoe@x.org'', u_role = WizardSardineAdmin,
     u_last_edited = None, u_last_editor = None\<rparr>"

lemma ex_wallet_fields [simp]:
  "w_alias ex_wallet = ''Treasury''" "w_org ex_wallet = 3" "w_owner ex_wallet = 6" "w_id ex_wallet = 7"
  "w_status ex_wallet = Drafted" "w_template ex_wallet = Some ex_template" "w_last_edited ex_wallet = None"
  "w_last_editor ex_wallet = None" "w_descriptor ex_wallet = None" "w_devices ex_wallet = None"
  by (simp_all add: ex_wallet_def)

lemma ex_user_fields [simp]:
  "u_uuid ex_user = 5" "u_role ex_user = WizardSardineAdmin" "u_last_editor ex_user = None"
  by (simp_all add: ex_user_def)

lemma ex_editors [simp]: "template_editors ex_template = [None, None, None, None, None]"
  by (simp add: ex_template_def template_editors_def ex_key_def spending_path_new_def)

section \<open>The server and the parameters\<close>

definition ex_response :: "string \<Rightarrow> json option \<Rightarrow> protocol_response" where
  "ex_response ty p = \<lparr>pp_type = ty, pp_request_id = None, pp_payload = p, pp_error = None\<rparr>"

text \<open>A request has one text; a response has the text of its type.\<close>

definition ex_codec :: codec where
  "ex_codec = \<lparr>
     request_text = (\<lambda>q. pq_type q),
     text_request = (\<lambda>t. if t = ''fetch_org'' then Ok \<lparr>pq_type = t, pq_token = ''token'', pq_request_id = ''id'',
         pq_payload = Some (J_Object [(''id'', J_String ''111'')])\<rparr> else Err ''unknown''),
     response_text = (\<lambda>p. pp_type p),
     text_response = (\<lambda>t.
       if t = ''connected'' then Ok (ex_response t
         (Some (J_Object [(''version'', J_Number (Pos_Int 1)), (''user'', J_String ''11111'')])))
       else if t \<in> {''user'', ''wallet''} then Ok (ex_response t (Some J_Null))
       else Err ''unknown''),
     uuid_text = (\<lambda>i. replicate i CHR ''1''), text_uuid = (\<lambda>s. Ok (length s)),
     org_value = (\<lambda>x. J_Null), value_org = (\<lambda>v. Err ''no organisation''),
     wallet_value = (\<lambda>x. J_Null), value_wallet = (\<lambda>v. Ok ex_wallet),
     user_value = (\<lambda>x. J_Null), value_user = (\<lambda>v. Ok ex_user),
     xpub_value = (\<lambda>x. J_Null), value_xpub = (\<lambda>v. Err ''no key''),
     infos_value = (\<lambda>x. J_Null), value_infos = (\<lambda>v. Err ''no device'')\<rparr>"

definition ex_ops :: ui_ops where
  "ex_ops = \<lparr>tr = (\<lambda>k args. k), email_ok = (\<lambda>e. CHR 0x40 \<in> set e), bip39_word = (\<lambda>w. w = ''abandon''),
     xpub_of_text = (\<lambda>t. Err ''not a key''), xpub_text = (\<lambda>k. ''key''), network_kind = (\<lambda>n. 0),
     network_text = (\<lambda>n. ''signet''), fingerprint_text = (\<lambda>f. ''f'')\<rparr>"

definition ex_ctx :: ctx where
  "ex_ctx = \<lparr>cx_ops = ex_ops, cx_show_error = (\<lambda>e. ''error''),
     cx_env = \<lparr>ev_accounts = [], ev_to_remove = [], ev_mail_opened = True\<rparr>\<rparr>"

section \<open>A session\<close>

definition ex_views :: views where
  "ex_views = \<lparr>vw_warning = None, vw_help = None, vw_conflict = None, vw_key = None, vw_path = None, vw_xpub = None,
     vw_registration = \<lparr>rv_descriptor = None, rv_user_devices = [], rv_completed = [], rv_modal = None\<rparr>,
     vw_login = with_cached_accounts [(''zoe@x.org'', ''token'')], vw_org_filter = [], vw_wallet_filter = []\<rparr>"

definition ex_start :: installer where
  "ex_start = \<lparr>st_app = app_new, st_views = ex_views, st_backend = client_new, st_view = View_Login, st_hw = [],
     st_hw_running = False, st_network = Net_Signet, st_connection_error = None, st_pending_fetches = [],
     st_calls = []\<rparr>"

definition ex_step :: "msg \<Rightarrow> installer \<Rightarrow> installer" where
  "ex_step m s = fst (installer_update ex_ctx m s)"

definition ex_receive :: "string \<Rightarrow> installer \<Rightarrow> installer" where
  "ex_receive t s = s\<lparr>st_backend := snd (wss_receive ex_codec (Read_Text t) (st_backend s))\<rparr>"

definition ex_online :: installer where
  "ex_online = (ex_step (Msg_Login (AccountSelectConnect ''zoe@x.org'')) ex_start)
     \<lparr>st_backend := snd (wss_handshake ex_codec (Some ''token'') True True (Some (Ws_Text ''connected''))
        (st_backend (ex_step (Msg_Login (AccountSelectConnect ''zoe@x.org'')) ex_start)))\<rparr>"

definition ex_loaded :: installer where
  "ex_loaded = ex_receive ''wallet'' (ex_receive ''user'' ex_online)"

definition ex_selected :: installer where
  "ex_selected = ex_step (Msg_Select (OrgWalletSelected 7)) ex_loaded"

definition ex_locked :: installer where
  "ex_locked = ex_step (Msg_Template Lock) ex_selected"

text \<open>What the session is after each step, in the fields that the next steps read.\<close>

abbreviation ex_connected :: ws_client where
  "ex_connected \<equiv> client_new\<lparr>cl_token := Some ''token'', cl_has_sender := True, cl_user_id := Some 5,
     cl_connected := True, cl_outbox := [Rq_FetchUser 5], cl_notifs := [N_Connected]\<rparr>"

lemma ex_online_fields:
  "st_backend ex_online = ex_connected" "st_app ex_online = app_new" "login_email ex_online = ''zoe@x.org''"
  by (simp_all add: ex_online_def ex_step_def ex_start_def ex_views_def quiet_def on_account_connect_def
      with_cached_accounts_def connect_def connect_ws_def set_token_def client_new_def on_login_def login_email_def
      wss_handshake_def response_from_ws_message_def ex_codec_def ex_response_def parse_connected_def missing_payload_def
      json_index_def send_notif_def send_request_def)

lemma ex_user_received:
  "handle_wss_message ex_codec (Ws_Text ''user'') c = (Ok (), handle_user ex_user c)"
  "handle_wss_message ex_codec (Ws_Text ''wallet'') c = (Ok (), handle_wallet ex_wallet c)"
  by (simp_all add: handle_wss_message_def response_from_ws_message_def ex_codec_def ex_response_def parse_user_def
      parse_wallet_def missing_payload_def ignore_unparsed_def handle_response_def)

abbreviation ex_cached :: ws_client where
  "ex_cached \<equiv> ex_connected\<lparr>cl_users := [(0, dummy_user), (5, ex_user)], cl_wallets := [(7, ex_wallet)],
     cl_outbox := [Rq_FetchUser 5, Rq_FetchUser 6], cl_notifs := [N_Connected, N_User 5, N_Wallet 7]\<rparr>"

lemma ex_user_loaded:
  "st_backend (ex_receive ''user'' ex_online) = ex_connected\<lparr>cl_users := [(0, dummy_user), (5, ex_user)],
     cl_notifs := [N_Connected, N_User 5]\<rparr>"
  by (simp add: ex_receive_def wss_receive_def ex_user_received ex_online_fields handle_user_def fetch_user_maybe_def
      client_new_def send_notif_def NIL_UUID_def)

lemma ex_loaded_fields:
  "st_backend ex_loaded = ex_cached" "st_app ex_loaded = app_new" "login_email ex_loaded = ''zoe@x.org''"
proof -
  show "st_backend ex_loaded = ex_cached"
    by (simp add: ex_loaded_def ex_receive_def [of "''wallet''"] wss_receive_def ex_user_received ex_user_loaded
        handle_wallet_def fetch_user_maybe_def client_new_def send_notif_def send_request_def NIL_UUID_def bt_modify_def bt_contains_def Let_def)
qed (simp_all add: ex_loaded_def ex_receive_def login_email_def ex_online_fields [unfolded login_email_def])

lemma ex_selected_fields:
  "st_backend ex_selected = ex_cached" "app_template (st_app ex_selected) = ex_template"
  "as_selected_wallet (st_app ex_selected) = Some 7" "as_role (st_app ex_selected) = Some WizardSardineAdmin"
  by (simp_all add: ex_selected_def ex_step_def on_wallet_selected_def ex_loaded_fields get_wallet_def get_user_def
      user_role_for_def effective_status_def load_template_def apply_server_template_def
      app_template_def route_to_wallet_def client_new_def)

lemma ex_template_ok: "template_valid ex_template"
  by (simp add: ex_template_def template_valid_def spending_path_new_def spending_path_valid_def secondary_valid_def)

lemma ex_locked_outbox:
  "cl_outbox (st_backend ex_locked) = [Rq_FetchUser 5, Rq_FetchUser 6, Rq_EditWallet (ex_wallet\<lparr>w_status := Locked\<rparr>)]"
  by (simp add: ex_locked_def ex_step_def quiet_def on_lock_def is_template_valid_def ex_template_ok send_status_def
      send_template_def build_wallet_def ex_selected_fields get_wallet_def edit_wallet_def when_connected_def
      send_request_def)

lemma ex_wallets: "wallets_of (st_backend (ex_receive ''user'' ex_online)) = {}" "wallets_of (st_backend ex_loaded) = {ex_wallet}"
  by (simp_all add: ex_user_loaded ex_loaded_fields wallets_of_def client_new_def)

lemma ex_session: "session ex_codec {ex_wallet} ex_locked"
proof -
  have "session ex_codec {} ex_start" by (rule session.start) (simp_all add: ex_start_def)
  then have "session ex_codec {} (ex_step (Msg_Login (AccountSelectConnect ''zoe@x.org'')) ex_start)"
    unfolding ex_step_def by (rule session.message)
  then have "session ex_codec {} ex_online"
    unfolding ex_online_def by (rule session.handshake)
  then have "session ex_codec ({} \<union> wallets_of (st_backend (ex_receive ''user'' ex_online))) (ex_receive ''user'' ex_online)"
    by (auto simp: ex_receive_def intro: session.receive [where W = "{}", simplified])
  then have "session ex_codec {} (ex_receive ''user'' ex_online)" by (simp add: ex_wallets)
  then have "session ex_codec ({} \<union> wallets_of (st_backend ex_loaded)) ex_loaded"
    by (auto simp: ex_loaded_def ex_receive_def [of "''wallet''"] intro: session.receive [where W = "{}", simplified])
  then have "session ex_codec {ex_wallet} ex_loaded" by (simp add: ex_wallets)
  then show ?thesis
    unfolding ex_locked_def ex_selected_def ex_step_def by (intro session.message)
qed

end
