(* ===== verification/Client_Properties.thy ===== *)
theory Client_Properties
  imports Business_Examples
begin

text \<open>
  The properties of the business client that face the server: what it sends and for whom, what it
  keeps of the answers, that both directions of the protocol read back what was written, and what
  becomes of requests that are refused or not answered.
\<close>

section \<open>Edits\<close>

text \<open>C8: whatever the message, a wallet that the interface hands over to be edited on the server is
  the cached wallet that is selected, with nothing but its template and its status changed and no
  editor claimed, and the change is one that the role of the user allows: the administrator of the
  service makes drafts, or locks a template as it is shown when it is valid; the manager of the wallet
  changes keys in a draft, declares the keys ready without a change of status, or validates a locked
  template as it is shown; nobody else edits.\<close>

theorem edits_are_authorised:
  assumes "Rq_EditWallet w \<in> set (cl_outbox (st_backend (fst (installer_update X m s))))"
    and "Rq_EditWallet w \<notin> set (cl_outbox (st_backend s))"
  shows "authorised s w"
  using installer_update_effect [of s X m] assms by (auto simp: sends_def loads_def kept_def)

theorem edits_are_authorised_witness:
  "authorised ex_selected (ex_wallet\<lparr>w_status := Locked\<rparr>)"
proof -
  have "Rq_EditWallet (ex_wallet\<lparr>w_status := Locked\<rparr>) \<in> set (cl_outbox (st_backend ex_locked))"
    by (simp add: ex_locked_outbox)
  moreover have "Rq_EditWallet (ex_wallet\<lparr>w_status := Locked\<rparr>) \<notin> set (cl_outbox (st_backend ex_selected))"
    by (simp add: ex_selected_fields)
  ultimately show ?thesis
    unfolding ex_locked_def ex_step_def by (rule edits_are_authorised)
qed

section \<open>Sessions\<close>



section \<open>The protocol\<close>

text \<open>C25: every request that the client writes is read back by the other side as the same request with
  the same token and identifier, when serialisation reads back the parts of this message and its
  small numbers fit a byte.\<close>

theorem request_roundtrip:
  assumes "uuid_ok C" "request_values_ok C rq"
    and "request_text_ok C \<lparr>pq_type = request_method rq, pq_token = token, pq_request_id = rid,
           pq_payload = request_payload C rq\<rparr>"
  shows "request_from_ws_message C (request_to_ws_message_with_id C rq token rid) = Ok (rq, token, rid)"
  using assms by (rule request_roundtrip_lemma)

lemma ex_codec_uuid: "uuid_ok ex_codec"
  by (simp add: uuid_ok_def ex_codec_def)

lemma ex_codec_id: "uuid_text ex_codec i = replicate i CHR ''1''"
  by (simp add: ex_codec_def)

theorem request_roundtrip_witness:
  "request_from_ws_message ex_codec (request_to_ws_message_with_id ex_codec (Rq_FetchOrg 3) ''token'' ''id'')
     = Ok (Rq_FetchOrg 3, ''token'', ''id'')"
  by (rule request_roundtrip [OF ex_codec_uuid])
     (simp_all add: request_text_ok_def ex_codec_id fetch_by_id_payload_def, simp add: ex_codec_def numeral_3_eq_3)

text \<open>C26: every response that is written is read back as the same response to the same request, errors
  included, when serialisation reads back the parts of this message and the version fits a byte.\<close>

theorem response_roundtrip:
  assumes "uuid_ok C" "response_values_ok C rs"
    and "response_text_ok C \<lparr>pp_type = response_method rs, pp_request_id = rid, pp_payload = response_payload C rs,
           pp_error = (case rs of Rs_Error e \<Rightarrow> Some e | _ \<Rightarrow> None)\<rparr>"
  shows "response_from_ws_message C (response_to_ws_message C rs rid) = Ok (Some rs, rid)"
  using assms by (rule response_roundtrip_lemma)

theorem response_roundtrip_witness:
  "response_from_ws_message ex_codec (response_to_ws_message ex_codec (Rs_Wallet ex_wallet) None)
     = Ok (Some (Rs_Wallet ex_wallet), None)"
  by (rule response_roundtrip [OF ex_codec_uuid]) (simp_all add: response_text_ok_def ex_codec_def ex_response_def)

section \<open>Refused messages\<close>

text \<open>a message that cannot be handled, because it does not parse, carries an error of the server or
  answers another kind of request, changes no cache and sends nothing: it is reported to the
  interface, the connection goes on, and at most the request that the server refused is no longer awaited.\<close>

theorem refused_message:
  assumes "handle_wss_message C (Ws_Text t) c = (Inl e, c')"
  shows "wss_receive C (Read_Text t) c = (True, send_notif (N_Error (BE_WsMessageHandling e)) c')
    \<and> (c' = c \<or> (\<exists>code why i. e = Server_Said code why \<and> c' = c\<lparr>cl_sent := bt_remove i (cl_sent c)\<rparr>))"
proof -
  have "c' = c \<or> (\<exists>code why i. e = Server_Said code why \<and> c' = c\<lparr>cl_sent := bt_remove i (cl_sent c)\<rparr>)"
    if "handle_error x rid c = (Inl e, c')" for x rid
    using that by (auto simp: handle_error_def Let_def split: option.splits if_splits ws_request.splits prod.splits)
  then have "c' = c \<or> (\<exists>code why i. e = Server_Said code why \<and> c' = c\<lparr>cl_sent := bt_remove i (cl_sent c)\<rparr>)"
    using assms
    by (auto simp: handle_wss_message_def Let_def split: sum.splits option.splits ws_response.splits prod.splits if_splits)
  then show ?thesis by (simp add: wss_receive_def assms)
qed

theorem refused_message_witness:
  "wss_receive ex_codec (Read_Text ''garbage'') client_new
     = (True, client_new\<lparr>cl_notifs := [N_Error (BE_WsMessageHandling (Convert_Failed (DeserializationFailed ''unknown'')))]\<rparr>)"
proof -
  have "handle_wss_message ex_codec (Ws_Text ''garbage'') client_new
     = (Inl (Convert_Failed (DeserializationFailed ''unknown'')), client_new)"
    by (simp add: handle_wss_message_def response_from_ws_message_def ex_codec_def)
  from refused_message [OF this] show ?thesis by (simp add: send_notif_def client_new_def)
qed

section \<open>Requests without an answer\<close>


definition ex_waiting :: ws_client where
  "ex_waiting = client_new\<lparr>cl_sent := [(1, Rq_FetchOrg 3, 0, 0)]\<rparr>"

text \<open>Three rounds, half a minute apart; the checker resends once, twice and four times.\<close>

definition ex_rounds :: "(nat \<times> uuid list) list" where
  "ex_rounds = [(31 * SECOND, [2]), (62 * SECOND, [3, 4]), (93 * SECOND, [5, 6, 7, 8])]"


end
