(* ===== verification/Editing_Properties.thy ===== *)
theory Editing_Properties
  imports Business_Examples
begin

text \<open>
  The properties of the business client that face the user: what an editor saves, when a template
  can be locked, how the screen follows the server, and what becomes of edits that other users make
  at the same time.
\<close>

section \<open>What is sent\<close>

definition edited :: "wallet \<Rightarrow> wallet_status \<Rightarrow> policy_template \<Rightarrow> wallet" where
  "edited w st t = w\<lparr>w_status := st, w_template := Some t, w_last_edited := None, w_last_editor := None\<rparr>"

definition online :: "installer \<Rightarrow> bool" where
  "online s \<longleftrightarrow> cl_connected (st_backend s) \<and> cl_has_sender (st_backend s)"

lemma send_template_outbox:
  assumes "selected_wallet s = Some w"
  shows "cl_outbox (st_backend (send_template st t s)) =
     cl_outbox (st_backend s) @ (if online s then [Rq_EditWallet (edited w st t)] else [])"
  using assms
  by (simp add: send_template_def build_wallet_selected edited_def edit_wallet_def when_connected_outbox online_def)

lemma selected_wallet_frame [simp]:
  "selected_wallet (s\<lparr>st_views := v\<rparr>) = selected_wallet s" "online (s\<lparr>st_views := v\<rparr>) = online s"
  by (simp_all add: selected_wallet_def online_def split: option.split)

lemma ex_selected_wallet: "selected_wallet ex_selected = Some ex_wallet" "online ex_selected"
  by (simp_all add: selected_wallet_def ex_selected_fields get_wallet_def online_def)

section \<open>Locking\<close>

lemma secondaries_valid_iff:
  "secondaries_valid n seen ps \<longleftrightarrow>
     list_all secondary_valid ps \<and> list_all (\<lambda>p. list_all (\<lambda>i. i < n) (sp_key_ids (sec_path p))) ps
     \<and> distinct (map (\<lambda>p. tl_blocks (sec_timelock p)) ps)
     \<and> set seen \<inter> set (map (\<lambda>p. tl_blocks (sec_timelock p)) ps) = {}"
  by (induction n seen ps rule: secondaries_valid.induct) (auto simp: set_insort_insert)

lemma template_valid_iff:
  "template_valid t \<longleftrightarrow>
     spending_path_valid (tpl_primary t) \<and> tpl_secondary t \<noteq> [] \<and> list_all secondary_valid (tpl_secondary t)
     \<and> distinct (map (\<lambda>p. tl_blocks (sec_timelock p)) (tpl_secondary t))
     \<and> list_all (\<lambda>p. list_all (\<lambda>i. i < length (tpl_keys t) mod 256) (sp_key_ids p))
         (tpl_primary t # map sec_path (tpl_secondary t))"
  by (simp add: template_valid_def secondaries_valid_iff Let_def) (auto simp: list_all_iff)



section \<open>Editing a path\<close>

lemma best_unit_exact:
  assumes "best_unit b = (u, v)" "b \<le> 65535"
  shows "v \<le> b" "to_blocks_capped u v = b"
proof -
  have v: "v * blocks_per_unit u = b" "v \<le> b"
    using assms(1)
    by (auto simp: best_unit_def from_blocks_def BLOCKS_PER_HOUR_def BLOCKS_PER_DAY_def BLOCKS_PER_MONTH_def
          dvd_div_mult_self mod_eq_0_iff_dvd split: if_splits)
  then show "v \<le> b" "to_blocks_capped u v = b"
    using assms(2) by (simp_all add: to_blocks_capped_def to_blocks_def MAX_TIMELOCK_BLOCKS_def)
qed

lemma sort_paths_sorted: "sorted (map (\<lambda>p. tl_blocks (sec_timelock p)) ps) \<Longrightarrow> sort_paths ps = ps"
  by (simp add: sort_paths_def sort_key_id_if_sorted)

text \<open>C24: opening the editor of a recovery path of a sorted template and saving it at once sends the
  template as it was, whatever unit the editor chose to show the timelock in: months, days, hours or
  blocks.\<close>

theorem path_saved_unchanged:
  assumes "selected_wallet s = Some w" "as_role (st_app s) = Some WizardSardineAdmin" "online s"
    and "n < length (as_secondary (st_app s))" "secondary_valid (as_secondary (st_app s) ! n)"
    and "sp_threshold_n (sec_path (as_secondary (st_app s) ! n)) \<le> 255"
    and "sorted (map (\<lambda>p. tl_blocks (sec_timelock p)) (as_secondary (st_app s)))"
  shows "cl_outbox (st_backend (on_save_path (on_edit_path False (Some n) s))) =
     cl_outbox (st_backend s) @ [Rq_EditWallet (edited w Drafted (app_template (st_app s)))]"
proof -
  define p where "p = as_secondary (st_app s) ! n"
  obtain u v where uv: "best_unit (tl_blocks (sec_timelock p)) = (u, v)" by force
  have ok: "tl_blocks (sec_timelock p) \<le> 65535" "0 < sp_threshold_n (sec_path p)"
    "sp_threshold_n (sec_path p) \<le> length (sp_key_ids (sec_path p))" "sp_threshold_n (sec_path p) \<le> 255"
    using assms(5,6) by (simp_all add: secondary_valid_def spending_path_valid_def p_def Let_def)
  define m where "m = \<lparr>pm_is_primary = False, pm_path_index = Some n, pm_selected = sp_key_ids (sec_path p),
     pm_threshold = show_nat (sp_threshold_n (sec_path p)), pm_timelock = Some (show_nat v), pm_unit = u\<rparr>"
  have edit: "on_edit_path False (Some n) s = open_path_modal m s"
    using assms(4) uv by (simp add: on_edit_path_def p_def [symmetric] m_def)
  have "v \<le> 18446744073709551615" using best_unit_exact(1) [OF uv ok(1)] ok(1) by simp
  then have "saved_template m (app_template (st_app s)) = app_template (st_app s)"
    using assms(4,7) best_unit_exact(2) [OF uv ok(1)] ok
    by (simp add: saved_template_def m_def resolved_threshold_def set_threshold_def on_secondary_def app_template_def
        p_def [symmetric] Let_def)
       (auto simp: p_def sort_paths_sorted)
  then show ?thesis
    using assms(1-3) by (simp add: edit on_save_path_def open_path_modal_def send_template_outbox)
qed

theorem path_saved_unchanged_witness:
  "cl_outbox (st_backend (on_save_path (on_edit_path False (Some 0) ex_selected))) =
     cl_outbox (st_backend ex_selected) @ [Rq_EditWallet (edited ex_wallet Drafted ex_template)]"
proof -
  have "as_secondary (st_app ex_selected) = tpl_secondary ex_template"
    using arg_cong [OF ex_selected_fields(2), of tpl_secondary] by (simp add: app_template_def)
  with path_saved_unchanged [OF ex_selected_wallet(1) ex_selected_fields(4) ex_selected_wallet(2), of 0]
  show ?thesis
    by (simp add: ex_selected_fields)
       (simp add: ex_template_def spending_path_new_def spending_path_valid_def secondary_valid_def)
qed

end
