(* ===== verification/Following_Properties.thy ===== *)
theory Following_Properties
  imports Editing_Properties
begin

text \<open>
  How the interface of a business wallet follows its server: an update without an editor open, the
  edits that another user makes while an editor is open, the status a user sees, and the answers
  of the devices.
\<close>

section \<open>Updates\<close>

lemma no_modal_no_conflict:
  assumes "vw_key (st_views s) = None" "vw_path (st_views s) = None"
  shows "check_modal_conflicts U w i s = s"
  using assms by (simp add: check_modal_conflicts_def key_conflict_def path_conflict_def)

lemma unedited_template: "unedited s s' \<Longrightarrow> app_template (st_app s') = app_template (st_app s)"
  by (simp add: unedited_def)

lemma on_backend_wallet_template:
  assumes "get_wallet (st_backend s) i = Some w" "as_selected_wallet (st_app s) = Some i"
    and "vw_key (st_views s) = None" "vw_path (st_views s) = None" "vw_conflict (st_views s) = None"
  shows "app_template (st_app (fst (on_backend_wallet U i s))) = server_template w"
proof -
  let ?s2 = "load_template w s"
  let ?s3 = "snd (redirect w ?s2)"
  let ?s4 = "snd (update_registration w ?s3)"
  have 2: "app_template (st_app ?s2) = server_template w"
    by (simp add: load_template_def server_template_def)
  have 3: "app_template (st_app ?s3) = server_template w" using unedited_template [OF unedited_redirect] 2 by simp
  have 4: "app_template (st_app ?s4) = server_template w"
    using unedited_template [OF unedited_update_registration(1)] 3 by simp
  show ?thesis
    using 3 4 unedited_template [OF unedited_update_registration(2), of w ?s3] unedited_template [OF unedited_update_xpub, of w ?s4]
    by (auto simp: on_backend_wallet_def assms no_modal_no_conflict Let_def case_prod_unfold split: option.split)
qed

lemma wallet_received:
  assumes "response_from_ws_message C (Ws_Text t) = Ok (Some (Rs_Wallet w), rid)"
    and "fst (handle_wss_message C (Ws_Text t) c) = Ok ()" "cache_ok c"
  shows "get_wallet (snd (wss_receive C (Read_Text t) c)) (w_id w) = Some w"
    and "cl_notifs (snd (wss_receive C (Read_Text t) c)) = cl_notifs c @ [N_Wallet (w_id w)]"
proof -
  have "\<exists>c'. snd (wss_receive C (Read_Text t) c) = handle_wallet w c' \<and> cl_wallets c' = cl_wallets c \<and> cl_notifs c' = cl_notifs c"
    using assms(1,2)
    by (auto simp: wss_receive_def handle_wss_message_def handle_response_def Let_def
        split: option.splits sum.splits prod.splits if_splits)
  then obtain c' where "snd (wss_receive C (Read_Text t) c) = handle_wallet w c'" "cl_wallets c' = cl_wallets c"
    "cl_notifs c' = cl_notifs c" by blast
  moreover have "bt_ok (cl_wallets c)" using assms(3) by (simp add: cache_ok_def indexed_def)
  ultimately show "get_wallet (snd (wss_receive C (Read_Text t) c)) (w_id w) = Some w"
    "cl_notifs (snd (wss_receive C (Read_Text t) c)) = cl_notifs c @ [N_Wallet (w_id w)]"
    by (simp_all add: get_wallet_def handle_wallet_fields map_of_bt_insert)
qed

text \<open>C21: when the server sends a wallet, on its own or as the answer to a request for a wallet, while
  that wallet is selected and no editor is open, the thread of the connection notifies the interface, and
  handling that notification shows the template of that wallet.\<close>

theorem server_update_shown:
  assumes "response_from_ws_message C (Ws_Text t) = Ok (Some (Rs_Wallet w), rid)"
    and "fst (handle_wss_message C (Ws_Text t) (st_backend s)) = Ok ()" "cache_ok (st_backend s)"
    and "as_selected_wallet (st_app s) = Some (w_id w)"
    and "vw_key (st_views s) = None" "vw_path (st_views s) = None" "vw_conflict (st_views s) = None"
  shows "N_Wallet (w_id w) = last (cl_notifs (snd (wss_receive C (Read_Text t) (st_backend s))))
    \<and> app_template (st_app (fst (installer_update X (Msg_Backend (BackendNotif (N_Wallet (w_id w))))
         (s\<lparr>st_backend := snd (wss_receive C (Read_Text t) (st_backend s))\<rparr>)))) = server_template w"
  using wallet_received [OF assms(1-3)] assms(4-)
  by (simp add: on_backend_notif_def on_backend_wallet_template)

definition ex_screen :: "wallet \<Rightarrow> views \<Rightarrow> installer" where
  "ex_screen w v = ex_start\<lparr>st_app := (apply_server_template ex_template app_new)
       \<lparr>as_selected_wallet := Some 7, as_role := Some WizardSardineAdmin\<rparr>,
     st_views := v, st_backend := client_new\<lparr>cl_wallets := [(7, w)], cl_connected := True, cl_has_sender := True\<rparr>,
     st_view := View_Keys\<rparr>"

lemma ex_screen_fields [simp]:
  "st_views (ex_screen w v) = v" "st_view (ex_screen w v) = View_Keys" "online (ex_screen w v)"
  "as_selected_wallet (st_app (ex_screen w v)) = Some 7" "as_role (st_app (ex_screen w v)) = Some WizardSardineAdmin"
  "app_template (st_app (ex_screen w v)) = ex_template" "as_keys (st_app (ex_screen w v)) = tpl_keys ex_template"
  "get_wallet (st_backend (ex_screen w v)) 7 = Some w" "selected_wallet (ex_screen w v) = Some w"
  "cl_outbox (st_backend (ex_screen w v)) = []"
  by (simp_all add: ex_screen_def ex_start_def online_def selected_wallet_def get_wallet_def apply_server_template_def
      app_template_def client_new_def)

lemma ex_views_fields [simp]:
  "vw_key ex_views = None" "vw_path ex_views = None" "vw_conflict ex_views = None" "vw_xpub ex_views = None"
  by (simp_all add: ex_views_def)

definition ex_old_wallet :: wallet where
  "ex_old_wallet = ex_wallet\<lparr>w_template := None\<rparr>"

theorem server_update_shown_witness:
  "app_template (st_app (fst (installer_update ex_ctx (Msg_Backend (BackendNotif (N_Wallet 7)))
     (ex_receive ''wallet'' (ex_screen ex_old_wallet ex_views))))) = ex_template"
proof -
  have read: "response_from_ws_message ex_codec (Ws_Text ''wallet'') = Ok (Some (Rs_Wallet ex_wallet), None)"
    by (simp add: response_from_ws_message_def ex_codec_def ex_response_def parse_wallet_def missing_payload_def
        ignore_unparsed_def)
  have "cache_ok (st_backend (ex_screen ex_old_wallet ex_views))"
    by (simp add: ex_screen_def cache_ok_def indexed_def client_new_def dummy_user_def bt_ok_def ex_old_wallet_def)
  from server_update_shown [OF read _ this, of ex_ctx, THEN conjunct2]
  have "app_template (st_app (fst (installer_update ex_ctx (Msg_Backend (BackendNotif (N_Wallet 7)))
     (ex_receive ''wallet'' (ex_screen ex_old_wallet ex_views))))) = server_template ex_wallet"
    unfolding ex_receive_def by (simp add: ex_user_received)
  then show ?thesis by (simp add: server_template_def)
qed

section \<open>Edits of others while an editor is open\<close>

text \<open>On the view of the keys, an update changes the template and the modals only.\<close>

lemma on_backend_wallet_keys_view:
  assumes "get_wallet (st_backend s) i = Some w" "as_selected_wallet (st_app s) = Some i" "st_view s = View_Keys"
    and "check_modal_conflicts U w i s = s\<lparr>st_views := v\<rparr>"
  shows "st_backend (fst (on_backend_wallet U i s)) = st_backend s"
    "st_app (fst (on_backend_wallet U i s)) =
       (if vw_conflict v = None then apply_server_template (server_template w) (st_app s) else st_app s)"
    "vw_key (st_views (fst (on_backend_wallet U i s))) = vw_key v"
    "vw_conflict (st_views (fst (on_backend_wallet U i s))) = vw_conflict v"
proof -
  define s2 where "s2 = (if vw_conflict v = None then load_template w (s\<lparr>st_views := v\<rparr>) else s\<lparr>st_views := v\<rparr>)"
  have 2: "st_view s2 = View_Keys" "st_backend s2 = st_backend s" "st_views s2 = v"
    "st_app s2 = (if vw_conflict v = None then apply_server_template (server_template w) (st_app s) else st_app s)"
    using assms(3) by (simp_all add: s2_def load_template_def server_template_def)
  have r: "snd (redirect w s2) = s2 \<or> snd (redirect w s2) = s2\<lparr>st_view := View_TemplateEdit\<rparr> \<and> fst (redirect w s2)"
    using 2(1) by (simp add: redirect_def Let_def split: option.split user_role.split)
  have c: "st_backend (if vw_xpub (st_views s2) \<noteq> None then stop_hw (close_xpub s2) else s2) = st_backend s2"
    "st_app (if vw_xpub (st_views s2) \<noteq> None then stop_hw (close_xpub s2) else s2) = st_app s2"
    "vw_key (st_views (if vw_xpub (st_views s2) \<noteq> None then stop_hw (close_xpub s2) else s2)) = vw_key v"
    "vw_conflict (st_views (if vw_xpub (st_views s2) \<noteq> None then stop_hw (close_xpub s2) else s2)) = vw_conflict v"
    using 2 by (simp_all add: stop_hw_def close_xpub_def)
  have "on_backend_wallet U i s =
     (if fst (redirect w s2) then (snd (redirect w s2), Task_None)
      else (if vw_xpub (st_views s2) \<noteq> None then stop_hw (close_xpub s2) else s2, Task_None))"
    using r 2(1) unfolding on_backend_wallet_def assms(1,2,4) option.case Let_def
    by (auto simp: s2_def [symmetric] update_registration_def update_xpub_view_def case_prod_unfold)
  with r c 2 show "st_backend (fst (on_backend_wallet U i s)) = st_backend s"
    "st_app (fst (on_backend_wallet U i s)) =
       (if vw_conflict v = None then apply_server_template (server_template w) (st_app s) else st_app s)"
    "vw_key (st_views (fst (on_backend_wallet U i s))) = vw_key v"
    "vw_conflict (st_views (fst (on_backend_wallet U i s))) = vw_conflict v"
    by auto
qed

lemma apply_server_template_frame [simp]:
  "as_role (apply_server_template t a) = as_role a" "as_selected_wallet (apply_server_template t a) = as_selected_wallet a"
  "as_keys (apply_server_template t a) = tpl_keys t"
  by (simp_all add: apply_server_template_def)

lemma selected_wallet_of: "as_selected_wallet (st_app s) = Some i \<Longrightarrow> selected_wallet s = get_wallet (st_backend s) i"
  by (simp add: selected_wallet_def)

text \<open>while a key is edited, another user deletes it. The interface closes the editor and says so,
  but keeps the template it had; once the notice is dismissed, the next deletion of another key sends the
  deleted key back to the server.\<close>

theorem dismissed_deletion_sends_key_back:
  assumes "get_wallet (st_backend s) i = Some w" "as_selected_wallet (st_app s) = Some i" "st_view s = View_Keys"
    and "is_manager s" "online s" "vw_key (st_views s) = Some m" "\<not> km_is_new m"
    and "map_of (tpl_keys (server_template w)) (km_key_id m) = None"
    and "map_of (as_keys (st_app s)) (km_key_id m) = Some k" "j \<noteq> km_key_id m"
  shows "\<exists>t. map_of (tpl_keys t) (km_key_id m) = Some k
    \<and> Rq_EditWallet (edited w Drafted t) \<in> set (cl_outbox (st_backend
        (key_update X (KeyDelete j) (dialog_update ConflictDismiss (fst (on_backend_wallet U i s))))))"
proof -
  define v where "v = (st_views s)\<lparr>vw_key := None, vw_conflict := Some \<lparr>cf_type = Key_Deleted,
     cf_title = tr U ''business-key-deleted'' [], cf_message = tr U ''business-key-deleted-message'' []\<rparr>\<rparr>"
  have "Option.bind (w_template w) (\<lambda>t. map_of (tpl_keys t) (km_key_id m)) = None"
    using assms(8) by (auto simp: server_template_def split: option.splits)
  then have "check_modal_conflicts U w i s = s\<lparr>st_views := v\<rparr>"
    using assms(6,7) by (simp add: check_modal_conflicts_def key_conflict_def raise_conflict_def v_def)
  note kept = on_backend_wallet_keys_view [OF assms(1-3) this]
  define s' where "s' = dialog_update ConflictDismiss (fst (on_backend_wallet U i s))"
  have s': "st_app s' = st_app s" "st_backend s' = st_backend s" "vw_key (st_views s') = None"
    using kept by (simp_all add: s'_def v_def close_conflict_def)
  have "selected_wallet s' = Some w" "online s'" "is_manager s'"
    using assms(1,2,4,5) s' by (simp_all add: selected_wallet_def online_def is_manager_def)
  then have "Rq_EditWallet (edited w Drafted (delete_key j (app_template (st_app s))))
     \<in> set (cl_outbox (st_backend (key_update X (KeyDelete j) s')))"
    by (simp add: on_key_delete_def s' send_template_outbox)
  moreover have "map_of (tpl_keys (delete_key j (app_template (st_app s)))) (km_key_id m) = Some k"
    using assms(9,10) by (simp add: delete_key_def Let_def app_template_def map_of_bt_remove)
  ultimately show ?thesis unfolding s'_def by blast
qed

definition ex_modal :: "nat \<Rightarrow> bool \<Rightarrow> key_modal" where
  "ex_modal i is_new = key_modal_new i ''carl'' [] Internal is_new ''carl@x.org'' [] None []"

lemma ex_modal_fields [simp]:
  "km_key_id (ex_modal i is_new) = i" "km_is_new (ex_modal i is_new) = is_new" "km_alias (ex_modal i is_new) = ''carl''"
  by (simp_all add: ex_modal_def key_modal_new_def)

lemma ex_template_keys [simp]:
  "tpl_keys ex_template = [(0, ex_key 0 ''ann''), (1, ex_key 1 ''bob''), (2, ex_key 2 ''eve'')]"
  by (simp add: ex_template_def)

text \<open>The wallet after another user has deleted its last key.\<close>

definition ex_without :: wallet where
  "ex_without = ex_wallet\<lparr>w_template := Some (delete_key 2 ex_template)\<rparr>"

theorem dismissed_deletion_sends_key_back_witness:
  "\<exists>t. map_of (tpl_keys t) 2 = Some (ex_key 2 ''eve'')
    \<and> Rq_EditWallet (edited ex_without Drafted t) \<in> set (cl_outbox (st_backend
        (key_update ex_ctx (KeyDelete 1) (dialog_update ConflictDismiss
          (fst (on_backend_wallet ex_ops 7 (ex_screen ex_without (ex_views\<lparr>vw_key := Some (ex_modal 2 False)\<rparr>))))))))"
  using dismissed_deletion_sends_key_back [where m = "ex_modal 2 False" and j = 1 and i = 7 and w = ex_without
      and s = "ex_screen ex_without (ex_views\<lparr>vw_key := Some (ex_modal 2 False)\<rparr>)" and U = ex_ops and X = ex_ctx]
  by (simp add: is_manager_def ex_without_def server_template_def delete_key_def Let_def map_of_bt_remove del: key_update.simps dialog_update.simps)

text \<open>while a new key is entered, another user adds a key, which gets the same number. No conflict is
  shown, and saving the new key replaces the key of the other user on the server.\<close>

theorem new_key_replaces_concurrent_key:
  assumes "get_wallet (st_backend s) i = Some w" "as_selected_wallet (st_app s) = Some i" "st_view s = View_Keys"
    and "is_manager s" "online s" "vw_key (st_views s) = Some m" "km_is_new m"
    and "vw_path (st_views s) = None" "vw_conflict (st_views s) = None" "bt_ok (tpl_keys (server_template w))"
    and "map_of (tpl_keys (server_template w)) (km_key_id m) = Some k"
  shows "\<exists>t k'. map_of (tpl_keys t) (km_key_id m) = Some k' \<and> key_alias k' = km_alias m \<and> key_xpub k' = None
    \<and> Rq_EditWallet (edited w Drafted t) \<in> set (cl_outbox (st_backend
        (key_update X KeySave (fst (on_backend_wallet U i s)))))"
proof -
  have "check_modal_conflicts U w i s = s\<lparr>st_views := st_views s\<rparr>"
    using assms(6-8) by (simp add: check_modal_conflicts_def key_conflict_def path_conflict_def)
  note kept = on_backend_wallet_keys_view [OF assms(1-3) this]
  define s' where "s' = fst (on_backend_wallet U i s)"
  define t where "t = (server_template w)\<lparr>tpl_keys := saved_keys m (tpl_keys (server_template w))\<rparr>"
  have s': "st_app s' = apply_server_template (server_template w) (st_app s)" "st_backend s' = st_backend s"
    "vw_key (st_views s') = Some m"
    using kept assms(6,9) by (simp_all add: s'_def)
  have "selected_wallet s' = Some w" "online s'" "is_manager s'"
    using assms(1,2,4,5) s' by (simp_all add: selected_wallet_def online_def is_manager_def)
  then have "Rq_EditWallet (edited w Drafted t) \<in> set (cl_outbox (st_backend (key_update X KeySave s')))"
    by (simp add: on_key_save_def s' send_template_outbox t_def is_manager_def Let_def)
  moreover have "\<exists>k'. map_of (tpl_keys t) (km_key_id m) = Some k' \<and> key_alias k' = km_alias m \<and> key_xpub k' = None"
    using assms(7,10) by (simp add: t_def saved_keys_def map_of_bt_insert)
  ultimately show ?thesis unfolding s'_def by blast
qed

theorem new_key_replaces_concurrent_key_witness:
  "\<exists>t k'. map_of (tpl_keys t) 2 = Some k' \<and> key_alias k' = ''carl'' \<and> key_xpub k' = None
    \<and> Rq_EditWallet (edited ex_wallet Drafted t) \<in> set (cl_outbox (st_backend
        (key_update ex_ctx KeySave (fst (on_backend_wallet ex_ops 7
          (ex_screen ex_wallet (ex_views\<lparr>vw_key := Some (ex_modal 2 True)\<rparr>)))))))"
  using new_key_replaces_concurrent_key [where m = "ex_modal 2 True" and i = 7 and w = ex_wallet and k = "ex_key 2 ''eve''"
      and s = "ex_screen ex_wallet (ex_views\<lparr>vw_key := Some (ex_modal 2 True)\<rparr>)" and U = ex_ops and X = ex_ctx]
  by (simp add: is_manager_def server_template_def bt_ok_def del: key_update.simps)

text \<open>reloading a recovery path that another user has modified puts its timelock in blocks into the editor,
  which keeps its unit. Saving at once, without a change, sends that timelock multiplied by the blocks of the unit and capped at
  65535: a path of one day, 144 blocks, shown in days, becomes one of 144 days.\<close>

theorem reloaded_path_saved_longer:
  assumes "selected_wallet s = Some w" "as_role (st_app s) = Some WizardSardineAdmin" "online s"
    and "vw_conflict (st_views s) = Some \<lparr>cf_type = Path_Modified False (Some n) (w_id w), cf_title = ti, cf_message = me\<rparr>"
    and "get_wallet (st_backend s) (w_id w) = Some w" "w_template w = Some t" "n < length (tpl_secondary t)"
    and "secondary_valid (tpl_secondary t ! n)" "sp_threshold_n (sec_path (tpl_secondary t ! n)) \<le> 255"
    and "vw_path (st_views s) = Some m" "\<not> pm_is_primary m" "pm_path_index m = Some n"
  shows "cl_outbox (st_backend (on_save_path (on_conflict_reload s))) = cl_outbox (st_backend s)
    @ [Rq_EditWallet (edited w Drafted (t\<lparr>tpl_secondary := sort_paths ((tpl_secondary t)[n := (tpl_secondary t ! n)
        \<lparr>sec_timelock := \<lparr>tl_blocks = min (tl_blocks (sec_timelock (tpl_secondary t ! n)) * blocks_per_unit (pm_unit m))
            65535\<rparr>\<rparr>])\<rparr>))]"
proof -
  define p where "p = tpl_secondary t ! n"
  have ok: "tl_blocks (sec_timelock p) \<le> 65535" "0 < sp_threshold_n (sec_path p)"
    "sp_threshold_n (sec_path p) \<le> length (sp_key_ids (sec_path p))" "sp_threshold_n (sec_path p) \<le> 255"
    using assms(8,9) by (simp_all add: secondary_valid_def spending_path_valid_def p_def Let_def)
  have "blocks_per_unit (pm_unit m) \<le> 4380"
    by (cases "pm_unit m") (simp_all add: BLOCKS_PER_HOUR_def BLOCKS_PER_DAY_def BLOCKS_PER_MONTH_def)
  then have "tl_blocks (sec_timelock p) * blocks_per_unit (pm_unit m) \<le> 65535 * 4380"
    using ok(1) by (rule mult_le_mono [rotated])
  then have blocks: "to_blocks_capped (pm_unit m) (tl_blocks (sec_timelock p)) =
     min (tl_blocks (sec_timelock p) * blocks_per_unit (pm_unit m)) 65535"
    by (simp add: to_blocks_capped_def to_blocks_def MAX_TIMELOCK_BLOCKS_def)
  define m' where "m' = m\<lparr>pm_selected := sp_key_ids (sec_path p), pm_threshold := show_nat (sp_threshold_n (sec_path p)),
     pm_timelock := Some (show_nat (tl_blocks (sec_timelock p)))\<rparr>"
  define s' where "s' = on_conflict_reload s"
  have s': "app_template (st_app s') = t" "st_backend s' = st_backend s" "vw_path (st_views s') = Some m'"
    "as_role (st_app s') = as_role (st_app s)" "as_selected_wallet (st_app s') = as_selected_wallet (st_app s)"
    using assms(4-7,10) by (simp_all add: s'_def on_conflict_reload_def reload_path_def on_path_modal_def m'_def p_def Let_def)
  have sel: "selected_wallet s' = Some w" "online s'"
    using assms(1,3) s' by (auto simp: selected_wallet_def online_def split: option.splits)
  have tl: "(x :: timelock)\<lparr>tl_blocks := b\<rparr> = \<lparr>tl_blocks = b\<rparr>" for x b by (cases x) simp
  have "saved_template m' t = t\<lparr>tpl_secondary := sort_paths ((tpl_secondary t)[n := p
        \<lparr>sec_timelock := \<lparr>tl_blocks = min (tl_blocks (sec_timelock p) * blocks_per_unit (pm_unit m)) 65535\<rparr>\<rparr>])\<rparr>"
    using assms(7,11,12) ok blocks
    by (auto simp: saved_template_def m'_def resolved_threshold_def set_threshold_def on_secondary_def tl p_def [symmetric] Let_def)
  then show ?thesis
    unfolding s'_def [symmetric] p_def [symmetric]
    using assms(2) s' sel by (simp add: on_save_path_def send_template_outbox Let_def)
qed

text \<open>A path of two days, in an editor that shows days, becomes one of 288 days.\<close>

definition ex_path_views :: views where
  "ex_path_views = ex_views\<lparr>vw_conflict := Some \<lparr>cf_type = Path_Modified False (Some 0) 7, cf_title = [], cf_message = []\<rparr>,
     vw_path := Some \<lparr>pm_is_primary = False, pm_path_index = Some 0, pm_selected = [1], pm_threshold = ''1'',
       pm_timelock = Some ''1'', pm_unit = Unit_Days\<rparr>\<rparr>"

theorem reloaded_path_saved_longer_witness:
  "cl_outbox (st_backend (on_save_path (on_conflict_reload (ex_screen ex_wallet ex_path_views)))) =
     [Rq_EditWallet (edited ex_wallet Drafted (ex_template\<lparr>tpl_secondary :=
        [\<lparr>sec_path = spending_path_new False 1 [1, 2], sec_timelock = \<lparr>tl_blocks = 41472\<rparr>\<rparr>]\<rparr>))]"
proof -
  have t: "tpl_secondary ex_template = [\<lparr>sec_path = spending_path_new False 1 [1, 2], sec_timelock = \<lparr>tl_blocks = 288\<rparr>\<rparr>]"
    by (simp add: ex_template_def)
  show ?thesis
    by (subst reloaded_path_saved_longer [where w = ex_wallet and n = 0 and t = ex_template])
       (simp_all add: ex_path_views_def t spending_path_new_def spending_path_valid_def secondary_valid_def
          sort_paths_def, simp_all add: BLOCKS_PER_DAY_def)
qed

section \<open>Statuses and devices\<close>

text \<open>a user sees a wallet in registration exactly when the server says so of the wallet, or when it
  is finalised and the user has a device left to register, as the view of the registration lists them.\<close>

theorem registration_seen_iff:
  "effective_status w email = Registration \<longleftrightarrow>
     w_status w = Registration \<or> w_status w = Finalized \<and> user_devices w email \<noteq> []"
proof -
  have "list_ex (\<lambda>k. f k \<noteq> None) ks \<longleftrightarrow> List.map_filter f ks \<noteq> []" for f :: "ws_key \<Rightarrow> fingerprint option" and ks
    by (induction ks) (simp_all add: List.map_filter_simps split: option.split)
  then show ?thesis
    by (auto simp: effective_status_def user_devices_def split: option.split)
qed

text \<open>An update while devices are registered: a device is registered when it was listed and is no longer
  awaited, and no listed device disappears.\<close>

lemma set_add_new: "set (fold (\<lambda>x xs. if p x \<and> x \<notin> set xs then xs @ [x] else xs) ys xs) = set xs \<union> {y \<in> set ys. p y}"
  by (induction ys arbitrary: xs) auto

lemma set_visible_devices: "set (visible_devices r) = set (rv_user_devices r) \<union> set (rv_completed r)"
  using set_add_new [of "\<lambda>x. True" "rv_completed r" "rv_user_devices r"] by (simp add: visible_devices_def)

lemma sync_wallet_devices:
  "is_registered (sync_wallet d ds r) fg \<longleftrightarrow> fg \<in> set (visible_devices r) \<and> fg \<notin> set ds"
  "set (visible_devices (sync_wallet d ds r)) = set (visible_devices r) \<union> set ds"
  using set_add_new [of "\<lambda>x. x \<notin> set ds" "rv_user_devices r" "rv_completed r"]
  unfolding set_visible_devices by (auto simp: is_registered_def sync_wallet_def Let_def)

text \<open>once the user selects a device, the key or the error that an earlier request for a key brings is
  ignored: nothing of the interface changes.\<close>

theorem stale_device_answer_ignored:
  assumes "vw_xpub (st_views s) = Some m" "rid \<noteq> xm_next_request m"
  shows "on_hw_message U (Hw_Xpub rid fg' path key) (fst (on_xpub_select_device fg s)) = fst (on_xpub_select_device fg s)
    \<and> on_hw_message U (Hw_Error (Some rid) e) (fst (on_xpub_select_device fg s)) = fst (on_xpub_select_device fg s)"
  using assms
  by (simp add: on_xpub_select_device_def select_device_def start_fetch_def set_xpub_modal_def on_hw_message_def
      on_xpub_modal_def matches_fetch_request_def matches_fetch_error_request_def Let_def)

definition ex_xpub_views :: views where
  "ex_xpub_views = ex_views\<lparr>vw_xpub := Some ((xpub_modal_new ex_ops 0 ''ann'' None Net_Signet)
     \<lparr>xm_next_request := 4, xm_active_request := Some 3\<rparr>)\<rparr>"

theorem stale_device_answer_ignored_witness:
  "on_hw_message ex_ops (Hw_Error (Some 3) ''disconnected'') (fst (on_xpub_select_device 9 (ex_screen ex_wallet ex_xpub_views)))
     = fst (on_xpub_select_device 9 (ex_screen ex_wallet ex_xpub_views))"
  using stale_device_answer_ignored [where s = "ex_screen ex_wallet ex_xpub_views" and rid = 3]
  by (simp add: ex_xpub_views_def)

end
