(* ===== verification/Gui_Daemon.thy ===== *)
theory Gui_Daemon
  imports Api_Lemmas
begin

text \<open>
  The daemon as the graphical wallet sees it (\<open>liana-gui/src/daemon\<close>): the operations of the trait
  \<open>Daemon\<close> and its two implementations over \<open>lianad\<close>, the embedded daemon, which runs the commands
  itself (\<open>embedded.rs\<close>), and the client of an external daemon, which sends them as JSON-RPC
  requests (\<open>client/mod.rs\<close>, \<open>client/jsonrpc.rs\<close>). An operation takes the state of the daemon
  and returns an error or its result with the state it leaves; \<open>DE_Panic\<close> is a panic.
\<close>

section \<open>Errors\<close>

text \<open>The text of an error says where it comes from: an error of a command, or one of the transport.\<close>

datatype error_text = Text_Of_Command command_error | Text_Of_Rpc rpc_message | Text_Io | Text_Json
  | Text_Transport | Text_Stop nat

datatype daemon_error =
  DE_Rpc int error_text | DE_Rpc_Socket "nat option" error_text | DE_Http "nat option"
  | DE_Unexpected error_text | DE_No_Answer | DE_Daemon_Stopped | DE_Start nat
  | DE_Client_Not_Supported | DE_Coin_Selection_Error | DE_Not_Implemented
  | DE_Panic \<comment> \<open>not in the source: the process panics\<close>

type_synonym ('d, 'a) call = "'d \<Rightarrow> (daemon_error + 'a) \<times> 'd"

definition call_bind :: "('d, 'a) call \<Rightarrow> ('a \<Rightarrow> ('d, 'b) call) \<Rightarrow> ('d, 'b) call" where
  "call_bind m f d = (case m d of (Inl e, d') \<Rightarrow> (Inl e, d') | (Inr x, d') \<Rightarrow> f x d')"

definition call_return :: "'a \<Rightarrow> ('d, 'a) call" where
  "call_return x d = (Ok x, d)"

definition call_fail :: "daemon_error \<Rightarrow> ('d, 'a) call" where
  "call_fail e d = (Err e, d)"

text \<open>A step that panics when there is no value.\<close>

definition call_expect :: "'a option \<Rightarrow> ('d, 'a) call" where
  "call_expect m d = (ok_or DE_Panic m, d)"

section \<open>The trait\<close>

datatype node_type = Node_Bitcoind | Node_Electrum

datatype daemon_backend = Embedded_Lianad "node_type option" | External_Lianad | Remote_Backend

definition is_embedded :: "daemon_backend \<Rightarrow> bool" where
  "is_embedded b = (case b of Embedded_Lianad _ \<Rightarrow> True | _ \<Rightarrow> False)"

definition is_lianad :: "daemon_backend \<Rightarrow> bool" where
  "is_lianad b = (case b of Embedded_Lianad _ \<Rightarrow> True | External_Lianad \<Rightarrow> True | Remote_Backend \<Rightarrow> False)"

definition is_remote :: "daemon_backend \<Rightarrow> bool" where
  "is_remote b = (case b of Remote_Backend \<Rightarrow> True | _ \<Rightarrow> False)"

definition backend_node_type :: "daemon_backend \<Rightarrow> node_type option" where
  "backend_node_type b = (case b of Embedded_Lianad node_type \<Rightarrow> node_type | _ \<Rightarrow> None)"

text \<open>The feerate presets, from the raw \<open>i32\<close> values of the backend; \<open>clamp\<close> as in the standard library.\<close>

record feerate_estimate =
  fe_low :: nat
  fe_medium :: "nat option"
  fe_high :: nat

definition feerate_estimate_new :: "int \<Rightarrow> int option \<Rightarrow> int \<Rightarrow> feerate_estimate" where
  "feerate_estimate_new low medium high =
     (let min_feerate = int MIN_FEERATE_VB;
          low = nat (max low min_feerate);
          high = max (nat (max high min_feerate)) low;
          medium = map_option (\<lambda>m. max low (min high (nat (max m min_feerate)))) medium
      in \<lparr>fe_low = low, fe_medium = medium, fe_high = high\<rparr>)"

type_synonym transaction_info = "tx \<times> int option \<times> nat option"

record ('ms, 'tr, 'd) daemon_trait =
  td_get_info :: "('d, ('ms, 'tr) get_info_result) call"
  td_get_new_address :: "('d, get_address_result) call"
  td_list_revealed_addresses ::
    "bool \<Rightarrow> bool \<Rightarrow> nat \<Rightarrow> child_number option \<Rightarrow> ('d, revealed_address list \<times> child_number option) call"
  td_update_deriv_indexes :: "nat option \<Rightarrow> nat option \<Rightarrow> ('d, nat \<times> nat) call"
  td_list_coins :: "coin_status list \<Rightarrow> outpoint list \<Rightarrow> ('d, list_coins_entry list) call"
  td_list_spend_txs :: "('d, (psbt \<times> nat option) list) call"
  td_create_spend_tx :: "outpoint list \<Rightarrow> (address \<times> nat) list \<Rightarrow> nat \<Rightarrow> address option \<Rightarrow> ('d, create_spend_result) call"
  td_rbf_psbt :: "txid \<Rightarrow> bool \<Rightarrow> nat option \<Rightarrow> ('d, create_spend_result) call"
  td_update_spend_tx :: "psbt \<Rightarrow> ('d, unit) call"
  td_delete_spend_tx :: "txid \<Rightarrow> ('d, unit) call"
  td_broadcast_spend_tx :: "txid \<Rightarrow> ('d, unit) call"
  td_start_rescan :: "nat \<Rightarrow> ('d, unit) call"
  td_list_confirmed_txs :: "nat \<Rightarrow> nat \<Rightarrow> nat \<Rightarrow> ('d, transaction_info list) call"
  td_create_recovery :: "address \<Rightarrow> outpoint list \<Rightarrow> nat \<Rightarrow> nat option \<Rightarrow> ('d, psbt \<times> bool) call"
  td_list_txs :: "txid list \<Rightarrow> ('d, transaction_info list) call"
  td_get_labels :: "label_item list \<Rightarrow> ('d, (string \<times> string) list) call"
  td_update_labels :: "(label_item \<times> string option) list \<Rightarrow> ('d, unit) call"
  td_get_labels_bip329 :: "nat \<Rightarrow> nat \<Rightarrow> ('d, bip329_label list) call"

section \<open>The embedded daemon\<close>

text \<open>
  The state is the daemon while it runs, that is its database, and nothing once it is stopped. A
  command reads its surroundings \<open>E\<close> and \<open>V\<close>; the error of a command becomes its text.
\<close>

type_synonym ('ms, 'tr) embedded = "('ms, 'tr) database option"

definition embedded_command :: "(('ms, 'tr) database, 'a) call \<Rightarrow> (('ms, 'tr) embedded, 'a) call" where
  "embedded_command f h = (case h of
     Some db \<Rightarrow> (let (r, db') = f db in (r, Some db'))
   | None \<Rightarrow> (Err DE_Daemon_Stopped, None))"

definition unexpected :: "command_error \<Rightarrow> daemon_error" where
  "unexpected e = (if e = CmdPanic then DE_Panic else DE_Unexpected (Text_Of_Command e))"

text \<open>A command that only reads, and one that writes the database it returns.\<close>

definition run_read :: "(('ms, 'tr) database \<Rightarrow> command_error + 'a) \<Rightarrow> (('ms, 'tr) embedded, 'a) call" where
  "run_read f = embedded_command (\<lambda>db. (map_err unexpected (f db), db))"

definition run_write :: "(('ms, 'tr) database \<Rightarrow> command_error + 'a \<times> ('ms, 'tr) database) \<Rightarrow> (('ms, 'tr) embedded, 'a) call" where
  "run_write f = embedded_command (\<lambda>db. case f db of
     Inl e \<Rightarrow> (Err (unexpected e), db) | Inr (x, db') \<Rightarrow> (Ok x, db'))"

definition embedded_get_info where
  "embedded_get_info V E = run_read (\<lambda>db. Ok (get_info V E db))"

definition embedded_get_new_address where
  "embedded_get_new_address E = run_write (\<lambda>db. ok_or CmdPanic (get_new_address E db))"

definition embedded_list_revealed_addresses where
  "embedded_list_revealed_addresses V E is_change exclude_used limit start_index = run_read (\<lambda>db.
     ok_or CmdPanic (list_revealed_addresses (item_text (rv_parsers V)) E is_change exclude_used limit start_index db))"

definition embedded_update_deriv_indexes where
  "embedded_update_deriv_indexes E receive change = embedded_command (\<lambda>db.
     let (r, db') = update_deriv_indexes E receive change db in (map_err unexpected r, db'))"

definition embedded_list_coins where
  "embedded_list_coins E statuses outpoints = run_read (\<lambda>db. ok_or CmdPanic (list_coins E statuses outpoints db))"

definition embedded_list_spend_txs where
  "embedded_list_spend_txs E = run_read (cmd_list_spend E None)"

definition embedded_list_confirmed_txs where
  "embedded_list_confirmed_txs start end limit =
     run_read (\<lambda>db. ok_or CmdPanic (list_confirmed_transactions start end limit db))"

definition embedded_list_txs where
  "embedded_list_txs txids = run_read (\<lambda>db. ok_or CmdPanic (list_transactions txids db))"

definition embedded_create_spend_tx where
  "embedded_create_spend_tx V E coins_outpoints destinations feerate_vb change_address =
     run_write (cmd_create_spend E (rv_order V destinations) coins_outpoints feerate_vb change_address)"

text \<open>A search of a replacement that does not end gives no answer, as a panic.\<close>

definition embedded_rbf_psbt where
  "embedded_rbf_psbt E txid is_cancel feerate_vb = run_write (\<lambda>db. case rbf_psbt E txid is_cancel feerate_vb db of
     None \<Rightarrow> Err CmdPanic | Some r \<Rightarrow> r)"

definition embedded_update_spend_tx where
  "embedded_update_spend_tx E psbt = run_write (\<lambda>db. rbind (update_spend E psbt db) (\<lambda>db'. Ok ((), db')))"

definition embedded_delete_spend_tx where
  "embedded_delete_spend_tx txid = run_write (\<lambda>db. Ok ((), delete_spend txid db))"

definition embedded_broadcast_spend_tx where
  "embedded_broadcast_spend_tx E txid = run_read (\<lambda>db. rbind (broadcast_spend E txid db) (\<lambda>_. Ok ()))"

definition embedded_start_rescan where
  "embedded_start_rescan E t = run_write (\<lambda>db. rbind (start_rescan E t db) (\<lambda>db'. Ok ((), db')))"

definition embedded_create_recovery where
  "embedded_create_recovery E address coins_outpoints feerate_vb timelock = run_write (\<lambda>db.
     rbind (create_recovery E address coins_outpoints feerate_vb timelock db) (\<lambda>(res, db').
     Ok ((rr_psbt res, rr_to_own_address res), db')))"

definition embedded_get_labels where
  "embedded_get_labels V items = run_read (\<lambda>db. Ok (db_labels (item_text (rv_parsers V)) items db))"

definition embedded_update_labels where
  "embedded_update_labels V items =
     run_write (\<lambda>db. Ok ((), update_labels (item_text (rv_parsers V)) (rv_item_order V items) db))"

definition embedded_get_labels_bip329 where
  "embedded_get_labels_bip329 V offset limit = run_read (\<lambda>db.
     ok_or CmdPanic (collect_options (label_to_bip329 (rv_parsers V)) (labels_bip329 offset limit db)))"

text \<open>
  \<open>alive\<close> tells whether the poller still runs, \<open>stopped\<close> how the threads ended when they are
  joined. A handle whose poller has died is stopped to fetch its error.
\<close>

definition embedded_stop :: "nat + unit \<Rightarrow> (('ms, 'tr) embedded, unit) call" where
  "embedded_stop stopped h = (case h of
     Some _ \<Rightarrow> (map_err (\<lambda>e. DE_Unexpected (Text_Stop e)) stopped, None)
   | None \<Rightarrow> (Ok (), None))"

definition embedded_is_alive :: "bool \<Rightarrow> nat + unit \<Rightarrow> (('ms, 'tr) embedded, unit) call" where
  "embedded_is_alive alive stopped h = (if h \<noteq> None \<and> alive then (Ok (), h) else embedded_stop stopped h)"

definition embedded_daemon ::
  "rpc_env \<Rightarrow> ('ms, 'tr, 'cs) daemon \<Rightarrow> ('ms, 'tr, ('ms, 'tr) embedded) daemon_trait" where
  "embedded_daemon V E = \<lparr>td_get_info = embedded_get_info V E, td_get_new_address = embedded_get_new_address E,
     td_list_revealed_addresses = embedded_list_revealed_addresses V E,
     td_update_deriv_indexes = embedded_update_deriv_indexes E, td_list_coins = embedded_list_coins E,
     td_list_spend_txs = embedded_list_spend_txs E, td_create_spend_tx = embedded_create_spend_tx V E,
     td_rbf_psbt = embedded_rbf_psbt E, td_update_spend_tx = embedded_update_spend_tx E,
     td_delete_spend_tx = embedded_delete_spend_tx, td_broadcast_spend_tx = embedded_broadcast_spend_tx E,
     td_start_rescan = embedded_start_rescan E, td_list_confirmed_txs = embedded_list_confirmed_txs,
     td_create_recovery = embedded_create_recovery E, td_list_txs = embedded_list_txs,
     td_get_labels = embedded_get_labels V, td_update_labels = embedded_update_labels V,
     td_get_labels_bip329 = embedded_get_labels_bip329 V\<rparr>"

end
