(* ===== verification/Gui_Transactions.thy ===== *)
theory Gui_Transactions
  imports Gui_Daemon "HOL-Library.Sorting_Algorithms"
begin

text \<open>
  The transactions and payments shown by the graphical wallet (\<open>liana-gui/src/daemon/model.rs\<close>): drafts with
  their status, the history with its amounts, the payments of a transaction, their orders and their labels.
  The sum of two amounts panics when it does not fit in 64 bits: \<open>None\<close> is a panic.
\<close>

section \<open>Coins\<close>

text \<open>\<open>as u32\<close> of an \<open>i32\<close>; the sum wraps in a release build.\<close>

definition i32_as_u32 :: "int \<Rightarrow> nat" where
  "i32_as_u32 i = nat (i mod 4294967296)"

definition remaining_sequence :: "list_coins_entry \<Rightarrow> nat \<Rightarrow> nat \<Rightarrow> nat" where
  "remaining_sequence coin blockheight timelock = (case lc_block_height coin of
     Some coin_blockheight \<Rightarrow> (i32_as_u32 coin_blockheight + timelock) mod 4294967296 - blockheight
   | None \<Rightarrow> timelock)"

definition coin_is_owned :: "list_coins_entry \<Rightarrow> bool" where
  "coin_is_owned coin \<longleftrightarrow> lc_block_height coin \<noteq> None \<or> lc_is_from_self coin"

section \<open>The status of a draft\<close>

text \<open>
  The loop over the inputs: the status told by the coins, if any, and the heights of the coins, or
  \<open>None\<close> when it returns early because the draft is deprecated.
\<close>

fun inputs_status ::
  "txid \<Rightarrow> list_coins_entry list \<Rightarrow> txin list \<Rightarrow> spend_status option \<Rightarrow> int option list
     \<Rightarrow> (spend_status option \<times> int option list) option" where
  "inputs_status txid coins [] status heights = Some (status, heights)"
| "inputs_status txid coins (txin # txins) status heights =
     (case List.find (\<lambda>coin. lc_outpoint coin = previous_output txin) coins of
        None \<Rightarrow> None
      | Some coin \<Rightarrow>
          (let heights = heights @ [lc_block_height coin] in
           case lc_spend_info coin of
             None \<Rightarrow> inputs_status txid coins txins status heights
           | Some (spend_txid, height) \<Rightarrow>
               (if spend_txid = txid
                then inputs_status txid coins txins (Some (if height \<noteq> None then Confirmed else Broadcast)) heights
                else if height \<noteq> None then None
                else inputs_status txid coins txins status heights)))"

definition spend_status_from_coins ::
  "btc \<Rightarrow> ('ms, 'tr) miniscript \<Rightarrow> psbt \<Rightarrow> list_coins_entry list \<Rightarrow> ('ms, 'tr) liana_descriptor \<Rightarrow> int
     \<Rightarrow> spend_status option" where
  "spend_status_from_coins B M psbt coins desc tip_height =
     (case inputs_status (compute_txid B (unsigned_tx psbt)) coins (tx_input (unsigned_tx psbt)) None [] of
        None \<Rightarrow> Some Deprecated
      | Some (Some status, _) \<Rightarrow> Some status
      | Some (None, coins_heights) \<Rightarrow>
          (case partial_spend_info B M desc psbt of
             Inl DescPanic \<Rightarrow> None
           | Inl _ \<Rightarrow> Some Unknown
           | Inr sigs \<Rightarrow> from_signatures sigs coins_heights tip_height))"

definition spend_status_or_from_coins ::
  "btc \<Rightarrow> ('ms, 'tr) miniscript \<Rightarrow> spend_status \<Rightarrow> psbt \<Rightarrow> list_coins_entry list \<Rightarrow> ('ms, 'tr) liana_descriptor \<Rightarrow> int
     \<Rightarrow> spend_status option" where
  "spend_status_or_from_coins B M status psbt coins desc tip_height =
     (if status = Unknown then spend_status_from_coins B M psbt coins desc tip_height else Some status)"

section \<open>Amounts\<close>

text \<open>\<open>contains\<close> on the indexes; the outputs of the wallet and the others, in this order.\<close>

fun split_outputs :: "nat list \<Rightarrow> nat \<Rightarrow> txout list \<Rightarrow> nat \<times> nat \<Rightarrow> (nat \<times> nat) option" where
  "split_outputs changes i [] acc = Some acc"
| "split_outputs changes i (output # outputs) (change, spend) =
     (if i \<in> set changes
      then Option.bind (checked_add64 change (txo_value output)) (\<lambda>change.
        split_outputs changes (i + 1) outputs (change, spend))
      else Option.bind (checked_add64 spend (txo_value output)) (\<lambda>spend.
        split_outputs changes (i + 1) outputs (change, spend)))"

fun add_amounts :: "nat list \<Rightarrow> nat \<Rightarrow> nat option" where
  "add_amounts [] acc = Some acc"
| "add_amounts (a # as) acc = Option.bind (checked_add64 acc a) (add_amounts as)"

datatype transaction_kind =
  Incoming_Single_Payment outpoint | Incoming_Payment_Batch "outpoint list" | Send_To_Self
  | Outgoing_Single_Payment outpoint | Outgoing_Payment_Batch "outpoint list"

definition outpoint_at :: "txid \<Rightarrow> nat \<Rightarrow> outpoint" where
  "outpoint_at txid vout = \<lparr>op_txid = txid, op_vout = vout\<rparr>"

text \<open>The outpoints of the outputs that are not the wallet's.\<close>

definition external_outpoints :: "txid \<Rightarrow> nat list \<Rightarrow> txout list \<Rightarrow> outpoint list" where
  "external_outpoints txid changes outputs =
     map (outpoint_at txid) (filter (\<lambda>i. i \<notin> set changes) [0..<length outputs])"

definition outgoing_kind :: "outpoint list \<Rightarrow> transaction_kind" where
  "outgoing_kind outpoints =
     (case outpoints of [op] \<Rightarrow> Outgoing_Single_Payment op | _ \<Rightarrow> Outgoing_Payment_Batch outpoints)"

section \<open>Drafts\<close>

text \<open>A hash map of coins is an association list with distinct keys; labels are a map of texts.\<close>

type_synonym coins_map = "(outpoint \<times> list_coins_entry) list"
type_synonym labels_map = "string \<rightharpoonup> string"

definition coins_map_of :: "list_coins_entry list \<Rightarrow> coins_map" where
  "coins_map_of coins = fold (\<lambda>coin. hm_insert (lc_outpoint coin) coin) coins []"

record gui_spend_tx =
  st_network :: nat
  st_coins :: coins_map
  st_labels :: labels_map
  st_psbt :: psbt
  st_change_indexes :: "nat list"
  st_spend_amount :: nat
  st_fee_amount :: "nat option"
  st_max_vbytes :: nat
  st_status :: spend_status
  st_sigs :: partial_info
  st_updated_at :: "nat option"
  st_kind :: transaction_kind

text \<open>
  The amount of the inputs: of the outputs they spend as the PSBT tells, else of the coin; the loop
  gives up at the first input that is not known, with an amount of zero.
\<close>

fun psbt_inputs_amount :: "coins_map \<Rightarrow> txin list \<Rightarrow> nat \<Rightarrow> psbt_in list \<Rightarrow> nat \<Rightarrow> nat option" where
  "psbt_inputs_amount coins_map txins i [] acc = Some acc"
| "psbt_inputs_amount coins_map txins i (input # inputs) acc =
     (case witness_utxo input of
        Some utxo \<Rightarrow> Option.bind (checked_add64 acc (txo_value utxo)) (psbt_inputs_amount coins_map txins (i + 1) inputs)
      | None \<Rightarrow>
          (case (if i < length txins then map_of coins_map (previous_output (txins ! i)) else None) of
             Some coin \<Rightarrow> Option.bind (checked_add64 acc (lc_amount coin)) (psbt_inputs_amount coins_map txins (i + 1) inputs)
           | None \<Rightarrow> Some 0))"

definition new_with_status ::
  "btc \<Rightarrow> ('ms, 'tr) miniscript \<Rightarrow> ('ms, 'tr) desc_ops \<Rightarrow> nat option \<Rightarrow> psbt \<Rightarrow> list_coins_entry list \<Rightarrow> spend_status
     \<Rightarrow> ('ms, 'tr) liana_descriptor \<Rightarrow> nat \<Rightarrow> gui_spend_tx option" where
  "new_with_status B M D updated psbt coins status desc network =
     (let t = unsigned_tx psbt;
          use_primary_path = \<not> list_ex (\<lambda>txin. is_relative_lock_time B (sequence txin)) (tx_input t);
          coins_map = coins_map_of coins
      in
      Option.bind (unsigned_tx_max_vbytes B M D desc t use_primary_path) (\<lambda>max_vbytes.
      Option.bind (map_option (map change_output_index) (change_indexes D desc psbt)) (\<lambda>changes.
      Option.bind (split_outputs changes 0 (tx_output t) (0, 0)) (\<lambda>(change_amount, spend_amount).
      Option.bind (psbt_inputs_amount coins_map (tx_input t) 0 (psbt_inputs psbt) 0) (\<lambda>amount.
      let inputs_amount = (if amount = 0 then None else Some amount) in
      Option.bind (case partial_spend_info B M desc psbt of Inl _ \<Rightarrow> None | Inr sigs \<Rightarrow> Some sigs) (\<lambda>sigs.
      Option.bind (case inputs_amount of
          None \<Rightarrow> Some None
        | Some a \<Rightarrow> map_option (checked_sub a) (checked_add64 spend_amount change_amount)) (\<lambda>fee_amount.
      Some \<lparr>st_network = network, st_coins = coins_map, st_labels = Map.empty, st_psbt = psbt,
        st_change_indexes = changes, st_spend_amount = spend_amount, st_fee_amount = fee_amount,
        st_max_vbytes = max_vbytes, st_status = status, st_sigs = sigs, st_updated_at = updated,
        st_kind = (if spend_amount = 0 then Send_To_Self
          else outgoing_kind (external_outpoints (compute_txid B t) changes (tx_output t)))\<rparr>)))))))"

text \<open>\<open>SpendTx::new\<close>: the status at height zero.\<close>

definition spend_tx_new where
  "spend_tx_new B M D updated psbt coins desc network =
     Option.bind (spend_status_from_coins B M psbt coins desc 0) (\<lambda>status.
     new_with_status B M D updated psbt coins status desc network)"

definition refresh_status where
  "refresh_status B M desc tip_height spend =
     map_option (\<lambda>status. spend\<lparr>st_status := status\<rparr>)
       (spend_status_from_coins B M (st_psbt spend) (map snd (st_coins spend)) desc tip_height)"

definition recovery_timelock :: "gui_spend_tx \<Rightarrow> nat option" where
  "recovery_timelock spend = (case psi_recovery_paths (st_sigs spend) of
     [] \<Rightarrow> None | paths \<Rightarrow> Some (fst (last paths)))"

definition spend_signers :: "gui_spend_tx \<Rightarrow> fingerprint set" where
  "spend_signers spend = set (map fst (signed_pubkeys (psi_primary_path (st_sigs spend)))) \<union>
     (\<Union>(_, path) \<in> set (psi_recovery_paths (st_sigs spend)). set (map fst (signed_pubkeys path)))"

text \<open>The inner option is the code's; the outer one is the panic of a size of zero.\<close>

definition min_feerate_vb :: "gui_spend_tx \<Rightarrow> nat option option" where
  "min_feerate_vb spend = (case st_fee_amount spend of
     None \<Rightarrow> Some None
   | Some a \<Rightarrow> map_option Some (checked_div a (st_max_vbytes spend)))"

definition kind_is_self :: "transaction_kind \<Rightarrow> bool" where
  "kind_is_self kind = (case kind of Send_To_Self \<Rightarrow> True | _ \<Rightarrow> False)"

definition kind_is_batch :: "transaction_kind \<Rightarrow> bool" where
  "kind_is_batch kind = (case kind of Incoming_Payment_Batch _ \<Rightarrow> True | Outgoing_Payment_Batch _ \<Rightarrow> True | _ \<Rightarrow> False)"

definition kind_single_payment :: "transaction_kind \<Rightarrow> outpoint option" where
  "kind_single_payment kind = (case kind of
     Incoming_Single_Payment op \<Rightarrow> Some op | Outgoing_Single_Payment op \<Rightarrow> Some op | _ \<Rightarrow> None)"

definition kind_is_external :: "transaction_kind \<Rightarrow> bool" where
  "kind_is_external kind = (case kind of Incoming_Single_Payment _ \<Rightarrow> True | Incoming_Payment_Batch _ \<Rightarrow> True | _ \<Rightarrow> False)"

definition kind_is_outgoing :: "transaction_kind \<Rightarrow> bool" where
  "kind_is_outgoing kind = (case kind of Outgoing_Single_Payment _ \<Rightarrow> True | Outgoing_Payment_Batch _ \<Rightarrow> True | _ \<Rightarrow> False)"

definition moved_amount :: "gui_spend_tx \<Rightarrow> nat option" where
  "moved_amount spend =
     (if \<not> kind_is_self (st_kind spend) then Some (st_spend_amount spend)
      else add_amounts (map txo_value (tx_output (unsigned_tx (st_psbt spend)))) 0)"

section \<open>History\<close>

record history_tx =
  ht_network :: nat
  ht_labels :: labels_map
  ht_coins :: coins_map
  ht_change_indexes :: "nat list"
  ht_tx :: tx
  ht_txid :: txid
  ht_outgoing_amount :: nat
  ht_incoming_amount :: nat
  ht_fee_amount :: "nat option"
  ht_height :: "int option"
  ht_time :: "nat option"
  ht_kind :: transaction_kind

definition history_kind :: "txid \<Rightarrow> list_coins_entry list \<Rightarrow> nat list \<Rightarrow> nat \<Rightarrow> txout list \<Rightarrow> transaction_kind" where
  "history_kind txid coins changes outgoing_amount outputs =
     (if coins = [] then
        (case changes of
           [i] \<Rightarrow> Incoming_Single_Payment (outpoint_at txid i)
         | _ \<Rightarrow> Incoming_Payment_Batch (map (outpoint_at txid) changes))
      else if outgoing_amount = 0 then Send_To_Self
      else outgoing_kind (external_outpoints txid changes outputs))"

definition history_new ::
  "btc \<Rightarrow> tx \<Rightarrow> int option \<Rightarrow> nat option \<Rightarrow> list_coins_entry list \<Rightarrow> nat list \<Rightarrow> nat \<Rightarrow> history_tx option" where
  "history_new B t height time coins changes network =
     Option.bind (split_outputs changes 0 (tx_output t) (0, 0)) (\<lambda>(incoming_amount, outgoing_amount).
     Option.bind (add_amounts (map lc_amount coins) 0) (\<lambda>inputs_amount.
     Option.bind (checked_add64 outgoing_amount incoming_amount) (\<lambda>outputs_amount.
     Some \<lparr>ht_network = network, ht_labels = Map.empty, ht_coins = coins_map_of coins,
       ht_change_indexes = changes, ht_tx = t, ht_txid = compute_txid B t,
       ht_outgoing_amount = outgoing_amount, ht_incoming_amount = incoming_amount,
       ht_fee_amount = checked_sub inputs_amount outputs_amount, ht_height = height, ht_time = time,
       ht_kind = history_kind (compute_txid B t) coins changes outgoing_amount (tx_output t)\<rparr>)))"

text \<open>\<open>cmp\<close> of a linear order, and \<open>then_with\<close>.\<close>

definition ord_cmp :: "'a :: linorder \<Rightarrow> 'a \<Rightarrow> comp" where
  "ord_cmp a b = (if a < b then Less else if a = b then Equiv else Greater)"

definition then_with :: "comp \<Rightarrow> comp \<Rightarrow> comp" where
  "then_with c d = (case c of Equiv \<Rightarrow> d | _ \<Rightarrow> c)"

definition history_compare :: "history_tx \<Rightarrow> history_tx \<Rightarrow> comp" where
  "history_compare a b = (case (ht_time a, ht_time b) of
     (None, Some _) \<Rightarrow> Less
   | (Some _, None) \<Rightarrow> Greater
   | (None, None) \<Rightarrow> ord_cmp (ht_txid a) (ht_txid b)
   | (Some time1, Some time2) \<Rightarrow> then_with (ord_cmp time2 time1) (ord_cmp (ht_txid a) (ht_txid b)))"

record history_cursor =
  hc_time :: nat
  hc_txid :: txid

definition cursor_from_tx :: "history_tx \<Rightarrow> history_cursor option" where
  "cursor_from_tx h = map_option (\<lambda>time. \<lparr>hc_time = time, hc_txid = ht_txid h\<rparr>) (ht_time h)"

record history_page =
  hp_txs :: "history_tx list"
  hp_next_cursor :: "history_cursor option"

section \<open>Payments\<close>

datatype payment_kind = Pay_Outgoing | Pay_Incoming | Pay_Send_To_Self

record payment =
  pm_label :: "string option"
  pm_address :: "string option"
  pm_address_label :: "string option"
  pm_amount :: nat
  pm_outpoint :: outpoint
  pm_time :: "nat option"
  pm_kind :: payment_kind

record payments_page =
  pp_payments :: "payment list"
  pp_next_cursor :: "history_cursor option"

definition payment_compare :: "payment \<Rightarrow> payment \<Rightarrow> comp" where
  "payment_compare a b =
     (let by_outpoint = then_with (ord_cmp (op_txid (pm_outpoint a)) (op_txid (pm_outpoint b)))
            (ord_cmp (op_vout (pm_outpoint a)) (op_vout (pm_outpoint b)))
      in case (pm_time a, pm_time b) of
           (None, Some _) \<Rightarrow> Less
         | (Some _, None) \<Rightarrow> Greater
         | (None, None) \<Rightarrow> by_outpoint
         | (Some time1, Some time2) \<Rightarrow> then_with (ord_cmp time2 time1) by_outpoint)"

text \<open>
  The payment of an output; \<open>item_str\<close> is the text of a label item, which for an address and an
  outpoint is their own. A date is the number of its seconds.
\<close>

definition payment_of_output :: "btc \<Rightarrow> (label_item \<Rightarrow> string) \<Rightarrow> history_tx \<Rightarrow> nat \<Rightarrow> txout \<Rightarrow> payment" where
  "payment_of_output B item_str h output_index output =
     (let outpoint = outpoint_at (compute_txid B (ht_tx h)) output_index;
          address = map_option (\<lambda>a. item_str (Label_Address a)) (addr_from_script B (txo_script output))
      in \<lparr>pm_label = ht_labels h (item_str (Label_OutPoint outpoint)), pm_address = address,
           pm_address_label = Option.bind address (ht_labels h), pm_amount = txo_value output,
           pm_outpoint = outpoint, pm_time = ht_time h,
           pm_kind = (if kind_is_self (ht_kind h) \<or> (kind_is_outgoing (ht_kind h) \<and> output_index \<in> set (ht_change_indexes h))
             then Pay_Send_To_Self
             else if kind_is_external (ht_kind h) then Pay_Incoming else Pay_Outgoing)\<rparr>)"

definition payments_from_tx :: "btc \<Rightarrow> (label_item \<Rightarrow> string) \<Rightarrow> history_tx \<Rightarrow> payment list" where
  "payments_from_tx B item_str h =
     map (\<lambda>(i, output). payment_of_output B item_str h i output)
       (filter (\<lambda>(i, _). \<not> (kind_is_external (ht_kind h) \<and> i \<notin> set (ht_change_indexes h)))
         (enumerate 0 (tx_output (ht_tx h))))"

section \<open>Labels\<close>

text \<open>What is labelled in a transaction; the script of an output of a draft has an address, or the code panics.\<close>

definition labelled_common :: "txid \<Rightarrow> coins_map \<Rightarrow> tx \<Rightarrow> label_item list" where
  "labelled_common txid coins t = Label_Txid txid # map (\<lambda>(_, coin). Label_Address (lc_address coin)) coins
     @ map (\<lambda>input. Label_OutPoint (previous_output input)) (tx_input t)"

definition history_labelled :: "btc \<Rightarrow> history_tx \<Rightarrow> label_item list" where
  "history_labelled B h =
     (let txid = compute_txid B (ht_tx h) in
      labelled_common txid (ht_coins h) (ht_tx h)
      @ concat (map (\<lambda>(vout, output). Label_OutPoint (outpoint_at txid vout)
          # (case addr_from_script B (txo_script output) of Some a \<Rightarrow> [Label_Address a] | None \<Rightarrow> []))
        (enumerate 0 (tx_output (ht_tx h)))))"

definition spend_labelled :: "btc \<Rightarrow> gui_spend_tx \<Rightarrow> label_item list option" where
  "spend_labelled B spend =
     (let t = unsigned_tx (st_psbt spend); txid = compute_txid B t in
      map_option (\<lambda>outs. labelled_common txid (st_coins spend) t @ concat outs)
        (collect_options (\<lambda>(vout, output).
            map_option (\<lambda>a. [Label_OutPoint (outpoint_at txid vout), Label_Address a]) (addr_from_script B (txo_script output)))
          (enumerate 0 (tx_output t))))"

definition load_label :: "(label_item \<Rightarrow> string) \<Rightarrow> (string \<rightharpoonup> string option) \<Rightarrow> label_item \<Rightarrow> labels_map \<Rightarrow> labels_map" where
  "load_label item_str new_labels item labels = (case new_labels (item_str item) of
     None \<Rightarrow> labels
   | Some label \<Rightarrow> labels(item_str item := label))"

definition load_labels :: "(label_item \<Rightarrow> string) \<Rightarrow> (string \<rightharpoonup> string option) \<Rightarrow> label_item list \<Rightarrow> labels_map \<Rightarrow> labels_map" where
  "load_labels item_str new_labels items labels = fold (load_label item_str new_labels) items labels"

definition payment_load_labels :: "(label_item \<Rightarrow> string) \<Rightarrow> (string \<rightharpoonup> string option) \<Rightarrow> payment \<Rightarrow> payment" where
  "payment_load_labels item_str new_labels p =
     (let p = (case Option.bind (pm_address p) new_labels of None \<Rightarrow> p | Some label \<Rightarrow> p\<lparr>pm_address_label := label\<rparr>)
      in case new_labels (item_str (Label_OutPoint (pm_outpoint p))) of None \<Rightarrow> p | Some label \<Rightarrow> p\<lparr>pm_label := label\<rparr>)"

end
