(* ===== verification/Gui_History.thy ===== *)
theory Gui_History
  imports Gui_Transactions
begin

text \<open>
  The operations that the trait \<open>Daemon\<close> builds on the others (\<open>liana-gui/src/daemon/mod.rs\<close>): the drafts,
  the history and its pages, the pending transactions and the payments, with their labels. They call
  any implementation \<open>T\<close> of the trait; \<open>item_str\<close> is the text of a label item. A sort is stable, and its
  comparison is shown to be a total order up to ties, for which the result of the sort is unique.
\<close>

section \<open>Orders\<close>

lemma ord_cmp_simps [simp]:
  "ord_cmp a b = Less \<longleftrightarrow> a < b" "ord_cmp a b = Equiv \<longleftrightarrow> a = b" "ord_cmp a b = Greater \<longleftrightarrow> b < a"
  by (auto simp: ord_cmp_def)

lemma then_with_simps [simp]:
  "then_with c d = Less \<longleftrightarrow> c = Less \<or> c = Equiv \<and> d = Less"
  "then_with c d = Equiv \<longleftrightarrow> c = Equiv \<and> d = Equiv"
  "then_with c d = Greater \<longleftrightarrow> c = Greater \<or> c = Equiv \<and> d = Greater"
  by (cases c; simp add: then_with_def)+

lift_definition history_order :: "history_tx comparator" is history_compare
  by standard (auto simp: history_compare_def split: option.splits)

lift_definition payment_order :: "payment comparator" is payment_compare
  by standard (auto simp: payment_compare_def Let_def split: option.splits)

text \<open>\<open>Option<u32>\<close>: nothing comes first.\<close>

definition option_cmp :: "nat option \<Rightarrow> nat option \<Rightarrow> comp" where
  "option_cmp a b = (case (a, b) of
     (None, None) \<Rightarrow> Equiv | (None, Some _) \<Rightarrow> Less | (Some _, None) \<Rightarrow> Greater | (Some x, Some y) \<Rightarrow> ord_cmp x y)"

text \<open>By status, and the last updated first.\<close>

definition spend_compare :: "gui_spend_tx \<Rightarrow> gui_spend_tx \<Rightarrow> comp" where
  "spend_compare a b =
     (if st_status a = st_status b then option_cmp (st_updated_at b) (st_updated_at a)
      else ord_cmp (st_status a) (st_status b))"

lift_definition spend_order :: "gui_spend_tx comparator" is spend_compare
  by standard (auto simp: spend_compare_def option_cmp_def split: option.splits if_splits)

definition pending_compare :: "history_tx \<Rightarrow> history_tx \<Rightarrow> comp" where
  "pending_compare a b = option_cmp (ht_time b) (ht_time a)"

lift_definition pending_order :: "history_tx comparator" is pending_compare
  by standard (auto simp: pending_compare_def option_cmp_def split: option.splits)

section \<open>Labels\<close>

text \<open>The labels of all the targets in one request; \<open>labelled\<close> tells what is labelled in a target.\<close>

definition load_target_labels ::
  "('ms, 'tr, 'd) daemon_trait \<Rightarrow> ('t \<Rightarrow> label_item list option) \<Rightarrow> ((string \<rightharpoonup> string option) \<Rightarrow> label_item list \<Rightarrow> 't \<Rightarrow> 't)
     \<Rightarrow> 't list \<Rightarrow> ('d, 't list) call" where
  "load_target_labels T labelled load targets =
     (if targets = [] then call_return []
      else
        call_bind (call_expect (collect_options (\<lambda>t. map_option (Pair t) (labelled t)) targets)) (\<lambda>labelled_targets.
        call_bind (td_get_labels T (remdups (concat (map snd labelled_targets)))) (\<lambda>labels.
        call_return (map (\<lambda>(t, items). load (map_option Some \<circ> map_of labels) items t) labelled_targets))))"

definition load_history_labels where
  "load_history_labels B T item_str = load_target_labels T (\<lambda>h. Some (history_labelled B h))
     (\<lambda>new_labels items h. h\<lparr>ht_labels := load_labels item_str new_labels items (ht_labels h)\<rparr>)"

definition load_spend_labels where
  "load_spend_labels B T item_str = load_target_labels T (spend_labelled B)
     (\<lambda>new_labels items spend. spend\<lparr>st_labels := load_labels item_str new_labels items (st_labels spend)\<rparr>)"

section \<open>Drafts\<close>

definition tx_outpoints :: "tx \<Rightarrow> outpoint list" where
  "tx_outpoints t = map previous_output (tx_input t)"

definition gui_spend_of ::
  "btc \<Rightarrow> ('ms, 'tr) miniscript \<Rightarrow> ('ms, 'tr) desc_ops \<Rightarrow> ('ms, 'tr) get_info_result \<Rightarrow> list_coins_entry list
     \<Rightarrow> psbt \<times> nat option \<Rightarrow> gui_spend_tx option" where
  "gui_spend_of B M D info coins = (\<lambda>(psbt, updated).
     (let coins = filter (\<lambda>coin. lc_outpoint coin \<in> set (tx_outpoints (unsigned_tx psbt))) coins in
      Option.bind (spend_status_from_coins B M psbt coins (gi_main_descriptor info) (gi_block_height info)) (\<lambda>status.
      new_with_status B M D updated psbt coins status (gi_main_descriptor info) (gi_network info))))"

definition list_spend_transactions ::
  "btc \<Rightarrow> ('ms, 'tr) miniscript \<Rightarrow> ('ms, 'tr) desc_ops \<Rightarrow> (label_item \<Rightarrow> string) \<Rightarrow> ('ms, 'tr, 'd) daemon_trait
     \<Rightarrow> txid list option \<Rightarrow> ('d, gui_spend_tx list) call" where
  "list_spend_transactions B M D item_str T txids =
     call_bind (td_get_info T) (\<lambda>info.
     call_bind (td_list_spend_txs T) (\<lambda>txs.
     let txs = (case txids of None \<Rightarrow> txs
           | Some ids \<Rightarrow> filter (\<lambda>(psbt, _). compute_txid B (unsigned_tx psbt) \<in> set ids) txs)
     in
     call_bind (td_list_coins T [] (concat (map (\<lambda>(psbt, _). tx_outpoints (unsigned_tx psbt)) txs))) (\<lambda>coins.
     call_bind (call_expect (collect_options (gui_spend_of B M D info coins) txs)) (\<lambda>spend_txs.
     call_bind (load_spend_labels B T item_str spend_txs) (\<lambda>spend_txs.
     call_return (Sorting_Algorithms.sort spend_order spend_txs))))))"

section \<open>History\<close>

text \<open>
  Among the coins, those that the transaction creates give the indexes of its outputs that are the wallet's, and those
  it spends are its inputs.
\<close>

definition coins_changes :: "txid \<Rightarrow> list_coins_entry list \<Rightarrow> nat list" where
  "coins_changes txid coins = map (\<lambda>coin. op_vout (lc_outpoint coin)) (filter (\<lambda>coin. op_txid (lc_outpoint coin) = txid) coins)"

definition coins_inputs :: "txid \<Rightarrow> tx \<Rightarrow> list_coins_entry list \<Rightarrow> list_coins_entry list" where
  "coins_inputs txid t coins =
     filter (\<lambda>coin. op_txid (lc_outpoint coin) \<noteq> txid \<and> lc_outpoint coin \<in> set (tx_outpoints t)) coins"

definition history_of ::
  "btc \<Rightarrow> nat \<Rightarrow> list_coins_entry list \<Rightarrow> transaction_info \<Rightarrow> history_tx option" where
  "history_of B network coins = (\<lambda>(t, height, time).
     (let txid = compute_txid B t in
      history_new B t height time (coins_inputs txid t coins) (coins_changes txid coins) network))"

text \<open>The outpoints that a transaction creates and those it spends.\<close>

definition history_outpoints :: "btc \<Rightarrow> tx \<Rightarrow> outpoint list" where
  "history_outpoints B t = map (outpoint_at (compute_txid B t)) [0..<length (tx_output t)] @ tx_outpoints t"

definition txs_to_historytxs ::
  "btc \<Rightarrow> (label_item \<Rightarrow> string) \<Rightarrow> ('ms, 'tr, 'd) daemon_trait \<Rightarrow> transaction_info list \<Rightarrow> ('d, history_tx list) call" where
  "txs_to_historytxs B item_str T txs =
     call_bind (td_get_info T) (\<lambda>info.
     call_bind (td_list_coins T [] (remdups (concat (map (\<lambda>(t, _). history_outpoints B t) txs)))) (\<lambda>coins.
     call_bind (call_expect (collect_options (history_of B (gi_network info) coins) txs)) (load_history_labels B T item_str)))"

definition list_history_txs ::
  "btc \<Rightarrow> (label_item \<Rightarrow> string) \<Rightarrow> ('ms, 'tr, 'd) daemon_trait \<Rightarrow> nat \<Rightarrow> nat \<Rightarrow> nat \<Rightarrow> ('d, history_tx list) call" where
  "list_history_txs B item_str T start end limit =
     call_bind (td_list_confirmed_txs T start end limit) (txs_to_historytxs B item_str T)"

definition get_history_txs ::
  "btc \<Rightarrow> (label_item \<Rightarrow> string) \<Rightarrow> ('ms, 'tr, 'd) daemon_trait \<Rightarrow> txid list \<Rightarrow> ('d, history_tx list) call" where
  "get_history_txs B item_str T txids = call_bind (td_list_txs T txids) (txs_to_historytxs B item_str T)"

text \<open>
  The loop that asks for more transactions while all those found are of one block, over the query
  \<open>fetch\<close> of the transactions up to a limit; \<open>None\<close> is a loop that does not end.
\<close>

definition same_block :: "nat option option \<Rightarrow> history_tx list \<Rightarrow> bool" where
  "same_block blocktime txs = list_all (\<lambda>h. Some (ht_time h) = blocktime) txs"

partial_function (option) page_loop ::
  "(nat \<Rightarrow> ('d, history_tx list) call) \<Rightarrow> nat \<Rightarrow> nat option option \<Rightarrow> nat \<Rightarrow> history_tx list \<Rightarrow> 'd
     \<Rightarrow> ((daemon_error + nat \<times> history_tx list) \<times> 'd) option" where
  "page_loop fetch limit blocktime page_limit txs d =
     (if length txs \<ge> page_limit \<and> same_block blocktime txs then
        (let page_limit = wrap64 (page_limit + limit) in
         case fetch page_limit d of
           (Inl e, d) \<Rightarrow> Some (Err e, d)
         | (Inr txs, d) \<Rightarrow> page_loop fetch limit blocktime page_limit txs d)
      else Some (Ok (page_limit, txs), d))"

definition first_time :: "history_tx list \<Rightarrow> nat option option" where
  "first_time txs = (case txs of [] \<Rightarrow> None | h # _ \<Rightarrow> Some (ht_time h))"

definition page_of :: "nat \<Rightarrow> history_tx list \<Rightarrow> history_page" where
  "page_of page_limit txs =
     (let txs = Sorting_Algorithms.sort history_order txs
      in \<lparr>hp_txs = txs, hp_next_cursor = (if length txs \<ge> page_limit then
            (if txs = [] then None else cursor_from_tx (last txs)) else None)\<rparr>)"

definition history_page_by ::
  "(nat \<Rightarrow> ('d, history_tx list) call) \<Rightarrow> nat \<Rightarrow> 'd \<Rightarrow> ((daemon_error + history_page) \<times> 'd) option" where
  "history_page_by fetch limit d = (case fetch limit d of
     (Inl e, d) \<Rightarrow> Some (Err e, d)
   | (Inr txs, d) \<Rightarrow>
       map_option (\<lambda>(r, d). (rbind r (\<lambda>(page_limit, txs). Ok (page_of page_limit txs)), d))
         (page_loop fetch limit (first_time txs) limit txs d))"

definition list_history_page ::
  "btc \<Rightarrow> (label_item \<Rightarrow> string) \<Rightarrow> ('ms, 'tr, 'd) daemon_trait \<Rightarrow> nat \<Rightarrow> nat \<Rightarrow> 'd
     \<Rightarrow> ((daemon_error + history_page) \<times> 'd) option" where
  "list_history_page B item_str T before = history_page_by (list_history_txs B item_str T 0 before)"

section \<open>Pending transactions and payments\<close>

definition push_new :: "'a \<Rightarrow> 'a list \<Rightarrow> 'a list" where
  "push_new x xs = (if x \<in> set xs then xs else xs @ [x])"

definition pending_txids :: "list_coins_entry list \<Rightarrow> txid list" where
  "pending_txids coins = fold (\<lambda>coin txids.
     (let txids = (if lc_block_height coin = None then push_new (op_txid (lc_outpoint coin)) txids else txids)
      in case lc_spend_info coin of None \<Rightarrow> txids | Some (spend_txid, _) \<Rightarrow> push_new spend_txid txids)) coins []"

definition list_pending_txs ::
  "btc \<Rightarrow> (label_item \<Rightarrow> string) \<Rightarrow> ('ms, 'tr, 'd) daemon_trait \<Rightarrow> ('d, history_tx list) call" where
  "list_pending_txs B item_str T =
     call_bind (td_get_info T) (\<lambda>info.
     call_bind (td_list_coins T [St_Unconfirmed, St_Spending] []) (\<lambda>coins.
     if pending_txids coins = [] then call_return []
     else
       call_bind (td_list_txs T (pending_txids coins)) (\<lambda>txs.
       call_bind (call_expect (collect_options (history_of B (gi_network info) coins) txs)) (load_history_labels B T item_str))))"

definition list_pending_payments where
  "list_pending_payments B item_str T =
     call_bind (list_pending_txs B item_str T) (\<lambda>txs.
     call_return (concat (map (payments_from_tx B item_str) (Sorting_Algorithms.sort pending_order txs))))"

definition list_confirmed_payments_page where
  "list_confirmed_payments_page B item_str T before limit d =
     map_option (\<lambda>(r, d). (rbind r (\<lambda>page. Ok
         \<lparr>pp_payments = Sorting_Algorithms.sort payment_order (concat (map (payments_from_tx B item_str) (hp_txs page))),
          pp_next_cursor = hp_next_cursor page\<rparr>), d))
       (list_history_page B item_str T before limit d)"

end
