(* ===== verification/Gui_Panels.thy ===== *)
theory Gui_Panels
  imports Gui_History Rpc_Server Business_Text
begin

text \<open>
  The panels of the graphical wallet that show coins, payments and transactions (\<open>liana-gui/src/app/state\<close>:
  \<open>label.rs\<close>, \<open>transactions.rs\<close>, \<open>coins.rs\<close>, \<open>mod.rs\<close>): the state of each, the update for each
  message and the task it returns. A task is run against the daemon and its result comes back as a message, so
  that messages of other tasks may come in between. Exports and the drawing are not modelled.
\<close>

datatype gui_error = GE_Daemon daemon_error | GE_Spend spend_creation_error | GE_Desc liana_desc_error
  | GE_Unexpected_Desc liana_desc_error | GE_User_Refused | GE_Device nat | GE_Hot_Signer "nat option"

definition gui_call :: "('d, 'a) call \<Rightarrow> 'd \<Rightarrow> (gui_error + 'a) \<times> 'd" where
  "gui_call m d = (let (r, d') = m d in (map_err GE_Daemon r, d'))"

section \<open>Edition of labels\<close>

definition LABEL_MAX_LENGTH :: nat where "LABEL_MAX_LENGTH = 80"

text \<open>\<open>value.len()\<close>: strings are their bytes. The division into graphemes is that of the Unicode crate.\<close>

definition is_valid_label_value :: "string \<Rightarrow> bool" where
  "is_valid_label_value value \<longleftrightarrow> length value \<le> LABEL_MAX_LENGTH"

definition truncate_text :: "(string \<Rightarrow> string list) \<Rightarrow> string \<Rightarrow> nat \<Rightarrow> string" where
  "truncate_text graphemes s len =
     (if length (graphemes s) \<le> len then s
      else if len < 3 then concat (take len (graphemes s))
      else concat (take (len - 3) (graphemes s)) @ ''...'')"

record form_value =
  fv_value :: string
  fv_valid :: bool

type_synonym labels_edited = "string \<rightharpoonup> form_value"

datatype label_message = Label_Edit | Label_Edited string | Label_Cancel | Label_Confirm

text \<open>\<open>unreachable!\<close> for a text that is none of the three.\<close>

definition gui_label_item_from_str :: "parsers \<Rightarrow> string \<Rightarrow> label_item option" where
  "gui_label_item_from_str P s = (case parse_address P s of
     Some addr \<Rightarrow> Some (Label_Address addr)
   | None \<Rightarrow> (case parse_txid P s of
       Some txid \<Rightarrow> Some (Label_Txid txid)
     | None \<Rightarrow> map_option Label_OutPoint (parse_outpoint P s)))"

definition label_edit :: "string \<Rightarrow> string \<Rightarrow> labels_edited \<Rightarrow> labels_edited" where
  "label_edit ky value edited = edited(ky \<mapsto> \<lparr>fv_value = value, fv_valid = True\<rparr>)"

text \<open>What is confirmed: for each item edited its text and its label, none when the value is empty.\<close>

definition confirmed_labels :: "labels_edited \<Rightarrow> string list \<Rightarrow> (string \<times> string option) list" where
  "confirmed_labels edited items = fold (\<lambda>item labels. case edited item of
     None \<Rightarrow> labels
   | Some v \<Rightarrow> hm_insert item (if fv_value v = [] then None else Some (fv_value v)) labels) items []"

text \<open>The result is the state and the labels that a task then sends, if any; \<open>None\<close> is a panic.\<close>

definition labels_update ::
  "(string \<Rightarrow> string list) \<Rightarrow> parsers \<Rightarrow> string list \<Rightarrow> label_message \<Rightarrow> labels_edited
     \<Rightarrow> (labels_edited \<times> ((label_item \<times> string option) list \<times> (string \<times> string option) list) option) option" where
  "labels_update graphemes P items m edited = (case m of
     Label_Edit \<Rightarrow> Some (edited, None)
   | Label_Edited value \<Rightarrow>
       (let value = truncate_text graphemes value LABEL_MAX_LENGTH;
            v = \<lparr>fv_value = value, fv_valid = is_valid_label_value value\<rparr>
        in Some (fold (\<lambda>item e. e(item \<mapsto> v)) items edited, None))
   | Label_Cancel \<Rightarrow> Some (fold (\<lambda>item e. e(item := None)) items edited, None)
   | Label_Confirm \<Rightarrow>
       (let updated_str = confirmed_labels edited items in
        map_option (\<lambda>updated. (edited, Some (fold (\<lambda>(item, label). hm_insert item label) updated [], updated_str)))
          (collect_options (\<lambda>(s, label). map_option (\<lambda>item. (item, label)) (gui_label_item_from_str P s)) updated_str)))"

text \<open>The task, and the end of it: the labels are loaded into what is shown and are no longer edited.\<close>

definition save_labels_task ::
  "('ms, 'tr, 'd) daemon_trait \<Rightarrow> (label_item \<times> string option) list \<Rightarrow> (string \<times> string option) list
     \<Rightarrow> 'd \<Rightarrow> (gui_error + (string \<times> string option) list) \<times> 'd" where
  "save_labels_task T updated updated_str =
     gui_call (call_bind (td_update_labels T updated) (\<lambda>_. call_return updated_str))"

definition labels_updated :: "(string \<times> string option) list \<Rightarrow> labels_edited \<Rightarrow> labels_edited" where
  "labels_updated new_labels edited = fold (\<lambda>(labelled, _) e. e(labelled := None)) new_labels edited"

definition history_load_labels :: "btc \<Rightarrow> (label_item \<Rightarrow> string) \<Rightarrow> (string \<times> string option) list \<Rightarrow> history_tx \<Rightarrow> history_tx" where
  "history_load_labels B item_str new_labels h =
     h\<lparr>ht_labels := load_labels item_str (map_of new_labels) (history_labelled B h) (ht_labels h)\<rparr>"

section \<open>Replacement of a transaction\<close>

definition BITCOIN_CORE_INCREMENTAL_RELAY_FEERATE_VB :: nat where
  "BITCOIN_CORE_INCREMENTAL_RELAY_FEERATE_VB = 1"

record rbf_modal =
  rm_tx :: history_tx
  rm_is_cancel :: bool
  rm_min_feerate_vb :: nat
  rm_descendant_txids :: "txid list"
  rm_feerate_val :: form_value
  rm_feerate_vb :: "nat option"
  rm_replacement_txid :: "txid option"
  rm_processing :: bool
  rm_warning :: "gui_error option"

definition rbf_modal_new :: "btc \<Rightarrow> history_tx \<Rightarrow> bool \<Rightarrow> txid list \<Rightarrow> rbf_modal option" where
  "rbf_modal_new B h is_cancel descendant_txids =
     Option.bind (ht_fee_amount h) (\<lambda>fee.
     Option.bind (checked_div fee ((tx_weight B (ht_tx h) + 3) div 4)) (\<lambda>prev_feerate_vb.
     Option.bind (checked_add64 prev_feerate_vb BITCOIN_CORE_INCREMENTAL_RELAY_FEERATE_VB) (\<lambda>min_feerate.
     Some \<lparr>rm_tx = h, rm_is_cancel = is_cancel, rm_min_feerate_vb = min_feerate, rm_descendant_txids = descendant_txids,
       rm_feerate_val = \<lparr>fv_value = show_nat min_feerate, fv_valid = True\<rparr>,
       rm_feerate_vb = (if is_cancel then None else Some min_feerate), rm_replacement_txid = None,
       rm_processing = False, rm_warning = None\<rparr>)))"

definition rbf_feerate_edited :: "string \<Rightarrow> rbf_modal \<Rightarrow> rbf_modal" where
  "rbf_feerate_edited s m =
     (let valid = (case parse_u64 s of
            Some value \<Rightarrow> rm_min_feerate_vb m \<le> value \<and> value \<le> MAX_FEERATE_VB | None \<Rightarrow> False)
      in m\<lparr>rm_warning := None, rm_feerate_val := \<lparr>fv_value = s, fv_valid = valid\<rparr>,
           rm_feerate_vb := (if valid then parse_u64 s else None)\<rparr>)"

definition rbf_psbt_done :: "gui_error + txid \<Rightarrow> rbf_modal \<Rightarrow> rbf_modal" where
  "rbf_psbt_done res m = (case res of
     Inr txid \<Rightarrow> m\<lparr>rm_processing := False, rm_replacement_txid := Some txid\<rparr>
   | Inl e \<Rightarrow> m\<lparr>rm_processing := False, rm_warning := Some e\<rparr>)"

text \<open>
  The labels given to the replacement: for each item labelled in the previous transaction that has a label. A
  hash map: the last label inserted for an item is kept.
\<close>

definition replacement_label :: "txid \<Rightarrow> tx \<Rightarrow> tx \<Rightarrow> label_item \<Rightarrow> string \<Rightarrow> (label_item \<times> string option) list \<Rightarrow> (label_item \<times> string option) list" where
  "replacement_label new_txid previous new item label labels = (case item of
     Label_Txid _ \<Rightarrow> hm_insert (Label_Txid new_txid) (Some label) labels
   | Label_OutPoint op \<Rightarrow>
       (if op_vout op < length (tx_output previous)
        then fold (\<lambda>(vout, output) labels.
            if txo_script output = txo_script (tx_output previous ! op_vout op)
            then hm_insert (Label_OutPoint (outpoint_at new_txid vout)) (Some label) labels else labels)
          (enumerate 0 (tx_output new)) labels
        else labels)
   | Label_Address _ \<Rightarrow> labels)"

definition replacement_labels :: "btc \<Rightarrow> (label_item \<Rightarrow> string) \<Rightarrow> history_tx \<Rightarrow> tx \<Rightarrow> (label_item \<times> string option) list" where
  "replacement_labels B item_str h new =
     fold (\<lambda>item labels. case ht_labels h (item_str item) of
         None \<Rightarrow> labels
       | Some label \<Rightarrow> replacement_label (compute_txid B new) (ht_tx h) new item label labels)
       (history_labelled B h) []"

definition rbf_replace ::
  "btc \<Rightarrow> (label_item \<Rightarrow> string) \<Rightarrow> ('ms, 'tr, 'd) daemon_trait \<Rightarrow> history_tx \<Rightarrow> bool \<Rightarrow> nat option \<Rightarrow> 'd \<Rightarrow> (gui_error + txid) \<times> 'd" where
  "rbf_replace B item_str T h is_cancel feerate_vb d =
     (case td_rbf_psbt T (compute_txid B (ht_tx h)) is_cancel feerate_vb d of
        (Inl e, d) \<Rightarrow> (Err (GE_Daemon e), d)
      | (Inr (Spend_Insufficient missing), d) \<Rightarrow> (Err (GE_Spend (CoinSelection missing)), d)
      | (Inr (Spend_Success psbt _), d) \<Rightarrow>
          gui_call (call_bind
            (if is_cancel then call_return () else td_update_labels T (replacement_labels B item_str h (unsigned_tx psbt))) (\<lambda>_.
            call_bind (td_update_spend_tx T psbt) (\<lambda>_.
            call_return (compute_txid B (unsigned_tx psbt))))) d)"

section \<open>The transactions\<close>

definition HISTORY_EVENT_PAGE_SIZE :: nat where "HISTORY_EVENT_PAGE_SIZE = 20"

datatype transactions_modal = Modal_None | Modal_Rbf rbf_modal | Modal_Export

record transactions_panel =
  tp_txs :: "history_tx list"
  tp_labels_edited :: labels_edited
  tp_selected_tx :: "history_tx option"
  tp_warning :: "gui_error option"
  tp_modal :: transactions_modal
  tp_is_last_page :: bool
  tp_next_cursor :: "history_cursor option"
  tp_processing :: bool

definition transactions_panel_new :: transactions_panel where
  "transactions_panel_new = \<lparr>tp_txs = [], tp_labels_edited = Map.empty, tp_selected_tx = None, tp_warning = None,
     tp_modal = Modal_None, tp_is_last_page = False, tp_next_cursor = None, tp_processing = False\<rparr>"

definition preselect :: "history_tx \<Rightarrow> transactions_panel \<Rightarrow> transactions_panel" where
  "preselect h p = p\<lparr>tp_selected_tx := Some h, tp_warning := None, tp_modal := Modal_None\<rparr>"

datatype transactions_message =
  History_Transactions "gui_error + history_page" | History_Extension "gui_error + history_page"
  | Rbf_Modal history_tx bool "gui_error + txid list" | Tx_Reload | Tx_Close | Tx_Select nat
  | Rbf_Cancel | Rbf_New bool | Rbf_Feerate_Edited string | Rbf_Psbt "gui_error + txid" | Rbf_Confirm
  | Tx_Label "string list" label_message | Tx_Labels_Updated "gui_error + (string \<times> string option) list"
  | Tx_Next | Tx_Export_Open | Tx_Export_Close | Tx_Other

datatype transactions_task = Task_None | Task_Reload nat | Task_Next_Page history_cursor
  | Task_Descendants history_tx bool "outpoint list" | Task_Rbf history_tx bool "nat option"
  | Task_Save_Labels "(label_item \<times> string option) list" "(string \<times> string option) list"
  | Task_Launch_Export

text \<open>
  The page that extends the list: when its first transaction is already shown, those shown from there on are left
  out; otherwise the page is appended as it is.
\<close>

definition extend_by :: "('a \<Rightarrow> 'k) \<Rightarrow> 'a list \<Rightarrow> 'a list \<Rightarrow> 'a list" where
  "extend_by ky new old = (case new of
     [] \<Rightarrow> old
   | first # _ \<Rightarrow>
       (case position (\<lambda>x. ky x = ky first) old of
          Some pos \<Rightarrow> old @ filter (\<lambda>x. ky x \<notin> ky ` set (drop pos old)) new
        | None \<Rightarrow> old @ new))"

definition map_rbf_modal :: "(rbf_modal \<Rightarrow> rbf_modal) \<Rightarrow> transactions_panel \<Rightarrow> transactions_panel" where
  "map_rbf_modal f p = (case tp_modal p of Modal_Rbf m \<Rightarrow> p\<lparr>tp_modal := Modal_Rbf (f m)\<rparr> | _ \<Rightarrow> p)"

definition modal_after_select :: "btc \<Rightarrow> history_tx option \<Rightarrow> transactions_modal \<Rightarrow> transactions_modal" where
  "modal_after_select B selected modal = (case modal of
     Modal_Rbf m \<Rightarrow>
       (if Some (compute_txid B (ht_tx (rm_tx m))) \<noteq> map_option (\<lambda>h. compute_txid B (ht_tx h)) selected
        then Modal_None else modal)
   | _ \<Rightarrow> modal)"

text \<open>\<open>now\<close> is the time of the clock in seconds, which must fit in 32 bits. \<open>None\<close> is a panic.\<close>

definition transactions_reload :: "nat \<Rightarrow> transactions_panel \<Rightarrow> (transactions_panel \<times> transactions_task) option" where
  "transactions_reload now p = (if now \<le> U32_MAX then Some (p\<lparr>tp_selected_tx := None\<rparr>, Task_Reload now) else None)"

definition transactions_update ::
  "btc \<Rightarrow> parsers \<Rightarrow> (string \<Rightarrow> string list) \<Rightarrow> nat \<Rightarrow> transactions_message \<Rightarrow> transactions_panel
     \<Rightarrow> (transactions_panel \<times> transactions_task) option" where
  "transactions_update B P graphemes now m p = (case m of
     History_Transactions (Inl e) \<Rightarrow> Some (p\<lparr>tp_warning := Some e\<rparr>, Task_None)
   | History_Transactions (Inr page) \<Rightarrow>
       Some (p\<lparr>tp_warning := None, tp_txs := hp_txs page, tp_next_cursor := hp_next_cursor page,
         tp_is_last_page := (hp_next_cursor page = None)\<rparr>, Task_None)
   | History_Extension (Inl e) \<Rightarrow> Some (p\<lparr>tp_warning := Some e\<rparr>, Task_None)
   | History_Extension (Inr page) \<Rightarrow>
       Some (p\<lparr>tp_processing := False, tp_warning := None, tp_next_cursor := hp_next_cursor page,
         tp_is_last_page := (hp_next_cursor page = None), tp_txs := extend_by ht_txid (hp_txs page) (tp_txs p)\<rparr>, Task_None)
   | Rbf_Modal h is_cancel (Inr descendant_txids) \<Rightarrow>
       map_option (\<lambda>modal. (p\<lparr>tp_modal := Modal_Rbf modal\<rparr>, Task_None)) (rbf_modal_new B h is_cancel descendant_txids)
   | Rbf_Modal h is_cancel (Inl e) \<Rightarrow> Some (p\<lparr>tp_warning := Some e\<rparr>, Task_None)
   | Tx_Reload \<Rightarrow> transactions_reload now p
   | Tx_Close \<Rightarrow> transactions_reload now p
   | Tx_Select i \<Rightarrow>
       (let selected = (if i < length (tp_txs p) then Some (tp_txs p ! i) else None)
        in Some (p\<lparr>tp_selected_tx := selected, tp_modal := modal_after_select B selected (tp_modal p)\<rparr>, Task_None))
   | Rbf_Cancel \<Rightarrow> Some (p\<lparr>tp_modal := Modal_None\<rparr>, Task_None)
   | Rbf_New is_cancel \<Rightarrow>
       (case tp_selected_tx p of
          Some h \<Rightarrow>
            (if ht_fee_amount h \<noteq> None
             then Some (p, Task_Descendants h is_cancel
               (map (outpoint_at (compute_txid B (ht_tx h))) [0..<length (tx_output (ht_tx h))]))
             else Some (p, Task_None))
        | None \<Rightarrow> Some (p, Task_None))
   | Tx_Label items lm \<Rightarrow>
       map_option (\<lambda>(edited, save). (p\<lparr>tp_labels_edited := edited\<rparr>,
           case save of None \<Rightarrow> Task_None | Some (updated, updated_str) \<Rightarrow> Task_Save_Labels updated updated_str))
         (labels_update graphemes P items lm (tp_labels_edited p))
   | Tx_Labels_Updated (Inr new_labels) \<Rightarrow>
       (let load = history_load_labels B (item_text P) new_labels in
        Some (p\<lparr>tp_txs := map load (tp_txs p), tp_selected_tx := map_option load (tp_selected_tx p),
          tp_labels_edited := labels_updated new_labels (tp_labels_edited p)\<rparr>, Task_None))
   | Tx_Labels_Updated (Inl e) \<Rightarrow> Some (p\<lparr>tp_warning := Some e\<rparr>, Task_None)
   | Tx_Next \<Rightarrow>
       (case tp_next_cursor p of
          Some cursor \<Rightarrow> Some (p\<lparr>tp_processing := True\<rparr>, Task_Next_Page cursor)
        | None \<Rightarrow> Some (p, Task_None))
   | Tx_Export_Open \<Rightarrow>
       (if tp_modal p = Modal_None then Some (p\<lparr>tp_modal := Modal_Export\<rparr>, Task_Launch_Export) else Some (p, Task_None))
   | Tx_Export_Close \<Rightarrow> Some (if tp_modal p = Modal_Export then p\<lparr>tp_modal := Modal_None\<rparr> else p, Task_None)
   | Rbf_Feerate_Edited s \<Rightarrow> Some (map_rbf_modal (rbf_feerate_edited s) p, Task_None)
   | Rbf_Psbt res \<Rightarrow> Some (map_rbf_modal (rbf_psbt_done res) p, Task_None)
   | Rbf_Confirm \<Rightarrow>
       (case tp_modal p of
          Modal_Rbf modal \<Rightarrow> Some (p\<lparr>tp_modal := Modal_Rbf (modal\<lparr>rm_warning := None, rm_processing := True\<rparr>)\<rparr>,
            Task_Rbf (rm_tx modal) (rm_is_cancel modal) (rm_feerate_vb modal))
        | _ \<Rightarrow> Some (p, Task_None))
   | Tx_Other \<Rightarrow> Some (p, Task_None))"

text \<open>A task run against the daemon, and the message it ends with; \<open>None\<close> is a task that does not end.\<close>

definition reload_history ::
  "btc \<Rightarrow> (label_item \<Rightarrow> string) \<Rightarrow> ('ms, 'tr, 'd) daemon_trait \<Rightarrow> nat \<Rightarrow> 'd \<Rightarrow> ((gui_error + history_page) \<times> 'd) option" where
  "reload_history B item_str T now d = (case list_history_page B item_str T now HISTORY_EVENT_PAGE_SIZE d of
     None \<Rightarrow> None
   | Some (Inl e, d) \<Rightarrow> Some (Err (GE_Daemon e), d)
   | Some (Inr page, d) \<Rightarrow>
       Some (gui_call (call_bind (list_pending_txs B item_str T) (\<lambda>txs.
         call_return \<lparr>hp_txs = txs @ hp_txs page, hp_next_cursor = hp_next_cursor page\<rparr>)) d))"

definition descendant_txids :: "list_coins_entry list \<Rightarrow> txid list" where
  "descendant_txids coins = remdups (List.map_filter (\<lambda>coin. map_option fst (lc_spend_info coin)) coins)"

definition transactions_run ::
  "btc \<Rightarrow> (label_item \<Rightarrow> string) \<Rightarrow> ('ms, 'tr, 'd) daemon_trait \<Rightarrow> transactions_task \<Rightarrow> 'd \<Rightarrow> (transactions_message \<times> 'd) option" where
  "transactions_run B item_str T task d = (case task of
     Task_None \<Rightarrow> Some (Tx_Other, d)
   | Task_Reload now \<Rightarrow> map_option (\<lambda>(r, d). (History_Transactions r, d)) (reload_history B item_str T now d)
   | Task_Next_Page cursor \<Rightarrow>
       map_option (\<lambda>(r, d). (History_Extension (map_err GE_Daemon r), d))
         (list_history_page B item_str T (hc_time cursor) HISTORY_EVENT_PAGE_SIZE d)
   | Task_Descendants h is_cancel outpoints \<Rightarrow>
       (let (r, d) = gui_call (td_list_coins T [St_Spending] outpoints) d
        in Some (Rbf_Modal h is_cancel (map_sum id descendant_txids r), d))
   | Task_Rbf h is_cancel feerate_vb \<Rightarrow>
       (let (r, d) = rbf_replace B item_str T h is_cancel feerate_vb d in Some (Rbf_Psbt r, d))
   | Task_Save_Labels updated updated_str \<Rightarrow>
       (let (r, d) = save_labels_task T updated updated_str d in Some (Tx_Labels_Updated r, d))
   | Task_Launch_Export \<Rightarrow> Some (Tx_Other, d))"

text \<open>
  The button that asks for the next page, when it is drawn: what pressing it sends, nothing while a page is awaited.
\<close>

definition transactions_see_more :: "transactions_panel \<Rightarrow> transactions_message option option" where
  "transactions_see_more p =
     (if \<not> tp_is_last_page p \<and> tp_txs p \<noteq> [] then Some (if \<not> tp_processing p then Some Tx_Next else None) else None)"

end
