(* ===== verification/Gui_Home.thy ===== *)
theory Gui_Home
  imports Gui_Panels
begin

text \<open>
  The home panel and the coins panel of the graphical wallet (\<open>liana-gui/src/app/state/mod.rs\<close>,
  \<open>state/coins.rs\<close>, and the synchronisation status of \<open>wallet.rs\<close>): the balances and the coins about to
  expire, the payments with their pages, when the panel is reloaded, and the order of the coins.
  An instant is a number of nanoseconds, a progress a percentage.
\<close>

section \<open>Synchronisation\<close>

datatype sync_status = Synced | Wallet_Full_Scan | Latest_Wallet_Sync | Blockchain_Sync nat

definition wallet_is_syncing :: "sync_status \<Rightarrow> bool" where
  "wallet_is_syncing s \<longleftrightarrow> s = Wallet_Full_Scan \<or> s = Latest_Wallet_Sync"

text \<open>\<open>last_poll <= last_poll_at_startup\<close>: nothing comes before any date.\<close>

definition sync_status_of :: "daemon_backend \<Rightarrow> int \<Rightarrow> nat \<Rightarrow> nat option \<Rightarrow> nat option \<Rightarrow> sync_status" where
  "sync_status_of backend blockheight sync_progress last_poll last_poll_at_startup =
     (if sync_progress < 100 then Blockchain_Sync sync_progress
      else if blockheight \<le> 0 then
        (if backend = Remote_Backend \<or> backend = Embedded_Lianad (Some Node_Electrum) then Wallet_Full_Scan else Synced)
      else if option_cmp last_poll last_poll_at_startup \<noteq> Greater \<and>
          (is_embedded backend \<or> backend = External_Lianad \<and> last_poll_at_startup \<noteq> None)
      then Latest_Wallet_Sync
      else Synced)"

section \<open>Balances\<close>

record coins_totals =
  ct_balance :: nat
  ct_unconfirmed_balance :: nat
  ct_expiring_coins :: "outpoint list"
  ct_remaining_seq :: "nat option"

definition summarise_coin :: "nat \<Rightarrow> nat \<Rightarrow> list_coins_entry \<Rightarrow> coins_totals \<Rightarrow> coins_totals option" where
  "summarise_coin tip_height timelock coin totals =
     (if lc_spend_info coin \<noteq> None then Some totals
      else if \<not> coin_is_owned coin then
        map_option (\<lambda>b. totals\<lparr>ct_unconfirmed_balance := b\<rparr>) (checked_add64 (ct_unconfirmed_balance totals) (lc_amount coin))
      else
        Option.bind (checked_add64 (ct_balance totals) (lc_amount coin)) (\<lambda>b.
        let totals = totals\<lparr>ct_balance := b\<rparr> in
        if lc_block_height coin = None then Some totals
        else
          (let seq = remaining_sequence coin tip_height timelock;
               totals = (if seq \<le> timelock * 10 div 100
                 then totals\<lparr>ct_expiring_coins := ct_expiring_coins totals @ [lc_outpoint coin]\<rparr> else totals)
           in Some (totals\<lparr>ct_remaining_seq := Some (case ct_remaining_seq totals of
                Some l \<Rightarrow> if seq < l then seq else l | None \<Rightarrow> seq)\<rparr>))))"

fun summarise_coins :: "nat \<Rightarrow> nat \<Rightarrow> list_coins_entry list \<Rightarrow> coins_totals \<Rightarrow> coins_totals option" where
  "summarise_coins tip_height timelock [] totals = Some totals"
| "summarise_coins tip_height timelock (coin # coins) totals =
     Option.bind (summarise_coin tip_height timelock coin totals) (summarise_coins tip_height timelock coins)"

definition coins_summary :: "list_coins_entry list \<Rightarrow> nat \<Rightarrow> nat \<Rightarrow> coins_totals option" where
  "coins_summary coins tip_height timelock = summarise_coins tip_height timelock coins
     \<lparr>ct_balance = 0, ct_unconfirmed_balance = 0, ct_expiring_coins = [], ct_remaining_seq = None\<rparr>"

section \<open>The home panel\<close>

record payments_list =
  pl_list :: "payment list"
  pl_is_last_page :: bool
  pl_next_cursor :: "history_cursor option"
  pl_loaded_page_count :: nat

record home =
  hm_sync_status :: sync_status
  hm_last_reload :: nat
  hm_totals :: coins_totals
  hm_payments :: payments_list
  hm_processing :: bool
  hm_selected_event :: "(history_tx \<times> nat) option"
  hm_labels_edited :: labels_edited
  hm_warning :: "gui_error option"
  hm_rescan_warning :: bool

definition home_new ::
  "('ms, 'tr) miniscript \<Rightarrow> ('ms, 'tr) liana_descriptor \<Rightarrow> nat \<Rightarrow> list_coins_entry list \<Rightarrow> sync_status \<Rightarrow> int \<Rightarrow> bool \<Rightarrow> home option" where
  "home_new M desc now coins status tip_height rescan_warning =
     Option.bind (first_timelock_value M desc) (\<lambda>timelock.
     map_option (\<lambda>totals. \<lparr>hm_sync_status = status, hm_last_reload = now, hm_totals = totals,
         hm_payments = \<lparr>pl_list = [], pl_is_last_page = False, pl_next_cursor = None, pl_loaded_page_count = 0\<rparr>,
         hm_processing = False, hm_selected_event = None, hm_labels_edited = Map.empty, hm_warning = None,
         hm_rescan_warning = rescan_warning\<rparr>)
       (coins_summary coins (i32_as_u32 tip_height) timelock))"

definition HOME_RELOAD_MAX_TTL :: nat where "HOME_RELOAD_MAX_TTL = 10 * 1000000000"
definition HOME_RELOAD_MIN_TTL :: nat where "HOME_RELOAD_MIN_TTL = 3 * 1000000000"

datatype home_message =
  Home_Tick | Home_Coins "gui_error + list_coins_entry list" | Home_Payments "gui_error + payments_page"
  | Home_Extension "gui_error + payments_page" | Update_Panel_Cache bool | Home_Payment "gui_error + history_tx \<times> nat"
  | Hide_Rescan_Warning | Select_Payment outpoint | Home_Label "string list" label_message
  | Home_Labels_Updated "gui_error + (string \<times> string option) list" | Home_Reload | Home_Close | Home_Scroll bool
  | Home_Next | Home_Other

datatype home_task = Home_Idle | Load_Payments nat | Load_Coins | Next_Payments history_cursor | Load_Event outpoint
  | Home_Save_Labels "(label_item \<times> string option) list" "(string \<times> string option) list"

text \<open>What an update reads: the descriptor, the clock in nanoseconds, the cache and the backend.\<close>

record ('ms, 'tr) home_env =
  he_btc :: btc
  he_ms :: "('ms, 'tr) miniscript"
  he_descriptor :: "('ms, 'tr) liana_descriptor"
  he_parsers :: parsers
  he_graphemes :: "string \<Rightarrow> string list"
  he_now :: nat
  he_backend :: daemon_backend
  he_blockheight :: int
  he_sync_progress :: nat
  he_last_poll :: "nat option"
  he_last_poll_at_startup :: "nat option"

text \<open>Tasks in a batch run in any order. The clock in seconds must fit in a \<open>u32\<close>.\<close>

definition home_reload :: "('ms, 'tr) home_env \<Rightarrow> home \<Rightarrow> (home \<times> home_task list) option" where
  "home_reload E p =
     (if wallet_is_syncing (hm_sync_status p) then Some (p, [])
      else
        (let secs = he_now E div 1000000000 in
         if secs > U32_MAX then None
         else Some (p\<lparr>hm_selected_event := None, hm_payments := (hm_payments p)\<lparr>pl_loaded_page_count := 0\<rparr>,
           hm_last_reload := he_now E\<rparr>, [Load_Payments secs, Load_Coins])))"

definition home_update :: "('ms, 'tr) home_env \<Rightarrow> home_message \<Rightarrow> home \<Rightarrow> (home \<times> home_task list) option" where
  "home_update E m p = (let payments = hm_payments p in case m of
     Home_Tick \<Rightarrow>
       (if pl_loaded_page_count payments = 1 \<and> hm_selected_event p = None \<and> he_now E > hm_last_reload p + HOME_RELOAD_MAX_TTL
        then home_reload E p else Some (p, []))
   | Home_Coins (Inl e) \<Rightarrow> Some (p\<lparr>hm_warning := Some e\<rparr>, [])
   | Home_Coins (Inr coins) \<Rightarrow>
       Option.bind (first_timelock_value (he_ms E) (he_descriptor E)) (\<lambda>timelock.
       map_option (\<lambda>totals. (p\<lparr>hm_warning := None, hm_totals := totals\<rparr>, []))
         (coins_summary coins (i32_as_u32 (he_blockheight E)) timelock))
   | Home_Payments (Inl e) \<Rightarrow> Some (p\<lparr>hm_warning := Some e\<rparr>, [])
   | Home_Payments (Inr page) \<Rightarrow>
       Some (p\<lparr>hm_warning := None, hm_payments := \<lparr>pl_list = pp_payments page, pl_is_last_page = (pp_next_cursor page = None),
         pl_next_cursor = pp_next_cursor page, pl_loaded_page_count = 1\<rparr>\<rparr>, [])
   | Home_Extension (Inl e) \<Rightarrow> Some (p\<lparr>hm_warning := Some e\<rparr>, [])
   | Home_Extension (Inr page) \<Rightarrow>
       Some (p\<lparr>hm_processing := False, hm_warning := None, hm_payments :=
         \<lparr>pl_list = extend_by pm_outpoint (pp_payments page) (pl_list payments), pl_is_last_page = (pp_next_cursor page = None),
          pl_next_cursor = pp_next_cursor page, pl_loaded_page_count = pl_loaded_page_count payments + 1\<rparr>\<rparr>, [])
   | Update_Panel_Cache is_current \<Rightarrow>
       (let status = sync_status_of (he_backend E) (he_blockheight E) (he_sync_progress E) (he_last_poll E) (he_last_poll_at_startup E);
            p' = p\<lparr>hm_sync_status := status\<rparr>
        in if is_current \<and> hm_sync_status p \<noteq> Synced \<and> status = Synced then home_reload E p' else Some (p', []))
   | Home_Payment (Inr event) \<Rightarrow> Some (p\<lparr>hm_selected_event := Some event\<rparr>, [])
   | Home_Payment (Inl e) \<Rightarrow> Some (p\<lparr>hm_warning := Some e\<rparr>, [])
   | Hide_Rescan_Warning \<Rightarrow> Some (p\<lparr>hm_rescan_warning := False\<rparr>, [])
   | Select_Payment op \<Rightarrow> Some (p, [Load_Event op])
   | Home_Label items lm \<Rightarrow>
       map_option (\<lambda>(edited, save). (p\<lparr>hm_labels_edited := edited\<rparr>,
           case save of None \<Rightarrow> [] | Some (updated, updated_str) \<Rightarrow> [Home_Save_Labels updated updated_str]))
         (labels_update (he_graphemes E) (he_parsers E) items lm (hm_labels_edited p))
   | Home_Labels_Updated (Inr new_labels) \<Rightarrow>
       (let txt_of = item_text (he_parsers E) in
        Some (p\<lparr>hm_payments := payments\<lparr>pl_list := map (payment_load_labels txt_of (map_of new_labels)) (pl_list payments)\<rparr>,
          hm_selected_event := map_option (\<lambda>(h, i). (history_load_labels (he_btc E) txt_of new_labels h, i)) (hm_selected_event p),
          hm_labels_edited := labels_updated new_labels (hm_labels_edited p)\<rparr>, []))
   | Home_Labels_Updated (Inl e) \<Rightarrow> Some (p\<lparr>hm_warning := Some e\<rparr>, [])
   | Home_Reload \<Rightarrow> home_reload E p
   | Home_Close \<Rightarrow> Some (p\<lparr>hm_selected_event := None\<rparr>, [])
   | Home_Scroll topmost \<Rightarrow>
       (if topmost \<and> (pl_loaded_page_count payments > 1 \<or> he_now E > hm_last_reload p + HOME_RELOAD_MIN_TTL)
        then home_reload E p else Some (p, []))
   | Home_Next \<Rightarrow>
       (case pl_next_cursor payments of
          Some cursor \<Rightarrow> Some (p\<lparr>hm_processing := True\<rparr>, [Next_Payments cursor])
        | None \<Rightarrow> Some (p, []))
   | Home_Other \<Rightarrow> Some (p, []))"

text \<open>The tasks. A payment whose transaction is not found any more is a panic.\<close>

definition home_run ::
  "btc \<Rightarrow> (label_item \<Rightarrow> string) \<Rightarrow> ('ms, 'tr, 'd) daemon_trait \<Rightarrow> home_task \<Rightarrow> 'd \<Rightarrow> (home_message \<times> 'd) option" where
  "home_run B item_str T task d = (case task of
     Home_Idle \<Rightarrow> Some (Home_Other, d)
   | Load_Payments now \<Rightarrow>
       (case list_confirmed_payments_page B item_str T now HISTORY_EVENT_PAGE_SIZE d of
          None \<Rightarrow> None
        | Some (Inl e, d) \<Rightarrow> Some (Home_Payments (Err (GE_Daemon e)), d)
        | Some (Inr page, d) \<Rightarrow>
            (let (r, d) = gui_call (call_bind (list_pending_payments B item_str T) (\<lambda>payments.
                 call_return \<lparr>pp_payments = payments @ pp_payments page, pp_next_cursor = pp_next_cursor page\<rparr>)) d
             in Some (Home_Payments r, d)))
   | Load_Coins \<Rightarrow>
       (let (r, d) = gui_call (td_list_coins T [St_Unconfirmed, St_Confirmed] []) d in Some (Home_Coins r, d))
   | Next_Payments cursor \<Rightarrow>
       map_option (\<lambda>(r, d). (Home_Extension (map_err GE_Daemon r), d))
         (list_confirmed_payments_page B item_str T (hc_time cursor) HISTORY_EVENT_PAGE_SIZE d)
   | Load_Event op \<Rightarrow>
       (let (r, d) = gui_call (call_bind (get_history_txs B item_str T [op_txid op]) (\<lambda>txs.
            call_bind (call_expect (case txs of [] \<Rightarrow> None | h # _ \<Rightarrow> Some h)) (\<lambda>h. call_return (h, op_vout op)))) d
        in Some (Home_Payment r, d))
   | Home_Save_Labels updated updated_str \<Rightarrow>
       (let (r, d) = save_labels_task T updated updated_str d in Some (Home_Labels_Updated r, d)))"

section \<open>The coins panel\<close>

record coins_panel =
  cp_list :: "list_coins_entry list"
  cp_labels :: labels_map
  cp_selected :: "nat list"
  cp_labels_edited :: labels_edited
  cp_warning :: "gui_error option"
  cp_timelock :: nat

text \<open>By height, the unconfirmed last, then by the index of the output.\<close>

definition coin_compare :: "list_coins_entry \<Rightarrow> list_coins_entry \<Rightarrow> comp" where
  "coin_compare a b = (case (lc_block_height a, lc_block_height b) of
     (Some a_height, Some b_height) \<Rightarrow>
       (if a_height = b_height then ord_cmp (op_vout (lc_outpoint a)) (op_vout (lc_outpoint b)) else ord_cmp a_height b_height)
   | (None, Some _) \<Rightarrow> Greater
   | (Some _, None) \<Rightarrow> Less
   | (None, None) \<Rightarrow> ord_cmp (op_vout (lc_outpoint a)) (op_vout (lc_outpoint b)))"

lift_definition coin_order :: "list_coins_entry comparator" is coin_compare
  by standard (auto simp: coin_compare_def split: option.splits if_splits)

definition update_panel_coins :: "list_coins_entry list \<Rightarrow> coins_panel \<Rightarrow> coins_panel" where
  "update_panel_coins coins p =
     p\<lparr>cp_list := Sorting_Algorithms.sort coin_order (filter (\<lambda>coin. lc_spend_info coin = None) coins)\<rparr>"

definition coins_panel_new :: "list_coins_entry list \<Rightarrow> nat \<Rightarrow> coins_panel" where
  "coins_panel_new coins timelock = update_panel_coins coins \<lparr>cp_list = [], cp_labels = Map.empty, cp_selected = [],
     cp_labels_edited = Map.empty, cp_warning = None, cp_timelock = timelock\<rparr>"

definition coins_labelled :: "list_coins_entry list \<Rightarrow> label_item list" where
  "coins_labelled coins = concat (map (\<lambda>coin. [Label_OutPoint (lc_outpoint coin), Label_Txid (op_txid (lc_outpoint coin)),
     Label_Address (lc_address coin)]) coins)"

datatype coins_message =
  Coins_Loaded "gui_error + list_coins_entry list" | Coins_Labels "gui_error + (string \<times> string) list"
  | Coins_Label "string list" label_message | Coins_Labels_Updated "gui_error + (string \<times> string option) list"
  | Coins_Select nat | Coins_Other

definition toggle :: "nat \<Rightarrow> nat list \<Rightarrow> nat list" where
  "toggle i selected = (if i \<in> set selected then remove1 i selected else selected @ [i])"

definition coins_panel_update ::
  "parsers \<Rightarrow> (string \<Rightarrow> string list) \<Rightarrow> coins_message \<Rightarrow> coins_panel
     \<Rightarrow> (coins_panel \<times> ((label_item \<times> string option) list \<times> (string \<times> string option) list) option) option" where
  "coins_panel_update P graphemes m p = (case m of
     Coins_Loaded (Inl e) \<Rightarrow> Some (p\<lparr>cp_warning := Some e\<rparr>, None)
   | Coins_Loaded (Inr coins) \<Rightarrow> Some (update_panel_coins coins (p\<lparr>cp_selected := [], cp_warning := None\<rparr>), None)
   | Coins_Labels (Inl e) \<Rightarrow> Some (p\<lparr>cp_warning := Some e\<rparr>, None)
   | Coins_Labels (Inr labels) \<Rightarrow> Some (p\<lparr>cp_labels := map_of labels\<rparr>, None)
   | Coins_Label items lm \<Rightarrow>
       map_option (\<lambda>(edited, save). (p\<lparr>cp_labels_edited := edited\<rparr>, save)) (labels_update graphemes P items lm (cp_labels_edited p))
   | Coins_Labels_Updated (Inr new_labels) \<Rightarrow>
       Some (p\<lparr>cp_labels := load_labels (item_text P) (map_of new_labels) (coins_labelled (cp_list p)) (cp_labels p),
         cp_labels_edited := labels_updated new_labels (cp_labels_edited p)\<rparr>, None)
   | Coins_Labels_Updated (Inl e) \<Rightarrow> Some (p\<lparr>cp_warning := Some e\<rparr>, None)
   | Coins_Select i \<Rightarrow> Some (p\<lparr>cp_selected := toggle i (cp_selected p)\<rparr>, None)
   | Coins_Other \<Rightarrow> Some (p, None))"

text \<open>The two tasks of a reload.\<close>

definition load_panel_coins where
  "load_panel_coins T = gui_call (td_list_coins T [St_Unconfirmed, St_Confirmed] [])"

definition load_panel_labels where
  "load_panel_labels T = gui_call (call_bind (td_list_coins T [St_Unconfirmed, St_Confirmed] []) (\<lambda>coins.
     td_get_labels T (remdups (coins_labelled coins))))"

end
