(* ===== verification/Gui_History_Lemmas.thy ===== *)
theory Gui_History_Lemmas
  imports Gui_History
begin

text \<open>
  The pages of the history, over any source of confirmed transactions that returns the latest ones up to a
  limit: a page is found, holds every transaction later than its cursor, and the cursor goes back. The embedded
  daemon is such a source.
\<close>

section \<open>Sources of confirmed transactions\<close>

type_synonym dated = "txid \<times> nat"

definition dated_of :: "history_tx \<Rightarrow> dated" where
  "dated_of h = (ht_txid h, the (ht_time h))"

text \<open>The transactions found are the latest of a period, and all of them if they are fewer than the limit.\<close>

definition latest_of :: "dated set \<Rightarrow> nat \<Rightarrow> nat \<Rightarrow> history_tx list \<Rightarrow> bool" where
  "latest_of H before limit txs \<longleftrightarrow> distinct (map dated_of txs) \<and> (\<forall>h \<in> set txs. ht_time h \<noteq> None) \<and>
     dated_of ` set txs \<subseteq> {e \<in> H. snd e \<le> before} \<and> length txs \<le> limit \<and>
     (\<forall>e \<in> H. snd e \<le> before \<longrightarrow> e \<notin> dated_of ` set txs \<longrightarrow>
        length txs = limit \<and> (\<forall>h \<in> set txs. snd e \<le> the (ht_time h)))"

text \<open>
  A page: sorted, later than its cursor it lacks nothing, without a cursor it lacks nothing at all, and the cursor, the
  date of its last transaction, is before the date asked for.
\<close>

definition page_ok :: "dated set \<Rightarrow> nat \<Rightarrow> history_page \<Rightarrow> bool" where
  "page_ok H before page \<longleftrightarrow> Sorting_Algorithms.sorted history_order (hp_txs page) \<and> distinct (map dated_of (hp_txs page)) \<and>
     (\<forall>h \<in> set (hp_txs page). ht_time h \<noteq> None) \<and> dated_of ` set (hp_txs page) \<subseteq> {e \<in> H. snd e \<le> before} \<and>
     (case hp_next_cursor page of
        None \<Rightarrow> dated_of ` set (hp_txs page) = {e \<in> H. snd e \<le> before}
      | Some c \<Rightarrow> hc_time c < before \<and> (hc_txid c, hc_time c) \<in> dated_of ` set (hp_txs page) \<and>
          {e \<in> H. hc_time c < snd e \<and> snd e \<le> before} \<subseteq> dated_of ` set (hp_txs page))"

text \<open>The last of sorted confirmed transactions is one of the earliest.\<close>

lemma not_later:
  assumes "compare history_order x y \<noteq> Greater" "ht_time x \<noteq> None" "ht_time y \<noteq> None"
  shows "the (ht_time y) \<le> the (ht_time x)"
  using assms by (auto simp: history_order.rep_eq history_compare_def split: option.splits)

lemma sorted_last_earliest:
  assumes "Sorting_Algorithms.sorted history_order txs" "\<forall>h \<in> set txs. ht_time h \<noteq> None" "h \<in> set txs"
  shows "the (ht_time (last txs)) \<le> the (ht_time h)"
  using assms(1) assms(2,3)
proof (induction txs arbitrary: h rule: Sorting_Algorithms.sorted_induct)
  case (Cons x xs)
  show ?case
  proof (cases "h = x \<and> xs \<noteq> []")
    case True
    then show ?thesis using Cons.hyps(2) [of "last xs"] Cons.prems(1) not_later [of x "last xs"] by auto
  next
    case False
    then show ?thesis using Cons.IH [of h] Cons.prems by auto
  qed
qed simp

lemma latest_of_mset:
  assumes "mset txs' = mset txs"
  shows "latest_of H before limit txs' \<longleftrightarrow> latest_of H before limit txs"
proof -
  have m: "mset (map dated_of txs') = mset (map dated_of txs)" using assms by simp
  show ?thesis
    using mset_eq_setD [OF assms] mset_eq_length [OF assms] mset_eq_imp_distinct_iff [OF m]
    unfolding latest_of_def by (simp only:)
qed

text \<open>The page made of the transactions the loop ends with.\<close>

lemma page_of_ok:
  assumes "latest_of H before page_limit txs" "0 < page_limit"
    "page_limit \<le> length txs \<Longrightarrow> \<exists>h \<in> set txs. the (ht_time h) < before"
  shows "page_ok H before (page_of page_limit txs)"
proof -
  define s where "s = Sorting_Algorithms.sort history_order txs"
  have l: "latest_of H before page_limit s" unfolding s_def by (rule iffD2 [OF latest_of_mset assms(1)]) simp
  have s: "Sorting_Algorithms.sorted history_order s" "set s = set txs" "length s = length txs" by (simp_all add: s_def)
  have some: "\<forall>h \<in> set s. ht_time h \<noteq> None" using l by (simp add: latest_of_def)
  show ?thesis
  proof (cases "page_limit \<le> length txs")
    case False
    have "dated_of ` set s = {e \<in> H. snd e \<le> before}"
    proof (intro equalityI subsetI)
      fix e assume "e \<in> {e \<in> H. snd e \<le> before}"
      then show "e \<in> dated_of ` set s" using l False s(3) by (auto simp: latest_of_def)
    qed (use l in \<open>auto simp: latest_of_def\<close>)
    then show ?thesis
      using l s False by (simp add: page_ok_def page_of_def Let_def s_def [symmetric] latest_of_def)
  next
    case True
    then have ne: "s \<noteq> []" using assms(2) s(3) by auto
    define t where "t = the (ht_time (last s))"
    have cursor: "cursor_from_tx (last s) = Some \<lparr>hc_time = t, hc_txid = ht_txid (last s)\<rparr>"
      using ne some by (auto simp: cursor_from_tx_def t_def)
    have least: "\<And>h. h \<in> set s \<Longrightarrow> t \<le> the (ht_time h)"
      unfolding t_def by (rule sorted_last_earliest [OF s(1) some])
    then have "t < before" using assms(3) [OF True] s(2) by force
    moreover have "(ht_txid (last s), t) \<in> dated_of ` set s" using ne by (auto simp: dated_of_def t_def)
    moreover have "{e \<in> H. t < snd e \<and> snd e \<le> before} \<subseteq> dated_of ` set s"
    proof
      fix e assume e: "e \<in> {e \<in> H. t < snd e \<and> snd e \<le> before}"
      show "e \<in> dated_of ` set s"
      proof (rule ccontr)
        assume "e \<notin> dated_of ` set s"
        then have "snd e \<le> the (ht_time (last s))" using e l ne by (auto simp: latest_of_def)
        then show False using e by (simp add: t_def)
      qed
    qed
    ultimately show ?thesis
      using l s True ne cursor by (simp add: page_ok_def page_of_def Let_def s_def [symmetric] latest_of_def)
  qed
qed

section \<open>The page found\<close>

locale history_source =
  fixes ok :: "'d \<Rightarrow> bool"
    and fetch :: "nat \<Rightarrow> nat \<Rightarrow> ('d, history_tx list) call"
    and history :: "'d \<Rightarrow> dated set"
  assumes fetch_latest: "ok d \<Longrightarrow> \<exists>txs. fetch before limit d = (Ok txs, d) \<and> latest_of (history d) before limit txs"
    and finite_history: "ok d \<Longrightarrow> finite (history d)"
begin

lemma fetched_bound:
  assumes "ok d" "latest_of (history d) before limit txs"
  shows "length txs \<le> card (history d)"
proof -
  have "length txs = card (dated_of ` set txs)"
    using assms(2) by (metis latest_of_def distinct_card length_map set_map)
  also have "\<dots> \<le> card (history d)"
    using assms by (intro card_mono finite_history) (auto simp: latest_of_def)
  finally show ?thesis .
qed

text \<open>The loop ends; \<open>t\<close> is the date of the transactions found so far, which is then the latest one.\<close>

lemma page_loop_ends:
  assumes "ok d" "0 < limit" "card (history d) + limit \<le> U64_MAX" "latest_of (history d) before page_limit txs"
    "0 < page_limit" "\<forall>e \<in> history d. snd e \<le> before \<longrightarrow> snd e \<le> t" "t \<le> before"
  shows "\<exists>page_limit' txs'. page_loop (fetch before) limit (Some (Some t)) page_limit txs d = Some (Ok (page_limit', txs'), d) \<and>
    latest_of (history d) before page_limit' txs' \<and> 0 < page_limit' \<and>
    (page_limit' \<le> length txs' \<longrightarrow> (\<exists>h \<in> set txs'. the (ht_time h) < before))"
  using assms(4,5)
proof (induction "Suc (card (history d)) - page_limit" arbitrary: page_limit txs rule: less_induct)
  case less
  show ?case
  proof (cases "page_limit \<le> length txs \<and> same_block (Some (Some t)) txs")
    case False
    have "\<exists>h \<in> set txs. the (ht_time h) < before" if "page_limit \<le> length txs"
    proof -
      have "\<not> same_block (Some (Some t)) txs" using False that by blast
      then obtain h where h: "h \<in> set txs" "ht_time h \<noteq> Some t" by (auto simp: same_block_def list_all_iff)
      with less.prems(1) have "ht_time h \<noteq> None" "dated_of h \<in> history d" "snd (dated_of h) \<le> before"
        by (auto simp: latest_of_def)
      with assms(6,7) h show ?thesis by (auto simp: dated_of_def intro!: bexI [OF _ h(1)])
    qed
    with False less.prems show ?thesis by (subst page_loop.simps) auto
  next
    case True
    have le: "page_limit \<le> card (history d)" using True fetched_bound [OF assms(1) less.prems(1)] by simp
    then have w: "wrap64 (page_limit + limit) = page_limit + limit" using assms(3) by simp
    obtain txs' where f: "fetch before (page_limit + limit) d = (Ok txs', d)"
      "latest_of (history d) before (page_limit + limit) txs'"
      using fetch_latest [OF assms(1)] by blast
    have "Suc (card (history d)) - (page_limit + limit) < Suc (card (history d)) - page_limit"
      using le assms(2) by simp
    from less.hyps [OF this f(2)] less.prems(2) show ?thesis
      by (subst page_loop.simps) (simp add: True Let_def w f(1))
  qed
qed

lemma page_found:
  assumes "ok d" "0 < limit" "card (history d) + limit \<le> U64_MAX"
  shows "\<exists>page. history_page_by (fetch before) limit d = Some (Ok page, d) \<and> page_ok (history d) before page"
proof -
  obtain txs where f: "fetch before limit d = (Ok txs, d)" "latest_of (history d) before limit txs"
    using fetch_latest [OF assms(1)] by blast
  have found: "\<exists>page_limit' txs'. page_loop (fetch before) limit (first_time txs) limit txs d = Some (Ok (page_limit', txs'), d) \<and>
    latest_of (history d) before page_limit' txs' \<and> 0 < page_limit' \<and>
    (page_limit' \<le> length txs' \<longrightarrow> (\<exists>h \<in> set txs'. the (ht_time h) < before))"
  proof (cases "limit \<le> length txs \<and> same_block (first_time txs) txs")
    case True
    then obtain h rest where txs: "txs = h # rest" using assms(2) by (cases txs) auto
    have h: "ht_time h \<noteq> None" "the (ht_time h) \<le> before" using f(2) by (auto simp: txs latest_of_def dated_of_def)
    then obtain t where t: "ht_time h = Some t" by blast
    have all: "the (ht_time h') = t" if "h' \<in> set txs" for h'
    proof -
      have "ht_time h' = ht_time h" using True that by (auto simp: txs same_block_def first_time_def list_all_iff)
      also note t
      finally have "ht_time h' = Some t" .
      then show ?thesis by simp
    qed
    have "snd e \<le> t" if "e \<in> history d" "snd e \<le> before" for e
    proof (cases "e \<in> dated_of ` set txs")
      case True
      then show ?thesis using all by (auto simp: dated_of_def)
    next
      case False
      then show ?thesis using f(2) that all [of h] by (auto simp: latest_of_def txs)
    qed
    then show ?thesis
      using page_loop_ends [OF assms f(2) assms(2), of t] h t by (simp add: txs first_time_def)
  next
    case False
    have "\<exists>h \<in> set txs. the (ht_time h) < before" if full: "limit \<le> length txs"
    proof -
      obtain h rest where txs: "txs = h # rest" using full assms(2) by (cases txs) auto
      obtain h' where h': "h' \<in> set txs" "ht_time h' \<noteq> ht_time h"
        using False full by (auto simp: txs same_block_def first_time_def list_all_iff)
      have le: "ht_time x \<noteq> None \<and> the (ht_time x) \<le> before" if "x \<in> set txs" for x
        using f(2) that by (auto simp: latest_of_def dated_of_def)
      have "the (ht_time h') \<noteq> the (ht_time h)"
        using h' le [of h] le [of h'] by (auto simp: txs)
      moreover have "the (ht_time h) \<le> before" "the (ht_time h') \<le> before" using le h'(1) by (auto simp: txs)
      ultimately have "the (ht_time h) < before \<or> the (ht_time h') < before" by linarith
      then show ?thesis using h'(1) by (auto simp: txs)
    qed
    with False f(2) assms(2) show ?thesis by (subst page_loop.simps) auto
  qed
  then show ?thesis
    using page_of_ok by (fastforce simp: history_page_by_def f(1))
qed

end

end
