(* ===== verification/Gui_History_Source.thy ===== *)
theory Gui_History_Source
  imports Gui_History_Lemmas
begin

text \<open>
  The embedded daemon is a source of confirmed transactions: over a database that satisfies its invariant the
  latest transactions of a period are found, with their amounts and labels, and nothing changes.
\<close>

section \<open>The embedded daemon\<close>

text \<open>
  A transaction is in one block, the sums of amounts fit in 64 bits, and the derivation indexes of coins
  are those of the wallet.
\<close>

definition one_block :: "('ms, 'tr) database \<Rightarrow> bool" where
  "one_block db \<longleftrightarrow> (\<forall>(t, h, d) \<in> set (tx_blocks db). \<forall>(t', h', d') \<in> set (tx_blocks db). t = t' \<longrightarrow> h = h' \<and> d = d')"

definition amounts_ok :: "('ms, 'tr) database \<Rightarrow> bool" where
  "amounts_ok db \<longleftrightarrow> sum_list (map rc_amount (coins_table db)) \<le> U64_MAX \<and>
     (\<forall>row \<in> set (transactions_table db). sum_list (map txo_value (tx_output (rt_tx row))) \<le> U64_MAX)"

definition history_ok :: "('ms, 'tr, 'cs) daemon \<Rightarrow> ('ms, 'tr) database \<Rightarrow> bool" where
  "history_ok E db \<longleftrightarrow> db_inv (dm_btc E) (dm_ops E) db \<and> one_block db \<and> amounts_ok db \<and>
     (\<forall>row \<in> set (coins_table db). is_normal (rc_derivation_index row))"

definition dated_txs :: "('ms, 'tr) database \<Rightarrow> dated set" where
  "dated_txs db = {e. event_in (coins_table db) e}"

lemma tx_blocks_dated:
  assumes "coins_inv db"
  shows "event_in (coins_table db) (t, d) \<longleftrightarrow> (\<exists>h. (t, Some h, Some d) \<in> set (tx_blocks db))"
proof -
  have "\<forall>row \<in> set (coins_table db). row_ok row" using assms by (simp add: coins_inv_def coins_ok_def)
  then show ?thesis
    by (fastforce simp: event_in_def tx_blocks_def in_map_filter row_ok_def)
qed

lemma one_blockD:
  assumes "one_block db" "(t, h, d) \<in> set (tx_blocks db)" "(t, h', d') \<in> set (tx_blocks db)"
  shows "h = h' \<and> d = d'"
  using bspec [OF bspec [OF assms(1) [unfolded one_block_def] assms(2), simplified] assms(3)] by simp

lemma distinct_singleton: "distinct xs \<Longrightarrow> set xs = {x} \<Longrightarrow> xs = [x]"
  by (cases xs; cases "tl xs") auto

lemma tx_block_filter:
  assumes "one_block db" "(t, h, d) \<in> set (tx_blocks db)"
  shows "filter (\<lambda>(t', _). t' = t) (tx_blocks db) = [(t, h, d)]"
proof (rule distinct_singleton)
  show "distinct (filter (\<lambda>(t', _). t' = t) (tx_blocks db))" by (simp add: tx_blocks_def)
  show "set (filter (\<lambda>(t', _). t' = t) (tx_blocks db)) = {(t, h, d)}"
    using assms unfolding one_block_def by auto
qed

definition info_dated :: "btc \<Rightarrow> transaction_info \<Rightarrow> dated" where
  "info_dated B = (\<lambda>(t, _, time). (compute_txid B t, the time))"

text \<open>The confirmed transactions that the database finds.\<close>

lemma confirmed_infos:
  assumes "history_ok E db"
  obtains infos where "list_confirmed_transactions 0 before limit db = Some infos"
    "distinct (map (info_dated (dm_btc E)) infos)" "\<forall>(_, _, time) \<in> set infos. time \<noteq> None"
    "info_dated (dm_btc E) ` set infos \<subseteq> {e \<in> dated_txs db. snd e \<le> before}" "length infos \<le> limit"
    "\<forall>e \<in> dated_txs db. snd e \<le> before \<longrightarrow> e \<notin> info_dated (dm_btc E) ` set infos \<longrightarrow>
       length infos = limit \<and> (\<forall>e' \<in> info_dated (dm_btc E) ` set infos. snd e \<le> snd e')"
    "set infos \<subseteq> {(t, h, d). t \<in> rt_tx ` set (transactions_table db)}"
proof -
  have inv: "coins_inv db" and txs: "txs_ok (dm_btc E) (transactions_table db)" and one: "one_block db"
    using assms by (auto simp: history_ok_def db_inv_def)
  obtain events where ev: "list_txids 0 before limit db = remdups (map fst events)" "distinct events"
    "\<forall>e \<in> set events. e \<in> dated_txs db \<and> snd e \<le> before" "length events \<le> limit"
    "\<forall>e \<in> dated_txs db. snd e \<le> before \<longrightarrow> e \<notin> set events \<longrightarrow> length events = limit \<and> (\<forall>e' \<in> set events. snd e \<le> snd e')"
    using list_txids_spec [of 0 before limit db] unfolding dated_txs_def mem_Collect_eq by (simp only: zero_le simp_thms) (elim exE conjE, blast)
  have "\<exists>hd. (t, Some (fst hd), Some (snd hd)) \<in> set (tx_blocks db)" if "t \<in> fst ` set events" for t
    using that ev(3) tx_blocks_dated [OF inv] by (fastforce simp: dated_txs_def)
  then obtain block where block: "\<And>t. t \<in> fst ` set events \<Longrightarrow> (t, Some (fst (block t)), Some (snd (block t))) \<in> set (tx_blocks db)"
    by metis
  have date: "d = snd (block t)" if "(t, d) \<in> set events" for t d
  proof -
    have "event_in (coins_table db) (t, d)" using bspec [OF ev(3) that] by (simp add: dated_txs_def)
    then obtain h where "(t, Some h, Some d) \<in> set (tx_blocks db)" unfolding tx_blocks_dated [OF inv] by blast
    moreover have "(t, Some (fst (block t)), Some (snd (block t))) \<in> set (tx_blocks db)"
      using that by (intro block) force
    ultimately show ?thesis using one_blockD [OF one] by blast
  qed
  define rows where "rows = filter (\<lambda>row. rt_txid row \<in> fst ` set events) (transactions_table db)"
  define infos where "infos = map (\<lambda>row. (rt_tx row, Some (fst (block (rt_txid row))), Some (snd (block (rt_txid row))))) rows"
  have "concat (map (\<lambda>row. map (\<lambda>(_, height, time). (rt_tx row, height, time))
      (filter (\<lambda>(txid, _). txid = rt_txid row) (tx_blocks db))) rows) = infos"
  proof -
    have "map (\<lambda>(_, height, time). (rt_tx row, height, time)) (filter (\<lambda>(txid, _). txid = rt_txid row) (tx_blocks db)) =
        [(rt_tx row, Some (fst (block (rt_txid row))), Some (snd (block (rt_txid row))))]" if "row \<in> set rows" for row
      using tx_block_filter [OF one block [of "rt_txid row"]] that by (simp add: rows_def)
    then show ?thesis unfolding infos_def by (induction rows) simp_all
  qed
  then have found: "list_confirmed_transactions 0 before limit db = Some infos"
    unfolding list_confirmed_transactions_def list_transactions_def list_wallet_transactions_def ev(1) collect_options_eq_Some
    by (simp add: rows_def [symmetric]) (auto simp: infos_def list_all2_map1 list_all2_map2 list_all2_same block_info_of_def)
  have saved: "fst ` set events \<subseteq> rt_txid ` set (transactions_table db)"
    using inv ev(3) by (fastforce simp: coins_inv_def coins_ok_def dated_txs_def event_in_def)
  have keys: "map (info_dated (dm_btc E)) infos = map (\<lambda>row. (rt_txid row, snd (block (rt_txid row)))) rows"
    using txs by (simp add: infos_def info_dated_def txs_ok_def rows_def)
  have set_keys: "info_dated (dm_btc E) ` set infos = set events"
  proof -
    have "info_dated (dm_btc E) ` set infos = set (map (info_dated (dm_btc E)) infos)" by simp
    also have "\<dots> = (\<lambda>t. (t, snd (block t))) ` rt_txid ` set rows" unfolding keys by (simp add: image_image)
    also have "rt_txid ` set rows = {t \<in> rt_txid ` set (transactions_table db). t \<in> fst ` set events}"
      unfolding rows_def by (simp only: set_filter) blast
    also have "\<dots> = fst ` set events" using saved by blast
    also have "(\<lambda>t. (t, snd (block t))) ` fst ` set events = set events" using date by (force simp: image_iff)
    finally show ?thesis .
  qed
  have "distinct (map rt_txid rows)"
    using txs unfolding rows_def txs_ok_def by (simp add: distinct_map_filter)
  then have dist: "distinct (map (info_dated (dm_btc E)) infos)"
    unfolding keys distinct_map by (auto simp: inj_on_def)
  then have "length infos = length events"
    using ev(2) set_keys by (metis distinct_card length_map set_map)
  moreover have "\<forall>(_, _, time) \<in> set infos. time \<noteq> None" "set infos \<subseteq> {(t, h, d). t \<in> rt_tx ` set (transactions_table db)}"
    by (auto simp: infos_def rows_def)
  ultimately show thesis
    using ev(3-5) set_keys by (intro that [OF found dist]) auto
qed


text \<open>The amounts of a transaction split without overflow when their sum fits.\<close>

definition own_amount :: "nat list \<Rightarrow> nat \<Rightarrow> txout list \<Rightarrow> nat" where
  "own_amount changes i outputs = sum_list (map (\<lambda>(j, output). if j \<in> set changes then txo_value output else 0) (enumerate i outputs))"

definition other_amount :: "nat list \<Rightarrow> nat \<Rightarrow> txout list \<Rightarrow> nat" where
  "other_amount changes i outputs = sum_list (map (\<lambda>(j, output). if j \<in> set changes then 0 else txo_value output) (enumerate i outputs))"

lemma own_other_amount: "own_amount changes i outputs + other_amount changes i outputs = sum_list (map txo_value outputs)"
  by (induction outputs arbitrary: i) (auto simp: own_amount_def other_amount_def)

lemma split_outputs_Some:
  "split_outputs changes i outputs (c, s) = Some (c', s') \<longleftrightarrow>
     c' = c + own_amount changes i outputs \<and> s' = s + other_amount changes i outputs \<and>
     (own_amount changes i outputs = 0 \<or> c' \<le> U64_MAX) \<and> (other_amount changes i outputs = 0 \<or> s' \<le> U64_MAX)"
  if "c \<le> U64_MAX" "s \<le> U64_MAX"
  using that
proof (induction outputs arbitrary: i c s)
  case (Cons out outs)
  show ?case
  proof (cases "i \<in> set changes")
    case True
    then have e: "own_amount changes i (out # outs) = txo_value out + own_amount changes (Suc i) outs"
      "other_amount changes i (out # outs) = other_amount changes (Suc i) outs"
      by (simp_all add: own_amount_def other_amount_def)
    show ?thesis
    proof (cases "c + txo_value out \<le> U64_MAX")
      case fits: True
      then show ?thesis using Cons.IH [of "c + txo_value out" s "Suc i"] Cons.prems True
        by (auto simp: checked_add64_def e)
    next
      case False
      then show ?thesis using True Cons.prems by (auto simp: checked_add64_def e)
    qed
  next
    case False
    then have e: "own_amount changes i (out # outs) = own_amount changes (Suc i) outs"
      "other_amount changes i (out # outs) = txo_value out + other_amount changes (Suc i) outs"
      by (simp_all add: own_amount_def other_amount_def)
    show ?thesis
    proof (cases "s + txo_value out \<le> U64_MAX")
      case fits: True
      then show ?thesis using Cons.IH [of c "s + txo_value out" "Suc i"] Cons.prems False
        by (auto simp: checked_add64_def e)
    next
      case over: False
      then show ?thesis using False Cons.prems by (auto simp: checked_add64_def e)
    qed
  qed
qed (auto simp: own_amount_def other_amount_def)

lemma add_amounts_fits: "acc + sum_list xs \<le> U64_MAX \<Longrightarrow> add_amounts xs acc = Some (acc + sum_list xs)"
  by (induction xs arbitrary: acc) (simp_all add: checked_add64_def add.assoc)

lemma history_new_Some:
  assumes "sum_list (map txo_value (tx_output t)) \<le> U64_MAX" "sum_list (map lc_amount coins) \<le> U64_MAX"
  shows "\<exists>h. history_new B t height time coins changes network = Some h \<and> ht_txid h = compute_txid B t \<and> ht_time h = time"
proof -
  have "own_amount changes 0 (tx_output t) + other_amount changes 0 (tx_output t) \<le> U64_MAX"
    using assms(1) by (simp add: own_other_amount)
  moreover from this have "split_outputs changes 0 (tx_output t) (0, 0) =
      Some (own_amount changes 0 (tx_output t), other_amount changes 0 (tx_output t))"
    by (simp add: split_outputs_Some)
  moreover have "add_amounts (map lc_amount coins) 0 = Some (sum_list (map lc_amount coins))"
    using add_amounts_fits [of 0 "map lc_amount coins"] assms(2) by simp
  ultimately show ?thesis by (simp add: history_new_def checked_add64_def add.commute)
qed

text \<open>The coins listed, whose amounts are among those of the table.\<close>

lemma list_coins_amounts:
  assumes "history_ok E db"
  obtains coins where "list_coins E statuses outpoints db = Some coins" "sum_list (map lc_amount coins) \<le> U64_MAX"
proof -
  have inv: "coins_inv db" and amounts: "sum_list (map rc_amount (coins_table db)) \<le> U64_MAX"
    and normal: "\<forall>row \<in> set (coins_table db). is_normal (rc_derivation_index row)"
    using assms by (auto simp: history_ok_def amounts_ok_def)
  define rows where "rows = filter (coins_where statuses outpoints) (coins_table db)"
  obtain cs where cs: "db_coins statuses outpoints db = Some cs" "list_all2 (\<lambda>r c. coin_of_row r = Some c) rows cs"
    using db_coins_Some [OF inv, of statuses outpoints] unfolding rows_def by blast
  have fields: "list_all2 (\<lambda>r c. rc_amount r = coin_amount c \<and> is_normal (coin_derivation_index c)) rows cs"
    by (rule list.rel_mono_strong [OF cs(2)]) (use normal in \<open>auto simp: rows_def coin_of_row_fields\<close>)
  then have cs_normal: "\<forall>c \<in> set cs. is_normal (coin_derivation_index c)"
    by (auto simp: list_all2_conv_all_nth in_set_conv_nth)
  then obtain coins where coins: "collect_options (list_coins_entry_of E) cs = Some coins"
    using collect_options_eq_None [of "list_coins_entry_of E" cs]
    by (auto simp: list_coins_entry_of_def derive_address_def derive_def)
  have "map lc_amount coins = map coin_amount cs"
    using coins unfolding collect_options_eq_Some
    by (induction rule: list_all2_induct) (auto simp: list_coins_entry_of_def)
  also have "\<dots> = map rc_amount rows"
    using fields by (induction rule: list_all2_induct) auto
  finally have "sum_list (map lc_amount coins) \<le> U64_MAX"
    using amounts le_trans [OF sum_list_filter_le_nat] unfolding rows_def by metis
  with that [of coins] cs(1) coins show thesis by (simp add: list_coins_def)
qed

lemma history_of_infos:
  assumes "\<forall>(t, _, _) \<in> set infos. sum_list (map txo_value (tx_output t)) \<le> U64_MAX"
    "sum_list (map lc_amount coins) \<le> U64_MAX"
  shows "\<exists>txs. collect_options (history_of B network coins) infos = Some txs \<and>
    map (\<lambda>h. (ht_txid h, ht_time h)) txs = map (\<lambda>(t, _, time). (compute_txid B t, time)) infos"
  using assms(1)
proof (induction infos)
  case (Cons info infos)
  obtain t height time where i: "info = (t, height, time)" by (cases info)
  have "sum_list (map lc_amount (coins_inputs txid t coins)) \<le> U64_MAX" for txid
    unfolding coins_inputs_def using assms(2) le_trans [OF sum_list_filter_le_nat] by blast
  moreover have "sum_list (map txo_value (tx_output t)) \<le> U64_MAX" using Cons.prems by (simp add: i)
  ultimately obtain h where "history_of B network coins info = Some h" "ht_txid h = compute_txid B t" "ht_time h = time"
    using history_new_Some unfolding i history_of_def Let_def prod.case by meson
  then show ?case using Cons by (auto simp: i)
qed simp


text \<open>The labels are added without touching the rest.\<close>

lemma load_history_labels_embedded:
  "\<exists>txs'. load_history_labels B (embedded_daemon V E) item_str txs (Some db) = (Ok txs', Some db) \<and>
     map (\<lambda>h. (ht_txid h, ht_time h)) txs' = map (\<lambda>h. (ht_txid h, ht_time h)) txs"
proof -
  have "collect_options (\<lambda>h. map_option (Pair h) (Some (history_labelled B h))) txs = Some (map (\<lambda>h. (h, history_labelled B h)) txs)"
    by (induction txs) auto
  then show ?thesis
    by (simp add: load_history_labels_def load_target_labels_def call_bind_def call_return_def call_expect_def
        embedded_daemon_def embedded_get_labels_def run_read_def embedded_command_def comp_def)
qed

lemma embedded_list_history:
  assumes "history_ok E db"
  shows "\<exists>txs. list_history_txs (dm_btc E) item_str (embedded_daemon V E) 0 before limit (Some db) = (Ok txs, Some db) \<and>
    latest_of (dated_txs db) before limit txs"
proof -
  obtain infos where i: "list_confirmed_transactions 0 before limit db = Some infos"
    "distinct (map (info_dated (dm_btc E)) infos)" "\<forall>(_, _, time) \<in> set infos. time \<noteq> None"
    "info_dated (dm_btc E) ` set infos \<subseteq> {e \<in> dated_txs db. snd e \<le> before}" "length infos \<le> limit"
    "\<forall>e \<in> dated_txs db. snd e \<le> before \<longrightarrow> e \<notin> info_dated (dm_btc E) ` set infos \<longrightarrow>
       length infos = limit \<and> (\<forall>e' \<in> info_dated (dm_btc E) ` set infos. snd e \<le> snd e')"
    "set infos \<subseteq> {(t, h, d). t \<in> rt_tx ` set (transactions_table db)}"
    by (rule confirmed_infos [OF assms])
  have fits: "\<forall>(t, _, _) \<in> set infos. sum_list (map txo_value (tx_output t)) \<le> U64_MAX"
    using i(7) assms by (fastforce simp: history_ok_def amounts_ok_def)
  obtain coins where c: "list_coins E [] (remdups (concat (map (\<lambda>(t, _). history_outpoints (dm_btc E) t) infos))) db = Some coins"
    "sum_list (map lc_amount coins) \<le> U64_MAX"
    by (rule list_coins_amounts [OF assms])
  obtain txs where t: "collect_options (history_of (dm_btc E) (gi_network (get_info V E db)) coins) infos = Some txs"
    "map (\<lambda>h. (ht_txid h, ht_time h)) txs = map (\<lambda>(t, _, time). (compute_txid (dm_btc E) t, time)) infos"
    using history_of_infos [OF fits c(2)] by blast
  obtain txs' where t': "load_history_labels (dm_btc E) (embedded_daemon V E) item_str txs (Some db) = (Ok txs', Some db)"
    "map (\<lambda>h. (ht_txid h, ht_time h)) txs' = map (\<lambda>h. (ht_txid h, ht_time h)) txs"
    using load_history_labels_embedded by blast
  have "list_history_txs (dm_btc E) item_str (embedded_daemon V E) 0 before limit (Some db) = (Ok txs', Some db)"
    using t' by (simp add: list_history_txs_def txs_to_historytxs_def call_bind_def call_expect_def embedded_daemon_def
        embedded_list_confirmed_txs_def embedded_get_info_def embedded_list_coins_def run_read_def embedded_command_def i(1) c(1) t(1))
  moreover have "latest_of (dated_txs db) before limit txs'"
  proof -
    have same: "map (\<lambda>h. (ht_txid h, ht_time h)) txs' = map (\<lambda>(t, _, time). (compute_txid (dm_btc E) t, time)) infos"
      using t(2) t'(2) by simp
    have keys: "map dated_of txs' = map (info_dated (dm_btc E)) infos"
      using arg_cong [OF same, of "map (\<lambda>(a, b). (a, the b))"] by (simp add: dated_of_def [abs_def] info_dated_def comp_def split_def)
    have times: "map ht_time txs' = map (snd \<circ> snd) infos"
      using arg_cong [OF same, of "map snd"] by (simp add: comp_def split_def)
    have "\<forall>h \<in> set txs'. ht_time h \<noteq> None"
    proof
      fix h assume "h \<in> set txs'"
      then have "ht_time h \<in> set (map ht_time txs')" by simp
      then obtain info where "info \<in> set infos" "ht_time h = snd (snd info)" unfolding times by auto
      then show "ht_time h \<noteq> None" using bspec [OF i(3), of info] by (simp add: split_def)
    qed
    moreover have "dated_of ` set txs' = info_dated (dm_btc E) ` set infos"
      using arg_cong [OF keys, of set] by simp
    moreover have "length txs' = length infos" using arg_cong [OF keys, of length] by simp
    moreover have "(\<forall>h \<in> set txs'. snd e \<le> the (ht_time h)) \<longleftrightarrow> (\<forall>e' \<in> dated_of ` set txs'. snd e \<le> snd e')" for e :: dated
      by (simp add: dated_of_def)
    ultimately show ?thesis using i(2,4,5,6) keys by (simp add: latest_of_def)
  qed
  ultimately show ?thesis by blast
qed

lemma finite_dated_txs: "finite (dated_txs db)"
proof -
  have "dated_txs db \<subseteq> set (List.map_filter (\<lambda>r. map_option (Pair (op_txid (rc_outpoint r))) (rc_blocktime r)) (coins_table db)) \<union>
      set (List.map_filter (\<lambda>r. Option.bind (rc_spend_txid r) (\<lambda>t. map_option (Pair t) (rc_spend_block_time r))) (coins_table db))"
    by (fastforce simp: dated_txs_def event_in_def in_map_filter)
  then show ?thesis by (rule finite_subset) simp
qed

definition running :: "('ms, 'tr, 'cs) daemon \<Rightarrow> ('ms, 'tr) embedded \<Rightarrow> bool" where
  "running E h = (case h of Some db \<Rightarrow> history_ok E db | None \<Rightarrow> False)"

interpretation embedded_history: history_source "running E"
    "\<lambda>before limit. list_history_txs (dm_btc E) item_str (embedded_daemon V E) 0 before limit" "\<lambda>h. dated_txs (the h)"
  for E :: "('ms, 'tr, 'cs) daemon" and V :: rpc_env and item_str :: "label_item \<Rightarrow> string"
  by unfold_locales
    (use embedded_list_history in \<open>fastforce simp: running_def finite_dated_txs split: option.splits\<close>)+

lemma embedded_page:
  assumes "history_ok E db" "0 < limit" "card (dated_txs db) + limit \<le> U64_MAX"
  shows "\<exists>page. list_history_page (dm_btc E) item_str (embedded_daemon V E) before limit (Some db) = Some (Ok page, Some db) \<and>
    page_ok (dated_txs db) before page"
  unfolding list_history_page_def
  using embedded_history.page_found [of E "Some db" limit item_str V before] assms by (simp add: running_def)

end
