(* ===== verification/Gui_Panels_Lemmas.thy ===== *)
theory Gui_Panels_Lemmas
  imports Gui_Home Gui_History_Source
begin

text \<open>
  What the panels show: the pages asked for one after the other reach every confirmed transaction, the
  balances are those of the coins, the payments of a transaction are its amounts, and what a failed page,
  a page that starts inside a block and a replacement do to the panels.
\<close>

section \<open>The list extended by a page\<close>

lemma extend_by_split:
  "new = [] \<Longrightarrow> extend_by f new old = old"
  "new \<noteq> [] \<Longrightarrow> f (hd new) \<notin> f ` set old \<Longrightarrow> extend_by f new old = old @ new"
  "new \<noteq> [] \<Longrightarrow> f (hd new) \<in> f ` set old \<Longrightarrow>
     extend_by f new old = old @ filter (\<lambda>x. f x \<notin> f ` set (dropWhile (\<lambda>y. f y \<noteq> f (hd new)) old)) new"
proof -
  show "new = [] \<Longrightarrow> extend_by f new old = old" by (simp add: extend_by_def)
next
  assume n: "new \<noteq> []" "f (hd new) \<notin> f ` set old"
  then have "position (\<lambda>y. f y = f (hd new)) old = None" by (auto simp: position_None image_iff)
  then show "extend_by f new old = old @ new" using n by (cases new) (simp_all add: extend_by_def)
next
  assume n: "new \<noteq> []" "f (hd new) \<in> f ` set old"
  then have "position (\<lambda>y. f y = f (hd new)) old \<noteq> None" by (auto simp: position_None image_iff)
  then obtain pos where pos: "position (\<lambda>y. f y = f (hd new)) old = Some pos" by blast
  then have "drop pos old = dropWhile (\<lambda>y. f y \<noteq> f (hd new)) old" using position_Some by metis
  then show "extend_by f new old = old @ filter (\<lambda>x. f x \<notin> f ` set (dropWhile (\<lambda>y. f y \<noteq> f (hd new)) old)) new"
    using n(1) pos by (cases new) (simp_all add: extend_by_def)
qed

lemma extend_by_keys: "f ` set (extend_by f new old) = f ` set old \<union> f ` set new"
proof -
  consider "new = []" | "new \<noteq> []" "f (hd new) \<notin> f ` set old" | "new \<noteq> []" "f (hd new) \<in> f ` set old" by blast
  then show ?thesis
  proof cases
    case 3
    have "set (dropWhile (\<lambda>y. f y \<noteq> f (hd new)) old) \<subseteq> set old" using set_dropWhileD by fast
    then show ?thesis unfolding extend_by_split(3) [OF 3] set_append set_filter by blast
  qed (simp_all add: extend_by_split image_Un)
qed

text \<open>When the page starts with something shown, nothing new is shown before that, and nothing is shown twice.\<close>

lemma extend_by_distinct:
  assumes "distinct (map f old)" "distinct (map f new)" "new \<noteq> []" "f (hd new) \<in> f ` set old"
    "f ` set new \<inter> f ` set (takeWhile (\<lambda>x. f x \<noteq> f (hd new)) old) = {}"
  shows "distinct (map f (extend_by f new old))"
proof -
  let ?d = "dropWhile (\<lambda>y. f y \<noteq> f (hd new)) old"
  have "f ` set old = f ` set (takeWhile (\<lambda>x. f x \<noteq> f (hd new)) old) \<union> f ` set ?d"
    using set_append [of "takeWhile (\<lambda>x. f x \<noteq> f (hd new)) old" ?d] by (simp add: image_Un)
  then have "f ` set (filter (\<lambda>x. f x \<notin> f ` set ?d) new) \<inter> f ` set old = {}"
    using assms(5) unfolding set_filter by blast
  moreover have "distinct (map f (filter (\<lambda>x. f x \<notin> f ` set ?d) new))" using assms(2) by (simp add: distinct_map_filter)
  ultimately show ?thesis using assms(1) unfolding extend_by_split(3) [OF assms(3,4)] map_append distinct_append set_map by blast
qed

text \<open>A page whose first element is not shown is appended with what is already shown.\<close>

lemma extend_by_repeats:
  assumes "new \<noteq> []" "f (hd new) \<notin> f ` set old" "f x \<in> f ` set old" "x \<in> set new"
  shows "\<not> distinct (map f (extend_by f new old))"
  using assms(3,4) unfolding extend_by_split(2) [OF assms(1,2)] by auto

section \<open>Pages one after the other\<close>

text \<open>One press of the button: the task it starts runs and its message is handled.\<close>

definition see_more ::
  "btc \<Rightarrow> parsers \<Rightarrow> (string \<Rightarrow> string list) \<Rightarrow> ('ms, 'tr, 'd) daemon_trait \<Rightarrow> transactions_panel \<times> 'd \<Rightarrow> (transactions_panel \<times> 'd) option" where
  "see_more B P graphemes T = (\<lambda>(p, d).
     Option.bind (Option.bind (transactions_see_more p) id) (\<lambda>m.
     Option.bind (transactions_update B P graphemes 0 m p) (\<lambda>(p, task).
     Option.bind (transactions_run B (item_text P) T task d) (\<lambda>(m, d).
     map_option (\<lambda>(p, _). (p, d)) (transactions_update B P graphemes 0 m p)))))"

fun see_more_times where
  "see_more_times B P graphemes T 0 s = Some s"
| "see_more_times B P graphemes T (Suc n) s =
     Option.bind (see_more B P graphemes T s) (see_more_times B P graphemes T n)"

definition open_transactions ::
  "btc \<Rightarrow> parsers \<Rightarrow> (string \<Rightarrow> string list) \<Rightarrow> ('ms, 'tr, 'd) daemon_trait \<Rightarrow> nat \<Rightarrow> transactions_panel \<times> 'd \<Rightarrow> (transactions_panel \<times> 'd) option" where
  "open_transactions B P graphemes T now = (\<lambda>(p, d).
     Option.bind (transactions_update B P graphemes now Tx_Reload p) (\<lambda>(p, task).
     Option.bind (transactions_run B (item_text P) T task d) (\<lambda>(m, d).
     map_option (\<lambda>(p, _). (p, d)) (transactions_update B P graphemes now m p))))"

text \<open>Everything up to \<open>now\<close> that is later than the cursor is shown, and the button can be pressed.\<close>

definition shown_down_to :: "dated set \<Rightarrow> nat \<Rightarrow> transactions_panel \<Rightarrow> bool" where
  "shown_down_to H now p \<longleftrightarrow> tp_is_last_page p = (tp_next_cursor p = None) \<and> \<not> tp_processing p \<and>
     (tp_next_cursor p \<noteq> None \<longrightarrow> tp_txs p \<noteq> []) \<and>
     (case tp_next_cursor p of
        None \<Rightarrow> {e \<in> H. snd e \<le> now}
      | Some c \<Rightarrow> {e \<in> H. hc_time c < snd e \<and> snd e \<le> now}) \<subseteq> {e. fst e \<in> ht_txid ` set (tp_txs p)}"

lemma page_txids:
  assumes "page_ok H before page"
  shows "(case hp_next_cursor page of None \<Rightarrow> {e \<in> H. snd e \<le> before}
      | Some c \<Rightarrow> {e \<in> H. hc_time c < snd e \<and> snd e \<le> before}) \<subseteq> {e. fst e \<in> ht_txid ` set (hp_txs page)}"
proof -
  have "dated_of ` set (hp_txs page) \<subseteq> {e. fst e \<in> ht_txid ` set (hp_txs page)}"
    by (auto simp: dated_of_def)
  moreover have "(case hp_next_cursor page of None \<Rightarrow> {e \<in> H. snd e \<le> before}
      | Some c \<Rightarrow> {e \<in> H. hc_time c < snd e \<and> snd e \<le> before}) \<subseteq> dated_of ` set (hp_txs page)"
    using assms unfolding page_ok_def by (cases "hp_next_cursor page") simp_all
  ultimately show ?thesis by (rule subset_trans [rotated])
qed

lemma shown_down_to_extended:
  assumes "shown_down_to H now p" "tp_next_cursor p = Some c" "hc_time c \<le> now" "page_ok H (hc_time c) page"
    "tp_is_last_page q = (hp_next_cursor page = None)" "tp_next_cursor q = hp_next_cursor page" "\<not> tp_processing q"
    "ht_txid ` set (tp_txs q) = ht_txid ` set (tp_txs p) \<union> ht_txid ` set (hp_txs page)"
  shows "shown_down_to H now q"
proof (cases "hp_next_cursor page")
  case None
  have "{e \<in> H. snd e \<le> hc_time c} \<subseteq> {e. fst e \<in> ht_txid ` set (hp_txs page)}"
    using page_txids [OF assms(4)] None by simp
  moreover have "{e \<in> H. hc_time c < snd e \<and> snd e \<le> now} \<subseteq> {e. fst e \<in> ht_txid ` set (tp_txs p)}"
    using assms(1,2) by (simp add: shown_down_to_def)
  ultimately have "{e \<in> H. snd e \<le> now} \<subseteq> {e. fst e \<in> ht_txid ` set (tp_txs q)}"
    unfolding assms(8) using not_le by blast
  then show ?thesis using assms(5-7) None by (simp add: shown_down_to_def)
next
  case (Some c')
  have "{e \<in> H. hc_time c' < snd e \<and> snd e \<le> hc_time c} \<subseteq> {e. fst e \<in> ht_txid ` set (hp_txs page)}"
    using page_txids [OF assms(4)] Some by simp
  moreover have "{e \<in> H. hc_time c < snd e \<and> snd e \<le> now} \<subseteq> {e. fst e \<in> ht_txid ` set (tp_txs p)}"
    using assms(1,2) by (simp add: shown_down_to_def)
  ultimately have "{e \<in> H. hc_time c' < snd e \<and> snd e \<le> now} \<subseteq> {e. fst e \<in> ht_txid ` set (tp_txs q)}"
    unfolding assms(8) using not_le by blast
  moreover have "tp_txs q \<noteq> []" using assms(1,2,8) by (auto simp: shown_down_to_def)
  ultimately show ?thesis using assms(5-7) Some by (simp add: shown_down_to_def)
qed

text \<open>The transactions that a cursor leaves, its own included.\<close>

definition left_from :: "dated set \<Rightarrow> history_cursor \<Rightarrow> dated set" where
  "left_from H c = {e \<in> H. snd e \<le> hc_time c}"

lemma page_cursor:
  assumes "page_ok H before page" "hp_next_cursor page = Some c"
  shows "hc_time c < before" "(hc_txid c, hc_time c) \<in> H"
  using assms by (auto simp: page_ok_def)

lemma see_more_page:
  assumes "history_ok E db" "card (dated_txs db) + HISTORY_EVENT_PAGE_SIZE \<le> U64_MAX"
    "shown_down_to (dated_txs db) now p" "tp_next_cursor p = Some c" "hc_time c \<le> now"
  shows "\<exists>p'. see_more (dm_btc E) P graphemes (embedded_daemon V E) (p, Some db) = Some (p', Some db) \<and>
    shown_down_to (dated_txs db) now p' \<and>
    (\<forall>c'. tp_next_cursor p' = Some c' \<longrightarrow> hc_time c' < hc_time c \<and> (hc_txid c', hc_time c') \<in> dated_txs db)"
proof -
  obtain page where page: "list_history_page (dm_btc E) (item_text P) (embedded_daemon V E) (hc_time c) HISTORY_EVENT_PAGE_SIZE (Some db) =
      Some (Ok page, Some db)" "page_ok (dated_txs db) (hc_time c) page"
    using embedded_page [OF assms(1) _ assms(2), of "item_text P" V "hc_time c"] by (fastforce simp: HISTORY_EVENT_PAGE_SIZE_def)
  let ?p' = "p\<lparr>tp_processing := False, tp_warning := None, tp_next_cursor := hp_next_cursor page,
    tp_is_last_page := (hp_next_cursor page = None), tp_txs := extend_by ht_txid (hp_txs page) (tp_txs p)\<rparr>"
  have "see_more (dm_btc E) P graphemes (embedded_daemon V E) (p, Some db) = Some (?p', Some db)"
    using assms(3,4) by (simp add: see_more_def transactions_see_more_def shown_down_to_def transactions_update_def
        transactions_run_def page(1))
  moreover have "shown_down_to (dated_txs db) now ?p'"
    by (rule shown_down_to_extended [OF assms(3-5) page(2)]) (simp_all add: extend_by_keys)
  ultimately show ?thesis using page_cursor [OF page(2)] by auto
qed

text \<open>Each page leaves fewer transactions, so that there are no more pages than transactions.\<close>

lemma see_more_reaches_end:
  assumes "history_ok E db" "card (dated_txs db) + HISTORY_EVENT_PAGE_SIZE \<le> U64_MAX"
    "shown_down_to (dated_txs db) now p"
    "\<forall>c. tp_next_cursor p = Some c \<longrightarrow> hc_time c \<le> now \<and> (hc_txid c, hc_time c) \<in> dated_txs db \<and> card (left_from (dated_txs db) c) \<le> n"
  shows "\<exists>k \<le> n. \<exists>p'. see_more_times (dm_btc E) P graphemes (embedded_daemon V E) k (p, Some db) = Some (p', Some db) \<and>
    tp_is_last_page p' \<and> shown_down_to (dated_txs db) now p'"
  using assms(3,4)
proof (induction n arbitrary: p)
  case 0
  have "tp_next_cursor p = None"
  proof (cases "tp_next_cursor p")
    case (Some c)
    then have "(hc_txid c, hc_time c) \<in> left_from (dated_txs db) c" "card (left_from (dated_txs db) c) = 0"
      using 0(2) by (auto simp: left_from_def)
    moreover have "finite (left_from (dated_txs db) c)" by (simp add: left_from_def finite_dated_txs)
    ultimately show ?thesis by auto
  qed
  then show ?case using 0(1) by (auto simp: shown_down_to_def intro!: exI [of _ 0])
next
  case (Suc n)
  show ?case
  proof (cases "tp_next_cursor p")
    case None
    then show ?thesis using Suc.prems(1) by (auto simp: shown_down_to_def intro!: exI [of _ 0])
  next
    case (Some c)
    obtain p' where p': "see_more (dm_btc E) P graphemes (embedded_daemon V E) (p, Some db) = Some (p', Some db)"
      "shown_down_to (dated_txs db) now p'"
      "\<forall>c'. tp_next_cursor p' = Some c' \<longrightarrow> hc_time c' < hc_time c \<and> (hc_txid c', hc_time c') \<in> dated_txs db"
      using see_more_page [OF assms(1,2) Suc.prems(1) Some] Suc.prems(2) Some by blast
    have "card (left_from (dated_txs db) c') \<le> n" if "hc_time c' < hc_time c" for c'
    proof -
      have "(hc_txid c, hc_time c) \<in> left_from (dated_txs db) c - left_from (dated_txs db) c'"
        "left_from (dated_txs db) c' \<subseteq> left_from (dated_txs db) c"
        using that Suc.prems(2) Some by (auto simp: left_from_def)
      then have "left_from (dated_txs db) c' \<subset> left_from (dated_txs db) c" by blast
      then have "card (left_from (dated_txs db) c') < card (left_from (dated_txs db) c)"
        by (rule psubset_card_mono [rotated]) (simp add: left_from_def finite_dated_txs)
      then show ?thesis using Suc.prems(2) Some by fastforce
    qed
    then have "\<forall>c'. tp_next_cursor p' = Some c' \<longrightarrow> hc_time c' \<le> now \<and> (hc_txid c', hc_time c') \<in> dated_txs db \<and> card (left_from (dated_txs db) c') \<le> n"
      using p'(3) Suc.prems(2) Some by fastforce
    from Suc.IH [OF p'(2) this] obtain k p'' where "k \<le> n"
      "see_more_times (dm_btc E) P graphemes (embedded_daemon V E) k (p', Some db) = Some (p'', Some db)"
      "tp_is_last_page p''" "shown_down_to (dated_txs db) now p''"
      by blast
    then show ?thesis by (intro exI [of _ "Suc k"]) (auto simp: p'(1))
  qed
qed

section \<open>The panel opened\<close>

lemma list_transactions_found:
  assumes "coins_inv db"
  obtains infos where "list_transactions txids db = Some infos"
    "\<forall>(t, _, _) \<in> set infos. t \<in> rt_tx ` set (transactions_table db)"
proof -
  let ?rows = "concat (map (\<lambda>row. map (\<lambda>(_, height, time). (rt_tx row, height, time))
      (filter (\<lambda>(txid, _). txid = rt_txid row) (tx_blocks db))) (filter (\<lambda>row. rt_txid row \<in> set txids) (transactions_table db)))"
  have "\<forall>row \<in> set (coins_table db). row_ok row" using assms by (simp add: coins_inv_def coins_ok_def)
  then have blocks: "\<forall>(_, h, d) \<in> set (tx_blocks db). block_info_of h d \<noteq> None"
    by (fastforce simp: tx_blocks_def in_map_filter row_ok_def block_info_of_def split: option.splits)
  then have "\<forall>(_, h, d) \<in> set ?rows. block_info_of h d \<noteq> None" by fastforce
  then obtain infos where infos: "list_transactions txids db = Some infos"
    using collect_options_eq_None [of "\<lambda>(t, height, time).
         map_option (\<lambda>b. (t, map_option bi_height b, map_option bi_time b)) (block_info_of height time)" ?rows]
    by (fastforce simp: list_transactions_def list_wallet_transactions_def)
  moreover have "\<forall>(t, _, _) \<in> set infos. t \<in> rt_tx ` set (transactions_table db)"
  proof -
    have "set infos \<subseteq> {(t, h, d). t \<in> fst ` set ?rows}"
      using infos unfolding list_transactions_def list_wallet_transactions_def collect_options_eq_Some
      by (induction rule: list_all2_induct) (auto simp: rev_image_eqI)
    then show ?thesis by fastforce
  qed
  ultimately show thesis by (rule that)
qed

lemma pending_found:
  assumes "history_ok E db"
  shows "\<exists>txs. list_pending_txs (dm_btc E) item_str (embedded_daemon V E) (Some db) = (Ok txs, Some db)"
proof -
  obtain coins where c: "list_coins E [St_Unconfirmed, St_Spending] [] db = Some coins" "sum_list (map lc_amount coins) \<le> U64_MAX"
    by (rule list_coins_amounts [OF assms])
  obtain infos where i: "list_transactions (pending_txids coins) db = Some infos"
    "\<forall>(t, _, _) \<in> set infos. t \<in> rt_tx ` set (transactions_table db)"
    using list_transactions_found assms by (metis db_inv_coins history_ok_def)
  have "\<forall>(t, _, _) \<in> set infos. sum_list (map txo_value (tx_output t)) \<le> U64_MAX"
    using i(2) assms by (fastforce simp: history_ok_def amounts_ok_def)
  from history_of_infos [OF this c(2)] obtain txs where
    t: "collect_options (history_of (dm_btc E) (gi_network (get_info V E db)) coins) infos = Some txs" by blast
  obtain txs' where "load_history_labels (dm_btc E) (embedded_daemon V E) item_str txs (Some db) = (Ok txs', Some db)"
    using load_history_labels_embedded by blast
  then show ?thesis
    by (simp add: list_pending_txs_def call_bind_def call_expect_def call_return_def embedded_daemon_def
        embedded_list_txs_def embedded_get_info_def embedded_list_coins_def run_read_def embedded_command_def c(1) i(1) t)
qed

lemma open_transactions_shows:
  assumes "history_ok E db" "card (dated_txs db) + HISTORY_EVENT_PAGE_SIZE \<le> U64_MAX" "\<not> tp_processing p" "now \<le> U32_MAX"
  shows "\<exists>p'. open_transactions (dm_btc E) P graphemes (embedded_daemon V E) now (p, Some db) = Some (p', Some db) \<and>
    shown_down_to (dated_txs db) now p' \<and> (\<forall>c. tp_next_cursor p' = Some c \<longrightarrow> hc_time c < now \<and> (hc_txid c, hc_time c) \<in> dated_txs db)"
proof -
  obtain page where page: "list_history_page (dm_btc E) (item_text P) (embedded_daemon V E) now HISTORY_EVENT_PAGE_SIZE (Some db) =
      Some (Ok page, Some db)" "page_ok (dated_txs db) now page"
    using embedded_page [OF assms(1) _ assms(2), of "item_text P" V now] by (fastforce simp: HISTORY_EVENT_PAGE_SIZE_def)
  obtain txs where txs: "list_pending_txs (dm_btc E) (item_text P) (embedded_daemon V E) (Some db) = (Ok txs, Some db)"
    using pending_found [OF assms(1)] by blast
  let ?p' = "p\<lparr>tp_selected_tx := None, tp_warning := None, tp_txs := txs @ hp_txs page, tp_next_cursor := hp_next_cursor page,
    tp_is_last_page := (hp_next_cursor page = None)\<rparr>"
  have "open_transactions (dm_btc E) P graphemes (embedded_daemon V E) now (p, Some db) = Some (?p', Some db)"
    using assms(4) by (simp add: open_transactions_def transactions_update_def transactions_reload_def transactions_run_def reload_history_def page(1)
        gui_call_def call_bind_def call_return_def txs)
  moreover have "shown_down_to (dated_txs db) now ?p'"
    using page_txids [OF page(2)] assms(3) page(2) by (cases "hp_next_cursor page") (auto simp: shown_down_to_def page_ok_def)
  ultimately show ?thesis using page_cursor [OF page(2)] by (intro exI [of _ ?p']) simp
qed

text \<open>Opened, and then extended until the last page: no more pages are asked for than there are transactions.\<close>

lemma all_history_shown:
  assumes "history_ok E db" "card (dated_txs db) + HISTORY_EVENT_PAGE_SIZE \<le> U64_MAX" "\<not> tp_processing p" "now \<le> U32_MAX"
  shows "\<exists>p1 p' k. open_transactions (dm_btc E) P graphemes (embedded_daemon V E) now (p, Some db) = Some (p1, Some db) \<and>
    see_more_times (dm_btc E) P graphemes (embedded_daemon V E) k (p1, Some db) = Some (p', Some db) \<and>
    k \<le> card (dated_txs db) \<and> tp_is_last_page p' \<and>
    {t. \<exists>d \<le> now. (t, d) \<in> dated_txs db} \<subseteq> ht_txid ` set (tp_txs p')"
proof -
  obtain p1 where p1: "open_transactions (dm_btc E) P graphemes (embedded_daemon V E) now (p, Some db) = Some (p1, Some db)"
    "shown_down_to (dated_txs db) now p1" "\<forall>c. tp_next_cursor p1 = Some c \<longrightarrow> hc_time c < now \<and> (hc_txid c, hc_time c) \<in> dated_txs db"
    using open_transactions_shows [OF assms] by blast
  have "card (left_from (dated_txs db) c) \<le> card (dated_txs db)" for c
    by (rule card_mono) (auto simp: finite_dated_txs left_from_def)
  then have "\<forall>c. tp_next_cursor p1 = Some c \<longrightarrow>
      hc_time c \<le> now \<and> (hc_txid c, hc_time c) \<in> dated_txs db \<and> card (left_from (dated_txs db) c) \<le> card (dated_txs db)"
    using p1(3) less_imp_le by blast
  from see_more_reaches_end [OF assms(1,2) p1(2) this] obtain k p' where k: "k \<le> card (dated_txs db)"
    "see_more_times (dm_btc E) P graphemes (embedded_daemon V E) k (p1, Some db) = Some (p', Some db)"
    "tp_is_last_page p'" "shown_down_to (dated_txs db) now p'"
    by blast
  have "{e \<in> dated_txs db. snd e \<le> now} \<subseteq> {e. fst e \<in> ht_txid ` set (tp_txs p')}"
    using k(3,4) by (cases "tp_next_cursor p'") (simp_all add: shown_down_to_def)
  then have "{t. \<exists>d \<le> now. (t, d) \<in> dated_txs db} \<subseteq> ht_txid ` set (tp_txs p')" by fastforce
  with p1(1) k(1-3) show ?thesis by blast
qed

section \<open>Amounts\<close>

text \<open>What a transaction of the history brings and takes is what it pays, and its fee is what its inputs leave.\<close>

lemma history_new_amounts:
  assumes "history_new B t height time coins changes network = Some h"
  shows "ht_incoming_amount h = own_amount changes 0 (tx_output t)" "ht_outgoing_amount h = other_amount changes 0 (tx_output t)"
    "ht_tx h = t" "ht_change_indexes h = changes" "ht_kind h = history_kind (compute_txid B t) coins changes (ht_outgoing_amount h) (tx_output t)"
proof -
  obtain c s where cs: "split_outputs changes 0 (tx_output t) (0, 0) = Some (c, s)"
    "ht_incoming_amount h = c" "ht_outgoing_amount h = s" "ht_tx h = t" "ht_change_indexes h = changes"
    "ht_kind h = history_kind (compute_txid B t) coins changes s (tx_output t)"
    using assms by (auto simp: history_new_def bind_eq_Some_conv)
  have "c = own_amount changes 0 (tx_output t) \<and> s = other_amount changes 0 (tx_output t)"
    using cs(1) by (subst (asm) split_outputs_Some) simp_all
  then show "ht_incoming_amount h = own_amount changes 0 (tx_output t)" "ht_outgoing_amount h = other_amount changes 0 (tx_output t)"
    "ht_tx h = t" "ht_change_indexes h = changes" "ht_kind h = history_kind (compute_txid B t) coins changes (ht_outgoing_amount h) (tx_output t)"
    using cs by simp_all
qed

lemma outgoing_kind_kinds [simp]:
  "\<not> kind_is_self (outgoing_kind ops)" "kind_is_outgoing (outgoing_kind ops)" "\<not> kind_is_external (outgoing_kind ops)"
  by (simp_all add: outgoing_kind_def kind_is_self_def kind_is_outgoing_def kind_is_external_def split: list.split)

lemma history_kind_cases:
  "coins = [] \<Longrightarrow> \<not> kind_is_self (history_kind t coins changes amount outs) \<and> \<not> kind_is_outgoing (history_kind t coins changes amount outs) \<and>
     kind_is_external (history_kind t coins changes amount outs)"
  "coins \<noteq> [] \<Longrightarrow> amount = 0 \<Longrightarrow> history_kind t coins changes amount outs = Send_To_Self"
  "coins \<noteq> [] \<Longrightarrow> amount \<noteq> 0 \<Longrightarrow> history_kind t coins changes amount outs = outgoing_kind (external_outpoints t changes outs)"
  by (simp_all add: history_kind_def kind_is_self_def kind_is_outgoing_def kind_is_external_def split: list.split)

text \<open>The sum of the payments of a kind, over the outputs from the index \<open>i\<close> on.\<close>

definition paid :: "payment_kind set \<Rightarrow> payment list \<Rightarrow> nat" where
  "paid kinds payments = sum_list (map pm_amount (filter (\<lambda>p. pm_kind p \<in> kinds) payments))"

lemma pm_of_output [simp]:
  "pm_amount (payment_of_output B item_str h i output) = txo_value output"
  "pm_kind (payment_of_output B item_str h i output) =
     (if kind_is_self (ht_kind h) \<or> (kind_is_outgoing (ht_kind h) \<and> i \<in> set (ht_change_indexes h)) then Pay_Send_To_Self
      else if kind_is_external (ht_kind h) then Pay_Incoming else Pay_Outgoing)"
  by (simp_all add: payment_of_output_def Let_def)

lemma paid_received:
  assumes "kind_is_external (ht_kind h)" "\<not> kind_is_self (ht_kind h)" "\<not> kind_is_outgoing (ht_kind h)"
  shows "paid {Pay_Incoming} (map (\<lambda>(i, output). payment_of_output B item_str h i output)
      (filter (\<lambda>(i, _). \<not> (kind_is_external (ht_kind h) \<and> i \<notin> set (ht_change_indexes h))) (enumerate n outs))) =
    own_amount (ht_change_indexes h) n outs"
  using assms by (induction outs arbitrary: n) (simp_all add: paid_def own_amount_def)

lemma paid_sent:
  assumes "kind_is_outgoing (ht_kind h)" "\<not> kind_is_self (ht_kind h)" "\<not> kind_is_external (ht_kind h)"
  shows "paid {Pay_Send_To_Self} (map (\<lambda>(i, output). payment_of_output B item_str h i output)
      (filter (\<lambda>(i, _). \<not> (kind_is_external (ht_kind h) \<and> i \<notin> set (ht_change_indexes h))) (enumerate n outs))) =
      own_amount (ht_change_indexes h) n outs"
    "paid {Pay_Outgoing} (map (\<lambda>(i, output). payment_of_output B item_str h i output)
      (filter (\<lambda>(i, _). \<not> (kind_is_external (ht_kind h) \<and> i \<notin> set (ht_change_indexes h))) (enumerate n outs))) =
      other_amount (ht_change_indexes h) n outs"
  using assms by (induction outs arbitrary: n) (simp_all add: paid_def own_amount_def other_amount_def)

lemma paid_self:
  assumes "kind_is_self (ht_kind h)" "\<not> kind_is_external (ht_kind h)"
  shows "paid {Pay_Send_To_Self} (map (\<lambda>(i, output). payment_of_output B item_str h i output)
      (filter (\<lambda>(i, _). \<not> (kind_is_external (ht_kind h) \<and> i \<notin> set (ht_change_indexes h))) (enumerate n outs))) =
      sum_list (map txo_value outs)"
  using assms by (induction outs arbitrary: n) (simp_all add: paid_def)

lemma paid_add:
  "paid {Pay_Incoming, Pay_Send_To_Self} ps = paid {Pay_Incoming} ps + paid {Pay_Send_To_Self} ps"
  by (induction ps) (auto simp: paid_def)

lemma paid_none: "\<forall>p \<in> set ps. pm_kind p \<notin> kinds \<Longrightarrow> paid kinds ps = 0"
  by (induction ps) (auto simp: paid_def)

lemma paid_none_of_tx:
  assumes "\<And>i txo. kind_is_external (ht_kind h) \<longrightarrow> i \<in> set (ht_change_indexes h) \<Longrightarrow>
    pm_kind (payment_of_output B item_str h i txo) \<notin> kinds"
  shows "paid kinds (payments_from_tx B item_str h) = 0"
proof (rule paid_none, rule ballI)
  fix p assume "p \<in> set (payments_from_tx B item_str h)"
  then obtain i txo where "p = payment_of_output B item_str h i txo"
    "kind_is_external (ht_kind h) \<longrightarrow> i \<in> set (ht_change_indexes h)"
    by (auto simp: payments_from_tx_def)
  then show "pm_kind p \<notin> kinds" using assms by simp
qed

lemma payments_amounts_of_tx:
  assumes "history_new B t height time coins changes network = Some h"
  shows "paid {Pay_Incoming, Pay_Send_To_Self} (payments_from_tx B item_str h) = ht_incoming_amount h"
    "paid {Pay_Outgoing} (payments_from_tx B item_str h) = (if coins = [] then 0 else ht_outgoing_amount h)"
proof -
  note a = history_new_amounts [OF assms]
  consider "coins = []" | "coins \<noteq> []" "ht_outgoing_amount h = 0" | "coins \<noteq> []" "ht_outgoing_amount h \<noteq> 0" by blast
  then have "paid {Pay_Incoming, Pay_Send_To_Self} (payments_from_tx B item_str h) = ht_incoming_amount h \<and>
    paid {Pay_Outgoing} (payments_from_tx B item_str h) = (if coins = [] then 0 else ht_outgoing_amount h)"
  proof cases
    case 1
    then have k: "kind_is_external (ht_kind h)" "\<not> kind_is_self (ht_kind h)" "\<not> kind_is_outgoing (ht_kind h)"
      unfolding a(5) by (simp_all add: history_kind_cases)
    have "paid {Pay_Send_To_Self} (payments_from_tx B item_str h) = 0" "paid {Pay_Outgoing} (payments_from_tx B item_str h) = 0"
      by (rule paid_none_of_tx; simp add: k)+
    moreover have "paid {Pay_Incoming} (payments_from_tx B item_str h) = ht_incoming_amount h"
      using paid_received [OF k, of B item_str 0 "tx_output t"] unfolding payments_from_tx_def a(1,3,4) .
    ultimately show ?thesis using 1 by (simp add: paid_add)
  next
    case 2
    then have "ht_kind h = Send_To_Self" using a(5) by (simp add: history_kind_cases)
    then have k: "kind_is_self (ht_kind h)" "\<not> kind_is_external (ht_kind h)" by (simp_all add: kind_is_self_def kind_is_external_def)
    have "paid {Pay_Incoming} (payments_from_tx B item_str h) = 0" "paid {Pay_Outgoing} (payments_from_tx B item_str h) = 0"
      by (rule paid_none_of_tx; simp add: k)+
    moreover have "sum_list (map txo_value (tx_output t)) = ht_incoming_amount h"
      using own_other_amount [of changes 0 "tx_output t"] 2(2) a(1,2) by simp
    moreover have "paid {Pay_Send_To_Self} (payments_from_tx B item_str h) = sum_list (map txo_value (tx_output t))"
      using paid_self [OF k, of B item_str 0 "tx_output t"] unfolding payments_from_tx_def a(3,4) .
    ultimately show ?thesis using 2 by (simp add: paid_add)
  next
    case 3
    then have k: "kind_is_outgoing (ht_kind h)" "\<not> kind_is_self (ht_kind h)" "\<not> kind_is_external (ht_kind h)"
      using a(5) by (simp_all add: history_kind_cases)
    have "paid {Pay_Incoming} (payments_from_tx B item_str h) = 0"
      by (rule paid_none_of_tx; simp add: k)
    moreover have "paid {Pay_Send_To_Self} (payments_from_tx B item_str h) = ht_incoming_amount h"
      "paid {Pay_Outgoing} (payments_from_tx B item_str h) = ht_outgoing_amount h"
      using paid_sent [OF k, of B item_str 0 "tx_output t"] unfolding payments_from_tx_def a(1-4) .
    ultimately show ?thesis using 3 by (simp add: paid_add)
  qed
  then show "paid {Pay_Incoming, Pay_Send_To_Self} (payments_from_tx B item_str h) = ht_incoming_amount h"
    "paid {Pay_Outgoing} (payments_from_tx B item_str h) = (if coins = [] then 0 else ht_outgoing_amount h)" by simp_all
qed

section \<open>Balances\<close>

definition unspent :: "list_coins_entry list \<Rightarrow> list_coins_entry list" where
  "unspent = filter (\<lambda>coin. lc_spend_info coin = None)"

definition confirmed_unspent :: "list_coins_entry list \<Rightarrow> list_coins_entry list" where
  "confirmed_unspent coins = filter (\<lambda>coin. lc_block_height coin \<noteq> None) (unspent coins)"

definition least_of :: "nat list \<Rightarrow> nat option" where
  "least_of xs = (if xs = [] then None else Some (Min (set xs)))"

lemma least_of_snoc: "least_of (xs @ [x]) = Some (case least_of xs of None \<Rightarrow> x | Some l \<Rightarrow> if x < l then x else l)"
proof (cases "xs = []")
  case False
  then have m: "Min (set (xs @ [x])) = min x (Min (set xs))" by simp
  show ?thesis unfolding least_of_def m using False by (simp add: min_def del: Min_gr_iff Min_ge_iff)
qed (simp add: least_of_def)

definition summary_of :: "nat \<Rightarrow> nat \<Rightarrow> list_coins_entry list \<Rightarrow> coins_totals" where
  "summary_of tip_height timelock coins =
     \<lparr>ct_balance = sum_list (map lc_amount (filter coin_is_owned (unspent coins))),
      ct_unconfirmed_balance = sum_list (map lc_amount (filter (\<lambda>coin. \<not> coin_is_owned coin) (unspent coins))),
      ct_expiring_coins = map lc_outpoint (filter (\<lambda>coin. remaining_sequence coin tip_height timelock \<le> timelock * 10 div 100)
        (confirmed_unspent coins)),
      ct_remaining_seq = least_of (map (\<lambda>coin. remaining_sequence coin tip_height timelock) (confirmed_unspent coins))\<rparr>"

lemma unspent_snoc: "unspent (xs @ [coin]) = (if lc_spend_info coin = None then unspent xs @ [coin] else unspent xs)"
  by (simp add: unspent_def)

lemma summarise_coin_step:
  assumes "sum_list (map lc_amount (unspent (done_coins @ [coin]))) \<le> U64_MAX"
  shows "summarise_coin tip_height timelock coin (summary_of tip_height timelock done_coins) =
    Some (summary_of tip_height timelock (done_coins @ [coin]))"
proof (cases "lc_spend_info coin = None")
  case False
  then show ?thesis by (simp add: summarise_coin_def summary_of_def unspent_snoc confirmed_unspent_def del: not_None_eq)
next
  case True
  have fits: "sum_list (map lc_amount (filter q (unspent done_coins))) + lc_amount coin \<le> U64_MAX" for q
  proof -
    have "sum_list (map lc_amount (filter q (unspent done_coins))) \<le> sum_list (map lc_amount (unspent done_coins))"
      by (rule sum_list_filter_le_nat)
    with assms True show ?thesis by (simp add: unspent_snoc)
  qed
  show ?thesis
  proof (cases "coin_is_owned coin")
    case not_owned: False
    then have "lc_block_height coin = None" by (simp add: coin_is_owned_def)
    then show ?thesis using True not_owned fits
      by (simp add: summarise_coin_def summary_of_def checked_add64_def unspent_snoc confirmed_unspent_def)
  next
    case owned: True
    show ?thesis
    proof (cases "lc_block_height coin = None")
      case None: True
      then show ?thesis using True owned fits
        by (simp add: summarise_coin_def summary_of_def checked_add64_def unspent_snoc confirmed_unspent_def)
    next
      case Some: False
      then show ?thesis using True owned fits
        by (simp add: summarise_coin_def summary_of_def checked_add64_def unspent_snoc confirmed_unspent_def Let_def
            least_of_snoc del: not_None_eq split: option.split)
    qed
  qed
qed

lemma summarise_coins_from:
  "sum_list (map lc_amount (unspent (done_coins @ coins))) \<le> U64_MAX \<Longrightarrow>
     summarise_coins tip_height timelock coins (summary_of tip_height timelock done_coins) =
     Some (summary_of tip_height timelock (done_coins @ coins))"
proof (induction coins arbitrary: done_coins)
  case (Cons coin coins)
  have "sum_list (map lc_amount (unspent (done_coins @ [coin]))) \<le> U64_MAX"
    using Cons.prems by (cases "lc_spend_info coin = None") (simp_all add: unspent_def del: not_None_eq)
  then show ?case using Cons.IH [of "done_coins @ [coin]"] Cons.prems by (simp add: summarise_coin_step)
qed simp

end
