(* ===== verification/Gui_Client.thy ===== *)
theory Gui_Client
  imports Gui_Daemon Rpc_Server
begin

text \<open>
  The client of an external daemon (\<open>liana-gui/src/daemon/client\<close>): the JSON-RPC request over a Unix
  socket with the checks of the response (\<open>jsonrpc.rs\<close>), and each operation of the trait as one
  request (\<open>mod.rs\<close>). What a response carries is the value the server serialises, which the types
  of \<open>lianad\<close> read back: the two ends share them, and a value of another type is a JSON error. The
  socket and the process behind it are a parameter.
\<close>

section \<open>A request over the socket\<close>

datatype client_error = Cl_Json | Cl_Io nat | Cl_Rpc rpc_error | Cl_No_Error_Or_Result
  | Cl_Nonce_Mismatch | Cl_Version_Mismatch | Cl_Not_Supported

definition daemon_error_of_client :: "client_error \<Rightarrow> daemon_error" where
  "daemon_error_of_client e = (case e of
     Cl_Io kind \<Rightarrow> DE_Rpc_Socket (Some kind) Text_Io
   | Cl_Json \<Rightarrow> DE_Rpc_Socket None Text_Json
   | Cl_Nonce_Mismatch \<Rightarrow> DE_Rpc_Socket None Text_Transport
   | Cl_Version_Mismatch \<Rightarrow> DE_Rpc_Socket None Text_Transport
   | Cl_No_Error_Or_Result \<Rightarrow> DE_No_Answer
   | Cl_Not_Supported \<Rightarrow> DE_Client_Not_Supported
   | Cl_Rpc err \<Rightarrow> DE_Rpc (error_code_to_i64 (re_code err)) (Text_Of_Rpc (re_message err)))"

record 'v client_response =
  cr_result :: "'v option"
  cr_error :: "rpc_error option"
  cr_id :: nat
  cr_jsonrpc :: "string option"

text \<open>What becomes of a request that is sent: an error of the socket, its end without a response, bytes that are no response, or a response.\<close>

datatype 'v reception = Io_Failure nat | Closed | Unreadable | Response_Of "'v client_response"

type_synonym ('ms, 'tr, 'd) server = "request \<Rightarrow> 'd \<Rightarrow> ('ms, 'tr) rpc_value reception \<times> 'd"

text \<open>The deserialisation of the whole response fails when its result has another type.\<close>

definition read_response :: "('v \<Rightarrow> 'a option) \<Rightarrow> 'v client_response \<Rightarrow> client_error + 'a client_response" where
  "read_response decode r = (case cr_result r of
     None \<Rightarrow> Ok \<lparr>cr_result = None, cr_error = cr_error r, cr_id = cr_id r, cr_jsonrpc = cr_jsonrpc r\<rparr>
   | Some v \<Rightarrow> (case decode v of
       None \<Rightarrow> Err Cl_Json
     | Some x \<Rightarrow> Ok \<lparr>cr_result = Some x, cr_error = cr_error r, cr_id = cr_id r, cr_jsonrpc = cr_jsonrpc r\<rparr>))"

definition send_request ::
  "('ms, 'tr, 'd) server \<Rightarrow> nat \<Rightarrow> (('ms, 'tr) rpc_value \<Rightarrow> 'a option) \<Rightarrow> string \<Rightarrow> params option \<Rightarrow> 'd
     \<Rightarrow> (client_error + 'a client_response) \<times> 'd" where
  "send_request srv pid decode meth params d =
     (let req = \<lparr>rq_jsonrpc = ''2.0'', rq_method = meth, rq_params = params, rq_id = Req_Num pid\<rparr>;
          (received, d') = srv req d
      in (case received of
            Io_Failure kind \<Rightarrow> Err (Cl_Io kind)
          | Closed \<Rightarrow> Err Cl_No_Error_Or_Result
          | Unreadable \<Rightarrow> Err Cl_Json
          | Response_Of r \<Rightarrow>
              rbind (read_response decode r) (\<lambda>response.
              if (case cr_jsonrpc response of None \<Rightarrow> False | Some version \<Rightarrow> version \<noteq> ''2.0'') then Err Cl_Version_Mismatch
              else if cr_id response \<noteq> pid then Err Cl_Nonce_Mismatch
              else Ok response), d'))"

definition into_result :: "'a client_response \<Rightarrow> client_error + 'a" where
  "into_result r = (case cr_error r of
     Some e \<Rightarrow> Err (Cl_Rpc e)
   | None \<Rightarrow> ok_or Cl_No_Error_Or_Result (cr_result r))"

text \<open>\<open>Client::request\<close> and \<open>Lianad::call\<close>.\<close>

definition client_request ::
  "('ms, 'tr, 'd) server \<Rightarrow> nat \<Rightarrow> (('ms, 'tr) rpc_value \<Rightarrow> 'a option) \<Rightarrow> string \<Rightarrow> params option \<Rightarrow> 'd
     \<Rightarrow> (client_error + 'a) \<times> 'd" where
  "client_request srv pid decode meth params d =
     (let (r, d') = send_request srv pid decode meth params d in (rbind r into_result, d'))"

text \<open>
  What the client is given: the process id, the text of a PSBT, the text of labels, addresses and outpoints,
  and the order in which the entries of a hash map are written.
\<close>

record client_env =
  ce_pid :: nat
  ce_psbt_text :: "psbt \<Rightarrow> string"
  ce_item_text :: "label_item \<Rightarrow> string"
  ce_object :: "(string \<times> json) list \<Rightarrow> (string \<times> json) list"

definition lianad_call ::
  "client_env \<Rightarrow> ('ms, 'tr, 'd) server \<Rightarrow> (('ms, 'tr) rpc_value \<Rightarrow> 'a option) \<Rightarrow> string \<Rightarrow> params option \<Rightarrow> ('d, 'a) call" where
  "lianad_call C srv decode meth input d =
     (let (r, d') = client_request srv (ce_pid C) decode meth input d in (map_err daemon_error_of_client r, d'))"

section \<open>Values\<close>

text \<open>\<open>json!\<close> of the arguments.\<close>

definition json_nat :: "nat \<Rightarrow> json" where
  "json_nat n = J_Number (Pos_Int n)"

definition json_option :: "('a \<Rightarrow> json) \<Rightarrow> 'a option \<Rightarrow> json" where
  "json_option f m = (case m of None \<Rightarrow> J_Null | Some x \<Rightarrow> f x)"

definition json_item :: "client_env \<Rightarrow> label_item \<Rightarrow> json" where
  "json_item C item = J_String (ce_item_text C item)"

abbreviation json_address :: "client_env \<Rightarrow> address \<Rightarrow> json" where
  "json_address C a \<equiv> json_item C (Label_Address a)"

abbreviation json_txid :: "client_env \<Rightarrow> txid \<Rightarrow> json" where
  "json_txid C t \<equiv> json_item C (Label_Txid t)"

abbreviation json_outpoints :: "client_env \<Rightarrow> outpoint list \<Rightarrow> json" where
  "json_outpoints C ops \<equiv> J_Array (map (\<lambda>op. json_item C (Label_OutPoint op)) ops)"

text \<open>The type that each operation reads.\<close>

fun as_info :: "('ms, 'tr) rpc_value \<Rightarrow> ('ms, 'tr) get_info_result option" where
  "as_info (V_Info i) = Some i" | "as_info _ = None"

fun as_address :: "('ms, 'tr) rpc_value \<Rightarrow> get_address_result option" where
  "as_address (V_Address a) = Some a" | "as_address _ = None"

fun as_revealed :: "('ms, 'tr) rpc_value \<Rightarrow> (revealed_address list \<times> child_number option) option" where
  "as_revealed (V_Revealed page continue_from) = Some (page, continue_from)" | "as_revealed _ = None"

fun as_indexes :: "('ms, 'tr) rpc_value \<Rightarrow> (nat \<times> nat) option" where
  "as_indexes (V_Indexes receive change) = Some (receive, change)" | "as_indexes _ = None"

fun as_coins :: "('ms, 'tr) rpc_value \<Rightarrow> list_coins_entry list option" where
  "as_coins (V_Coins coins) = Some coins" | "as_coins _ = None"

fun as_drafts :: "('ms, 'tr) rpc_value \<Rightarrow> (psbt \<times> nat option) list option" where
  "as_drafts (V_Drafts spend_txs) = Some spend_txs" | "as_drafts _ = None"

fun as_spend :: "('ms, 'tr) rpc_value \<Rightarrow> create_spend_result option" where
  "as_spend (V_Spend r) = Some r" | "as_spend _ = None"

fun as_transactions :: "('ms, 'tr) rpc_value \<Rightarrow> transaction_info list option" where
  "as_transactions (V_Transactions txs) = Some txs" | "as_transactions _ = None"

fun as_recovery :: "('ms, 'tr) rpc_value \<Rightarrow> (psbt \<times> bool) option" where
  "as_recovery (V_Recovery r) = Some (rr_psbt r, rr_to_own_address r)" | "as_recovery _ = None"

fun as_labels :: "('ms, 'tr) rpc_value \<Rightarrow> (string \<times> string) list option" where
  "as_labels (V_Labels labels) = Some labels" | "as_labels _ = None"

fun as_bip329 :: "('ms, 'tr) rpc_value \<Rightarrow> bip329_label list option" where
  "as_bip329 (V_Bip329 labels) = Some labels" | "as_bip329 _ = None"

text \<open>\<open>serde_json::Value\<close>: any result, which is then dropped.\<close>

definition as_value :: "('ms, 'tr) rpc_value \<Rightarrow> unit option" where
  "as_value _ = Some ()"

section \<open>The operations\<close>

definition lianad_get_info where
  "lianad_get_info C srv = lianad_call C srv as_info ''getinfo'' None"

definition lianad_get_new_address where
  "lianad_get_new_address C srv = lianad_call C srv as_address ''getnewaddress'' None"

definition lianad_list_revealed_addresses where
  "lianad_list_revealed_addresses C srv is_change exclude_used limit start_index =
     lianad_call C srv as_revealed ''listrevealedaddresses''
       (Some (Params_Array [J_Bool is_change, J_Bool exclude_used, json_nat limit, json_option json_nat start_index]))"

definition lianad_update_deriv_indexes where
  "lianad_update_deriv_indexes C srv receive change =
     lianad_call C srv as_indexes ''updatederivationindexes''
       (Some (Params_Array [json_option json_nat receive, json_option json_nat change]))"

definition lianad_list_coins where
  "lianad_list_coins C srv statuses outpoints =
     lianad_call C srv as_coins ''listcoins''
       (Some (Params_Array [J_Array (map (\<lambda>st. J_String (status_to_arg st)) statuses), json_outpoints C outpoints]))"

definition lianad_list_spend_txs where
  "lianad_list_spend_txs C srv = lianad_call C srv as_drafts ''listspendtxs'' None"

definition lianad_create_spend_tx where
  "lianad_create_spend_tx C srv coins_outpoints destinations feerate_vb change_address =
     lianad_call C srv as_spend ''createspend''
       (Some (Params_Array
         ([J_Object (ce_object C (map (\<lambda>(a, amount). (ce_item_text C (Label_Address a), json_nat amount)) destinations)),
           json_outpoints C coins_outpoints, json_nat feerate_vb]
          @ (case change_address of None \<Rightarrow> [] | Some a \<Rightarrow> [json_address C a]))))"

definition lianad_rbf_psbt where
  "lianad_rbf_psbt C srv txid is_cancel feerate_vb =
     lianad_call C srv as_spend ''rbfpsbt''
       (Some (Params_Array ([json_txid C txid, J_Bool is_cancel]
          @ (case feerate_vb of None \<Rightarrow> [] | Some f \<Rightarrow> [json_nat f]))))"

definition lianad_update_spend_tx where
  "lianad_update_spend_tx C srv psbt =
     lianad_call C srv as_value ''updatespend'' (Some (Params_Array [J_String (ce_psbt_text C psbt)]))"

definition lianad_delete_spend_tx where
  "lianad_delete_spend_tx C srv txid =
     lianad_call C srv as_value ''delspendtx'' (Some (Params_Array [json_txid C txid]))"

definition lianad_broadcast_spend_tx where
  "lianad_broadcast_spend_tx C srv txid =
     lianad_call C srv as_value ''broadcastspend'' (Some (Params_Array [json_txid C txid]))"

definition lianad_start_rescan where
  "lianad_start_rescan C srv t =
     lianad_call C srv as_value ''startrescan'' (Some (Params_Array [json_nat t]))"

definition lianad_list_confirmed_txs where
  "lianad_list_confirmed_txs C srv start end limit =
     lianad_call C srv as_transactions ''listconfirmed'' (Some (Params_Array [json_nat start, json_nat end, json_nat limit]))"

definition lianad_list_txs where
  "lianad_list_txs C srv txids =
     lianad_call C srv as_transactions ''listtransactions'' (Some (Params_Array [J_Array (map (json_txid C) txids)]))"

definition lianad_create_recovery where
  "lianad_create_recovery C srv address coins_outpoints feerate_vb timelock =
     lianad_call C srv as_recovery ''createrecovery''
       (Some (Params_Map
         ([(''address'', json_address C address), (''outpoints'', json_outpoints C coins_outpoints),
           (''feerate'', json_nat feerate_vb)]
          @ (case timelock of None \<Rightarrow> [] | Some t \<Rightarrow> [(''timelock'', json_nat t)]))))"

definition lianad_get_labels where
  "lianad_get_labels C srv items =
     lianad_call C srv as_labels ''getlabels'' (Some (Params_Array [J_Array (map (json_item C) items)]))"

definition lianad_update_labels where
  "lianad_update_labels C srv items =
     lianad_call C srv as_value ''updatelabels''
       (Some (Params_Array [J_Object (ce_object C
         (map (\<lambda>(item, label). (ce_item_text C item, json_option J_String label)) items))]))"

definition lianad_get_labels_bip329 where
  "lianad_get_labels_bip329 C srv offset limit =
     lianad_call C srv as_bip329 ''getlabelsbip329'' (Some (Params_Array [json_nat offset, json_nat limit]))"

definition lianad_daemon :: "client_env \<Rightarrow> ('ms, 'tr, 'd) server \<Rightarrow> ('ms, 'tr, 'd) daemon_trait" where
  "lianad_daemon C srv = \<lparr>td_get_info = lianad_get_info C srv, td_get_new_address = lianad_get_new_address C srv,
     td_list_revealed_addresses = lianad_list_revealed_addresses C srv,
     td_update_deriv_indexes = lianad_update_deriv_indexes C srv, td_list_coins = lianad_list_coins C srv,
     td_list_spend_txs = lianad_list_spend_txs C srv, td_create_spend_tx = lianad_create_spend_tx C srv,
     td_rbf_psbt = lianad_rbf_psbt C srv, td_update_spend_tx = lianad_update_spend_tx C srv,
     td_delete_spend_tx = lianad_delete_spend_tx C srv, td_broadcast_spend_tx = lianad_broadcast_spend_tx C srv,
     td_start_rescan = lianad_start_rescan C srv, td_list_confirmed_txs = lianad_list_confirmed_txs C srv,
     td_create_recovery = lianad_create_recovery C srv, td_list_txs = lianad_list_txs C srv,
     td_get_labels = lianad_get_labels C srv, td_update_labels = lianad_update_labels C srv,
     td_get_labels_bip329 = lianad_get_labels_bip329 C srv\<rparr>"

section \<open>The server of lianad behind the socket\<close>

text \<open>
  The response of the server to a request whose socket works; the identifier is echoed. The server that
  panics closes the connection without a response.
\<close>

definition lianad_server ::
  "rpc_env \<Rightarrow> ('ms, 'tr, 'cs) daemon \<Rightarrow> ('ms, 'tr, ('ms, 'tr) database) server" where
  "lianad_server V E req db = (case respond V E req db of
     None \<Rightarrow> (Closed, db)
   | Some (r, db') \<Rightarrow>
       (case rs_id r of
          Req_Num n \<Rightarrow> (Response_Of \<lparr>cr_result = rs_result r, cr_error = rs_error r, cr_id = n, cr_jsonrpc = Some (rs_jsonrpc r)\<rparr>, db')
        | Req_Str _ \<Rightarrow> (Unreadable, db')))"

text \<open>The error of an operation, as the client of the server reports it.\<close>

definition error_over_rpc :: "daemon_error \<Rightarrow> daemon_error" where
  "error_over_rpc e = (case e of
     DE_Unexpected (Text_Of_Command c) \<Rightarrow>
       (case error_of_command c of
          Some err \<Rightarrow> DE_Rpc (error_code_to_i64 (re_code err)) (Text_Of_Rpc (re_message err))
        | None \<Rightarrow> DE_No_Answer)
   | DE_Panic \<Rightarrow> DE_No_Answer
   | _ \<Rightarrow> e)"

text \<open>
  The same operation of the two daemons: the client of a server whose database is the one of the
  embedded daemon gets the same result; only its errors are those of the transport. The database
  left is the same unless the process panicked.
\<close>

definition same_call :: "(('ms, 'tr) database, 'a) call \<Rightarrow> (('ms, 'tr) embedded, 'a) call \<Rightarrow> bool" where
  "same_call rpc embedded \<longleftrightarrow> (\<forall>db. (let (r, h) = embedded (Some db) in
     fst (rpc db) = map_err error_over_rpc r \<and> (r \<noteq> Err DE_Panic \<longrightarrow> h = Some (snd (rpc db)))))"

end
