(* ===== verification/Gui_Client_Lemmas.thy ===== *)
theory Gui_Client_Lemmas
  imports Gui_Client
begin

text \<open>
  An operation of the client of an external daemon, through the request it writes and the handler of the
  server that reads it back, is the operation of the embedded daemon.
\<close>

section \<open>What the two ends share\<close>

text \<open>
  Texts are read back as written and no text of a transaction id or of an outpoint is one of an address, or of
  the other; a hash map is written in some order, and the order in which it is iterated does not depend on how it was
  built.
\<close>

definition texts_ok :: "client_env \<Rightarrow> parsers \<Rightarrow> bool" where
  "texts_ok C P \<longleftrightarrow> ce_item_text C = item_text P \<and> parsers_ok P \<and>
     (\<forall>t. parse_address P (item_text P (Label_Txid t)) = None) \<and>
     (\<forall>op. parse_address P (item_text P (Label_OutPoint op)) = None \<and> parse_txid P (item_text P (Label_OutPoint op)) = None)"

definition order_ok :: "('a list \<Rightarrow> 'a list) \<Rightarrow> bool" where
  "order_ok f \<longleftrightarrow> (\<forall>xs ys. mset xs = mset ys \<longrightarrow> f xs = f ys)"

definition client_ok :: "client_env \<Rightarrow> rpc_env \<Rightarrow> bool" where
  "client_ok C V \<longleftrightarrow> texts_ok C (rv_parsers V) \<and> (\<forall>kvs. mset (ce_object C kvs) = mset kvs) \<and>
     order_ok (rv_order V) \<and> order_ok (rv_item_order V)"

lemma client_ok_texts:
  assumes "client_ok C V"
  shows "ce_item_text C = item_text (rv_parsers V)"
    "parse_address (rv_parsers V) (item_text (rv_parsers V) (Label_Address a)) = Some a"
    "parse_outpoint (rv_parsers V) (item_text (rv_parsers V) (Label_OutPoint op)) = Some op"
    "parse_txid (rv_parsers V) (item_text (rv_parsers V) (Label_Txid t)) = Some t"
  using assms by (simp_all add: client_ok_def texts_ok_def parsers_ok_def)

section \<open>A call of the server\<close>

definition call_of_outcome ::
  "('v \<Rightarrow> 'a option) \<Rightarrow> ('v, 'db) outcome \<Rightarrow> 'db \<Rightarrow> (daemon_error + 'a) \<times> 'db" where
  "call_of_outcome decode out db = (case out of
     Reply v db' \<Rightarrow> (ok_or (DE_Rpc_Socket None Text_Json) (decode v), db')
   | Refused err db' \<Rightarrow> (Err (DE_Rpc (error_code_to_i64 (re_code err)) (Text_Of_Rpc (re_message err))), db')
   | Crashed \<Rightarrow> (Err DE_No_Answer, db))"

definition client_req :: "client_env \<Rightarrow> string \<Rightarrow> params option \<Rightarrow> request" where
  "client_req C m p = \<lparr>rq_jsonrpc = ''2.0'', rq_method = m, rq_params = p, rq_id = Req_Num (ce_pid C)\<rparr>"

lemma client_req_fields [simp]: "rq_method (client_req C m p) = m" "rq_params (client_req C m p) = p"
  by (simp_all add: client_req_def)

lemma lianad_call_server:
  "lianad_call C (lianad_server V E) decode m p db =
     call_of_outcome decode (handle_request V E (client_req C m p) db) db"
proof (cases "handle_request V E (client_req C m p) db")
  case (Reply v db')
  then show ?thesis
    by (cases "decode v") (simp_all add: lianad_call_def client_request_def send_request_def lianad_server_def respond_def
        client_req_def response_success_def response_new_def read_response_def into_result_def
        daemon_error_of_client_def call_of_outcome_def)
qed (simp_all add: lianad_call_def client_request_def send_request_def lianad_server_def respond_def
      client_req_def response_error_def response_new_def read_response_def into_result_def
      daemon_error_of_client_def call_of_outcome_def)

text \<open>The outcome of a command, on both sides.\<close>

lemma call_of_reply:
  assumes "\<And>x. decode (f x) = Some (g x)"
  shows "call_of_outcome decode (reply_of f r db) db = (case r of
     Inl e \<Rightarrow> (Err (error_over_rpc (unexpected e)), db) | Inr (x, db') \<Rightarrow> (Ok (g x), db'))"
proof (cases r)
  case (Inl e)
  then show ?thesis
    by (cases e) (simp_all add: call_of_outcome_def reply_of_def error_over_rpc_def unexpected_def error_of_command_def)
qed (auto simp: call_of_outcome_def reply_of_def assms split: prod.split)

lemma call_of_read:
  assumes "\<And>x. decode (f x) = Some (g x)"
  shows "call_of_outcome decode (reply_read f r db) db =
    (map_err (\<lambda>e. error_over_rpc (unexpected e)) (map_sum id g r), db)"
  by (cases r) (simp_all add: reply_read_def call_of_reply [where g = g] assms)

lemma same_read:
  assumes "\<And>db. lianad db = (map_err (\<lambda>e. error_over_rpc (unexpected e)) (f db), db)"
  shows "same_call lianad (run_read f)"
  using assms by (auto simp: same_call_def run_read_def embedded_command_def map_err_def split: sum.split)

lemma same_write:
  assumes "\<And>db. lianad db = (case f db of Inl e \<Rightarrow> (Err (error_over_rpc (unexpected e)), db) | Inr (x, db') \<Rightarrow> (Ok x, db'))"
  shows "same_call lianad (run_write f)"
  using assms by (auto simp: same_call_def run_write_def embedded_command_def split: sum.split)

lemmas call_of_reply_id = call_of_reply [where g = "\<lambda>x. x"]

lemma call_of_read_id:
  assumes "\<And>x. decode (f x) = Some x"
  shows "call_of_outcome decode (reply_read f r db) db = (map_err (\<lambda>e. error_over_rpc (unexpected e)) r, db)"
  by (cases r) (simp_all add: call_of_read [where g = "\<lambda>x. x"] assms)

section \<open>Parameters read back\<close>

named_theorems param_simps \<open>parameters of the client read back by the server\<close>

lemma required_array [param_simps]:
  "i < length vs \<Longrightarrow> required (Params_Array vs) i name read = ok_or (Invalid_Param name) (read (vs ! i))"
  by (simp add: required_def)

lemma optional_array [param_simps]:
  "optional (Params_Array vs) i name read =
     (if i < length vs then rbind (ok_or (Invalid_Param name) (read (vs ! i))) (\<lambda>x. Ok (Some x)) else Ok None)"
  by (simp add: optional_def)

lemma with_params_Ok [param_simps]: "with_params (Ok x) db f = f x"
  by (simp add: with_params_def)

lemma json_nat_read [param_simps]:
  "as_u64 (json_nat n) = Some n"
  "n \<le> U32_MAX \<Longrightarrow> as_u32 (json_nat n) = Some n"
  "n \<le> greatest \<Longrightarrow> n \<le> I64_MAX \<Longrightarrow> as_i64_unsigned greatest (json_nat n) = Some n"
  by (simp_all add: json_nat_def as_u32_def try_smaller_def as_i64_unsigned_def try_unsigned_def)

lemma json_item_str [param_simps]: "as_str (json_item C item) = Some (ce_item_text C item)"
  by (simp add: json_item_def)

lemma collect_options_map_read:
  assumes "\<And>x. x \<in> set xs \<Longrightarrow> f (g x) = Some x"
  shows "collect_options f (map g xs) = Some xs"
  using assms by (induction xs) auto

lemma read_list_items:
  assumes "\<And>x. x \<in> set xs \<Longrightarrow> Option.bind (as_str (g x)) parse = Some x"
  shows "read_list parse (J_Array (map g xs)) = Some xs"
  by (simp add: read_list_def collect_options_map_read assms)

lemma read_outpoints [param_simps]:
  "client_ok C V \<Longrightarrow> read_list (parse_outpoint (rv_parsers V)) (json_outpoints C ops) = Some ops"
  by (rule read_list_items) (simp add: param_simps client_ok_texts)

lemma read_txids [param_simps]:
  "client_ok C V \<Longrightarrow> read_list (parse_txid (rv_parsers V)) (J_Array (map (json_txid C) ts)) = Some ts"
  by (rule read_list_items) (simp add: param_simps client_ok_texts)

lemma read_txid_item [param_simps]: "client_ok C V \<Longrightarrow> read_txid (rv_parsers V) (json_txid C t) = Some t"
  by (simp add: read_txid_def param_simps client_ok_texts)

lemma label_item_read [param_simps]:
  assumes "client_ok C V" "case item of Label_Address a \<Rightarrow> addr_valid_for B a network | _ \<Rightarrow> True"
  shows "label_item_from_str B (rv_parsers V) network (item_text (rv_parsers V) item) = Some item"
  using assms
  by (cases item) (simp_all add: label_item_from_str_def client_ok_def texts_ok_def parsers_ok_def)

section \<open>Hash maps\<close>

lemma hm_insert_fresh: "k \<notin> fst ` set m \<Longrightarrow> hm_insert k v m = m @ [(k, v)]"
  by (force simp: hm_insert_def filter_id_conv)

lemma fold_hm_insert:
  assumes "distinct (map fst kvs)" "fst ` set kvs \<inter> fst ` set m = {}"
  shows "fold (\<lambda>(k, v). hm_insert k v) kvs m = m @ kvs"
  using assms
proof (induction kvs arbitrary: m)
  case (Cons e kvs)
  obtain k v where e: "e = (k, v)" by (cases e)
  with Cons.prems have "hm_insert k v m = m @ [(k, v)]" by (auto intro: hm_insert_fresh)
  moreover have "fold (\<lambda>(k, v). hm_insert k v) kvs (m @ [(k, v)]) = (m @ [(k, v)]) @ kvs"
    using Cons.prems e by (intro Cons.IH) auto
  ultimately show ?case by (simp add: e)
qed simp

text \<open>A map written entry by entry, in any order, is read back as a map with the same entries.\<close>

lemma object_read:
  assumes "\<forall>ys. mset (write ys) = mset ys" "\<And>x. x \<in> set kvs \<Longrightarrow> f (g x) = Some x"
  obtains kvs' where "collect_options f (write (map g kvs)) = Some kvs'" "mset kvs' = mset kvs"
proof -
  have "mset (write (map g kvs)) = mset (map g kvs)" using assms(1) by blast
  then have "image_mset (the \<circ> f) (mset (write (map g kvs))) = mset (map (the \<circ> f \<circ> g) kvs)"
    by (metis mset_map map_map)
  moreover have "map (the \<circ> f \<circ> g) kvs = kvs" using assms(2) by (simp add: map_idI)
  ultimately have m: "mset (map (the \<circ> f) (write (map g kvs))) = mset kvs" by simp
  have "f y \<noteq> None" if "y \<in> set (write (map g kvs))" for y
  proof -
    have "set (write (map g kvs)) = g ` set kvs" using assms(1) by (metis mset_eq_setD set_map)
    with that assms(2) show ?thesis by auto
  qed
  then have "collect_options f (write (map g kvs)) = Some (map (the \<circ> f) (write (map g kvs)))"
    unfolding collect_options_eq_Some by (auto simp: list_all2_conv_all_nth)
  with m show thesis by (rule that[rotated])
qed

lemma distinct_keys_mset: "mset kvs' = mset kvs \<Longrightarrow> distinct (map fst kvs) \<Longrightarrow> distinct (map fst kvs')"
  by (metis mset_map mset_eq_imp_distinct_iff)

section \<open>The operations\<close>

lemma same_get_info: "same_call (lianad_get_info C (lianad_server V E)) (embedded_get_info V E)"
  unfolding embedded_get_info_def
  by (rule same_read) (simp add: lianad_get_info_def lianad_call_server handle_request_def call_of_outcome_def)

lemma same_get_new_address: "same_call (lianad_get_new_address C (lianad_server V E)) (embedded_get_new_address E)"
  unfolding embedded_get_new_address_def
  by (rule same_write)
    (simp add: lianad_get_new_address_def lianad_call_server handle_request_def call_of_reply_id)

lemma same_list_revealed_addresses:
  assumes "case start_index of Some i \<Rightarrow> i \<le> U32_MAX | None \<Rightarrow> True"
  shows "same_call (lianad_list_revealed_addresses C (lianad_server V E) is_change exclude_used limit start_index)
    (embedded_list_revealed_addresses V E is_change exclude_used limit start_index)"
  unfolding embedded_list_revealed_addresses_def
proof (rule same_read)
  have null: "json_nat i \<noteq> J_Null" for i by (simp add: json_nat_def)
  show "lianad_list_revealed_addresses C (lianad_server V E) is_change exclude_used limit start_index db =
      (map_err (\<lambda>e. error_over_rpc (unexpected e)) (ok_or CmdPanic
        (list_revealed_addresses (item_text (rv_parsers V)) E is_change exclude_used limit start_index db)), db)" for db
    using assms
    by (cases start_index)
      (simp_all add: lianad_list_revealed_addresses_def lianad_call_server handle_request_def needs_params_def
        api_list_revealed_addresses_def param_simps json_option_def null call_of_read_id split_def)
qed

lemma same_update_deriv_indexes:
  assumes "receive \<le> U32_MAX" "change \<le> U32_MAX"
  shows "same_call (lianad_update_deriv_indexes C (lianad_server V E) (Some receive) (Some change))
    (embedded_update_deriv_indexes E (Some receive) (Some change))"
  using assms
  by (auto simp: same_call_def embedded_update_deriv_indexes_def embedded_command_def lianad_update_deriv_indexes_def
      lianad_call_server handle_request_def needs_params_def api_update_deriv_indexes_def param_simps json_option_def
      reply_of_def call_of_outcome_def unexpected_def error_over_rpc_def error_of_command_def
      split: prod.split sum.split command_error.splits option.split)

lemma same_list_coins:
  assumes "client_ok C V"
  shows "same_call (lianad_list_coins C (lianad_server V E) statuses outpoints) (embedded_list_coins E statuses outpoints)"
proof -
  have st: "collect_options (\<lambda>v. Option.bind (as_str v) status_from_arg) (map (\<lambda>st. J_String (status_to_arg st)) statuses) = Some statuses"
    by (rule collect_options_map_read) (simp add: status_roundtrip)
  have op: "collect_options (\<lambda>v. Option.bind (as_str v) (parse_outpoint (rv_parsers V)))
      (map (\<lambda>op. json_item C (Label_OutPoint op)) outpoints) = Some outpoints"
    by (rule collect_options_map_read) (simp add: param_simps client_ok_texts [OF assms])
  show ?thesis
    unfolding embedded_list_coins_def
    by (rule same_read)
      (simp add: lianad_list_coins_def lianad_call_server handle_request_def api_list_coins_def read_filter_def st op
        param_simps call_of_read_id)
qed

lemma same_list_spend_txs: "same_call (lianad_list_spend_txs C (lianad_server V E)) (embedded_list_spend_txs E)"
  unfolding embedded_list_spend_txs_def
  by (rule same_read)
    (simp add: lianad_list_spend_txs_def lianad_call_server handle_request_def api_list_spendtxs_def param_simps
      call_of_read_id)

lemma same_create_spend_tx:
  assumes "client_ok C V" "distinct (map fst destinations)" "\<forall>(a, amount) \<in> set destinations. amount \<le> I64_MAX"
  shows "same_call (lianad_create_spend_tx C (lianad_server V E) coins_outpoints destinations feerate_vb change_address)
    (embedded_create_spend_tx V E coins_outpoints destinations feerate_vb change_address)"
proof -
  let ?read = "\<lambda>(k, v). Option.bind (parse_address (rv_parsers V) k) (\<lambda>addr. map_option (Pair addr) (as_i64_unsigned U64_MAX v))"
  have w: "\<forall>ys. mset (ce_object C ys) = mset ys" using assms(1) by (simp add: client_ok_def)
  obtain dests where d: "collect_options ?read (ce_object C (map (\<lambda>(a, amount). (ce_item_text C (Label_Address a), json_nat amount)) destinations)) = Some dests"
    and m: "mset dests = mset destinations"
  proof (rule object_read [OF w, of destinations ?read "\<lambda>(a, amount). (ce_item_text C (Label_Address a), json_nat amount)"])
    fix x assume "x \<in> set destinations"
    moreover obtain a amount where "x = (a, amount)" by (cases x)
    ultimately show "?read (case x of (a, amount) \<Rightarrow> (ce_item_text C (Label_Address a), json_nat amount)) = Some x"
      using assms(3) by (auto simp: client_ok_texts [OF assms(1)] param_simps)
  qed (rule that)
  have "fold (\<lambda>(a, amount). hm_insert a amount) dests [] = dests"
    using fold_hm_insert [of dests "[]"] distinct_keys_mset [OF m assms(2)] by simp
  moreover have "rv_order V dests = rv_order V destinations"
    using assms(1) m unfolding client_ok_def order_ok_def by blast
  moreover have "read_destinations (rv_parsers V)
      (J_Object (ce_object C (map (\<lambda>(a, amount). (ce_item_text C (Label_Address a), json_nat amount)) destinations))) =
      Some (fold (\<lambda>(a, amount). hm_insert a amount) dests [])"
    by (simp add: read_destinations_def d)
  moreover define tail where "tail = (case change_address of None \<Rightarrow> [] | Some a \<Rightarrow> [json_address C a])"
  moreover have "optional (Params_Array (x # y # z # tail)) 3 name (\<lambda>v. Option.bind (as_str v) (parse_address (rv_parsers V))) =
      Ok change_address" for x y z name
    by (cases change_address) (simp_all add: tail_def param_simps client_ok_texts [OF assms(1)])
  ultimately have api: "api_create_spend V E (Params_Array
      (J_Object (ce_object C (map (\<lambda>(a, amount). (ce_item_text C (Label_Address a), json_nat amount)) destinations))
       # json_outpoints C coins_outpoints # json_nat feerate_vb # tail)) db =
      reply_of V_Spend (cmd_create_spend E (rv_order V destinations) coins_outpoints feerate_vb change_address db) db" for db
    by (simp add: api_create_spend_def Let_def required_array read_outpoints [OF assms(1)] json_nat_read(1) with_params_Ok)
  show ?thesis
    unfolding embedded_create_spend_tx_def
    by (rule same_write) (simp add: lianad_create_spend_tx_def lianad_call_server handle_request_def needs_params_def
        with_params_Ok tail_def [symmetric] api call_of_reply_id)
qed

lemma same_rbf_psbt:
  assumes "client_ok C V"
  shows "same_call (lianad_rbf_psbt C (lianad_server V E) txid is_cancel feerate_vb) (embedded_rbf_psbt E txid is_cancel feerate_vb)"
  unfolding embedded_rbf_psbt_def
proof (rule same_write)
  fix db
  show "lianad_rbf_psbt C (lianad_server V E) txid is_cancel feerate_vb db =
    (case case rbf_psbt E txid is_cancel feerate_vb db of None \<Rightarrow> Err CmdPanic | Some r \<Rightarrow> r of
      Inl e \<Rightarrow> (Err (error_over_rpc (unexpected e)), db) | Inr (x, db') \<Rightarrow> (Ok x, db'))"
  proof -
    have "handle_request V E (client_req C ''rbfpsbt'' (Some (Params_Array ([json_txid C txid, J_Bool is_cancel]
          @ (case feerate_vb of None \<Rightarrow> [] | Some f \<Rightarrow> [json_nat f]))))) db =
        (case rbf_psbt E txid is_cancel feerate_vb db of None \<Rightarrow> Crashed | Some r \<Rightarrow> reply_of V_Spend r db)"
      by (cases feerate_vb) (simp_all add: handle_request_def needs_params_def api_rbf_psbt_def param_simps read_txid_item [OF assms])
    then show ?thesis
      by (cases "rbf_psbt E txid is_cancel feerate_vb db")
        (simp_all add: lianad_rbf_psbt_def lianad_call_server call_of_reply_id, simp add: call_of_outcome_def unexpected_def error_over_rpc_def)
  qed
qed

text \<open>A request whose only effect is to write or to be refused.\<close>

lemma same_unit_write:
  assumes "\<And>db. handle_request V E (client_req C m p) db = reply_of (\<lambda>_. V_Empty) (f db) db"
  shows "same_call (lianad_call C (lianad_server V E) as_value m p) (run_write f)"
  by (rule same_write)
    (simp add: lianad_call_server assms call_of_reply [where g = "\<lambda>_. ()"] as_value_def split: sum.split prod.split)

lemma Reply_empty: "Reply V_Empty db' = reply_of (\<lambda>_. V_Empty) (Ok ((), db')) db"
  by (simp add: reply_of_def)

lemma same_update_spend_tx:
  assumes "parse_psbt (rv_parsers V) (ce_psbt_text C psbt) = Some psbt"
  shows "same_call (lianad_update_spend_tx C (lianad_server V E) psbt) (embedded_update_spend_tx E psbt)"
  unfolding embedded_update_spend_tx_def lianad_update_spend_tx_def
  by (rule same_unit_write)
    (simp add: handle_request_def needs_params_def api_update_spend_def param_simps assms)

lemma same_delete_spend_tx:
  assumes "client_ok C V"
  shows "same_call (lianad_delete_spend_tx C (lianad_server V E) txid) (embedded_delete_spend_tx txid)"
  unfolding embedded_delete_spend_tx_def lianad_delete_spend_tx_def
  by (rule same_unit_write)
    (simp add: handle_request_def needs_params_def api_delete_spend_def param_simps read_txid_item [OF assms]
      reply_of_def)

lemma same_start_rescan:
  assumes "t \<le> U32_MAX"
  shows "same_call (lianad_start_rescan C (lianad_server V E) t) (embedded_start_rescan E t)"
  unfolding embedded_start_rescan_def lianad_start_rescan_def
  by (rule same_unit_write)
    (simp add: handle_request_def needs_params_def api_start_rescan_def param_simps assms)

lemma same_broadcast_spend_tx:
  assumes "client_ok C V"
  shows "same_call (lianad_broadcast_spend_tx C (lianad_server V E) txid) (embedded_broadcast_spend_tx E txid)"
  unfolding embedded_broadcast_spend_tx_def
proof (rule same_read)
  fix db
  have "handle_request V E (client_req C ''broadcastspend'' (Some (Params_Array [json_txid C txid]))) db =
      reply_read (\<lambda>_. V_Empty) (broadcast_spend E txid db) db"
    by (simp add: handle_request_def needs_params_def api_broadcast_spend_def param_simps read_txid_item [OF assms])
  then show "lianad_broadcast_spend_tx C (lianad_server V E) txid db =
      (map_err (\<lambda>e. error_over_rpc (unexpected e)) (rbind (broadcast_spend E txid db) (\<lambda>_. Ok ())), db)"
    by (cases "broadcast_spend E txid db")
      (simp_all add: lianad_broadcast_spend_tx_def lianad_call_server call_of_read [where g = "\<lambda>_. ()"] as_value_def)
qed

lemma same_list_confirmed_txs:
  assumes "start \<le> U32_MAX" "end \<le> U32_MAX" "limit \<le> I64_MAX"
  shows "same_call (lianad_list_confirmed_txs C (lianad_server V E) start end limit) (embedded_list_confirmed_txs start end limit)"
  unfolding embedded_list_confirmed_txs_def
  by (rule same_read)
    (use assms in \<open>simp add: lianad_list_confirmed_txs_def lianad_call_server handle_request_def needs_params_def
      api_list_confirmed_def param_simps call_of_read_id\<close>)

lemma same_list_txs:
  assumes "client_ok C V"
  shows "same_call (lianad_list_txs C (lianad_server V E) txids) (embedded_list_txs txids)"
  unfolding embedded_list_txs_def
  by (rule same_read)
    (simp add: lianad_list_txs_def lianad_call_server handle_request_def needs_params_def
      api_list_transactions_def param_simps read_txids [OF assms] call_of_read_id)

lemma same_create_recovery:
  assumes "client_ok C V" "case timelock of Some t \<Rightarrow> t \<le> U16_MAX | None \<Rightarrow> True"
  shows "same_call (lianad_create_recovery C (lianad_server V E) address coins_outpoints feerate_vb timelock)
    (embedded_create_recovery E address coins_outpoints feerate_vb timelock)"
  unfolding embedded_create_recovery_def
proof (rule same_write)
  fix db
  define p where "p = Params_Map ([(''address'', json_address C address), (''outpoints'', json_outpoints C coins_outpoints),
      (''feerate'', json_nat feerate_vb)] @ (case timelock of None \<Rightarrow> [] | Some t \<Rightarrow> [(''timelock'', json_nat t)]))"
  have got: "params_get p 0 ''address'' = Some (json_address C address)"
      "params_get p 1 ''feerate'' = Some (json_nat feerate_vb)" "params_get p 2 ''timelock'' = map_option json_nat timelock"
      "params_get p 3 ''outpoints'' = Some (json_outpoints C coins_outpoints)"
    by (cases timelock; simp add: p_def)+
  have read: "required p 0 ''address'' (\<lambda>v. Option.bind (as_str v) (parse_address (rv_parsers V))) = Ok address"
    by (simp add: required_def got json_item_str client_ok_texts [OF assms(1)])
  have read2: "required p 1 ''feerate'' as_u64 = Ok feerate_vb"
    by (simp only: required_def got(2) ok_or_simps rbind_simps json_nat_read(1))
  have read3: "optional p 2 ''timelock'' (\<lambda>v. Option.bind (as_u64 v) (try_smaller U16_MAX)) = Ok timelock"
    using assms(2) by (cases timelock) (simp_all add: optional_def got(3) json_nat_read(1) try_smaller_def)
  have read4: "optional p 3 ''outpoints'' (read_list (parse_outpoint (rv_parsers V))) = Ok (Some coins_outpoints)"
    by (simp add: optional_def got(4) read_outpoints [OF assms(1)])
  have "handle_request V E (client_req C ''createrecovery'' (Some p)) db =
      reply_of V_Recovery (create_recovery E address coins_outpoints feerate_vb timelock db) db"
    by (simp add: handle_request_def needs_params_def api_create_recovery_def Let_def read read2 [unfolded One_nat_def] read3 read4 with_params_Ok)
  then have "lianad_create_recovery C (lianad_server V E) address coins_outpoints feerate_vb timelock db =
      (case create_recovery E address coins_outpoints feerate_vb timelock db of
         Inl e \<Rightarrow> (Err (error_over_rpc (unexpected e)), db)
       | Inr (r, db') \<Rightarrow> (Ok (rr_psbt r, rr_to_own_address r), db'))"
    unfolding lianad_create_recovery_def lianad_call_server p_def [symmetric]
    by (simp only:) (rule call_of_reply, simp)
  then show "lianad_create_recovery C (lianad_server V E) address coins_outpoints feerate_vb timelock db =
      (case rbind (create_recovery E address coins_outpoints feerate_vb timelock db)
         (\<lambda>(res, db'). Ok ((rr_psbt res, rr_to_own_address res), db')) of
        Inl e \<Rightarrow> (Err (error_over_rpc (unexpected e)), db) | Inr (x, db') \<Rightarrow> (Ok x, db'))"
    by (cases "create_recovery E address coins_outpoints feerate_vb timelock db") auto
qed

text \<open>Addresses among the labelled items are of the daemon's network, and a label has at most 100 bytes.\<close>

definition label_items_ok :: "('ms, 'tr, 'cs) daemon \<Rightarrow> label_item list \<Rightarrow> bool" where
  "label_items_ok E items \<longleftrightarrow>
     (\<forall>item \<in> set items. case item of Label_Address a \<Rightarrow> addr_valid_for (dm_btc E) a (dm_network E) | _ \<Rightarrow> True)"

lemma same_get_labels:
  assumes "client_ok C V" "label_items_ok E items"
  shows "same_call (lianad_get_labels C (lianad_server V E) items) (embedded_get_labels V items)"
proof -
  have "collect_options (\<lambda>v. Option.bind (as_str v) (label_item_from_str (dm_btc E) (rv_parsers V) (dm_network E)))
      (map (json_item C) items) = Some items"
    using assms(2)
    by (intro collect_options_map_read)
      (simp add: param_simps client_ok_texts(1) [OF assms(1)] label_items_ok_def label_item_read [OF assms(1)])
  then show ?thesis
    unfolding embedded_get_labels_def
    by (intro same_read)
      (simp add: lianad_get_labels_def lianad_call_server handle_request_def needs_params_def api_get_labels_def Let_def
        param_simps call_of_outcome_def)
qed

lemma same_update_labels:
  assumes "client_ok C V" "label_items_ok E (map fst items)" "distinct (map fst items)"
    "\<forall>(_, label) \<in> set items. case label of Some s \<Rightarrow> length s \<le> 100 | None \<Rightarrow> True"
  shows "same_call (lianad_update_labels C (lianad_server V E) items) (embedded_update_labels V items)"
proof -
  let ?written = "\<lambda>(item, label). (ce_item_text C item, json_option J_String label)"
  let ?read = "read_label (dm_btc E) (rv_parsers V) (dm_network E)"
  have w: "\<forall>ys. mset (ce_object C ys) = mset ys" using assms(1) by (simp add: client_ok_def)
  have r: "?read (?written x) = Ok x" if "x \<in> set items" for x
  proof -
    obtain item label where x: "x = (item, label)" by (cases x)
    have "as_str (json_option J_String label) = label" by (cases label) (simp_all add: json_option_def)
    moreover have "case item of Label_Address a \<Rightarrow> addr_valid_for (dm_btc E) a (dm_network E) | _ \<Rightarrow> True"
      using that assms(2) x by (force simp: label_items_ok_def)
    ultimately show ?thesis
      using that assms(4) x
      by (auto simp: read_label_def client_ok_texts(1) [OF assms(1)] label_item_read [OF assms(1)] split: option.splits)
  qed
  obtain items' where c: "collect_options (\<lambda>e. case ?read e of Inl _ \<Rightarrow> None | Inr x \<Rightarrow> Some x) (ce_object C (map ?written items)) = Some items'"
    and m: "mset items' = mset items"
    by (rule object_read [OF w, of items "\<lambda>e. case ?read e of Inl _ \<Rightarrow> None | Inr x \<Rightarrow> Some x" ?written]) (simp_all add: r)
  have c': "collect_results ?read (ce_object C (map ?written items)) = Ok items'"
    using c unfolding collect_options_eq_Some collect_results_eq_Inr
    by (rule list.rel_mono_strong) (auto split: sum.splits)
  have "fold (\<lambda>(item, value). hm_insert item value) items' [] = items'"
    using fold_hm_insert [of items' "[]"] distinct_keys_mset [OF m assms(3)] by simp
  moreover have "rv_item_order V items' = rv_item_order V items"
    using assms(1) m unfolding client_ok_def order_ok_def by blast
  ultimately show ?thesis
    unfolding embedded_update_labels_def lianad_update_labels_def
    by (intro same_unit_write)
      (simp add: handle_request_def needs_params_def api_update_labels_def Let_def param_simps c' reply_of_def)
qed

lemma same_get_labels_bip329:
  assumes "offset \<le> U32_MAX" "limit \<le> U32_MAX"
  shows "same_call (lianad_get_labels_bip329 C (lianad_server V E) offset limit) (embedded_get_labels_bip329 V offset limit)"
  unfolding embedded_get_labels_bip329_def
  by (rule same_read)
    (use assms in \<open>simp add: lianad_get_labels_bip329_def lianad_call_server handle_request_def needs_params_def
      api_get_labels_bip329_def param_simps call_of_read_id\<close>)

section \<open>The same daemon\<close>

text \<open>
  The operations of the trait do the same, for arguments that the interface carries: numbers of its width, labels
  of at most 100 bytes on addresses of the network, hash maps, both derivation indexes, a PSBT that is read back.
\<close>

definition same_daemon ::
  "client_env \<Rightarrow> rpc_env \<Rightarrow> ('ms, 'tr, 'cs) daemon \<Rightarrow> ('ms, 'tr, ('ms, 'tr) database) daemon_trait
     \<Rightarrow> ('ms, 'tr, ('ms, 'tr) embedded) daemon_trait \<Rightarrow> bool" where
  "same_daemon C V E L D \<longleftrightarrow>
     same_call (td_get_info L) (td_get_info D) \<and> same_call (td_get_new_address L) (td_get_new_address D) \<and>
     (\<forall>is_change exclude_used limit start_index. (case start_index of Some i \<Rightarrow> i \<le> U32_MAX | None \<Rightarrow> True) \<longrightarrow>
        same_call (td_list_revealed_addresses L is_change exclude_used limit start_index)
          (td_list_revealed_addresses D is_change exclude_used limit start_index)) \<and>
     (\<forall>receive \<le> U32_MAX. \<forall>change \<le> U32_MAX.
        same_call (td_update_deriv_indexes L (Some receive) (Some change)) (td_update_deriv_indexes D (Some receive) (Some change))) \<and>
     (\<forall>statuses outpoints. same_call (td_list_coins L statuses outpoints) (td_list_coins D statuses outpoints)) \<and>
     same_call (td_list_spend_txs L) (td_list_spend_txs D) \<and>
     (\<forall>outpoints destinations feerate_vb change_address.
        distinct (map fst destinations) \<and> (\<forall>(a, amount) \<in> set destinations. amount \<le> I64_MAX) \<longrightarrow>
        same_call (td_create_spend_tx L outpoints destinations feerate_vb change_address)
          (td_create_spend_tx D outpoints destinations feerate_vb change_address)) \<and>
     (\<forall>txid is_cancel feerate_vb. same_call (td_rbf_psbt L txid is_cancel feerate_vb) (td_rbf_psbt D txid is_cancel feerate_vb)) \<and>
     (\<forall>psbt. parse_psbt (rv_parsers V) (ce_psbt_text C psbt) = Some psbt \<longrightarrow>
        same_call (td_update_spend_tx L psbt) (td_update_spend_tx D psbt)) \<and>
     (\<forall>txid. same_call (td_delete_spend_tx L txid) (td_delete_spend_tx D txid)) \<and>
     (\<forall>txid. same_call (td_broadcast_spend_tx L txid) (td_broadcast_spend_tx D txid)) \<and>
     (\<forall>t \<le> U32_MAX. same_call (td_start_rescan L t) (td_start_rescan D t)) \<and>
     (\<forall>start \<le> U32_MAX. \<forall>end \<le> U32_MAX. \<forall>limit \<le> I64_MAX.
        same_call (td_list_confirmed_txs L start end limit) (td_list_confirmed_txs D start end limit)) \<and>
     (\<forall>address outpoints feerate_vb timelock. (case timelock of Some t \<Rightarrow> t \<le> U16_MAX | None \<Rightarrow> True) \<longrightarrow>
        same_call (td_create_recovery L address outpoints feerate_vb timelock) (td_create_recovery D address outpoints feerate_vb timelock)) \<and>
     (\<forall>txids. same_call (td_list_txs L txids) (td_list_txs D txids)) \<and>
     (\<forall>items. label_items_ok E items \<longrightarrow> same_call (td_get_labels L items) (td_get_labels D items)) \<and>
     (\<forall>items. label_items_ok E (map fst items) \<and> distinct (map fst items) \<and>
        (\<forall>(_, label) \<in> set items. case label of Some s \<Rightarrow> length s \<le> 100 | None \<Rightarrow> True) \<longrightarrow>
        same_call (td_update_labels L items) (td_update_labels D items)) \<and>
     (\<forall>offset \<le> U32_MAX. \<forall>limit \<le> U32_MAX. same_call (td_get_labels_bip329 L offset limit) (td_get_labels_bip329 D offset limit))"

lemma lianad_same_daemon:
  assumes "client_ok C V"
  shows "same_daemon C V E (lianad_daemon C (lianad_server V E)) (embedded_daemon V E)"
  unfolding same_daemon_def
  by (simp only: lianad_daemon_def embedded_daemon_def daemon_trait.simps simp_thms)
    (intro conjI allI impI same_get_info same_get_new_address same_list_spend_txs same_list_revealed_addresses
      same_update_deriv_indexes same_list_coins [OF assms] same_create_spend_tx [OF assms] same_rbf_psbt [OF assms]
      same_update_spend_tx same_delete_spend_tx [OF assms] same_broadcast_spend_tx [OF assms] same_start_rescan
      same_list_confirmed_txs same_create_recovery [OF assms] same_list_txs [OF assms] same_get_labels [OF assms]
      same_update_labels [OF assms] same_get_labels_bip329; (elim conjE)?; assumption)

section \<open>An index left out\<close>

lemma as_i64_unsigned_null: "as_i64_unsigned greatest J_Null = None"
  by (simp add: as_i64_unsigned_def)

text \<open>The null that stands for an index left out is refused by the server.\<close>

lemma update_deriv_indexes_null:
  assumes "receive = None \<or> change = None" "case receive of Some r \<Rightarrow> r \<le> U32_MAX | None \<Rightarrow> True"
  shows "lianad_update_deriv_indexes C (lianad_server V E) receive change db =
    (Err (DE_Rpc (-32602) (Text_Of_Rpc (Invalid_Param (if receive = None then ''receive'' else ''change'')))), db)"
  using assms
  by (cases receive; cases change)
    (simp_all add: lianad_update_deriv_indexes_def lianad_call_server handle_request_def needs_params_def
      api_update_deriv_indexes_def param_simps json_option_def as_i64_unsigned_null with_params_def invalid_params_def
      call_of_outcome_def)

end
