(* ===== verification/Gui_Properties.thy ===== *)
theory Gui_Properties
  imports Gui_Panels_Lemmas Gui_Client_Lemmas Api_Properties
begin

text \<open>
  The properties of the graphical wallet: that it is the same over an embedded and an external daemon, that it shows
  the whole history, and what its amounts are.
\<close>

section \<open>The two daemons\<close>


text \<open>An order of the entries of a map that does not depend on how the map was built.\<close>

definition any_order :: "'a list \<Rightarrow> 'a list" where
  "any_order xs = (SOME ys. mset ys = mset xs)"

definition example_client :: client_env where
  "example_client = \<lparr>ce_pid = 7, ce_psbt_text = (\<lambda>_. ''cHNidP8''), ce_item_text = item_text example_parsers, ce_object = rev\<rparr>"

definition example_served :: rpc_env where
  "example_served = example_env\<lparr>rv_order := any_order, rv_item_order := any_order\<rparr>"

lemma any_order_ok: "order_ok any_order"
  by (simp add: order_ok_def any_order_def)

lemma example_client_ok: "client_ok example_client example_served"
proof -
  have "texts_ok example_client (rv_parsers example_served)"
    using example_parsers_ok by (simp add: texts_ok_def example_client_def example_served_def example_env_def)
      (simp add: example_parsers_def)
  then show ?thesis by (simp add: client_ok_def example_client_def) (simp add: example_served_def any_order_ok)
qed


text \<open>With an external daemon, a derivation index left out is sent as a null, which the server refuses: nothing is
  then updated, whereas the embedded daemon updates the index given.\<close>

theorem null_index_refused:
  assumes "receive = None \<or> change = None" "case receive of Some r \<Rightarrow> r \<le> U32_MAX | None \<Rightarrow> True"
  shows "td_update_deriv_indexes (lianad_daemon C (lianad_server V E)) receive change db =
    (Err (DE_Rpc (-32602) (Text_Of_Rpc (Invalid_Param (if receive = None then ''receive'' else ''change'')))), db)"
  by (simp add: lianad_daemon_def update_deriv_indexes_null [OF assms])

theorem null_index_refused_witness:
  "td_update_deriv_indexes (lianad_daemon example_client (lianad_server example_env example_daemon)) (Some 2) None example_db =
     (Err (DE_Rpc (-32602) (Text_Of_Rpc (Invalid_Param ''change''))), example_db) \<and>
   td_update_deriv_indexes (embedded_daemon example_env example_daemon) (Some 2) None (Some example_db) = (Ok (3, 2), Some example_db)"
  using null_index_refused [of "Some 2" None example_client example_env example_daemon example_db]
  by (simp add: embedded_daemon_def embedded_update_deriv_indexes_def embedded_command_def update_deriv_indexes_def
      update_deriv_index_def from_normal_idx_def receive_index_def change_index_def)

section \<open>The history\<close>

text \<open>C15: Opened on the embedded daemon and then extended by pressing its button, the panel of transactions ends with
  the last page after no more presses than there are confirmed transactions, and then shows every one of them.\<close>

theorem history_shown:
  assumes "history_ok E db" "card (dated_txs db) + HISTORY_EVENT_PAGE_SIZE \<le> U64_MAX" "\<not> tp_processing p" "now \<le> U32_MAX"
  shows "\<exists>p1 p' k. open_transactions (dm_btc E) P graphemes (embedded_daemon V E) now (p, Some db) = Some (p1, Some db) \<and>
    see_more_times (dm_btc E) P graphemes (embedded_daemon V E) k (p1, Some db) = Some (p', Some db) \<and>
    k \<le> card (dated_txs db) \<and> tp_is_last_page p' \<and>
    {t. \<exists>d \<le> now. (t, d) \<in> dated_txs db} \<subseteq> ht_txid ` set (tp_txs p')"
  by (rule all_history_shown [OF assms])

lemma example_history_ok: "history_ok example_daemon example_db"
proof -
  have "one_block example_db"
    by (simp add: one_block_def tx_blocks_def List.map_filter_def example_data)
  then show ?thesis
    by (simp add: history_ok_def example_db_inv amounts_ok_def example_data is_normal_def)
qed

lemma example_dated: "dated_txs example_db = {(11, 5000), (13, 5600)}"
  by (auto simp: dated_txs_def event_in_def example_data)

theorem history_shown_witness:
  "\<exists>p1 p' k. open_transactions example_btc example_parsers (\<lambda>_. []) (embedded_daemon example_env example_daemon) 6000
       (transactions_panel_new, Some example_db) = Some (p1, Some example_db) \<and>
     see_more_times example_btc example_parsers (\<lambda>_. []) (embedded_daemon example_env example_daemon) k (p1, Some example_db) =
       Some (p', Some example_db) \<and> k \<le> 2 \<and> tp_is_last_page p' \<and> {11, 13} \<subseteq> ht_txid ` set (tp_txs p')"
proof -
  have "{t. \<exists>d \<le> 6000. (t, d) \<in> dated_txs example_db} = {11, 13}" by (auto simp: example_dated)
  moreover have "card (dated_txs example_db) = 2" by (simp add: example_dated)
  ultimately show ?thesis
    using history_shown [OF example_history_ok, of transactions_panel_new 6000 example_parsers "\<lambda>_. []" example_env]
    by (simp add: HISTORY_EVENT_PAGE_SIZE_def transactions_panel_new_def)
qed

text \<open>A page whose first transaction is not shown yet is appended as it is, so that a transaction of it that
  is shown already is shown twice: this is what follows a page that ends inside a block.\<close>

theorem page_repeats_transaction:
  assumes "hp_txs page \<noteq> []" "ht_txid (hd (hp_txs page)) \<notin> ht_txid ` set (tp_txs p)"
    "h \<in> set (hp_txs page)" "ht_txid h \<in> ht_txid ` set (tp_txs p)"
  shows "\<exists>p'. transactions_update B P graphemes now (History_Extension (Ok page)) p = Some (p', Task_None) \<and>
    \<not> distinct (map ht_txid (tp_txs p'))"
  using extend_by_repeats [OF assms(1,2,4,3)] by (simp add: transactions_update_def)

text \<open>A source of three transactions, two of them of one block, and pages of two.\<close>

definition example_history :: "nat \<Rightarrow> nat \<Rightarrow> history_tx" where
  "example_history txid t = \<lparr>ht_network = 0, ht_labels = Map.empty, ht_coins = [], ht_change_indexes = [0],
     ht_tx = example_tx txid (example_outpoint 1 0) [\<lparr>txo_value = 1000, txo_script = 0\<rparr>], ht_txid = txid, ht_outgoing_amount = 0,
     ht_incoming_amount = 1000, ht_fee_amount = None, ht_height = Some 100, ht_time = Some t,
     ht_kind = Incoming_Single_Payment (example_outpoint txid 0)\<rparr>"

definition example_source :: "nat \<Rightarrow> nat \<Rightarrow> (unit, history_tx list) call" where
  "example_source before limit = (\<lambda>_. (Ok (take limit (filter (\<lambda>h. the (ht_time h) \<le> before)
     [example_history 21 7000, example_history 23 6000, example_history 22 6000])), ()))"

lemma example_history_fields [simp]:
  "ht_txid (example_history t d) = t" "ht_time (example_history t d) = Some d"
  by (simp_all add: example_history_def)

lemma example_order: "compare history_order (example_history t d) (example_history t' d') = then_with (ord_cmp d' d) (ord_cmp t t')"
  by (simp add: history_order.rep_eq history_compare_def)

theorem page_repeats_transaction_witness:
  "\<exists>page1 page2 p1 p2. history_page_by (example_source 8000) 2 () = Some (Ok page1, ()) \<and>
     history_page_by (example_source 6000) 2 () = Some (Ok page2, ()) \<and> map_option hc_time (hp_next_cursor page1) = Some 6000 \<and>
     transactions_update example_btc example_parsers (\<lambda>_. []) 8000 (History_Transactions (Ok page1)) transactions_panel_new = Some (p1, Task_None) \<and>
     transactions_update example_btc example_parsers (\<lambda>_. []) 8000 (History_Extension (Ok page2)) p1 = Some (p2, Task_None) \<and>
     \<not> distinct (map ht_txid (tp_txs p2))"
proof -
  let ?page1 = "\<lparr>hp_txs = [example_history 21 7000, example_history 23 6000], hp_next_cursor = Some \<lparr>hc_time = 6000, hc_txid = 23\<rparr>\<rparr>"
  let ?page2 = "\<lparr>hp_txs = [example_history 22 6000, example_history 23 6000], hp_next_cursor = None\<rparr>"
  let ?p1 = "transactions_panel_new\<lparr>tp_txs := hp_txs ?page1, tp_next_cursor := hp_next_cursor ?page1, tp_is_last_page := False\<rparr>"
  have pages: "history_page_by (example_source 8000) 2 () = Some (Ok ?page1, ())"
    "history_page_by (example_source 6000) 2 () = Some (Ok ?page2, ())"
    by (simp_all add: history_page_by_def example_source_def page_of_def cursor_from_tx_def first_time_def same_block_def
        wrap64_def page_loop.simps [of "\<lambda>limit. example_source 8000 limit"] page_loop.simps example_order)
  have "\<exists>p'. transactions_update example_btc example_parsers (\<lambda>_. []) 8000 (History_Extension (Ok ?page2)) ?p1 = Some (p', Task_None) \<and>
      \<not> distinct (map ht_txid (tp_txs p'))"
    by (rule page_repeats_transaction [where h = "example_history 23 6000"]) (simp_all add: example_history_def)
  then obtain p2 where p2: "transactions_update example_btc example_parsers (\<lambda>_. []) 8000 (History_Extension (Ok ?page2)) ?p1 = Some (p2, Task_None)"
    "\<not> distinct (map ht_txid (tp_txs p2))" by blast
  have p1: "transactions_update example_btc example_parsers (\<lambda>_. []) 8000 (History_Transactions (Ok ?page1)) transactions_panel_new = Some (?p1, Task_None)"
    by (simp add: transactions_update_def transactions_panel_new_def)
  have "map_option hc_time (hp_next_cursor ?page1) = Some 6000" by simp
  with pages p1 p2 show ?thesis by blast
qed

text \<open>Messages handled one after the other, each with the time it comes at.\<close>

fun transactions_updates ::
  "btc \<Rightarrow> parsers \<Rightarrow> (string \<Rightarrow> string list) \<Rightarrow> (nat \<times> transactions_message) list \<Rightarrow> transactions_panel \<Rightarrow> transactions_panel option" where
  "transactions_updates B P graphemes [] p = Some p"
| "transactions_updates B P graphemes ((now, m) # ms) p =
     Option.bind (transactions_update B P graphemes now m p) (\<lambda>(p, _). transactions_updates B P graphemes ms p)"

lemma processing_kept:
  assumes "transactions_update B P graphemes now m p = Some (p', task)" "tp_processing p" "\<forall>page. m \<noteq> History_Extension (Ok page)"
  shows "tp_processing p'"
  using assms
  by (cases m) (auto simp: transactions_update_def transactions_reload_def Let_def map_rbf_modal_def split: sum.splits option.splits transactions_modal.splits if_splits)

text \<open>C20: A page that could not be fetched is not asked for again: whatever happens next, short of the arrival of another
  page, the panel is still waiting and its button is disabled.\<close>

theorem failed_page_never_retried:
  assumes "tp_next_cursor p = Some c"
    "transactions_updates B P graphemes ((n1, Tx_Next) # (n2, History_Extension (Err e)) # ms) p = Some p'"
    "\<forall>(_, m) \<in> set ms. \<forall>page. m \<noteq> History_Extension (Ok page)"
  shows "tp_processing p' \<and> transactions_see_more p' \<noteq> Some (Some Tx_Next)"
proof -
  have kept: "transactions_updates B P graphemes ms q = Some p' \<Longrightarrow> tp_processing q \<Longrightarrow> tp_processing p'" for q
    using assms(3)
  proof (induction ms arbitrary: q)
    case (Cons e ms)
    obtain now m where e: "e = (now, m)" by (cases e)
    then obtain r task where r: "transactions_update B P graphemes now m q = Some (r, task)" "transactions_updates B P graphemes ms r = Some p'"
      using Cons.prems(1) by (auto simp: bind_eq_Some_conv)
    have "tp_processing r" using processing_kept [OF r(1) Cons.prems(2)] Cons.prems(3) e by simp
    with Cons.IH [OF r(2)] Cons.prems(3) show ?case by simp
  qed simp
  then have "tp_processing p'"
    using assms(1,2) by (simp add: transactions_update_def)
  then show ?thesis by (simp add: transactions_see_more_def)
qed

theorem failed_page_never_retried_witness:
  "\<exists>p'. transactions_updates example_btc example_parsers (\<lambda>_. [])
      [(1, Tx_Next), (2, History_Extension (Err (GE_Daemon DE_No_Answer))), (3, Tx_Reload),
       (4, History_Transactions (Ok \<lparr>hp_txs = [example_history 21 7000], hp_next_cursor = Some \<lparr>hc_time = 7000, hc_txid = 21\<rparr>\<rparr>))]
      (transactions_panel_new\<lparr>tp_next_cursor := Some \<lparr>hc_time = 6000, hc_txid = 23\<rparr>\<rparr>) = Some p' \<and>
     tp_txs p' \<noteq> [] \<and> \<not> tp_is_last_page p' \<and> tp_processing p' \<and> transactions_see_more p' \<noteq> Some (Some Tx_Next)"
proof -
  let ?page = "\<lparr>hp_txs = [example_history 21 7000], hp_next_cursor = Some \<lparr>hc_time = 7000, hc_txid = 21\<rparr>\<rparr>"
  let ?p = "transactions_panel_new\<lparr>tp_next_cursor := Some \<lparr>hc_time = 6000, hc_txid = 23\<rparr>\<rparr>"
  let ?p' = "?p\<lparr>tp_processing := True, tp_next_cursor := hp_next_cursor ?page, tp_txs := hp_txs ?page\<rparr>"
  have run: "transactions_updates example_btc example_parsers (\<lambda>_. [])
      [(1, Tx_Next), (2, History_Extension (Err (GE_Daemon DE_No_Answer))), (3, Tx_Reload), (4, History_Transactions (Ok ?page))] ?p = Some ?p'"
    by (simp add: transactions_update_def transactions_reload_def transactions_panel_new_def)
  have "tp_processing ?p' \<and> transactions_see_more ?p' \<noteq> Some (Some Tx_Next)"
    by (rule failed_page_never_retried [OF _ run]) simp_all
  with run show ?thesis by (simp add: transactions_panel_new_def)
qed

section \<open>Amounts\<close>

text \<open>C18: The payments of a transaction add up to its amounts: those received and those to oneself to what it
  brings to the wallet, those sent to what it pays to others, if the wallet is among its inputs.\<close>

theorem payments_amounts:
  assumes "history_new B t height time coins changes network = Some h"
  shows "paid {Pay_Incoming, Pay_Send_To_Self} (payments_from_tx B item_str h) = ht_incoming_amount h \<and>
    paid {Pay_Outgoing} (payments_from_tx B item_str h) = (if coins = [] then 0 else ht_outgoing_amount h) \<and>
    ht_incoming_amount h + ht_outgoing_amount h = sum_list (map txo_value (tx_output t))"
  using payments_amounts_of_tx [OF assms] history_new_amounts [OF assms] own_other_amount [of changes 0 "tx_output t"] by simp

theorem payments_amounts_witness:
  "\<exists>h. history_new example_btc example_spending_tx None None
      [\<lparr>lc_amount = 95000, lc_outpoint = example_outpoint 13 0, lc_address = 2, lc_block_height = Some 101, lc_derivation_index = 1,
        lc_spend_info = Some (14, None), lc_is_immature = False, lc_is_change = False, lc_is_from_self = False\<rparr>] [1] 0 = Some h \<and>
     paid {Pay_Incoming, Pay_Send_To_Self} (payments_from_tx example_btc (item_text example_parsers) h) = 40000 \<and>
     paid {Pay_Outgoing} (payments_from_tx example_btc (item_text example_parsers) h) = 50000 \<and> ht_fee_amount h = Some 5000"
proof -
  let ?coin = "\<lparr>lc_amount = 95000, lc_outpoint = example_outpoint 13 0, lc_address = 2, lc_block_height = Some 101, lc_derivation_index = 1,
        lc_spend_info = Some (14, None), lc_is_immature = False, lc_is_change = False, lc_is_from_self = False\<rparr>"
  obtain h where h: "history_new example_btc example_spending_tx None None [?coin] [1] 0 = Some h"
    "ht_incoming_amount h = 40000" "ht_outgoing_amount h = 50000" "ht_fee_amount h = Some 5000"
    by (simp add: history_new_def example_spending_tx_def example_tx_def checked_add64_def checked_sub_def)
  from payments_amounts [OF h(1), of "item_text example_parsers"] h show ?thesis by auto
qed

text \<open>C19: The balances are the sums of the amounts of the coins that are not spent, those of the wallet (confirmed, or
  from the wallet itself) apart from the others; the coins shown as expiring are the confirmed ones with at most a
  tenth of the timelock left, and the least number of blocks left is shown.\<close>

theorem coins_summary_spec:
  assumes "sum_list (map lc_amount (unspent coins)) \<le> U64_MAX"
  shows "coins_summary coins tip_height timelock = Some (summary_of tip_height timelock coins)"
  using summarise_coins_from [of "[]" coins tip_height timelock] assms
  by (simp add: coins_summary_def) (simp add: summary_of_def unspent_def confirmed_unspent_def least_of_def)

theorem coins_summary_spec_witness:
  "coins_summary
     [\<lparr>lc_amount = 100000, lc_outpoint = example_outpoint 11 0, lc_address = 0, lc_block_height = Some 100, lc_derivation_index = 0,
        lc_spend_info = None, lc_is_immature = False, lc_is_change = False, lc_is_from_self = False\<rparr>,
      \<lparr>lc_amount = 7000, lc_outpoint = example_outpoint 15 0, lc_address = 4, lc_block_height = None, lc_derivation_index = 2,
        lc_spend_info = None, lc_is_immature = False, lc_is_change = False, lc_is_from_self = False\<rparr>] 195 100 =
   Some \<lparr>ct_balance = 100000, ct_unconfirmed_balance = 7000, ct_expiring_coins = [example_outpoint 11 0], ct_remaining_seq = Some 5\<rparr>"
proof -
  note spec = coins_summary_spec [of "[\<lparr>lc_amount = 100000, lc_outpoint = example_outpoint 11 0, lc_address = 0, lc_block_height = Some 100,
       lc_derivation_index = 0, lc_spend_info = None, lc_is_immature = False, lc_is_change = False, lc_is_from_self = False\<rparr>,
      \<lparr>lc_amount = 7000, lc_outpoint = example_outpoint 15 0, lc_address = 4, lc_block_height = None, lc_derivation_index = 2,
        lc_spend_info = None, lc_is_immature = False, lc_is_change = False, lc_is_from_self = False\<rparr>]" 195 100]
  show ?thesis
    by (subst spec) (simp_all add: unspent_def summary_of_def confirmed_unspent_def coin_is_owned_def remaining_sequence_def
        i32_as_u32_def least_of_def)
qed

end
