(* ===== verification/Gui_Psbt.thy ===== *)
theory Gui_Psbt
  imports Gui_Panels
begin

text \<open>
  A draft on the screen and what is done of it (\<open>liana-gui/src/app/state/psbt.rs\<close>, \<open>psbts.rs\<close>, and the
  import of a PSBT of \<open>export.rs\<close>): it is saved, signed on devices or by the key of the wallet, broadcast or
  deleted, each in a modal; and the panel that lists the drafts. The files of exports, the refresh of the list of
  devices and the devices themselves are not modelled: they are messages and parameters.
\<close>

section \<open>Signatures\<close>

definition merge_signatures_input :: "psbt_in \<Rightarrow> psbt_in \<Rightarrow> psbt_in" where
  "merge_signatures_input psbtin signed_psbtin = psbtin\<lparr>
     partial_sigs := bt_extend (partial_sigs psbtin) (partial_sigs signed_psbtin),
     tap_script_sigs := bt_extend (tap_script_sigs psbtin) (tap_script_sigs signed_psbtin),
     tap_key_sig := (case tap_key_sig signed_psbtin of Some sig \<Rightarrow> Some sig | None \<Rightarrow> tap_key_sig psbtin)\<rparr>"

fun merge_inputs :: "psbt_in list \<Rightarrow> psbt_in list \<Rightarrow> psbt_in list" where
  "merge_inputs (psbtin # psbtins) (signed_psbtin # signed_psbtins) =
     merge_signatures_input psbtin signed_psbtin # merge_inputs psbtins signed_psbtins"
| "merge_inputs psbtins _ = psbtins"

definition merge_signatures :: "psbt \<Rightarrow> psbt \<Rightarrow> psbt" where
  "merge_signatures psbt signed_psbt = psbt\<lparr>psbt_inputs := merge_inputs (psbt_inputs psbt) (psbt_inputs signed_psbt)\<rparr>"

text \<open>
  A device signs a PSBT. A BitBox02 is given the PSBT pruned to the last available path, and its signatures are
  brought back to the one that was not.
\<close>

datatype device_kind = Device_BitBox02 | Device_Other nat

definition sign_psbt ::
  "('ms, 'tr) miniscript \<Rightarrow> btc \<Rightarrow> ('ms, 'tr) liana_descriptor \<Rightarrow> (psbt \<Rightarrow> gui_error + psbt) \<Rightarrow> device_kind \<Rightarrow> psbt \<Rightarrow> gui_error + psbt" where
  "sign_psbt M B desc sign_tx kind psbt =
     (if kind = Device_BitBox02 then
        rbind (map_err GE_Desc (prune_bip32_derivs_last_avail B M desc psbt)) (\<lambda>pruned_psbt.
        rbind (sign_tx pruned_psbt) (\<lambda>signed_psbt. Ok (merge_signatures psbt signed_psbt)))
      else sign_tx psbt)"

text \<open>The key of the wallet, if it is loaded, with its fingerprint; the default one is zero.\<close>

definition sign_psbt_with_hot_signer ::
  "(fingerprint \<times> (psbt \<Rightarrow> nat + psbt)) option \<Rightarrow> psbt \<Rightarrow> fingerprint \<times> (gui_error + psbt)" where
  "sign_psbt_with_hot_signer signer psbt = (case signer of
     Some (fg, sign) \<Rightarrow> (fg, map_err (\<lambda>e. GE_Hot_Signer (Some e)) (sign psbt))
   | None \<Rightarrow> (0, Err (GE_Hot_Signer None)))"

section \<open>The state of a draft\<close>

datatype hardware_wallet = HW_Supported fingerprint device_kind nat | HW_Unsupported nat | HW_Locked nat

record save_modal =
  sv_saved :: bool
  sv_error :: "gui_error option"

record broadcast_modal =
  bc_broadcast :: bool
  bc_error :: "gui_error option"
  bc_conflicting_txids :: "txid list"

record delete_modal =
  dl_deleted :: bool
  dl_error :: "gui_error option"

record sign_modal =
  sm_hws :: "hardware_wallet list"
  sm_error :: "gui_error option"
  sm_signing :: "fingerprint set"
  sm_signed :: "fingerprint set"
  sm_is_saved :: bool
  sm_display_modal :: bool
  sm_recovery_timelock :: "nat option"

datatype export_kind = Export_Psbt psbt | Import_Psbt "txid option"

datatype psbt_modal = Modal_Save save_modal | Modal_Sign sign_modal | Modal_Broadcast broadcast_modal
  | Modal_Delete delete_modal | Modal_Export_Psbt export_kind

record psbt_state =
  ps_tx :: gui_spend_tx
  ps_saved :: bool
  ps_warning :: "gui_error option"
  ps_labels_edited :: labels_edited
  ps_modal :: "psbt_modal option"

definition psbt_state_new :: "gui_spend_tx \<Rightarrow> bool \<Rightarrow> psbt_state" where
  "psbt_state_new spend saved = \<lparr>ps_tx = spend, ps_saved = saved, ps_warning = None, ps_labels_edited = Map.empty, ps_modal = None\<rparr>"

definition psbt_interrupt :: "psbt_state \<Rightarrow> psbt_state" where
  "psbt_interrupt p = p\<lparr>ps_modal := None\<rparr>"

definition sign_modal_new :: "fingerprint set \<Rightarrow> bool \<Rightarrow> nat option \<Rightarrow> sign_modal" where
  "sign_modal_new already is_saved timelock = \<lparr>sm_hws = [], sm_error = None, sm_signing = {}, sm_signed = already,
     sm_is_saved = is_saved, sm_display_modal = True, sm_recovery_timelock = timelock\<rparr>"

datatype psbt_message =
  Ps_Export | Ps_Import | Ps_Export_Close | Ps_Cancel | Ps_Delete | Ps_Sign | Ps_Broadcast | Ps_Save | Ps_Confirm
  | Ps_Label "string list" label_message | Ps_Labels_Updated "gui_error + (string \<times> string option) list"
  | Ps_Updated "gui_error + unit" | Ps_Broadcast_Modal "gui_error + txid list" | Ps_Imported psbt
  | Ps_Select_Device nat | Ps_Select_Hot_Signer | Ps_Signed fingerprint "gui_error + psbt"
  | Ps_Hardware "gui_error + hardware_wallet list" | Ps_Other

datatype psbt_task = Pt_None | Pt_Launch_Export export_kind | Pt_Conflicts "outpoint list"
  | Pt_Update psbt "(label_item \<times> string option) list option" | Pt_Broadcast txid | Pt_Delete txid
  | Pt_Sign fingerprint device_kind nat psbt | Pt_Sign_Hot psbt
  | Pt_Save_Labels "(label_item \<times> string option) list" "(string \<times> string option) list"

text \<open>
  What an update reads: the descriptor of the wallet, the parsers, the height of the cache, and the entries of
  a hash map of labels in the order they are iterated.
\<close>

record ('ms, 'tr) psbt_env =
  pe_btc :: btc
  pe_ms :: "('ms, 'tr) miniscript"
  pe_descriptor :: "('ms, 'tr) liana_descriptor"
  pe_parsers :: parsers
  pe_graphemes :: "string \<Rightarrow> string list"
  pe_blockheight :: int
  pe_entries :: "labels_map \<Rightarrow> (string \<times> string) list"

definition psbt_txid :: "btc \<Rightarrow> gui_spend_tx \<Rightarrow> txid" where
  "psbt_txid B spend = compute_txid B (unsigned_tx (st_psbt spend))"

text \<open>The labels of a draft that are saved with it; \<open>None\<close> is a panic.\<close>

definition draft_labels :: "('ms, 'tr) psbt_env \<Rightarrow> gui_spend_tx \<Rightarrow> (label_item \<times> string option) list option" where
  "draft_labels E spend =
     map_option (\<lambda>labels. fold (\<lambda>(item, label). hm_insert item label) labels [])
       (collect_options (\<lambda>(s, label). map_option (\<lambda>item. (item, Some label)) (gui_label_item_from_str (pe_parsers E) s))
         (filter (\<lambda>(_, label). label \<noteq> []) (pe_entries E (st_labels spend))))"

section \<open>The modals\<close>

type_synonym 'a modal_result = "('a \<times> gui_spend_tx \<times> psbt_task) option"

definition save_update :: "('ms, 'tr) psbt_env \<Rightarrow> psbt_message \<Rightarrow> gui_spend_tx \<Rightarrow> save_modal \<Rightarrow> save_modal modal_result" where
  "save_update E m spend modal = (case m of
     Ps_Confirm \<Rightarrow> map_option (\<lambda>labels. (modal, spend, Pt_Update (st_psbt spend) (Some labels))) (draft_labels E spend)
   | Ps_Updated (Inr _) \<Rightarrow> Some (modal\<lparr>sv_saved := True\<rparr>, spend, Pt_None)
   | Ps_Updated (Inl e) \<Rightarrow> Some (modal\<lparr>sv_error := Some e\<rparr>, spend, Pt_None)
   | _ \<Rightarrow> Some (modal, spend, Pt_None))"

definition broadcast_update :: "('ms, 'tr) psbt_env \<Rightarrow> psbt_message \<Rightarrow> gui_spend_tx \<Rightarrow> broadcast_modal \<Rightarrow> broadcast_modal modal_result" where
  "broadcast_update E m spend modal = (case m of
     Ps_Confirm \<Rightarrow> Some (modal\<lparr>bc_error := None\<rparr>, spend, Pt_Broadcast (psbt_txid (pe_btc E) spend))
   | Ps_Updated (Inr _) \<Rightarrow> Some (modal\<lparr>bc_broadcast := True\<rparr>, spend\<lparr>st_status := Broadcast\<rparr>, Pt_None)
   | Ps_Updated (Inl e) \<Rightarrow> Some (modal\<lparr>bc_error := Some e\<rparr>, spend, Pt_None)
   | _ \<Rightarrow> Some (modal, spend, Pt_None))"

definition delete_update :: "('ms, 'tr) psbt_env \<Rightarrow> psbt_message \<Rightarrow> gui_spend_tx \<Rightarrow> delete_modal \<Rightarrow> delete_modal modal_result" where
  "delete_update E m spend modal = (case m of
     Ps_Confirm \<Rightarrow> Some (modal\<lparr>dl_error := None\<rparr>, spend, Pt_Delete (psbt_txid (pe_btc E) spend))
   | Ps_Updated (Inr _) \<Rightarrow> Some (modal\<lparr>dl_deleted := True\<rparr>, spend, Pt_None)
   | Ps_Updated (Inl e) \<Rightarrow> Some (modal\<lparr>dl_error := Some e\<rparr>, spend, Pt_None)
   | _ \<Rightarrow> Some (modal, spend, Pt_None))"

definition sign_update :: "('ms, 'tr) psbt_env \<Rightarrow> psbt_message \<Rightarrow> gui_spend_tx \<Rightarrow> sign_modal \<Rightarrow> sign_modal modal_result" where
  "sign_update E m spend modal = (case m of
     Ps_Select_Device i \<Rightarrow>
       (if i < length (sm_hws modal) then
          (case sm_hws modal ! i of
             HW_Supported fg kind device \<Rightarrow>
               Some (modal\<lparr>sm_display_modal := False, sm_signing := insert fg (sm_signing modal)\<rparr>, spend,
                 Pt_Sign fg kind device (st_psbt spend))
           | _ \<Rightarrow> Some (modal, spend, Pt_None))
        else Some (modal, spend, Pt_None))
   | Ps_Select_Hot_Signer \<Rightarrow> Some (modal, spend, Pt_Sign_Hot (st_psbt spend))
   | Ps_Signed fg res \<Rightarrow>
       (let modal = modal\<lparr>sm_signing := sm_signing modal - {fg}\<rparr> in
        case res of
          Inl e \<Rightarrow>
            Some (modal\<lparr>sm_display_modal := True, sm_error := (if e = GE_User_Refused then sm_error modal else Some e)\<rparr>, spend, Pt_None)
        | Inr psbt \<Rightarrow>
            (let modal = modal\<lparr>sm_error := None, sm_signed := insert fg (sm_signed modal)\<rparr>;
                 spend = spend\<lparr>st_psbt := merge_signatures (st_psbt spend) psbt\<rparr>
             in if sm_is_saved modal then Some (modal, spend, Pt_Update psbt None)
                else map_option (\<lambda>labels. (modal, spend, Pt_Update psbt (Some labels))) (draft_labels E spend)))
   | Ps_Updated (Inr _) \<Rightarrow>
       (case partial_spend_info (pe_btc E) (pe_ms E) (pe_descriptor E) (st_psbt spend) of
          Inr sigs \<Rightarrow> Some (modal, spend\<lparr>st_sigs := sigs\<rparr>, Pt_None)
        | Inl DescPanic \<Rightarrow> None
        | Inl e \<Rightarrow> Some (modal\<lparr>sm_error := Some (GE_Unexpected_Desc e)\<rparr>, spend, Pt_None))
   | Ps_Updated (Inl e) \<Rightarrow> Some (modal\<lparr>sm_error := Some e\<rparr>, spend, Pt_None)
   | Ps_Hardware (Inr hws) \<Rightarrow> Some (modal\<lparr>sm_hws := hws\<rparr>, spend, Pt_None)
   | Ps_Hardware (Inl e) \<Rightarrow> Some (modal\<lparr>sm_error := Some e\<rparr>, spend, Pt_None)
   | _ \<Rightarrow> Some (modal, spend, Pt_None))"

definition modal_update :: "('ms, 'tr) psbt_env \<Rightarrow> psbt_message \<Rightarrow> gui_spend_tx \<Rightarrow> psbt_modal \<Rightarrow> psbt_modal modal_result" where
  "modal_update E m spend modal = (case modal of
     Modal_Save a \<Rightarrow> map_option (\<lambda>(a, r). (Modal_Save a, r)) (save_update E m spend a)
   | Modal_Sign a \<Rightarrow> map_option (\<lambda>(a, r). (Modal_Sign a, r)) (sign_update E m spend a)
   | Modal_Broadcast a \<Rightarrow> map_option (\<lambda>(a, r). (Modal_Broadcast a, r)) (broadcast_update E m spend a)
   | Modal_Delete a \<Rightarrow> map_option (\<lambda>(a, r). (Modal_Delete a, r)) (delete_update E m spend a)
   | Modal_Export_Psbt k \<Rightarrow> Some (modal, spend, Pt_None))"

text \<open>What the modal does of a message, or nothing when there is none.\<close>

definition pass_to_modal :: "('ms, 'tr) psbt_env \<Rightarrow> psbt_message \<Rightarrow> psbt_state \<Rightarrow> (psbt_state \<times> psbt_task) option" where
  "pass_to_modal E m p = (case ps_modal p of
     None \<Rightarrow> Some (p, Pt_None)
   | Some modal \<Rightarrow>
       map_option (\<lambda>(modal, spend, task). (p\<lparr>ps_modal := Some modal, ps_tx := spend\<rparr>, task)) (modal_update E m (ps_tx p) modal))"

section \<open>The update of a draft\<close>

text \<open>A modal of signature that is not shown is removed once the draft was updated.\<close>

definition drop_hidden_sign :: "psbt_state \<Rightarrow> psbt_state" where
  "drop_hidden_sign p = (case ps_modal p of
     Some (Modal_Sign modal) \<Rightarrow> (if sm_display_modal modal then p else p\<lparr>ps_modal := None\<rparr>)
   | _ \<Rightarrow> p)"

text \<open>A draft updated: the modal hears of it, the status is computed again unless it was broadcast.\<close>

definition after_update :: "('ms, 'tr) psbt_env \<Rightarrow> psbt_state \<Rightarrow> (psbt_state \<times> psbt_task) option" where
  "after_update E p =
     (let p = p\<lparr>ps_saved := True\<rparr> in
      if ps_modal p = None then Some (p, Pt_None)
      else
        Option.bind (pass_to_modal E (Ps_Updated (Ok ())) p) (\<lambda>(p, task).
        Option.bind (if st_status (ps_tx p) = Broadcast then Some (ps_tx p)
            else refresh_status (pe_btc E) (pe_ms E) (pe_descriptor E) (pe_blockheight E) (ps_tx p)) (\<lambda>spend.
        Some (drop_hidden_sign (p\<lparr>ps_tx := spend\<rparr>), task))))"

definition psbt_update :: "('ms, 'tr) psbt_env \<Rightarrow> psbt_message \<Rightarrow> psbt_state \<Rightarrow> (psbt_state \<times> psbt_task) option" where
  "psbt_update E m p = (case m of
     Ps_Export \<Rightarrow>
       (if ps_modal p = None then
          (let k = Export_Psbt (st_psbt (ps_tx p)) in Some (p\<lparr>ps_modal := Some (Modal_Export_Psbt k)\<rparr>, Pt_Launch_Export k))
        else Some (p, Pt_None))
   | Ps_Import \<Rightarrow>
       (if ps_modal p = None then
          (let k = Import_Psbt (Some (psbt_txid (pe_btc E) (ps_tx p))) in Some (p\<lparr>ps_modal := Some (Modal_Export_Psbt k)\<rparr>, Pt_Launch_Export k))
        else Some (p, Pt_None))
   | Ps_Export_Close \<Rightarrow> Some (case ps_modal p of Some (Modal_Export_Psbt _) \<Rightarrow> p\<lparr>ps_modal := None\<rparr> | _ \<Rightarrow> p, Pt_None)
   | Ps_Cancel \<Rightarrow>
       (case ps_modal p of
          Some (Modal_Sign modal) \<Rightarrow>
            Some (if sm_signing modal \<noteq> {} then p\<lparr>ps_modal := Some (Modal_Sign (modal\<lparr>sm_display_modal := False\<rparr>))\<rparr>
              else p\<lparr>ps_modal := None\<rparr>, Pt_None)
        | _ \<Rightarrow> Some (p\<lparr>ps_modal := None\<rparr>, Pt_None))
   | Ps_Delete \<Rightarrow> Some (p\<lparr>ps_modal := Some (Modal_Delete \<lparr>dl_deleted = False, dl_error = None\<rparr>)\<rparr>, Pt_None)
   | Ps_Sign \<Rightarrow>
       Some (p\<lparr>ps_modal := Some (Modal_Sign (case ps_modal p of
          Some (Modal_Sign modal) \<Rightarrow> modal\<lparr>sm_display_modal := True\<rparr>
        | _ \<Rightarrow> sign_modal_new (spend_signers (ps_tx p)) (ps_saved p) (recovery_timelock (ps_tx p))))\<rparr>, Pt_None)
   | Ps_Broadcast \<Rightarrow> Some (p, Pt_Conflicts (map fst (st_coins (ps_tx p))))
   | Ps_Save \<Rightarrow> Some (p\<lparr>ps_modal := Some (Modal_Save \<lparr>sv_saved = False, sv_error = None\<rparr>)\<rparr>, Pt_None)
   | Ps_Label items lm \<Rightarrow>
       map_option (\<lambda>(edited, save). (p\<lparr>ps_labels_edited := edited\<rparr>,
           case save of None \<Rightarrow> Pt_None | Some (updated, updated_str) \<Rightarrow> Pt_Save_Labels updated updated_str))
         (labels_update (pe_graphemes E) (pe_parsers E) items lm (ps_labels_edited p))
   | Ps_Labels_Updated (Inr new_labels) \<Rightarrow>
       map_option (\<lambda>items.
           (p\<lparr>ps_tx := (ps_tx p)\<lparr>st_labels := load_labels (item_text (pe_parsers E)) (map_of new_labels) items (st_labels (ps_tx p))\<rparr>,
              ps_labels_edited := labels_updated new_labels (ps_labels_edited p)\<rparr>, Pt_None))
         (spend_labelled (pe_btc E) (ps_tx p))
   | Ps_Labels_Updated (Inl e) \<Rightarrow> Some (p\<lparr>ps_warning := Some e\<rparr>, Pt_None)
   | Ps_Updated (Inr _) \<Rightarrow> after_update E p
   | Ps_Broadcast_Modal (Inr conflicting_txids) \<Rightarrow>
       Some (p\<lparr>ps_modal := Some (Modal_Broadcast \<lparr>bc_broadcast = False, bc_error = None, bc_conflicting_txids = conflicting_txids\<rparr>)\<rparr>, Pt_None)
   | Ps_Broadcast_Modal (Inl e) \<Rightarrow> Some (p\<lparr>ps_warning := Some e\<rparr>, Pt_None)
   | Ps_Imported psbt \<Rightarrow>
       (let spend = (ps_tx p)\<lparr>st_psbt := merge_signatures (st_psbt (ps_tx p)) psbt\<rparr> in
        case partial_spend_info (pe_btc E) (pe_ms E) (pe_descriptor E) (st_psbt spend) of
          Inl _ \<Rightarrow> None
        | Inr sigs \<Rightarrow>
            map_option (\<lambda>spend. (p\<lparr>ps_tx := spend\<rparr>, Pt_None))
              (refresh_status (pe_btc E) (pe_ms E) (pe_descriptor E) (pe_blockheight E) (spend\<lparr>st_sigs := sigs\<rparr>)))
   | _ \<Rightarrow> pass_to_modal E m p)"

section \<open>The tasks\<close>

record psbt_world =
  pw_sign :: "nat \<Rightarrow> psbt \<Rightarrow> gui_error + psbt"
  pw_hot_signer :: "(fingerprint \<times> (psbt \<Rightarrow> nat + psbt)) option"

definition update_draft :: "('ms, 'tr, 'd) daemon_trait \<Rightarrow> psbt \<Rightarrow> (label_item \<times> string option) list option \<Rightarrow> ('d, unit) call" where
  "update_draft T psbt labels =
     call_bind (td_update_spend_tx T psbt) (\<lambda>_.
     case labels of None \<Rightarrow> call_return () | Some labels \<Rightarrow> td_update_labels T labels)"

definition psbt_run ::
  "('ms, 'tr) psbt_env \<Rightarrow> psbt_world \<Rightarrow> ('ms, 'tr, 'd) daemon_trait \<Rightarrow> psbt_task \<Rightarrow> 'd \<Rightarrow> psbt_message \<times> 'd" where
  "psbt_run E W T task d = (case task of
     Pt_None \<Rightarrow> (Ps_Other, d)
   | Pt_Launch_Export _ \<Rightarrow> (Ps_Other, d)
   | Pt_Conflicts outpoints \<Rightarrow>
       (let (r, d) = gui_call (td_list_coins T [St_Spending] outpoints) d in (Ps_Broadcast_Modal (map_sum id descendant_txids r), d))
   | Pt_Update psbt labels \<Rightarrow> (let (r, d) = gui_call (update_draft T psbt labels) d in (Ps_Updated r, d))
   | Pt_Broadcast txid \<Rightarrow> (let (r, d) = gui_call (td_broadcast_spend_tx T txid) d in (Ps_Updated r, d))
   | Pt_Delete txid \<Rightarrow> (let (r, d) = gui_call (td_delete_spend_tx T txid) d in (Ps_Updated r, d))
   | Pt_Sign fg kind device psbt \<Rightarrow> (Ps_Signed fg (sign_psbt (pe_ms E) (pe_btc E) (pe_descriptor E) (pw_sign W device) kind psbt), d)
   | Pt_Sign_Hot psbt \<Rightarrow> (let (fg, r) = sign_psbt_with_hot_signer (pw_hot_signer W) psbt in (Ps_Signed fg r, d))
   | Pt_Save_Labels updated updated_str \<Rightarrow>
       (let (r, d) = save_labels_task T updated updated_str d in (Ps_Labels_Updated r, d)))"

section \<open>Import of a PSBT\<close>

datatype import_error = Import_Parse | Import_Insane | Import_Txid_Mismatch | Import_Not_Owned | Import_Daemon daemon_error

text \<open>
  \<open>parsed\<close> is what the text of the file is read as. An error of the daemon is looked at by its text.
  The result is the PSBT that the modal then passes on.
\<close>

definition import_psbt ::
  "btc \<Rightarrow> ('ms, 'tr) miniscript \<Rightarrow> ('ms, 'tr, 'd) daemon_trait \<Rightarrow> psbt option \<Rightarrow> txid option \<Rightarrow> 'd \<Rightarrow> (import_error + psbt) \<times> 'd" where
  "import_psbt B M T parsed txid d = (case td_get_info T d of
     (Inl e, d) \<Rightarrow> (Err (Import_Daemon e), d)
   | (Inr info, d) \<Rightarrow>
       (case parsed of
          None \<Rightarrow> (Err Import_Parse, d)
        | Some psbt \<Rightarrow>
            (case partial_spend_info B M (gi_main_descriptor info) psbt of
               Inl DescPanic \<Rightarrow> (Err (Import_Daemon DE_Panic), d)
             | Inl _ \<Rightarrow> (Err Import_Insane, d)
             | Inr _ \<Rightarrow>
                 (if txid \<noteq> None \<and> Some (compute_txid B (unsigned_tx psbt)) \<noteq> txid then (Err Import_Txid_Mismatch, d)
                  else
                    (case td_update_spend_tx T psbt d of
                       (Inr _, d) \<Rightarrow> (Ok psbt, d)
                     | (Inl e, d) \<Rightarrow>
                         (if txid \<noteq> None then (Err (Import_Daemon e), d)
                          else
                            (case e of
                               DE_Unexpected (Text_Of_Command (UnknownOutpoint _)) \<Rightarrow> (Err Import_Not_Owned, d)
                             | DE_Unexpected _ \<Rightarrow> (Err (Import_Daemon e), d)
                             | DE_Panic \<Rightarrow> (Err (Import_Daemon e), d)
                             | _ \<Rightarrow> (Ok psbt, d))))))))"

section \<open>The panel of the drafts\<close>

record psbts_panel =
  dft_selected_tx :: "psbt_state option"
  dft_spend_txs :: "gui_spend_tx list"
  dft_warning :: "gui_error option"
  dft_modal :: "export_kind option"
  dft_hide_confirmed :: bool

definition psbts_panel_new :: psbts_panel where
  "psbts_panel_new = \<lparr>dft_selected_tx = None, dft_spend_txs = [], dft_warning = None, dft_modal = None, dft_hide_confirmed = True\<rparr>"

definition psbts_preselect :: "gui_spend_tx \<Rightarrow> psbts_panel \<Rightarrow> psbts_panel" where
  "psbts_preselect spend p = p\<lparr>dft_selected_tx := Some (psbt_state_new spend True), dft_warning := None, dft_modal := None\<rparr>"

definition psbts_interrupt :: "psbts_panel \<Rightarrow> psbts_panel" where
  "psbts_interrupt p = p\<lparr>dft_selected_tx := None\<rparr>"

datatype psbts_message = Pl_Reload | Pl_Close | Pl_Spend_Txs "gui_error + gui_spend_tx list" | Pl_Toggle_Confirmed | Pl_Select nat
  | Pl_Draft psbt_message

datatype psbts_task = Pl_None | Pl_List_Drafts | Pl_Ask_Reload | Pl_Launch_Import | Pl_Draft_Task psbt_task

definition psbts_reload :: "psbts_panel \<Rightarrow> psbts_panel \<times> psbts_task" where
  "psbts_reload p = (p\<lparr>dft_selected_tx := None, dft_modal := None\<rparr>, Pl_List_Drafts)"

definition psbts_draft :: "('ms, 'tr) psbt_env \<Rightarrow> psbt_message \<Rightarrow> psbt_state \<Rightarrow> psbts_panel \<Rightarrow> (psbts_panel \<times> psbts_task) option" where
  "psbts_draft E m ps p = map_option (\<lambda>(ps, task). (p\<lparr>dft_selected_tx := Some ps\<rparr>, Pl_Draft_Task task)) (psbt_update E m ps)"

definition psbts_update :: "('ms, 'tr) psbt_env \<Rightarrow> psbts_message \<Rightarrow> psbts_panel \<Rightarrow> (psbts_panel \<times> psbts_task) option" where
  "psbts_update E m p = (case m of
     Pl_Reload \<Rightarrow> Some (psbts_reload p)
   | Pl_Close \<Rightarrow> Some (psbts_reload p)
   | Pl_Spend_Txs (Inl e) \<Rightarrow> Some (p\<lparr>dft_warning := Some e\<rparr>, Pl_None)
   | Pl_Spend_Txs (Inr txs) \<Rightarrow>
       (let p = p\<lparr>dft_warning := None, dft_spend_txs := txs\<rparr> in
        Some (case dft_selected_tx p of
            None \<Rightarrow> p
          | Some ps \<Rightarrow>
              (case List.find (\<lambda>spend. psbt_txid (pe_btc E) spend = psbt_txid (pe_btc E) (ps_tx ps)) txs of
                 None \<Rightarrow> p
               | Some spend \<Rightarrow> p\<lparr>dft_selected_tx := Some (psbt_state_new spend True)\<rparr>), Pl_None))
   | Pl_Toggle_Confirmed \<Rightarrow> Some (p\<lparr>dft_hide_confirmed := \<not> dft_hide_confirmed p\<rparr>, Pl_None)
   | Pl_Select i \<Rightarrow>
       Some (if i < length (dft_spend_txs p) then p\<lparr>dft_selected_tx := Some (psbt_state_new (dft_spend_txs p ! i) True)\<rparr> else p, Pl_None)
   | Pl_Draft pm \<Rightarrow>
       (case dft_selected_tx p of
          Some ps \<Rightarrow> psbts_draft E pm ps p
        | None \<Rightarrow>
            Some (case pm of
                Ps_Import \<Rightarrow> (if dft_modal p = None then (p\<lparr>dft_modal := Some (Import_Psbt None)\<rparr>, Pl_Launch_Import) else (p, Pl_None))
              | Ps_Export_Close \<Rightarrow> (if dft_modal p \<noteq> None then (p\<lparr>dft_modal := None\<rparr>, Pl_Ask_Reload) else (p, Pl_None))
              | _ \<Rightarrow> (p, Pl_None))))"

end
