(* ===== verification/Gui_Psbt_Lemmas.thy ===== *)
theory Gui_Psbt_Lemmas
  imports Gui_Psbt Update_Commands Gui_Client_Lemmas
begin

text \<open>
  What becomes of the signatures of a draft: none is lost on the screen, and a signature just made reaches the
  database, which then has the signatures that the screen shows.
\<close>

section \<open>Signatures on the screen\<close>

lemma fst_set_bt_extend: "fst ` set (bt_extend m kvs) = fst ` set m \<union> fst ` set kvs"
proof (induction kvs arbitrary: m)
  case (Cons kv kvs)
  obtain k v where kv: "kv = (k, v)" by (cases kv)
  have "bt_extend m (kv # kvs) = bt_extend (bt_insert k v m) kvs" by (simp add: bt_extend_def kv)
  then show ?case using Cons.IH [of "bt_insert k v m"] by (simp add: fst_set_bt_insert kv)
qed (simp add: bt_extend_def)

text \<open>The same input, with at least the same signatures.\<close>

definition input_signed_more :: "psbt_in \<Rightarrow> psbt_in \<Rightarrow> bool" where
  "input_signed_more a b \<longleftrightarrow> fst ` set (partial_sigs a) \<subseteq> fst ` set (partial_sigs b) \<and>
     fst ` set (tap_script_sigs a) \<subseteq> fst ` set (tap_script_sigs b) \<and> (tap_key_sig a \<noteq> None \<longrightarrow> tap_key_sig b \<noteq> None) \<and>
     witness_utxo a = witness_utxo b \<and> bip32_derivation a = bip32_derivation b \<and> tap_key_origins a = tap_key_origins b"

definition signed_more :: "psbt \<Rightarrow> psbt \<Rightarrow> bool" where
  "signed_more p q \<longleftrightarrow> unsigned_tx p = unsigned_tx q \<and> psbt_outputs p = psbt_outputs q \<and>
     list_all2 input_signed_more (psbt_inputs p) (psbt_inputs q)"

lemma input_signed_more_refl [simp]: "input_signed_more a a"
  by (simp add: input_signed_more_def)

lemma signed_more_refl [simp]: "signed_more p p"
  by (simp add: signed_more_def list_all2_same)

lemma merge_inputs_more: "list_all2 input_signed_more ins (merge_inputs ins signed_ins)"
  by (induction ins signed_ins rule: merge_inputs.induct)
    (auto simp: list_all2_same input_signed_more_def merge_signatures_input_def fst_set_bt_extend split: option.splits)

lemma merge_signatures_more: "signed_more p (merge_signatures p q)"
  by (simp add: signed_more_def merge_signatures_def merge_inputs_more)

lemma refresh_status_psbt: "refresh_status B M desc h spend = Some spend' \<Longrightarrow> st_psbt spend' = st_psbt spend"
  by (auto simp: refresh_status_def)

lemma modal_update_more:
  assumes "modal_update E m spend modal = Some (modal', spend', task)"
  shows "signed_more (st_psbt spend) (st_psbt spend')"
proof (cases modal)
  case (Modal_Sign a)
  then have "\<exists>a'. sign_update E m spend a = Some (a', spend', task)" using assms by (auto simp: modal_update_def)
  then show ?thesis
    by (auto simp: sign_update_def Let_def merge_signatures_more
        split: psbt_message.splits sum.splits if_splits hardware_wallet.splits liana_desc_error.splits)
qed (use assms in \<open>auto simp: modal_update_def save_update_def broadcast_update_def delete_update_def
    split: psbt_message.splits sum.splits\<close>)

lemma pass_to_modal_more:
  "pass_to_modal E m p = Some (p', task) \<Longrightarrow> signed_more (st_psbt (ps_tx p)) (st_psbt (ps_tx p'))"
  by (auto simp: pass_to_modal_def modal_update_more split: option.splits)

lemma drop_hidden_sign_tx [simp]: "ps_tx (drop_hidden_sign p) = ps_tx p"
  by (simp add: drop_hidden_sign_def split: option.split psbt_modal.split)

lemma psbt_update_more:
  assumes "psbt_update E m p = Some (p', task)"
  shows "signed_more (st_psbt (ps_tx p)) (st_psbt (ps_tx p'))"
proof (cases m)
  case (Ps_Updated r)
  show ?thesis
  proof (cases r)
    case (Inr u)
    then have a: "after_update E p = Some (p', task)" using assms Ps_Updated by (simp add: psbt_update_def)
    show ?thesis
    proof (cases "ps_modal p = None")
      case True
      then show ?thesis using a by (auto simp: after_update_def Let_def)
    next
      case False
      then obtain q task' spend where q: "pass_to_modal E (Ps_Updated (Ok ())) (p\<lparr>ps_saved := True\<rparr>) = Some (q, task')"
        "(if st_status (ps_tx q) = Broadcast then Some (ps_tx q)
          else refresh_status (pe_btc E) (pe_ms E) (pe_descriptor E) (pe_blockheight E) (ps_tx q)) = Some spend"
        "ps_tx p' = spend"
        using a False by (auto simp: after_update_def Let_def bind_eq_Some_conv drop_hidden_sign_tx simp del: not_None_eq)
      have "st_psbt spend = st_psbt (ps_tx q)" using q(2) refresh_status_psbt by (auto split: if_splits)
      then show ?thesis using pass_to_modal_more [OF q(1)] q(3) by simp
    qed
  qed (use assms Ps_Updated in \<open>simp add: psbt_update_def pass_to_modal_more\<close>)
next
  case (Ps_Imported psbt)
  then show ?thesis
    using assms refresh_status_psbt merge_signatures_more
    by (fastforce simp: psbt_update_def Let_def split: sum.splits)
next
  case (Ps_Label items lm)
  then show ?thesis using assms by (auto simp: psbt_update_def)
next
  case (Ps_Labels_Updated r)
  then show ?thesis using assms by (cases r) (auto simp: psbt_update_def)
next
  case (Ps_Broadcast_Modal r)
  then show ?thesis using assms by (cases r) (auto simp: psbt_update_def)
qed (use assms in \<open>auto simp: psbt_update_def Let_def pass_to_modal_more split: if_splits option.splits psbt_modal.splits\<close>)

section \<open>From the screen to the database\<close>

text \<open>The PSBT that a device gives back: the same transaction, whose Taproot key signatures are not replaced.\<close>

definition signed_version :: "psbt \<Rightarrow> psbt \<Rightarrow> bool" where
  "signed_version p q \<longleftrightarrow> unsigned_tx q = unsigned_tx p \<and> length (psbt_inputs q) = length (psbt_inputs p) \<and>
     (\<forall>i < length (psbt_inputs p). tap_key_sig (psbt_inputs p ! i) = None \<or> tap_key_sig (psbt_inputs q ! i) = None \<or>
        tap_key_sig (psbt_inputs q ! i) = tap_key_sig (psbt_inputs p ! i))"

lemma length_merge_inputs [simp]: "length (merge_inputs a b) = length a"
  by (induction a b rule: merge_inputs.induct) simp_all

lemma merge_inputs_nth:
  "i < length a \<Longrightarrow> merge_inputs a b ! i = (if i < length b then merge_signatures_input (a ! i) (b ! i) else a ! i)"
  by (induction a b arbitrary: i rule: merge_inputs.induct) (auto simp: nth_Cons split: nat.split)

text \<open>The daemon keeps the first Taproot key signature, the screen shows the last one: the same when neither is replaced.\<close>

lemma merge_same:
  assumes "signed_version p q" "length (psbt_inputs p) = length (tx_input (unsigned_tx p))"
  shows "merge_psbt p q = merge_signatures p q"
proof -
  have "psbt_inputs (merge_psbt p q) = psbt_inputs (merge_signatures p q)"
  proof (rule nth_equalityI)
    fix i assume "i < length (psbt_inputs (merge_psbt p q))"
    then have i: "i < length (psbt_inputs p)" by (simp add: merge_psbt_inputs)
    then have "psbt_inputs (merge_psbt p q) ! i = merge_input (psbt_inputs p ! i) (psbt_inputs q ! i)"
      using assms by (simp add: merge_psbt_inputs same_input_def signed_version_def)
    moreover have "merge_input (psbt_inputs p ! i) (psbt_inputs q ! i) = merge_signatures_input (psbt_inputs p ! i) (psbt_inputs q ! i)"
      using assms(1) i by (auto simp: signed_version_def merge_input_def merge_signatures_input_def split: option.split)
    moreover have "psbt_inputs (merge_signatures p q) ! i = merge_signatures_input (psbt_inputs p ! i) (psbt_inputs q ! i)"
      using assms(1) i by (simp add: merge_signatures_def merge_inputs_nth signed_version_def)
    ultimately show "psbt_inputs (merge_psbt p q) ! i = psbt_inputs (merge_signatures p q) ! i" by simp
  qed (simp add: merge_psbt_inputs merge_signatures_def)
  moreover have "merge_psbt p q = p\<lparr>psbt_inputs := psbt_inputs (merge_psbt p q)\<rparr>" by (simp add: merge_psbt_def)
  moreover have "merge_signatures p q = p\<lparr>psbt_inputs := psbt_inputs (merge_signatures p q)\<rparr>" by (simp add: merge_signatures_def)
  ultimately show ?thesis by metis
qed

lemma signature_saved:
  assumes "db_inv (dm_btc D) (dm_ops D) db" "pe_btc E = dm_btc D" "ps_modal p = Some (Modal_Sign modal)" "sm_is_saved modal"
    "spend_tx (psbt_txid (dm_btc D) (ps_tx p)) db = Some (st_psbt (ps_tx p))"
    "signed_version (st_psbt (ps_tx p)) q" "length (psbt_inputs q) = length (tx_input (unsigned_tx q))"
  shows "\<exists>p' db'. psbt_update E (Ps_Signed fg (Ok q)) p = Some (p', Pt_Update q None) \<and>
    psbt_run E W (embedded_daemon V D) (Pt_Update q None) (Some db) = (Ps_Updated (Ok ()), Some db') \<and>
    spend_tx (psbt_txid (dm_btc D) (ps_tx p)) db' = Some (st_psbt (ps_tx p')) \<and> db_inv (dm_btc D) (dm_ops D) db'"
proof -
  let ?t = "psbt_txid (dm_btc D) (ps_tx p)" and ?m = "merge_signatures (st_psbt (ps_tx p)) q"
  have txid: "compute_txid (dm_btc D) (unsigned_tx q) = ?t" using assms(6) by (simp add: psbt_txid_def signed_version_def)
  have merged: "merge_psbt (st_psbt (ps_tx p)) q = ?m"
    using assms(6,7) by (intro merge_same) (auto simp: signed_version_def)
  define db' where "db' = store_spend (dm_btc D) (dm_now_secs D) ?m db"
  have upd: "update_spend D q db = Ok db'"
    using assms(5) by (simp add: update_spend_def txid db'_def merged Let_def)
  have inv: "db_inv (dm_btc D) (dm_ops D) db'" by (rule update_spend_db_inv [OF assms(1) refl upd])
  have ok: "spends_ok (dm_btc D) (spends_table db)" using assms(1) by (simp add: db_inv_def)
  obtain r where r: "draft_at db ?t = Some r" "rs_psbt r = st_psbt (ps_tx p)"
    using assms(5) by (auto simp: spend_tx_draft)
  have "draft_at db' ?t = Some (r\<lparr>rs_psbt := ?m\<rparr>)"
    using update_spend_Ok(1) [OF upd ok txid [symmetric], of ?t] r merged by simp
  then have "spend_tx ?t db' = Some ?m" by (simp add: spend_tx_draft)
  moreover have "psbt_update E (Ps_Signed fg (Ok q)) p = Some
      (p\<lparr>ps_modal := Some (Modal_Sign (modal\<lparr>sm_signing := sm_signing modal - {fg}, sm_error := None, sm_signed := insert fg (sm_signed modal)\<rparr>)),
         ps_tx := (ps_tx p)\<lparr>st_psbt := ?m\<rparr>\<rparr>, Pt_Update q None)"
    using assms(3,4) by (simp add: psbt_update_def pass_to_modal_def modal_update_def sign_update_def Let_def)
  moreover have "psbt_run E W (embedded_daemon V D) (Pt_Update q None) (Some db) = (Ps_Updated (Ok ()), Some db')"
    by (simp add: psbt_run_def gui_call_def update_draft_def call_bind_def call_return_def embedded_daemon_def
        embedded_update_spend_tx_def run_write_def embedded_command_def upd)
  ultimately show ?thesis using inv by simp
qed

section \<open>Refusals that do not show\<close>

text \<open>A PSBT imported outside a draft: an external daemon that refuses it is not heard.\<close>

lemma rpc_error_cases: "error_over_rpc (unexpected e) = DE_No_Answer \<or> (\<exists>c t. error_over_rpc (unexpected e) = DE_Rpc c t)"
  by (simp add: unexpected_def error_over_rpc_def split: option.split)

lemma same_call_result:
  assumes "same_call f g" "g (Some db) = (r, h)" "r \<noteq> Err DE_Panic"
  shows "f db = (map_err error_over_rpc r, the h)"
proof -
  have "case g (Some db) of (r, h) \<Rightarrow> fst (f db) = map_err error_over_rpc r \<and> (r \<noteq> Err DE_Panic \<longrightarrow> h = Some (snd (f db)))"
    using assms(1) by (simp add: same_call_def)
  then show ?thesis using assms(2,3) by (simp add: prod_eq_iff)
qed

lemma import_refused:
  assumes "update_spend D psbt db = Err e" "e \<noteq> CmdPanic" "parse_psbt (rv_parsers V) (ce_psbt_text C psbt) = Some psbt"
    "partial_spend_info B M (dm_descriptor D) psbt = Ok sigs"
  shows "import_psbt B M (lianad_daemon C (lianad_server V D)) (Some psbt) None db = (Ok psbt, db)"
    "import_psbt B M (embedded_daemon V D) (Some psbt) None (Some db) =
      (Err (case e of UnknownOutpoint _ \<Rightarrow> Import_Not_Owned | _ \<Rightarrow> Import_Daemon (DE_Unexpected (Text_Of_Command e))), Some db)"
proof -
  have info: "td_get_info (embedded_daemon V D) (Some db) = (Ok (get_info V D db), Some db)"
    by (simp add: embedded_daemon_def embedded_get_info_def run_read_def embedded_command_def)
  then have "embedded_get_info V D (Some db) = (Ok (get_info V D db), Some db)" by (simp add: embedded_daemon_def)
  from same_call_result [OF same_get_info this, of C]
  have info': "td_get_info (lianad_daemon C (lianad_server V D)) db = (Ok (get_info V D db), db)"
    by (simp add: lianad_daemon_def)
  have upd: "td_update_spend_tx (embedded_daemon V D) psbt (Some db) = (Err (DE_Unexpected (Text_Of_Command e)), Some db)"
    using assms(1,2) by (simp add: embedded_daemon_def embedded_update_spend_tx_def run_write_def embedded_command_def unexpected_def)
  then have "embedded_update_spend_tx D psbt (Some db) = (Err (unexpected e), Some db)"
    using assms(2) by (simp add: embedded_daemon_def unexpected_def)
  from same_call_result [OF same_update_spend_tx [OF assms(3)] this]
  have upd': "td_update_spend_tx (lianad_daemon C (lianad_server V D)) psbt db = (Err (error_over_rpc (unexpected e)), db)"
    using assms(2) by (simp add: lianad_daemon_def unexpected_def)
  have desc: "gi_main_descriptor (get_info V D db) = dm_descriptor D" by (simp add: get_info_def)
  show "import_psbt B M (lianad_daemon C (lianad_server V D)) (Some psbt) None db = (Ok psbt, db)"
    using rpc_error_cases [of e] by (auto simp: import_psbt_def info' upd' desc assms(4))
  show "import_psbt B M (embedded_daemon V D) (Some psbt) None (Some db) =
      (Err (case e of UnknownOutpoint _ \<Rightarrow> Import_Not_Owned | _ \<Rightarrow> Import_Daemon (DE_Unexpected (Text_Of_Command e))), Some db)"
    by (simp add: import_psbt_def info upd desc assms(4) split: command_error.split)
qed

text \<open>Messages handled one after the other, with the tasks they start.\<close>

fun psbt_updates :: "('ms, 'tr) psbt_env \<Rightarrow> psbt_message list \<Rightarrow> psbt_state \<Rightarrow> (psbt_state \<times> psbt_task list) option" where
  "psbt_updates E [] p = Some (p, [])"
| "psbt_updates E (m # ms) p =
     Option.bind (psbt_update E m p) (\<lambda>(p, task). map_option (\<lambda>(p, tasks). (p, task # tasks)) (psbt_updates E ms p))"

text \<open>The end of a task is taken for the end of the task of the modal that is open.\<close>

lemma update_taken_for_broadcast:
  assumes "draft_labels E (ps_tx p) = Some labels"
  shows "\<exists>p'. psbt_updates E [Ps_Save, Ps_Confirm, Ps_Cancel, Ps_Broadcast, Ps_Broadcast_Modal (Ok []), Ps_Updated (Ok ())] p =
      Some (p', [Pt_None, Pt_Update (st_psbt (ps_tx p)) (Some labels), Pt_None, Pt_Conflicts (map fst (st_coins (ps_tx p))), Pt_None, Pt_None]) \<and>
    st_status (ps_tx p') = Broadcast \<and>
    ps_modal p' = Some (Modal_Broadcast \<lparr>bc_broadcast = True, bc_error = None, bc_conflicting_txids = []\<rparr>)"
  using assms
  by (simp add: psbt_update_def pass_to_modal_def modal_update_def save_update_def broadcast_update_def after_update_def
      drop_hidden_sign_def Let_def)

end
