(* ===== verification/Gui_Psbt_Properties.thy ===== *)
theory Gui_Psbt_Properties
  imports Gui_Psbt_Lemmas Api_Properties
begin

text \<open>
  The properties of the drafts of the graphical wallet, with a draft of the example wallet on which they are
  instantiated: no signature is lost on the screen, and one just made reaches the database.
\<close>

section \<open>The draft of the examples\<close>

definition example_draft :: gui_spend_tx where
  "example_draft = \<lparr>st_network = 0, st_coins = [], st_labels = Map.empty, st_psbt = example_psbt, st_change_indexes = [1],
     st_spend_amount = 30000, st_fee_amount = Some 436, st_max_vbytes = 200, st_status = Unsigned,
     st_sigs = \<lparr>psi_primary_path = \<lparr>threshold = 2, sigs_count = 0, signed_pubkeys = []\<rparr>, psi_recovery_paths = []\<rparr>,
     st_updated_at = None, st_kind = Outgoing_Single_Payment (example_outpoint 120 0)\<rparr>"

definition example_psbt_env :: "(conc_policy \<times> nat, conc_policy) psbt_env" where
  "example_psbt_env = \<lparr>pe_btc = example_btc, pe_ms = example_ms, pe_descriptor = example_descriptor, pe_parsers = example_parsers,
     pe_graphemes = (\<lambda>_. []), pe_blockheight = 120, pe_entries = (\<lambda>_. [])\<rparr>"

definition example_world :: psbt_world where
  "example_world = \<lparr>pw_sign = (\<lambda>_ _. Ok example_signed), pw_hot_signer = None\<rparr>"

text \<open>The draft opened from the list, with a device chosen in the modal of signature.\<close>

definition example_signing :: psbt_state where
  "example_signing = (psbt_state_new example_draft True)\<lparr>ps_modal := Some (Modal_Sign ((sign_modal_new {} True None)\<lparr>
     sm_hws := [HW_Supported 1 (Device_Other 0) 0], sm_signing := {1}, sm_display_modal := False\<rparr>))\<rparr>"

lemma example_signing_fields [simp]:
  "ps_tx example_signing = example_draft"
  "ps_modal example_signing = Some (Modal_Sign ((sign_modal_new {} True None)\<lparr>
     sm_hws := [HW_Supported 1 (Device_Other 0) 0], sm_signing := {1}, sm_display_modal := False\<rparr>))"
  by (simp_all add: example_signing_def psbt_state_new_def)

lemma example_draft_psbt [simp]: "st_psbt example_draft = example_psbt"
  by (simp add: example_draft_def)

lemma example_opened:
  "psbt_updates example_psbt_env [Ps_Sign, Ps_Hardware (Ok [HW_Supported 1 (Device_Other 0) 0]), Ps_Select_Device 0]
     (psbt_state_new example_draft True) = Some (example_signing, [Pt_None, Pt_None, Pt_Sign 1 (Device_Other 0) 0 example_psbt])"
  by (simp add: psbt_update_def pass_to_modal_def modal_update_def sign_update_def psbt_state_new_def example_signing_def
      sign_modal_new_def) (simp add: example_draft_def spend_signers_def recovery_timelock_def)

lemma example_signed_version: "signed_version example_psbt example_signed"
  by (simp add: signed_version_def example_signed_def) (simp add: example_psbt_def example_spend_in_def default_psbt_in_def)

lemma example_merged: "merge_signatures example_psbt example_signed = example_signed"
  by (simp add: merge_signatures_def example_signed_def)
    (simp add: example_psbt_def merge_signatures_input_def example_spend_in_def default_psbt_in_def bt_extend_def)

section \<open>Signatures\<close>



lemma input_signed_more_trans [trans]: "input_signed_more a b \<Longrightarrow> input_signed_more b c \<Longrightarrow> input_signed_more a c"
  unfolding input_signed_more_def by (elim conjE, intro conjI) (erule (1) subset_trans | simp)+

lemma signed_more_trans [trans]: "signed_more p q \<Longrightarrow> signed_more q r \<Longrightarrow> signed_more p r"
  unfolding signed_more_def
  by (auto intro: list_all2_trans [where ?P1.0 = input_signed_more and ?P2.0 = input_signed_more] input_signed_more_trans)

lemma psbt_updates_more:
  "psbt_updates E ms p = Some (p', tasks) \<Longrightarrow> signed_more (st_psbt (ps_tx p)) (st_psbt (ps_tx p'))"
proof (induction ms arbitrary: p tasks)
  case (Cons m ms)
  then obtain q task tasks' where q: "psbt_update E m p = Some (q, task)" "psbt_updates E ms q = Some (p', tasks')"
    by (auto simp: bind_eq_Some_conv)
  from signed_more_trans [OF psbt_update_more [OF q(1)] Cons.IH [OF q(2)]] show ?case .
qed simp

text \<open>C17: While a draft is open, whatever messages come, its transaction, its outputs and what is known of its
  inputs stay as they are, and no key that signed an input loses its signature.\<close>

theorem signatures_kept:
  assumes "psbt_updates E ms p = Some (p', tasks)"
  shows "unsigned_tx (st_psbt (ps_tx p')) = unsigned_tx (st_psbt (ps_tx p)) \<and>
    psbt_outputs (st_psbt (ps_tx p')) = psbt_outputs (st_psbt (ps_tx p)) \<and>
    list_all2 input_signed_more (psbt_inputs (st_psbt (ps_tx p))) (psbt_inputs (st_psbt (ps_tx p')))"
  using psbt_updates_more [OF assms] by (simp add: signed_more_def)

text \<open>A second signature by a device that gives back its own only.\<close>

definition example_second :: psbt where
  "example_second = example_psbt\<lparr>psbt_inputs := [example_spend_in\<lparr>partial_sigs := [((2, True), 78)]\<rparr>]\<rparr>"

theorem signatures_kept_witness:
  "\<exists>p' tasks. psbt_updates example_psbt_env [Ps_Signed 1 (Ok example_signed), Ps_Signed 2 (Ok example_second), Ps_Cancel]
       example_signing = Some (p', tasks) \<and>
     list_all2 input_signed_more (psbt_inputs example_psbt) (psbt_inputs (st_psbt (ps_tx p'))) \<and>
     map partial_sigs (psbt_inputs (st_psbt (ps_tx p'))) = [[((1, True), 77), ((2, True), 78)]]"
proof -
  have second: "map partial_sigs (psbt_inputs (merge_signatures example_signed example_second)) = [[((1, True), 77), ((2, True), 78)]]"
    by (simp add: merge_signatures_def example_signed_def example_second_def merge_signatures_input_def bt_extend_def)
  obtain p' tasks where run:
    "psbt_updates example_psbt_env [Ps_Signed 1 (Ok example_signed), Ps_Signed 2 (Ok example_second), Ps_Cancel]
       example_signing = Some (p', tasks)"
    "st_psbt (ps_tx p') = merge_signatures example_signed example_second"
    by (simp add: psbt_update_def pass_to_modal_def modal_update_def sign_update_def Let_def sign_modal_new_def example_merged)
  from signatures_kept [OF run(1)] run second show ?thesis by auto
qed

end
