(* ===== verification/Spec2Isabelle.thy ===== *)
theory Spec2Isabelle
  imports Policy_Properties Spending_Properties Database_Properties Chain_Properties Command_Properties Api_Properties
    Migration_Lemmas Bitcoind_Properties Client_Properties Following_Properties Gui_Properties Gui_Psbt_Properties
begin

text \<open>
  The wallet core of Liana: a Bitcoin wallet whose coins can be spent by a primary path at any
  time and by recovery paths after a relative timelock. Everything is modelled from the Rust
  sources under \<open>src/liana/src\<close> (policies, descriptors, creation of transactions),
  \<open>src/lianad/src\<close> (database, chain backends, poller, commands of the daemon),
  \<open>src/liana-connect/src/ws_business\<close> (the protocol of the hosted service for businesses),
  \<open>src/liana-business/business-installer/src\<close> (the client that sets a wallet up with that service) and
  \<open>src/liana-gui/src\<close> (the graphical wallet).

  How the parts interact. The daemon (\<open>lianad\<close>) keeps its state in an SQLite database. A polling
  thread asks a backend, a Bitcoin node or an Electrum server, about the chain and the coins of the wallet's
  descriptor and writes the answers to the database. The commands read the database, derive
  addresses from the descriptor, create transactions with the \<open>liana\<close> library and store
  drafts, to which signatures are merged later. The graphical wallet runs the daemon inside itself or talks to one
  over its socket; it keeps nothing of its own but what its panels show, which messages update. A business sets its wallet up before, together: the users
  of an organisation edit the template of a policy, enter their keys and register their devices,
  each in a client that talks to a server over a web-socket. The server owns the wallet; a
  client caches what the server sends, sends edits, and shows them when the server has echoed them.

  Theories and sources.
  \<^item> \<open>Prelude\<close>: the results (a sum, \<open>Ok\<close> and \<open>Err\<close>), checked machine arithmetic, iterators; the
    collections \<open>result_simps\<close> and \<open>inv_intros\<close>. \<open>Ordered_Map\<close>: \<open>BTreeMap\<close> as a sorted association
    list, with the locales \<open>dict\<close> and \<open>ordered_dict\<close> interpreted on it.
  \<^item> \<open>Bitcoin_Types\<close>: the types of the \<open>bitcoin\<close> and \<open>miniscript\<close> crates that the code takes apart, and
    the records \<open>btc\<close> and \<open>miniscript\<close> of the crate functions it calls, which are parameters.
  \<^item> \<open>Policy\<close>, \<open>Liana_Policy\<close> (\<open>descriptors/analysis.rs\<close>): the paths of a policy, what is counted of
    signatures, the checks of a policy, its compilation, and its inference from a descriptor. The lemmas
    characterise acceptance, show that inference never panics and that it inverts the normal form.
  \<^item> \<open>Descriptors\<close> (\<open>descriptors/mod.rs\<close>): spend information, pruning, change outputs, sizes.
  \<^item> \<open>Spend\<close> (\<open>spend.rs\<close>): status of drafts, coin selection, checks and creation of a transaction,
    locktime. The selector of \<open>bdk_coin_select\<close> is the record \<open>coin_select\<close>, a parameter.
  \<^item> \<open>Database\<close> (\<open>database/mod.rs\<close>, \<open>database/sqlite\<close>): the tables as lists of rows and each query.
    \<open>Coin_Store\<close> has the coins table seen as a map, a locale with what each write does to a
    row, and its interpretation on the queries. \<open>Database_Invariants\<close>: the invariant \<open>db_inv\<close> and its
    preservation by every write. \<open>Database_Queries\<close>: what the queries return. \<open>From_Self\<close>: the pass that
    marks the coins created by the wallet, as a least fixed point.
  \<^item> \<open>Backend\<close> (\<open>bitcoin/mod.rs\<close>, \<open>bitcoin/d/utils.rs\<close>): the answers of the two backends from those of
    the node or of the wallet's coins; the search of the common ancestor and of the block of a date.
  \<^item> \<open>Bitcoind_Rpc\<close>, \<open>Bitcoind_Node\<close> (\<open>bitcoin/d/mod.rs\<close>): requests to a node with their retries, what is read of
    the JSON answers, the watch-only wallet, rescans. \<open>Bitcoind_Backend\<close> (\<open>bitcoin/mod.rs\<close>): the backend with the requests it
    makes and its cache. \<open>Bitcoind_Lemmas\<close>: that it computes what \<open>Backend\<close> does from a node that does not change.
    \<open>Bitcoind_Requests\<close>: the log of requests, with the locale \<open>log_order\<close> interpreted on its order and on its imports.
  \<^item> \<open>Poller\<close>, \<open>Poller_Lemmas\<close> (\<open>bitcoin/poller\<close>): one update, rescans, the polling thread as a step
    function with its reachable states.
  \<^item> \<open>Commands\<close>, \<open>Address_Commands\<close>, \<open>Spend_Commands\<close>, \<open>Update_Commands\<close> (\<open>commands/mod.rs\<close>): the commands,
    a function each of the daemon's environment (a record: clock, backend answers, configuration) and
    the database, and when each succeeds.
  \<^item> \<open>Rpc\<close>, \<open>Api\<close>, \<open>Rpc_Server\<close> (\<open>jsonrpc/rpc.rs\<close>, \<open>jsonrpc/api.rs\<close>, \<open>jsonrpc/server/unix.rs\<close>, labels of
    \<open>database/mod.rs\<close>): requests and their errors, a function for each handler and the dispatch, and how a connection
    cuts requests from its bytes and answers them. \<open>Api_Lemmas\<close>: what a request may do to the database. \<open>Daemon\<close>: the
    states that polls and requests reach together, an inductive relation.
  \<^item> \<open>Migrations\<close>, \<open>Migration_Lemmas\<close> (\<open>database/sqlite/utils.rs\<close>, \<open>setup_sqlite\<close> of \<open>lib.rs\<close>): a database file with
    the columns it has, the eight migrations, their loop, the opening at startup; which files each
    version leaves, and that upgrading any of them succeeds and loses nothing.
  \<^item> \<open>Business_Text\<close>, \<open>Business_Models\<close> (\<open>ws_business/models.rs\<close>): the text functions of the standard library
    that the business client calls; wallets, templates, keys, users, with the validity of a template and the status
    that a user sees. \<open>Json\<close>, \<open>Ws_Protocol\<close> (\<open>ws_business/protocol.rs\<close>): the messages and their JSON; what serde
    derives for a whole type is the record \<open>codec\<close>, a parameter.
  \<^item> \<open>Ws_Client\<close> (\<open>client.rs\<close>, \<open>backend.rs\<close>): the caches, the handling of every message, the steps of the thread
    of the connection. \<open>Ws_Client_Lemmas\<close>: the invariant of the caches and the locale \<open>backend\<close>, the interface of
    the views, interpreted on the client. \<open>Ws_Retries\<close>: rounds in which the server does not answer.
  \<^item> \<open>Installer_State\<close> (\<open>state/app.rs\<close>, \<open>state/mod.rs\<close>, \<open>state/views\<close>): the state of the views. \<open>Template_Editing\<close>,
    \<open>Wallet_Updates\<close>, \<open>Device_Handlers\<close>, \<open>Installer_Update\<close> (\<open>state/update.rs\<close>, \<open>state/message.rs\<close>): a function for
    each handler and the dispatch of every message. \<open>Editing_Lemmas\<close>, \<open>Editing_Effects\<close>: each message either sends
    edits that the role of the user allows or loads a template the server sent. \<open>Installer_Session\<close>: the
    states that messages and the thread of the connection reach together, an inductive relation with its invariant.
  \<^item> \<open>Gui_Daemon\<close> (\<open>daemon/mod.rs\<close>, \<open>daemon/embedded.rs\<close> of \<open>liana-gui\<close>): the interface of the daemon as a record of
    operations, and the daemon inside the wallet. \<open>Gui_Client\<close> (\<open>daemon/client\<close>): the client of an external daemon;
    \<open>Gui_Client_Lemmas\<close> shows that with the server of lianad it is the same daemon. \<open>Gui_Transactions\<close>
    (\<open>daemon/model.rs\<close>), \<open>Gui_History\<close> (\<open>daemon/mod.rs\<close>): drafts, history, payments. \<open>Gui_History_Lemmas\<close> has the locale
    \<open>history_source\<close>, in which pages are found whatever the number of transactions of a block, and
    \<open>Gui_History_Source\<close> interprets it on the embedded daemon.
  \<^item> \<open>Gui_Panels\<close>, \<open>Gui_Home\<close> (\<open>app/state\<close>): the panels of the transactions, home and coins, as an update for each
    message and the tasks it starts. \<open>Gui_Panels_Lemmas\<close>: pages asked for one after the other, payments, balances.
  \<^item> \<open>Gui_Psbt\<close> (\<open>app/state/psbt.rs\<close>, \<open>app/state/psbts.rs\<close>, \<open>import_psbt\<close> of \<open>export.rs\<close>): a draft on the screen with
    its modals and their tasks, the merge of signatures, the list of drafts. \<open>Gui_Psbt_Lemmas\<close>: the merge on the screen
    against the merge of the daemon, what an import refused shows, messages that come for another modal.
  \<^item> \<open>Examples\<close>, \<open>Example_Runs\<close>, \<open>Business_Examples\<close>: a concrete wallet, database and daemon, and runs of the
    commands on them, for the witnesses of the properties.
  \<^item> \<open>Policy_Properties\<close>, \<open>Spending_Properties\<close>, \<open>Database_Properties\<close>, \<open>Chain_Properties\<close>,
    \<open>Command_Properties\<close>, \<open>Api_Properties\<close>, \<open>Bitcoind_Properties\<close>, \<open>Client_Properties\<close>, \<open>Editing_Properties\<close>, \<open>Following_Properties\<close>,
    \<open>Gui_Properties\<close>, \<open>Gui_Psbt_Properties\<close> and this theory: the properties.

  Conventions. A panic of the code is an error of its own (\<open>PolicyPanic\<close>, \<open>DescPanic\<close>, \<open>SpendPanic\<close>,
  \<open>CmdPanic\<close>, \<open>Poll_Panic\<close>) or \<open>None\<close>. Unsigned integers are naturals with the checked, saturating or
  wrapping arithmetic of the code written out (\<open>checked_add64\<close>, \<open>wrap64\<close>); heights are integers. Hashes,
  scripts, addresses, keys and signatures are opaque numbers. A database transaction that fails is
  \<open>None\<close>. Floating point: the feerates that coin selection takes are whole in the code, and so are they here.

  Loops. The fallback of the coin selection, the loop of a cancellation and the walk to the common
  ancestor are partial functions to an option, \<open>None\<close> being a loop that does not end; they are shown to end,
  the first when each candidate added leaves fewer, the second always, the third
  when heights decrease to the parent. The pass over the coins from the wallet has the
  iteration bound of the code, shown never to be exceeded. The loops that read a command, count the stored
  transactions in batches and migrate a file are total functions, their termination proved from what each
  round consumes. An update of the
  poller that starts over consumes the next of the answers of the backend, a list, so
  that its result depends on what the backend will answer, as in the code.

  The node. \<open>bitcoind\<close> is a state that each request and each pause may change, the record \<open>rpc_server\<close>; hashes,
  transactions, addresses and descriptors are read from their texts by the record \<open>texts\<close>. A panic of a request is
  \<open>Rpc_Panic\<close>. The loops that wait for the node are partial functions; the check of the connection is shown to end
  once the node has started, and the retries of a request are bounded by their number.

  The graphical wallet. A message is handled in one step; the task it starts runs against the daemon, in any
  order with other messages, and its result is a message. \<open>None\<close> is a panic, or a task that does not end.

  The business client. A channel is the list of what was sent on it, a lock is not modelled (each handler takes
  them for one access), and the calls to the operating system, the devices and the authentication service are
  logged in the order they are made. Instants are nanoseconds. Identifiers that the code draws at random are arguments.

  Not modelled. Of the graphical wallet, the installer, the launcher, the settings, the panels that receive and that create a spend, the exports
  other than the import of a PSBT, the discovery of devices, the remote backend and the drawing; the rendering of the business client, its authentication
  by HTTP and the cache file of its tokens, and the localisation have no model: they are interfaces around this core. \<open>signer.rs\<close>, \<open>random.rs\<close> and the
  \<open>bip39\<close> words call cryptographic libraries. The Electrum client and its wallet
  are answers given as parameters. Of the interface to \<open>bitcoind\<close>, the HTTP transport, the text of errors and the
  rounding of the progress of a synchronisation, in floating point, are left out; amounts in bitcoins are read by a parameter. The accept loop of the JSON-RPC server, the configuration file and the threads of
  the daemon are input and output. A request and a poll are a step each: the code takes no lock for longer than one call of
  the database, so an interleaving of a poll with the middle of a command is not covered.
\<close>

section \<open>Properties that span the components\<close>

text \<open>What the database may not lose when a command only reveals addresses.\<close>

definition reveals :: "('ms, 'tr) database \<Rightarrow> ('ms, 'tr) database \<Rightarrow> bool" where
  "reveals db db' \<longleftrightarrow> receive_index db \<le> receive_index db' \<and> change_index db \<le> change_index db' \<and>
     coins_table db' = coins_table db \<and> transactions_table db' = transactions_table db \<and>
     spends_table db' = spends_table db \<and> labels_table db' = labels_table db \<and> chain_tip db' = chain_tip db"

lemma only_index_reveals:
  assumes "only_index db db'"
  shows "reveals db db'"
  using only_index_fields [OF assms] by (simp add: reveals_def index_grows_def)

lemma soa_addr_spend_addr [simp]: "soa_addr (spend_addr db a) = a"
  by (simp add: spend_addr_def)

lemma pays_spend_addr:
  "map (pays B) (map (\<lambda>(a, v). (spend_addr db a, v)) dests) = map (\<lambda>(a, v). \<lparr>txo_value = v, txo_script = addr_script B a\<rparr>) dests"
  by (auto simp: pays_def)

text \<open>C1: A spend that the daemon creates takes only coins of the wallet that nothing spends: when none was asked for, confirmed
  coins and unconfirmed ones from the wallet itself; otherwise coins that were asked for and are not immature. It pays
  the destinations in order and then at most one change output, and passed the checks on its fee. The
  database keeps its invariant and only reveals addresses.\<close>

theorem create_spend_command:
  assumes "cmd_create_spend E destinations coins_outpoints feerate_vb change_address db = Ok (Spend_Success psbt ws, db')"
    "db_inv (dm_btc E) (dm_ops E) db"
  shows "db_inv (dm_btc E) (dm_ops E) db' \<and> reveals db db' \<and>
    (\<exists>coins. db_coins [] [] db = Some coins \<and> (\<forall>txin \<in> set (tx_input (unsigned_tx psbt)).
       \<exists>c \<in> set coins. previous_output txin = coin_outpoint c \<and> usable coins_outpoints c)) \<and>
    (\<exists>change. tx_output (unsigned_tx psbt) =
       map (\<lambda>(a, v). \<lparr>txo_value = v, txo_script = addr_script (dm_btc E) a\<rparr>) destinations @ change \<and> length change \<le> 1) \<and>
    sanity_check_psbt (dm_btc E) (dm_ms E) (dm_ops E) (dm_descriptor E) psbt True = Ok ()"
proof -
  obtain dests cands change_addr locktime res g where r:
    "dests = map (\<lambda>(a, v). (spend_addr db a, v)) destinations"
    "spend_candidates E coins_outpoints db = Ok cands"
    "create_spend (dm_btc E) (dm_ms E) (dm_ops E) (dm_cs E) (dm_descriptor E) (db_get_tx db) []
       dests cands (Fees_Regular feerate_vb) change_addr locktime = Ok (res, g)"
    "psbt = res_psbt res" "after_spend E dests change_addr res db = Ok (Spend_Success psbt ws, db')"
    by (rule cmd_create_spend_Success [OF assms(1)], rule that) assumption+
  have coins: "coins_inv db" using assms(2) by blast
  obtain all where all: "db_coins [] [] db = Some all" using db_coins_Some [OF coins] by blast
  have cand: "\<exists>c \<in> set all. cc_outpoint cand = coin_outpoint c \<and> usable coins_outpoints c \<and> cc_sequence cand = None"
    if "cand \<in> set cands" for cand
    using spend_candidates_Ok [OF coins r(2) that] all by auto
  have inputs: "\<exists>c \<in> set all. previous_output txin = coin_outpoint c \<and> usable coins_outpoints c"
    if "txin \<in> set (tx_input (unsigned_tx psbt))" for txin
    using create_spend_inputs [OF r(3)] that cand r(4) by (fastforce simp: spends_def)
  have primary: "use_primary_path (dm_btc E) cands"
    using cand by (fastforce simp: use_primary_path_def list_ex_iff)
  obtain sel :: coin_selection_res where sel: "tx_output (unsigned_tx (res_psbt res)) =
      map (pays (dm_btc E)) (dests @ change_payment change_addr (csr_change_amount sel))"
    "sanity_check_psbt (dm_btc E) (dm_ms E) (dm_ops E) (dm_descriptor E) (res_psbt res) (use_primary_path (dm_btc E) cands) = Ok ()"
    by (rule create_spend_Ok [OF r(3)], rule that) assumption+
  have "tx_output (unsigned_tx psbt) = map (\<lambda>(a, v). \<lparr>txo_value = v, txo_script = addr_script (dm_btc E) a\<rparr>) destinations @
      map (pays (dm_btc E)) (change_payment change_addr (csr_change_amount sel))"
    using sel(1) r(1,4) pays_spend_addr by simp
  moreover have "length (map (pays (dm_btc E)) (change_payment change_addr (csr_change_amount sel))) \<le> 1"
    by (simp add: change_payment_def)
  ultimately show ?thesis
    using after_spend_Ok(2,3) [OF r(5)] only_index_reveals assms(2) all inputs sel(2) r(4) primary by auto
qed

theorem create_spend_command_witness:
  "reveals example_db (example_db\<lparr>wallet_table := (wallet_table example_db)\<lparr>w_change_index := 3\<rparr>\<rparr>) \<and>
   (\<exists>coins c. db_coins [] [] example_db = Some coins \<and> c \<in> set coins \<and>
      coin_outpoint c = example_outpoint 11 0 \<and> usable [] c)"
proof -
  have "\<lparr>previous_output = example_outpoint 11 0, sequence = 4294967293, witness = []\<rparr> \<in> set (tx_input (unsigned_tx example_psbt))"
    by (simp add: example_psbt_def)
  then show ?thesis using create_spend_command [OF example_spend] example_db_inv by fastforce
qed


lemma example_draft: "draft_at example_drafts 120 = Some \<lparr>rs_psbt = example_psbt, rs_txid = 120, rs_updated_at = Some 80000\<rparr>"
  by (simp add: draft_at_def example_drafts_def store_spend_def) (simp add: example_psbt_def)

lemma example_drafts_inv: "db_inv example_btc example_ops example_drafts"
  using store_spend_db_inv [OF example_db_inv] by (simp add: example_drafts_def)




text \<open>The search of a replacement always returns: the loop that retries with more coins to cancel a transaction
  runs at most twice.\<close>

theorem replacement_returns:
  assumes "\<And>t. is_explicitly_rbf (dm_btc E) t \<Longrightarrow> tx_input t \<noteq> []"
  shows "\<exists>r. rbf_psbt E txid is_cancel feerate_vb db = Some r"
  using rbf_psbt_returns [OF assms] by auto

theorem replacement_returns_witness: "\<exists>r. rbf_psbt example_daemon 14 True None example_db = Some r"
  by (rule replacement_returns) auto

text \<open>C3: A recovery sweeps, to a single output at the address given, only coins confirmed for as many blocks as the timelock
  in the next block, each with the sequence of that timelock, which is the one given or the
  first of the wallet; coins asked for were known and unspent. The database keeps its invariant and only reveals addresses.\<close>

theorem recovery_sound:
  assumes "create_recovery E a coins_outpoints feerate_vb timelock db = Ok (r, db')" "db_inv (dm_btc E) (dm_ops E) db"
  shows "\<exists>t coins v. (case timelock of Some t' \<Rightarrow> t = t' | None \<Rightarrow> first_timelock_value (dm_ms E) (dm_descriptor E) = Some t) \<and>
    db_coins (if coins_outpoints = [] then [St_Confirmed] else []) coins_outpoints db = Some coins \<and>
    (\<forall>txin \<in> set (tx_input (unsigned_tx (rr_psbt r))). \<exists>c \<in> set coins. previous_output txin = coin_outpoint c \<and>
       matured_at (ct_height (dm_chain_tip E)) t c \<and> sequence txin = seq_from_height (dm_btc E) t) \<and>
    (\<forall>op \<in> set coins_outpoints. \<exists>c \<in> set coins. coin_outpoint c = op \<and> \<not> is_spent c) \<and>
    tx_output (unsigned_tx (rr_psbt r)) = [\<lparr>txo_value = v, txo_script = addr_script (dm_btc E) a\<rparr>] \<and>
    db_inv (dm_btc E) (dm_ops E) db' \<and> reveals db db'"
proof -
  obtain t coins cands locktime res g where c:
    "case timelock of Some t' \<Rightarrow> t = t' | None \<Rightarrow> first_timelock_value (dm_ms E) (dm_descriptor E) = Some t"
    "if coins_outpoints = [] then db_coins [St_Confirmed] [] db = Some coins
     else db_coins [] coins_outpoints db = Some coins \<and> check_provided coins False coins_outpoints = Ok ()"
    "sweepable (seq_from_height (dm_btc E)) (ct_height (dm_chain_tip E)) t (coins_outpoints \<noteq> []) coins = Ok cands"
    "create_spend (dm_btc E) (dm_ms E) (dm_ops E) (dm_cs E) (dm_descriptor E)
       (db_get_tx db) [] [] cands (Fees_Regular feerate_vb) (spend_addr db a) locktime = Ok (res, g)"
    "rr_psbt r = res_psbt res"
    "if res_has_change res then maybe_increase_last_deriv_index E (soa_info (spend_addr db a)) db = Some db' else db' = db"
    by (rule create_recovery_Ok [OF assms(1)], rule that) assumption+
  have db: "db_inv (dm_btc E) (dm_ops E) db'" "reveals db db'"
    using c(6) assms(2) by (auto split: if_splits intro: only_index_reveals maybe_increase_only(1,2))
  have inputs: "\<exists>c \<in> set coins. previous_output txin = coin_outpoint c \<and> matured_at (ct_height (dm_chain_tip E)) t c \<and>
      sequence txin = seq_from_height (dm_btc E) t" if txin: "txin \<in> set (tx_input (unsigned_tx (rr_psbt r)))" for txin
    using create_spend_inputs [OF c(4)] txin c(3,5) by (fastforce simp: spends_def sweepable_Ok)
  have asked: "\<forall>op \<in> set coins_outpoints. \<exists>c \<in> set coins. coin_outpoint c = op \<and> \<not> is_spent c"
    using c(2) by (fastforce simp: check_provided_Ok spendable_now_def dest: coin_at_outpoint_Some split: if_splits)
  obtain sel :: coin_selection_res where sel:
    "tx_output (unsigned_tx (res_psbt res)) = map (pays (dm_btc E)) ([] @ change_payment (spend_addr db a) (csr_change_amount sel))"
    "sanity_check_psbt (dm_btc E) (dm_ms E) (dm_ops E) (dm_descriptor E) (res_psbt res) (use_primary_path (dm_btc E) cands) = Ok ()"
    by (rule create_spend_Ok [OF c(4)], rule that) assumption+
  then have "tx_output (unsigned_tx (rr_psbt r)) = [\<lparr>txo_value = csr_change_amount sel, txo_script = addr_script (dm_btc E) a\<rparr>]"
    unfolding sanity_check_psbt_Ok c(5) by (auto simp: change_payment_def pays_def split: if_splits)
  then show ?thesis
    using c(1,2) db inputs asked
    by (intro exI [of _ t] exI [of _ coins] exI [of _ "csr_change_amount sel"]) (auto split: if_splits)
qed

theorem recovery_sound_witness:
  "\<exists>t coins c. first_timelock_value example_ms example_descriptor = Some t \<and> db_coins [St_Confirmed] [] example_db = Some coins \<and>
    c \<in> set coins \<and> coin_outpoint c = example_outpoint 11 0 \<and> matured_at 120 t c \<and> t = 10"
proof -
  have "\<lparr>previous_output = example_outpoint 11 0, sequence = 10, witness = []\<rparr> \<in> set (tx_input (unsigned_tx example_recovery_psbt))"
    by (simp add: example_recovery_psbt_def)
  then show ?thesis using recovery_sound [OF example_recovered] example_db_inv by fastforce
qed

text \<open>C10: The daemon opens the database file that any earlier version left: with a node that knows the transactions of the coins, when the
  version stored none, the upgrade succeeds and loses nothing (coins, drafts, labels, transactions, indexes, tip),
  and the invariant holds in it and in every state that polls and requests then reach.\<close>

theorem startup_upgrades:
  assumes "file_sound B D f" "db_network (df_data f) = network" "wallet_descriptor (df_data f) = desc"
    "db_version f < 5 \<longrightarrow> (\<exists>get_transaction. bitcoind = Some get_transaction \<and> node_knows B get_transaction (df_data f))"
  shows "\<exists>f'. setup_sqlite B D network desc now False bitcoind (Some f) = (Ok (), Some f') \<and> db_version f' = DB_VERSION \<and>
    keeps (db_version f) (df_data f) (df_data f') \<and>
    (\<forall>Es s0 s. ps_db s0 = df_data f' \<and> (\<forall>E \<in> Es. dm_btc E = B \<and> dm_ops E = D) \<and> daemon_reaches B D Es s0 s \<longrightarrow> db_inv B D (ps_db s))"
proof -
  obtain f' where f': "setup_sqlite B D network desc now False bitcoind (Some f) = (Ok (), Some f')" "db_inv B D (df_data f')"
    "db_version f' = 8" "keeps (db_version f) (df_data f) (df_data f')"
    using setup_sqlite_upgrades [OF assms] by blast
  then show ?thesis using daemon_reaches_inv by (fastforce simp: DB_VERSION_def)
qed

text \<open>The example wallet as version 4 had it, without its transactions.\<close>

definition example_old_file :: "(conc_policy \<times> nat, conc_policy) db_file" where
  "example_old_file = \<lparr>df_columns = [''labels'', ''coins.is_immature'', ''spend_transactions.updated_at''],
     df_data = example_db\<lparr>db_version_row := 4, transactions_table := []\<rparr>\<rparr>"

definition example_node_tx :: "txid \<Rightarrow> tx option" where
  "example_node_tx txid = map_option rt_tx (find (\<lambda>r. rt_txid r = txid) (transactions_table example_db))"

lemma example_old_sound: "file_sound example_btc example_ops example_old_file"
proof -
  note inv = example_db_inv [unfolded db_inv_def coins_inv_def coins_ok_def]
  have "addresses_inv example_ops (df_data example_old_file)"
    using inv by (simp add: example_old_file_def addresses_inv_def)
  moreover have "set (df_columns example_old_file) = columns_of 4"
    by (simp add: example_old_file_def columns_of_def column_versions_def)
  moreover have "db_version example_old_file = 4" by (simp add: example_old_file_def db_version_def)
  ultimately show ?thesis
    using inv by (simp add: file_sound_def Let_def old_coin_ok_def) (simp add: example_old_file_def)
qed

lemma example_node_knows: "node_knows example_btc example_node_tx (df_data example_old_file)"
  unfolding example_node_tx_def
  by (rule stored_txs_known [OF example_db_inv]) (simp add: list_all_txids_def example_old_file_def)

theorem startup_upgrades_witness:
  "\<exists>f'. setup_sqlite example_btc example_ops (db_network example_db) example_descriptor 90000 False (Some example_node_tx) (Some example_old_file) =
      (Ok (), Some f') \<and> db_version f' = 8 \<and> labels_table (df_data f') = labels_table example_db \<and>
     length (coins_table (df_data f')) = length (coins_table example_db)"
proof -
  have "db_network (df_data example_old_file) = db_network example_db" "wallet_descriptor (df_data example_old_file) = example_descriptor"
    "db_version example_old_file < 5 \<longrightarrow> (\<exists>get. Some example_node_tx = Some get \<and> node_knows example_btc get (df_data example_old_file))"
    using example_node_knows by (simp_all add: example_old_file_def example_db_def)
  from startup_upgrades [OF example_old_sound this, of 90000]
  obtain f' where f': "setup_sqlite example_btc example_ops (db_network example_db) example_descriptor 90000 False (Some example_node_tx) (Some example_old_file) =
      (Ok (), Some f')" "db_version f' = 8" "keeps 4 (df_data example_old_file) (df_data f')"
    by (auto simp: DB_VERSION_def db_version_def example_old_file_def)
  then have "map coin_core (coins_table (df_data f')) = map coin_core (coins_table example_db)" "labels_table (df_data f') = labels_table example_db"
    by (simp_all add: keeps_def example_old_file_def)
  then show ?thesis using f'(1,2) map_eq_imp_length_eq by blast
qed

end
